(* ===== verification/Prelude.thy ===== *)
theory Prelude
  imports Main "HOL-Library.AList" "HOL-Library.List_Lexorder" "HOL-Library.Char_ord"
begin

text \<open>
  Shared vocabulary of the development: Go's strings, maps, integers, times and errors, as the
  operator uses them, and the lemma collections the component theories share.

  \<^item> A Go \<open>map[string]string\<close> is an association list read through \<open>map_of\<close>; an update replaces
    the key's entry. Where the code tells a nil map from an empty one the field is an option.
  \<^item> A pointer is an option; a slice is a list.
  \<^item> A Go string is a list of bytes (\<open>char\<close>). The case and quoting functions are exact on ASCII.
  \<^item> A time and a duration are integers, in nanoseconds.
  \<^item> An error is a value of \<open>go_error\<close>; \<open>fmt.Errorf("s: %w", err)\<close> is \<open>Wrapped s err\<close>.
\<close>

named_theorems go_simps "equations of the Go string and map operations"
named_theorems builders "definitions of the resource builders"
named_theorems handler_defs "definitions of the reconcile handlers"

section \<open>Maps\<close>

type_synonym strmap = "(string \<times> string) list"

definition mget :: "(string \<times> 'v) list \<Rightarrow> string \<Rightarrow> 'v option" where
  "mget m k = map_of m k"

definition mset1 :: "string \<Rightarrow> 'v \<Rightarrow> (string \<times> 'v) list \<Rightarrow> (string \<times> 'v) list" where
  "mset1 k v m = AList.update k v m"

definition mdelete :: "string \<Rightarrow> (string \<times> 'v) list \<Rightarrow> (string \<times> 'v) list" where
  "mdelete k m = AList.delete k m"

text \<open>\<open>for k, v := range src { dst[k] = v }\<close>\<close>

definition mputall :: "(string \<times> 'v) list \<Rightarrow> (string \<times> 'v) list \<Rightarrow> (string \<times> 'v) list" where
  "mputall src dst = fold (\<lambda>(k, v) m. mset1 k v m) src dst"

text \<open>Reading \<open>m[k]\<close> of a string map gives the empty string when the key is absent.\<close>

definition mget0 :: "strmap \<Rightarrow> string \<Rightarrow> string" where
  "mget0 m k = (case mget m k of None \<Rightarrow> '''' | Some v \<Rightarrow> v)"

definition nilmap :: "'a list option \<Rightarrow> 'a list" where
  "nilmap m = (case m of None \<Rightarrow> [] | Some l \<Rightarrow> l)"

lemma nilmap_simps [simp]: "nilmap None = []" "nilmap (Some l) = l"
  by (simp_all add: nilmap_def)

lemma map_of_mset1 [simp, go_simps]: "map_of (mset1 k v m) = (map_of m)(k \<mapsto> v)"
  by (simp add: mset1_def update_conv')

lemma map_of_mdelete [simp, go_simps]: "map_of (mdelete k m) = (map_of m)(k := None)"
  by (simp add: mdelete_def delete_conv')

lemma distinct_mset1 [simp]: "distinct (map fst m) \<Longrightarrow> distinct (map fst (mset1 k v m))"
  by (simp add: mset1_def distinct_update)

lemma mputall_simps [simp]:
  "mputall [] dst = dst"
  "mputall ((k, v) # src) dst = mputall src (mset1 k v dst)"
  by (simp_all add: mputall_def)

lemma map_of_mputall: "map_of (mputall src dst) = map_of dst ++ map_of (rev src)"
proof (induction src arbitrary: dst)
  case Nil
  then show ?case by simp
next
  case (Cons kv src)
  then show ?case by (cases kv) (auto simp: map_add_def fun_eq_iff split: option.splits)
qed

lemma map_of_rev_distinct: "distinct (map fst m) \<Longrightarrow> map_of (rev m) = map_of m"
proof (induction m)
  case Nil
  then show ?case by simp
next
  case (Cons kv m)
  then have "fst kv \<notin> dom (map_of m)" by (simp add: dom_map_of_conv_image_fst)
  with Cons show ?case by (cases kv) (auto simp: map_add_upd_left)
qed

lemma mputall_distinct:
  "distinct (map fst src) \<Longrightarrow> map_of (mputall src dst) = map_of dst ++ map_of src"
  by (simp add: map_of_mputall map_of_rev_distinct)

lemma distinct_mputall: "distinct (map fst dst) \<Longrightarrow> distinct (map fst (mputall src dst))"
  by (induction src arbitrary: dst) auto

lemma mget0_simps [simp]: "mget0 [] k = ''''"
  by (simp add: mget0_def mget_def)

section \<open>Strings\<close>

definition HasPrefix :: "string \<Rightarrow> string \<Rightarrow> bool" where
  "HasPrefix s p \<longleftrightarrow> take (length p) s = p"

definition HasSuffix :: "string \<Rightarrow> string \<Rightarrow> bool" where
  "HasSuffix s p \<longleftrightarrow> length p \<le> length s \<and> drop (length s - length p) s = p"

fun Contains :: "string \<Rightarrow> string \<Rightarrow> bool" where
  "Contains [] p = (p = [])"
| "Contains (c # s) p = (HasPrefix (c # s) p \<or> Contains s p)"

text \<open>\<open>strings.ReplaceAll\<close> with a non-empty \<open>old\<close>: leftmost, non-overlapping.\<close>

function ReplaceAll :: "string \<Rightarrow> string \<Rightarrow> string \<Rightarrow> string" where
  "ReplaceAll s old new =
     (if s = [] \<or> old = [] then s
      else if HasPrefix s old then new @ ReplaceAll (drop (length old) s) old new
      else hd s # ReplaceAll (tl s) old new)"
  by pat_completeness auto
termination
  by (relation "measure (\<lambda>(s, old, new). length s)") (auto simp: neq_Nil_conv)

declare ReplaceAll.simps [simp del]

fun Join :: "string list \<Rightarrow> string \<Rightarrow> string" where
  "Join [] sep = ''''"
| "Join [x] sep = x"
| "Join (x # y # xs) sep = x @ sep @ Join (y # xs) sep"

definition lower_char :: "char \<Rightarrow> char" where
  "lower_char c = (let n = of_char c :: nat in if 65 \<le> n \<and> n \<le> 90 then char_of (n + 32) else c)"

definition ToLower :: "string \<Rightarrow> string" where
  "ToLower s = map lower_char s"

definition is_space :: "char \<Rightarrow> bool" where
  "is_space c \<longleftrightarrow> (of_char c :: nat) \<in> {9, 10, 11, 12, 13, 32}"

definition TrimSpace :: "string \<Rightarrow> string" where
  "TrimSpace s = rev (dropWhile is_space (rev (dropWhile is_space s)))"

fun nat_digits :: "nat \<Rightarrow> string" where
  "nat_digits n = (if n < 10 then [char_of (48 + n)] else nat_digits (n div 10) @ [char_of (48 + n mod 10)])"

declare nat_digits.simps [simp del]

definition Itoa :: "int \<Rightarrow> string" where
  "Itoa i = (if i < 0 then ''-'' @ nat_digits (nat (- i)) else nat_digits (nat i))"

text \<open>The verb \<open>%v\<close> of a slice of strings.\<close>

definition fmt_slice :: "string list \<Rightarrow> string" where
  "fmt_slice xs = ''['' @ Join xs '' '' @ '']''"

text \<open>The verb \<open>%q\<close> on ASCII text.\<close>

definition hex_digit :: "nat \<Rightarrow> char" where
  "hex_digit n = char_of (if n < 10 then 48 + n else 87 + n)"

definition quote_char :: "char \<Rightarrow> string" where
  "quote_char c =
     (let n = of_char c :: nat in
      if c = CHR 0x22 then [CHR 0x5C, CHR 0x22]
      else if c = CHR 0x5C then [CHR 0x5C, CHR 0x5C]
      else if n = 7 then [CHR 0x5C, CHR ''a'']
      else if n = 8 then [CHR 0x5C, CHR ''b'']
      else if n = 9 then [CHR 0x5C, CHR ''t'']
      else if n = 10 then [CHR 0x5C, CHR ''n'']
      else if n = 11 then [CHR 0x5C, CHR ''v'']
      else if n = 12 then [CHR 0x5C, CHR ''f'']
      else if n = 13 then [CHR 0x5C, CHR ''r'']
      else if 32 \<le> n \<and> n < 127 then [c]
      else [CHR 0x5C, CHR ''x'', hex_digit (n div 16), hex_digit (n mod 16)])"

definition quoted :: "string \<Rightarrow> string" where
  "quoted s = [CHR 0x22] @ concat (map quote_char s) @ [CHR 0x22]"

definition fmt_bool :: "bool \<Rightarrow> string" where
  "fmt_bool b = (if b then ''true'' else ''false'')"

text \<open>The fallback idiom \<open>if x == "" { x = d }\<close>.\<close>

definition or_default :: "string \<Rightarrow> string \<Rightarrow> string" where
  "or_default s d = (if s = '''' then d else s)"

lemma or_default_simps [simp]:
  "or_default '''' d = d" "s \<noteq> '''' \<Longrightarrow> or_default s d = s"
  by (simp_all add: or_default_def)

lemma HasPrefix_append [simp]: "HasPrefix (p @ s) p"
  by (simp add: HasPrefix_def)

lemma HasPrefixE: "HasPrefix s p \<Longrightarrow> \<exists>t. s = p @ t"
  by (metis HasPrefix_def append_take_drop_id)

lemma HasSuffix_append [simp]: "HasSuffix (s @ p) p"
  by (simp add: HasSuffix_def)

section \<open>Numbers, times and durations\<close>

type_synonym time = int
type_synonym duration = int

definition wrap32 :: "int \<Rightarrow> int" where
  "wrap32 i = (i + 2147483648) mod 4294967296 - 2147483648"

lemma wrap32_id: "- 2147483648 \<le> i \<Longrightarrow> i < 2147483648 \<Longrightarrow> wrap32 i = i"
  by (simp add: wrap32_def)

definition Second :: duration where "Second = 1000000000"
definition Minute :: duration where "Minute = 60 * Second"
definition Hour :: duration where "Hour = 60 * Minute"

lemmas durations = Second_def Minute_def Hour_def

text \<open>The calendar date of a day number since 1970-01-01 (proleptic Gregorian).\<close>

definition civil :: "int \<Rightarrow> int \<times> int \<times> int" where
  "civil days =
     (let z = days + 719468;
          era = z div 146097;
          doe = z - era * 146097;
          yoe = (doe - doe div 1460 + doe div 36524 - doe div 146096) div 365;
          doy = doe - (365 * yoe + yoe div 4 - yoe div 100);
          mp = (5 * doy + 2) div 153;
          d = doy - (153 * mp + 2) div 5 + 1;
          m = (if mp < 10 then mp + 3 else mp - 9);
          y = yoe + era * 400 + (if m \<le> 2 then 1 else 0)
      in (y, m, d))"

definition pad :: "nat \<Rightarrow> int \<Rightarrow> string" where
  "pad n i = (let s = Itoa i in replicate (n - length s) (CHR ''0'') @ s)"

definition time_parts :: "time \<Rightarrow> (int \<times> int \<times> int) \<times> int \<times> int \<times> int" where
  "time_parts t =
     (let s = t div Second; d = s div 86400; r = s mod 86400
      in (civil d, r div 3600, (r div 60) mod 60, r mod 60))"

text \<open>\<open>t.UTC().Format(...)\<close> for the three layouts the operator uses.\<close>

definition format_with :: "string \<Rightarrow> string \<Rightarrow> string \<Rightarrow> string \<Rightarrow> time \<Rightarrow> string" where
  "format_with dsep tsep csep z t =
     (case time_parts t of ((y, mo, d), h, mi, s) \<Rightarrow>
        pad 4 y @ dsep @ pad 2 mo @ dsep @ pad 2 d @ tsep @
        pad 2 h @ csep @ pad 2 mi @ csep @ pad 2 s @ z)"

definition format_key_time :: "time \<Rightarrow> string" where
  "format_key_time t = format_with ''-'' ''T'' ''-'' ''Z'' t"

definition format_rfc3339 :: "time \<Rightarrow> string" where
  "format_rfc3339 t = format_with ''-'' ''T'' '':'' ''Z'' t"

definition format_compact :: "time \<Rightarrow> string" where
  "format_compact t = format_with '''' '''' '''' '''' t"

section \<open>Errors\<close>

datatype api_reason = ReasonNotFound | ReasonAlreadyExists | ReasonConflict | ReasonOther

datatype go_error =
    ApiStatus api_reason string
  | NoKindMatch string
  | NotRegistered string
  | NoMatchingTag
  | Plain string
  | Wrapped string go_error
  | GoPanic string

primrec err_text :: "go_error \<Rightarrow> string" where
  "err_text (ApiStatus r s) = s"
| "err_text (NoKindMatch s) = s"
| "err_text (NotRegistered s) = s"
| "err_text NoMatchingTag = ''no tag matches channel''"
| "err_text (Plain s) = s"
| "err_text (Wrapped s e) = s @ '': '' @ err_text e"
| "err_text (GoPanic s) = s"

text \<open>\<open>apierrors.IsNotFound\<close> and its kin look through wrapped errors, as \<open>errors.Is\<close> does.\<close>

primrec api_reason_of :: "go_error \<Rightarrow> api_reason option" where
  "api_reason_of (ApiStatus r s) = Some r"
| "api_reason_of (NoKindMatch s) = None"
| "api_reason_of (NotRegistered s) = None"
| "api_reason_of NoMatchingTag = None"
| "api_reason_of (Plain s) = None"
| "api_reason_of (Wrapped s e) = api_reason_of e"
| "api_reason_of (GoPanic s) = None"

definition IsNotFound :: "go_error \<Rightarrow> bool" where
  "IsNotFound e \<longleftrightarrow> api_reason_of e = Some ReasonNotFound"

definition IsAlreadyExists :: "go_error \<Rightarrow> bool" where
  "IsAlreadyExists e \<longleftrightarrow> api_reason_of e = Some ReasonAlreadyExists"

primrec is_no_matching_tag :: "go_error \<Rightarrow> bool" where
  "is_no_matching_tag (ApiStatus r s) = False"
| "is_no_matching_tag (NoKindMatch s) = False"
| "is_no_matching_tag (NotRegistered s) = False"
| "is_no_matching_tag NoMatchingTag = True"
| "is_no_matching_tag (Plain s) = False"
| "is_no_matching_tag (Wrapped s e) = is_no_matching_tag e"
| "is_no_matching_tag (GoPanic s) = False"

section \<open>JSON values\<close>

text \<open>
  The Go value of a decoded JSON or YAML document (\<open>interface{}\<close>); also the form in which a
  field the operator passes on unread is kept.
\<close>

datatype json =
    JNull
  | JBool bool
  | JInt int
  | JNum string
  | JStr string
  | JArr "json list"
  | JObj "(string \<times> json) list"

primrec is_obj :: "json \<Rightarrow> bool" where
  "is_obj JNull = False"
| "is_obj (JBool b) = False"
| "is_obj (JInt i) = False"
| "is_obj (JNum s) = False"
| "is_obj (JStr s) = False"
| "is_obj (JArr l) = False"
| "is_obj (JObj m) = True"

definition toIface :: "strmap \<Rightarrow> json" where
  "toIface m = JObj (map (\<lambda>(k, v). (k, JStr v)) m)"

end
