(* ===== verification/K8s_Types.thy ===== *)
theory K8s_Types
  imports Prelude
begin

text \<open>
  The Kubernetes API objects the operator reads and builds, seen through the fields its code
  reads or writes. The types belong to \<open>k8s.io/api\<close>: only the fields named in the operator's
  sources appear, and what a user's object may carry beyond them is one opaque \<open>json\<close> field,
  which no definition of the development reads. A string-valued API enumeration is a string.
\<close>

section \<open>Metadata and conditions\<close>

record ObjectMeta =
  om_Name :: string
  om_Namespace :: string
  om_Labels :: strmap
  om_Annotations :: strmap
  om_Finalizers :: "string list"
  om_OwnerReferences :: "json list"
  om_Generation :: int
  om_UID :: string
  om_DeletionTimestamp :: "time option"

definition new_meta :: "string \<Rightarrow> string \<Rightarrow> ObjectMeta" where
  "new_meta n ns =
     \<lparr>om_Name = n, om_Namespace = ns, om_Labels = [], om_Annotations = [], om_Finalizers = [],
      om_OwnerReferences = [], om_Generation = 0, om_UID = '''', om_DeletionTimestamp = None\<rparr>"

record TypeMeta =
  tm_APIVersion :: string
  tm_Kind :: string

definition empty_type_meta :: TypeMeta where
  "empty_type_meta = \<lparr>tm_APIVersion = '''', tm_Kind = ''''\<rparr>"

type_synonym nsname = "string \<times> string"

datatype cond_status = ConditionTrue | ConditionFalse | ConditionUnknown

record Condition =
  cd_Type :: string
  cd_Status :: cond_status
  cd_Reason :: string
  cd_Message :: string
  cd_ObservedGeneration :: int
  cd_LastTransitionTime :: "time option"

section \<open>Containers and pods\<close>

datatype IntOrString = IntVal int | StrVal string

record SecretKeySelector =
  sks_Name :: string
  sks_Key :: string
  sks_Optional :: "bool option"

record ConfigMapKeySelector =
  cks_Name :: string
  cks_Key :: string

record EnvVarSource =
  evs_SecretKeyRef :: "SecretKeySelector option"
  evs_ConfigMapKeyRef :: "ConfigMapKeySelector option"
  evs_Opaque :: json

record EnvVar =
  ev_Name :: string
  ev_Value :: string
  ev_ValueFrom :: "EnvVarSource option"

record EnvFromSource =
  efs_Prefix :: string
  efs_SecretRef :: "string option"
  efs_Opaque :: json

record VolumeMount =
  vm_Name :: string
  vm_MountPath :: string
  vm_SubPath :: string
  vm_ReadOnly :: bool
  vm_Opaque :: json

record KeyToPath =
  kp_Key :: string
  kp_Path :: string

datatype VolumeSource =
    VS_ConfigMap string "KeyToPath list" int
  | VS_Secret string "KeyToPath list" int
  | VS_PVC string bool
  | VS_EmptyDir
  | VS_Opaque json

record Volume =
  vol_Name :: string
  vol_Source :: VolumeSource

datatype ProbeHandler = HTTPGet string IntOrString | TCPSocket IntOrString | ProbeOpaque json

record Probe =
  pr_Handler :: ProbeHandler
  pr_InitialDelaySeconds :: int
  pr_PeriodSeconds :: int
  pr_TimeoutSeconds :: int
  pr_FailureThreshold :: int
  pr_SuccessThreshold :: int

record ContainerPort =
  cp_Name :: string
  cp_ContainerPort :: int
  cp_Protocol :: string

record SecurityContext =
  scx_RunAsNonRoot :: "bool option"
  scx_RunAsUser :: "int option"
  scx_ReadOnlyRootFilesystem :: "bool option"
  scx_AllowPrivilegeEscalation :: "bool option"
  scx_CapabilitiesDrop :: "string list"
  scx_Opaque :: json

record PodSecurityContext =
  psc_RunAsNonRoot :: "bool option"
  psc_RunAsUser :: "int option"
  psc_RunAsGroup :: "int option"
  psc_FSGroup :: "int option"
  psc_SeccompProfile :: "string option"
  psc_Opaque :: json

record ResourceRequirements =
  rr_Requests :: "strmap option"
  rr_Limits :: "strmap option"

record Container =
  ctr_Name :: string
  ctr_Image :: string
  ctr_ImagePullPolicy :: string
  ctr_Command :: "string list"
  ctr_Args :: "string list"
  ctr_TerminationMessagePath :: string
  ctr_TerminationMessagePolicy :: string
  ctr_Ports :: "ContainerPort list"
  ctr_SecurityContext :: "SecurityContext option"
  ctr_VolumeMounts :: "VolumeMount list"
  ctr_ReadinessProbe :: "Probe option"
  ctr_LivenessProbe :: "Probe option"
  ctr_StartupProbe :: "Probe option"
  ctr_Resources :: ResourceRequirements
  ctr_Env :: "EnvVar list"
  ctr_EnvFrom :: "EnvFromSource list"
  ctr_Opaque :: json

definition empty_container :: Container where
  "empty_container =
     \<lparr>ctr_Name = '''', ctr_Image = '''', ctr_ImagePullPolicy = '''', ctr_Command = [], ctr_Args = [],
      ctr_TerminationMessagePath = '''', ctr_TerminationMessagePolicy = '''', ctr_Ports = [],
      ctr_SecurityContext = None, ctr_VolumeMounts = [], ctr_ReadinessProbe = None,
      ctr_LivenessProbe = None, ctr_StartupProbe = None,
      ctr_Resources = \<lparr>rr_Requests = None, rr_Limits = None\<rparr>, ctr_Env = [], ctr_EnvFrom = [],
      ctr_Opaque = JNull\<rparr>"

record PodSpec =
  ps_RestartPolicy :: string
  ps_DNSPolicy :: string
  ps_SchedulerName :: string
  ps_TerminationGracePeriodSeconds :: "int option"
  ps_ShareProcessNamespace :: "bool option"
  ps_SecurityContext :: "PodSecurityContext option"
  ps_NodeSelector :: strmap
  ps_Tolerations :: "json list"
  ps_Affinity :: "json option"
  ps_PriorityClassName :: string
  ps_TopologySpreadConstraints :: "json list"
  ps_ServiceAccountName :: string
  ps_ImagePullSecrets :: "string list"
  ps_InitContainers :: "Container list"
  ps_Containers :: "Container list"
  ps_Volumes :: "Volume list"

definition empty_pod_spec :: PodSpec where
  "empty_pod_spec =
     \<lparr>ps_RestartPolicy = '''', ps_DNSPolicy = '''', ps_SchedulerName = '''',
      ps_TerminationGracePeriodSeconds = None, ps_ShareProcessNamespace = None,
      ps_SecurityContext = None, ps_NodeSelector = [], ps_Tolerations = [], ps_Affinity = None,
      ps_PriorityClassName = '''', ps_TopologySpreadConstraints = [], ps_ServiceAccountName = '''',
      ps_ImagePullSecrets = [], ps_InitContainers = [], ps_Containers = [], ps_Volumes = []\<rparr>"

record PodTemplateSpec =
  pts_Labels :: strmap
  pts_Spec :: PodSpec

record ContainerStateTerminated =
  cst_ExitCode :: int
  cst_Message :: string

record ContainerStatus =
  cst_Name :: string
  cst_Terminated :: "ContainerStateTerminated option"

record Pod =
  pod_Meta :: ObjectMeta
  pod_InitContainerStatuses :: "ContainerStatus list"

section \<open>Workloads\<close>

record StatefulSetSpec =
  sts_ServiceName :: string
  sts_Replicas :: "int option"
  sts_RevisionHistoryLimit :: "int option"
  sts_PodManagementPolicy :: string
  sts_UpdateStrategy :: "string \<times> int option"
  sts_PVCRetention :: "(string \<times> string) option"
  sts_Selector :: strmap
  sts_Template :: PodTemplateSpec

record StatefulSet =
  sts_Meta :: ObjectMeta
  sts_Spec :: StatefulSetSpec
  sts_StatusReplicas :: int
  sts_StatusReadyReplicas :: int
  sts_StatusUpdatedReplicas :: int
  sts_StatusCurrentRevision :: string

record DeploymentSpec =
  dep_Replicas :: "int option"
  dep_RevisionHistoryLimit :: "int option"
  dep_ProgressDeadlineSeconds :: "int option"
  dep_Strategy :: string
  dep_Selector :: strmap
  dep_Template :: PodTemplateSpec

record Deployment =
  dep_Meta :: ObjectMeta
  dep_Spec :: DeploymentSpec
  dep_StatusReplicas :: int
  dep_StatusReadyReplicas :: int

record JobCondition =
  jc_Type :: string
  jc_Status :: cond_status

record JobSpec =
  job_BackoffLimit :: "int option"
  job_TTLSecondsAfterFinished :: "int option"
  job_Template :: PodTemplateSpec

record Job =
  job_Meta :: ObjectMeta
  job_Spec :: JobSpec
  job_Conditions :: "JobCondition list"

record CronJobSpec =
  cj_Schedule :: string
  cj_ConcurrencyPolicy :: string
  cj_SuccessfulJobsHistoryLimit :: "int option"
  cj_FailedJobsHistoryLimit :: "int option"
  cj_JobLabels :: strmap
  cj_JobSpec :: JobSpec

record CronJob =
  cj_Meta :: ObjectMeta
  cj_Spec :: CronJobSpec

section \<open>Configuration, storage and access\<close>

record ConfigMap =
  cm_Meta :: ObjectMeta
  cm_Data :: strmap

record Secret =
  sec_Meta :: ObjectMeta
  sec_Type :: string
  sec_Data :: strmap
  sec_StringData :: strmap

record PersistentVolumeClaim =
  pvc_Meta :: ObjectMeta
  pvc_AccessModes :: "string list"
  pvc_StorageRequest :: string
  pvc_StorageClassName :: "string option"

record ServiceAccount =
  sa_Meta :: ObjectMeta
  sa_AutomountServiceAccountToken :: "bool option"

record PolicyRule =
  rule_APIGroups :: "string list"
  rule_Resources :: "string list"
  rule_ResourceNames :: "string list"
  rule_Verbs :: "string list"

record Role =
  role_Meta :: ObjectMeta
  role_Rules :: "PolicyRule list"

record Subject =
  sub_Kind :: string
  sub_Name :: string
  sub_Namespace :: string

record RoleRef =
  ref_APIGroup :: string
  ref_Kind :: string
  ref_Name :: string

record RoleBinding =
  rb_Meta :: ObjectMeta
  rb_Subjects :: "Subject list"
  rb_RoleRef :: RoleRef

section \<open>Networking and availability\<close>

record ServicePort =
  sp_Name :: string
  sp_Port :: int
  sp_TargetPort :: IntOrString
  sp_Protocol :: string
  sp_NodePort :: int

record CoreServiceSpec =
  svs_Type :: string
  svs_ClusterIP :: string
  svs_ClusterIPs :: "string list"
  svs_SessionAffinity :: string
  svs_Selector :: strmap
  svs_Ports :: "ServicePort list"
  svs_LoadBalancerClass :: "string option"
  svs_ExternalTrafficPolicy :: string

record Service =
  svc_Meta :: ObjectMeta
  svc_Spec :: CoreServiceSpec

record NetworkPolicyPort =
  npp_Protocol :: "string option"
  npp_Port :: "IntOrString option"
  npp_Opaque :: json

record NetworkPolicyPeer =
  peer_NamespaceSelector :: "strmap option"
  peer_PodSelector :: "strmap option"
  peer_IPBlock :: "string option"
  peer_Opaque :: json

record NetworkPolicyIngressRule =
  in_From :: "NetworkPolicyPeer list"
  in_Ports :: "NetworkPolicyPort list"

record NetworkPolicyEgressRule =
  eg_To :: "NetworkPolicyPeer list"
  eg_Ports :: "NetworkPolicyPort list"

record CoreNetworkPolicySpec =
  nps_PodSelector :: strmap
  nps_PolicyTypes :: "string list"
  nps_Ingress :: "NetworkPolicyIngressRule list"
  nps_Egress :: "NetworkPolicyEgressRule list"

record NetworkPolicy =
  np_Meta :: ObjectMeta
  np_Spec :: CoreNetworkPolicySpec

record PodDisruptionBudget =
  pdb_Meta :: ObjectMeta
  pdb_Selector :: strmap
  pdb_MinAvailable :: "IntOrString option"
  pdb_MaxUnavailable :: "IntOrString option"

record MetricSpec =
  ms_ResourceName :: string
  ms_TargetType :: string
  ms_AverageUtilization :: "int option"

record HorizontalPodAutoscaler =
  hpa_Meta :: ObjectMeta
  hpa_ScaleTargetRef :: "string \<times> string \<times> string"
  hpa_MinReplicas :: "int option"
  hpa_MaxReplicas :: int
  hpa_Metrics :: "MetricSpec list"
  hpa_Behavior :: "json option"

record HTTPIngressPath =
  hip_Path :: string
  hip_PathType :: string
  hip_ServiceName :: string
  hip_ServicePortName :: string

record IngressRule =
  ir_Host :: string
  ir_Paths :: "HTTPIngressPath list"

record IngressTLS =
  itls_SecretName :: string
  itls_Hosts :: "string list"

record Ingress =
  ing_Meta :: ObjectMeta
  ing_IngressClassName :: "string option"
  ing_Rules :: "IngressRule list"
  ing_TLS :: "IngressTLS list"

record GroupVersionKind =
  gvk_Group :: string
  gvk_Version :: string
  gvk_Kind :: string

record Unstructured =
  un_GVK :: GroupVersionKind
  un_Meta :: ObjectMeta
  un_Spec :: json

record CoreEvent =
  cev_InvolvedName :: string
  cev_InvolvedKind :: string
  cev_Reason :: string
  cev_LastTimestamp :: time

section \<open>Results of a reconcile\<close>

record ctrl_result =
  RequeueAfter :: duration

definition no_requeue :: ctrl_result where
  "no_requeue = \<lparr>RequeueAfter = 0\<rparr>"

definition requeue_after :: "duration \<Rightarrow> ctrl_result" where
  "requeue_after d = \<lparr>RequeueAfter = d\<rparr>"

lemma requeue_eq [simp]:
  "requeue_after d = requeue_after d' \<longleftrightarrow> d = d'"
  "requeue_after d = no_requeue \<longleftrightarrow> d = 0"
  "no_requeue = requeue_after d \<longleftrightarrow> d = 0"
  by (auto simp: requeue_after_def no_requeue_def)

end
