(* ===== verification/API_Types.thy ===== *)
theory API_Types
  imports K8s_Types
begin

text \<open>
  The custom resources of \<open>api/v1\<close>: one record per Go struct, fields in source order, a pointer as
  an option and a slice as a list; \<open>zero_X\<close> is the zero value \<open>X{}\<close>. The annotation maps of
  \<open>RBACSpec\<close> and \<open>ServiceAccountDefaults\<close> and the resource lists are options because the defaulter
  tells a nil map from an empty one. A quantity is kept as its text, and a value of a Kubernetes
  type the operator passes on unread is \<open>json\<close>.
\<close>

type_synonym SelfConfigAction = string

abbreviation ActionSkills :: SelfConfigAction where "ActionSkills \<equiv> ''skills''"
abbreviation ActionConfig :: SelfConfigAction where "ActionConfig \<equiv> ''config''"
abbreviation ActionEnvVars :: SelfConfigAction where "ActionEnvVars \<equiv> ''envVars''"
abbreviation ActionWorkspaceFiles :: SelfConfigAction where "ActionWorkspaceFiles \<equiv> ''workspaceFiles''"
abbreviation ActionProfiles :: SelfConfigAction where "ActionProfiles \<equiv> ''profiles''"

abbreviation ConfigMergeModeReplace :: string where "ConfigMergeModeReplace \<equiv> ''replace''"
abbreviation ConfigMergeModeMerge :: string where "ConfigMergeModeMerge \<equiv> ''merge''"

abbreviation SelfConfigPhasePending :: string where "SelfConfigPhasePending \<equiv> ''Pending''"
abbreviation SelfConfigPhaseApplied :: string where "SelfConfigPhaseApplied \<equiv> ''Applied''"
abbreviation SelfConfigPhaseDenied :: string where "SelfConfigPhaseDenied \<equiv> ''Denied''"

section \<open>HermesInstance\<close>

record ImageSpec =
  image_Repository :: string
  image_Tag :: string
  image_Digest :: string
  image_PullPolicy :: string

definition zero_ImageSpec :: ImageSpec where
  "zero_ImageSpec =
     \<lparr>image_Repository = '''', image_Tag = '''', image_Digest = '''', image_PullPolicy =
      ''''\<rparr>"

record RawConfig =
  rawcfg_RawExtension :: string

definition zero_RawConfig :: RawConfig where
  "zero_RawConfig =
     \<lparr>rawcfg_RawExtension = ''''\<rparr>"

record ConfigSpec =
  cfg_Raw :: "RawConfig option"
  cfg_ConfigMapRef :: "string option"
  cfg_MergeMode :: string

definition zero_ConfigSpec :: ConfigSpec where
  "zero_ConfigSpec =
     \<lparr>cfg_Raw = None, cfg_ConfigMapRef = None, cfg_MergeMode = ''''\<rparr>"

record WorkspaceFile =
  wf_Path :: string
  wf_Content :: string

definition zero_WorkspaceFile :: WorkspaceFile where
  "zero_WorkspaceFile =
     \<lparr>wf_Path = '''', wf_Content = ''''\<rparr>"

record WorkspaceBootstrap =
  wb_Enabled :: "bool option"

definition zero_WorkspaceBootstrap :: WorkspaceBootstrap where
  "zero_WorkspaceBootstrap =
     \<lparr>wb_Enabled = None\<rparr>"

record WorkspaceSpec =
  ws_InitialFiles :: "WorkspaceFile list"
  ws_InitialDirs :: "string list"
  ws_ConfigMapRef :: "string option"
  ws_Bootstrap :: WorkspaceBootstrap

definition zero_WorkspaceSpec :: WorkspaceSpec where
  "zero_WorkspaceSpec =
     \<lparr>ws_InitialFiles = [], ws_InitialDirs = [], ws_ConfigMapRef = None, ws_Bootstrap =
      zero_WorkspaceBootstrap\<rparr>"

record ResourcesSpec =
  res_Requests :: "strmap option"
  res_Limits :: "strmap option"

definition zero_ResourcesSpec :: ResourcesSpec where
  "zero_ResourcesSpec =
     \<lparr>res_Requests = None, res_Limits = None\<rparr>"

record RBACSpec =
  rbac_CreateServiceAccount :: "bool option"
  rbac_ServiceAccountName :: string
  rbac_Annotations :: "strmap option"

definition zero_RBACSpec :: RBACSpec where
  "zero_RBACSpec =
     \<lparr>rbac_CreateServiceAccount = None, rbac_ServiceAccountName = '''', rbac_Annotations =
      None\<rparr>"

record NetworkPolicySpec =
  netpol_Enabled :: "bool option"
  netpol_AllowDNS :: "bool option"
  netpol_AllowedIngressNamespaces :: "string list"
  netpol_AllowedIngressCIDRs :: "string list"
  netpol_AllowedEgressCIDRs :: "string list"
  netpol_AdditionalEgress :: "NetworkPolicyEgressRule list"

definition zero_NetworkPolicySpec :: NetworkPolicySpec where
  "zero_NetworkPolicySpec =
     \<lparr>netpol_Enabled = None, netpol_AllowDNS = None, netpol_AllowedIngressNamespaces = [],
      netpol_AllowedIngressCIDRs = [], netpol_AllowedEgressCIDRs = [],
      netpol_AdditionalEgress = []\<rparr>"

record CABundleSpec =
  ca_ConfigMapName :: string
  ca_SecretName :: string
  ca_Key :: string

definition zero_CABundleSpec :: CABundleSpec where
  "zero_CABundleSpec =
     \<lparr>ca_ConfigMapName = '''', ca_SecretName = '''', ca_Key = ''''\<rparr>"

record SecuritySpec =
  secy_PodSecurityContext :: "PodSecurityContext option"
  secy_ContainerSecurityContext :: "SecurityContext option"
  secy_RBAC :: RBACSpec
  secy_NetworkPolicy :: NetworkPolicySpec
  secy_CABundle :: CABundleSpec

definition zero_SecuritySpec :: SecuritySpec where
  "zero_SecuritySpec =
     \<lparr>secy_PodSecurityContext = None, secy_ContainerSecurityContext = None, secy_RBAC =
      zero_RBACSpec, secy_NetworkPolicy = zero_NetworkPolicySpec, secy_CABundle =
      zero_CABundleSpec\<rparr>"

record PersistenceSpec =
  persist_Enabled :: "bool option"
  persist_Size :: string
  persist_StorageClassName :: "string option"

definition zero_PersistenceSpec :: PersistenceSpec where
  "zero_PersistenceSpec =
     \<lparr>persist_Enabled = None, persist_Size = '''', persist_StorageClassName = None\<rparr>"

record StorageSpec =
  storage_Persistence :: PersistenceSpec

definition zero_StorageSpec :: StorageSpec where
  "zero_StorageSpec =
     \<lparr>storage_Persistence = zero_PersistenceSpec\<rparr>"

record NamedServicePort =
  nsp_Name :: string
  nsp_Port :: int
  nsp_TargetPort :: "int option"
  nsp_Protocol :: string
  nsp_NodePort :: int

definition zero_NamedServicePort :: NamedServicePort where
  "zero_NamedServicePort =
     \<lparr>nsp_Name = '''', nsp_Port = 0, nsp_TargetPort = None, nsp_Protocol = '''',
      nsp_NodePort = 0\<rparr>"

record ServiceSpec =
  ss_Type :: string
  ss_ClusterIP :: string
  ss_Ports :: "NamedServicePort list"
  ss_Annotations :: strmap
  ss_LoadBalancerClass :: "string option"
  ss_ExternalTrafficPolicy :: string

definition zero_ServiceSpec :: ServiceSpec where
  "zero_ServiceSpec =
     \<lparr>ss_Type = '''', ss_ClusterIP = '''', ss_Ports = [], ss_Annotations = [],
      ss_LoadBalancerClass = None, ss_ExternalTrafficPolicy = ''''\<rparr>"

record IngressTLSSpec =
  ingrtls_SecretName :: string
  ingrtls_Hosts :: "string list"

definition zero_IngressTLSSpec :: IngressTLSSpec where
  "zero_IngressTLSSpec =
     \<lparr>ingrtls_SecretName = '''', ingrtls_Hosts = []\<rparr>"

record IngressSpec =
  ingr_Enabled :: "bool option"
  ingr_Host :: string
  ingr_ClassName :: "string option"
  ingr_TLS :: "IngressTLSSpec list"
  ingr_Annotations :: strmap
  ingr_PathType :: string
  ingr_Path :: string
  ingr_ServicePortName :: string

definition zero_IngressSpec :: IngressSpec where
  "zero_IngressSpec =
     \<lparr>ingr_Enabled = None, ingr_Host = '''', ingr_ClassName = None, ingr_TLS = [],
      ingr_Annotations = [], ingr_PathType = '''', ingr_Path = '''', ingr_ServicePortName =
      ''''\<rparr>"

record HTTPRouteParentRef =
  hrp_Name :: string
  hrp_Namespace :: "string option"
  hrp_SectionName :: "string option"

definition zero_HTTPRouteParentRef :: HTTPRouteParentRef where
  "zero_HTTPRouteParentRef =
     \<lparr>hrp_Name = '''', hrp_Namespace = None, hrp_SectionName = None\<rparr>"

record HTTPRouteSpec =
  hr_Enabled :: "bool option"
  hr_ParentRefs :: "HTTPRouteParentRef list"
  hr_Hostnames :: "string list"
  hr_Path :: string
  hr_ServicePortName :: string
  hr_Annotations :: strmap

definition zero_HTTPRouteSpec :: HTTPRouteSpec where
  "zero_HTTPRouteSpec =
     \<lparr>hr_Enabled = None, hr_ParentRefs = [], hr_Hostnames = [], hr_Path = '''',
      hr_ServicePortName = '''', hr_Annotations = []\<rparr>"

record NetworkingSpec =
  nw_Service :: ServiceSpec
  nw_Ingress :: IngressSpec
  nw_HTTPRoute :: "HTTPRouteSpec option"

definition zero_NetworkingSpec :: NetworkingSpec where
  "zero_NetworkingSpec =
     \<lparr>nw_Service = zero_ServiceSpec, nw_Ingress = zero_IngressSpec, nw_HTTPRoute = None\<rparr>"

record GrafanaDashboardSpec =
  gd_Enabled :: "bool option"
  gd_Labels :: strmap
  gd_Folder :: string

definition zero_GrafanaDashboardSpec :: GrafanaDashboardSpec where
  "zero_GrafanaDashboardSpec =
     \<lparr>gd_Enabled = None, gd_Labels = [], gd_Folder = ''''\<rparr>"

record MetricsSpec =
  metrics_Enabled :: "bool option"
  metrics_Port :: int
  metrics_Secure :: "bool option"
  metrics_GrafanaDashboard :: "GrafanaDashboardSpec option"

definition zero_MetricsSpec :: MetricsSpec where
  "zero_MetricsSpec =
     \<lparr>metrics_Enabled = None, metrics_Port = 0, metrics_Secure = None,
      metrics_GrafanaDashboard = None\<rparr>"

record ServiceMonitorSpec =
  sm_Enabled :: "bool option"
  sm_Labels :: strmap
  sm_Interval :: string
  sm_ScrapeTimeout :: string

definition zero_ServiceMonitorSpec :: ServiceMonitorSpec where
  "zero_ServiceMonitorSpec =
     \<lparr>sm_Enabled = None, sm_Labels = [], sm_Interval = '''', sm_ScrapeTimeout = ''''\<rparr>"

record PrometheusRule =
  prule_Alert :: string
  prule_Expr :: string
  prule_For :: string
  prule_Labels :: strmap
  prule_Annotations :: strmap

definition zero_PrometheusRule :: PrometheusRule where
  "zero_PrometheusRule =
     \<lparr>prule_Alert = '''', prule_Expr = '''', prule_For = '''', prule_Labels = [],
      prule_Annotations = []\<rparr>"

record PrometheusRuleSpec =
  prs_Enabled :: "bool option"
  prs_AdditionalRules :: "PrometheusRule list"

definition zero_PrometheusRuleSpec :: PrometheusRuleSpec where
  "zero_PrometheusRuleSpec =
     \<lparr>prs_Enabled = None, prs_AdditionalRules = []\<rparr>"

record LoggingSpec =
  log_Format :: string
  log_Level :: string

definition zero_LoggingSpec :: LoggingSpec where
  "zero_LoggingSpec =
     \<lparr>log_Format = '''', log_Level = ''''\<rparr>"

record ObservabilitySpec =
  obs_Metrics :: MetricsSpec
  obs_ServiceMonitor :: ServiceMonitorSpec
  obs_PrometheusRule :: PrometheusRuleSpec
  obs_Logging :: LoggingSpec

definition zero_ObservabilitySpec :: ObservabilitySpec where
  "zero_ObservabilitySpec =
     \<lparr>obs_Metrics = zero_MetricsSpec, obs_ServiceMonitor = zero_ServiceMonitorSpec,
      obs_PrometheusRule = zero_PrometheusRuleSpec, obs_Logging = zero_LoggingSpec\<rparr>"

record PDBSpec =
  pdbs_Enabled :: "bool option"
  pdbs_MinAvailable :: "IntOrString option"
  pdbs_MaxUnavailable :: "IntOrString option"

definition zero_PDBSpec :: PDBSpec where
  "zero_PDBSpec =
     \<lparr>pdbs_Enabled = None, pdbs_MinAvailable = None, pdbs_MaxUnavailable = None\<rparr>"

record HPASpec =
  hpas_Enabled :: "bool option"
  hpas_MinReplicas :: "int option"
  hpas_MaxReplicas :: "int option"
  hpas_TargetCPUUtilization :: "int option"
  hpas_TargetMemoryUtilization :: "int option"
  hpas_Behavior :: "json option"

definition zero_HPASpec :: HPASpec where
  "zero_HPASpec =
     \<lparr>hpas_Enabled = None, hpas_MinReplicas = None, hpas_MaxReplicas = None,
      hpas_TargetCPUUtilization = None, hpas_TargetMemoryUtilization = None, hpas_Behavior =
      None\<rparr>"

record AvailabilitySpec =
  avail_PodDisruptionBudget :: PDBSpec
  avail_HorizontalPodAutoscaler :: HPASpec
  avail_TopologySpreadConstraints :: "json list"

definition zero_AvailabilitySpec :: AvailabilitySpec where
  "zero_AvailabilitySpec =
     \<lparr>avail_PodDisruptionBudget = zero_PDBSpec, avail_HorizontalPodAutoscaler =
      zero_HPASpec, avail_TopologySpreadConstraints = []\<rparr>"

record ProbesSpec =
  probes_Liveness :: "Probe option"
  probes_Readiness :: "Probe option"
  probes_Startup :: "Probe option"

definition zero_ProbesSpec :: ProbesSpec where
  "zero_ProbesSpec =
     \<lparr>probes_Liveness = None, probes_Readiness = None, probes_Startup = None\<rparr>"

record SchedulingSpec =
  sched_NodeSelector :: strmap
  sched_Tolerations :: "json list"
  sched_Affinity :: "json option"
  sched_PriorityClassName :: string

definition zero_SchedulingSpec :: SchedulingSpec where
  "zero_SchedulingSpec =
     \<lparr>sched_NodeSelector = [], sched_Tolerations = [], sched_Affinity = None,
      sched_PriorityClassName = ''''\<rparr>"

record InstanceSkill =
  skill_Source :: string
  skill_Version :: string

definition zero_InstanceSkill :: InstanceSkill where
  "zero_InstanceSkill =
     \<lparr>skill_Source = '''', skill_Version = ''''\<rparr>"

record SelfConfigureSpec =
  sconf_Enabled :: "bool option"
  sconf_AllowedActions :: "SelfConfigAction list"
  sconf_ProtectedKeys :: "string list"

definition zero_SelfConfigureSpec :: SelfConfigureSpec where
  "zero_SelfConfigureSpec =
     \<lparr>sconf_Enabled = None, sconf_AllowedActions = [], sconf_ProtectedKeys = []\<rparr>"

record LocalObjectReference =
  lor_Name :: string

definition zero_LocalObjectReference :: LocalObjectReference where
  "zero_LocalObjectReference =
     \<lparr>lor_Name = ''''\<rparr>"

record BackupS3Spec =
  bs3_Bucket :: string
  bs3_Endpoint :: string
  bs3_Region :: string
  bs3_PathPrefix :: string
  bs3_CredentialsSecretRef :: LocalObjectReference

definition zero_BackupS3Spec :: BackupS3Spec where
  "zero_BackupS3Spec =
     \<lparr>bs3_Bucket = '''', bs3_Endpoint = '''', bs3_Region = '''', bs3_PathPrefix = '''',
      bs3_CredentialsSecretRef = zero_LocalObjectReference\<rparr>"

record BackupSpec =
  bk_S3 :: "BackupS3Spec option"
  bk_Schedule :: string
  bk_OnDelete :: bool
  bk_PreUpdate :: "bool option"
  bk_HistoryLimit :: "int option"
  bk_FailedHistoryLimit :: "int option"
  bk_Image :: string

definition zero_BackupSpec :: BackupSpec where
  "zero_BackupSpec =
     \<lparr>bk_S3 = None, bk_Schedule = '''', bk_OnDelete = False, bk_PreUpdate = None,
      bk_HistoryLimit = None, bk_FailedHistoryLimit = None, bk_Image = ''''\<rparr>"

record AutoUpdateSourceSpec =
  aus_Registry :: string
  aus_Channel :: string

definition zero_AutoUpdateSourceSpec :: AutoUpdateSourceSpec where
  "zero_AutoUpdateSourceSpec =
     \<lparr>aus_Registry = '''', aus_Channel = ''''\<rparr>"

record AutoUpdateRollbackSpec =
  aur_Enabled :: "bool option"
  aur_ProbeFailureThreshold :: int

definition zero_AutoUpdateRollbackSpec :: AutoUpdateRollbackSpec where
  "zero_AutoUpdateRollbackSpec =
     \<lparr>aur_Enabled = None, aur_ProbeFailureThreshold = 0\<rparr>"

record AutoUpdateSpec =
  au_Enabled :: bool
  au_Source :: AutoUpdateSourceSpec
  au_PollInterval :: string
  au_BackupBeforeUpdate :: "bool option"
  au_Rollback :: AutoUpdateRollbackSpec

definition zero_AutoUpdateSpec :: AutoUpdateSpec where
  "zero_AutoUpdateSpec =
     \<lparr>au_Enabled = False, au_Source = zero_AutoUpdateSourceSpec, au_PollInterval = '''',
      au_BackupBeforeUpdate = None, au_Rollback = zero_AutoUpdateRollbackSpec\<rparr>"

record NamespacedObjectReference =
  nor_Name :: string
  nor_Namespace :: string

definition zero_NamespacedObjectReference :: NamespacedObjectReference where
  "zero_NamespacedObjectReference =
     \<lparr>nor_Name = '''', nor_Namespace = ''''\<rparr>"

record MigrationBackupS3 =
  mbs3_Bucket :: string
  mbs3_Endpoint :: string
  mbs3_Region :: string
  mbs3_Key :: string
  mbs3_CredentialsSecretRef :: LocalObjectReference

definition zero_MigrationBackupS3 :: MigrationBackupS3 where
  "zero_MigrationBackupS3 =
     \<lparr>mbs3_Bucket = '''', mbs3_Endpoint = '''', mbs3_Region = '''', mbs3_Key = '''',
      mbs3_CredentialsSecretRef = zero_LocalObjectReference\<rparr>"

record MigrationBackupRef =
  mbr_S3 :: MigrationBackupS3

definition zero_MigrationBackupRef :: MigrationBackupRef where
  "zero_MigrationBackupRef =
     \<lparr>mbr_S3 = zero_MigrationBackupS3\<rparr>"

record MigrationFromOpenClawSource =
  mocs_OpenClawInstanceRef :: "NamespacedObjectReference option"
  mocs_BackupRef :: "MigrationBackupRef option"

definition zero_MigrationFromOpenClawSource :: MigrationFromOpenClawSource where
  "zero_MigrationFromOpenClawSource =
     \<lparr>mocs_OpenClawInstanceRef = None, mocs_BackupRef = None\<rparr>"

record MigrationFromOpenClawSpec =
  moc_Source :: MigrationFromOpenClawSource
  moc_Mode :: string
  moc_Image :: string

definition zero_MigrationFromOpenClawSpec :: MigrationFromOpenClawSpec where
  "zero_MigrationFromOpenClawSpec =
     \<lparr>moc_Source = zero_MigrationFromOpenClawSource, moc_Mode = '''', moc_Image = ''''\<rparr>"

record MigrationSpec =
  mig_FromOpenClaw :: "MigrationFromOpenClawSpec option"

definition zero_MigrationSpec :: MigrationSpec where
  "zero_MigrationSpec =
     \<lparr>mig_FromOpenClaw = None\<rparr>"

record UVCacheVolumeSpec =
  uvc_EmptyDir :: "json option"
  uvc_PersistentVolumeClaim :: "json option"

definition zero_UVCacheVolumeSpec :: UVCacheVolumeSpec where
  "zero_UVCacheVolumeSpec =
     \<lparr>uvc_EmptyDir = None, uvc_PersistentVolumeClaim = None\<rparr>"

record UVSpec =
  uv_Enabled :: "bool option"
  uv_ExtraIndexURL :: string
  uv_CacheVolume :: UVCacheVolumeSpec

definition zero_UVSpec :: UVSpec where
  "zero_UVSpec =
     \<lparr>uv_Enabled = None, uv_ExtraIndexURL = '''', uv_CacheVolume = zero_UVCacheVolumeSpec\<rparr>"

record FFmpegSpec =
  ff_Enabled :: "bool option"

definition zero_FFmpegSpec :: FFmpegSpec where
  "zero_FFmpegSpec =
     \<lparr>ff_Enabled = None\<rparr>"

record RipgrepSpec =
  rg_Enabled :: "bool option"

definition zero_RipgrepSpec :: RipgrepSpec where
  "zero_RipgrepSpec =
     \<lparr>rg_Enabled = None\<rparr>"

record RuntimeSpec =
  rt_Python :: string
  rt_UV :: UVSpec
  rt_FFmpeg :: FFmpegSpec
  rt_Ripgrep :: RipgrepSpec
  rt_ExtraAptPackages :: "string list"
  rt_ExtraPipPackages :: "string list"

definition zero_RuntimeSpec :: RuntimeSpec where
  "zero_RuntimeSpec =
     \<lparr>rt_Python = '''', rt_UV = zero_UVSpec, rt_FFmpeg = zero_FFmpegSpec, rt_Ripgrep =
      zero_RipgrepSpec, rt_ExtraAptPackages = [], rt_ExtraPipPackages = []\<rparr>"

record TelegramGatewaySpec =
  tg_Enabled :: "bool option"
  tg_BotTokenSecretRef :: "SecretKeySelector option"
  tg_AllowedUserIDs :: "int list"
  tg_WebhookURL :: string

definition zero_TelegramGatewaySpec :: TelegramGatewaySpec where
  "zero_TelegramGatewaySpec =
     \<lparr>tg_Enabled = None, tg_BotTokenSecretRef = None, tg_AllowedUserIDs = [], tg_WebhookURL
      = ''''\<rparr>"

record DiscordGatewaySpec =
  dc_Enabled :: "bool option"
  dc_BotTokenSecretRef :: "SecretKeySelector option"
  dc_ApplicationID :: string
  dc_GuildIDs :: "string list"

definition zero_DiscordGatewaySpec :: DiscordGatewaySpec where
  "zero_DiscordGatewaySpec =
     \<lparr>dc_Enabled = None, dc_BotTokenSecretRef = None, dc_ApplicationID = '''', dc_GuildIDs =
      []\<rparr>"

record SlackGatewaySpec =
  sl_Enabled :: "bool option"
  sl_BotTokenSecretRef :: "SecretKeySelector option"
  sl_AppTokenSecretRef :: "SecretKeySelector option"
  sl_SigningSecretRef :: "SecretKeySelector option"

definition zero_SlackGatewaySpec :: SlackGatewaySpec where
  "zero_SlackGatewaySpec =
     \<lparr>sl_Enabled = None, sl_BotTokenSecretRef = None, sl_AppTokenSecretRef = None,
      sl_SigningSecretRef = None\<rparr>"

record WhatsAppGatewaySpec =
  wa_Enabled :: "bool option"
  wa_ProviderSecretRef :: "SecretKeySelector option"

definition zero_WhatsAppGatewaySpec :: WhatsAppGatewaySpec where
  "zero_WhatsAppGatewaySpec =
     \<lparr>wa_Enabled = None, wa_ProviderSecretRef = None\<rparr>"

record SignalGatewaySpec =
  sig_Enabled :: "bool option"
  sig_PhoneNumberSecretRef :: "SecretKeySelector option"
  sig_AuthTokenSecretRef :: "SecretKeySelector option"

definition zero_SignalGatewaySpec :: SignalGatewaySpec where
  "zero_SignalGatewaySpec =
     \<lparr>sig_Enabled = None, sig_PhoneNumberSecretRef = None, sig_AuthTokenSecretRef = None\<rparr>"

record GatewaysSpec =
  gw_Telegram :: TelegramGatewaySpec
  gw_Discord :: DiscordGatewaySpec
  gw_Slack :: SlackGatewaySpec
  gw_WhatsApp :: WhatsAppGatewaySpec
  gw_Signal :: SignalGatewaySpec

definition zero_GatewaysSpec :: GatewaysSpec where
  "zero_GatewaysSpec =
     \<lparr>gw_Telegram = zero_TelegramGatewaySpec, gw_Discord = zero_DiscordGatewaySpec, gw_Slack
      = zero_SlackGatewaySpec, gw_WhatsApp = zero_WhatsAppGatewaySpec, gw_Signal =
      zero_SignalGatewaySpec\<rparr>"

record HonchoImageSpec =
  honimg_Repository :: string
  honimg_Tag :: string
  honimg_PullPolicy :: string

definition zero_HonchoImageSpec :: HonchoImageSpec where
  "zero_HonchoImageSpec =
     \<lparr>honimg_Repository = '''', honimg_Tag = '''', honimg_PullPolicy = ''''\<rparr>"

record HonchoPersistenceSpec =
  honper_Enabled :: "bool option"
  honper_Size :: string
  honper_StorageClassName :: "string option"

definition zero_HonchoPersistenceSpec :: HonchoPersistenceSpec where
  "zero_HonchoPersistenceSpec =
     \<lparr>honper_Enabled = None, honper_Size = '''', honper_StorageClassName = None\<rparr>"

record HonchoSpec =
  hon_Enabled :: "bool option"
  hon_Image :: HonchoImageSpec
  hon_Persistence :: HonchoPersistenceSpec
  hon_Resources :: ResourceRequirements
  hon_APIKeySecretRef :: "SecretKeySelector option"

definition zero_HonchoSpec :: HonchoSpec where
  "zero_HonchoSpec =
     \<lparr>hon_Enabled = None, hon_Image = zero_HonchoImageSpec, hon_Persistence =
      zero_HonchoPersistenceSpec, hon_Resources = \<lparr>rr_Requests = None, rr_Limits =
      None\<rparr>, hon_APIKeySecretRef = None\<rparr>"

record ProfileStoreSpec =
  pstore_Honcho :: HonchoSpec

definition zero_ProfileStoreSpec :: ProfileStoreSpec where
  "zero_ProfileStoreSpec =
     \<lparr>pstore_Honcho = zero_HonchoSpec\<rparr>"

record TailscaleAuthKey =
  tsk_SecretRef :: "SecretKeySelector option"

definition zero_TailscaleAuthKey :: TailscaleAuthKey where
  "zero_TailscaleAuthKey =
     \<lparr>tsk_SecretRef = None\<rparr>"

record TailscaleImageSpec =
  tsimg_Repository :: string
  tsimg_Tag :: string
  tsimg_PullPolicy :: string

definition zero_TailscaleImageSpec :: TailscaleImageSpec where
  "zero_TailscaleImageSpec =
     \<lparr>tsimg_Repository = '''', tsimg_Tag = '''', tsimg_PullPolicy = ''''\<rparr>"

record TailscaleSpec =
  ts_Enabled :: "bool option"
  ts_Mode :: string
  ts_AuthKey :: "TailscaleAuthKey option"
  ts_Hostname :: string
  ts_Image :: TailscaleImageSpec
  ts_Resources :: ResourceRequirements

definition zero_TailscaleSpec :: TailscaleSpec where
  "zero_TailscaleSpec =
     \<lparr>ts_Enabled = None, ts_Mode = '''', ts_AuthKey = None, ts_Hostname = '''', ts_Image =
      zero_TailscaleImageSpec, ts_Resources = \<lparr>rr_Requests = None, rr_Limits =
      None\<rparr>\<rparr>"

record SemaphoreSpec =
  sema_Enabled :: "bool option"
  sema_URL :: string
  sema_TokenSecretRef :: "SecretKeySelector option"
  sema_CleanupOnDelete :: "bool option"
  sema_AdminTokenSecretRef :: "SecretKeySelector option"

definition zero_SemaphoreSpec :: SemaphoreSpec where
  "zero_SemaphoreSpec =
     \<lparr>sema_Enabled = None, sema_URL = '''', sema_TokenSecretRef = None, sema_CleanupOnDelete
      = None, sema_AdminTokenSecretRef = None\<rparr>"

record HermesInstanceSpec =
  spec_Image :: ImageSpec
  spec_Config :: ConfigSpec
  spec_Workspace :: WorkspaceSpec
  spec_Resources :: ResourcesSpec
  spec_Security :: SecuritySpec
  spec_Storage :: StorageSpec
  spec_Networking :: NetworkingSpec
  spec_Observability :: ObservabilitySpec
  spec_Availability :: AvailabilitySpec
  spec_Probes :: ProbesSpec
  spec_Scheduling :: SchedulingSpec
  spec_ShareProcessNamespace :: "bool option"
  spec_InitContainers :: "Container list"
  spec_Sidecars :: "Container list"
  spec_ExtraVolumes :: "Volume list"
  spec_ExtraVolumeMounts :: "VolumeMount list"
  spec_EnvFrom :: "EnvFromSource list"
  spec_Env :: "EnvVar list"
  spec_Skills :: "InstanceSkill list"
  spec_SelfConfigure :: SelfConfigureSpec
  spec_Suspended :: bool
  spec_Backup :: BackupSpec
  spec_RestoreFrom :: string
  spec_AutoUpdate :: AutoUpdateSpec
  spec_Migration :: MigrationSpec
  spec_Runtime :: RuntimeSpec
  spec_Gateways :: GatewaysSpec
  spec_ProfileStore :: ProfileStoreSpec
  spec_Tailscale :: TailscaleSpec
  spec_Semaphore :: SemaphoreSpec

definition zero_HermesInstanceSpec :: HermesInstanceSpec where
  "zero_HermesInstanceSpec =
     \<lparr>spec_Image = zero_ImageSpec, spec_Config = zero_ConfigSpec, spec_Workspace =
      zero_WorkspaceSpec, spec_Resources = zero_ResourcesSpec, spec_Security =
      zero_SecuritySpec, spec_Storage = zero_StorageSpec, spec_Networking =
      zero_NetworkingSpec, spec_Observability = zero_ObservabilitySpec, spec_Availability =
      zero_AvailabilitySpec, spec_Probes = zero_ProbesSpec, spec_Scheduling =
      zero_SchedulingSpec, spec_ShareProcessNamespace = None, spec_InitContainers = [],
      spec_Sidecars = [], spec_ExtraVolumes = [], spec_ExtraVolumeMounts = [], spec_EnvFrom
      = [], spec_Env = [], spec_Skills = [], spec_SelfConfigure = zero_SelfConfigureSpec,
      spec_Suspended = False, spec_Backup = zero_BackupSpec, spec_RestoreFrom = '''',
      spec_AutoUpdate = zero_AutoUpdateSpec, spec_Migration = zero_MigrationSpec,
      spec_Runtime = zero_RuntimeSpec, spec_Gateways = zero_GatewaysSpec, spec_ProfileStore
      = zero_ProfileStoreSpec, spec_Tailscale = zero_TailscaleSpec, spec_Semaphore =
      zero_SemaphoreSpec\<rparr>"

record BackupStatus =
  bst_LastSuccessTime :: "time option"
  bst_LastSuccessSnapshotID :: string
  bst_LastFailureTime :: "time option"
  bst_LastFailureReason :: string
  bst_FinalBackupJobName :: string

definition zero_BackupStatus :: BackupStatus where
  "zero_BackupStatus =
     \<lparr>bst_LastSuccessTime = None, bst_LastSuccessSnapshotID = '''', bst_LastFailureTime =
      None, bst_LastFailureReason = '''', bst_FinalBackupJobName = ''''\<rparr>"

record AutoUpdateStatus =
  ast_LastCheckTime :: "time option"
  ast_CurrentTag :: string
  ast_TargetTag :: string
  ast_LastSuccessTag :: string
  ast_LastFailedTag :: string
  ast_PreUpdateSnapshot :: string
  ast_ProbeFailures :: int
  ast_RolloutDeadline :: "time option"

definition zero_AutoUpdateStatus :: AutoUpdateStatus where
  "zero_AutoUpdateStatus =
     \<lparr>ast_LastCheckTime = None, ast_CurrentTag = '''', ast_TargetTag = '''',
      ast_LastSuccessTag = '''', ast_LastFailedTag = '''', ast_PreUpdateSnapshot = '''',
      ast_ProbeFailures = 0, ast_RolloutDeadline = None\<rparr>"

record MigrationStatus =
  mst_Completed :: bool
  mst_FinishedAt :: "time option"
  mst_SourceVersion :: string

definition zero_MigrationStatus :: MigrationStatus where
  "zero_MigrationStatus =
     \<lparr>mst_Completed = False, mst_FinishedAt = None, mst_SourceVersion = ''''\<rparr>"

record HermesInstanceStatus =
  st_ObservedGeneration :: int
  st_Phase :: string
  st_Conditions :: "Condition list"
  st_Replicas :: int
  st_ReadyReplicas :: int
  st_RestoredFrom :: string
  st_Backup :: BackupStatus
  st_AutoUpdate :: AutoUpdateStatus
  st_Migration :: MigrationStatus

definition zero_HermesInstanceStatus :: HermesInstanceStatus where
  "zero_HermesInstanceStatus =
     \<lparr>st_ObservedGeneration = 0, st_Phase = '''', st_Conditions = [], st_Replicas = 0,
      st_ReadyReplicas = 0, st_RestoredFrom = '''', st_Backup = zero_BackupStatus,
      st_AutoUpdate = zero_AutoUpdateStatus, st_Migration = zero_MigrationStatus\<rparr>"

record HermesInstance =
  hi_TypeMeta :: TypeMeta
  hi_ObjectMeta :: ObjectMeta
  hi_Spec :: HermesInstanceSpec
  hi_Status :: HermesInstanceStatus

definition zero_HermesInstance :: HermesInstance where
  "zero_HermesInstance =
     \<lparr>hi_TypeMeta = empty_type_meta, hi_ObjectMeta = new_meta '''' '''', hi_Spec =
      zero_HermesInstanceSpec, hi_Status = zero_HermesInstanceStatus\<rparr>"

section \<open>HermesClusterDefaults\<close>

record RegistryDefaults =
  regd_PullSecretName :: string

definition zero_RegistryDefaults :: RegistryDefaults where
  "zero_RegistryDefaults =
     \<lparr>regd_PullSecretName = ''''\<rparr>"

record ServiceAccountDefaults =
  sad_Annotations :: "strmap option"

definition zero_ServiceAccountDefaults :: ServiceAccountDefaults where
  "zero_ServiceAccountDefaults =
     \<lparr>sad_Annotations = None\<rparr>"

record NetworkPolicyDefaults =
  npd_Enabled :: "bool option"
  npd_AllowDNS :: "bool option"

definition zero_NetworkPolicyDefaults :: NetworkPolicyDefaults where
  "zero_NetworkPolicyDefaults =
     \<lparr>npd_Enabled = None, npd_AllowDNS = None\<rparr>"

record SecurityDefaults =
  secd_ServiceAccount :: ServiceAccountDefaults
  secd_NetworkPolicy :: NetworkPolicyDefaults
  secd_CABundle :: CABundleSpec

definition zero_SecurityDefaults :: SecurityDefaults where
  "zero_SecurityDefaults =
     \<lparr>secd_ServiceAccount = zero_ServiceAccountDefaults, secd_NetworkPolicy =
      zero_NetworkPolicyDefaults, secd_CABundle = zero_CABundleSpec\<rparr>"

record ObservabilityDefaults =
  obsd_Metrics :: MetricsSpec
  obsd_ServiceMonitor :: ServiceMonitorSpec
  obsd_PrometheusRule :: PrometheusRuleSpec
  obsd_Logging :: LoggingSpec

definition zero_ObservabilityDefaults :: ObservabilityDefaults where
  "zero_ObservabilityDefaults =
     \<lparr>obsd_Metrics = zero_MetricsSpec, obsd_ServiceMonitor = zero_ServiceMonitorSpec,
      obsd_PrometheusRule = zero_PrometheusRuleSpec, obsd_Logging = zero_LoggingSpec\<rparr>"

record ServiceDefaults =
  sd_Type :: string

definition zero_ServiceDefaults :: ServiceDefaults where
  "zero_ServiceDefaults =
     \<lparr>sd_Type = ''''\<rparr>"

record NetworkingDefaults =
  nwd_Service :: ServiceDefaults
  nwd_NetworkPolicy :: NetworkPolicyDefaults

definition zero_NetworkingDefaults :: NetworkingDefaults where
  "zero_NetworkingDefaults =
     \<lparr>nwd_Service = zero_ServiceDefaults, nwd_NetworkPolicy = zero_NetworkPolicyDefaults\<rparr>"

record HermesClusterDefaultsSpec =
  hcds_Image :: ImageSpec
  hcds_Registry :: RegistryDefaults
  hcds_Storage :: StorageSpec
  hcds_Security :: SecurityDefaults
  hcds_Observability :: ObservabilityDefaults
  hcds_Networking :: NetworkingDefaults
  hcds_Resources :: ResourcesSpec

definition zero_HermesClusterDefaultsSpec :: HermesClusterDefaultsSpec where
  "zero_HermesClusterDefaultsSpec =
     \<lparr>hcds_Image = zero_ImageSpec, hcds_Registry = zero_RegistryDefaults, hcds_Storage =
      zero_StorageSpec, hcds_Security = zero_SecurityDefaults, hcds_Observability =
      zero_ObservabilityDefaults, hcds_Networking = zero_NetworkingDefaults, hcds_Resources
      = zero_ResourcesSpec\<rparr>"

record HermesClusterDefaultsStatus =
  hcdst_ObservedGeneration :: int
  hcdst_Conditions :: "Condition list"

definition zero_HermesClusterDefaultsStatus :: HermesClusterDefaultsStatus where
  "zero_HermesClusterDefaultsStatus =
     \<lparr>hcdst_ObservedGeneration = 0, hcdst_Conditions = []\<rparr>"

record HermesClusterDefaults =
  hcd_TypeMeta :: TypeMeta
  hcd_ObjectMeta :: ObjectMeta
  hcd_Spec :: HermesClusterDefaultsSpec
  hcd_Status :: HermesClusterDefaultsStatus

definition zero_HermesClusterDefaults :: HermesClusterDefaults where
  "zero_HermesClusterDefaults =
     \<lparr>hcd_TypeMeta = empty_type_meta, hcd_ObjectMeta = new_meta '''' '''', hcd_Spec =
      zero_HermesClusterDefaultsSpec, hcd_Status = zero_HermesClusterDefaultsStatus\<rparr>"

section \<open>HermesSelfConfig\<close>

record SelfConfigSkill =
  scsk_Source :: string
  scsk_Version :: string

definition zero_SelfConfigSkill :: SelfConfigSkill where
  "zero_SelfConfigSkill =
     \<lparr>scsk_Source = '''', scsk_Version = ''''\<rparr>"

record SelfConfigKeySelector =
  scks_Name :: string
  scks_Key :: string

definition zero_SelfConfigKeySelector :: SelfConfigKeySelector where
  "zero_SelfConfigKeySelector =
     \<lparr>scks_Name = '''', scks_Key = ''''\<rparr>"

record SelfConfigEnvVarSource =
  scv_SecretKeyRef :: "SelfConfigKeySelector option"
  scv_ConfigMapKeyRef :: "SelfConfigKeySelector option"

definition zero_SelfConfigEnvVarSource :: SelfConfigEnvVarSource where
  "zero_SelfConfigEnvVarSource =
     \<lparr>scv_SecretKeyRef = None, scv_ConfigMapKeyRef = None\<rparr>"

record SelfConfigEnvVar =
  sce_Name :: string
  sce_Value :: string
  sce_ValueFrom :: "SelfConfigEnvVarSource option"

definition zero_SelfConfigEnvVar :: SelfConfigEnvVar where
  "zero_SelfConfigEnvVar =
     \<lparr>sce_Name = '''', sce_Value = '''', sce_ValueFrom = None\<rparr>"

record SelfConfigWorkspaceFile =
  scf_Path :: string
  scf_Content :: string
  scf_ContentFrom :: "SelfConfigKeySelector option"

definition zero_SelfConfigWorkspaceFile :: SelfConfigWorkspaceFile where
  "zero_SelfConfigWorkspaceFile =
     \<lparr>scf_Path = '''', scf_Content = '''', scf_ContentFrom = None\<rparr>"

record SelfConfigProfileSnapshot =
  scp_ProfileID :: string
  scp_Data :: string

definition zero_SelfConfigProfileSnapshot :: SelfConfigProfileSnapshot where
  "zero_SelfConfigProfileSnapshot =
     \<lparr>scp_ProfileID = '''', scp_Data = ''''\<rparr>"

record HermesSelfConfigSpec =
  scs_InstanceRef :: string
  scs_AddSkills :: "SelfConfigSkill list"
  scs_PatchConfig :: "string option"
  scs_AddEnvVars :: "SelfConfigEnvVar list"
  scs_AddWorkspaceFiles :: "SelfConfigWorkspaceFile list"
  scs_AddProfileSnapshot :: "SelfConfigProfileSnapshot option"

definition zero_HermesSelfConfigSpec :: HermesSelfConfigSpec where
  "zero_HermesSelfConfigSpec =
     \<lparr>scs_InstanceRef = '''', scs_AddSkills = [], scs_PatchConfig = None, scs_AddEnvVars =
      [], scs_AddWorkspaceFiles = [], scs_AddProfileSnapshot = None\<rparr>"

record HermesSelfConfigStatus =
  scst_ObservedGeneration :: int
  scst_Phase :: string
  scst_AppliedAt :: "time option"
  scst_DenyReason :: string
  scst_AppliedFields :: "string list"
  scst_Conditions :: "Condition list"

definition zero_HermesSelfConfigStatus :: HermesSelfConfigStatus where
  "zero_HermesSelfConfigStatus =
     \<lparr>scst_ObservedGeneration = 0, scst_Phase = '''', scst_AppliedAt = None, scst_DenyReason
      = '''', scst_AppliedFields = [], scst_Conditions = []\<rparr>"

record HermesSelfConfig =
  hsc_TypeMeta :: TypeMeta
  hsc_ObjectMeta :: ObjectMeta
  hsc_Spec :: HermesSelfConfigSpec
  hsc_Status :: HermesSelfConfigStatus

definition zero_HermesSelfConfig :: HermesSelfConfig where
  "zero_HermesSelfConfig =
     \<lparr>hsc_TypeMeta = empty_type_meta, hsc_ObjectMeta = new_meta '''' '''', hsc_Spec =
      zero_HermesSelfConfigSpec, hsc_Status = zero_HermesSelfConfigStatus\<rparr>"

section \<open>Condition types, finalizers and annotations\<close>

abbreviation ConditionTypeReady :: string where "ConditionTypeReady \<equiv> ''Ready''"
abbreviation ConditionTypeStorageReady :: string where "ConditionTypeStorageReady \<equiv> ''StorageReady''"
abbreviation ConditionTypeConfigReady :: string where "ConditionTypeConfigReady \<equiv> ''ConfigReady''"
abbreviation ConditionTypeSecretsReady :: string where "ConditionTypeSecretsReady \<equiv> ''SecretsReady''"
abbreviation ConditionTypeNetworkPolicyReady :: string where "ConditionTypeNetworkPolicyReady \<equiv> ''NetworkPolicyReady''"
abbreviation ConditionTypeRBACReady :: string where "ConditionTypeRBACReady \<equiv> ''RBACReady''"
abbreviation ConditionTypeServiceReady :: string where "ConditionTypeServiceReady \<equiv> ''ServiceReady''"
abbreviation ConditionTypePDBReady :: string where "ConditionTypePDBReady \<equiv> ''PDBReady''"
abbreviation ConditionTypeHPAReady :: string where "ConditionTypeHPAReady \<equiv> ''HPAReady''"
abbreviation ConditionTypeIngressReady :: string where "ConditionTypeIngressReady \<equiv> ''IngressReady''"
abbreviation ConditionTypeHTTPRouteReady :: string where "ConditionTypeHTTPRouteReady \<equiv> ''HTTPRouteReady''"
abbreviation ConditionTypeServiceMonitorReady :: string where "ConditionTypeServiceMonitorReady \<equiv> ''ServiceMonitorReady''"
abbreviation ConditionTypePrometheusRuleReady :: string where "ConditionTypePrometheusRuleReady \<equiv> ''PrometheusRuleReady''"
abbreviation ConditionTypeGrafanaDashboardReady :: string where "ConditionTypeGrafanaDashboardReady \<equiv> ''GrafanaDashboardReady''"
abbreviation ConditionBackupReady :: string where "ConditionBackupReady \<equiv> ''BackupReady''"
abbreviation ConditionRestoreApplied :: string where "ConditionRestoreApplied \<equiv> ''RestoreApplied''"
abbreviation ConditionAutoUpdated :: string where "ConditionAutoUpdated \<equiv> ''AutoUpdated''"
abbreviation ConditionAutoUpdateRolledBack :: string where "ConditionAutoUpdateRolledBack \<equiv> ''AutoUpdateRolledBack''"
abbreviation ConditionMigrationCompleted :: string where "ConditionMigrationCompleted \<equiv> ''MigrationCompleted''"
abbreviation ConditionTailscaleReady :: string where "ConditionTailscaleReady \<equiv> ''TailscaleReady''"
abbreviation ConditionSemaphoreReady :: string where "ConditionSemaphoreReady \<equiv> ''SemaphoreReady''"
abbreviation FinalizerBackupOnDelete :: string where "FinalizerBackupOnDelete \<equiv> ''hermes.agent/backup-on-delete''"
abbreviation AnnotationAutoUpdateTarget :: string where "AnnotationAutoUpdateTarget \<equiv> ''hermes.agent/autoupdate-target''"
abbreviation AnnotationSkipFinalBackup :: string where "AnnotationSkipFinalBackup \<equiv> ''hermes.agent/skip-final-backup''"
abbreviation FinalizerSemaphoreCleanup :: string where "FinalizerSemaphoreCleanup \<equiv> ''hermes.agent/semaphore-cleanup''"

section \<open>Access paths\<close>

abbreviation inst_name :: "HermesInstance \<Rightarrow> string" where
  "inst_name i \<equiv> om_Name (hi_ObjectMeta i)"

abbreviation inst_ns :: "HermesInstance \<Rightarrow> string" where
  "inst_ns i \<equiv> om_Namespace (hi_ObjectMeta i)"

abbreviation spec_of :: "HermesInstance \<Rightarrow> HermesInstanceSpec" where
  "spec_of i \<equiv> hi_Spec i"

abbreviation status_of :: "HermesInstance \<Rightarrow> HermesInstanceStatus" where
  "status_of i \<equiv> hi_Status i"

lemmas zero_defs =
  zero_ImageSpec_def
  zero_RawConfig_def
  zero_ConfigSpec_def
  zero_WorkspaceFile_def
  zero_WorkspaceBootstrap_def
  zero_WorkspaceSpec_def
  zero_ResourcesSpec_def
  zero_RBACSpec_def
  zero_NetworkPolicySpec_def
  zero_CABundleSpec_def
  zero_SecuritySpec_def
  zero_PersistenceSpec_def
  zero_StorageSpec_def
  zero_NamedServicePort_def
  zero_ServiceSpec_def
  zero_IngressTLSSpec_def
  zero_IngressSpec_def
  zero_HTTPRouteParentRef_def
  zero_HTTPRouteSpec_def
  zero_NetworkingSpec_def
  zero_GrafanaDashboardSpec_def
  zero_MetricsSpec_def
  zero_ServiceMonitorSpec_def
  zero_PrometheusRule_def
  zero_PrometheusRuleSpec_def
  zero_LoggingSpec_def
  zero_ObservabilitySpec_def
  zero_PDBSpec_def
  zero_HPASpec_def
  zero_AvailabilitySpec_def
  zero_ProbesSpec_def
  zero_SchedulingSpec_def
  zero_InstanceSkill_def
  zero_SelfConfigureSpec_def
  zero_LocalObjectReference_def
  zero_BackupS3Spec_def
  zero_BackupSpec_def
  zero_AutoUpdateSourceSpec_def
  zero_AutoUpdateRollbackSpec_def
  zero_AutoUpdateSpec_def
  zero_NamespacedObjectReference_def
  zero_MigrationBackupS3_def
  zero_MigrationBackupRef_def
  zero_MigrationFromOpenClawSource_def
  zero_MigrationFromOpenClawSpec_def
  zero_MigrationSpec_def
  zero_UVCacheVolumeSpec_def
  zero_UVSpec_def
  zero_FFmpegSpec_def
  zero_RipgrepSpec_def
  zero_RuntimeSpec_def
  zero_TelegramGatewaySpec_def
  zero_DiscordGatewaySpec_def
  zero_SlackGatewaySpec_def
  zero_WhatsAppGatewaySpec_def
  zero_SignalGatewaySpec_def
  zero_GatewaysSpec_def
  zero_HonchoImageSpec_def
  zero_HonchoPersistenceSpec_def
  zero_HonchoSpec_def
  zero_ProfileStoreSpec_def
  zero_TailscaleAuthKey_def
  zero_TailscaleImageSpec_def
  zero_TailscaleSpec_def
  zero_SemaphoreSpec_def
  zero_HermesInstanceSpec_def
  zero_BackupStatus_def
  zero_AutoUpdateStatus_def
  zero_MigrationStatus_def
  zero_HermesInstanceStatus_def
  zero_HermesInstance_def
  zero_RegistryDefaults_def
  zero_ServiceAccountDefaults_def
  zero_NetworkPolicyDefaults_def
  zero_SecurityDefaults_def
  zero_ObservabilityDefaults_def
  zero_ServiceDefaults_def
  zero_NetworkingDefaults_def
  zero_HermesClusterDefaultsSpec_def
  zero_HermesClusterDefaultsStatus_def
  zero_HermesClusterDefaults_def
  zero_SelfConfigSkill_def
  zero_SelfConfigKeySelector_def
  zero_SelfConfigEnvVarSource_def
  zero_SelfConfigEnvVar_def
  zero_SelfConfigWorkspaceFile_def
  zero_SelfConfigProfileSnapshot_def
  zero_HermesSelfConfigSpec_def
  zero_HermesSelfConfigStatus_def
  zero_HermesSelfConfig_def
  new_meta_def empty_type_meta_def

end
