(* ===== verification/Env.thy ===== *)
theory Env
  imports API_Types
begin

text \<open>
  The world outside the operator's sources, as parameters. A \<open>kind_client\<close> is controller-runtime's
  \<open>client.Client\<close> restricted to one kind of object; \<open>env\<close> bundles the clients with the clock, the
  event recorder, the metrics and the helpers of \<open>k8s.io/apimachinery\<close> and \<open>controllerutil\<close>. An
  operation takes the state of the world and returns its answer with the next state, so nothing is
  assumed about what the API server does between two calls. The predicates of the last section
  state the documented behaviour some properties rely on; a property that needs one names it as a
  hypothesis.
\<close>

section \<open>The clients\<close>

text \<open>
  \<open>kc_patch original modified\<close> is \<open>Patch(ctx, modified, client.MergeFrom(original))\<close>, and
  \<open>kc_status_update\<close> is \<open>Status().Update\<close>: both return the object decoded from the server's
  answer, which then replaces the caller's. \<open>kc_apply\<close> is a server-side apply with its field owner
  and its force flag. The function \<open>kc_create_or_update\<close> takes is the mutate callback.
\<close>

record ('o, 'w) kind_client =
  kc_get :: "nsname \<Rightarrow> 'w \<Rightarrow> (go_error + 'o) \<times> 'w"
  kc_list :: "string \<Rightarrow> 'w \<Rightarrow> (go_error + 'o list) \<times> 'w"
  kc_create :: "'o \<Rightarrow> 'w \<Rightarrow> go_error option \<times> 'w"
  kc_delete :: "'o \<Rightarrow> 'w \<Rightarrow> go_error option \<times> 'w"
  kc_patch :: "'o \<Rightarrow> 'o \<Rightarrow> 'w \<Rightarrow> (go_error + 'o) \<times> 'w"
  kc_apply :: "'o \<Rightarrow> string \<Rightarrow> bool \<Rightarrow> 'w \<Rightarrow> go_error option \<times> 'w"
  kc_status_update :: "'o \<Rightarrow> 'w \<Rightarrow> (go_error + 'o) \<times> 'w"
  kc_create_or_update :: "'o \<Rightarrow> ('o \<Rightarrow> 'w \<Rightarrow> (go_error + 'o) \<times> 'w) \<Rightarrow> 'w \<Rightarrow> go_error option \<times> 'w"

datatype event_type = EventNormal | EventWarning

text \<open>The object an event is recorded on: its kind, namespace and name.\<close>

type_synonym objref = "string \<times> string \<times> string"

record 'w env =
  env_instances :: "(HermesInstance, 'w) kind_client"
  env_selfconfigs :: "(HermesSelfConfig, 'w) kind_client"
  env_clusterdefaults :: "(HermesClusterDefaults, 'w) kind_client"
  env_secrets :: "(Secret, 'w) kind_client"
  env_configmaps :: "(ConfigMap, 'w) kind_client"
  env_pvcs :: "(PersistentVolumeClaim, 'w) kind_client"
  env_serviceaccounts :: "(ServiceAccount, 'w) kind_client"
  env_roles :: "(Role, 'w) kind_client"
  env_rolebindings :: "(RoleBinding, 'w) kind_client"
  env_services :: "(Service, 'w) kind_client"
  env_netpols :: "(NetworkPolicy, 'w) kind_client"
  env_pdbs :: "(PodDisruptionBudget, 'w) kind_client"
  env_hpas :: "(HorizontalPodAutoscaler, 'w) kind_client"
  env_ingresses :: "(Ingress, 'w) kind_client"
  env_unstructured :: "GroupVersionKind \<Rightarrow> (Unstructured, 'w) kind_client"
  env_statefulsets :: "(StatefulSet, 'w) kind_client"
  env_deployments :: "(Deployment, 'w) kind_client"
  env_cronjobs :: "(CronJob, 'w) kind_client"
  env_jobs :: "(Job, 'w) kind_client"
  env_pods :: "(Pod, 'w) kind_client"
  env_events :: "(CoreEvent, 'w) kind_client"
  env_now :: "'w \<Rightarrow> time \<times> 'w"
  env_random :: "'w \<Rightarrow> (go_error + string) \<times> 'w"
  env_record :: "objref \<Rightarrow> event_type \<Rightarrow> string \<Rightarrow> string \<Rightarrow> 'w \<Rightarrow> 'w"
  env_count :: "string \<Rightarrow> string list \<Rightarrow> 'w \<Rightarrow> 'w"
  env_set_owner :: "HermesInstance \<Rightarrow> ObjectMeta \<Rightarrow> go_error + ObjectMeta"
  env_set_condition :: "'w \<Rightarrow> Condition list \<Rightarrow> Condition \<Rightarrow> Condition list"
  env_remove_condition :: "Condition list \<Rightarrow> string \<Rightarrow> Condition list"
  env_condition_true :: "Condition list \<Rightarrow> string \<Rightarrow> bool"
  env_quantity_ok :: "string \<Rightarrow> bool"

definition instance_ref :: "HermesInstance \<Rightarrow> objref" where
  "instance_ref i = (''HermesInstance'', inst_ns i, inst_name i)"

definition inst_key :: "HermesInstance \<Rightarrow> nsname" where
  "inst_key i = (inst_ns i, inst_name i)"

section \<open>Panics and wrapped errors\<close>

text \<open>
  A panic is not an error value: it unwinds the handler, and no code of the operator wraps or
  inspects it.
\<close>

definition is_panic :: "go_error \<Rightarrow> bool" where
  "is_panic e = (case e of GoPanic _ \<Rightarrow> True | _ \<Rightarrow> False)"

definition nil_deref :: go_error where
  "nil_deref = GoPanic ''nil pointer dereference''"

text \<open>\<open>fmt.Errorf("s: %w", err)\<close> on the way of an error.\<close>

definition wrapf :: "string \<Rightarrow> go_error \<Rightarrow> go_error" where
  "wrapf s e = (if is_panic e then e else Wrapped s e)"

lemma is_panic_simps [simp]:
  "is_panic (GoPanic s)" "\<not> is_panic (Plain s)" "\<not> is_panic (ApiStatus r s)" "\<not> is_panic (Wrapped s e)"
  "is_panic (wrapf s e) = is_panic e"
  by (simp_all add: is_panic_def wrapf_def)

section \<open>Conditions on the object in hand\<close>

definition condition :: "HermesInstance \<Rightarrow> string \<Rightarrow> cond_status \<Rightarrow> string \<Rightarrow> string \<Rightarrow> Condition" where
  "condition i t s reason msg =
     \<lparr>cd_Type = t, cd_Status = s, cd_Reason = reason, cd_Message = msg,
      cd_ObservedGeneration = om_Generation (hi_ObjectMeta i), cd_LastTransitionTime = None\<rparr>"

definition upd_status :: "(HermesInstanceStatus \<Rightarrow> HermesInstanceStatus) \<Rightarrow> HermesInstance \<Rightarrow> HermesInstance" where
  "upd_status f i = i\<lparr>hi_Status := f (hi_Status i)\<rparr>"

definition upd_meta :: "(ObjectMeta \<Rightarrow> ObjectMeta) \<Rightarrow> HermesInstance \<Rightarrow> HermesInstance" where
  "upd_meta f i = i\<lparr>hi_ObjectMeta := f (hi_ObjectMeta i)\<rparr>"

definition put_condition :: "'w env \<Rightarrow> 'w \<Rightarrow> Condition \<Rightarrow> HermesInstance \<Rightarrow> HermesInstance" where
  "put_condition E w c i =
     upd_status (\<lambda>s. s\<lparr>st_Conditions := env_set_condition E w (st_Conditions s) c\<rparr>) i"

definition drop_condition :: "'w env \<Rightarrow> string \<Rightarrow> HermesInstance \<Rightarrow> HermesInstance" where
  "drop_condition E t i =
     upd_status (\<lambda>s. s\<lparr>st_Conditions := env_remove_condition E (st_Conditions s) t\<rparr>) i"

text \<open>
  \<open>r.Status().Update(ctx, inst)\<close>: on success the server's answer replaces the object in hand.
\<close>

definition status_update ::
  "'w env \<Rightarrow> HermesInstance \<Rightarrow> 'w \<Rightarrow> go_error option \<times> HermesInstance \<times> 'w" where
  "status_update E i w =
     (case kc_status_update (env_instances E) i w of
        (Inl e, w1) \<Rightarrow> (Some e, i, w1)
      | (Inr i', w1) \<Rightarrow> (None, i', w1))"

definition patch_instance ::
  "'w env \<Rightarrow> HermesInstance \<Rightarrow> HermesInstance \<Rightarrow> 'w \<Rightarrow> go_error option \<times> HermesInstance \<times> 'w" where
  "patch_instance E original i w =
     (case kc_patch (env_instances E) original i w of
        (Inl e, w1) \<Rightarrow> (Some e, i, w1)
      | (Inr i', w1) \<Rightarrow> (None, i', w1))"

lemma upd_status_simps [simp]:
  "hi_Spec (upd_status f i) = hi_Spec i"
  "hi_ObjectMeta (upd_status f i) = hi_ObjectMeta i"
  "hi_Status (upd_status f i) = f (hi_Status i)"
  by (simp_all add: upd_status_def)

lemma upd_meta_simps [simp]:
  "hi_Spec (upd_meta f i) = hi_Spec i"
  "hi_Status (upd_meta f i) = hi_Status i"
  "hi_ObjectMeta (upd_meta f i) = f (hi_ObjectMeta i)"
  by (simp_all add: upd_meta_def)

lemma put_condition_simps [simp]:
  "hi_Spec (put_condition E w c i) = hi_Spec i"
  "hi_ObjectMeta (put_condition E w c i) = hi_ObjectMeta i"
  "st_RestoredFrom (hi_Status (put_condition E w c i)) = st_RestoredFrom (hi_Status i)"
  "st_Backup (hi_Status (put_condition E w c i)) = st_Backup (hi_Status i)"
  "st_AutoUpdate (hi_Status (put_condition E w c i)) = st_AutoUpdate (hi_Status i)"
  "st_Migration (hi_Status (put_condition E w c i)) = st_Migration (hi_Status i)"
  "st_Phase (hi_Status (put_condition E w c i)) = st_Phase (hi_Status i)"
  "st_ObservedGeneration (hi_Status (put_condition E w c i)) = st_ObservedGeneration (hi_Status i)"
  "st_Conditions (hi_Status (put_condition E w c i)) =
     env_set_condition E w (st_Conditions (hi_Status i)) c"
  by (simp_all add: put_condition_def)

lemma drop_condition_simps [simp]:
  "hi_Spec (drop_condition E t i) = hi_Spec i"
  "hi_ObjectMeta (drop_condition E t i) = hi_ObjectMeta i"
  "st_RestoredFrom (hi_Status (drop_condition E t i)) = st_RestoredFrom (hi_Status i)"
  "st_Backup (hi_Status (drop_condition E t i)) = st_Backup (hi_Status i)"
  "st_AutoUpdate (hi_Status (drop_condition E t i)) = st_AutoUpdate (hi_Status i)"
  "st_Migration (hi_Status (drop_condition E t i)) = st_Migration (hi_Status i)"
  "st_Conditions (hi_Status (drop_condition E t i)) =
     env_remove_condition E (st_Conditions (hi_Status i)) t"
  by (simp_all add: drop_condition_def)

section \<open>Documented behaviour\<close>

definition find_condition :: "Condition list \<Rightarrow> string \<Rightarrow> Condition option" where
  "find_condition cs t = find (\<lambda>c. cd_Type c = t) cs"

text \<open>
  \<open>meta.SetStatusCondition\<close> adds or overwrites the condition of the given type and leaves the
  others; \<open>meta.RemoveStatusCondition\<close> removes it; \<open>meta.IsStatusConditionTrue\<close> reads it.
\<close>

definition conditions_api :: "'w env \<Rightarrow> bool" where
  "conditions_api E \<longleftrightarrow>
     (\<forall>w cs c. \<exists>t. find_condition (env_set_condition E w cs c) (cd_Type c) = Some (c\<lparr>cd_LastTransitionTime := t\<rparr>)) \<and>
     (\<forall>w cs c t. t \<noteq> cd_Type c \<longrightarrow> find_condition (env_set_condition E w cs c) t = find_condition cs t) \<and>
     (\<forall>cs t. find_condition (env_remove_condition E cs t) t = None) \<and>
     (\<forall>cs t t'. t' \<noteq> t \<longrightarrow> find_condition (env_remove_condition E cs t) t' = find_condition cs t') \<and>
     (\<forall>cs t. env_condition_true E cs t =
        (case find_condition cs t of None \<Rightarrow> False | Some c \<Rightarrow> cd_Status c = ConditionTrue))"

lemma conditions_apiD:
  assumes "conditions_api E"
  shows "\<exists>t. find_condition (env_set_condition E w cs c) (cd_Type c) = Some (c\<lparr>cd_LastTransitionTime := t\<rparr>)"
    and "t \<noteq> cd_Type c \<Longrightarrow> find_condition (env_set_condition E w cs c) t = find_condition cs t"
    and "find_condition (env_remove_condition E cs t) t = None"
    and "t' \<noteq> t \<Longrightarrow> find_condition (env_remove_condition E cs t) t' = find_condition cs t'"
    and "env_condition_true E cs t =
        (case find_condition cs t of None \<Rightarrow> False | Some c \<Rightarrow> cd_Status c = ConditionTrue)"
  using assms unfolding conditions_api_def by blast+

text \<open>
  A successful status update answers with the status it was sent, on the same object, and the
  update of a status subresource leaves metadata and spec alone. A successful merge patch of the
  main resource answers with the metadata and spec it was sent and with the stored status.
\<close>

definition status_update_echoes :: "'w env \<Rightarrow> bool" where
  "status_update_echoes E \<longleftrightarrow>
     (\<forall>i w i' w'. kc_status_update (env_instances E) i w = (Inr i', w') \<longrightarrow>
        hi_Status i' = hi_Status i \<and> hi_Spec i' = hi_Spec i \<and>
        om_Finalizers (hi_ObjectMeta i') = om_Finalizers (hi_ObjectMeta i) \<and>
        inst_name i' = inst_name i \<and> inst_ns i' = inst_ns i)"

definition patch_echoes_meta :: "'w env \<Rightarrow> bool" where
  "patch_echoes_meta E \<longleftrightarrow>
     (\<forall>o1 i w i' w'. kc_patch (env_instances E) o1 i w = (Inr i', w') \<longrightarrow>
        hi_Spec i' = hi_Spec i \<and>
        om_Finalizers (hi_ObjectMeta i') = om_Finalizers (hi_ObjectMeta i) \<and>
        inst_name i' = inst_name i \<and> inst_ns i' = inst_ns i)"

lemma patch_echoesD:
  assumes "patch_echoes_meta E" and "kc_patch (env_instances E) o1 i w = (Inr i', w')"
  shows "hi_Spec i' = hi_Spec i" and "om_Finalizers (hi_ObjectMeta i') = om_Finalizers (hi_ObjectMeta i)"
    and "inst_name i' = inst_name i" and "inst_ns i' = inst_ns i"
  using assms unfolding patch_echoes_meta_def by blast+

lemma status_update_Some:
  "status_update E i w = (Some e, i', w') \<Longrightarrow> i' = i"
  by (auto simp: status_update_def split: prod.splits sum.splits)

lemma status_update_None:
  assumes "status_update_echoes E" and "status_update E i w = (None, i', w')"
  shows "hi_Status i' = hi_Status i" and "hi_Spec i' = hi_Spec i"
    and "om_Finalizers (hi_ObjectMeta i') = om_Finalizers (hi_ObjectMeta i)"
    and "inst_name i' = inst_name i" and "inst_ns i' = inst_ns i"
  using assms unfolding status_update_def status_update_echoes_def
  by (auto split: prod.splits sum.splits)

lemma status_update_status:
  assumes "status_update_echoes E" and "status_update E i w = (r, i', w')"
  shows "hi_Status i' = hi_Status i" and "hi_Spec i' = hi_Spec i"
  using assms unfolding status_update_def status_update_echoes_def
  by (auto split: prod.splits sum.splits)

section \<open>Latches\<close>

text \<open>
  A controller whose state has a terminal form: once latched, a step keeps the form, keeps what it
  shows and leaves the world alone. Any number of steps then does.
\<close>

fun run_steps :: "('s \<Rightarrow> 'w \<Rightarrow> 's \<times> 'w) \<Rightarrow> nat \<Rightarrow> 's \<Rightarrow> 'w \<Rightarrow> 's \<times> 'w" where
  "run_steps step 0 s w = (s, w)"
| "run_steps step (Suc n) s w = (case step s w of (s', w') \<Rightarrow> run_steps step n s' w')"

locale latch =
  fixes step :: "'s \<Rightarrow> 'w \<Rightarrow> 's \<times> 'w" and latched :: "'s \<Rightarrow> bool" and shown :: "'s \<Rightarrow> 'v"
  assumes latched_step:
    "latched s \<Longrightarrow> step s w = (s', w') \<Longrightarrow> latched s' \<and> shown s' = shown s \<and> w' = w"
begin

lemma latched_run:
  "latched s \<Longrightarrow> run_steps step n s w = (s', w') \<Longrightarrow> latched s' \<and> shown s' = shown s \<and> w' = w"
proof (induction n arbitrary: s w)
  case (Suc n)
  obtain s1 w1 where st: "step s w = (s1, w1)" by fastforce
  from latched_step [OF Suc.prems(1) st] have l: "latched s1" "shown s1 = shown s" "w1 = w" by auto
  from Suc.prems(2) st have "run_steps step n s1 w1 = (s', w')" by simp
  from Suc.IH [OF l(1) this] l show ?case by simp
qed simp

end

section \<open>A quiet environment\<close>

text \<open>
  A world with no objects in which every write succeeds and answers with what it was sent, and the
  documented condition helpers. Witnesses start from it and override what they need.
\<close>

definition quiet_client :: "('o, 'w) kind_client" where
  "quiet_client =
     \<lparr>kc_get = (\<lambda>k w. (Inl (ApiStatus ReasonNotFound ''not found''), w)),
      kc_list = (\<lambda>ns w. (Inr [], w)), kc_create = (\<lambda>obj w. (None, w)), kc_delete = (\<lambda>obj w. (None, w)),
      kc_patch = (\<lambda>o1 obj w. (Inr obj, w)), kc_apply = (\<lambda>obj own f w. (None, w)),
      kc_status_update = (\<lambda>obj w. (Inr obj, w)),
      kc_create_or_update = (\<lambda>obj f w. case f obj w of (Inl e, w1) \<Rightarrow> (Some e, w1) | (Inr o1, w1) \<Rightarrow> (None, w1))\<rparr>"

definition set_cond :: "Condition list \<Rightarrow> Condition \<Rightarrow> Condition list" where
  "set_cond cs c =
     (if \<exists>d \<in> set cs. cd_Type d = cd_Type c then map (\<lambda>d. if cd_Type d = cd_Type c then c else d) cs
      else cs @ [c])"

definition quiet_env :: "'w env" where
  "quiet_env =
     \<lparr>env_instances = quiet_client, env_selfconfigs = quiet_client, env_clusterdefaults = quiet_client,
      env_secrets = quiet_client, env_configmaps = quiet_client, env_pvcs = quiet_client,
      env_serviceaccounts = quiet_client, env_roles = quiet_client, env_rolebindings = quiet_client,
      env_services = quiet_client, env_netpols = quiet_client, env_pdbs = quiet_client,
      env_hpas = quiet_client, env_ingresses = quiet_client, env_unstructured = (\<lambda>gvk. quiet_client),
      env_statefulsets = quiet_client, env_deployments = quiet_client, env_cronjobs = quiet_client,
      env_jobs = quiet_client, env_pods = quiet_client, env_events = quiet_client,
      env_now = (\<lambda>w. (0, w)), env_random = (\<lambda>w. (Inr ''0'', w)),
      env_record = (\<lambda>ref ty r m w. w), env_count = (\<lambda>n ls w. w),
      env_set_owner = (\<lambda>i m. Inr m), env_set_condition = (\<lambda>w. set_cond),
      env_remove_condition = (\<lambda>cs t. filter (\<lambda>c. cd_Type c \<noteq> t) cs),
      env_condition_true = (\<lambda>cs t. case find_condition cs t of None \<Rightarrow> False | Some c \<Rightarrow> cd_Status c = ConditionTrue),
      env_quantity_ok = (\<lambda>s. True)\<rparr>"

lemma find_set_cond:
  "find_condition (set_cond cs c) t = (if t = cd_Type c then Some c else find_condition cs t)"
proof -
  have 1: "find (\<lambda>x. cd_Type x = t) (map (\<lambda>d. if cd_Type d = cd_Type c then c else d) cs) =
      (if t = cd_Type c then (if \<exists>d \<in> set cs. cd_Type d = t then Some c else None)
       else find (\<lambda>x. cd_Type x = t) cs)"
    by (induction cs) auto
  have 2: "find (\<lambda>x. cd_Type x = t) (cs @ [c]) =
      (case find (\<lambda>x. cd_Type x = t) cs of None \<Rightarrow> if cd_Type c = t then Some c else None | Some d \<Rightarrow> Some d)"
    by (induction cs) auto
  have 3: "find (\<lambda>x. cd_Type x = t) cs = None \<longleftrightarrow> \<not> (\<exists>d \<in> set cs. cd_Type d = t)"
    by (induction cs) auto
  show ?thesis
    using 1 2 3 by (auto simp: find_condition_def set_cond_def split: option.splits)
qed

lemma find_filter:
  "find_condition (filter (\<lambda>c. cd_Type c \<noteq> t) cs) t' = (if t' = t then None else find_condition cs t')"
  by (induction cs) (auto simp: find_condition_def)

lemma quiet_conditions: "conditions_api quiet_env"
proof -
  have "c = c\<lparr>cd_LastTransitionTime := cd_LastTransitionTime c\<rparr>" for c :: Condition by simp
  then have "\<exists>t. c = c\<lparr>cd_LastTransitionTime := t\<rparr>" for c :: Condition by blast
  then show ?thesis
    by (simp add: conditions_api_def quiet_env_def find_set_cond find_filter)
qed

lemma quiet_echoes [simp]: "status_update_echoes quiet_env" "patch_echoes_meta quiet_env"
  by (simp_all add: status_update_echoes_def patch_echoes_meta_def quiet_env_def quiet_client_def)

end
