(* ===== verification/JSON.thy ===== *)
theory JSON
  imports Prelude
begin

text \<open>
  What the operator uses of \<open>encoding/json\<close>: \<open>json.Unmarshal\<close> into a generic value (a lexer, then a
  parser over tokens; \<open>None\<close> is a decoding error) and \<open>json.Marshal\<close> of a struct, whose fields are
  given in order. Input is UTF-8; the two line separators U+2028 and U+2029 are printed as they
  are. The last section shows that printed documents without numbers determine their value.
\<close>

section \<open>Lexing\<close>

datatype token = LBrace | RBrace | LBrack | RBrack | Comma | Colon | TStr string | TLit json

definition hexval :: "char \<Rightarrow> nat option" where
  "hexval c =
     (let n = of_char c in
      if 48 \<le> n \<and> n \<le> 57 then Some (n - 48)
      else if 97 \<le> n \<and> n \<le> 102 then Some (n - 87)
      else if 65 \<le> n \<and> n \<le> 70 then Some (n - 55)
      else None)"

fun hex4 :: "string \<Rightarrow> (nat \<times> string) option" where
  "hex4 (a # b # c # d # s) =
     (case (hexval a, hexval b, hexval c, hexval d) of
        (Some a, Some b, Some c, Some d) \<Rightarrow> Some (4096 * a + 256 * b + 16 * c + d, s)
      | _ \<Rightarrow> None)"
| "hex4 _ = None"

definition utf8 :: "nat \<Rightarrow> string" where
  "utf8 n =
     map char_of
       (if n < 128 then [n]
        else if n < 2048 then [192 + n div 64, 128 + n mod 64]
        else if n < 65536 then [224 + n div 4096, 128 + n div 64 mod 64, 128 + n mod 64]
        else [240 + n div 262144, 128 + n div 4096 mod 64, 128 + n div 64 mod 64, 128 + n mod 64])"

text \<open>The escape \<open>u\<close>: a code unit, or a surrogate pair; a lone surrogate is U+FFFD.\<close>

definition lex_unicode :: "string \<Rightarrow> (string \<times> string) option" where
  "lex_unicode s =
     (case hex4 s of
        None \<Rightarrow> None
      | Some (n, r) \<Rightarrow>
          if n < 55296 \<or> 57343 < n then Some (utf8 n, r)
          else (case (take 2 r = [CHR 0x5C, CHR ''u''], hex4 (drop 2 r)) of
                  (True, Some (m, r')) \<Rightarrow>
                    if n < 56320 \<and> 56320 \<le> m \<and> m \<le> 57343
                    then Some (utf8 (65536 + 1024 * (n - 55296) + (m - 56320)), r')
                    else Some (utf8 65533, r)
                | _ \<Rightarrow> Some (utf8 65533, r)))"

definition simple_escape :: "char \<Rightarrow> char option" where
  "simple_escape e =
     (if e \<in> {CHR 0x22, CHR 0x5C, CHR ''/''} then Some e
      else if e = CHR ''b'' then Some (CHR 0x08)
      else if e = CHR ''f'' then Some (CHR 0x0C)
      else if e = CHR ''n'' then Some (CHR 0x0A)
      else if e = CHR ''r'' then Some (CHR 0x0D)
      else if e = CHR ''t'' then Some (CHR 0x09)
      else None)"

text \<open>
  The characters of a string after its opening quote, with what follows the closing one. The
  tests on lengths always hold; they make the recursion evident.
\<close>

function lex_string :: "string \<Rightarrow> (string \<times> string) option" where
  "lex_string [] = None"
| "lex_string (c # t) =
     (if c = CHR 0x22 then Some ([], t)
      else if c = CHR 0x5C then
        (case t of
           [] \<Rightarrow> None
         | e # u \<Rightarrow>
             (case (if e = CHR ''u'' then lex_unicode u
                    else map_option (\<lambda>x. ([x], u)) (simple_escape e)) of
                None \<Rightarrow> None
              | Some (x, r) \<Rightarrow>
                  if length r \<le> length t
                  then map_option (\<lambda>(y, r'). (x @ y, r')) (lex_string r) else None))
      else if (of_char c :: nat) < 32 then None
      else map_option (\<lambda>(y, r'). (c # y, r')) (lex_string t))"
  by pat_completeness auto
termination by (relation "measure length") auto

definition is_digit :: "char \<Rightarrow> bool" where
  "is_digit c \<longleftrightarrow> (let n = of_char c :: nat in 48 \<le> n \<and> n \<le> 57)"

definition digits_val :: "string \<Rightarrow> nat" where
  "digits_val ds = foldl (\<lambda>n c. 10 * n + (of_char c - 48)) 0 ds"

text \<open>
  \<open>strconv.ParseFloat\<close> fails on a magnitude that rounds to infinity, and then so does decoding.
  The value is that of the digits \<open>ds\<close> times \<open>10 ^ e\<close>: less than \<open>10 ^ 308\<close> when the digits and the
  exponent add up to 308 at most, and compared with the largest finite value otherwise.
\<close>

definition float_overflows :: "string \<Rightarrow> int \<Rightarrow> bool" where
  "float_overflows ds e \<longleftrightarrow>
     (if int (length ds) + e \<le> 308 then False
      else (let m = digits_val ds; bound = 2 ^ 1024 - 2 ^ 970 :: nat in
            m \<noteq> 0 \<and> (if 400 < e then True
                     else if 0 \<le> e then bound \<le> m * 10 ^ nat e
                     else bound * 10 ^ nat (- e) \<le> m)))"

definition lex_number :: "string \<Rightarrow> (json \<times> string) option" where
  "lex_number s =
     (let (sign, s1) = (if take 1 s = ''-'' then (''-'', drop 1 s) else ('''', s));
          ip = takeWhile is_digit s1; s2 = dropWhile is_digit s1 in
      if ip = [] \<or> (1 < length ip \<and> hd ip = CHR ''0'') then None
      else
        (let fp = (if take 1 s2 = ''.'' then takeWhile is_digit (drop 1 s2) else '''');
             s3 = (if take 1 s2 = ''.'' then dropWhile is_digit (drop 1 s2) else s2) in
         if take 1 s2 = ''.'' \<and> fp = [] then None
         else
           (let has_e = (take 1 s3 = ''e'' \<or> take 1 s3 = ''E'');
                s4 = (if has_e then drop 1 s3 else s3);
                neg = (has_e \<and> take 1 s4 = ''-'');
                s5 = (if has_e \<and> (take 1 s4 = ''-'' \<or> take 1 s4 = ''+'') then drop 1 s4 else s4);
                ep = (if has_e then takeWhile is_digit s5 else '''');
                s6 = (if has_e then dropWhile is_digit s5 else s5);
                e = (if neg then - int (digits_val ep) else int (digits_val ep)) - int (length fp) in
            if has_e \<and> ep = [] then None
            else if float_overflows (ip @ fp) e then None
            else Some (JNum (take (length s - length s6) s), s6))))"

definition json_ws :: "char \<Rightarrow> bool" where
  "json_ws c \<longleftrightarrow> c \<in> {CHR 0x20, CHR 0x09, CHR 0x0A, CHR 0x0D}"

definition lex_token :: "string \<Rightarrow> (token \<times> string) option" where
  "lex_token s =
     (case s of
        [] \<Rightarrow> None
      | c # t \<Rightarrow>
          if c = CHR ''{'' then Some (LBrace, t)
          else if c = CHR ''}'' then Some (RBrace, t)
          else if c = CHR ''['' then Some (LBrack, t)
          else if c = CHR '']'' then Some (RBrack, t)
          else if c = CHR '','' then Some (Comma, t)
          else if c = CHR '':'' then Some (Colon, t)
          else if c = CHR 0x22 then map_option (\<lambda>(x, r). (TStr x, r)) (lex_string t)
          else if HasPrefix s ''null'' then Some (TLit JNull, drop 4 s)
          else if HasPrefix s ''true'' then Some (TLit (JBool True), drop 4 s)
          else if HasPrefix s ''false'' then Some (TLit (JBool False), drop 5 s)
          else map_option (\<lambda>(x, r). (TLit x, r)) (lex_number s))"

function tokens :: "string \<Rightarrow> token list option" where
  "tokens [] = Some []"
| "tokens (c # t) =
     (if json_ws c then tokens t
      else (case lex_token (c # t) of
              None \<Rightarrow> None
            | Some (x, r) \<Rightarrow>
                if length r \<le> length t then map_option ((#) x) (tokens r) else None))"
  by pat_completeness auto
termination by (relation "measure length") auto

section \<open>Parsing\<close>

text \<open>
  Values, the rest of an array and the rest of an object, nested at most \<open>maxNestingDepth\<close>. A
  repeated key of an object overwrites the earlier one.
\<close>

definition maxNestingDepth :: nat where "maxNestingDepth = 10000"

function (sequential)
  p_value :: "nat \<Rightarrow> token list \<Rightarrow> (json \<times> token list) option" and
  p_elems :: "nat \<Rightarrow> json list \<Rightarrow> token list \<Rightarrow> (json \<times> token list) option" and
  p_members :: "nat \<Rightarrow> (string \<times> json) list \<Rightarrow> token list \<Rightarrow> (json \<times> token list) option" where
  "p_value d (TLit j # ts) = Some (j, ts)"
| "p_value d (TStr x # ts) = Some (JStr x, ts)"
| "p_value d (LBrack # RBrack # ts) = (if d < maxNestingDepth then Some (JArr [], ts) else None)"
| "p_value d (LBrack # ts) = (if d < maxNestingDepth then p_elems (Suc d) [] ts else None)"
| "p_value d (LBrace # RBrace # ts) = (if d < maxNestingDepth then Some (JObj [], ts) else None)"
| "p_value d (LBrace # ts) = (if d < maxNestingDepth then p_members (Suc d) [] ts else None)"
| "p_value d ts = None"
| "p_elems d acc ts =
     (case p_value d ts of
        Some (v, RBrack # r) \<Rightarrow> Some (JArr (rev (v # acc)), r)
      | Some (v, Comma # r) \<Rightarrow>
          if length r < length ts then p_elems d (v # acc) r else None
      | _ \<Rightarrow> None)"
| "p_members d acc (TStr k # Colon # ts) =
     (case p_value d ts of
        Some (v, RBrace # r) \<Rightarrow> Some (JObj (mset1 k v acc), r)
      | Some (v, Comma # r) \<Rightarrow>
          if length r < length ts then p_members d (mset1 k v acc) r else None
      | _ \<Rightarrow> None)"
| "p_members d acc ts = None"
  by pat_completeness auto
termination
  by (relation "measures [\<lambda>x. case x of Inl (d, ts) \<Rightarrow> length ts
                             | Inr (Inl (d, acc, ts)) \<Rightarrow> length ts
                             | Inr (Inr (d, acc, ts)) \<Rightarrow> length ts,
                          \<lambda>x. case x of Inl _ \<Rightarrow> 0 | Inr _ \<Rightarrow> 1]") auto

definition Unmarshal :: "string \<Rightarrow> json option" where
  "Unmarshal s =
     (case tokens s of
        None \<Rightarrow> None
      | Some ts \<Rightarrow> (case p_value 0 ts of Some (j, []) \<Rightarrow> Some j | _ \<Rightarrow> None))"

text \<open>Decoding into a \<open>map[string]interface{}\<close>: an object, or \<open>null\<close> for the nil map.\<close>

definition Unmarshal_map :: "string \<Rightarrow> (string \<times> json) list option" where
  "Unmarshal_map s =
     (case Unmarshal s of
        Some (JObj m) \<Rightarrow> Some m
      | Some JNull \<Rightarrow> Some []
      | _ \<Rightarrow> None)"

section \<open>Printing\<close>

definition json_char :: "char \<Rightarrow> string" where
  "json_char c =
     (let n = of_char c :: nat in
      if c = CHR 0x22 then [CHR 0x5C, CHR 0x22]
      else if c = CHR 0x5C then [CHR 0x5C, CHR 0x5C]
      else if c = CHR 0x08 then [CHR 0x5C, CHR ''b'']
      else if c = CHR 0x09 then [CHR 0x5C, CHR ''t'']
      else if c = CHR 0x0A then [CHR 0x5C, CHR ''n'']
      else if c = CHR 0x0C then [CHR 0x5C, CHR ''f'']
      else if c = CHR 0x0D then [CHR 0x5C, CHR ''r'']
      else if n < 32 \<or> n = 38 \<or> n = 60 \<or> n = 62
      then [CHR 0x5C, CHR ''u'', CHR ''0'', CHR ''0'', hex_digit (n div 16), hex_digit (n mod 16)]
      else [c])"

fun json_chars :: "string \<Rightarrow> string" where
  "json_chars [] = [CHR 0x22]"
| "json_chars (c # s) = json_char c @ json_chars s"

definition json_string :: "string \<Rightarrow> string" where
  "json_string s = CHR 0x22 # json_chars s"

fun print_json :: "json \<Rightarrow> string" and print_elems :: "json list \<Rightarrow> string" and
  print_fields :: "(string \<times> json) list \<Rightarrow> string" where
  "print_json JNull = ''null''"
| "print_json (JBool b) = fmt_bool b"
| "print_json (JInt i) = Itoa i"
| "print_json (JNum s) = s"
| "print_json (JStr s) = json_string s"
| "print_json (JArr []) = ''[]''"
| "print_json (JArr (v # l)) = ''['' @ print_json v @ print_elems l"
| "print_json (JObj []) = ''{}''"
| "print_json (JObj ((k, v) # m)) = ''{'' @ json_string k @ '':'' @ print_json v @ print_fields m"
| "print_elems [] = '']''"
| "print_elems (v # l) = '','' @ print_json v @ print_elems l"
| "print_fields [] = ''}''"
| "print_fields ((k, v) # m) = '','' @ json_string k @ '':'' @ print_json v @ print_fields m"

section \<open>Printing is unambiguous\<close>

definition unhex :: "char \<Rightarrow> nat" where
  "unhex c = (case hexval c of None \<Rightarrow> 0 | Some n \<Rightarrow> n)"

lemma unhex_hex_digit: "n < 16 \<Longrightarrow> unhex (hex_digit n) = n"
  by (auto simp: unhex_def hexval_def hex_digit_def Let_def)

text \<open>Reading one printed character back.\<close>

fun unescape :: "string \<Rightarrow> (char \<times> string) option" where
  "unescape [] = None"
| "unescape (c # t) =
     (if c = CHR 0x22 then None
      else if c \<noteq> CHR 0x5C then Some (c, t)
      else (case t of
              [] \<Rightarrow> None
            | e # u \<Rightarrow>
                if e = CHR ''u''
                then (case u of
                        _ # _ # a # b # r \<Rightarrow> Some (char_of (16 * unhex a + unhex b), r)
                      | _ \<Rightarrow> None)
                else map_option (\<lambda>x. (x, u)) (simple_escape e)))"

lemma unescape_json_char: "unescape (json_char c @ x) = Some (c, x)"
proof -
  let ?n = "of_char c :: nat"
  have "?n < 256" by simp
  then have "?n div 16 < 16" by linarith
  then have "16 * unhex (hex_digit (?n div 16)) + unhex (hex_digit (?n mod 16)) = ?n"
    by (simp add: unhex_hex_digit)
  then have restored: "char_of (16 * unhex (hex_digit (?n div 16)) + unhex (hex_digit (?n mod 16))) = c"
    by (metis char_of_char)
  show ?thesis
    by (simp add: json_char_def Let_def simple_escape_def restored)
qed

lemma json_char_eq: "json_char c @ x = json_char d @ y \<Longrightarrow> c = d \<and> x = y"
  by (metis unescape_json_char option.inject prod.inject)

lemma json_char_quote [simp]: "json_char c @ x \<noteq> CHR 0x22 # y"
proof
  assume "json_char c @ x = CHR 0x22 # y"
  then have "unescape (CHR 0x22 # y) = Some (c, x)"
    by (metis unescape_json_char)
  then show False by simp
qed

lemma quote_json_char [simp]: "CHR 0x22 # y \<noteq> json_char c @ x"
  by (metis json_char_quote)

lemma json_chars_eq: "json_chars s @ x = json_chars t @ y \<Longrightarrow> s = t \<and> x = y"
proof (induction s arbitrary: t)
  case Nil
  then show ?case
    by (cases t) auto
next
  case (Cons c s)
  then show ?case
    by (cases t) (auto dest: json_char_eq)
qed

lemma json_string_eq [simp]:
  "json_string s @ x = json_string t @ y \<longleftrightarrow> s = t \<and> x = y"
  by (auto simp: json_string_def dest: json_chars_eq)

text \<open>Documents without numbers.\<close>

fun no_numbers :: "json \<Rightarrow> bool" where
  "no_numbers (JInt i) = False"
| "no_numbers (JNum s) = False"
| "no_numbers (JArr l) = (\<forall>v \<in> set l. no_numbers v)"
| "no_numbers (JObj m) = (\<forall>kv \<in> set m. no_numbers (snd kv))"
| "no_numbers _ = True"

fun json_head :: "json \<Rightarrow> char" where
  "json_head JNull = CHR ''n''"
| "json_head (JBool b) = (if b then CHR ''t'' else CHR ''f'')"
| "json_head (JStr s) = CHR 0x22"
| "json_head (JArr l) = CHR ''[''"
| "json_head (JObj m) = CHR ''{''"
| "json_head _ = CHR ''0''"

lemma print_head: "no_numbers v \<Longrightarrow> \<exists>s. print_json v = json_head v # s"
  by (cases v rule: print_json.cases) (auto simp: fmt_bool_def json_string_def)

lemma print_same_head:
  assumes "no_numbers a" and "no_numbers b" and "print_json a @ x = print_json b @ y"
  shows "json_head a = json_head b"
  using print_head [OF assms(1)] print_head [OF assms(2)] assms(3) by auto

lemma json_head_not_bracket: "json_head v \<noteq> CHR '']''"
  by (cases v) auto

lemma print_not_bracket:
  "no_numbers v \<Longrightarrow> print_json v @ x \<noteq> CHR '']'' # y"
  "no_numbers v \<Longrightarrow> CHR '']'' # y \<noteq> print_json v @ x"
  using json_head_not_bracket [of v] by (auto dest!: print_head)

lemma string_not_brace:
  "json_string k @ x \<noteq> CHR ''}'' # y" "CHR ''}'' # y \<noteq> json_string k @ x"
  by (simp_all add: json_string_def)

lemma print_eq:
  "no_numbers a \<Longrightarrow> no_numbers b \<Longrightarrow> print_json a @ x = print_json b @ y \<Longrightarrow> a = b \<and> x = y"
  "\<forall>v \<in> set l. no_numbers v \<Longrightarrow> \<forall>v \<in> set l'. no_numbers v \<Longrightarrow>
     print_elems l @ x = print_elems l' @ y \<Longrightarrow> l = l' \<and> x = y"
  "\<forall>kv \<in> set m. no_numbers (snd kv) \<Longrightarrow> \<forall>kv \<in> set m'. no_numbers (snd kv) \<Longrightarrow>
     print_fields m @ x = print_fields m' @ y \<Longrightarrow> m = m' \<and> x = y"
proof (induction a and l and m arbitrary: b x y and l' x y and m' x y
    rule: print_json_print_elems_print_fields.induct)
  case 1
  from print_same_head [OF this] this show ?case
    by (cases b) (auto split: if_splits)
next
  case (2 c)
  from print_same_head [OF this] this show ?case
    by (cases b) (auto simp: fmt_bool_def split: if_splits)
next
  case (5 s)
  from print_same_head [OF this] this show ?case
    by (cases b) (auto split: if_splits)
next
  case 6
  from print_same_head [OF this] this show ?case
    by (cases b rule: print_json.cases) (auto simp: print_not_bracket split: if_splits)
next
  case (7 v l)
  from print_same_head [OF this(3-5)] obtain l' where b: "b = JArr l'"
    by (cases b) (auto split: if_splits)
  show ?case
  proof (cases l')
    case Nil
    with 7(3,5) b show ?thesis by (auto simp: print_not_bracket)
  next
    case (Cons w ws)
    then have eq: "print_json v @ print_elems l @ x = print_json w @ print_elems ws @ y"
      using 7(5) b by simp
    have "v = w \<and> print_elems l @ x = print_elems ws @ y"
      using 7(1) [OF _ _ eq] 7(3,4) b Cons by simp
    then show ?thesis
      using 7(2) [of ws x y] 7(3,4) b Cons by simp
  qed
next
  case 8
  from print_same_head [OF this] this show ?case
    by (cases b rule: print_json.cases) (auto simp: string_not_brace split: if_splits)
next
  case (9 k v m)
  from print_same_head [OF this(3-5)] obtain m' where b: "b = JObj m'"
    by (cases b) (auto split: if_splits)
  show ?case
  proof (cases m')
    case Nil
    with 9(5) b show ?thesis by (auto simp: string_not_brace)
  next
    case (Cons w ws)
    obtain j u where w: "w = (j, u)" by (cases w)
    have eq: "k = j \<and> print_json v @ print_fields m @ x = print_json u @ print_fields ws @ y"
      using 9(5) b Cons w by simp
    then have "v = u \<and> print_fields m @ x = print_fields ws @ y"
      using 9(1) [of u "print_fields m @ x" "print_fields ws @ y"] 9(3,4) b Cons w by simp
    then show ?thesis
      using 9(2) [of ws x y] 9(3,4) b Cons w eq by simp
  qed
next
  case 10
  then show ?case by (cases l') auto
next
  case (11 v l)
  show ?case
  proof (cases l')
    case Nil
    with 11(5) show ?thesis by simp
  next
    case (Cons w ws)
    have "v = w \<and> print_elems l @ x = print_elems ws @ y"
      using 11(1) [of w "print_elems l @ x" "print_elems ws @ y"] 11(3-5) Cons by simp
    then show ?thesis
      using 11(2) [of ws x y] 11(3,4) Cons by simp
  qed
next
  case 12
  then show ?case by (cases m') auto
next
  case (13 k v m)
  show ?case
  proof (cases m')
    case Nil
    with 13(5) show ?thesis by simp
  next
    case (Cons w ws)
    obtain j u where w: "w = (j, u)" by (cases w)
    have eq: "k = j \<and> print_json v @ print_fields m @ x = print_json u @ print_fields ws @ y"
      using 13(5) Cons w by simp
    then have "v = u \<and> print_fields m @ x = print_fields ws @ y"
      using 13(1) [of u "print_fields m @ x" "print_fields ws @ y"] 13(3,4) Cons w by simp
    then show ?thesis
      using 13(2) [of ws x y] 13(3,4) Cons w eq by simp
  qed
qed auto

lemma print_json_inj:
  "no_numbers a \<Longrightarrow> no_numbers b \<Longrightarrow> print_json a = print_json b \<longleftrightarrow> a = b"
  using print_eq(1) [of a b "[]" "[]"] by auto

end
