(* ===== verification/Common.thy ===== *)
theory Common
  imports API_Types
begin

text \<open>
  \<open>internal/resources/common.go\<close> and the deterministic object names of \<open>internal/resources\<close> and
  \<open>internal/controller/job_utils.go\<close>. The locale \<open>foreign_merge\<close> is the contract every
  \<open>CreateOrUpdate\<close> callback relies on for labels and annotations; \<open>built_object\<close> is the contract
  of the builders: the object's name, namespace and recommended labels.
\<close>

section \<open>Helpers\<close>

definition BoolValue :: "bool option \<Rightarrow> bool" where
  "BoolValue b = (case b of None \<Rightarrow> False | Some v \<Rightarrow> v)"

definition BoolValueOrDefault :: "bool option \<Rightarrow> bool \<Rightarrow> bool" where
  "BoolValueOrDefault b d = (case b of None \<Rightarrow> d | Some v \<Rightarrow> v)"

lemma BoolValue_simps [simp]:
  "BoolValue None = False" "BoolValue (Some v) = v" "BoolValue b \<longleftrightarrow> b = Some True"
  by (auto simp: BoolValue_def split: option.splits)

lemma BoolValueOrDefault_simps [simp]:
  "BoolValueOrDefault None d = d" "BoolValueOrDefault (Some v) d = v"
  by (simp_all add: BoolValueOrDefault_def)

definition LabelsForInstance :: "HermesInstance \<Rightarrow> strmap" where
  "LabelsForInstance inst =
     [(''app.kubernetes.io/name'', ''hermes-agent''),
      (''app.kubernetes.io/instance'', inst_name inst),
      (''app.kubernetes.io/managed-by'', ''hermes-operator''),
      (''app.kubernetes.io/part-of'', ''hermes.agent'')]"

definition SelectorLabels :: "HermesInstance \<Rightarrow> strmap" where
  "SelectorLabels inst =
     [(''app.kubernetes.io/name'', ''hermes-agent''),
      (''app.kubernetes.io/instance'', inst_name inst)]"

definition MergePreservingForeign :: "strmap \<Rightarrow> strmap \<Rightarrow> string \<Rightarrow> strmap" where
  "MergePreservingForeign existing desired operatorPrefix =
     (let out = mputall (filter (\<lambda>(k, v). \<not> HasPrefix k operatorPrefix) existing) []
      in mputall desired out)"

abbreviation GatewayPort :: int where "GatewayPort \<equiv> 8443"
abbreviation DefaultMetricsPort :: int where "DefaultMetricsPort \<equiv> 9090"
abbreviation GatewayPortName :: string where "GatewayPortName \<equiv> ''gateway''"
abbreviation MetricsPortName :: string where "MetricsPortName \<equiv> ''metrics''"
abbreviation operatorLabelPrefix :: string where "operatorLabelPrefix \<equiv> ''hermes.agent/''"

definition ServiceAccountNameFor :: "HermesInstance \<Rightarrow> string" where
  "ServiceAccountNameFor inst =
     (let n = rbac_ServiceAccountName (secy_RBAC (spec_Security (hi_Spec inst)))
      in if n \<noteq> '''' then n else inst_name inst)"

section \<open>Names\<close>

definition PVCName :: "HermesInstance \<Rightarrow> string" where "PVCName inst = inst_name inst @ ''-data''"
definition ConfigMapName :: "HermesInstance \<Rightarrow> string" where "ConfigMapName inst = inst_name inst @ ''-config''"
definition WorkspaceConfigMapName :: "HermesInstance \<Rightarrow> string" where
  "WorkspaceConfigMapName inst = inst_name inst @ ''-workspace''"
definition GatewayTokenSecretName :: "HermesInstance \<Rightarrow> string" where
  "GatewayTokenSecretName inst = inst_name inst @ ''-gateway-tokens''"
definition StatefulSetName :: "HermesInstance \<Rightarrow> string" where "StatefulSetName inst = inst_name inst"
definition ServiceName :: "HermesInstance \<Rightarrow> string" where "ServiceName inst = inst_name inst"
definition NetworkPolicyName :: "HermesInstance \<Rightarrow> string" where "NetworkPolicyName inst = inst_name inst"
definition ServiceAccountName :: "HermesInstance \<Rightarrow> string" where "ServiceAccountName inst = inst_name inst"
definition RoleName :: "HermesInstance \<Rightarrow> string" where "RoleName inst = inst_name inst"
definition RoleBindingName :: "HermesInstance \<Rightarrow> string" where "RoleBindingName inst = inst_name inst"
definition PDBName :: "HermesInstance \<Rightarrow> string" where "PDBName inst = inst_name inst"
definition HPAName :: "HermesInstance \<Rightarrow> string" where "HPAName inst = inst_name inst"
definition IngressName :: "HermesInstance \<Rightarrow> string" where "IngressName inst = inst_name inst"
definition HTTPRouteName :: "HermesInstance \<Rightarrow> string" where "HTTPRouteName inst = inst_name inst"
definition ServiceMonitorName :: "HermesInstance \<Rightarrow> string" where "ServiceMonitorName inst = inst_name inst"
definition PrometheusRuleName :: "HermesInstance \<Rightarrow> string" where "PrometheusRuleName inst = inst_name inst"
definition HonchoDeploymentName :: "HermesInstance \<Rightarrow> string" where
  "HonchoDeploymentName inst = inst_name inst @ ''-honcho''"
definition HonchoServiceName :: "HermesInstance \<Rightarrow> string" where
  "HonchoServiceName inst = inst_name inst @ ''-honcho''"
definition HonchoPVCName :: "HermesInstance \<Rightarrow> string" where
  "HonchoPVCName inst = inst_name inst @ ''-honcho-data''"
definition BackupCronJobName :: "HermesInstance \<Rightarrow> string" where
  "BackupCronJobName inst = inst_name inst @ ''-backup-cron''"
definition BackupPruneCronJobName :: "HermesInstance \<Rightarrow> string" where
  "BackupPruneCronJobName inst = inst_name inst @ ''-backup-prune''"
definition FinalBackupJobName :: "HermesInstance \<Rightarrow> string" where
  "FinalBackupJobName inst = inst_name inst @ ''-backup-final''"
definition PreUpdateBackupJobName :: "HermesInstance \<Rightarrow> string" where
  "PreUpdateBackupJobName inst = inst_name inst @ ''-backup-preupdate''"
definition RestoreJobName :: "HermesInstance \<Rightarrow> string" where
  "RestoreJobName inst = inst_name inst @ ''-restore''"
definition MigrationJobName :: "HermesInstance \<Rightarrow> string" where
  "MigrationJobName inst = inst_name inst @ ''-migrate''"

lemmas name_defs =
  PVCName_def ConfigMapName_def WorkspaceConfigMapName_def GatewayTokenSecretName_def
  StatefulSetName_def ServiceName_def NetworkPolicyName_def ServiceAccountName_def RoleName_def
  RoleBindingName_def PDBName_def HPAName_def IngressName_def HTTPRouteName_def
  ServiceMonitorName_def PrometheusRuleName_def HonchoDeploymentName_def HonchoServiceName_def
  HonchoPVCName_def BackupCronJobName_def BackupPruneCronJobName_def FinalBackupJobName_def
  PreUpdateBackupJobName_def RestoreJobName_def MigrationJobName_def

section \<open>Feature switches\<close>

definition SemaphoreEnabled :: "HermesInstance \<Rightarrow> bool" where
  "SemaphoreEnabled inst = BoolValue (sema_Enabled (spec_Semaphore (hi_Spec inst)))"

definition SemaphoreCleanupOnDelete :: "HermesInstance \<Rightarrow> bool" where
  "SemaphoreCleanupOnDelete inst =
     (SemaphoreEnabled inst \<and> BoolValue (sema_CleanupOnDelete (spec_Semaphore (hi_Spec inst))))"

definition tailscaleEnabled :: "HermesInstance \<Rightarrow> bool" where
  "tailscaleEnabled inst = BoolValue (ts_Enabled (spec_Tailscale (hi_Spec inst)))"

definition honchoEnabled :: "HermesInstance \<Rightarrow> bool" where
  "honchoEnabled inst = BoolValue (hon_Enabled (pstore_Honcho (spec_ProfileStore (hi_Spec inst))))"

definition IsHPAEnabled :: "HermesInstance \<Rightarrow> bool" where
  "IsHPAEnabled inst = BoolValue (hpas_Enabled (avail_HorizontalPodAutoscaler (spec_Availability (hi_Spec inst))))"

section \<open>Merging labels and annotations\<close>

lemma map_of_filter_keys:
  "map_of (filter (\<lambda>(k, v). P k) m) = (\<lambda>k. if P k then map_of m k else None)"
  by (induction m) (auto simp: fun_eq_iff)

lemma MergePreservingForeign_lookup:
  assumes "distinct (map fst existing)" and "distinct (map fst desired)"
  shows "map_of (MergePreservingForeign existing desired p) k =
    (case map_of desired k of
       Some v \<Rightarrow> Some v
     | None \<Rightarrow> if HasPrefix k p then None else map_of existing k)"
proof -
  let ?kept = "filter (\<lambda>(k, v). \<not> HasPrefix k p) existing"
  have "distinct (map fst ?kept)"
    using assms(1) by (simp add: distinct_map_filter)
  then show ?thesis
    using assms(2)
    by (auto simp: MergePreservingForeign_def mputall_distinct map_add_def map_of_filter_keys
        split: option.splits)
qed

text \<open>
  The contract of a label merge, for maps with distinct keys: what the operator wants is there,
  an operator key it no longer wants is gone, and a key of someone else stays.
\<close>

locale foreign_merge =
  fixes merge :: "strmap \<Rightarrow> strmap \<Rightarrow> string \<Rightarrow> strmap"
  assumes merge_distinct:
      "distinct (map fst e) \<Longrightarrow> distinct (map fst d) \<Longrightarrow> distinct (map fst (merge e d p))"
    and merge_desired:
      "distinct (map fst e) \<Longrightarrow> distinct (map fst d) \<Longrightarrow> map_of d k = Some v \<Longrightarrow>
       map_of (merge e d p) k = Some v"
    and merge_foreign:
      "distinct (map fst e) \<Longrightarrow> distinct (map fst d) \<Longrightarrow> map_of d k = None \<Longrightarrow> \<not> HasPrefix k p \<Longrightarrow>
       map_of (merge e d p) k = map_of e k"
    and merge_stale:
      "distinct (map fst e) \<Longrightarrow> distinct (map fst d) \<Longrightarrow> map_of d k = None \<Longrightarrow> HasPrefix k p \<Longrightarrow>
       map_of (merge e d p) k = None"
begin

lemma merge_again:
  assumes "distinct (map fst e)" and "distinct (map fst d)"
  shows "map_of (merge (merge e d p) d p) = map_of (merge e d p)"
proof
  fix k
  have de: "distinct (map fst (merge e d p))"
    using assms by (rule merge_distinct)
  show "map_of (merge (merge e d p) d p) k = map_of (merge e d p) k"
  proof (cases "map_of d k")
    case (Some v)
    then show ?thesis using assms de by (simp add: merge_desired)
  next
    case None
    then show ?thesis
      by (cases "HasPrefix k p") (simp_all add: assms de merge_foreign merge_stale)
  qed
qed

lemma merge_keeps_removed_foreign:
  assumes "distinct (map fst e)" and "distinct (map fst d1)" and "distinct (map fst d2)"
    and "map_of d1 k = Some v" and "map_of d2 k = None" and "\<not> HasPrefix k p"
  shows "map_of (merge (merge e d1 p) d2 p) k = Some v"
  using assms by (simp add: merge_desired merge_distinct merge_foreign)

end

interpretation mpf: foreign_merge MergePreservingForeign
proof
  fix e d :: strmap and p :: string
  assume de: "distinct (map fst e)" and dd: "distinct (map fst d)"
  show "distinct (map fst (MergePreservingForeign e d p))"
    using de by (simp add: MergePreservingForeign_def distinct_mputall)
qed (simp_all add: MergePreservingForeign_lookup)

section \<open>The builders' contract\<close>

definition has_labels :: "HermesInstance \<Rightarrow> strmap \<Rightarrow> bool" where
  "has_labels inst ls \<longleftrightarrow>
     (\<forall>(k, v) \<in> set (LabelsForInstance inst). mget ls k = Some v)"

lemma has_labels_self [simp]: "has_labels inst (LabelsForInstance inst)"
  by (simp add: has_labels_def LabelsForInstance_def mget_def)

lemma has_labels_mset1 [simp]:
  "k \<notin> fst ` set (LabelsForInstance inst) \<Longrightarrow> has_labels inst ls \<Longrightarrow> has_labels inst (mset1 k v ls)"
  by (force simp: has_labels_def mget_def)

locale built_object =
  fixes build :: "HermesInstance \<Rightarrow> 'o" and meta :: "'o \<Rightarrow> ObjectMeta" and suffix :: string
  assumes built_name: "om_Name (meta (build inst)) = inst_name inst @ suffix"
    and built_namespace: "om_Namespace (meta (build inst)) = inst_ns inst"
    and built_labels: "has_labels inst (om_Labels (meta (build inst)))"
begin

lemma built_injective:
  assumes "om_Name (meta (build a)) = om_Name (meta (build b))"
    and "om_Namespace (meta (build a)) = om_Namespace (meta (build b))"
  shows "inst_name a = inst_name b \<and> inst_ns a = inst_ns b"
  using assms by (simp add: built_name built_namespace)

lemma built_selected:
  "\<forall>(k, v) \<in> set (SelectorLabels inst). mget (om_Labels (meta (build inst))) k = Some v"
  using built_labels [of inst]
  by (auto simp: has_labels_def SelectorLabels_def LabelsForInstance_def)

end

end
