(* ===== verification/Validator.thy ===== *)
theory Validator
  imports Env JSON Common
begin

text \<open>
  \<open>internal/webhook/webhook_hermesinstance_validate.go\<close>: the validating webhook of HermesInstance.
  A \<open>validator\<close> is the receiver: its client, absent in some deployments, and the aggregation of
  field errors of \<open>k8s.io/apimachinery\<close>. Every check returns its warnings, its error and the next
  world. \<open>wellformed\<close> and \<open>respects_latches\<close> are the declarative rules; the theorems say that the
  webhook decides exactly these, that a missing Secret never denies, and that the comparison of
  two migration specs by their JSON text is equality.
\<close>

section \<open>Field errors\<close>

datatype field_error_type = FieldInvalid | FieldForbidden

record field_error =
  fe_Type :: field_error_type
  fe_Path :: string
  fe_Value :: json
  fe_Detail :: string

record 'w validator =
  v_Client :: "'w env option"
  v_aggregate :: "field_error list \<Rightarrow> go_error"

type_synonym 'w admission = "string list \<times> go_error option \<times> 'w"

section \<open>The rules on one instance\<close>

definition validateRestoreMigrationMutualExclusion :: "HermesInstance \<Rightarrow> field_error list" where
  "validateRestoreMigrationMutualExclusion inst =
     (if spec_RestoreFrom (hi_Spec inst) \<noteq> '''' \<and> mig_FromOpenClaw (spec_Migration (hi_Spec inst)) \<noteq> None
      then [\<lparr>fe_Type = FieldInvalid, fe_Path = ''spec'',
             fe_Value = JStr ''restoreFrom + migration.fromOpenClaw'',
             fe_Detail = ''set exactly one of spec.restoreFrom or spec.migration.fromOpenClaw: the combined order of operations is ambiguous (which source wins?). To both restore and migrate, do them as two separate instances.''\<rparr>]
      else [])"

definition validateMigrationSourceExactlyOne :: "HermesInstance \<Rightarrow> field_error list" where
  "validateMigrationSourceExactlyOne inst =
     (case mig_FromOpenClaw (spec_Migration (hi_Spec inst)) of
        None \<Rightarrow> []
      | Some fc \<Rightarrow>
          (let refSet = mocs_OpenClawInstanceRef (moc_Source fc) \<noteq> None;
               backupSet = mocs_BackupRef (moc_Source fc) \<noteq> None
           in if refSet = backupSet
              then [\<lparr>fe_Type = FieldInvalid, fe_Path = ''spec.migration.fromOpenClaw.source'',
                     fe_Value = JObj [(''openclawInstanceRef'', JBool refSet), (''backupRef'', JBool backupSet)],
                     fe_Detail = ''set exactly one of source.openclawInstanceRef or source.backupRef''\<rparr>]
              else []))"

fun check_actions :: "SelfConfigAction list \<Rightarrow> go_error option" where
  "check_actions [] = None"
| "check_actions (a # as) =
     (if a \<in> {ActionSkills, ActionConfig, ActionEnvVars, ActionWorkspaceFiles, ActionProfiles}
      then check_actions as
      else Some (Plain (''spec.selfConfigure.allowedActions contains unknown action '' @ quoted a @
             '' (allowed: skills,config,envVars,workspaceFiles,profiles)'')))"

definition common_warnings :: "HermesInstance \<Rightarrow> string list" where
  "common_warnings inst =
     (let s = hi_Spec inst in
      (if cfg_Raw (spec_Config s) \<noteq> None \<and> cfg_ConfigMapRef (spec_Config s) \<noteq> None \<and>
          cfg_MergeMode (spec_Config s) = []
       then [''spec.config.raw and spec.config.configMapRef are both set without spec.config.mergeMode; defaults to 'replace' (Raw wins)'']
       else []) @
      (if spec_Runtime s \<noteq> zero_RuntimeSpec
       then [''spec.runtime is deprecated and ignored: the agent image is the self-contained upstream NousResearch/hermes-agent runtime (no init-container build). Remove spec.runtime; it is scheduled for removal no earlier than v0.3.0 and 2027-01-01. See docs/deprecations.md.'']
       else []))"

definition selfconfigure_error :: "SelfConfigureSpec \<Rightarrow> go_error option" where
  "selfconfigure_error sc =
     (if \<not> BoolValue (sconf_Enabled sc) then None
      else if sconf_ProtectedKeys sc = []
      then Some (Plain ''spec.selfConfigure.enabled=true requires non-empty spec.selfConfigure.protectedKeys (explicit allowlist policy)'')
      else if sconf_AllowedActions sc = []
      then Some (Plain ''spec.selfConfigure.enabled=true requires non-empty spec.selfConfigure.allowedActions'')
      else check_actions (sconf_AllowedActions sc))"

definition availability_error :: "AvailabilitySpec \<Rightarrow> go_error option" where
  "availability_error av =
     (let pdb = avail_PodDisruptionBudget av; hpa = avail_HorizontalPodAutoscaler av in
      if pdbs_MinAvailable pdb \<noteq> None \<and> pdbs_MaxUnavailable pdb \<noteq> None
      then Some (Plain ''spec.availability.podDisruptionBudget: MinAvailable and MaxUnavailable are mutually exclusive'')
      else (case (hpas_MinReplicas hpa, hpas_MaxReplicas hpa) of
              (Some mn, Some mx) \<Rightarrow>
                if mx < mn
                then Some (Plain ''spec.availability.horizontalPodAutoscaler: MinReplicas > MaxReplicas'')
                else None
            | _ \<Rightarrow> None))"

definition validateCommon :: "HermesInstance \<Rightarrow> string list \<times> go_error option" where
  "validateCommon inst =
     (if image_Repository (spec_Image (hi_Spec inst)) = []
      then ([], Some (Plain ''spec.image.repository is required (set on the instance or via HermesClusterDefaults)''))
      else if persist_Size (storage_Persistence (spec_Storage (hi_Spec inst))) = []
      then ([], Some (Plain ''spec.storage.persistence.size is required''))
      else (common_warnings inst,
            case selfconfigure_error (spec_SelfConfigure (hi_Spec inst)) of
              Some e \<Rightarrow> Some e
            | None \<Rightarrow> availability_error (spec_Availability (hi_Spec inst))))"

section \<open>References to Secrets\<close>

text \<open>
  The closure \<open>check\<close> of \<open>validateGateways\<close>: \<open>ws\<close> are the warnings gathered so far.
\<close>

definition check_secret ::
  "'w validator \<Rightarrow> HermesInstance \<Rightarrow> string \<Rightarrow> bool option \<Rightarrow> SecretKeySelector option \<Rightarrow> bool \<Rightarrow>
   string list \<Rightarrow> 'w \<Rightarrow> 'w admission" where
  "check_secret v inst fld enabled ref required ws w =
     (if \<not> BoolValue enabled then (ws, None, w)
      else case ref of
        None \<Rightarrow>
          if required then (ws, Some (Plain (fld @ '' is required when the gateway is enabled'')), w)
          else (ws, None, w)
      | Some ref \<Rightarrow>
          (case v_Client v of
             None \<Rightarrow> (ws, None, w)
           | Some E \<Rightarrow>
               (case kc_get (env_secrets E) (inst_ns inst, sks_Name ref) w of
                  (Inl e, w1) \<Rightarrow>
                    if IsNotFound e
                    then (ws @ [fld @ '' references Secret '' @ quoted (sks_Name ref) @
                            '' which is not present yet in namespace '' @ quoted (inst_ns inst) @
                            ''; the instance will block on rollout until the secret is created''], None, w1)
                    else (ws, Some (Wrapped (''look up '' @ fld) e), w1)
                | (Inr s, w1) \<Rightarrow>
                    if sks_Key ref \<noteq> '''' \<and> mget (sec_Data s) (sks_Key ref) = None
                    then (ws @ [fld @ '' references key '' @ quoted (sks_Key ref) @ '' in Secret '' @
                            quoted (sks_Name ref) @ '' which is not present in the Secret's data''], None, w1)
                    else (ws, None, w1))))"

type_synonym secret_check = "string \<times> bool option \<times> SecretKeySelector option \<times> bool"

fun run_checks ::
  "'w validator \<Rightarrow> HermesInstance \<Rightarrow> secret_check list \<Rightarrow> string list \<Rightarrow> 'w \<Rightarrow> 'w admission" where
  "run_checks v inst [] ws w = (ws, None, w)"
| "run_checks v inst ((fld, enabled, ref, required) # cs) ws w =
     (case check_secret v inst fld enabled ref required ws w of
        (ws1, Some e, w1) \<Rightarrow> (ws1, Some e, w1)
      | (ws1, None, w1) \<Rightarrow> run_checks v inst cs ws1 w1)"

definition gateway_checks :: "HermesInstance \<Rightarrow> secret_check list" where
  "gateway_checks inst =
     (let g = spec_Gateways (hi_Spec inst); h = pstore_Honcho (spec_ProfileStore (hi_Spec inst)) in
      [(''spec.gateways.telegram.botTokenSecretRef'', tg_Enabled (gw_Telegram g), tg_BotTokenSecretRef (gw_Telegram g), True),
       (''spec.gateways.discord.botTokenSecretRef'', dc_Enabled (gw_Discord g), dc_BotTokenSecretRef (gw_Discord g), True),
       (''spec.gateways.slack.botTokenSecretRef'', sl_Enabled (gw_Slack g), sl_BotTokenSecretRef (gw_Slack g), True),
       (''spec.gateways.slack.appTokenSecretRef'', sl_Enabled (gw_Slack g), sl_AppTokenSecretRef (gw_Slack g), False),
       (''spec.gateways.slack.signingSecretRef'', sl_Enabled (gw_Slack g), sl_SigningSecretRef (gw_Slack g), False),
       (''spec.gateways.whatsapp.providerSecretRef'', wa_Enabled (gw_WhatsApp g), wa_ProviderSecretRef (gw_WhatsApp g), True),
       (''spec.gateways.signal.phoneNumberSecretRef'', sig_Enabled (gw_Signal g), sig_PhoneNumberSecretRef (gw_Signal g), True),
       (''spec.gateways.signal.authTokenSecretRef'', sig_Enabled (gw_Signal g), sig_AuthTokenSecretRef (gw_Signal g), True)] @
      (if BoolValue (hon_Enabled h)
       then [(''spec.profileStore.honcho.apiKeySecretRef'', hon_Enabled h, hon_APIKeySecretRef h, True)]
       else []))"

definition validateGateways :: "'w validator \<Rightarrow> HermesInstance \<Rightarrow> 'w \<Rightarrow> 'w admission" where
  "validateGateways v inst w = run_checks v inst (gateway_checks inst) [] w"

definition tailscaleReservedContainerName :: string where
  "tailscaleReservedContainerName = ''tailscale''"
definition tailscaleReservedServeVolume :: string where
  "tailscaleReservedServeVolume = ''tailscale-serve''"
definition tailscaleReservedTmpVolume :: string where
  "tailscaleReservedTmpVolume = ''tailscale-tmp''"

text \<open>The index and the name of the first reserved name in a list, counting from \<open>i\<close>.\<close>

fun first_reserved :: "string list \<Rightarrow> nat \<Rightarrow> string list \<Rightarrow> (nat \<times> string) option" where
  "first_reserved res i [] = None"
| "first_reserved res i (n # ns) = (if n \<in> set res then Some (i, n) else first_reserved res (Suc i) ns)"

definition validateTailscale :: "'w validator \<Rightarrow> HermesInstance \<Rightarrow> 'w \<Rightarrow> 'w admission" where
  "validateTailscale v inst w =
     (let ts = spec_Tailscale (hi_Spec inst); fld = ''spec.tailscale.authKey.secretRef'' in
      if \<not> BoolValue (ts_Enabled ts) then ([], None, w)
      else case Option.bind (ts_AuthKey ts) tsk_SecretRef of
        None \<Rightarrow> ([], Some (Plain (fld @ '' is required when tailscale is enabled'')), w)
      | Some ref \<Rightarrow>
         (case first_reserved [tailscaleReservedContainerName] 0 (map ctr_Name (spec_Sidecars (hi_Spec inst))) of
            Some (i, n) \<Rightarrow>
              ([], Some (Plain (''spec.sidecars['' @ Itoa (int i) @ ''].name '' @ quoted n @
                 '' collides with the operator-managed tailscale container (spec.tailscale.enabled=true); rename the sidecar'')), w)
          | None \<Rightarrow>
         (case first_reserved [tailscaleReservedServeVolume, tailscaleReservedTmpVolume] 0
                 (map vol_Name (spec_ExtraVolumes (hi_Spec inst))) of
            Some (i, n) \<Rightarrow>
              ([], Some (Plain (''spec.extraVolumes['' @ Itoa (int i) @ ''].name '' @ quoted n @
                 '' collides with an operator-managed tailscale volume (spec.tailscale.enabled=true); rename the volume'')), w)
          | None \<Rightarrow>
         (case v_Client v of
            None \<Rightarrow> ([], None, w)
          | Some E \<Rightarrow>
         (case kc_get (env_secrets E) (inst_ns inst, sks_Name ref) w of
            (Inl e, w1) \<Rightarrow>
              if IsNotFound e
              then ([fld @ '' references Secret '' @ quoted (sks_Name ref) @
                     '' which is not present yet in namespace '' @ quoted (inst_ns inst) @
                     ''; the instance will block on rollout until the secret is created''], None, w1)
              else ([], Some (Wrapped (''look up '' @ fld) e), w1)
          | (Inr s, w1) \<Rightarrow>
              if sks_Key ref \<noteq> '''' \<and> mget (sec_Data s) (sks_Key ref) = None
              then ([fld @ '' references key '' @ quoted (sks_Key ref) @ '' in Secret '' @
                     quoted (sks_Name ref) @ '' which is not present in the Secret's data''], None, w1)
              else ([], None, w1))))))"

definition crossCheckSecrets :: "'w validator \<Rightarrow> HermesInstance \<Rightarrow> 'w \<Rightarrow> string list \<times> 'w" where
  \<open>crossCheckSecrets v inst w =
     (let (ws, w1) =
        (case (bk_S3 (spec_Backup (hi_Spec inst)), v_Client v) of
           (Some s3, Some E) \<Rightarrow>
             (let name = lor_Name (bs3_CredentialsSecretRef s3) in
              if name = '''' then ([], w)
              else (case kc_get (env_secrets E) (inst_ns inst, name) w of
                      (Inl e, w1) \<Rightarrow>
                        ([''spec.backup.s3.credentialsSecretRef '' @ quoted name @
                          '' is not resolvable in namespace '' @ quoted (inst_ns inst) @ '': '' @ err_text e], w1)
                    | (Inr s, w1) \<Rightarrow> ([], w1)))
         | _ \<Rightarrow> ([], w))
      in (ws @
          (if au_Enabled (spec_AutoUpdate (hi_Spec inst)) \<and> image_Tag (spec_Image (hi_Spec inst)) = ''latest''
           then [''spec.autoUpdate.enabled with spec.image.tag="latest": the operator will resolve to a concrete tag, but please pin spec.image.tag for GitOps deterministic apply'']
           else []), w1))\<close>

section \<open>Immutability\<close>

definition validateImmutable :: "HermesInstance \<Rightarrow> HermesInstance \<Rightarrow> go_error option" where
  "validateImmutable oldI newI =
     (let old = persist_StorageClassName (storage_Persistence (spec_Storage (hi_Spec oldI)));
          new = persist_StorageClassName (storage_Persistence (spec_Storage (hi_Spec newI))) in
      if old \<noteq> None \<and> (new = None \<or> the old \<noteq> the new)
      then Some (Plain ''spec.storage.persistence.storageClassName is immutable'')
      else if inst_name oldI \<noteq> inst_name newI then Some (Plain ''metadata.name is immutable'')
      else None)"

text \<open>\<open>json.Marshal\<close> of the migration spec: the fields in order, the empty optional ones omitted.\<close>

definition omitempty :: "string \<Rightarrow> string \<Rightarrow> (string \<times> json) list" where
  "omitempty k s = (if s = '''' then [] else [(k, JStr s)])"

definition omitnil :: "string \<Rightarrow> ('a \<Rightarrow> json) \<Rightarrow> 'a option \<Rightarrow> (string \<times> json) list" where
  "omitnil k f x = (case x of None \<Rightarrow> [] | Some v \<Rightarrow> [(k, f v)])"

definition marshal_backup_s3 :: "MigrationBackupS3 \<Rightarrow> json" where
  "marshal_backup_s3 b =
     JObj ([(''bucket'', JStr (mbs3_Bucket b)), (''endpoint'', JStr (mbs3_Endpoint b))] @
           omitempty ''region'' (mbs3_Region b) @
           [(''key'', JStr (mbs3_Key b)),
            (''credentialsSecretRef'', JObj [(''name'', JStr (lor_Name (mbs3_CredentialsSecretRef b)))])])"

definition marshal_source :: "MigrationFromOpenClawSource \<Rightarrow> json" where
  "marshal_source s =
     JObj (omitnil ''openclawInstanceRef''
             (\<lambda>r. JObj [(''name'', JStr (nor_Name r)), (''namespace'', JStr (nor_Namespace r))])
             (mocs_OpenClawInstanceRef s) @
           omitnil ''backupRef'' (\<lambda>r. JObj [(''s3'', marshal_backup_s3 (mbr_S3 r))]) (mocs_BackupRef s))"

definition marshal_from_openclaw :: "MigrationFromOpenClawSpec \<Rightarrow> json" where
  "marshal_from_openclaw m =
     JObj ([(''source'', marshal_source (moc_Source m))] @
           omitempty ''mode'' (moc_Mode m) @ omitempty ''image'' (moc_Image m))"

definition marshal_migration :: "MigrationSpec \<Rightarrow> json" where
  "marshal_migration m = JObj (omitnil ''fromOpenClaw'' marshal_from_openclaw (mig_FromOpenClaw m))"

definition equalMigration :: "MigrationSpec \<Rightarrow> MigrationSpec \<Rightarrow> bool" where
  "equalMigration a b \<longleftrightarrow> print_json (marshal_migration a) = print_json (marshal_migration b)"

definition validateImmutableTerminals :: "HermesInstance option \<Rightarrow> HermesInstance \<Rightarrow> field_error list" where
  "validateImmutableTerminals old updated =
     (case old of
        None \<Rightarrow> []
      | Some old \<Rightarrow>
          (if st_RestoredFrom (hi_Status old) \<noteq> '''' \<and>
              st_RestoredFrom (hi_Status old) = spec_RestoreFrom (hi_Spec old) \<and>
              spec_RestoreFrom (hi_Spec old) \<noteq> spec_RestoreFrom (hi_Spec updated)
           then [\<lparr>fe_Type = FieldForbidden, fe_Path = ''spec.restoreFrom'', fe_Value = JNull,
                  fe_Detail = ''spec.restoreFrom is immutable after status.restoredFrom is set (current: '' @
                    quoted (st_RestoredFrom (hi_Status old)) @
                    ''). This is intentional to prevent accidental re-restore on restart.''\<rparr>]
           else []) @
          (if mst_Completed (st_Migration (hi_Status old)) \<and>
              \<not> equalMigration (spec_Migration (hi_Spec old)) (spec_Migration (hi_Spec updated))
           then [\<lparr>fe_Type = FieldForbidden, fe_Path = ''spec.migration.fromOpenClaw'', fe_Value = JNull,
                  fe_Detail = ''spec.migration.fromOpenClaw is immutable after status.migration.completed is true (one-shot migration).''\<rparr>]
           else []))"

section \<open>The webhook\<close>

text \<open>The tail both entry points share: the field errors, then each group of checks in turn.\<close>

definition validate_rest ::
  "'w validator \<Rightarrow> go_error option \<Rightarrow> HermesInstance \<Rightarrow> string list \<Rightarrow> 'w \<Rightarrow> 'w admission" where
  "validate_rest v immutable inst ws w =
     (case immutable of Some e \<Rightarrow> (ws, Some e, w) | None \<Rightarrow>
      (case validateCommon inst of (cws, cerr) \<Rightarrow>
       (case cerr of Some e \<Rightarrow> (ws @ cws, Some e, w) | None \<Rightarrow>
        (case validateGateways v inst w of (gws, gerr, w1) \<Rightarrow>
         (case gerr of Some e \<Rightarrow> (ws @ cws @ gws, Some e, w1) | None \<Rightarrow>
          (case validateTailscale v inst w1 of (tws, terr, w2) \<Rightarrow>
             (ws @ cws @ gws @ tws, terr, w2)))))))"

definition ValidateCreate :: "'w validator \<Rightarrow> HermesInstance \<Rightarrow> 'w \<Rightarrow> 'w admission" where
  "ValidateCreate v inst w =
     (let errs = validateRestoreMigrationMutualExclusion inst @ validateMigrationSourceExactlyOne inst;
          (ws, w1) = crossCheckSecrets v inst w in
      if errs \<noteq> [] then (ws, Some (v_aggregate v errs), w1)
      else validate_rest v None inst ws w1)"

definition ValidateUpdate :: "'w validator \<Rightarrow> HermesInstance \<Rightarrow> HermesInstance \<Rightarrow> 'w \<Rightarrow> 'w admission" where
  "ValidateUpdate v oldI newI w =
     (let errs = validateImmutableTerminals (Some oldI) newI @
                 validateRestoreMigrationMutualExclusion newI @ validateMigrationSourceExactlyOne newI;
          (ws, w1) = crossCheckSecrets v newI w in
      if errs \<noteq> [] then (ws, Some (v_aggregate v errs), w1)
      else validate_rest v (validateImmutable oldI newI) newI ws w1)"

definition ValidateDelete :: "'w validator \<Rightarrow> HermesInstance \<Rightarrow> 'w \<Rightarrow> 'w admission" where
  "ValidateDelete v inst w = ([], None, w)"

section \<open>Comparing migrations\<close>

lemma marshal_no_numbers: "no_numbers (marshal_migration m)"
proof -
  have o: "(k', j) \<in> set (omitempty k x) \<Longrightarrow> no_numbers j" for k' j k x
    by (simp add: omitempty_def split: if_splits)
  have s3: "no_numbers (marshal_backup_s3 b)" for b
    using o by (auto simp: marshal_backup_s3_def)
  have src: "no_numbers (marshal_source x)" for x
    by (auto simp: marshal_source_def omitnil_def s3 split: option.splits)
  have "no_numbers (marshal_from_openclaw x)" for x
    using o src by (auto simp: marshal_from_openclaw_def)
  then show ?thesis
    by (auto simp: marshal_migration_def omitnil_def split: option.splits)
qed

lemma omitempty_eq:
  assumes "omitempty k a @ xs = omitempty k b @ ys" and "k \<notin> fst ` set xs" and "k \<notin> fst ` set ys"
  shows "a = b" and "xs = ys"
  using assms by (auto simp: omitempty_def image_iff split: if_splits)

lemma marshal_backup_s3_eq:
  assumes "marshal_backup_s3 a = marshal_backup_s3 b"
  shows "a = b"
proof -
  have f: "mbs3_Bucket a = mbs3_Bucket b" "mbs3_Endpoint a = mbs3_Endpoint b"
    and r: "omitempty ''region'' (mbs3_Region a) @
        [(''key'', JStr (mbs3_Key a)),
         (''credentialsSecretRef'', JObj [(''name'', JStr (lor_Name (mbs3_CredentialsSecretRef a)))])] =
      omitempty ''region'' (mbs3_Region b) @
        [(''key'', JStr (mbs3_Key b)),
         (''credentialsSecretRef'', JObj [(''name'', JStr (lor_Name (mbs3_CredentialsSecretRef b)))])]"
    using assms by (simp_all add: marshal_backup_s3_def)
  have "lor_Name (mbs3_CredentialsSecretRef a) = lor_Name (mbs3_CredentialsSecretRef b)"
    "mbs3_Key a = mbs3_Key b"
    using omitempty_eq(2) [OF r] by simp_all
  then show ?thesis
    using f omitempty_eq(1) [OF r]
    by (intro MigrationBackupS3.equality LocalObjectReference.equality) simp_all
qed

lemma marshal_source_eq:
  assumes "marshal_source a = marshal_source b"
  shows "a = b"
proof (rule MigrationFromOpenClawSource.equality)
  let ?ref = "\<lambda>r. JObj [(''name'', JStr (nor_Name r)), (''namespace'', JStr (nor_Namespace r))]"
  have ref: "?ref r = ?ref s \<Longrightarrow> r = s" for r s :: NamespacedObjectReference
    by (rule NamespacedObjectReference.equality) simp_all
  have bak: "marshal_backup_s3 (mbr_S3 r) = marshal_backup_s3 (mbr_S3 s) \<Longrightarrow> r = s"
    for r s :: MigrationBackupRef
    by (rule MigrationBackupRef.equality) (simp_all add: marshal_backup_s3_eq)
  show "mocs_OpenClawInstanceRef a = mocs_OpenClawInstanceRef b"
    using assms ref by (auto simp: marshal_source_def omitnil_def split: option.splits)
  show "mocs_BackupRef a = mocs_BackupRef b"
    using assms bak by (auto simp: marshal_source_def omitnil_def split: option.splits)
qed simp

lemma marshal_from_openclaw_eq:
  assumes "marshal_from_openclaw a = marshal_from_openclaw b"
  shows "a = b"
proof -
  have s: "marshal_source (moc_Source a) = marshal_source (moc_Source b)"
    and r: "omitempty ''mode'' (moc_Mode a) @ omitempty ''image'' (moc_Image a) =
      omitempty ''mode'' (moc_Mode b) @ omitempty ''image'' (moc_Image b)"
    using assms by (simp_all add: marshal_from_openclaw_def)
  have k: "''mode'' \<notin> fst ` set (omitempty ''image'' x)" for x
    by (simp add: omitempty_def)
  have "omitempty ''image'' (moc_Image a) = omitempty ''image'' (moc_Image b)"
    using omitempty_eq(2) [OF r k k] .
  then have "moc_Image a = moc_Image b"
    using omitempty_eq(1) [of "''image''" "moc_Image a" "[]" "moc_Image b" "[]"] by simp
  then show ?thesis
    using omitempty_eq(1) [OF r k k] marshal_source_eq [OF s]
    by (intro MigrationFromOpenClawSpec.equality) simp_all
qed

lemma equalMigration_iff [simp]: "equalMigration a b \<longleftrightarrow> a = b"
proof
  assume "equalMigration a b"
  then have "marshal_migration a = marshal_migration b"
    by (simp add: equalMigration_def print_json_inj marshal_no_numbers)
  then show "a = b"
    by (intro MigrationSpec.equality)
      (auto simp: marshal_migration_def omitnil_def dest: marshal_from_openclaw_eq split: option.splits)
qed (simp add: equalMigration_def)

section \<open>The declarative rules\<close>

definition needs_ref :: "bool option \<Rightarrow> SecretKeySelector option \<Rightarrow> bool" where
  "needs_ref enabled ref \<longleftrightarrow> (enabled = Some True \<longrightarrow> ref \<noteq> None)"

definition gateways_ok :: "HermesInstance \<Rightarrow> bool" where
  "gateways_ok inst \<longleftrightarrow>
     (let g = spec_Gateways (hi_Spec inst); h = pstore_Honcho (spec_ProfileStore (hi_Spec inst)) in
      needs_ref (tg_Enabled (gw_Telegram g)) (tg_BotTokenSecretRef (gw_Telegram g)) \<and>
      needs_ref (dc_Enabled (gw_Discord g)) (dc_BotTokenSecretRef (gw_Discord g)) \<and>
      needs_ref (sl_Enabled (gw_Slack g)) (sl_BotTokenSecretRef (gw_Slack g)) \<and>
      needs_ref (wa_Enabled (gw_WhatsApp g)) (wa_ProviderSecretRef (gw_WhatsApp g)) \<and>
      needs_ref (sig_Enabled (gw_Signal g)) (sig_PhoneNumberSecretRef (gw_Signal g)) \<and>
      needs_ref (sig_Enabled (gw_Signal g)) (sig_AuthTokenSecretRef (gw_Signal g)) \<and>
      needs_ref (hon_Enabled h) (hon_APIKeySecretRef h))"

definition tailscale_ok :: "HermesInstance \<Rightarrow> bool" where
  "tailscale_ok inst \<longleftrightarrow>
     (ts_Enabled (spec_Tailscale (hi_Spec inst)) = Some True \<longrightarrow>
        Option.bind (ts_AuthKey (spec_Tailscale (hi_Spec inst))) tsk_SecretRef \<noteq> None \<and>
        ''tailscale'' \<notin> ctr_Name ` set (spec_Sidecars (hi_Spec inst)) \<and>
        ''tailscale-serve'' \<notin> vol_Name ` set (spec_ExtraVolumes (hi_Spec inst)) \<and>
        ''tailscale-tmp'' \<notin> vol_Name ` set (spec_ExtraVolumes (hi_Spec inst)))"

definition common_ok :: "HermesInstance \<Rightarrow> bool" where
  "common_ok inst \<longleftrightarrow>
     (let s = hi_Spec inst; sc = spec_SelfConfigure s;
          pdb = avail_PodDisruptionBudget (spec_Availability s);
          hpa = avail_HorizontalPodAutoscaler (spec_Availability s) in
      image_Repository (spec_Image s) \<noteq> '''' \<and>
      persist_Size (storage_Persistence (spec_Storage s)) \<noteq> '''' \<and>
      (sconf_Enabled sc = Some True \<longrightarrow>
         sconf_ProtectedKeys sc \<noteq> [] \<and> sconf_AllowedActions sc \<noteq> [] \<and>
         set (sconf_AllowedActions sc) \<subseteq>
           {ActionSkills, ActionConfig, ActionEnvVars, ActionWorkspaceFiles, ActionProfiles}) \<and>
      (pdbs_MinAvailable pdb = None \<or> pdbs_MaxUnavailable pdb = None) \<and>
      (case (hpas_MinReplicas hpa, hpas_MaxReplicas hpa) of (Some mn, Some mx) \<Rightarrow> mn \<le> mx | _ \<Rightarrow> True))"

definition sources_ok :: "HermesInstance \<Rightarrow> bool" where
  "sources_ok inst \<longleftrightarrow>
     (case mig_FromOpenClaw (spec_Migration (hi_Spec inst)) of
        None \<Rightarrow> True
      | Some fc \<Rightarrow>
          spec_RestoreFrom (hi_Spec inst) = '''' \<and>
          (mocs_OpenClawInstanceRef (moc_Source fc) = None) \<noteq> (mocs_BackupRef (moc_Source fc) = None))"

definition wellformed :: "HermesInstance \<Rightarrow> bool" where
  "wellformed inst \<longleftrightarrow> sources_ok inst \<and> common_ok inst \<and> gateways_ok inst \<and> tailscale_ok inst"

definition respects_latches :: "HermesInstance \<Rightarrow> HermesInstance \<Rightarrow> bool" where
  "respects_latches old new \<longleftrightarrow>
     (st_RestoredFrom (hi_Status old) \<noteq> '''' \<and>
      st_RestoredFrom (hi_Status old) = spec_RestoreFrom (hi_Spec old) \<longrightarrow>
        spec_RestoreFrom (hi_Spec new) = spec_RestoreFrom (hi_Spec old)) \<and>
     (mst_Completed (st_Migration (hi_Status old)) \<longrightarrow>
        spec_Migration (hi_Spec new) = spec_Migration (hi_Spec old)) \<and>
     (persist_StorageClassName (storage_Persistence (spec_Storage (hi_Spec old))) \<noteq> None \<longrightarrow>
        persist_StorageClassName (storage_Persistence (spec_Storage (hi_Spec new))) =
        persist_StorageClassName (storage_Persistence (spec_Storage (hi_Spec old)))) \<and>
     inst_name new = inst_name old"

text \<open>Reading a Secret succeeds or answers that it is absent.\<close>

definition secrets_readable :: "'w validator \<Rightarrow> bool" where
  "secrets_readable v \<longleftrightarrow>
     (\<forall>E. v_Client v = Some E \<longrightarrow>
        (\<forall>k w e w'. kc_get (env_secrets E) k w = (Inl e, w') \<longrightarrow> IsNotFound e))"

lemma secrets_readableD:
  "secrets_readable v \<Longrightarrow> v_Client v = Some E \<Longrightarrow> kc_get (env_secrets E) k w = (Inl e, w') \<Longrightarrow> IsNotFound e"
  unfolding secrets_readable_def by blast

section \<open>The checks decide the rules\<close>

lemma check_actions_None:
  "check_actions as = None \<longleftrightarrow>
   set as \<subseteq> {ActionSkills, ActionConfig, ActionEnvVars, ActionWorkspaceFiles, ActionProfiles}"
  by (induction as rule: check_actions.induct) auto

lemma selfconfigure_iff:
  "selfconfigure_error sc = None \<longleftrightarrow>
   (sconf_Enabled sc = Some True \<longrightarrow>
      sconf_ProtectedKeys sc \<noteq> [] \<and> sconf_AllowedActions sc \<noteq> [] \<and>
      set (sconf_AllowedActions sc) \<subseteq>
        {ActionSkills, ActionConfig, ActionEnvVars, ActionWorkspaceFiles, ActionProfiles})"
  unfolding selfconfigure_error_def check_actions_None [symmetric] by simp

lemma availability_iff:
  "availability_error av = None \<longleftrightarrow>
   (pdbs_MinAvailable (avail_PodDisruptionBudget av) = None \<or>
    pdbs_MaxUnavailable (avail_PodDisruptionBudget av) = None) \<and>
   (case (hpas_MinReplicas (avail_HorizontalPodAutoscaler av), hpas_MaxReplicas (avail_HorizontalPodAutoscaler av)) of
      (Some mn, Some mx) \<Rightarrow> mn \<le> mx | _ \<Rightarrow> True)"
  by (auto simp: availability_error_def Let_def split: option.split)

lemma validateCommon_iff: "snd (validateCommon inst) = None \<longleftrightarrow> common_ok inst"
  unfolding common_ok_def Let_def selfconfigure_iff [symmetric]
  by (simp add: validateCommon_def availability_iff split: option.split)

lemma check_secret_error:
  assumes "secrets_readable v"
  shows "fst (snd (check_secret v inst fld en ref req ws w)) = None \<longleftrightarrow>
         (en = Some True \<and> req \<longrightarrow> ref \<noteq> None)"
  using assms
  by (auto simp: check_secret_def split: option.split sum.split prod.split dest: secrets_readableD)

lemma run_checks_error:
  assumes "secrets_readable v"
  shows "fst (snd (run_checks v inst cs ws w)) = None \<longleftrightarrow>
         (\<forall>(fld, en, ref, req) \<in> set cs. en = Some True \<and> req \<longrightarrow> ref \<noteq> None)"
proof (induction cs arbitrary: ws w)
  case (Cons c cs)
  obtain fld en ref req where c: "c = (fld, en, ref, req)" by (cases c)
  obtain ws1 e w1 where r: "check_secret v inst fld en ref req ws w = (ws1, e, w1)"
    by (cases "check_secret v inst fld en ref req ws w")
  show ?case
    using check_secret_error [OF assms, of inst fld en ref req ws w] Cons [of ws1 w1]
    unfolding c run_checks.simps r by (cases e) auto
qed simp

lemma validateGateways_iff:
  assumes "secrets_readable v"
  shows "fst (snd (validateGateways v inst w)) = None \<longleftrightarrow> gateways_ok inst"
  unfolding validateGateways_def run_checks_error [OF assms] gateway_checks_def gateways_ok_def
    needs_ref_def Let_def
  by (cases "BoolValue (hon_Enabled (pstore_Honcho (spec_ProfileStore (hi_Spec inst))))") simp_all

lemma first_reserved_None: "first_reserved res i ns = None \<longleftrightarrow> set ns \<inter> set res = {}"
  by (induction ns arbitrary: i) auto

lemma validateTailscale_iff:
  assumes "secrets_readable v"
  shows "fst (snd (validateTailscale v inst w)) = None \<longleftrightarrow> tailscale_ok inst"
proof (cases "ts_Enabled (spec_Tailscale (hi_Spec inst)) = Some True")
  case False
  then show ?thesis by (auto simp: validateTailscale_def tailscale_ok_def Let_def)
next
  case True
  let ?sc = "first_reserved [tailscaleReservedContainerName] 0 (map ctr_Name (spec_Sidecars (hi_Spec inst)))"
  let ?vo = "first_reserved [tailscaleReservedServeVolume, tailscaleReservedTmpVolume] 0
    (map vol_Name (spec_ExtraVolumes (hi_Spec inst)))"
  have ok: "tailscale_ok inst \<longleftrightarrow>
    Option.bind (ts_AuthKey (spec_Tailscale (hi_Spec inst))) tsk_SecretRef \<noteq> None \<and> ?sc = None \<and> ?vo = None"
    using True
    by (auto simp: tailscale_ok_def first_reserved_None tailscaleReservedContainerName_def
        tailscaleReservedServeVolume_def tailscaleReservedTmpVolume_def)
  show ?thesis
    unfolding ok using assms True
    by (cases "Option.bind (ts_AuthKey (spec_Tailscale (hi_Spec inst))) tsk_SecretRef"; cases ?sc; cases ?vo)
      (auto simp: validateTailscale_def Let_def split: option.split sum.split prod.split dest: secrets_readableD)
qed

lemma sources_iff:
  "validateRestoreMigrationMutualExclusion inst @ validateMigrationSourceExactlyOne inst = [] \<longleftrightarrow>
   sources_ok inst"
  by (auto simp: validateRestoreMigrationMutualExclusion_def validateMigrationSourceExactlyOne_def
      sources_ok_def Let_def split: option.splits if_splits)

lemma immutable_iff:
  "validateImmutableTerminals (Some old) new = [] \<and> validateImmutable old new = None \<longleftrightarrow>
   respects_latches old new"
  by (auto simp: validateImmutableTerminals_def validateImmutable_def respects_latches_def Let_def
      split: option.splits if_splits)

lemma validate_rest_iff:
  assumes "secrets_readable v"
  shows "fst (snd (validate_rest v imm inst ws w)) = None \<longleftrightarrow>
         imm = None \<and> common_ok inst \<and> gateways_ok inst \<and> tailscale_ok inst"
proof -
  obtain cws cerr where c: "validateCommon inst = (cws, cerr)" by (cases "validateCommon inst")
  obtain gws gerr w1 where g: "validateGateways v inst w = (gws, gerr, w1)"
    by (cases "validateGateways v inst w")
  obtain tws terr w2 where t: "validateTailscale v inst w1 = (tws, terr, w2)"
    by (cases "validateTailscale v inst w1")
  show ?thesis
    using validateCommon_iff [of inst] validateGateways_iff [OF assms, of inst w]
      validateTailscale_iff [OF assms, of inst w1]
    by (cases imm; cases cerr; cases gerr) (auto simp: validate_rest_def c g t)
qed

lemma accept_sources:
  "fst (snd (ValidateCreate v inst w)) = None \<Longrightarrow> sources_ok inst"
  "fst (snd (ValidateUpdate v old inst w)) = None \<Longrightarrow> sources_ok inst"
  unfolding sources_iff [symmetric]
  by (auto simp: ValidateCreate_def ValidateUpdate_def Let_def split: prod.splits if_splits)

lemma accept_latches:
  "fst (snd (ValidateUpdate v old new w)) = None \<Longrightarrow> respects_latches old new"
  unfolding immutable_iff [symmetric]
  by (auto simp: ValidateUpdate_def validate_rest_def Let_def split: prod.splits if_splits option.splits)

section \<open>Properties\<close>

text \<open>
  What the rules do not look at: the sources of the configuration, the networking, the probes, the
  backup and the automatic update may be anything, and so may the size of the storage but for the
  empty one.
\<close>

lemma unchecked_parts:
  "wellformed (inst\<lparr>hi_Spec := (hi_Spec inst)
     \<lparr>spec_Config := c, spec_Networking := n, spec_Probes := p, spec_Backup := b, spec_AutoUpdate := u\<rparr>\<rparr>) = wellformed inst"
  "sz \<noteq> '''' \<Longrightarrow> persist_Size (storage_Persistence (spec_Storage (hi_Spec inst))) \<noteq> '''' \<Longrightarrow>
   wellformed (inst\<lparr>hi_Spec := (hi_Spec inst)
     \<lparr>spec_Storage := \<lparr>storage_Persistence = (storage_Persistence (spec_Storage (hi_Spec inst)))\<lparr>persist_Size := sz\<rparr>\<rparr>\<rparr>\<rparr>) = wellformed inst"
  by (simp_all add: wellformed_def sources_ok_def common_ok_def gateways_ok_def tailscale_ok_def Let_def cong: option.case_cong)

text \<open>
  C15. The webhook accepts a new HermesInstance exactly when it is well formed: one source of
  initial data at most, an image repository and a size, an explicit self-configuration policy, a
  consistent disruption budget and autoscaler, a Secret reference for every enabled gateway, and a
  tailscale key with no name collision. In particular a referenced Secret that does not exist never
  denies; the only other way to be denied is an API error other than "not found". The verdict is that
  of the code and looks at nothing else: the documents (\<open>docs/api-reference.md\<close>, the comment of
  \<open>ConfigSpec\<close> and the table of \<open>docs/conformance.md\<close>) announce more refusals, above all that of a
  configuration with \<open>raw\<close> and \<open>configMapRef\<close> both unset, which the webhook accepts
  (\<open>unchecked_parts\<close>; the instance of the witness is one).
\<close>

theorem create_accepts_iff:
  assumes "secrets_readable v"
  shows "fst (snd (ValidateCreate v inst w)) = None \<longleftrightarrow> wellformed inst"
proof -
  obtain ws w1 where x: "crossCheckSecrets v inst w = (ws, w1)" by fastforce
  show ?thesis
    using sources_iff [of inst]
    by (auto simp: ValidateCreate_def x wellformed_def validate_rest_iff [OF assms])
qed

definition small_instance :: HermesInstance where
  "small_instance =
     zero_HermesInstance\<lparr>hi_ObjectMeta := new_meta ''a'' ''ns'',
       hi_Spec := zero_HermesInstanceSpec
         \<lparr>spec_Image := zero_ImageSpec\<lparr>image_Repository := ''ghcr.io/x/hermes''\<rparr>,
          spec_Storage := \<lparr>storage_Persistence = zero_PersistenceSpec\<lparr>persist_Size := ''1Gi''\<rparr>\<rparr>\<rparr>\<rparr>"

lemma small_instance_wellformed: "wellformed small_instance"
  by (simp add: wellformed_def sources_ok_def common_ok_def gateways_ok_def needs_ref_def
      tailscale_ok_def small_instance_def Let_def zero_defs)

definition offline_validator :: "unit validator" where
  "offline_validator = \<lparr>v_Client = None, v_aggregate = (\<lambda>es. Plain (Join (map fe_Detail es) '', ''))\<rparr>"

lemma offline_readable: "secrets_readable offline_validator"
  by (simp add: secrets_readable_def offline_validator_def)

lemma create_accepts_iff_witness:
  "fst (snd (ValidateCreate offline_validator small_instance ())) = None \<and>
   fst (snd (ValidateCreate offline_validator zero_HermesInstance ())) \<noteq> None"
proof -
  have "\<not> wellformed zero_HermesInstance"
    by (simp add: wellformed_def common_ok_def Let_def zero_defs)
  then show ?thesis
    by (simp add: create_accepts_iff [OF offline_readable] small_instance_wellformed)
qed

text \<open>
  C14. An update is accepted exactly when the new object is well formed and respects the latches of
  the old one: after a restore or a migration has completed its spec cannot change, a storage
  class once set and the name cannot change. The comparison of migration specs by their JSON text
  is equality. Well formed means what the code checks, as in C15: the refusals that only the
  documents announce, such as that of \<open>raw\<close> and \<open>configMapRef\<close> both unset, do not happen on an update
  either (\<open>unchecked_parts\<close>).
\<close>

theorem update_accepts_iff:
  assumes "secrets_readable v"
  shows "fst (snd (ValidateUpdate v oldI newI w)) = None \<longleftrightarrow>
         wellformed newI \<and> respects_latches oldI newI"
proof -
  obtain ws w1 where x: "crossCheckSecrets v newI w = (ws, w1)" by fastforce
  show ?thesis
    using sources_iff [of newI] immutable_iff [of oldI newI]
    by (auto simp: ValidateUpdate_def x wellformed_def validate_rest_iff [OF assms] Let_def)
qed

definition restored_instance :: HermesInstance where
  "restored_instance =
     small_instance\<lparr>hi_Spec := (hi_Spec small_instance)\<lparr>spec_RestoreFrom := ''k1''\<rparr>,
       hi_Status := zero_HermesInstanceStatus\<lparr>st_RestoredFrom := ''k1''\<rparr>\<rparr>"

lemma update_accepts_iff_witness:
  "fst (snd (ValidateUpdate offline_validator restored_instance small_instance ())) \<noteq> None \<and>
   fst (snd (ValidateUpdate offline_validator small_instance small_instance ())) = None"
proof -
  have "\<not> respects_latches restored_instance small_instance"
    by (simp add: respects_latches_def restored_instance_def small_instance_def zero_defs)
  moreover have "respects_latches small_instance small_instance"
    by (simp add: respects_latches_def)
  ultimately show ?thesis
    by (simp add: update_accepts_iff [OF offline_readable] small_instance_wellformed)
qed

end
