(* ===== verification/Policy.thy ===== *)
theory Policy
  imports API_Types JSON
begin

text \<open>
  \<open>internal/controller/selfconfig_policy.go\<close>: the three gates of a HermesSelfConfig. The glob
  compiler (\<open>gobwas/glob\<close> with the separator '.') and the text of a JSON decoding error are
  parameters. The tree walk is specified by \<open>path_in\<close> and \<open>key_in\<close>, the keys of a document.
\<close>

section \<open>Actions\<close>

definition has_patch :: "HermesSelfConfig \<Rightarrow> bool" where
  "has_patch sc = (case scs_PatchConfig (hsc_Spec sc) of None \<Rightarrow> False | Some raw \<Rightarrow> raw \<noteq> '''')"

definition DetermineActions :: "HermesSelfConfig \<Rightarrow> SelfConfigAction list" where
  "DetermineActions sc =
     (if scs_AddSkills (hsc_Spec sc) \<noteq> [] then [ActionSkills] else []) @
     (if has_patch sc then [ActionConfig] else []) @
     (if scs_AddEnvVars (hsc_Spec sc) \<noteq> [] then [ActionEnvVars] else []) @
     (if scs_AddWorkspaceFiles (hsc_Spec sc) \<noteq> [] then [ActionWorkspaceFiles] else []) @
     (if scs_AddProfileSnapshot (hsc_Spec sc) \<noteq> None then [ActionProfiles] else [])"

definition CheckAllowedActions :: "SelfConfigAction list \<Rightarrow> SelfConfigAction list \<Rightarrow> SelfConfigAction list" where
  "CheckAllowedActions requested allowed = filter (\<lambda>a. a \<notin> set allowed) requested"

section \<open>Protected paths\<close>

definition joinPath :: "string \<Rightarrow> string \<Rightarrow> string" where
  "joinPath prefix key = (if prefix = '''' then key else prefix @ ''.'' @ key)"

fun first_some :: "('a \<Rightarrow> 'b option) \<Rightarrow> 'a list \<Rightarrow> 'b option" where
  "first_some f [] = None"
| "first_some f (x # xs) = (case f x of None \<Rightarrow> first_some f xs | Some y \<Rightarrow> Some y)"

lemma first_some_cong [fundef_cong]:
  "xs = ys \<Longrightarrow> (\<And>x. x \<in> set ys \<Longrightarrow> f x = g x) \<Longrightarrow> first_some f xs = first_some g ys"
  by (induction xs arbitrary: ys) (auto split: option.split)

text \<open>
  \<open>walk\<close> answers the path at which the callback stopped the walk. Keys are visited in the order
  \<open>sort.Strings\<close> gives them; decoded objects have distinct keys.
\<close>

function walk :: "(string \<Rightarrow> bool) \<Rightarrow> string \<Rightarrow> json \<Rightarrow> string option" where
  "walk fn prefix v =
     (if prefix \<noteq> '''' \<and> fn prefix then Some prefix
      else case v of
        JObj m \<Rightarrow> first_some (\<lambda>(k, x). walk fn (joinPath prefix k) x) (sort_key fst m)
      | _ \<Rightarrow> None)"
  by pat_completeness auto
termination
proof (relation "measure (\<lambda>(fn, prefix, v). size v)")
  fix fn :: "string \<Rightarrow> bool" and prefix v m kv k x
  assume "v = JObj m" and "kv \<in> set (sort_key fst m)" and "(k, x) = kv"
  then have "(k, x) \<in> set m" by simp
  then have "size x < size (JObj m)"
    by (induction m) auto
  with \<open>v = JObj m\<close> show "((fn, joinPath prefix k, x), fn, prefix, v) \<in> measure (\<lambda>(fn, prefix, v). size v)"
    by simp
qed simp

declare walk.simps [simp del]

fun compile_all :: "(string \<Rightarrow> go_error + (string \<Rightarrow> bool)) \<Rightarrow> string list \<Rightarrow> go_error + (string \<Rightarrow> bool) list" where
  "compile_all compile [] = Inr []"
| "compile_all compile (p # ps) =
     (case compile p of
        Inl e \<Rightarrow> Inl (Wrapped (''invalid protectedKeys pattern '' @ quoted p) e)
      | Inr g \<Rightarrow> (case compile_all compile ps of Inl e \<Rightarrow> Inl e | Inr gs \<Rightarrow> Inr (g # gs)))"

record policy_lib =
  pl_glob :: "string \<Rightarrow> go_error + (string \<Rightarrow> bool)"
  pl_json_error :: "string \<Rightarrow> go_error"

definition CheckProtectedPaths :: "policy_lib \<Rightarrow> string \<Rightarrow> string list \<Rightarrow> go_error + string" where
  "CheckProtectedPaths lib patch protected =
     (if patch = '''' \<or> protected = [] then Inr ''''
      else case Unmarshal_map patch of
        None \<Rightarrow> Inl (Wrapped ''invalid JSON merge patch'' (pl_json_error lib patch))
      | Some tree \<Rightarrow>
          (case compile_all (pl_glob lib) protected of
             Inl e \<Rightarrow> Inl e
           | Inr globs \<Rightarrow>
               Inr (case walk (\<lambda>path. list_ex (\<lambda>g. g path) globs) '''' (JObj tree) of
                      None \<Rightarrow> '''' | Some hit \<Rightarrow> hit)))"

section \<open>What the walk visits\<close>

text \<open>
  The keys of a document, as lists of keys from the root, without reference to the walk: \<open>path_in\<close>
  those that objects lead to, \<open>key_in\<close> all of them, those inside arrays too, where an array adds
  nothing to the path. \<open>dotted\<close> is the dotted path of such a list; empty keys at its start are not
  seen in it.
\<close>

inductive path_in :: "json \<Rightarrow> string list \<Rightarrow> bool" where
  here: "path_in v []"
| child: "(k, x) \<in> set m \<Longrightarrow> path_in x ks \<Longrightarrow> path_in (JObj m) (k # ks)"

inductive key_in :: "json \<Rightarrow> string list \<Rightarrow> bool" where
  root: "key_in v []"
| member: "(k, x) \<in> set m \<Longrightarrow> key_in x ks \<Longrightarrow> key_in (JObj m) (k # ks)"
| element: "x \<in> set l \<Longrightarrow> key_in x ks \<Longrightarrow> key_in (JArr l) ks"

inductive_simps path_in_JObj: "path_in (JObj m) ks"
inductive_simps path_in_leaf:
  "path_in JNull ks" "path_in (JBool b) ks" "path_in (JInt i) ks" "path_in (JNum s) ks" "path_in (JStr s) ks" "path_in (JArr l) ks"

definition dotted :: "string list \<Rightarrow> string" where
  "dotted ks = Join (dropWhile (\<lambda>k. k = '''') ks) ''.''"

lemma Join_snoc: "xs \<noteq> [] \<Longrightarrow> Join (xs @ [k]) sep = Join xs sep @ sep @ k"
  by (induction xs sep rule: Join.induct) simp_all

lemma Join_empty: "xs \<noteq> [] \<Longrightarrow> hd xs \<noteq> '''' \<Longrightarrow> Join xs sep \<noteq> ''''"
  by (cases xs; cases "tl xs") auto

lemma dotted_Nil [simp]: "dotted [] = ''''"
  by (simp add: dotted_def)

lemma dotted_snoc: "joinPath (dotted ps) k = dotted (ps @ [k])"
proof (cases "\<forall>x \<in> set ps. x = ''''")
  case True
  then have empty: "dropWhile (\<lambda>k. k = '''') ps = []" by (simp add: dropWhile_eq_Nil_conv)
  show ?thesis using True by (simp add: joinPath_def dotted_def dropWhile_append empty)
next
  case False
  let ?xs = "dropWhile (\<lambda>k. k = '''') ps"
  have xs: "?xs \<noteq> []" using False by simp
  then have "hd ?xs \<noteq> ''''" using hd_dropWhile [of "\<lambda>k. k = ''''" ps] by blast
  then have "dotted ps \<noteq> ''''" using Join_empty [OF xs] by (simp add: dotted_def)
  then show ?thesis using False Join_snoc [OF xs] by (auto simp: joinPath_def dotted_def dropWhile_append)
qed

lemma first_some_Some:
  "first_some f xs = Some y \<Longrightarrow> \<exists>x \<in> set xs. f x = Some y"
  by (induction xs) (auto split: option.splits)

lemma first_some_None: "first_some f xs = None \<longleftrightarrow> (\<forall>x \<in> set xs. f x = None)"
  by (induction xs) (auto split: option.splits)

lemma walk_sound:
  "walk fn p v = Some q \<Longrightarrow> p = dotted ps \<Longrightarrow> \<exists>ks. path_in v ks \<and> q = dotted (ps @ ks) \<and> fn q \<and> q \<noteq> ''''"
proof (induction fn p v arbitrary: ps rule: walk.induct)
  case (1 fn p v)
  show ?case
  proof (cases "p \<noteq> '''' \<and> fn p")
    case True
    then have "q = p" using 1(2) by (simp add: walk.simps [of fn p v])
    then show ?thesis using True 1(3) path_in.here by (intro exI [of _ "[]"]) simp
  next
    case False
    then obtain m where v: "v = JObj m"
      and f: "first_some (\<lambda>(k, x). walk fn (joinPath p k) x) (sort_key fst m) = Some q"
      using 1(2) by (subst (asm) walk.simps) (auto split: json.splits)
    from first_some_Some [OF f] obtain k x
      where kx: "(k, x) \<in> set m" and w: "walk fn (joinPath p k) x = Some q" by auto
    have "\<exists>ks. path_in x ks \<and> q = dotted ((ps @ [k]) @ ks) \<and> fn q \<and> q \<noteq> ''''"
      by (rule 1(1) [of m "(k, x)" k x]) (use False v kx w 1(3) dotted_snoc in auto)
    then obtain ks where "path_in x ks" "q = dotted (ps @ (k # ks))" "fn q" "q \<noteq> ''''" by auto
    with kx v show ?thesis by (intro exI [of _ "k # ks"]) (auto intro: path_in.child)
  qed
qed

lemma walk_complete:
  "path_in v ks \<Longrightarrow> dotted (ps @ ks) \<noteq> '''' \<Longrightarrow> fn (dotted (ps @ ks)) \<Longrightarrow> walk fn (dotted ps) v \<noteq> None"
proof (induction arbitrary: ps rule: path_in.induct)
  case (here v)
  then show ?case by (subst walk.simps) simp
next
  case (child k x m ks)
  then have "walk fn (dotted (ps @ [k])) x \<noteq> None" using child.IH [of "ps @ [k]"] by simp
  then have "walk fn (joinPath (dotted ps) k) x \<noteq> None" by (simp add: dotted_snoc)
  with child.hyps(1)
  have "first_some (\<lambda>(k, x). walk fn (joinPath (dotted ps) k) x) (sort_key fst m) \<noteq> None"
    unfolding first_some_None by force
  then show ?case by (subst walk.simps) simp
qed

lemma compile_all_Inr:
  "compile_all c ps = Inr gs \<Longrightarrow> list_ex (\<lambda>g. g s) gs \<longleftrightarrow> (\<exists>p \<in> set ps. \<exists>g. c p = Inr g \<and> g s)"
  by (induction ps arbitrary: gs) (auto split: sum.splits)

lemma compile_all_Inl:
  "compile_all c ps = Inl e \<Longrightarrow> \<exists>p \<in> set ps. \<exists>e'. c p = Inl e' \<and> e = Wrapped (''invalid protectedKeys pattern '' @ quoted p) e'"
  by (induction ps) (auto split: sum.splits)

section \<open>Properties\<close>

definition matches :: "policy_lib \<Rightarrow> string list \<Rightarrow> string \<Rightarrow> bool" where
  "matches lib protected q \<longleftrightarrow> (\<exists>p \<in> set protected. \<exists>g. pl_glob lib p = Inr g \<and> g q)"

lemma compile_all_total:
  "(\<And>p. p \<in> set ps \<Longrightarrow> \<exists>g. c p = Inr g) \<Longrightarrow> \<exists>gs. compile_all c ps = Inr gs"
  by (induction ps) (fastforce split: sum.splits)+

lemma Unmarshal_map_empty [simp]: "Unmarshal_map [] = None"
  by (simp add: Unmarshal_map_def Unmarshal_def)

lemma protected_paths:
  assumes "Unmarshal_map patch = Some tree"
    and "\<And>p. p \<in> set protected \<Longrightarrow> \<exists>g. pl_glob lib p = Inr g"
  shows "\<exists>hit. CheckProtectedPaths lib patch protected = Inr hit \<and>
    (hit \<noteq> '''' \<longrightarrow> matches lib protected hit \<and> (\<exists>ks. path_in (JObj tree) ks \<and> hit = dotted ks)) \<and>
    (hit = '''' \<longrightarrow> (\<forall>ks. path_in (JObj tree) ks \<and> dotted ks \<noteq> '''' \<longrightarrow> \<not> matches lib protected (dotted ks)))"
proof -
  obtain gs where gs: "compile_all (pl_glob lib) protected = Inr gs"
    using compile_all_total assms(2) by metis
  have m: "list_ex (\<lambda>g. g s) gs = matches lib protected s" for s
    using compile_all_Inr [OF gs] by (simp add: matches_def)
  let ?w = "walk (\<lambda>path. list_ex (\<lambda>g. g path) gs) '''' (JObj tree)"
  have patch: "patch \<noteq> ''''"
    using assms(1) by auto
  show ?thesis
  proof (cases "protected = []")
    case True
    then show ?thesis by (simp add: CheckProtectedPaths_def matches_def)
  next
    case False
    then have c: "CheckProtectedPaths lib patch protected =
        Inr (case ?w of None \<Rightarrow> '''' | Some hit \<Rightarrow> hit)"
      using patch by (simp add: CheckProtectedPaths_def assms(1) gs)
    show ?thesis
    proof (cases ?w)
      case None
      then have "\<not> matches lib protected (dotted ks)" if "path_in (JObj tree) ks" "dotted ks \<noteq> ''''" for ks
        using walk_complete [of "JObj tree" ks "[]"] that m by (metis append_Nil dotted_Nil)
      with None c show ?thesis by auto
    next
      case (Some hit)
      with walk_sound [OF Some, of "[]"] c m show ?thesis by auto
    qed
  qed
qed

text \<open>
  C25. The policy check of a decodable patch under valid patterns: a non-empty answer is the dotted
  path of a key of the patch, keys joined by dots, that some pattern matches; and when the answer is
  empty, a key of the patch with a protected path is one that only arrays lead to. Those are never
  compared, although the documentation says that any key of the patch is.
\<close>

theorem protected_paths_exact:
  assumes "Unmarshal_map patch = Some tree"
    and "\<And>p. p \<in> set protected \<Longrightarrow> \<exists>g. pl_glob lib p = Inr g"
  shows "\<exists>hit. CheckProtectedPaths lib patch protected = Inr hit \<and>
    (hit \<noteq> '''' \<longrightarrow> matches lib protected hit \<and> (\<exists>ks. path_in (JObj tree) ks \<and> hit = dotted ks)) \<and>
    (hit = '''' \<longrightarrow> (\<forall>ks. key_in (JObj tree) ks \<and> dotted ks \<noteq> '''' \<and> matches lib protected (dotted ks) \<longrightarrow>
       \<not> path_in (JObj tree) ks))"
  using protected_paths [OF assms] by blast

definition literal_lib :: policy_lib where
  "literal_lib = \<lparr>pl_glob = (\<lambda>p. Inr (\<lambda>s. s = p)), pl_json_error = (\<lambda>s. Plain ''invalid'')\<rparr>"

lemma protected_paths_exact_witness:
  \<open>CheckProtectedPaths literal_lib ''{"a":{"b":1}}'' [''a.b''] \<noteq> Inr ''''\<close>
proof -
  have u: \<open>Unmarshal_map ''{"a":{"b":1}}'' = Some [(''a'', JObj [(''b'', JNum ''1'')])]\<close>
    by code_simp
  have g: "\<exists>g. pl_glob literal_lib p = Inr g" for p
    by (simp add: literal_lib_def)
  have "path_in (JObj [(''a'', JObj [(''b'', JNum ''1'')])]) [''a'', ''b'']"
    "key_in (JObj [(''a'', JObj [(''b'', JNum ''1'')])]) [''a'', ''b'']"
    by (auto simp: path_in_JObj path_in_leaf intro!: key_in.intros)
  moreover have "matches literal_lib [''a.b''] (dotted [''a'', ''b''])" "dotted [''a'', ''b''] \<noteq> ''''"
    by (simp_all add: matches_def literal_lib_def dotted_def)
  ultimately show ?thesis
    using protected_paths_exact [OF u, of "[''a.b'']" literal_lib] g by auto
qed

text \<open>
  The gap of the gate: overwriting an ancestor, or going through an array, is not seen. A patch
  that sets \<open>model\<close> to null passes every pattern that does not match \<open>model\<close> itself, so
  \<open>model.name\<close> does not protect the name, and no key below an array is ever compared.
\<close>

theorem ancestor_overwrite_passes:
  assumes "pl_glob lib p = Inr g" and "\<not> g ''model''"
  shows \<open>CheckProtectedPaths lib ''{"model":null}'' [p] = Inr '''' \<and>
         CheckProtectedPaths lib ''{"model":[{"name":1}]}'' [p] = Inr ''''\<close>
proof -
  have u: \<open>Unmarshal_map ''{"model":null}'' = Some [(''model'', JNull)]\<close>
    \<open>Unmarshal_map ''{"model":[{"name":1}]}'' = Some [(''model'', JArr [JObj [(''name'', JNum ''1'')]])]\<close>
    by code_simp+
  show ?thesis
    using assms by (simp add: CheckProtectedPaths_def u walk.simps joinPath_def)
qed

lemma ancestor_overwrite_passes_witness:
  \<open>CheckProtectedPaths literal_lib ''{"model":null}'' [''model.name''] = Inr ''''\<close>
  using ancestor_overwrite_passes [of literal_lib "''model.name''" "\<lambda>s. s = ''model.name''"]
  by (simp add: literal_lib_def)

text \<open>
  The action gate: the requested actions are exactly the kinds of mutation the request
  carries, without repetition, and the check leaves out nothing but the allowed ones, so it is
  empty exactly when every requested action is allowed.
\<close>

theorem actions_gate:
  "distinct (DetermineActions sc) \<and>
   (CheckAllowedActions (DetermineActions sc) allowed = [] \<longleftrightarrow>
      (scs_AddSkills (hsc_Spec sc) \<noteq> [] \<longrightarrow> ActionSkills \<in> set allowed) \<and>
      (has_patch sc \<longrightarrow> ActionConfig \<in> set allowed) \<and>
      (scs_AddEnvVars (hsc_Spec sc) \<noteq> [] \<longrightarrow> ActionEnvVars \<in> set allowed) \<and>
      (scs_AddWorkspaceFiles (hsc_Spec sc) \<noteq> [] \<longrightarrow> ActionWorkspaceFiles \<in> set allowed) \<and>
      (scs_AddProfileSnapshot (hsc_Spec sc) \<noteq> None \<longrightarrow> ActionProfiles \<in> set allowed))"
  by (simp add: DetermineActions_def CheckAllowedActions_def)

lemma actions_gate_witness:
  "CheckAllowedActions (DetermineActions
     (zero_HermesSelfConfig\<lparr>hsc_Spec := zero_HermesSelfConfigSpec\<lparr>scs_AddSkills := [zero_SelfConfigSkill]\<rparr>\<rparr>))
     [''config''] \<noteq> []"
  using actions_gate [of "zero_HermesSelfConfig\<lparr>hsc_Spec := zero_HermesSelfConfigSpec
    \<lparr>scs_AddSkills := [zero_SelfConfigSkill]\<rparr>\<rparr>" "[''config'']"]
  by simp

end
