(* ===== verification/Workspace.thy ===== *)
theory Workspace
  imports Common
begin

text \<open>
  \<open>internal/resources/workspace_configmap.go\<close>: workspace files kept as data keys of a ConfigMap.
  A path is encoded by replacing every slash by a double underscore. The section on round trips
  says for which paths \<open>DecodeWorkspacePath\<close> gives the path back, and shows paths for which it does not.
\<close>

section \<open>Path encoding\<close>

definition InitialDirsKey :: string where
  "InitialDirsKey = ''__hermes_initial_dirs__''"

definition EncodeWorkspacePath :: "string \<Rightarrow> string" where
  "EncodeWorkspacePath path = ReplaceAll path ''/'' ''__''"

definition DecodeWorkspacePath :: "string \<Rightarrow> string" where
  "DecodeWorkspacePath key = ReplaceAll key ''__'' ''/''"

section \<open>The workspace ConfigMap\<close>

definition SemaphoreSoulBlock :: string where
  \<open>SemaphoreSoulBlock =
     ''

# Semaphore UI '' @
     [CHR 0xE2, CHR 0x80, CHR 0x94] @
     '' infrastructure automation

You have access to a **Semaphore UI** instance for running Ansible
playbooks, Terraform/OpenTofu plans, and general scripts with full
run logs and audit trails.

- **URL**: `$SEMAPHORE_URL` (injected automatically)
- **Auth**: `$SEMAPHORE_TOKEN` (per-agent, scoped to this project)
- **Skill**: Load the `semaphore-ui` skill (`skill_view(name='semaphore-ui')`)
  for the full API reference, then use Semaphore for any multi-step
  infrastructure operation that needs logging, rollback, or approval gates.

When given an infra task that spans multiple hosts or needs an audit trail
(Terraform, Ansible, DB migration, cluster upgrade), **default to Semaphore**.
The `semaphore-ui` skill has templates for common tasks.

**Quickstart** (fallback if skill not loaded):

```python
import http.client, json, os

url = os.environ["SEMAPHORE_URL"]
token = os.environ["SEMAPHORE_TOKEN"]
host = url.split("://")[1].split(":")[0]
port = int(url.split(":")[-1])

def sema(method, path, body=None):
    c = http.client.HTTPConnection(host, port)
    h = {"Authorization": f"Bearer {token}"}
    if body:
        h["Content-Type"] = "application/json"
        body = json.dumps(body)
    c.request(method, path, body, h)
    return json.loads(c.getresponse().read())

# your projects (token-scoped)
print(sema("GET", "/api/projects"))
```
''\<close>

definition workspace_content :: "HermesInstance \<Rightarrow> WorkspaceFile \<Rightarrow> string" where
  "workspace_content inst f =
     (if wf_Path f = ''SOUL.md'' \<and> SemaphoreEnabled inst
      then SemaphoreSoulBlock @ [CHR 0x0A] @ wf_Content f
      else wf_Content f)"

definition BuildWorkspaceConfigMap :: "HermesInstance \<Rightarrow> ConfigMap" where
  "BuildWorkspaceConfigMap inst =
     (let ws = spec_Workspace (hi_Spec inst);
          data = fold (\<lambda>f. mset1 (EncodeWorkspacePath (wf_Path f)) (workspace_content inst f))
                   (ws_InitialFiles ws) [];
          data = (if ws_InitialDirs ws \<noteq> []
                  then mset1 InitialDirsKey (Join (sort (ws_InitialDirs ws)) [CHR 0x0A] @ [CHR 0x0A]) data
                  else data)
      in \<lparr>cm_Meta = (new_meta (WorkspaceConfigMapName inst) (inst_ns inst))
            \<lparr>om_Labels := LabelsForInstance inst\<rparr>,
          cm_Data = data\<rparr>)"

section \<open>Round trips\<close>

lemma ReplaceAll_Nil [simp]: "ReplaceAll [] old new = []"
  by (subst ReplaceAll.simps) simp

lemma Encode_simps [simp]:
  "EncodeWorkspacePath [] = []"
  "EncodeWorkspacePath (c # s) = (if c = CHR ''/'' then ''__'' else [c]) @ EncodeWorkspacePath s"
  unfolding EncodeWorkspacePath_def
  by simp (subst ReplaceAll.simps, simp add: HasPrefix_def)

lemma Decode_Nil [simp]: "DecodeWorkspacePath [] = []"
  by (simp add: DecodeWorkspacePath_def)

lemma Decode_double [simp]:
  "DecodeWorkspacePath (CHR ''_'' # CHR ''_'' # s) = CHR ''/'' # DecodeWorkspacePath s"
  unfolding DecodeWorkspacePath_def by (subst ReplaceAll.simps, simp add: HasPrefix_def)

lemma Decode_other:
  assumes "c \<noteq> CHR ''_'' \<or> s = [] \<or> hd s \<noteq> CHR ''_''"
  shows "DecodeWorkspacePath (c # s) = c # DecodeWorkspacePath s"
proof -
  have "\<not> HasPrefix (c # s) ''__''"
    using assms by (cases s) (auto simp: HasPrefix_def)
  then show ?thesis
    unfolding DecodeWorkspacePath_def by (subst ReplaceAll.simps) simp
qed

text \<open>A path decodes when no underscore is followed by an underscore or a slash.\<close>

fun decodable :: "string \<Rightarrow> bool" where
  "decodable [] = True"
| "decodable [c] = True"
| "decodable (c # d # s) = ((c = CHR ''_'' \<longrightarrow> d \<noteq> CHR ''_'' \<and> d \<noteq> CHR ''/'') \<and> decodable (d # s))"

lemma hd_Encode:
  "EncodeWorkspacePath s = [] \<longleftrightarrow> s = []"
  "hd (EncodeWorkspacePath (d # s)) = CHR ''_'' \<longleftrightarrow> d = CHR ''_'' \<or> d = CHR ''/''"
  by (cases s; simp)+

lemma Decode_Encode_Cons:
  "DecodeWorkspacePath (EncodeWorkspacePath (c # s)) = c # s \<longleftrightarrow>
   DecodeWorkspacePath (EncodeWorkspacePath s) = s \<and>
   (c = CHR ''_'' \<longrightarrow> s = [] \<or> (hd s \<noteq> CHR ''_'' \<and> hd s \<noteq> CHR ''/''))"
proof (cases "c = CHR ''_'' \<and> s \<noteq> [] \<and> (hd s = CHR ''_'' \<or> hd s = CHR ''/'')")
  case True
  then obtain d t where s: "s = d # t" and d: "d = CHR ''_'' \<or> d = CHR ''/''"
    by (cases s) auto
  then have "\<exists>u. EncodeWorkspacePath s = CHR ''_'' # u" by auto
  then show ?thesis using True s d by auto
next
  case False
  show ?thesis
  proof (cases "c = CHR ''/''")
    case True
    then show ?thesis by simp
  next
    case slash: False
    have "c \<noteq> CHR ''_'' \<or> EncodeWorkspacePath s = [] \<or> hd (EncodeWorkspacePath s) \<noteq> CHR ''_''"
      using False by (cases s) (auto simp: hd_Encode)
    then show ?thesis using False slash by (auto simp: Decode_other)
  qed
qed

lemma decodable_iff: "DecodeWorkspacePath (EncodeWorkspacePath p) = p \<longleftrightarrow> decodable p"
proof (induction p)
  case (Cons c s)
  then show ?case
    unfolding Decode_Encode_Cons by (cases s) auto
qed simp

text \<open>
  The contract of an encoding of names as keys: on a domain, decoding gives the name back. Then
  a map filled through the encoding answers each name of the domain with its last value.
\<close>

locale key_encoding =
  fixes enc :: "string \<Rightarrow> string" and dec :: "string \<Rightarrow> string" and ok :: "string \<Rightarrow> bool"
  assumes dec_enc: "ok p \<Longrightarrow> dec (enc p) = p"
begin

lemma enc_inj: "ok p \<Longrightarrow> ok q \<Longrightarrow> enc p = enc q \<longleftrightarrow> p = q"
  by (metis dec_enc)

lemma fold_untouched:
  assumes "ok q" and "\<forall>x \<in> set xs. ok (key x)" and "q \<notin> key ` set xs"
  shows "map_of (fold (\<lambda>x. mset1 (enc (key x)) (val x)) xs m) (enc q) = map_of m (enc q)"
  using assms by (induction xs arbitrary: m) (auto simp: enc_inj)

lemma fold_lookup:
  assumes "\<forall>x \<in> set xs. ok (key x)" and "distinct (map key xs)" and "x \<in> set xs"
  shows "map_of (fold (\<lambda>x. mset1 (enc (key x)) (val x)) xs m) (enc (key x)) = Some (val x)"
  using assms
proof (induction xs arbitrary: m)
  case (Cons y ys)
  show ?case
  proof (cases "x = y")
    case True
    with Cons.prems show ?thesis by (auto simp: fold_untouched)
  next
    case False
    with Cons show ?thesis by auto
  qed
qed simp

end

interpretation path: key_encoding EncodeWorkspacePath DecodeWorkspacePath decodable
  by unfold_locales (simp add: decodable_iff)

lemma InitialDirsKey_reserved:
  assumes "decodable p" and "p = [] \<or> hd p \<noteq> CHR ''/''"
  shows "EncodeWorkspacePath p \<noteq> InitialDirsKey"
proof
  assume "EncodeWorkspacePath p = InitialDirsKey"
  then have "p = DecodeWorkspacePath InitialDirsKey"
    using decodable_iff assms(1) by metis
  then show False
    using assms(2) by (simp add: InitialDirsKey_def Decode_other)
qed

interpretation wcm: built_object BuildWorkspaceConfigMap cm_Meta "''-workspace''"
  by unfold_locales (simp_all add: BuildWorkspaceConfigMap_def Let_def new_meta_def name_defs)

text \<open>
  The workspace ConfigMap holds every initial file: when the paths are distinct, relative and
  decodable, the data key of a file's encoded path has the file's content (with the Semaphore
  block in front of \<open>SOUL.md\<close> when Semaphore is on), and the reserved directory key has the
  sorted directories, whatever the files are.
\<close>

theorem workspace_files_stored:
  assumes "\<forall>f \<in> set (ws_InitialFiles (spec_Workspace (hi_Spec inst))).
             decodable (wf_Path f) \<and> (wf_Path f = [] \<or> hd (wf_Path f) \<noteq> CHR ''/'')"
    and "distinct (map wf_Path (ws_InitialFiles (spec_Workspace (hi_Spec inst))))"
  shows "(\<forall>f \<in> set (ws_InitialFiles (spec_Workspace (hi_Spec inst))).
            mget (cm_Data (BuildWorkspaceConfigMap inst)) (EncodeWorkspacePath (wf_Path f)) =
              Some (workspace_content inst f)) \<and>
         (ws_InitialDirs (spec_Workspace (hi_Spec inst)) \<noteq> [] \<longrightarrow>
            mget (cm_Data (BuildWorkspaceConfigMap inst)) InitialDirsKey =
              Some (Join (sort (ws_InitialDirs (spec_Workspace (hi_Spec inst)))) [CHR 0x0A] @ [CHR 0x0A]))"
  using assms InitialDirsKey_reserved path.fold_lookup
    [of "ws_InitialFiles (spec_Workspace (hi_Spec inst))" wf_Path _ "workspace_content inst" "[]"]
  by (auto simp: BuildWorkspaceConfigMap_def Let_def mget_def)

definition workspace_example :: HermesInstance where
  "workspace_example =
     zero_HermesInstance\<lparr>hi_Spec := zero_HermesInstanceSpec\<lparr>spec_Workspace :=
       zero_WorkspaceSpec\<lparr>ws_InitialFiles :=
         [\<lparr>wf_Path = ''SOUL.md'', wf_Content = ''soul''\<rparr>,
          \<lparr>wf_Path = ''notes/a_b.md'', wf_Content = ''x''\<rparr>]\<rparr>\<rparr>\<rparr>"

lemma workspace_files_stored_witness:
  "mget (cm_Data (BuildWorkspaceConfigMap workspace_example)) ''notes__a_b.md'' = Some ''x''"
  using workspace_files_stored [of workspace_example]
  by (simp add: workspace_example_def zero_HermesInstance_def zero_HermesInstanceSpec_def
      workspace_content_def)

text \<open>
  C30. \<open>DecodeWorkspacePath\<close> is the inverse of \<open>EncodeWorkspacePath\<close> on exactly the paths in which
  no underscore is followed by an underscore or a slash; it is not for \<open>a__b\<close> nor for \<open>a_/b\<close>, and
  two paths and the reserved key share an encoding.
\<close>

theorem workspace_path_roundtrip:
  "(DecodeWorkspacePath (EncodeWorkspacePath p) = p) = decodable p \<and>
   DecodeWorkspacePath (EncodeWorkspacePath ''a__b'') = ''a/b'' \<and>
   EncodeWorkspacePath ''a__b'' = EncodeWorkspacePath ''a/b'' \<and>
   EncodeWorkspacePath ''/hermes_initial_dirs/'' = InitialDirsKey"
  by (simp add: decodable_iff InitialDirsKey_def Decode_other)

end
