(* ===== verification/Snapshot.thy ===== *)
theory Snapshot
  imports Common
begin

text \<open>
  \<open>internal/resources/snapshot_job.go\<close>: the Job that writes a profile snapshot. \<open>sh_script\<close> reads
  a script as the shell does; with it the script of the Job is shown to do what it means to with any
  data, and to run what a profile id with a quote in it says.
\<close>

text \<open>\<open>sanitizeProfileID\<close>, on ASCII: one output character for each character of the input.\<close>

definition sanitize_char :: "char \<Rightarrow> char" where
  "sanitize_char c =
     (let n = of_char c :: nat in
      if (97 \<le> n \<and> n \<le> 122) \<or> (48 \<le> n \<and> n \<le> 57) \<or> c = CHR ''-'' then c else CHR ''-'')"

definition sanitizeProfileID :: "string \<Rightarrow> string" where
  "sanitizeProfileID i = map sanitize_char (ToLower i)"

definition snapshot_command :: "string \<Rightarrow> string \<Rightarrow> string" where
  \<open>snapshot_command relPath escaped =
     ''set -eu; mkdir -p "$(dirname '' @ [CHR 0x27] @ relPath @ [CHR 0x27] @ '')"; printf '' @
     [CHR 0x27] @ ''%s'' @ [CHR 0x27] @ '' '' @ [CHR 0x27] @ escaped @ [CHR 0x27] @ '' > '' @
     [CHR 0x27] @ relPath @ [CHR 0x27]\<close>

definition escape_quotes :: "string \<Rightarrow> string" where
  "escape_quotes data = ReplaceAll data [CHR 0x27] [CHR 0x27, CHR 0x5C, CHR 0x27, CHR 0x27]"

definition snapshot_path :: "string \<Rightarrow> time \<Rightarrow> string" where
  "snapshot_path profileID when = ''/data/snapshots/'' @ profileID @ ''/'' @ format_rfc3339 when @ ''.json''"

definition BuildSnapshotJob :: "HermesInstance \<Rightarrow> string \<Rightarrow> string \<Rightarrow> time \<Rightarrow> Job" where
  "BuildSnapshotJob inst profileID data when =
     (let stamp = format_compact when;
          name = inst_name inst @ ''-snapshot-'' @ sanitizeProfileID profileID @ ''-'' @ stamp;
          labels = mset1 ''hermes.agent/profile-id'' (sanitizeProfileID profileID)
                     (mset1 ''hermes.agent/component'' ''snapshot'' (LabelsForInstance inst));
          cmd = snapshot_command (snapshot_path profileID when) (escape_quotes data)
      in \<lparr>job_Meta = (new_meta name (inst_ns inst))\<lparr>om_Labels := labels\<rparr>,
          job_Spec =
            \<lparr>job_BackoffLimit = Some 1, job_TTLSecondsAfterFinished = Some 3600,
             job_Template =
               \<lparr>pts_Labels = labels,
                pts_Spec = empty_pod_spec
                  \<lparr>ps_RestartPolicy := ''Never'', ps_DNSPolicy := ''ClusterFirst'',
                   ps_SchedulerName := ''default-scheduler'',
                   ps_TerminationGracePeriodSeconds := Some 30,
                   ps_SecurityContext := Some
                     \<lparr>psc_RunAsNonRoot = Some True, psc_RunAsUser = Some 1000, psc_RunAsGroup = Some 1000,
                      psc_FSGroup = Some 1000, psc_SeccompProfile = Some ''RuntimeDefault'', psc_Opaque = JNull\<rparr>,
                   ps_Containers :=
                     [empty_container
                        \<lparr>ctr_Name := ''writer'', ctr_Image := ''busybox:1.36'',
                         ctr_ImagePullPolicy := ''IfNotPresent'',
                         ctr_Command := [''/bin/sh'', ''-c'', cmd],
                         ctr_TerminationMessagePath := ''/dev/termination-log'',
                         ctr_TerminationMessagePolicy := ''File'',
                         ctr_SecurityContext := Some
                           \<lparr>scx_RunAsNonRoot = None, scx_RunAsUser = None,
                            scx_ReadOnlyRootFilesystem = Some True,
                            scx_AllowPrivilegeEscalation = Some False,
                            scx_CapabilitiesDrop = [''ALL''], scx_Opaque = JNull\<rparr>,
                         ctr_VolumeMounts :=
                           [\<lparr>vm_Name = ''honcho-data'', vm_MountPath = ''/data'', vm_SubPath = '''',
                             vm_ReadOnly = False, vm_Opaque = JNull\<rparr>]\<rparr>],
                   ps_Volumes :=
                     [\<lparr>vol_Name = ''honcho-data'', vol_Source = VS_PVC (HonchoPVCName inst) False\<rparr>]\<rparr>\<rparr>\<rparr>,
          job_Conditions = []\<rparr>)"

section \<open>What the shell reads\<close>

text \<open>
  A reader of the part of the shell's language that \<open>snapshot_command\<close> uses, with the quoting rules of
  POSIX: nothing is special between single quotes; between double quotes only a command substitution
  is; outside of quotes blanks separate words, a semicolon ends a command, a greater-than sign
  redirects and a backslash quotes the next character. A word with a command substitution is given by
  its start, the commands and its end. The reader answers \<open>None\<close> where a quote is left open and at
  whatever else is special in the shell, so an answer is never a guess. \<open>sh_read st p s\<close> reads \<open>s\<close>
  inside the quotes \<open>st\<close>, the innermost first, with \<open>p\<close> the word read so far, if any.
\<close>

datatype sh_token = Word string | Semi | Great | Open string | Close

datatype sh_quote = Unquoted | Single | Double

definition sh_add :: "string option \<Rightarrow> string \<Rightarrow> string option" where
  "sh_add p s = Some ((case p of None \<Rightarrow> [] | Some v \<Rightarrow> v) @ s)"

definition sh_flush :: "string option \<Rightarrow> sh_token list" where
  "sh_flush p = (case p of None \<Rightarrow> [] | Some v \<Rightarrow> [Word v])"

definition sh_out :: "sh_token list \<Rightarrow> sh_token list option \<Rightarrow> sh_token list option" where
  "sh_out ts r = map_option ((@) ts) r"

text \<open>The characters that are special outside of quotes and that the reader refuses.\<close>

definition sh_other :: "char set" where
  "sh_other = {CHR 0x09, CHR 0x0A, CHR 0x60, CHR ''#'', CHR ''&'', CHR ''|'', CHR ''<'', CHR ''>'', CHR ''*'', CHR ''?'',
     CHR ''['', CHR ''~'', CHR ''('', CHR '')'', CHR ''$'', CHR ''{'', CHR ''}'', CHR ''!''}"

fun sh_read :: "sh_quote list \<Rightarrow> string option \<Rightarrow> string \<Rightarrow> sh_token list option" where
  "sh_read [] p s = None"
| "sh_read (q # st) p [] = (if q = Unquoted \<and> st = [] then Some (sh_flush p) else None)"
| "sh_read (Single # st) p (c # s) =
     (if c = CHR 0x27 then sh_read st p s else sh_read (Single # st) (sh_add p [c]) s)"
| "sh_read (Double # st) p (c # s) =
     (if c = CHR 0x22 then sh_read st p s
      else if c = CHR ''$'' \<and> s \<noteq> [] \<and> hd s = CHR ''(''
      then sh_out [Open (the (sh_add p []))] (sh_read (Unquoted # Double # st) None (tl s))
      else if c \<in> {CHR ''$'', CHR 0x60, CHR 0x5C} then None
      else sh_read (Double # st) (sh_add p [c]) s)"
| "sh_read (Unquoted # st) p (c # s) =
     (if c = CHR 0x27 then sh_read (Single # Unquoted # st) (sh_add p []) s
      else if c = CHR 0x22 then sh_read (Double # Unquoted # st) (sh_add p []) s
      else if c = CHR 0x5C then (case s of [] \<Rightarrow> None | d # t \<Rightarrow> sh_read (Unquoted # st) (sh_add p [d]) t)
      else if c = CHR 0x20 then sh_out (sh_flush p) (sh_read (Unquoted # st) None s)
      else if c = CHR '';'' then sh_out (sh_flush p @ [Semi]) (sh_read (Unquoted # st) None s)
      else if c = CHR ''>'' \<and> p = None then sh_out [Great] (sh_read (Unquoted # st) None s)
      else if c = CHR '')'' \<and> st \<noteq> [] then sh_out (sh_flush p @ [Close]) (sh_read st (Some []) s)
      else if c \<in> sh_other then None
      else sh_read (Unquoted # st) (sh_add p [c]) s)"

definition sh_script :: "string \<Rightarrow> sh_token list option" where
  "sh_script s = sh_read [Unquoted] None s"

lemma escape_quotes_simps [simp]:
  "escape_quotes [] = []"
  "escape_quotes (c # s) =
     (if c = CHR 0x27 then [CHR 0x27, CHR 0x5C, CHR 0x27, CHR 0x27] else [c]) @ escape_quotes s"
  unfolding escape_quotes_def
  by (subst ReplaceAll.simps, simp)
    (subst ReplaceAll.simps, simp add: HasPrefix_def)

lemma sh_out_simps [simp]:
  "sh_out ts None = None" "sh_out ts (Some us) = Some (ts @ us)" "sh_out [] r = r"
  by (cases r; simp add: sh_out_def)+

lemma sh_add_simps [simp]: "sh_add None s = Some s" "sh_add (Some v) s = Some (v @ s)"
  by (simp_all add: sh_add_def)

lemma sh_flush_simps [simp]: "sh_flush None = []" "sh_flush (Some v) = [Word v]"
  by (simp_all add: sh_flush_def)

text \<open>Between single quotes the escaped data are read as they are, and so is any text without a quote.\<close>

lemma read_escaped:
  "sh_read (Single # Unquoted # st) (Some v) (escape_quotes data @ CHR 0x27 # r) = sh_read (Unquoted # st) (Some (v @ data)) r"
  by (induction data arbitrary: v) simp_all

lemma read_quoted:
  "CHR 0x27 \<notin> set s \<Longrightarrow> sh_read (Single # st) (Some v) (s @ CHR 0x27 # r) = sh_read st (Some (v @ s)) r"
  by (induction s arbitrary: v) auto

text \<open>The name of a file has no other quotes than the profile id.\<close>

lemma digits_unquoted: "CHR 0x27 \<notin> set (nat_digits n)"
proof (induction n rule: nat_digits.induct)
  case (1 n)
  have "CHR 0x27 \<noteq> char_of (48 + k)" if "k < 10" for k :: nat
  proof -
    have "of_char (char_of (48 + k) :: char) = (48 + k :: nat)" using that by (simp add: of_char_of)
    then show ?thesis by (auto dest: arg_cong [where f = "of_char :: char \<Rightarrow> nat"])
  qed
  then show ?case using 1 by (subst nat_digits.simps) auto
qed

lemma time_unquoted: "CHR 0x27 \<notin> set (format_rfc3339 when)"
  by (auto simp: format_rfc3339_def format_with_def pad_def Itoa_def Let_def digits_unquoted split: prod.split)

lemma read_path:
  assumes "CHR 0x27 \<notin> set i"
  shows "sh_read (Single # st) (Some v) (snapshot_path i when @ CHR 0x27 # r) = sh_read st (Some (v @ snapshot_path i when)) r"
proof -
  have "CHR 0x27 \<notin> set (snapshot_path i when)" using assms time_unquoted by (auto simp: snapshot_path_def)
  then show ?thesis by (rule read_quoted)
qed

text \<open>The script of the only container of a Job.\<close>

definition job_script :: "Job \<Rightarrow> string" where
  "job_script j = (case map ctr_Command (ps_Containers (pts_Spec (job_Template (job_Spec j)))) of
     [[sh, flag, script]] \<Rightarrow> if sh = ''/bin/sh'' \<and> flag = ''-c'' then script else [] | _ \<Rightarrow> [])"

text \<open>
  C31. The script of a snapshot Job makes the directory and writes the data it was given, byte for
  byte, whatever quotes they hold, to the file named after the profile id and the time: this is what
  the shell reads when the id has no quote in it. The id itself is not escaped, although nothing
  forbids a quote in it: a command between two quotes in the id is run as such, twice.
\<close>

theorem snapshot_data_quoted:
  assumes "CHR 0x27 \<notin> set profileID"
  shows "sh_script (job_script (BuildSnapshotJob inst profileID data when)) = Some
      [Word ''set'', Word ''-eu'', Semi,
       Word ''mkdir'', Word ''-p'', Open '''', Word ''dirname'', Word (snapshot_path profileID when), Close, Word '''', Semi,
       Word ''printf'', Word ''%s'', Word data, Great, Word (snapshot_path profileID when)] \<and>
    sh_script (job_script (BuildSnapshotJob inst (CHR 0x27 # '';reboot;'' @ CHR 0x27 # profileID) data when)) = Some
      [Word ''set'', Word ''-eu'', Semi,
       Word ''mkdir'', Word ''-p'', Open '''', Word ''dirname'', Word ''/data/snapshots/'', Semi, Word ''reboot'', Semi,
       Word (profileID @ ''/'' @ format_rfc3339 when @ ''.json''), Close, Word '''', Semi,
       Word ''printf'', Word ''%s'', Word data, Great, Word ''/data/snapshots/'', Semi, Word ''reboot'', Semi,
       Word (profileID @ ''/'' @ format_rfc3339 when @ ''.json'')]"
proof -
  let ?q = "CHR 0x27" and ?rest = "profileID @ ''/'' @ format_rfc3339 when @ ''.json''"
  have script: "job_script (BuildSnapshotJob inst i data when) = snapshot_command (snapshot_path i when) (escape_quotes data)" for i
    by (simp add: job_script_def BuildSnapshotJob_def Let_def)
  have rest: "?q \<notin> set ?rest" using assms time_unquoted by simp
  have path: "snapshot_path (?q # '';reboot;'' @ ?q # profileID) when = ''/data/snapshots/'' @ ?q # '';reboot;'' @ ?q # ?rest"
    by (simp add: snapshot_path_def)
  note r = read_quoted [OF rest, simplified]
  show ?thesis
    unfolding script path sh_script_def
    by (simp add: snapshot_command_def sh_other_def read_escaped read_path [OF assms] r)
qed

lemma snapshot_data_quoted_witness:
  "\<exists>ts. sh_script (job_script (BuildSnapshotJob zero_HermesInstance ''p1'' [CHR 0x27, CHR '';''] 0)) = Some ts \<and>
     Word [CHR 0x27, CHR '';''] \<in> set ts"
  using snapshot_data_quoted [of "''p1''" zero_HermesInstance "[CHR 0x27, CHR '';'']" 0] by auto

end
