(* ===== verification/SelfConfig.thy ===== *)
theory SelfConfig
  imports Env Policy Workspace Snapshot
begin

text \<open>
  \<open>internal/controller/selfconfig_apply.go\<close>, \<open>selfconfig_events.go\<close>, \<open>selfconfig_metrics.go\<close> and
  \<open>hermesselfconfig_controller.go\<close>: the payloads of a HermesSelfConfig and its reconciler. A handler
  takes the request object and the world and returns its result, its error, the request object as
  it holds it at the end, and the world.
\<close>

section \<open>Payloads\<close>

definition SelfConfigFieldManager :: string where
  "SelfConfigFieldManager = ''hermes.agent/selfconfig''"

definition ForceOwnershipAnnotation :: string where
  "ForceOwnershipAnnotation = ''hermes.agent/force-ownership''"

definition newPartialInstance :: "HermesInstance \<Rightarrow> HermesInstance" where
  "newPartialInstance parent =
     zero_HermesInstance
       \<lparr>hi_TypeMeta := \<lparr>tm_APIVersion = ''hermes.agent/v1'', tm_Kind = ''HermesInstance''\<rparr>,
        hi_ObjectMeta := new_meta (inst_name parent) (inst_ns parent)\<rparr>"

definition buildSkillsPatch :: "HermesInstance \<Rightarrow> HermesSelfConfig \<Rightarrow> HermesInstance" where
  "buildSkillsPatch parent sc =
     (let p = newPartialInstance parent in
      p\<lparr>hi_Spec := (hi_Spec p)\<lparr>spec_Skills :=
         map (\<lambda>s. \<lparr>skill_Source = scsk_Source s, skill_Version = scsk_Version s\<rparr>)
           (scs_AddSkills (hsc_Spec sc))\<rparr>\<rparr>)"

definition env_patch_var :: "SelfConfigEnvVar \<Rightarrow> EnvVar" where
  "env_patch_var ev =
     (case sce_ValueFrom ev of
        None \<Rightarrow> \<lparr>ev_Name = sce_Name ev, ev_Value = sce_Value ev, ev_ValueFrom = None\<rparr>
      | Some src \<Rightarrow>
          \<lparr>ev_Name = sce_Name ev, ev_Value = '''',
           ev_ValueFrom = Some
             \<lparr>evs_SecretKeyRef = map_option (\<lambda>k. \<lparr>sks_Name = scks_Name k, sks_Key = scks_Key k, sks_Optional = None\<rparr>)
                (scv_SecretKeyRef src),
              evs_ConfigMapKeyRef = map_option (\<lambda>k. \<lparr>cks_Name = scks_Name k, cks_Key = scks_Key k\<rparr>)
                (scv_ConfigMapKeyRef src),
              evs_Opaque = JNull\<rparr>\<rparr>)"

definition buildEnvVarsPatch :: "HermesInstance \<Rightarrow> HermesSelfConfig \<Rightarrow> HermesInstance" where
  "buildEnvVarsPatch parent sc =
     (let p = newPartialInstance parent in
      p\<lparr>hi_Spec := (hi_Spec p)\<lparr>spec_Env := map env_patch_var (scs_AddEnvVars (hsc_Spec sc))\<rparr>\<rparr>)"

definition formatAppliedFieldEnv :: "string \<Rightarrow> string" where
  "formatAppliedFieldEnv n = ''spec.env[name='' @ n @ '']''"
definition formatAppliedFieldSkill :: "string \<Rightarrow> string" where
  "formatAppliedFieldSkill s = ''spec.skills[source='' @ s @ '']''"
definition formatAppliedFieldFile :: "string \<Rightarrow> string" where
  "formatAppliedFieldFile p = ''workspace-configmap.data[path='' @ p @ '']''"

definition buildWorkspaceFilesPatch :: "HermesInstance \<Rightarrow> HermesSelfConfig \<Rightarrow> ConfigMap" where
  "buildWorkspaceFilesPatch parent sc =
     \<lparr>cm_Meta = new_meta (WorkspaceConfigMapName parent) (inst_ns parent),
      cm_Data = fold (\<lambda>f. if scf_Content f \<noteq> ''''
                          then mset1 (EncodeWorkspacePath (scf_Path f)) (scf_Content f) else id)
                  (scs_AddWorkspaceFiles (hsc_Spec sc)) []\<rparr>"

definition buildPatchConfigPayload :: "HermesInstance \<Rightarrow> HermesSelfConfig \<Rightarrow> ConfigMap" where
  "buildPatchConfigPayload parent sc =
     \<lparr>cm_Meta = new_meta (WorkspaceConfigMapName parent) (inst_ns parent),
      cm_Data =
        (case scs_PatchConfig (hsc_Spec sc) of
           None \<Rightarrow> []
         | Some raw \<Rightarrow> if raw = '''' then [] else [(''selfconfig.yaml'', raw)])\<rparr>"

definition buildProfileSnapshotPayload :: "HermesInstance \<Rightarrow> HermesSelfConfig \<Rightarrow> time \<Rightarrow> Job option" where
  "buildProfileSnapshotPayload parent sc when =
     map_option (\<lambda>s. BuildSnapshotJob parent (scp_ProfileID s) (scp_Data s) when)
       (scs_AddProfileSnapshot (hsc_Spec sc))"

definition mergeConfigMapPatches :: "ConfigMap option \<Rightarrow> ConfigMap option \<Rightarrow> ConfigMap option" where
  "mergeConfigMapPatches left right =
     (case (left, right) of
        (None, r) \<Rightarrow> r
      | (l, None) \<Rightarrow> l
      | (Some l, Some r) \<Rightarrow> Some (l\<lparr>cm_Data := mputall (cm_Data r) (cm_Data l)\<rparr>))"

section \<open>Events and metrics\<close>

abbreviation EventReasonSelfConfigApplied :: string where "EventReasonSelfConfigApplied \<equiv> ''SelfConfigApplied''"
abbreviation EventReasonSelfConfigDenied :: string where "EventReasonSelfConfigDenied \<equiv> ''SelfConfigDenied''"

definition sc_ref :: "HermesSelfConfig \<Rightarrow> objref" where
  "sc_ref sc = (''HermesSelfConfig'', om_Namespace (hsc_ObjectMeta sc), om_Name (hsc_ObjectMeta sc))"

definition emitSelfConfigEvent ::
  "'w env \<Rightarrow> HermesSelfConfig \<Rightarrow> HermesInstance option \<Rightarrow> event_type \<Rightarrow> string \<Rightarrow> string \<Rightarrow> 'w \<Rightarrow> 'w" where
  "emitSelfConfigEvent E sc parent ty reason msg w =
     (let w1 = env_record E (sc_ref sc) ty reason msg w in
      case parent of
        None \<Rightarrow> w1
      | Some p \<Rightarrow>
          if inst_name p \<noteq> ''''
          then env_record E (instance_ref p) ty reason
                 (''selfconfig '' @ om_Name (hsc_ObjectMeta sc) @ '': '' @ msg) w1
          else w1)"

definition incSelfConfigApplied :: "'w env \<Rightarrow> HermesInstance option \<Rightarrow> string \<Rightarrow> 'w \<Rightarrow> 'w" where
  "incSelfConfigApplied E parent action w =
     (case parent of
        None \<Rightarrow> w
      | Some p \<Rightarrow> env_count E ''hermes_selfconfig_applied_total'' [inst_ns p, inst_name p, action] w)"

definition incSelfConfigDenied :: "'w env \<Rightarrow> HermesInstance option \<Rightarrow> string \<Rightarrow> 'w \<Rightarrow> 'w" where
  "incSelfConfigDenied E parent reason w =
     (let (ns, name) = (case parent of None \<Rightarrow> ('''', '''') | Some p \<Rightarrow> (inst_ns p, inst_name p)) in
      env_count E ''hermes_selfconfig_denied_total'' [ns, name, reason] w)"

section \<open>Applying\<close>

text \<open>\<open>patchOptions\<close>: the field owner, and force when the annotation is exactly "true".\<close>

definition force_ownership :: "HermesSelfConfig \<Rightarrow> bool" where
  "force_ownership sc \<longleftrightarrow> mget0 (om_Annotations (hsc_ObjectMeta sc)) ForceOwnershipAnnotation = ''true''"

definition applySSA ::
  "('o, 'w) kind_client \<Rightarrow> 'o \<Rightarrow> HermesSelfConfig \<Rightarrow> 'w \<Rightarrow> go_error option \<times> 'w" where
  "applySSA kc obj sc w = kc_apply kc obj SelfConfigFieldManager (force_ownership sc) w"

text \<open>The steps of \<open>applyAll\<close>: each answers the fields it claims, or the error that stops the rest.\<close>

type_synonym 'w apply_result = "(go_error + string list) \<times> 'w"

definition apply_skills :: "'w env \<Rightarrow> HermesInstance \<Rightarrow> HermesSelfConfig \<Rightarrow> 'w \<Rightarrow> 'w apply_result" where
  "apply_skills E parent sc w =
     (if scs_AddSkills (hsc_Spec sc) = [] then (Inr [], w)
      else case applySSA (env_instances E) (buildSkillsPatch parent sc) sc w of
        (Some e, w1) \<Rightarrow> (Inl (Wrapped ''skills SSA'' e), w1)
      | (None, w1) \<Rightarrow>
          (Inr (map (\<lambda>s. formatAppliedFieldSkill (scsk_Source s)) (scs_AddSkills (hsc_Spec sc))), w1))"

definition apply_env :: "'w env \<Rightarrow> HermesInstance \<Rightarrow> HermesSelfConfig \<Rightarrow> 'w \<Rightarrow> 'w apply_result" where
  "apply_env E parent sc w =
     (if scs_AddEnvVars (hsc_Spec sc) = [] then (Inr [], w)
      else case applySSA (env_instances E) (buildEnvVarsPatch parent sc) sc w of
        (Some e, w1) \<Rightarrow> (Inl (Wrapped ''envVars SSA'' e), w1)
      | (None, w1) \<Rightarrow>
          (Inr (map (\<lambda>v. formatAppliedFieldEnv (sce_Name v)) (scs_AddEnvVars (hsc_Spec sc))), w1))"

definition workspace_patch :: "HermesInstance \<Rightarrow> HermesSelfConfig \<Rightarrow> ConfigMap option" where
  "workspace_patch parent sc =
     (let cmPatch = (if has_patch sc then Some (buildPatchConfigPayload parent sc) else None) in
      if scs_AddWorkspaceFiles (hsc_Spec sc) \<noteq> []
      then mergeConfigMapPatches cmPatch (Some (buildWorkspaceFilesPatch parent sc))
      else cmPatch)"

definition apply_workspace :: "'w env \<Rightarrow> HermesInstance \<Rightarrow> HermesSelfConfig \<Rightarrow> 'w \<Rightarrow> 'w apply_result" where
  "apply_workspace E parent sc w =
     (case workspace_patch parent sc of
        None \<Rightarrow> (Inr [], w)
      | Some cm \<Rightarrow>
          (case applySSA (env_configmaps E) cm sc w of
             (Some e, w1) \<Rightarrow> (Inl (Wrapped ''workspace CM SSA'' e), w1)
           | (None, w1) \<Rightarrow>
               (Inr ((if has_patch sc then [''workspace-configmap.data[key=selfconfig.yaml]''] else []) @
                     map (\<lambda>f. formatAppliedFieldFile (scf_Path f)) (scs_AddWorkspaceFiles (hsc_Spec sc))), w1)))"

definition apply_snapshot :: "'w env \<Rightarrow> HermesInstance \<Rightarrow> HermesSelfConfig \<Rightarrow> 'w \<Rightarrow> 'w apply_result" where
  "apply_snapshot E parent sc w =
     (if scs_AddProfileSnapshot (hsc_Spec sc) = None then (Inr [], w)
      else if \<not> BoolValue (hon_Enabled (pstore_Honcho (spec_ProfileStore (hi_Spec parent))))
      then (Inl (Plain ''addProfileSnapshot requires .spec.profileStore.honcho.enabled=true''), w)
      else case env_now E w of (now, w1) \<Rightarrow>
        (case buildProfileSnapshotPayload parent sc now of
           None \<Rightarrow> (Inl (GoPanic ''nil pointer dereference''), w1)
         | Some job \<Rightarrow>
             (case kc_create (env_jobs E) job w1 of
                (Some e, w2) \<Rightarrow>
                  if IsAlreadyExists e then (Inr [''job[name='' @ om_Name (job_Meta job) @ '']''], w2)
                  else (Inl (Wrapped ''snapshot Job create'' e), w2)
              | (None, w2) \<Rightarrow> (Inr [''job[name='' @ om_Name (job_Meta job) @ '']''], w2))))"

fun apply_steps ::
  "('w \<Rightarrow> 'w apply_result) list \<Rightarrow> string list \<Rightarrow> 'w \<Rightarrow> 'w apply_result" where
  "apply_steps [] applied w = (Inr applied, w)"
| "apply_steps (f # fs) applied w =
     (case f w of
        (Inl e, w1) \<Rightarrow> (Inl e, w1)
      | (Inr touched, w1) \<Rightarrow> apply_steps fs (applied @ touched) w1)"

definition applyAll :: "'w env \<Rightarrow> HermesInstance \<Rightarrow> HermesSelfConfig \<Rightarrow> 'w \<Rightarrow> 'w apply_result" where
  "applyAll E parent sc w =
     apply_steps [apply_skills E parent sc, apply_env E parent sc, apply_workspace E parent sc,
                  apply_snapshot E parent sc] [] w"

section \<open>The reconciler\<close>

type_synonym 'w sc_result = "ctrl_result \<times> go_error option \<times> HermesSelfConfig \<times> 'w"

definition upd_sc_status ::
  "(HermesSelfConfigStatus \<Rightarrow> HermesSelfConfigStatus) \<Rightarrow> HermesSelfConfig \<Rightarrow> HermesSelfConfig" where
  "upd_sc_status f sc = sc\<lparr>hsc_Status := f (hsc_Status sc)\<rparr>"

definition sc_status_update ::
  "'w env \<Rightarrow> HermesSelfConfig \<Rightarrow> 'w \<Rightarrow> go_error option \<times> HermesSelfConfig \<times> 'w" where
  "sc_status_update E sc w =
     (case kc_status_update (env_selfconfigs E) sc w of
        (Inl e, w1) \<Rightarrow> (Some e, sc, w1)
      | (Inr sc', w1) \<Rightarrow> (None, sc', w1))"

definition sc_condition :: "string \<Rightarrow> string \<Rightarrow> string \<Rightarrow> time \<Rightarrow> Condition" where
  "sc_condition ty reason msg now =
     \<lparr>cd_Type = ty, cd_Status = ConditionTrue, cd_Reason = reason, cd_Message = msg,
      cd_ObservedGeneration = 0, cd_LastTransitionTime = Some now\<rparr>"

definition deny ::
  "'w env \<Rightarrow> HermesSelfConfig \<Rightarrow> HermesInstance option \<Rightarrow> string \<Rightarrow> 'w \<Rightarrow> 'w sc_result" where
  "deny E sc parent reason w =
     (let sc1 = upd_sc_status (\<lambda>s. s\<lparr>scst_Phase := SelfConfigPhaseDenied, scst_DenyReason := reason,
                  scst_ObservedGeneration := om_Generation (hsc_ObjectMeta sc)\<rparr>) sc;
          (now, w1) = env_now E w;
          sc2 = upd_sc_status (\<lambda>s. s\<lparr>scst_Conditions := env_set_condition E w1 (scst_Conditions s)
                  (sc_condition ''Denied'' ''PolicyViolation'' reason now)\<rparr>) sc1;
          w2 = emitSelfConfigEvent E sc2 parent EventWarning EventReasonSelfConfigDenied reason w1;
          w3 = incSelfConfigDenied E parent reason w2;
          (err, sc3, w4) = sc_status_update E sc2 w3
      in (no_requeue, err, sc3, w4))"

definition markApplied ::
  "'w env \<Rightarrow> HermesSelfConfig \<Rightarrow> HermesInstance option \<Rightarrow> string list \<Rightarrow> 'w \<Rightarrow> 'w sc_result" where
  "markApplied E sc parent applied w =
     (let msg = ''applied '' @ Itoa (int (length applied)) @ '' fields'';
          (now, w1) = env_now E w;
          sc1 = upd_sc_status (\<lambda>s. s\<lparr>scst_Phase := SelfConfigPhaseApplied, scst_DenyReason := '''',
                  scst_AppliedFields := applied, scst_AppliedAt := Some now,
                  scst_ObservedGeneration := om_Generation (hsc_ObjectMeta sc)\<rparr>) sc;
          sc2 = upd_sc_status (\<lambda>s. s\<lparr>scst_Conditions := env_set_condition E w1 (scst_Conditions s)
                  (sc_condition ''Applied'' ''SSASuccess'' msg now)\<rparr>) sc1;
          w2 = emitSelfConfigEvent E sc2 parent EventNormal EventReasonSelfConfigApplied msg w1;
          w3 = fold (incSelfConfigApplied E parent) (DetermineActions sc2) w2;
          (err, sc3, w4) = sc_status_update E sc2 w3
      in case err of
           Some e \<Rightarrow> (no_requeue, Some e, sc3, w4)
         | None \<Rightarrow> (requeue_after Hour, None, sc3, w4))"

text \<open>The policy gates: the reason of a denial, if any.\<close>

definition gate :: "policy_lib \<Rightarrow> HermesSelfConfig \<Rightarrow> HermesInstance \<Rightarrow> string option" where
  "gate lib sc parent =
     (let pol = spec_SelfConfigure (hi_Spec parent); requested = DetermineActions sc;
          denied = CheckAllowedActions requested (sconf_AllowedActions pol) in
      if \<not> BoolValue (sconf_Enabled pol) then Some ''selfconfig disabled on parent''
      else if requested = [] then Some ''request contains no mutations''
      else if denied \<noteq> []
      then Some (''actions '' @ fmt_slice denied @ '' not in allowedActions='' @
             fmt_slice (sconf_AllowedActions pol))
      else if has_patch sc
      then (case CheckProtectedPaths lib (the (scs_PatchConfig (hsc_Spec sc))) (sconf_ProtectedKeys pol) of
              Inl e \<Rightarrow> Some (''invalid patchConfig: '' @ err_text e)
            | Inr hit \<Rightarrow>
                if hit \<noteq> '''' then Some (''patchConfig path '' @ quoted hit @ '' is protected'') else None)
      else None)"

definition sc_terminal :: "HermesSelfConfig \<Rightarrow> bool" where
  "sc_terminal sc \<longleftrightarrow>
     scst_ObservedGeneration (hsc_Status sc) = om_Generation (hsc_ObjectMeta sc) \<and>
     scst_Phase (hsc_Status sc) \<in> {SelfConfigPhaseApplied, SelfConfigPhaseDenied}"

text \<open>From the loaded request on; \<open>sc_reconcile\<close> is the entry point, \<open>Reconcile\<close>.\<close>

definition sc_process :: "'w env \<Rightarrow> policy_lib \<Rightarrow> HermesSelfConfig \<Rightarrow> 'w \<Rightarrow> 'w sc_result" where
  "sc_process E lib sc w =
     (if sc_terminal sc then (requeue_after Hour, None, sc, w)
      else case kc_get (env_instances E) (om_Namespace (hsc_ObjectMeta sc), scs_InstanceRef (hsc_Spec sc)) w of
        (Inl e, w1) \<Rightarrow>
          if IsNotFound e
          then deny E sc None (''parent HermesInstance '' @ quoted (scs_InstanceRef (hsc_Spec sc)) @ '' not found'') w1
          else (no_requeue, Some e, sc, w1)
      | (Inr parent, w1) \<Rightarrow>
          (case gate lib sc parent of
             Some reason \<Rightarrow> deny E sc (Some parent) reason w1
           | None \<Rightarrow>
               (case applyAll E parent sc w1 of
                  (Inl e, w2) \<Rightarrow> deny E sc (Some parent) (''apply failed: '' @ err_text e) w2
                | (Inr applied, w2) \<Rightarrow> markApplied E sc (Some parent) applied w2)))"

definition sc_reconcile ::
  "'w env \<Rightarrow> policy_lib \<Rightarrow> nsname \<Rightarrow> 'w \<Rightarrow> ctrl_result \<times> go_error option \<times> 'w" where
  "sc_reconcile E lib key w =
     (case kc_get (env_selfconfigs E) key w of
        (Inl e, w1) \<Rightarrow> (no_requeue, if IsNotFound e then None else Some e, w1)
      | (Inr sc, w1) \<Rightarrow> (case sc_process E lib sc w1 of (r, err, _, w2) \<Rightarrow> (r, err, w2)))"

section \<open>Terminal requests\<close>

text \<open>A status update that succeeds answers with the object it was sent.\<close>

definition sc_update_echoes :: "'w env \<Rightarrow> bool" where
  "sc_update_echoes E \<longleftrightarrow>
     (\<forall>sc w sc' w'. kc_status_update (env_selfconfigs E) sc w = (Inr sc', w') \<longrightarrow> sc' = sc)"

lemma sc_status_update_None:
  "sc_update_echoes E \<Longrightarrow> sc_status_update E sc w = (None, sc', w') \<Longrightarrow> sc' = sc"
  unfolding sc_update_echoes_def
  by (auto simp: sc_status_update_def split: prod.splits sum.splits)

lemma sc_status_update_Some: "sc_status_update E sc w = (Some e, sc', w') \<Longrightarrow> sc' = sc"
  by (auto simp: sc_status_update_def split: prod.splits sum.splits)

lemma upd_sc_status_simps [simp]:
  "hsc_Status (upd_sc_status f sc) = f (hsc_Status sc)"
  "hsc_ObjectMeta (upd_sc_status f sc) = hsc_ObjectMeta sc"
  "hsc_Spec (upd_sc_status f sc) = hsc_Spec sc"
  by (simp_all add: upd_sc_status_def)

definition sc_verdict :: "HermesSelfConfig \<Rightarrow> string \<times> string \<times> string list" where
  "sc_verdict sc = (scst_Phase (hsc_Status sc), scst_DenyReason (hsc_Status sc), scst_AppliedFields (hsc_Status sc))"

lemma deny_status:
  assumes "sc_update_echoes E" and "deny E sc p reason w = (r, None, sc', w')"
  shows "sc_terminal sc'" and "sc_verdict sc' = (SelfConfigPhaseDenied, reason, scst_AppliedFields (hsc_Status sc))"
  using assms by (auto simp: deny_def Let_def sc_terminal_def sc_verdict_def split: prod.splits
      dest!: sc_status_update_None)

lemma markApplied_status:
  assumes "sc_update_echoes E" and "markApplied E sc p fs w = (r, None, sc', w')"
  shows "sc_terminal sc'" and "sc_verdict sc' = (SelfConfigPhaseApplied, '''', fs)"
  using assms by (auto simp: markApplied_def Let_def sc_terminal_def sc_verdict_def
      split: prod.splits option.splits dest!: sc_status_update_None)

definition sc_step :: "'w env \<Rightarrow> policy_lib \<Rightarrow> HermesSelfConfig \<Rightarrow> 'w \<Rightarrow> HermesSelfConfig \<times> 'w" where
  "sc_step E lib sc w = (case sc_process E lib sc w of (r, err, sc', w') \<Rightarrow> (sc', w'))"

interpretation sc: latch "sc_step E lib" sc_terminal sc_verdict
  by unfold_locales (auto simp: sc_step_def sc_process_def)

section \<open>Properties\<close>

text \<open>
  C24. A request is decided once: a reconcile that ends without an error leaves the request Applied
  or Denied at its generation, and then any number of further reconciles of that generation
  neither changes the verdict nor touches the world. This is what the code does, and no request is
  ever put off by it: the phase Pending with the reasons \<open>AwaitingInstanceReady\<close> and \<open>RateLimited\<close>,
  which \<open>docs/conditions.md\<close> announces for a parent that is not ready and for bursts, does not occur,
  nor do the reasons it lists for a denial but \<open>PolicyViolation\<close>.
\<close>

theorem request_decided_once:
  assumes "sc_update_echoes E" and "sc_process E lib sc w = (r, None, sc', w')"
  shows "sc_terminal sc' \<and>
    (\<forall>n w0. case run_steps (sc_step E lib) n sc' w0 of (sc'', w1) \<Rightarrow>
       sc_terminal sc'' \<and> sc_verdict sc'' = sc_verdict sc' \<and> w1 = w0)"
proof -
  have t: "sc_terminal sc'"
    using assms(2) deny_status(1) [OF assms(1)] markApplied_status(1) [OF assms(1)]
    by (auto simp: sc_process_def split: if_splits prod.splits sum.splits option.splits)
  have "case run_steps (sc_step E lib) n sc' w0 of (sc'', w1) \<Rightarrow>
      sc_terminal sc'' \<and> sc_verdict sc'' = sc_verdict sc' \<and> w1 = w0" for n w0
    using sc.latched_run [OF t, of E lib n w0] by (auto split: prod.split)
  with t show ?thesis by simp
qed

lemma request_decided_once_witness:
  "sc_terminal (fst (snd (snd (sc_process quiet_env literal_lib zero_HermesSelfConfig ()))))"
proof -
  have e: "sc_update_echoes quiet_env"
    by (simp add: sc_update_echoes_def quiet_env_def quiet_client_def)
  obtain r err sc' w' where p: "sc_process quiet_env literal_lib zero_HermesSelfConfig () = (r, err, sc', w')"
    by (metis prod_cases4)
  have "err = None"
    using p by (auto simp: sc_process_def deny_def Let_def sc_status_update_def quiet_env_def quiet_client_def
        IsNotFound_def split: if_splits)
  with p have "sc_process quiet_env literal_lib zero_HermesSelfConfig () = (r, None, sc', w')" by simp
  from request_decided_once [OF e this] p show ?thesis by simp
qed

text \<open>
  A server that refuses every call that writes. In \<open>frozen_env\<close> it is the server of every kind of
  object; the one write left is that of the status of a HermesSelfConfig.
\<close>

definition frozen :: "('o, 'w) kind_client \<Rightarrow> ('o, 'w) kind_client" where
  "frozen kc = kc\<lparr>kc_create := (\<lambda>x w. (Some (Plain ''frozen''), w)), kc_delete := (\<lambda>x w. (Some (Plain ''frozen''), w)),
     kc_patch := (\<lambda>x y w. (Inl (Plain ''frozen''), w)), kc_apply := (\<lambda>x f b w. (Some (Plain ''frozen''), w)),
     kc_status_update := (\<lambda>x w. (Inl (Plain ''frozen''), w)),
     kc_create_or_update := (\<lambda>x f w. (Some (Plain ''frozen''), w))\<rparr>"

definition frozen_env :: "'w env \<Rightarrow> 'w env" where
  "frozen_env E = E
     \<lparr>env_instances := frozen (env_instances E),
      env_selfconfigs := (frozen (env_selfconfigs E))\<lparr>kc_status_update := kc_status_update (env_selfconfigs E)\<rparr>,
      env_clusterdefaults := frozen (env_clusterdefaults E), env_secrets := frozen (env_secrets E),
      env_configmaps := frozen (env_configmaps E), env_pvcs := frozen (env_pvcs E),
      env_serviceaccounts := frozen (env_serviceaccounts E), env_roles := frozen (env_roles E),
      env_rolebindings := frozen (env_rolebindings E), env_services := frozen (env_services E),
      env_netpols := frozen (env_netpols E), env_pdbs := frozen (env_pdbs E), env_hpas := frozen (env_hpas E),
      env_ingresses := frozen (env_ingresses E), env_unstructured := (\<lambda>g. frozen (env_unstructured E g)),
      env_statefulsets := frozen (env_statefulsets E), env_deployments := frozen (env_deployments E),
      env_cronjobs := frozen (env_cronjobs E), env_jobs := frozen (env_jobs E), env_pods := frozen (env_pods E),
      env_events := frozen (env_events E)\<rparr>"

lemma frozen_simps [simp]:
  "kc_get (frozen kc) = kc_get kc"
  "kc_get (env_selfconfigs (frozen_env E)) = kc_get (env_selfconfigs E)"
  "kc_status_update (env_selfconfigs (frozen_env E)) = kc_status_update (env_selfconfigs E)"
  "env_instances (frozen_env E) = frozen (env_instances E)"
  "env_now (frozen_env E) = env_now E"
  "env_record (frozen_env E) = env_record E"
  "env_count (frozen_env E) = env_count E"
  "env_set_condition (frozen_env E) = env_set_condition E"
  by (simp_all add: frozen_def frozen_env_def)

lemma frozen_reports [simp]:
  "emitSelfConfigEvent (frozen_env E) = emitSelfConfigEvent E"
  "incSelfConfigDenied (frozen_env E) = incSelfConfigDenied E"
  "sc_status_update (frozen_env E) = sc_status_update E"
  by (simp_all add: fun_eq_iff emitSelfConfigEvent_def incSelfConfigDenied_def sc_status_update_def
      Let_def split: option.split)

lemma deny_frozen: "deny (frozen_env E) sc p reason w = deny E sc p reason w"
  by (simp add: deny_def)

text \<open>What the policy of the parent permits, independently of the order of the checks.\<close>

definition permitted :: "policy_lib \<Rightarrow> HermesSelfConfig \<Rightarrow> HermesInstance \<Rightarrow> bool" where
  "permitted lib sc parent \<longleftrightarrow>
     (let pol = spec_SelfConfigure (hi_Spec parent) in
      sconf_Enabled pol = Some True \<and> DetermineActions sc \<noteq> [] \<and>
      set (DetermineActions sc) \<subseteq> set (sconf_AllowedActions pol) \<and>
      (has_patch sc \<longrightarrow>
         CheckProtectedPaths lib (the (scs_PatchConfig (hsc_Spec sc))) (sconf_ProtectedKeys pol) = Inr ''''))"

lemma gate_permitted: "gate lib sc parent = None \<longleftrightarrow> permitted lib sc parent"
  by (auto simp: gate_def permitted_def Let_def BoolValue_def CheckAllowedActions_def filter_empty_conv
      split: sum.splits option.splits if_splits)

text \<open>
  C16. A request its parent does not permit writes nothing but its own status: on a server that
  refuses every other write, of any kind of object and by any call, the reconcile does and returns
  exactly the same; it only reads, reports and updates the status of the request. A request is
  permitted when the feature is on, it asks for something, every action it asks for is allowed, and
  its patch is decodable and touches no protected path.
\<close>

theorem gated_request_writes_nothing:
  assumes "\<And>sc parent w1 w2. kc_get (env_selfconfigs E) key w = (Inr sc, w1) \<Longrightarrow>
             kc_get (env_instances E) (om_Namespace (hsc_ObjectMeta sc), scs_InstanceRef (hsc_Spec sc)) w1 = (Inr parent, w2) \<Longrightarrow>
             \<not> permitted lib sc parent"
  shows "sc_reconcile (frozen_env E) lib key w = sc_reconcile E lib key w"
proof -
  have "sc_process (frozen_env E) lib sc w1 = sc_process E lib sc w1" if "kc_get (env_selfconfigs E) key w = (Inr sc, w1)" for sc w1
    using assms [OF that] unfolding gate_permitted [symmetric]
    by (auto simp: sc_process_def deny_frozen split: sum.split prod.split option.split)
  then show ?thesis by (auto simp: sc_reconcile_def split: sum.split prod.split)
qed

lemma gated_request_writes_nothing_witness:
  "let E = quiet_env\<lparr>env_selfconfigs := (env_selfconfigs quiet_env)\<lparr>kc_get := (\<lambda>k w. (Inr zero_HermesSelfConfig, w))\<rparr>,
       env_instances := quiet_client\<lparr>kc_get := (\<lambda>k w. (Inr zero_HermesInstance, w))\<rparr>\<rparr> in
   sc_reconcile (frozen_env E) literal_lib (''ns'', ''r'') () = sc_reconcile E literal_lib (''ns'', ''r'') ()"
  unfolding Let_def
  by (rule gated_request_writes_nothing) (auto simp: permitted_def zero_defs)

definition file_request :: "string \<Rightarrow> HermesSelfConfig" where
  "file_request content =
     zero_HermesSelfConfig\<lparr>hsc_Spec := zero_HermesSelfConfigSpec\<lparr>scs_AddWorkspaceFiles :=
       [\<lparr>scf_Path = ''selfconfig.yaml'', scf_Content = content, scf_ContentFrom = None\<rparr>]\<rparr>\<rparr>"

definition patch_request :: "string \<Rightarrow> HermesSelfConfig" where
  "patch_request raw =
     zero_HermesSelfConfig\<lparr>hsc_Spec := zero_HermesSelfConfigSpec\<lparr>scs_PatchConfig := Some raw\<rparr>\<rparr>"

text \<open>
  The gates can be walked around: a request with one workspace file named \<open>selfconfig.yaml\<close> needs
  only the action \<open>workspaceFiles\<close>, is not compared with the protected keys, and is applied as the
  very data key that holds a configuration patch.
\<close>

theorem file_bypasses_config_gate:
  assumes "sconf_Enabled (spec_SelfConfigure (hi_Spec parent)) = Some True"
    and "sconf_AllowedActions (spec_SelfConfigure (hi_Spec parent)) = [ActionWorkspaceFiles]"
    and "content \<noteq> ''''"
  shows "gate lib (file_request content) parent = None \<and>
         gate lib (patch_request content) parent \<noteq> None \<and>
         workspace_patch parent (file_request content) = workspace_patch parent (patch_request content)"
  using assms
  by (simp add: gate_def Let_def file_request_def patch_request_def DetermineActions_def has_patch_def
      CheckAllowedActions_def workspace_patch_def mergeConfigMapPatches_def buildWorkspaceFilesPatch_def
      buildPatchConfigPayload_def mset1_def zero_defs)

lemma file_bypasses_config_gate_witness:
  "gate literal_lib (file_request ''x'')
     (zero_HermesInstance\<lparr>hi_Spec := zero_HermesInstanceSpec\<lparr>spec_SelfConfigure :=
        \<lparr>sconf_Enabled = Some True, sconf_AllowedActions = [''workspaceFiles''], sconf_ProtectedKeys = [''*'']\<rparr>\<rparr>\<rparr>) = None"
  using file_bypasses_config_gate
    [of "zero_HermesInstance\<lparr>hi_Spec := zero_HermesInstanceSpec\<lparr>spec_SelfConfigure :=
        \<lparr>sconf_Enabled = Some True, sconf_AllowedActions = [''workspaceFiles''], sconf_ProtectedKeys = [''*'']\<rparr>\<rparr>\<rparr>" "''x''" literal_lib]
  by simp

text \<open>
  A failed apply is final: when one of the four writes of a request fails, for whatever reason,
  the request ends Denied at its generation and is not requeued, with the fields recorded before,
  although the writes that came first stay applied.
\<close>

theorem failed_apply_is_final:
  assumes "sc_update_echoes E" and "\<not> sc_terminal sc"
    and "kc_get (env_instances E) (om_Namespace (hsc_ObjectMeta sc), scs_InstanceRef (hsc_Spec sc)) w = (Inr parent, w1)"
    and "gate lib sc parent = None" and "applyAll E parent sc w1 = (Inl e, w2)"
    and "sc_process E lib sc w = (r, None, sc', w')"
  shows "sc_verdict sc' = (SelfConfigPhaseDenied, ''apply failed: '' @ err_text e, scst_AppliedFields (hsc_Status sc)) \<and>
         sc_terminal sc' \<and> r = no_requeue"
proof -
  have d: "deny E sc (Some parent) (''apply failed: '' @ err_text e) w2 = (r, None, sc', w')"
    using assms(2-6) by (simp add: sc_process_def)
  then show ?thesis
    using deny_status [OF assms(1) d] by (auto simp: deny_def Let_def split: prod.splits)
qed

definition open_parent :: HermesInstance where
  "open_parent = zero_HermesInstance\<lparr>hi_ObjectMeta := new_meta ''a'' ''ns'',
     hi_Spec := zero_HermesInstanceSpec\<lparr>spec_SelfConfigure :=
       \<lparr>sconf_Enabled = Some True, sconf_AllowedActions = [''skills'', ''envVars''], sconf_ProtectedKeys = []\<rparr>\<rparr>\<rparr>"

definition two_writes :: HermesSelfConfig where
  "two_writes = zero_HermesSelfConfig\<lparr>hsc_Spec := zero_HermesSelfConfigSpec
     \<lparr>scs_AddSkills := [\<lparr>scsk_Source = ''x'', scsk_Version = ''1''\<rparr>],
      scs_AddEnvVars := [\<lparr>sce_Name = ''N'', sce_Value = ''v'', sce_ValueFrom = None\<rparr>]\<rparr>\<rparr>"

text \<open>A server that counts the skills applied and is busy when it comes to environment variables.\<close>

definition busy_env :: "nat env" where
  "busy_env = quiet_env\<lparr>env_instances := quiet_client
     \<lparr>kc_get := (\<lambda>k w. (Inr open_parent, w)),
      kc_apply := (\<lambda>obj own f w.
        if spec_Env (hi_Spec obj) \<noteq> [] then (Some (ApiStatus ReasonOther ''try again''), w)
        else (None, w + length (spec_Skills (hi_Spec obj))))\<rparr>\<rparr>"

lemma failed_apply_is_final_witness:
  "\<exists>sc'. sc_process busy_env literal_lib two_writes 0 = (no_requeue, None, sc', 1) \<and>
     sc_verdict sc' = (''Denied'', ''apply failed: envVars SSA: try again'', [])"
proof -
  have e: "sc_update_echoes busy_env"
    by (simp add: sc_update_echoes_def busy_env_def quiet_env_def quiet_client_def)
  have t: "\<not> sc_terminal two_writes"
    by (simp add: sc_terminal_def two_writes_def zero_defs)
  have g: "kc_get (env_instances busy_env) (om_Namespace (hsc_ObjectMeta two_writes), scs_InstanceRef (hsc_Spec two_writes)) 0 = (Inr open_parent, 0)"
    by (simp add: busy_env_def)
  have ok: "gate literal_lib two_writes open_parent = None"
    by (simp add: gate_def Let_def two_writes_def open_parent_def DetermineActions_def has_patch_def
        CheckAllowedActions_def zero_defs)
  have ap: "applyAll busy_env open_parent two_writes 0 =
      (Inl (Wrapped ''envVars SSA'' (ApiStatus ReasonOther ''try again'')), 1)"
    by (simp add: applyAll_def apply_skills_def apply_env_def applySSA_def busy_env_def two_writes_def
        buildSkillsPatch_def buildEnvVarsPatch_def newPartialInstance_def Let_def zero_defs)
  obtain r err sc' w' where p: "sc_process busy_env literal_lib two_writes 0 = (r, err, sc', w')"
    by (metis prod_cases4)
  have "err = None \<and> w' = 1"
    using p by (auto simp: sc_process_def t g ok ap deny_def Let_def sc_status_update_def)
      (auto simp: busy_env_def quiet_env_def quiet_client_def emitSelfConfigEvent_def
        incSelfConfigDenied_def Let_def split: if_splits prod.splits)
  with failed_apply_is_final [OF e t g ok ap] p show ?thesis
    by (auto simp: two_writes_def zero_defs)
qed

text \<open>
  What a request reports is not what it wrote: a workspace file without literal content (its body
  is to come from a Secret) is listed among the applied fields, while the applied ConfigMap has no key
  for it.
\<close>

theorem empty_file_reported:
  assumes "scs_AddWorkspaceFiles (hsc_Spec sc) = [f]" and "scf_Content f = ''''" and "\<not> has_patch sc"
    and "applySSA (env_configmaps E) cm sc w = (None, w1)"
    and "workspace_patch parent sc = Some cm"
  shows "cm_Data cm = [] \<and>
         apply_workspace E parent sc w = (Inr [formatAppliedFieldFile (scf_Path f)], w1)"
  using assms
  by (auto simp: apply_workspace_def workspace_patch_def mergeConfigMapPatches_def
      buildWorkspaceFilesPatch_def)

lemma empty_file_reported_witness:
  "fst (apply_workspace quiet_env zero_HermesInstance
     (zero_HermesSelfConfig\<lparr>hsc_Spec := zero_HermesSelfConfigSpec\<lparr>scs_AddWorkspaceFiles :=
        [zero_SelfConfigWorkspaceFile\<lparr>scf_Path := ''a.md''\<rparr>]\<rparr>\<rparr>) ()) =
   Inr [''workspace-configmap.data[path=a.md]'']"
  using empty_file_reported
    [of "zero_HermesSelfConfig\<lparr>hsc_Spec := zero_HermesSelfConfigSpec\<lparr>scs_AddWorkspaceFiles :=
        [zero_SelfConfigWorkspaceFile\<lparr>scf_Path := ''a.md''\<rparr>]\<rparr>\<rparr>"
      "zero_SelfConfigWorkspaceFile\<lparr>scf_Path := ''a.md''\<rparr>" quiet_env
      "buildWorkspaceFilesPatch zero_HermesInstance (zero_HermesSelfConfig\<lparr>hsc_Spec :=
        zero_HermesSelfConfigSpec\<lparr>scs_AddWorkspaceFiles :=
        [zero_SelfConfigWorkspaceFile\<lparr>scf_Path := ''a.md''\<rparr>]\<rparr>\<rparr>)" "()" "()" zero_HermesInstance]
  by (simp add: zero_SelfConfigWorkspaceFile_def zero_HermesSelfConfigSpec_def has_patch_def
      applySSA_def quiet_env_def quiet_client_def workspace_patch_def mergeConfigMapPatches_def
      formatAppliedFieldFile_def)

end
