(* ===== verification/Webhooks.thy ===== *)
theory Webhooks
  imports Validator Policy SelfConfig
begin

text \<open>
  \<open>internal/webhook/webhook_hermesselfconfig.go\<close> and \<open>webhook_hermesclusterdefaults.go\<close>: the two
  smaller validating webhooks. The receiver of the first may have no client, as in \<open>Validator\<close>.
\<close>

section \<open>HermesSelfConfig\<close>

definition count_mutations :: "HermesSelfConfig \<Rightarrow> nat" where
  "count_mutations sc =
     length (filter id
       [scs_AddSkills (hsc_Spec sc) \<noteq> [],
        has_patch sc,
        scs_AddEnvVars (hsc_Spec sc) \<noteq> [],
        scs_AddWorkspaceFiles (hsc_Spec sc) \<noteq> [],
        scs_AddProfileSnapshot (hsc_Spec sc) \<noteq> None])"

text \<open>The error of loading the parent and of the rule on profile snapshots.\<close>

definition check_parent :: "'w env option \<Rightarrow> HermesSelfConfig \<Rightarrow> 'w \<Rightarrow> go_error option \<times> 'w" where
  "check_parent c sc w =
     (case c of
        None \<Rightarrow> (None, w)
      | Some E \<Rightarrow>
          (case kc_get (env_instances E) (om_Namespace (hsc_ObjectMeta sc), scs_InstanceRef (hsc_Spec sc)) w of
             (Inl e, w1) \<Rightarrow>
               if IsNotFound e
               then (Some (Plain (''spec.instanceRef '' @ quoted (scs_InstanceRef (hsc_Spec sc)) @
                       '': no HermesInstance with that name in namespace '' @
                       quoted (om_Namespace (hsc_ObjectMeta sc)))), w1)
               else (Some (Wrapped ''loading parent instance'' e), w1)
           | (Inr parent, w1) \<Rightarrow>
               if scs_AddProfileSnapshot (hsc_Spec sc) \<noteq> None \<and>
                  \<not> BoolValue (hon_Enabled (pstore_Honcho (spec_ProfileStore (hi_Spec parent))))
               then (Some (Plain ''spec.addProfileSnapshot requires parent .spec.profileStore.honcho.enabled=true''), w1)
               else (None, w1)))"

definition validate_selfconfig ::
  "'w env option \<Rightarrow> policy_lib \<Rightarrow> HermesSelfConfig \<Rightarrow> 'w \<Rightarrow> 'w admission" where
  "validate_selfconfig c lib sc w =
     (if scs_InstanceRef (hsc_Spec sc) = '''' then ([], Some (Plain ''spec.instanceRef is required''), w)
      else case check_parent c sc w of
        (Some e, w1) \<Rightarrow> ([], Some e, w1)
      | (None, w1) \<Rightarrow>
          if has_patch sc \<and> Unmarshal_map (the (scs_PatchConfig (hsc_Spec sc))) = None
          then ([], Some (Wrapped ''spec.patchConfig is not a valid JSON merge patch''
                  (pl_json_error lib (the (scs_PatchConfig (hsc_Spec sc))))), w1)
          else if 1 < count_mutations sc
          then ([''this HermesSelfConfig requests multiple mutations; consider one mutation per resource for atomic audit trails''],
                None, w1)
          else ([], None, w1))"

section \<open>HermesClusterDefaults\<close>

definition validateHCD :: "HermesClusterDefaults \<Rightarrow> string list \<times> go_error option" where
  \<open>validateHCD hcd =
     (if om_Name (hcd_ObjectMeta hcd) \<noteq> ''cluster''
      then ([], Some (Plain (''HermesClusterDefaults must be the singleton named "cluster" (got '' @
                 quoted (om_Name (hcd_ObjectMeta hcd)) @ '')'')))
      else ([], None))\<close>

section \<open>Admission and the reconciler\<close>

lemma count_is_actions: "count_mutations sc = length (DetermineActions sc)"
  by (simp add: count_mutations_def DetermineActions_def)

text \<open>
  C28. What admission accepts, the reconciler can decode: when the webhook admits a request against
  the parent the reconciler later loads, and the parent's policy is on, allows every action and has
  valid patterns, then the only denial left before the writes is a protected path or an empty
  request. The webhook warns exactly when the reconciler sees more than one action.
\<close>

theorem admitted_request_decodes:
  assumes "validate_selfconfig (Some E) lib sc w = (ws, None, w1)"
    and "sconf_Enabled (spec_SelfConfigure (hi_Spec parent)) = Some True"
    and "set (DetermineActions sc) \<subseteq> set (sconf_AllowedActions (spec_SelfConfigure (hi_Spec parent)))"
    and "\<And>p. p \<in> set (sconf_ProtectedKeys (spec_SelfConfigure (hi_Spec parent))) \<Longrightarrow> \<exists>g. pl_glob lib p = Inr g"
    and "DetermineActions sc \<noteq> []"
  shows "(gate lib sc parent = None \<or>
          (\<exists>hit tree. gate lib sc parent = Some (''patchConfig path '' @ quoted hit @ '' is protected'') \<and>
             Unmarshal_map (the (scs_PatchConfig (hsc_Spec sc))) = Some tree \<and> (\<exists>ks. path_in (JObj tree) ks \<and> hit = dotted ks) \<and>
             matches lib (sconf_ProtectedKeys (spec_SelfConfigure (hi_Spec parent))) hit)) \<and>
         (ws \<noteq> [] \<longleftrightarrow> 1 < length (DetermineActions sc))"
proof -
  have ws: "ws \<noteq> [] \<longleftrightarrow> 1 < length (DetermineActions sc)"
    using assms(1) by (auto simp: validate_selfconfig_def count_is_actions split: if_splits prod.splits option.splits)
  have den: "CheckAllowedActions (DetermineActions sc) (sconf_AllowedActions (spec_SelfConfigure (hi_Spec parent))) = []"
    using assms(3) by (auto simp: CheckAllowedActions_def filter_empty_conv)
  show ?thesis
  proof (cases "has_patch sc")
    case False
    then show ?thesis using assms(2,5) den ws by (simp add: gate_def Let_def)
  next
    case True
    let ?raw = "the (scs_PatchConfig (hsc_Spec sc))"
    let ?keys = "sconf_ProtectedKeys (spec_SelfConfigure (hi_Spec parent))"
    obtain tree where t: "Unmarshal_map ?raw = Some tree"
      using assms(1) True by (auto simp: validate_selfconfig_def split: if_splits prod.splits option.splits)
    from protected_paths [OF t, of ?keys lib] assms(4)
    obtain hit where c: "CheckProtectedPaths lib ?raw ?keys = Inr hit"
      and h: "hit \<noteq> '''' \<longrightarrow> matches lib ?keys hit \<and> (\<exists>ks. path_in (JObj tree) ks \<and> hit = dotted ks)" by blast
    show ?thesis
      using assms(2,5) den ws True c h t by (cases "hit = ''''") (auto simp: gate_def Let_def)
  qed
qed

definition config_parent :: HermesInstance where
  "config_parent = zero_HermesInstance\<lparr>hi_ObjectMeta := new_meta ''a'' ''ns'',
     hi_Spec := zero_HermesInstanceSpec\<lparr>spec_SelfConfigure :=
       \<lparr>sconf_Enabled = Some True, sconf_AllowedActions = [''config''], sconf_ProtectedKeys = [''b'']\<rparr>\<rparr>\<rparr>"

definition config_request :: HermesSelfConfig where
  \<open>config_request = zero_HermesSelfConfig\<lparr>hsc_Spec := zero_HermesSelfConfigSpec
     \<lparr>scs_InstanceRef := ''a'', scs_PatchConfig := Some ''{"a":null}''\<rparr>\<rparr>\<close>

lemma admitted_request_decodes_witness:
  "\<exists>hit. gate literal_lib config_request config_parent \<in> {None, Some (''patchConfig path '' @ quoted hit @ '' is protected'')}"
proof -
  have u: \<open>Unmarshal_map ''{"a":null}'' = Some [(''a'', JNull)]\<close> by code_simp
  let ?E = "quiet_env\<lparr>env_instances := quiet_client\<lparr>kc_get := (\<lambda>k w. (Inr config_parent, w))\<rparr>\<rparr>"
  have v: "validate_selfconfig (Some ?E) literal_lib config_request () = ([], None, ())"
    by (simp add: validate_selfconfig_def check_parent_def config_request_def zero_defs has_patch_def u
        count_mutations_def)
  have p: "sconf_Enabled (spec_SelfConfigure (hi_Spec config_parent)) = Some True"
    "set (DetermineActions config_request) \<subseteq> set (sconf_AllowedActions (spec_SelfConfigure (hi_Spec config_parent)))"
    "DetermineActions config_request \<noteq> []"
    by (simp_all add: config_parent_def config_request_def DetermineActions_def has_patch_def zero_defs)
  show ?thesis
    using admitted_request_decodes [OF v p(1,2) _ p(3)] by (auto simp: literal_lib_def)
qed

end
