(* ===== verification/Defaulter.thy ===== *)
theory Defaulter
  imports Env
begin

text \<open>
  \<open>internal/webhook/webhook_hermesinstance_default.go\<close>: the mutating webhook, which fills the
  empty fields of a HermesInstance from the cluster's defaults. \<open>spec_keeps s t\<close> is its contract,
  independent of the code: \<open>t\<close> has every defaulted value \<open>s\<close> sets, where the CA bundle counts as set
  when it has a name; \<open>undefaulted\<close> is the rest of an instance, which stays as it is. What becomes of
  the key of a CA bundle without a name is shown at the end.
\<close>

section \<open>Defaulting\<close>

definition or_nil :: "'a option \<Rightarrow> 'a option \<Rightarrow> 'a option" where
  "or_nil x d = (case x of None \<Rightarrow> d | Some v \<Rightarrow> x)"

lemma or_nil_simps [simp]:
  "or_nil None d = d" "or_nil (Some v) d = Some v" "or_nil (or_nil x d) d = or_nil x d"
  "or_nil x None = x"
  by (simp_all add: or_nil_def split: option.splits)

lemma or_default_again [simp]: "or_default (or_default s d) d = or_default s d"
  by (simp add: or_default_def)

lemma or_default_empty [simp]: "or_default s '''' = s"
  by (simp add: or_default_def)

definition default_image :: "ImageSpec \<Rightarrow> ImageSpec \<Rightarrow> ImageSpec" where
  "default_image i d =
     i\<lparr>image_Repository := or_default (image_Repository i) (image_Repository d),
       image_Tag := or_default (image_Tag i) (image_Tag d),
       image_PullPolicy := or_default (image_PullPolicy i) (image_PullPolicy d)\<rparr>"

definition default_persistence :: "PersistenceSpec \<Rightarrow> PersistenceSpec \<Rightarrow> PersistenceSpec" where
  "default_persistence p d =
     p\<lparr>persist_Size := or_default (persist_Size p) (persist_Size d),
       persist_StorageClassName := or_nil (persist_StorageClassName p) (persist_StorageClassName d)\<rparr>"

definition default_resources :: "ResourcesSpec \<Rightarrow> ResourcesSpec \<Rightarrow> ResourcesSpec" where
  "default_resources r d =
     r\<lparr>res_Requests := or_nil (res_Requests r) (res_Requests d),
       res_Limits := or_nil (res_Limits r) (res_Limits d)\<rparr>"

definition default_security :: "SecuritySpec \<Rightarrow> SecurityDefaults \<Rightarrow> SecuritySpec" where
  "default_security s d =
     s\<lparr>secy_RBAC := (secy_RBAC s)
         \<lparr>rbac_Annotations := or_nil (rbac_Annotations (secy_RBAC s)) (sad_Annotations (secd_ServiceAccount d))\<rparr>,
       secy_NetworkPolicy := (secy_NetworkPolicy s)
         \<lparr>netpol_Enabled := or_nil (netpol_Enabled (secy_NetworkPolicy s)) (npd_Enabled (secd_NetworkPolicy d)),
          netpol_AllowDNS := or_nil (netpol_AllowDNS (secy_NetworkPolicy s)) (npd_AllowDNS (secd_NetworkPolicy d))\<rparr>,
       secy_CABundle :=
         (if ca_ConfigMapName (secy_CABundle s) = '''' \<and> ca_SecretName (secy_CABundle s) = ''''
          then secd_CABundle d else secy_CABundle s)\<rparr>"

definition default_networking :: "NetworkingSpec \<Rightarrow> NetworkingDefaults \<Rightarrow> NetworkingSpec" where
  "default_networking n d =
     n\<lparr>nw_Service := (nw_Service n)\<lparr>ss_Type := or_default (ss_Type (nw_Service n)) (sd_Type (nwd_Service d))\<rparr>\<rparr>"

definition default_observability :: "ObservabilitySpec \<Rightarrow> ObservabilityDefaults \<Rightarrow> ObservabilitySpec" where
  "default_observability s d =
     s\<lparr>obs_Metrics := (obs_Metrics s)
         \<lparr>metrics_Enabled := or_nil (metrics_Enabled (obs_Metrics s)) (metrics_Enabled (obsd_Metrics d)),
          metrics_Port := (if metrics_Port (obs_Metrics s) = 0 then metrics_Port (obsd_Metrics d)
                           else metrics_Port (obs_Metrics s)),
          metrics_Secure := or_nil (metrics_Secure (obs_Metrics s)) (metrics_Secure (obsd_Metrics d))\<rparr>,
       obs_ServiceMonitor := (obs_ServiceMonitor s)
         \<lparr>sm_Enabled := or_nil (sm_Enabled (obs_ServiceMonitor s)) (sm_Enabled (obsd_ServiceMonitor d))\<rparr>,
       obs_PrometheusRule := (obs_PrometheusRule s)
         \<lparr>prs_Enabled := or_nil (prs_Enabled (obs_PrometheusRule s)) (prs_Enabled (obsd_PrometheusRule d))\<rparr>,
       obs_Logging := (obs_Logging s)
         \<lparr>log_Format := or_default (log_Format (obs_Logging s)) (log_Format (obsd_Logging d)),
          log_Level := or_default (log_Level (obs_Logging s)) (log_Level (obsd_Logging d))\<rparr>\<rparr>"

definition ApplyClusterDefaults :: "HermesInstance \<Rightarrow> HermesClusterDefaults \<Rightarrow> HermesInstance" where
  "ApplyClusterDefaults inst hcd =
     (let s = hi_Spec inst; d = hcd_Spec hcd in
      inst\<lparr>hi_Spec := s
        \<lparr>spec_Image := default_image (spec_Image s) (hcds_Image d),
         spec_Storage := (spec_Storage s)
           \<lparr>storage_Persistence := default_persistence (storage_Persistence (spec_Storage s))
              (storage_Persistence (hcds_Storage d))\<rparr>,
         spec_Resources := default_resources (spec_Resources s) (hcds_Resources d),
         spec_Security := default_security (spec_Security s) (hcds_Security d),
         spec_Networking := default_networking (spec_Networking s) (hcds_Networking d),
         spec_Observability := default_observability (spec_Observability s) (hcds_Observability d)\<rparr>\<rparr>)"

lemmas defaulting_defs =
  ApplyClusterDefaults_def default_image_def default_persistence_def default_resources_def
  default_security_def default_networking_def default_observability_def

text \<open>\<open>Default\<close>: the singleton's absence is not an error.\<close>

definition Default ::
  "'w env \<Rightarrow> HermesInstance \<Rightarrow> 'w \<Rightarrow> go_error option \<times> HermesInstance \<times> 'w" where
  "Default E inst w =
     (case kc_get (env_clusterdefaults E) ('''', ''cluster'') w of
        (Inl e, w1) \<Rightarrow>
          if IsNotFound e then (None, inst, w1)
          else (Some (Wrapped ''get HermesClusterDefaults'' e), inst, w1)
      | (Inr hcd, w1) \<Rightarrow> (None, ApplyClusterDefaults inst hcd, w1))"

section \<open>The contract\<close>

text \<open>A field is set when it is not the empty string, not 0 and not nil.\<close>

definition keeps_text :: "string \<Rightarrow> string \<Rightarrow> bool" where
  "keeps_text a b \<longleftrightarrow> a = '''' \<or> b = a"

definition keeps_opt :: "'a option \<Rightarrow> 'a option \<Rightarrow> bool" where
  "keeps_opt a b \<longleftrightarrow> a = None \<or> b = a"

lemma keeps_simps [simp]:
  "keeps_text a (or_default a d)" "keeps_text a a" "keeps_text [] c" "keeps_opt b (or_nil b e)" "keeps_opt b b"
  by (auto simp: keeps_text_def keeps_opt_def or_nil_def or_default_def split: option.splits)

definition spec_keeps :: "HermesInstanceSpec \<Rightarrow> HermesInstanceSpec \<Rightarrow> bool" where
  "spec_keeps s t \<longleftrightarrow>
     keeps_text (image_Repository (spec_Image s)) (image_Repository (spec_Image t)) \<and>
     keeps_text (image_Tag (spec_Image s)) (image_Tag (spec_Image t)) \<and>
     keeps_text (image_PullPolicy (spec_Image s)) (image_PullPolicy (spec_Image t)) \<and>
     keeps_text (persist_Size (storage_Persistence (spec_Storage s)))
       (persist_Size (storage_Persistence (spec_Storage t))) \<and>
     keeps_opt (persist_StorageClassName (storage_Persistence (spec_Storage s)))
       (persist_StorageClassName (storage_Persistence (spec_Storage t))) \<and>
     keeps_opt (res_Requests (spec_Resources s)) (res_Requests (spec_Resources t)) \<and>
     keeps_opt (res_Limits (spec_Resources s)) (res_Limits (spec_Resources t)) \<and>
     keeps_opt (rbac_Annotations (secy_RBAC (spec_Security s))) (rbac_Annotations (secy_RBAC (spec_Security t))) \<and>
     keeps_opt (netpol_Enabled (secy_NetworkPolicy (spec_Security s)))
       (netpol_Enabled (secy_NetworkPolicy (spec_Security t))) \<and>
     keeps_opt (netpol_AllowDNS (secy_NetworkPolicy (spec_Security s)))
       (netpol_AllowDNS (secy_NetworkPolicy (spec_Security t))) \<and>
     (ca_ConfigMapName (secy_CABundle (spec_Security s)) = '''' \<and> ca_SecretName (secy_CABundle (spec_Security s)) = '''' \<or>
      secy_CABundle (spec_Security t) = secy_CABundle (spec_Security s)) \<and>
     keeps_text (ss_Type (nw_Service (spec_Networking s))) (ss_Type (nw_Service (spec_Networking t))) \<and>
     keeps_opt (metrics_Enabled (obs_Metrics (spec_Observability s)))
       (metrics_Enabled (obs_Metrics (spec_Observability t))) \<and>
     (metrics_Port (obs_Metrics (spec_Observability s)) = 0 \<or>
      metrics_Port (obs_Metrics (spec_Observability t)) = metrics_Port (obs_Metrics (spec_Observability s))) \<and>
     keeps_opt (metrics_Secure (obs_Metrics (spec_Observability s)))
       (metrics_Secure (obs_Metrics (spec_Observability t))) \<and>
     keeps_opt (sm_Enabled (obs_ServiceMonitor (spec_Observability s)))
       (sm_Enabled (obs_ServiceMonitor (spec_Observability t))) \<and>
     keeps_opt (prs_Enabled (obs_PrometheusRule (spec_Observability s)))
       (prs_Enabled (obs_PrometheusRule (spec_Observability t))) \<and>
     keeps_text (log_Format (obs_Logging (spec_Observability s))) (log_Format (obs_Logging (spec_Observability t))) \<and>
     keeps_text (log_Level (obs_Logging (spec_Observability s))) (log_Level (obs_Logging (spec_Observability t)))"

text \<open>
  Everything but the fields of \<open>spec_keeps\<close>: the instance with just these emptied. The records around
  them keep all their other fields.
\<close>

definition undefaulted_security :: "SecuritySpec \<Rightarrow> SecuritySpec" where
  "undefaulted_security s =
     s\<lparr>secy_RBAC := (secy_RBAC s)\<lparr>rbac_Annotations := None\<rparr>,
       secy_NetworkPolicy := (secy_NetworkPolicy s)\<lparr>netpol_Enabled := None, netpol_AllowDNS := None\<rparr>,
       secy_CABundle := zero_CABundleSpec\<rparr>"

definition undefaulted_observability :: "ObservabilitySpec \<Rightarrow> ObservabilitySpec" where
  "undefaulted_observability s =
     s\<lparr>obs_Metrics := (obs_Metrics s)\<lparr>metrics_Enabled := None, metrics_Port := 0, metrics_Secure := None\<rparr>,
       obs_ServiceMonitor := (obs_ServiceMonitor s)\<lparr>sm_Enabled := None\<rparr>,
       obs_PrometheusRule := (obs_PrometheusRule s)\<lparr>prs_Enabled := None\<rparr>,
       obs_Logging := (obs_Logging s)\<lparr>log_Format := '''', log_Level := ''''\<rparr>\<rparr>"

definition undefaulted :: "HermesInstance \<Rightarrow> HermesInstance" where
  "undefaulted i =
     (let s = hi_Spec i in i\<lparr>hi_Spec := s
        \<lparr>spec_Image := (spec_Image s)\<lparr>image_Repository := '''', image_Tag := '''', image_PullPolicy := ''''\<rparr>,
         spec_Storage := (spec_Storage s)\<lparr>storage_Persistence := (storage_Persistence (spec_Storage s))
           \<lparr>persist_Size := '''', persist_StorageClassName := None\<rparr>\<rparr>,
         spec_Resources := (spec_Resources s)\<lparr>res_Requests := None, res_Limits := None\<rparr>,
         spec_Security := undefaulted_security (spec_Security s),
         spec_Networking := (spec_Networking s)\<lparr>nw_Service := (nw_Service (spec_Networking s))\<lparr>ss_Type := ''''\<rparr>\<rparr>,
         spec_Observability := undefaulted_observability (spec_Observability s)\<rparr>\<rparr>)"

lemmas undefaulted_defs = undefaulted_def undefaulted_security_def undefaulted_observability_def

text \<open>
  A fill operation of a mutating webhook: filling keeps what is set, filling again from the same
  source changes nothing. Two webhook passes (the reinvocation of admission) then agree with one.
\<close>

locale fill =
  fixes fill :: "'i \<Rightarrow> 'd \<Rightarrow> 'i" and keeps :: "'i \<Rightarrow> 'i \<Rightarrow> bool" and frame :: "'i \<Rightarrow> 'f"
  assumes fill_keeps: "keeps i (fill i d)"
    and fill_again: "fill (fill i d) d = fill i d"
    and fill_frame: "frame (fill i d) = frame i"
begin

lemma fill_iterate: "((\<lambda>j. fill j d) ^^ Suc n) i = fill i d"
  by (induction n) (simp_all add: fill_again)

lemma fill_two_sources_frame: "frame (fill (fill i d) d') = frame i"
  by (simp add: fill_frame)

end

interpretation hcd: fill ApplyClusterDefaults "\<lambda>i j. spec_keeps (hi_Spec i) (hi_Spec j)" undefaulted
  by unfold_locales (simp_all add: defaulting_defs Let_def spec_keeps_def undefaulted_defs)

section \<open>Properties\<close>

text \<open>
  C26. Defaulting is a fill: whatever reading the singleton answers, every one of the nineteen
  defaulted values survives the webhook when the user set it, every other field of the instance is
  unchanged, an error leaves the instance as it was, and running the defaulting any number of further
  times changes nothing more. The CA bundle is one value, set when it names a ConfigMap or a Secret:
  contrary to the comment of the code, a key without a name is overridden.
\<close>

theorem defaulting_is_a_fill:
  "(case Default E inst w of (r, inst', w') \<Rightarrow>
      spec_keeps (hi_Spec inst) (hi_Spec inst') \<and> undefaulted inst' = undefaulted inst \<and>
      (r \<noteq> None \<longrightarrow> inst' = inst)) \<and>
   ((\<lambda>i. ApplyClusterDefaults i hcd) ^^ Suc n) inst = ApplyClusterDefaults inst hcd"
proof -
  have "spec_keeps (hi_Spec inst) (hi_Spec inst)"
    by (simp add: spec_keeps_def)
  then show ?thesis
    using hcd.fill_keeps hcd.fill_frame hcd.fill_iterate
    by (auto simp: Default_def split: sum.split prod.split)
qed

definition broken_env :: "unit env" where
  "broken_env = quiet_env\<lparr>env_clusterdefaults := quiet_client
     \<lparr>kc_get := (\<lambda>k w. (Inl (ApiStatus ReasonOther ''forbidden''), w))\<rparr>\<rparr>"

lemma defaulting_is_a_fill_witness:
  "fst (Default broken_env zero_HermesInstance ()) \<noteq> None \<and>
   fst (snd (Default broken_env zero_HermesInstance ())) = zero_HermesInstance"
proof -
  have e: "fst (Default broken_env zero_HermesInstance ()) \<noteq> None"
    by (simp add: Default_def broken_env_def IsNotFound_def)
  obtain r i u where d: "Default broken_env zero_HermesInstance () = (r, i, u)" by (metis prod_cases3)
  from e defaulting_is_a_fill
    [where E = broken_env and inst = zero_HermesInstance and w = "()" and hcd = zero_HermesClusterDefaults and n = 0]
  show ?thesis by (simp add: d)
qed

text \<open>
  Two parts of HermesClusterDefaults are dead: two defaults that differ only in
  \<open>spec.registry\<close> and \<open>spec.networking.networkPolicy\<close> give every instance the same result. And one
  explicit value is lost: the key of a CA bundle whose ConfigMap and Secret names are both empty
  is replaced by the default bundle's key.
\<close>

theorem defaults_dead_and_lost:
  "ApplyClusterDefaults inst
     (hcd\<lparr>hcd_Spec := (hcd_Spec hcd)
        \<lparr>hcds_Registry := r,
         hcds_Networking := (hcds_Networking (hcd_Spec hcd))\<lparr>nwd_NetworkPolicy := np\<rparr>\<rparr>\<rparr>) =
   ApplyClusterDefaults inst hcd \<and>
   (ca_ConfigMapName (secy_CABundle (spec_Security (hi_Spec inst))) = '''' \<and>
    ca_SecretName (secy_CABundle (spec_Security (hi_Spec inst))) = '''' \<longrightarrow>
    ca_Key (secy_CABundle (spec_Security (hi_Spec (ApplyClusterDefaults inst hcd)))) =
      ca_Key (secd_CABundle (hcds_Security (hcd_Spec hcd))))"
  by (simp add: defaulting_defs Let_def)

lemma defaults_dead_and_lost_witness:
  "ca_Key (secy_CABundle (spec_Security (hi_Spec (ApplyClusterDefaults
     (zero_HermesInstance\<lparr>hi_Spec := zero_HermesInstanceSpec\<lparr>spec_Security := zero_SecuritySpec
        \<lparr>secy_CABundle := zero_CABundleSpec\<lparr>ca_Key := ''ca.crt''\<rparr>\<rparr>\<rparr>\<rparr>)
     zero_HermesClusterDefaults)))) = ''''"
  using defaults_dead_and_lost
    [where inst = "zero_HermesInstance\<lparr>hi_Spec := zero_HermesInstanceSpec\<lparr>spec_Security := zero_SecuritySpec
        \<lparr>secy_CABundle := zero_CABundleSpec\<lparr>ca_Key := ''ca.crt''\<rparr>\<rparr>\<rparr>\<rparr>"
      and hcd = zero_HermesClusterDefaults]
  by (simp add: zero_HermesClusterDefaults_def zero_HermesClusterDefaultsSpec_def
      zero_SecurityDefaults_def zero_CABundleSpec_def)

end
