(* ===== verification/BackupJobs.thy ===== *)
theory BackupJobs
  imports Common
begin

text \<open>
  The pods that move an instance's data: \<open>internal/resources/backup_job.go\<close> (one-shot backups),
  \<open>backup_cronjob.go\<close> (periodic backup and pruning), \<open>restore_init.go\<close> and \<open>migration_init.go\<close> (the
  init containers that fill the volume once). Scripts are kept as the text the builders produce.
\<close>

section \<open>Shared pieces\<close>

definition ResticImage :: string where
  "ResticImage = ''restic/restic:0.16.4''"

definition restricted_scx :: SecurityContext where
  "restricted_scx =
     \<lparr>scx_RunAsNonRoot = None, scx_RunAsUser = None, scx_ReadOnlyRootFilesystem = Some True,
      scx_AllowPrivilegeEscalation = Some False, scx_CapabilitiesDrop = [''ALL''], scx_Opaque = JNull\<rparr>"

definition user1000_scx :: PodSecurityContext where
  "user1000_scx =
     \<lparr>psc_RunAsNonRoot = Some True, psc_RunAsUser = Some 1000, psc_RunAsGroup = Some 1000,
      psc_FSGroup = Some 1000, psc_SeccompProfile = Some ''RuntimeDefault'', psc_Opaque = JNull\<rparr>"

definition env_value :: "string \<Rightarrow> string \<Rightarrow> EnvVar" where
  "env_value n v = \<lparr>ev_Name = n, ev_Value = v, ev_ValueFrom = None\<rparr>"

definition env_from_secret :: "string \<Rightarrow> EnvFromSource" where
  "env_from_secret n = \<lparr>efs_Prefix = '''', efs_SecretRef = Some n, efs_Opaque = JNull\<rparr>"

definition mount :: "string \<Rightarrow> string \<Rightarrow> bool \<Rightarrow> VolumeMount" where
  "mount n p ro = \<lparr>vm_Name = n, vm_MountPath = p, vm_SubPath = '''', vm_ReadOnly = ro, vm_Opaque = JNull\<rparr>"

definition volume :: "string \<Rightarrow> VolumeSource \<Rightarrow> Volume" where
  "volume n s = \<lparr>vol_Name = n, vol_Source = s\<rparr>"

definition resticRepo :: "BackupS3Spec option \<Rightarrow> string" where
  "resticRepo s3 =
     (case s3 of None \<Rightarrow> '''' | Some s \<Rightarrow> ''s3:'' @ bs3_Endpoint s @ ''/'' @ bs3_Bucket s)"

definition s3CredsSecretName :: "HermesInstance \<Rightarrow> string" where
  "s3CredsSecretName inst =
     (case bk_S3 (spec_Backup (hi_Spec inst)) of
        None \<Rightarrow> '''' | Some s \<Rightarrow> lor_Name (bs3_CredentialsSecretRef s))"

definition backup_image :: "HermesInstance \<Rightarrow> string" where
  "backup_image inst = or_default (bk_Image (spec_Backup (hi_Spec inst))) ResticImage"

definition backup_region :: "HermesInstance \<Rightarrow> string" where
  "backup_region inst =
     (case bk_S3 (spec_Backup (hi_Spec inst)) of None \<Rightarrow> '''' | Some s \<Rightarrow> bs3_Region s)"

text \<open>The container all of them share: its name, image and script, then what differs.\<close>

definition script_container :: "string \<Rightarrow> string \<Rightarrow> string \<Rightarrow> Container" where
  "script_container name img script =
     empty_container
       \<lparr>ctr_Name := name, ctr_Image := img, ctr_ImagePullPolicy := ''IfNotPresent'',
        ctr_Command := [''/bin/sh''], ctr_Args := [''-c'', script],
        ctr_TerminationMessagePath := ''/dev/termination-log'', ctr_TerminationMessagePolicy := ''File'',
        ctr_SecurityContext := Some restricted_scx\<rparr>"

definition restic_container :: "HermesInstance \<Rightarrow> string \<Rightarrow> string \<Rightarrow> VolumeMount list \<Rightarrow> Container" where
  "restic_container inst name script mounts =
     (script_container name (backup_image inst) script)
       \<lparr>ctr_Env := [env_value ''RESTIC_REPOSITORY'' (resticRepo (bk_S3 (spec_Backup (hi_Spec inst)))),
                    env_value ''AWS_DEFAULT_REGION'' (backup_region inst)],
        ctr_EnvFrom := [env_from_secret (s3CredsSecretName inst)],
        ctr_VolumeMounts := mounts\<rparr>"

definition backup_pod :: "Container \<Rightarrow> Volume list \<Rightarrow> PodSpec" where
  "backup_pod c vols =
     empty_pod_spec
       \<lparr>ps_RestartPolicy := ''OnFailure'', ps_DNSPolicy := ''ClusterFirst'',
        ps_SchedulerName := ''default-scheduler'', ps_TerminationGracePeriodSeconds := Some 30,
        ps_SecurityContext := Some user1000_scx, ps_Containers := [c], ps_Volumes := vols\<rparr>"

section \<open>One-shot backups\<close>

definition backup_script :: "HermesInstance \<Rightarrow> string \<Rightarrow> string" where
  \<open>backup_script inst snapshotKey =
       ''set -euo pipefail
META=$(mktemp)
jq -n --arg uid '' @
       quoted (om_UID (hi_ObjectMeta inst)) @
       '' --arg ts "$(date -u +%Y-%m-%dT%H-%M-%SZ)" --arg fmt "1" '' @
       [CHR 0x5C] @
       ''
    '{instance_uid:$uid, hermes_agent_version: env.HERMES_AGENT_VERSION // "", k8s_version: env.K8S_VERSION // "", timestamp:$ts, format_version:($fmt|tonumber)}' > "$META"
tar --use-compress-program="zstd -T0 -19" -cf - -C /home/hermes/.hermes . "$META" '' @
       [CHR 0x5C] @
       ''
  | restic --repo "$RESTIC_REPOSITORY" --no-cache backup --stdin --stdin-filename '' @
       quoted (snapshotKey) @
       '' || '' @
       [CHR 0x5C] @
       ''
{ echo "BACKUP FAILED" >&2; exit 1; }
''\<close>

record BackupJobOpts =
  opt_Name :: string
  opt_SnapshotKey :: string
  opt_Kind :: string

definition BuildBackupOneShotJob :: "HermesInstance \<Rightarrow> BackupJobOpts \<Rightarrow> Job" where
  "BuildBackupOneShotJob inst opts =
     (let labels = mset1 ''hermes.agent/job-kind'' (opt_Kind opts) (LabelsForInstance inst);
          c = restic_container inst ''restic'' (backup_script inst (opt_SnapshotKey opts))
                [mount ''data'' ''/home/hermes/.hermes'' False]
      in \<lparr>job_Meta = (new_meta (opt_Name opts) (inst_ns inst))\<lparr>om_Labels := labels\<rparr>,
          job_Spec =
            \<lparr>job_BackoffLimit = Some 3, job_TTLSecondsAfterFinished = Some 86400,
             job_Template =
               \<lparr>pts_Labels = labels,
                pts_Spec = backup_pod c [volume ''data'' (VS_PVC (PVCName inst) False)]\<rparr>\<rparr>,
          job_Conditions = []\<rparr>)"

section \<open>Periodic backups and pruning\<close>

definition history_limit :: "HermesInstance \<Rightarrow> int" where
  "history_limit inst = (case bk_HistoryLimit (spec_Backup (hi_Spec inst)) of None \<Rightarrow> 30 | Some n \<Rightarrow> n)"

definition failed_history_limit :: "HermesInstance \<Rightarrow> int" where
  "failed_history_limit inst =
     (case bk_FailedHistoryLimit (spec_Backup (hi_Spec inst)) of None \<Rightarrow> 3 | Some n \<Rightarrow> n)"

definition cron_script :: "HermesInstance \<Rightarrow> string \<Rightarrow> string" where
  \<open>cron_script inst prefix =
       ''set -euo pipefail
TIMESTAMP=$(date -u +%Y-%m-%dT%H-%M-%SZ)
KEY='' @
       quoted (prefix @ inst_ns inst @ ''/'' @ inst_name inst @ ''/'') @
       ''
KEY="${KEY}${TIMESTAMP}.tar.zst"
META=$(mktemp)
jq -n --arg uid '' @
       quoted (om_UID (hi_ObjectMeta inst)) @
       '' --arg ts "$TIMESTAMP" --arg fmt "1" '' @
       [CHR 0x5C] @
       ''
    '{instance_uid:$uid, hermes_agent_version: env.HERMES_AGENT_VERSION // "", k8s_version: env.K8S_VERSION // "", timestamp:$ts, format_version:($fmt|tonumber)}' > "$META"
tar --use-compress-program="zstd -T0 -19" -cf - -C /home/hermes/.hermes . "$META" '' @
       [CHR 0x5C] @
       ''
  | restic --repo "$RESTIC_REPOSITORY" --no-cache backup --stdin --stdin-filename "$KEY"
''\<close>

definition colocation :: "HermesInstance \<Rightarrow> json" where
  "colocation inst =
     JObj [(''podAffinity'', JObj [(''requiredDuringSchedulingIgnoredDuringExecution'', JArr
        [JObj [(''labelSelector'', JObj [(''matchLabels'', JObj
                  [(''app.kubernetes.io/name'', JStr ''hermes-agent''),
                   (''app.kubernetes.io/instance'', JStr (inst_name inst))])]),
               (''topologyKey'', JStr ''kubernetes.io/hostname'')]])])]"

definition BuildBackupCronJob :: "HermesInstance \<Rightarrow> CronJob" where
  "BuildBackupCronJob inst =
     (let labels = mset1 ''hermes.agent/job-kind'' ''scheduled'' (LabelsForInstance inst);
          prefix = (case bk_S3 (spec_Backup (hi_Spec inst)) of None \<Rightarrow> '''' | Some s \<Rightarrow> bs3_PathPrefix s);
          c = restic_container inst ''restic'' (cron_script inst prefix)
                [mount ''data'' ''/home/hermes/.hermes'' True]
      in \<lparr>cj_Meta = (new_meta (BackupCronJobName inst) (inst_ns inst))\<lparr>om_Labels := labels\<rparr>,
          cj_Spec =
            \<lparr>cj_Schedule = bk_Schedule (spec_Backup (hi_Spec inst)), cj_ConcurrencyPolicy = ''Forbid'',
             cj_SuccessfulJobsHistoryLimit = Some (history_limit inst),
             cj_FailedJobsHistoryLimit = Some (failed_history_limit inst),
             cj_JobLabels = labels,
             cj_JobSpec =
               \<lparr>job_BackoffLimit = Some 3, job_TTLSecondsAfterFinished = Some 86400,
                job_Template =
                  \<lparr>pts_Labels = labels,
                   pts_Spec = (backup_pod c [volume ''data'' (VS_PVC (PVCName inst) True)])
                     \<lparr>ps_Affinity := Some (colocation inst)\<rparr>\<rparr>\<rparr>\<rparr>\<rparr>)"

definition prune_script :: "int \<Rightarrow> int \<Rightarrow> string" where
  \<open>prune_script historyLimit failedHistoryLimit =
       ''set -euo pipefail
restic --repo "$RESTIC_REPOSITORY" --no-cache forget --keep-last '' @
       Itoa (historyLimit) @
       '' --prune --tag scheduled --tag onDelete --tag preUpdate
restic --repo "$RESTIC_REPOSITORY" --no-cache forget --keep-last '' @
       Itoa (failedHistoryLimit) @
       '' --prune --tag failed
''\<close>

definition BuildBackupPruneCronJob :: "HermesInstance \<Rightarrow> CronJob" where
  "BuildBackupPruneCronJob inst =
     (let labels = mset1 ''hermes.agent/job-kind'' ''prune'' (LabelsForInstance inst);
          c = restic_container inst ''restic''
                (prune_script (history_limit inst) (failed_history_limit inst)) []
      in \<lparr>cj_Meta = (new_meta (BackupPruneCronJobName inst) (inst_ns inst))\<lparr>om_Labels := labels\<rparr>,
          cj_Spec =
            \<lparr>cj_Schedule = ''17 4 * * *'', cj_ConcurrencyPolicy = ''Forbid'',
             cj_SuccessfulJobsHistoryLimit = Some 1, cj_FailedJobsHistoryLimit = Some 3,
             cj_JobLabels = labels,
             cj_JobSpec =
               \<lparr>job_BackoffLimit = Some 2, job_TTLSecondsAfterFinished = Some 86400,
                job_Template = \<lparr>pts_Labels = labels, pts_Spec = backup_pod c []\<rparr>\<rparr>\<rparr>\<rparr>)"

section \<open>Restoring\<close>

definition restore_script :: "HermesInstance \<Rightarrow> string" where
  \<open>restore_script inst =
       ''set -euo pipefail
SNAPSHOT_KEY='' @
       quoted (spec_RestoreFrom (hi_Spec inst)) @
       ''
DEST=/home/hermes/.hermes
if [ -n "$(ls -A "$DEST" 2>/dev/null)" ] && [ -z "${HERMES_RESTORE_FORCE:-}" ]; then
  echo "ERROR: restore destination $DEST is not empty; refusing to overwrite. Set HERMES_RESTORE_FORCE=1 to override." >&2
  exit 1
fi
restic --repo "$RESTIC_REPOSITORY" --no-cache dump latest "$SNAPSHOT_KEY" '' @
       [CHR 0x5C] @
       ''
  | zstd -d '' @
       [CHR 0x5C] @
       ''
  | tar -xf - -C "$DEST"
echo "restore complete: $SNAPSHOT_KEY -> $DEST" >&2
''\<close>

definition BuildRestoreInitContainer :: "HermesInstance \<Rightarrow> Container option" where
  "BuildRestoreInitContainer inst =
     (if spec_RestoreFrom (hi_Spec inst) = '''' then None
      else if st_RestoredFrom (hi_Status inst) = spec_RestoreFrom (hi_Spec inst) then None
      else if bk_S3 (spec_Backup (hi_Spec inst)) = None then None
      else Some (restic_container inst ''init-restore'' (restore_script inst)
                   [mount ''data'' ''/home/hermes/.hermes'' False]))"

section \<open>Migrating from OpenClaw\<close>

definition MigrationSourceVolumeName :: string where
  "MigrationSourceVolumeName = ''openclaw-source''"

definition migration_image :: "HermesInstance \<Rightarrow> MigrationFromOpenClawSpec \<Rightarrow> string" where
  "migration_image inst fc =
     (if moc_Image fc \<noteq> '''' then moc_Image fc
      else or_default (image_Repository (spec_Image (hi_Spec inst))) ''ghcr.io/paperclipinc/hermes-agent'' @
           '':'' @ or_default (image_Tag (spec_Image (hi_Spec inst))) ''latest'')"

definition import_script :: string where
  \<open>import_script =
       ''set -euo pipefail
echo "Running hermes-agent importer from openclaw PVC mount" >&2
hermes-agent migrate from-openclaw --source /mnt/openclaw --dest /home/hermes/.hermes
''\<close>

definition import_s3_script :: "MigrationBackupS3 \<Rightarrow> string" where
  \<open>import_s3_script s3 =
       ''set -euo pipefail
mkdir -p /mnt/openclaw
echo "Downloading OpenClaw snapshot '' @
       mbs3_Bucket s3 @
       ''/'' @
       mbs3_Key s3 @
       ''" >&2
aws --endpoint-url "https://'' @
       mbs3_Endpoint s3 @
       ''" s3 cp "s3://'' @
       mbs3_Bucket s3 @
       ''/'' @
       mbs3_Key s3 @
       ''" - --no-progress | zstd -d | tar -xf - -C /mnt/openclaw
echo "Running hermes-agent importer against extracted snapshot" >&2
hermes-agent migrate from-openclaw --source /mnt/openclaw --dest /home/hermes/.hermes
''\<close>

definition BuildMigrationInitContainer :: "HermesInstance \<Rightarrow> Container option" where
  "BuildMigrationInitContainer inst =
     (case mig_FromOpenClaw (spec_Migration (hi_Spec inst)) of
        None \<Rightarrow> None
      | Some fc \<Rightarrow>
          if mst_Completed (st_Migration (hi_Status inst)) then None
          else
            (let c = script_container ''init-migrate-from-openclaw'' (migration_image inst fc);
                 data = mount ''data'' ''/home/hermes/.hermes'' False in
             case (mocs_OpenClawInstanceRef (moc_Source fc), mocs_BackupRef (moc_Source fc)) of
               (Some ref, _) \<Rightarrow>
                 Some ((c import_script)
                   \<lparr>ctr_VolumeMounts := [mount MigrationSourceVolumeName ''/mnt/openclaw'' True, data]\<rparr>)
             | (None, Some bak) \<Rightarrow>
                 (let s3 = mbr_S3 bak in
                  Some ((c (import_s3_script s3))
                    \<lparr>ctr_Env := (if mbs3_Region s3 \<noteq> '''' then [env_value ''AWS_DEFAULT_REGION'' (mbs3_Region s3)] else []),
                     ctr_EnvFrom := [env_from_secret (lor_Name (mbs3_CredentialsSecretRef s3))],
                     ctr_VolumeMounts := [mount MigrationSourceVolumeName ''/mnt/openclaw'' False, data]\<rparr>))
             | (None, None) \<Rightarrow> None))"

end
