(* ===== verification/Latches.thy ===== *)
theory Latches
  imports Env BackupJobs Validator
begin

text \<open>
  \<open>internal/controller/restore.go\<close> and \<open>migration.go\<close>: the two one-shot data imports. Each watches an
  init container of the first pod and latches its completion in the status. Both are instances of
  the locale \<open>latch\<close>; the last section puts the latches of the controllers and the update rules of
  the webhook together in a step relation and shows that an import never runs twice.
\<close>

section \<open>Restoring\<close>

type_synonym 'w sub_result = "ctrl_result \<times> bool \<times> go_error option \<times> HermesInstance \<times> 'w"

definition set_restored :: "string \<Rightarrow> HermesInstance \<Rightarrow> HermesInstance" where
  "set_restored k inst = upd_status (\<lambda>s. s\<lparr>st_RestoredFrom := k\<rparr>) inst"

text \<open>
  The status of the named init container the loop acts on: the first that has terminated, whatever
  its exit code.
\<close>

definition terminated_init :: "string \<Rightarrow> Pod \<Rightarrow> ContainerStateTerminated option" where
  "terminated_init n pod =
     (case filter (\<lambda>c. cst_Name c = n \<and> cst_Terminated c \<noteq> None) (pod_InitContainerStatuses pod) of
        [] \<Rightarrow> None | c # _ \<Rightarrow> cst_Terminated c)"

definition RestoreReconcile :: "'w env \<Rightarrow> HermesInstance \<Rightarrow> 'w \<Rightarrow> 'w sub_result" where
  "RestoreReconcile E inst w =
     (let from_key = spec_RestoreFrom (hi_Spec inst) in
      if from_key = '''' then (no_requeue, True, None, inst, w)
      else if st_RestoredFrom (hi_Status inst) = from_key
      then (no_requeue, True, None,
            if \<not> env_condition_true E (st_Conditions (hi_Status inst)) ConditionRestoreApplied
            then put_condition E w (condition inst ConditionRestoreApplied ConditionTrue ''RestoreCompleted''
                   (''Restored from '' @ st_RestoredFrom (hi_Status inst))) inst
            else inst, w)
      else case kc_get (env_pods E) (inst_ns inst, StatefulSetName inst @ ''-0'') w of
        (Inl e, w1) \<Rightarrow>
          if IsNotFound e then (no_requeue, False, None, inst, w1) else (no_requeue, False, Some e, inst, w1)
      | (Inr pod, w1) \<Rightarrow>
          (case terminated_init ''init-restore'' pod of
             None \<Rightarrow>
               (no_requeue, False, None,
                put_condition E w1 (condition inst ConditionRestoreApplied ConditionFalse ''Restoring''
                  (''init-restore in progress for '' @ from_key)) inst, w1)
           | Some t \<Rightarrow>
               if cst_ExitCode t = 0
               then (case status_update E
                            (put_condition E w1 (condition inst ConditionRestoreApplied ConditionTrue ''RestoreCompleted''
                               (''Restored from '' @ from_key)) (set_restored from_key inst)) w1 of
                       (Some e, inst1, w2) \<Rightarrow> (no_requeue, False, Some e, inst1, w2)
                     | (None, inst1, w2) \<Rightarrow>
                         (no_requeue, True, None, inst1,
                          env_record E (instance_ref inst1) EventNormal ''RestoreCompleted''
                            (''Restored from '' @ spec_RestoreFrom (hi_Spec inst1)) w2))
               else (let msg = ''init-restore exited '' @ Itoa (cst_ExitCode t) @ '': '' @ cst_Message t;
                         inst1 = put_condition E w1 (condition inst ConditionRestoreApplied ConditionFalse ''RestoreFailed'' msg) inst;
                         w2 = env_record E (instance_ref inst1) EventWarning ''RestoreFailed'' msg w1 in
                     case status_update E inst1 w2 of
                       (Some e, inst2, w3) \<Rightarrow> (no_requeue, False, Some e, inst2, w3)
                     | (None, inst2, w3) \<Rightarrow>
                         (no_requeue, True, Some (Plain (''init-restore failed: '' @ cst_Message t)), inst2, w3))))"

section \<open>Migrating\<close>

definition set_migrated :: "time \<Rightarrow> string \<Rightarrow> HermesInstance \<Rightarrow> HermesInstance" where
  "set_migrated now v inst =
     upd_status (\<lambda>s. s\<lparr>st_Migration := \<lparr>mst_Completed = True, mst_FinishedAt = Some now, mst_SourceVersion = v\<rparr>\<rparr>) inst"

definition move_advisory :: "'w env \<Rightarrow> HermesInstance \<Rightarrow> 'w \<Rightarrow> 'w" where
  \<open>move_advisory E inst w =
     (case mig_FromOpenClaw (spec_Migration (hi_Spec inst)) of
        None \<Rightarrow> w
      | Some fc \<Rightarrow>
          (case (moc_Mode fc = ''move'', mocs_OpenClawInstanceRef (moc_Source fc)) of
             (True, Some ref) \<Rightarrow>
               env_record E (instance_ref inst) EventWarning ''MigrationMoveModeAdvisory''
                 (''Migration mode is `move`. The operator will NOT delete the source OpenClawInstance '' @
                  nor_Namespace ref @ ''/'' @ nor_Name ref @
                  '' automatically. Once you have verified the migration, run: kubectl -n '' @
                  nor_Namespace ref @ '' delete openclawinstance '' @ nor_Name ref) w
           | _ \<Rightarrow> w))\<close>

definition MigrationReconcile :: "'w env \<Rightarrow> HermesInstance \<Rightarrow> 'w \<Rightarrow> 'w sub_result" where
  "MigrationReconcile E inst w =
     (if mig_FromOpenClaw (spec_Migration (hi_Spec inst)) = None then (no_requeue, True, None, inst, w)
      else if mst_Completed (st_Migration (hi_Status inst))
      then (no_requeue, True, None,
            if \<not> env_condition_true E (st_Conditions (hi_Status inst)) ConditionMigrationCompleted
            then put_condition E w (condition inst ConditionMigrationCompleted ConditionTrue ''MigrationCompleted''
                   ''OpenClaw -> Hermes migration completed'') inst
            else inst, w)
      else case kc_get (env_pods E) (inst_ns inst, StatefulSetName inst @ ''-0'') w of
        (Inl e, w1) \<Rightarrow>
          if IsNotFound e then (no_requeue, False, None, inst, w1) else (no_requeue, False, Some e, inst, w1)
      | (Inr pod, w1) \<Rightarrow>
          (case terminated_init ''init-migrate-from-openclaw'' pod of
             None \<Rightarrow> (no_requeue, False, None, inst, w1)
           | Some t \<Rightarrow>
               if cst_ExitCode t = 0
               then (case env_now E w1 of (now, w2) \<Rightarrow>
                     (case status_update E
                             (put_condition E w2 (condition inst ConditionMigrationCompleted ConditionTrue ''MigrationCompleted''
                                (''OpenClaw -> Hermes migration completed at '' @ format_rfc3339 now))
                                (set_migrated now (cst_Message t) inst)) w2 of
                        (Some e, inst1, w3) \<Rightarrow> (no_requeue, False, Some e, inst1, w3)
                      | (None, inst1, w3) \<Rightarrow>
                          (no_requeue, True, None, inst1,
                           move_advisory E inst1
                             (env_record E (instance_ref inst1) EventNormal ''MigrationCompleted''
                                ''OpenClaw -> Hermes migration completed'' w3))))
               else (let msg = ''init-migrate-from-openclaw exited '' @ Itoa (cst_ExitCode t) @ '': '' @ cst_Message t;
                         inst1 = put_condition E w1 (condition inst ConditionMigrationCompleted ConditionFalse ''MigrationFailed'' msg) inst;
                         w2 = env_record E (instance_ref inst1) EventWarning ''MigrationFailed'' msg w1 in
                     case status_update E inst1 w2 of
                       (Some e, inst2, w3) \<Rightarrow> (no_requeue, False, Some e, inst2, w3)
                     | (None, inst2, w3) \<Rightarrow>
                         (no_requeue, True, Some (Plain (''migration init container failed: '' @ cst_Message t)), inst2, w3))))"

definition BuildSourceVolume :: "HermesInstance \<Rightarrow> Volume option" where
  "BuildSourceVolume inst =
     (case mig_FromOpenClaw (spec_Migration (hi_Spec inst)) of
        None \<Rightarrow> None
      | Some fc \<Rightarrow>
          if mst_Completed (st_Migration (hi_Status inst)) then None
          else (case mocs_OpenClawInstanceRef (moc_Source fc) of
                  None \<Rightarrow> Some (volume MigrationSourceVolumeName VS_EmptyDir)
                | Some ref \<Rightarrow> Some (volume MigrationSourceVolumeName (VS_PVC (nor_Name ref @ ''-data'') True))))"

section \<open>Both are latches\<close>

definition restored :: "HermesInstance \<Rightarrow> bool" where
  "restored inst \<longleftrightarrow>
     spec_RestoreFrom (hi_Spec inst) \<noteq> '''' \<and> st_RestoredFrom (hi_Status inst) = spec_RestoreFrom (hi_Spec inst)"

definition migrated :: "HermesInstance \<Rightarrow> bool" where
  "migrated inst \<longleftrightarrow>
     mig_FromOpenClaw (spec_Migration (hi_Spec inst)) \<noteq> None \<and> mst_Completed (st_Migration (hi_Status inst))"

definition restore_step :: "'w env \<Rightarrow> HermesInstance \<Rightarrow> 'w \<Rightarrow> HermesInstance \<times> 'w" where
  "restore_step E inst w = (case RestoreReconcile E inst w of (r, d, e, inst', w') \<Rightarrow> (inst', w'))"

definition migration_step :: "'w env \<Rightarrow> HermesInstance \<Rightarrow> 'w \<Rightarrow> HermesInstance \<times> 'w" where
  "migration_step E inst w = (case MigrationReconcile E inst w of (r, d, e, inst', w') \<Rightarrow> (inst', w'))"

definition import_state :: "HermesInstance \<Rightarrow> HermesInstanceSpec \<times> string \<times> MigrationStatus" where
  "import_state inst = (hi_Spec inst, st_RestoredFrom (hi_Status inst), st_Migration (hi_Status inst))"

lemma import_state_simps [simp]:
  "import_state (put_condition E w c i) = import_state i"
  "import_state (if b then i1 else i2) = (if b then import_state i1 else import_state i2)"
  by (simp_all add: import_state_def)

lemma import_state_latched:
  "import_state i = import_state j \<Longrightarrow> restored i = restored j \<and> migrated i = migrated j"
  by (auto simp: import_state_def restored_def migrated_def)

lemma status_update_import:
  "status_update_echoes E \<Longrightarrow> status_update E i w = (x, i', w') \<Longrightarrow> import_state i' = import_state i"
  using status_update_status [of E i w x i' w'] by (simp add: import_state_def)

lemma status_update_put:
  "status_update_echoes E \<Longrightarrow> status_update E (put_condition E w0 c i) w = (x, i', w') \<Longrightarrow>
   import_state i' = import_state i"
  using status_update_import [of E "put_condition E w0 c i" w x i' w'] by simp

lemma sources_ok_spec: "hi_Spec j = hi_Spec i \<Longrightarrow> sources_ok j = sources_ok i"
  by (simp add: sources_ok_def split: option.split)

lemma restored_step:
  "restored s \<Longrightarrow> RestoreReconcile E s w = (r, d, e, s', w') \<Longrightarrow>
   d \<and> e = None \<and> import_state s' = import_state s \<and> w' = w"
  by (auto simp: RestoreReconcile_def restored_def Let_def)

lemma migrated_step:
  "migrated s \<Longrightarrow> MigrationReconcile E s w = (r, d, e, s', w') \<Longrightarrow>
   d \<and> e = None \<and> import_state s' = import_state s \<and> w' = w"
  by (auto simp: MigrationReconcile_def migrated_def)

interpretation restore: latch "restore_step E" restored import_state
proof
  fix s w s' w'
  assume "restored s" and "restore_step E s w = (s', w')"
  then show "restored s' \<and> import_state s' = import_state s \<and> w' = w"
    using import_state_latched [of s' s]
    by (auto simp: restore_step_def split: prod.splits dest: restored_step)
qed

interpretation migration: latch "migration_step E" migrated import_state
proof
  fix s w s' w'
  assume "migrated s" and "migration_step E s w = (s', w')"
  then show "migrated s' \<and> import_state s' = import_state s \<and> w' = w"
    using import_state_latched [of s' s]
    by (auto simp: migration_step_def split: prod.splits dest: migrated_step)
qed

text \<open>What a step can do to the import state.\<close>

lemma restore_step_cases:
  assumes "status_update_echoes E" and "RestoreReconcile E inst w = (r, d, err, inst', w')"
  shows "import_state inst' = import_state inst \<or>
         (import_state inst' = import_state (set_restored (spec_RestoreFrom (hi_Spec inst)) inst) \<and>
          spec_RestoreFrom (hi_Spec inst) \<noteq> '''')"
  using assms(2)
  by (auto simp: RestoreReconcile_def Let_def
      split: if_splits prod.splits sum.splits option.splits
      dest: status_update_put [OF assms(1)])

lemma migration_step_cases:
  assumes "status_update_echoes E" and "MigrationReconcile E inst w = (r, d, err, inst', w')"
  shows "import_state inst' = import_state inst \<or>
         ((\<exists>now v. import_state inst' = import_state (set_migrated now v inst)) \<and>
          mig_FromOpenClaw (spec_Migration (hi_Spec inst)) \<noteq> None)"
  using assms(2)
  by (auto simp: MigrationReconcile_def Let_def
      split: if_splits prod.splits sum.splits option.splits
      dest: status_update_put [OF assms(1)])

section \<open>The life of an instance\<close>

text \<open>
  One step of the life of a HermesInstance: an update the webhook accepts (an update of the main
  resource keeps the status), a pass of either import controller, or any other write that keeps the
  spec and the import status, as those of the other sub-controllers do.
\<close>

inductive life :: "'w env \<Rightarrow> 'w validator \<Rightarrow> HermesInstance \<Rightarrow> HermesInstance \<Rightarrow> bool"
  for E :: "'w env" and v :: "'w validator" where
  user_update: "fst (snd (ValidateUpdate v i j w)) = None \<Longrightarrow> hi_Status j = hi_Status i \<Longrightarrow> life E v i j"
| restore_pass: "RestoreReconcile E i w = (r, d, err, j, w') \<Longrightarrow> life E v i j"
| migration_pass: "MigrationReconcile E i w = (r, d, err, j, w') \<Longrightarrow> life E v i j"
| other_write: "import_state j = import_state i \<Longrightarrow> life E v i j"

inductive_cases lifeE: "life E v i j"

lemma life_restored:
  assumes "status_update_echoes E" and "life E v i j" and "restored i"
  shows "restored j \<and> spec_RestoreFrom (hi_Spec j) = spec_RestoreFrom (hi_Spec i)"
  using assms(2)
proof cases
  case (user_update w)
  then show ?thesis
    using accept_latches [of v i j w] assms(3) by (auto simp: respects_latches_def restored_def)
next
  case (restore_pass w r d err w')
  then show ?thesis
    using restored_step [OF assms(3) restore_pass] import_state_latched [of j i] assms(3)
    by (auto simp: import_state_def)
next
  case (migration_pass w r d err w')
  then show ?thesis
    using migration_step_cases [OF assms(1)] assms(3)
    by (fastforce simp: import_state_def restored_def set_migrated_def)
next
  case other_write
  then show ?thesis using import_state_latched [of j i] assms(3) by (auto simp: import_state_def)
qed

lemma life_migrated:
  assumes "status_update_echoes E" and "life E v i j" and "migrated i"
  shows "migrated j \<and> spec_Migration (hi_Spec j) = spec_Migration (hi_Spec i)"
  using assms(2)
proof cases
  case (user_update w)
  then show ?thesis
    using accept_latches [of v i j w] assms(3) by (auto simp: respects_latches_def migrated_def)
next
  case (restore_pass w r d err w')
  then show ?thesis
    using restore_step_cases [OF assms(1)] assms(3)
    by (fastforce simp: import_state_def migrated_def set_restored_def)
next
  case (migration_pass w r d err w')
  then show ?thesis
    using migrated_step [OF assms(3) migration_pass] import_state_latched [of j i] assms(3)
    by (auto simp: import_state_def)
next
  case other_write
  then show ?thesis using import_state_latched [of j i] assms(3) by (auto simp: import_state_def)
qed

lemma life_sources:
  assumes "status_update_echoes E" and "life E v i j" and "sources_ok i"
  shows "sources_ok j"
  using assms(2)
proof cases
  case (user_update w)
  then show ?thesis using accept_sources(2) [of v i j w] by blast
next
  case (restore_pass w r d err w')
  from restore_step_cases [OF assms(1) this] have "hi_Spec j = hi_Spec i"
    by (auto simp: import_state_def set_restored_def)
  from sources_ok_spec [OF this] assms(3) show ?thesis by simp
next
  case (migration_pass w r d err w')
  from migration_step_cases [OF assms(1) this] have "hi_Spec j = hi_Spec i"
    by (auto simp: import_state_def set_migrated_def)
  from sources_ok_spec [OF this] assms(3) show ?thesis by simp
next
  case other_write
  with assms(3) sources_ok_spec [of j i] show ?thesis by (simp add: import_state_def)
qed

lemma lives_restored:
  "(life E v)\<^sup>*\<^sup>* i j \<Longrightarrow> status_update_echoes E \<Longrightarrow> restored i \<Longrightarrow>
   restored j \<and> spec_RestoreFrom (hi_Spec j) = spec_RestoreFrom (hi_Spec i)"
  by (induction rule: rtranclp_induct) (auto dest: life_restored)

lemma lives_migrated:
  "(life E v)\<^sup>*\<^sup>* i j \<Longrightarrow> status_update_echoes E \<Longrightarrow> migrated i \<Longrightarrow>
   migrated j \<and> spec_Migration (hi_Spec j) = spec_Migration (hi_Spec i)"
  by (induction rule: rtranclp_induct) (auto dest: life_migrated)

lemma lives_sources:
  "(life E v)\<^sup>*\<^sup>* i j \<Longrightarrow> status_update_echoes E \<Longrightarrow> sources_ok i \<Longrightarrow> sources_ok j"
  by (induction rule: rtranclp_induct) (auto dest: life_sources)

section \<open>Properties\<close>

text \<open>
  An import runs once: after a restore (a migration) has been recorded, in every later state of
  the instance's life the record stands, the spec that asked for it is the same, and the pod has no
  init container (nor source volume) to run it again.
\<close>

theorem import_runs_once:
  assumes "status_update_echoes E" and "(life E v)\<^sup>*\<^sup>* i j"
  shows "(restored i \<longrightarrow> restored j \<and> spec_RestoreFrom (hi_Spec j) = spec_RestoreFrom (hi_Spec i) \<and>
            BuildRestoreInitContainer j = None) \<and>
         (migrated i \<longrightarrow> migrated j \<and> spec_Migration (hi_Spec j) = spec_Migration (hi_Spec i) \<and>
            BuildMigrationInitContainer j = None \<and> BuildSourceVolume j = None)"
  using lives_restored [OF assms(2,1)] lives_migrated [OF assms(2,1)]
  by (auto simp: restored_def migrated_def BuildRestoreInitContainer_def BuildMigrationInitContainer_def
      BuildSourceVolume_def split: option.split)

lemma import_runs_once_witness:
  "BuildRestoreInitContainer (fst (restore_step quiet_env restored_instance ())) = None"
proof -
  obtain r d err j w' where p: "RestoreReconcile quiet_env restored_instance () = (r, d, err, j, w')"
    by (metis prod_cases5)
  then have "(life quiet_env offline_validator)\<^sup>*\<^sup>* restored_instance j"
    by (blast intro: life.restore_pass)
  moreover have "restored restored_instance"
    by (simp add: restored_def restored_instance_def zero_defs)
  ultimately show ?thesis
    using import_runs_once [OF quiet_echoes(1), of offline_validator restored_instance j] p
    by (simp add: restore_step_def)
qed

text \<open>
  The two imports exclude each other: in the whole life of an instance the webhook admitted, no
  pod has both init containers.
\<close>

theorem imports_exclusive:
  assumes "status_update_echoes E" and "fst (snd (ValidateCreate v i w)) = None"
    and "(life E v)\<^sup>*\<^sup>* i j"
  shows "BuildRestoreInitContainer j = None \<or> BuildMigrationInitContainer j = None"
proof -
  have "sources_ok j"
    using lives_sources [OF assms(3,1)] accept_sources(1) [OF assms(2)] by simp
  then show ?thesis
    by (auto simp: sources_ok_def BuildRestoreInitContainer_def BuildMigrationInitContainer_def
        split: option.splits)
qed

lemma small_accepted: "fst (snd (ValidateCreate offline_validator small_instance ())) = None"
  using small_instance_wellformed sources_iff [of small_instance]
    validate_rest_iff [OF offline_readable, of None small_instance]
  by (auto simp: ValidateCreate_def wellformed_def crossCheckSecrets_def offline_validator_def Let_def
      split: option.splits)

lemma imports_exclusive_witness:
  "BuildRestoreInitContainer small_instance = None \<or> BuildMigrationInitContainer small_instance = None"
  by (rule imports_exclusive [OF quiet_echoes(1) small_accepted rtranclp.rtrancl_refl])

end
