(* ===== verification/Companions.thy ===== *)
theory Companions
  imports BackupJobs
begin

text \<open>
  What the agent pod is given besides its own container, and the companions beside the pod:
  \<open>internal/resources/gateways.go\<close> (environment of the chat gateways), \<open>agent_runtime.go\<close>,
  \<open>honcho.go\<close> (the profile store's volume, Service, Deployment and consumer environment),
  \<open>tailscale.go\<close> (the sidecar and its serve configuration) and the environment of \<open>semaphore.go\<close>.
\<close>

section \<open>Environment variables from Secrets\<close>

definition secretEnv :: "string \<Rightarrow> SecretKeySelector \<Rightarrow> EnvVar" where
  "secretEnv name ref =
     \<lparr>ev_Name = name, ev_Value = '''',
      ev_ValueFrom = Some \<lparr>evs_SecretKeyRef = Some \<lparr>sks_Name = sks_Name ref, sks_Key = sks_Key ref, sks_Optional = None\<rparr>,
                           evs_ConfigMapKeyRef = None, evs_Opaque = JNull\<rparr>\<rparr>"

definition opt_env :: "string \<Rightarrow> SecretKeySelector option \<Rightarrow> EnvVar list" where
  "opt_env name ref = (case ref of None \<Rightarrow> [] | Some r \<Rightarrow> [secretEnv name r])"

section \<open>Gateways\<close>

definition joinInt64s :: "int list \<Rightarrow> string \<Rightarrow> string" where
  "joinInt64s ns sep = (if ns = [] then '''' else Join (map Itoa ns) sep)"

definition BuildGatewayEnvFrom :: "HermesInstance \<Rightarrow> EnvFromSource list" where
  "BuildGatewayEnvFrom inst =
     (let wa = gw_WhatsApp (spec_Gateways (hi_Spec inst)) in
      if BoolValue (wa_Enabled wa)
      then (case wa_ProviderSecretRef wa of
              None \<Rightarrow> []
            | Some ref \<Rightarrow> [\<lparr>efs_Prefix = ''WHATSAPP_'', efs_SecretRef = Some (sks_Name ref), efs_Opaque = JNull\<rparr>])
      else [])"

definition telegram_env :: "TelegramGatewaySpec \<Rightarrow> EnvVar list" where
  "telegram_env g =
     (if BoolValue (tg_Enabled g)
      then opt_env ''TELEGRAM_BOT_TOKEN'' (tg_BotTokenSecretRef g) @
           (if tg_AllowedUserIDs g \<noteq> []
            then [env_value ''TELEGRAM_ALLOWED_USER_IDS'' (joinInt64s (tg_AllowedUserIDs g) '','')] else []) @
           (if tg_WebhookURL g \<noteq> '''' then [env_value ''TELEGRAM_WEBHOOK_URL'' (tg_WebhookURL g)] else [])
      else [])"

definition discord_env :: "DiscordGatewaySpec \<Rightarrow> EnvVar list" where
  "discord_env g =
     (if BoolValue (dc_Enabled g)
      then opt_env ''DISCORD_BOT_TOKEN'' (dc_BotTokenSecretRef g) @
           (if dc_ApplicationID g \<noteq> '''' then [env_value ''DISCORD_APPLICATION_ID'' (dc_ApplicationID g)] else []) @
           (if dc_GuildIDs g \<noteq> [] then [env_value ''DISCORD_GUILD_IDS'' (Join (dc_GuildIDs g) '','')] else [])
      else [])"

definition slack_env :: "SlackGatewaySpec \<Rightarrow> EnvVar list" where
  "slack_env g =
     (if BoolValue (sl_Enabled g)
      then opt_env ''SLACK_BOT_TOKEN'' (sl_BotTokenSecretRef g) @
           opt_env ''SLACK_APP_TOKEN'' (sl_AppTokenSecretRef g) @
           opt_env ''SLACK_SIGNING_SECRET'' (sl_SigningSecretRef g)
      else [])"

definition signal_env :: "SignalGatewaySpec \<Rightarrow> EnvVar list" where
  "signal_env g =
     (if BoolValue (sig_Enabled g)
      then opt_env ''SIGNAL_PHONE_NUMBER'' (sig_PhoneNumberSecretRef g) @
           opt_env ''SIGNAL_AUTH_TOKEN'' (sig_AuthTokenSecretRef g)
      else [])"

definition BuildGatewayEnv :: "HermesInstance \<Rightarrow> EnvVar list" where
  "BuildGatewayEnv inst =
     (let g = spec_Gateways (hi_Spec inst) in
      telegram_env (gw_Telegram g) @ discord_env (gw_Discord g) @ slack_env (gw_Slack g) @ signal_env (gw_Signal g))"

definition BuildGatewayConfigFragments :: "HermesInstance \<Rightarrow> (string \<times> json) list" where
  "BuildGatewayConfigFragments inst =
     (let g = spec_Gateways (hi_Spec inst); tg = gw_Telegram g; dc = gw_Discord g;
          on = JObj [(''enabled'', JBool True)] in
      (if BoolValue (tg_Enabled tg)
       then [(''telegram'', JObj [(''enabled'', JBool True), (''webhookURL'', JStr (tg_WebhookURL tg)),
               (''allowedUserIDs'', if tg_AllowedUserIDs tg = [] then JNull else JArr (map JInt (tg_AllowedUserIDs tg)))])] else []) @
      (if BoolValue (dc_Enabled dc)
       then [(''discord'', JObj [(''enabled'', JBool True), (''applicationID'', JStr (dc_ApplicationID dc)),
               (''guildIDs'', if dc_GuildIDs dc = [] then JNull else JArr (map JStr (dc_GuildIDs dc)))])] else []) @
      (if BoolValue (sl_Enabled (gw_Slack g)) then [(''slack'', on)] else []) @
      (if BoolValue (wa_Enabled (gw_WhatsApp g)) then [(''whatsapp'', on)] else []) @
      (if BoolValue (sig_Enabled (gw_Signal g)) then [(''signal'', on)] else []))"

definition BuildGatewayEgressEndpoints :: "HermesInstance \<Rightarrow> string list" where
  "BuildGatewayEgressEndpoints inst =
     (let g = spec_Gateways (hi_Spec inst) in
      (if BoolValue (tg_Enabled (gw_Telegram g)) then [''api.telegram.org''] else []) @
      (if BoolValue (dc_Enabled (gw_Discord g)) then [''discord.com'', ''gateway.discord.gg''] else []) @
      (if BoolValue (sl_Enabled (gw_Slack g)) then [''slack.com'', ''wss-primary.slack.com''] else []) @
      (if BoolValue (wa_Enabled (gw_WhatsApp g)) then [''graph.facebook.com''] else []) @
      (if BoolValue (sig_Enabled (gw_Signal g)) then [''chat.signal.org''] else []))"

section \<open>The agent runtime\<close>

abbreviation APIServerKeySecretKey :: string where "APIServerKeySecretKey \<equiv> ''api_server_key''"

definition BuildAgentRuntimeEnv :: "HermesInstance \<Rightarrow> EnvVar list" where
  "BuildAgentRuntimeEnv inst =
     [env_value ''HERMES_HOME'' ''/opt/data'', env_value ''HERMES_UID'' ''1000'',
      env_value ''HERMES_GID'' ''1000'', env_value ''API_SERVER_ENABLED'' ''true'',
      env_value ''API_SERVER_HOST'' ''0.0.0.0'', env_value ''API_SERVER_PORT'' (Itoa GatewayPort),
      secretEnv ''API_SERVER_KEY''
        \<lparr>sks_Name = GatewayTokenSecretName inst, sks_Key = APIServerKeySecretKey, sks_Optional = None\<rparr>]"

definition BuildSemaphoreEnv :: "HermesInstance \<Rightarrow> EnvVar list" where
  "BuildSemaphoreEnv inst =
     (if \<not> SemaphoreEnabled inst then []
      else (let s = spec_Semaphore (hi_Spec inst) in
            env_value ''SEMAPHORE_URL'' (sema_URL s) # opt_env ''SEMAPHORE_TOKEN'' (sema_TokenSecretRef s)))"

definition BuildSemaphoreSkill :: "HermesInstance \<Rightarrow> InstanceSkill option" where
  "BuildSemaphoreSkill inst =
     (if \<not> SemaphoreEnabled inst then None else Some (zero_InstanceSkill\<lparr>skill_Source := ''semaphore-ui''\<rparr>))"

section \<open>Honcho\<close>

definition honcho :: "HermesInstance \<Rightarrow> HonchoSpec" where
  "honcho inst = pstore_Honcho (spec_ProfileStore (hi_Spec inst))"

definition HonchoLabels :: "HermesInstance \<Rightarrow> strmap" where
  "HonchoLabels inst =
     [(''app.kubernetes.io/name'', ''honcho''),
      (''app.kubernetes.io/instance'', HonchoDeploymentName inst),
      (''app.kubernetes.io/managed-by'', ''hermes-operator''),
      (''app.kubernetes.io/part-of'', ''hermes.agent''),
      (''hermes.agent/instance'', inst_name inst)]"

definition honcho_selector :: "HermesInstance \<Rightarrow> strmap" where
  "honcho_selector inst =
     [(''app.kubernetes.io/name'', ''honcho''), (''app.kubernetes.io/instance'', HonchoDeploymentName inst)]"

definition BuildHonchoPVC :: "HermesInstance \<Rightarrow> PersistentVolumeClaim" where
  "BuildHonchoPVC inst =
     (let p = hon_Persistence (honcho inst) in
      \<lparr>pvc_Meta = (new_meta (HonchoPVCName inst) (inst_ns inst))\<lparr>om_Labels := HonchoLabels inst\<rparr>,
       pvc_AccessModes = [''ReadWriteOnce''], pvc_StorageRequest = or_default (honper_Size p) ''5Gi'',
       pvc_StorageClassName = honper_StorageClassName p\<rparr>)"

definition BuildHonchoService :: "HermesInstance \<Rightarrow> Service" where
  "BuildHonchoService inst =
     \<lparr>svc_Meta = (new_meta (HonchoServiceName inst) (inst_ns inst))\<lparr>om_Labels := HonchoLabels inst\<rparr>,
      svc_Spec = \<lparr>svs_Type = ''ClusterIP'', svs_ClusterIP = '''', svs_ClusterIPs = [], svs_SessionAffinity = ''None'',
        svs_Selector = honcho_selector inst,
        svs_Ports = [\<lparr>sp_Name = ''http'', sp_Port = 8000, sp_TargetPort = StrVal ''http'', sp_Protocol = ''TCP'', sp_NodePort = 0\<rparr>],
        svs_LoadBalancerClass = None, svs_ExternalTrafficPolicy = ''''\<rparr>\<rparr>"

definition honchoImageRef :: "HonchoSpec \<Rightarrow> string" where
  "honchoImageRef h =
     or_default (honimg_Repository (hon_Image h)) ''ghcr.io/plastic-labs/honcho'' @ '':'' @
     or_default (honimg_Tag (hon_Image h)) ''0.1.0''"

definition honchoPullPolicy :: "HonchoSpec \<Rightarrow> string" where
  "honchoPullPolicy h = or_default (honimg_PullPolicy (hon_Image h)) ''IfNotPresent''"

definition probe :: "ProbeHandler \<Rightarrow> int \<Rightarrow> int \<Rightarrow> int \<Rightarrow> int \<Rightarrow> Probe" where
  "probe h delay period timeout failures =
     \<lparr>pr_Handler = h, pr_InitialDelaySeconds = delay, pr_PeriodSeconds = period, pr_TimeoutSeconds = timeout,
      pr_FailureThreshold = failures, pr_SuccessThreshold = 1\<rparr>"

definition honcho_container :: "HonchoSpec \<Rightarrow> Container" where
  "honcho_container h =
     empty_container
       \<lparr>ctr_Name := ''honcho'', ctr_Image := honchoImageRef h, ctr_ImagePullPolicy := honchoPullPolicy h,
        ctr_TerminationMessagePath := ''/dev/termination-log'', ctr_TerminationMessagePolicy := ''File'',
        ctr_Env := env_value ''HONCHO_DATA_DIR'' ''/data'' # opt_env ''HONCHO_API_KEY'' (hon_APIKeySecretRef h),
        ctr_Resources := hon_Resources h,
        ctr_Ports := [\<lparr>cp_Name = ''http'', cp_ContainerPort = 8000, cp_Protocol = ''TCP''\<rparr>],
        ctr_SecurityContext := Some restricted_scx,
        ctr_VolumeMounts := [mount ''honcho-data'' ''/data'' False, mount ''tmp'' ''/tmp'' False],
        ctr_ReadinessProbe := Some (probe (HTTPGet ''/healthz'' (StrVal ''http'')) 5 10 2 3),
        ctr_LivenessProbe := Some (probe (TCPSocket (StrVal ''http'')) 30 30 5 3)\<rparr>"

definition BuildHonchoDeployment :: "HermesInstance \<Rightarrow> Deployment" where
  "BuildHonchoDeployment inst =
     \<lparr>dep_Meta = (new_meta (HonchoDeploymentName inst) (inst_ns inst))\<lparr>om_Labels := HonchoLabels inst\<rparr>,
      dep_Spec =
        \<lparr>dep_Replicas = Some 1, dep_RevisionHistoryLimit = Some 10, dep_ProgressDeadlineSeconds = Some 600,
         dep_Strategy = ''Recreate'', dep_Selector = honcho_selector inst,
         dep_Template = \<lparr>pts_Labels = HonchoLabels inst,
           pts_Spec = empty_pod_spec
             \<lparr>ps_RestartPolicy := ''Always'', ps_DNSPolicy := ''ClusterFirst'', ps_SchedulerName := ''default-scheduler'',
              ps_TerminationGracePeriodSeconds := Some 30, ps_SecurityContext := Some user1000_scx,
              ps_Containers := [honcho_container (honcho inst)],
              ps_Volumes := [volume ''honcho-data'' (VS_PVC (HonchoPVCName inst) False), volume ''tmp'' VS_EmptyDir]\<rparr>\<rparr>\<rparr>,
      dep_StatusReplicas = 0, dep_StatusReadyReplicas = 0\<rparr>"

definition BuildHonchoConsumerEnv :: "HermesInstance \<Rightarrow> EnvVar list" where
  "BuildHonchoConsumerEnv inst =
     (if \<not> honchoEnabled inst then []
      else env_value ''HONCHO_BASE_URL'' (''http://'' @ HonchoServiceName inst @ '':8000'') #
           opt_env ''HONCHO_API_KEY'' (hon_APIKeySecretRef (honcho inst)))"

section \<open>Tailscale\<close>

abbreviation tailscaleContainerName :: string where "tailscaleContainerName \<equiv> ''tailscale''"
abbreviation tailscaleServeMount :: string where "tailscaleServeMount \<equiv> ''/etc/tailscale''"
abbreviation tailscaleServeFile :: string where "tailscaleServeFile \<equiv> ''serve.json''"
abbreviation tailscaleServeVolume :: string where "tailscaleServeVolume \<equiv> ''tailscale-serve''"
abbreviation tailscaleServeKey :: string where "tailscaleServeKey \<equiv> ''tailscale-serve.json''"
abbreviation tailscaleTmpVolume :: string where "tailscaleTmpVolume \<equiv> ''tailscale-tmp''"

definition tailscaleImage :: "HermesInstance \<Rightarrow> string" where
  "tailscaleImage inst =
     (let img = ts_Image (spec_Tailscale (hi_Spec inst)) in
      or_default (tsimg_Repository img) ''tailscale/tailscale'' @ '':'' @ or_default (tsimg_Tag img) ''v1.86.2'')"

definition tailscaleHostname :: "HermesInstance \<Rightarrow> string" where
  "tailscaleHostname inst = or_default (ts_Hostname (spec_Tailscale (hi_Spec inst))) (inst_name inst)"

definition BuildTailscaleServeConfig :: "HermesInstance \<Rightarrow> string" where
  \<open>BuildTailscaleServeConfig inst =
       ''{
  "TCP": { "443": { "HTTPS": true } },
  "Web": {
    "${TS_CERT_DOMAIN}:443": {
      "Handlers": { "/": { "Proxy": "http://127.0.0.1:'' @ Itoa GatewayPort @ ''" } }
    }
  }
}''\<close>

definition tailscale_env :: "HermesInstance \<Rightarrow> EnvVar list" where
  "tailscale_env inst =
     [env_value ''TS_USERSPACE'' ''true'', env_value ''TS_HOSTNAME'' (tailscaleHostname inst),
      env_value ''TS_SERVE_CONFIG'' (tailscaleServeMount @ ''/'' @ tailscaleServeFile)] @
     (case ts_AuthKey (spec_Tailscale (hi_Spec inst)) of
        None \<Rightarrow> []
      | Some k \<Rightarrow>
         (case tsk_SecretRef k of
            None \<Rightarrow> []
          | Some ref \<Rightarrow> [\<lparr>ev_Name = ''TS_AUTHKEY'', ev_Value = '''',
              ev_ValueFrom = Some \<lparr>evs_SecretKeyRef = Some ref, evs_ConfigMapKeyRef = None, evs_Opaque = JNull\<rparr>\<rparr>]))"

definition BuildTailscaleSidecar :: "HermesInstance \<Rightarrow> Container option" where
  "BuildTailscaleSidecar inst =
     (if \<not> tailscaleEnabled inst then None
      else Some (empty_container
        \<lparr>ctr_Name := tailscaleContainerName, ctr_Image := tailscaleImage inst,
         ctr_ImagePullPolicy := or_default (tsimg_PullPolicy (ts_Image (spec_Tailscale (hi_Spec inst)))) ''IfNotPresent'',
         ctr_Env := tailscale_env inst, ctr_Resources := ts_Resources (spec_Tailscale (hi_Spec inst)),
         ctr_VolumeMounts := [mount tailscaleServeVolume tailscaleServeMount True, mount tailscaleTmpVolume ''/tmp'' False],
         ctr_SecurityContext := Some (restricted_scx\<lparr>scx_RunAsNonRoot := Some True, scx_RunAsUser := Some 1000\<rparr>)\<rparr>))"

end
