(* ===== verification/Network.thy ===== *)
theory Network
  imports Companions
begin

text \<open>
  How traffic reaches and leaves an instance: \<open>internal/resources/service.go\<close>, \<open>networkpolicy.go\<close>,
  \<open>ingress.go\<close>, \<open>httproute.go\<close>, and the monitoring objects of \<open>servicemonitor.go\<close> and
  \<open>prometheusrule.go\<close>. The second part gives a NetworkPolicy its documented meaning, which
  connections it admits, and states what the built policies admit.
\<close>

section \<open>The Service\<close>

abbreviation service_spec :: "HermesInstance \<Rightarrow> ServiceSpec" where
  "service_spec inst \<equiv> nw_Service (spec_Networking (hi_Spec inst))"

definition custom_port :: "NamedServicePort \<Rightarrow> ServicePort" where
  "custom_port p =
     \<lparr>sp_Name = nsp_Name p, sp_Port = nsp_Port p,
      sp_TargetPort = IntVal (case nsp_TargetPort p of None \<Rightarrow> nsp_Port p | Some t \<Rightarrow> t),
      sp_Protocol = or_default (nsp_Protocol p) ''TCP'', sp_NodePort = nsp_NodePort p\<rparr>"

definition named_port :: "string \<Rightarrow> int \<Rightarrow> ServicePort" where
  "named_port n p = \<lparr>sp_Name = n, sp_Port = p, sp_TargetPort = StrVal n, sp_Protocol = ''TCP'', sp_NodePort = 0\<rparr>"

definition metrics_port :: "HermesInstance \<Rightarrow> int" where
  "metrics_port inst =
     (let p = metrics_Port (obs_Metrics (spec_Observability (hi_Spec inst))) in if p = 0 then DefaultMetricsPort else p)"

definition buildServicePorts :: "HermesInstance \<Rightarrow> ServicePort list" where
  "buildServicePorts inst =
     (let custom = ss_Ports (service_spec inst);
          ports = (if custom \<noteq> [] then map custom_port custom else [named_port GatewayPortName GatewayPort]) in
      if BoolValueOrDefault (metrics_Enabled (obs_Metrics (spec_Observability (hi_Spec inst)))) True \<and>
         \<not> (\<exists>p \<in> set ports. sp_Name p = MetricsPortName)
      then ports @ [named_port MetricsPortName (metrics_port inst)]
      else ports)"

definition BuildService :: "HermesInstance \<Rightarrow> Service" where
  "BuildService inst =
     (let ss = service_spec inst in
      \<lparr>svc_Meta = (new_meta (ServiceName inst) (inst_ns inst))
         \<lparr>om_Labels := LabelsForInstance inst, om_Annotations := ss_Annotations ss\<rparr>,
       svc_Spec =
         \<lparr>svs_Type = or_default (ss_Type ss) ''ClusterIP'', svs_ClusterIP = ss_ClusterIP ss, svs_ClusterIPs = [],
          svs_SessionAffinity = ''None'', svs_Selector = SelectorLabels inst, svs_Ports = buildServicePorts inst,
          svs_LoadBalancerClass = ss_LoadBalancerClass ss, svs_ExternalTrafficPolicy = ss_ExternalTrafficPolicy ss\<rparr>\<rparr>)"

section \<open>The NetworkPolicies\<close>

abbreviation netpol_spec :: "HermesInstance \<Rightarrow> NetworkPolicySpec" where
  "netpol_spec inst \<equiv> secy_NetworkPolicy (spec_Security (hi_Spec inst))"

definition npp :: "string \<Rightarrow> int \<Rightarrow> NetworkPolicyPort" where
  "npp proto port = \<lparr>npp_Protocol = Some proto, npp_Port = Some (IntVal port), npp_Opaque = JNull\<rparr>"

definition ns_peer :: "string \<Rightarrow> NetworkPolicyPeer" where
  "ns_peer ns = \<lparr>peer_NamespaceSelector = Some [(''kubernetes.io/metadata.name'', ns)], peer_PodSelector = None,
     peer_IPBlock = None, peer_Opaque = JNull\<rparr>"

definition pod_peer :: "strmap \<Rightarrow> NetworkPolicyPeer" where
  "pod_peer ls = \<lparr>peer_NamespaceSelector = None, peer_PodSelector = Some ls, peer_IPBlock = None, peer_Opaque = JNull\<rparr>"

definition cidr_peer :: "string \<Rightarrow> NetworkPolicyPeer" where
  "cidr_peer c = \<lparr>peer_NamespaceSelector = None, peer_PodSelector = None, peer_IPBlock = Some c, peer_Opaque = JNull\<rparr>"

definition policy_port :: "NamedServicePort \<Rightarrow> NetworkPolicyPort" where
  "policy_port p = npp (or_default (nsp_Protocol p) ''TCP'') (case nsp_TargetPort p of None \<Rightarrow> nsp_Port p | Some t \<Rightarrow> t)"

definition networkPolicyIngressPorts :: "HermesInstance \<Rightarrow> NetworkPolicyPort list" where
  "networkPolicyIngressPorts inst =
     (let custom = ss_Ports (service_spec inst) in
      if custom \<noteq> [] then map policy_port custom else [npp ''TCP'' GatewayPort])"

definition buildIngressRules :: "HermesInstance \<Rightarrow> NetworkPolicyIngressRule list" where
  "buildIngressRules inst =
     (let ports = networkPolicyIngressPorts inst; np = netpol_spec inst in
      [\<lparr>in_From = [ns_peer (inst_ns inst)], in_Ports = ports\<rparr>] @
      map (\<lambda>ns. \<lparr>in_From = [ns_peer ns], in_Ports = ports\<rparr>) (netpol_AllowedIngressNamespaces np) @
      map (\<lambda>c. \<lparr>in_From = [cidr_peer c], in_Ports = ports\<rparr>) (netpol_AllowedIngressCIDRs np))"

definition buildTailscaleEgressRules :: "HermesInstance \<Rightarrow> NetworkPolicyEgressRule list" where
  "buildTailscaleEgressRules inst =
     (if \<not> tailscaleEnabled inst then []
      else [\<lparr>eg_To = [], eg_Ports = [npp ''UDP'' 3478, npp ''UDP'' 41641]\<rparr>])"

definition ExtraEgressRules :: "HermesInstance \<Rightarrow> NetworkPolicyEgressRule list" where
  "ExtraEgressRules inst =
     (if BuildGatewayEgressEndpoints inst \<noteq> [] then [\<lparr>eg_To = [], eg_Ports = [npp ''TCP'' 443]\<rparr>] else []) @
     (if honchoEnabled inst
      then [\<lparr>eg_To = [pod_peer (honcho_selector inst)], eg_Ports = [npp ''TCP'' 8000]\<rparr>] else [])"

definition buildEgressRules :: "HermesInstance \<Rightarrow> NetworkPolicyEgressRule list" where
  "buildEgressRules inst =
     (let np = netpol_spec inst in
      (if BoolValueOrDefault (netpol_AllowDNS np) True
       then [\<lparr>eg_To = [], eg_Ports = [npp ''UDP'' 53, npp ''TCP'' 53]\<rparr>] else []) @
      [\<lparr>eg_To = [], eg_Ports = [npp ''TCP'' 443]\<rparr>] @
      map (\<lambda>c. \<lparr>eg_To = [cidr_peer c], eg_Ports = []\<rparr>) (netpol_AllowedEgressCIDRs np) @
      netpol_AdditionalEgress np @ ExtraEgressRules inst @ buildTailscaleEgressRules inst)"

definition BuildNetworkPolicy :: "HermesInstance \<Rightarrow> NetworkPolicy" where
  "BuildNetworkPolicy inst =
     \<lparr>np_Meta = (new_meta (NetworkPolicyName inst) (inst_ns inst))\<lparr>om_Labels := LabelsForInstance inst\<rparr>,
      np_Spec = \<lparr>nps_PodSelector = SelectorLabels inst, nps_PolicyTypes = [''Ingress'', ''Egress''],
                 nps_Ingress = buildIngressRules inst, nps_Egress = buildEgressRules inst\<rparr>\<rparr>"

definition BuildHonchoNetworkPolicy :: "HermesInstance \<Rightarrow> NetworkPolicy option" where
  "BuildHonchoNetworkPolicy inst =
     (if \<not> honchoEnabled inst then None
      else Some
        \<lparr>np_Meta = (new_meta (HonchoDeploymentName inst) (inst_ns inst))\<lparr>om_Labels := HonchoLabels inst\<rparr>,
         np_Spec = \<lparr>nps_PodSelector = honcho_selector inst, nps_PolicyTypes = [''Ingress'', ''Egress''],
           nps_Ingress = [\<lparr>in_From = [pod_peer [(''app.kubernetes.io/name'', ''hermes-agent''),
                                                 (''app.kubernetes.io/instance'', inst_name inst)]],
                           in_Ports = [npp ''TCP'' 8000]\<rparr>],
           nps_Egress = []\<rparr>\<rparr>)"

section \<open>Ingress and HTTPRoute\<close>

datatype IngressProvider = IngressProviderNginx | IngressProviderTraefik | IngressProviderUnknown

definition DetectIngressProvider :: "string option \<Rightarrow> IngressProvider" where
  "DetectIngressProvider className =
     (case className of
        None \<Rightarrow> IngressProviderUnknown
      | Some c \<Rightarrow>
          if Contains (ToLower c) ''nginx'' then IngressProviderNginx
          else if Contains (ToLower c) ''traefik'' then IngressProviderTraefik
          else IngressProviderUnknown)"

definition provider_annotations :: "IngressProvider \<Rightarrow> strmap" where
  "provider_annotations p =
     (case p of
        IngressProviderNginx \<Rightarrow>
          [(''nginx.ingress.kubernetes.io/ssl-redirect'', ''true''),
           (''nginx.ingress.kubernetes.io/force-ssl-redirect'', ''true''),
           (''nginx.ingress.kubernetes.io/proxy-body-size'', ''32m'')]
      | IngressProviderTraefik \<Rightarrow>
          [(''traefik.ingress.kubernetes.io/router.entrypoints'', ''websecure''),
           (''traefik.ingress.kubernetes.io/router.tls'', ''true'')]
      | IngressProviderUnknown \<Rightarrow> [])"

abbreviation ingress_spec :: "HermesInstance \<Rightarrow> IngressSpec" where
  "ingress_spec inst \<equiv> nw_Ingress (spec_Networking (hi_Spec inst))"

definition buildIngressAnnotations :: "HermesInstance \<Rightarrow> strmap" where
  "buildIngressAnnotations inst =
     mputall (ingr_Annotations (ingress_spec inst)) (provider_annotations (DetectIngressProvider (ingr_ClassName (ingress_spec inst))))"

definition BuildIngress :: "HermesInstance \<Rightarrow> Ingress" where
  "BuildIngress inst =
     (let ing = ingress_spec inst in
      \<lparr>ing_Meta = (new_meta (IngressName inst) (inst_ns inst))
         \<lparr>om_Labels := LabelsForInstance inst, om_Annotations := buildIngressAnnotations inst\<rparr>,
       ing_IngressClassName = ingr_ClassName ing,
       ing_Rules =
         (if ingr_Host ing = '''' then []
          else [\<lparr>ir_Host = ingr_Host ing,
                 ir_Paths = [\<lparr>hip_Path = or_default (ingr_Path ing) ''/'', hip_PathType = or_default (ingr_PathType ing) ''Prefix'',
                              hip_ServiceName = ServiceName inst,
                              hip_ServicePortName = or_default (ingr_ServicePortName ing) GatewayPortName\<rparr>]\<rparr>]),
       ing_TLS = map (\<lambda>t. \<lparr>itls_SecretName = ingrtls_SecretName t, itls_Hosts = ingrtls_Hosts t\<rparr>) (ingr_TLS ing)\<rparr>)"

definition HTTPRouteGVK :: GroupVersionKind where
  "HTTPRouteGVK = \<lparr>gvk_Group = ''gateway.networking.k8s.io'', gvk_Version = ''v1'', gvk_Kind = ''HTTPRoute''\<rparr>"

definition servicePortNumber :: "HermesInstance \<Rightarrow> string \<Rightarrow> int" where
  "servicePortNumber inst name =
     (case find (\<lambda>p. nsp_Name p = name) (ss_Ports (service_spec inst)) of
        Some p \<Rightarrow> nsp_Port p
      | None \<Rightarrow> if name = MetricsPortName then metrics_port inst else GatewayPort)"

definition parent_ref :: "HTTPRouteParentRef \<Rightarrow> json" where
  "parent_ref r =
     JObj ([(''name'', JStr (hrp_Name r))] @
           (case hrp_Namespace r of None \<Rightarrow> [] | Some n \<Rightarrow> [(''namespace'', JStr n)]) @
           (case hrp_SectionName r of None \<Rightarrow> [] | Some n \<Rightarrow> [(''sectionName'', JStr n)]))"

definition BuildHTTPRoute :: "HermesInstance \<Rightarrow> Unstructured option" where
  "BuildHTTPRoute inst =
     (case nw_HTTPRoute (spec_Networking (hi_Spec inst)) of
        None \<Rightarrow> None
      | Some spec \<Rightarrow> Some
          \<lparr>un_GVK = HTTPRouteGVK,
           un_Meta = (new_meta (HTTPRouteName inst) (inst_ns inst))
             \<lparr>om_Labels := LabelsForInstance inst, om_Annotations := hr_Annotations spec\<rparr>,
           un_Spec = JObj
             [(''parentRefs'', JArr (map parent_ref (hr_ParentRefs spec))),
              (''hostnames'', JArr (map JStr (hr_Hostnames spec))),
              (''rules'', JArr [JObj
                [(''matches'', JArr [JObj [(''path'', JObj
                    [(''type'', JStr ''PathPrefix''), (''value'', JStr (or_default (hr_Path spec) ''/''))])]]),
                 (''backendRefs'', JArr [JObj
                    [(''name'', JStr (ServiceName inst)),
                     (''port'', JInt (servicePortNumber inst (or_default (hr_ServicePortName spec) GatewayPortName)))]])]])]\<rparr>)"

section \<open>Monitoring\<close>

definition ServiceMonitorGVK :: GroupVersionKind where
  "ServiceMonitorGVK = \<lparr>gvk_Group = ''monitoring.coreos.com'', gvk_Version = ''v1'', gvk_Kind = ''ServiceMonitor''\<rparr>"

definition BuildServiceMonitor :: "HermesInstance \<Rightarrow> Unstructured" where
  "BuildServiceMonitor inst =
     (let sm = obs_ServiceMonitor (spec_Observability (hi_Spec inst)) in
      \<lparr>un_GVK = ServiceMonitorGVK,
       un_Meta = (new_meta (ServiceMonitorName inst) (inst_ns inst))
         \<lparr>om_Labels := mputall (sm_Labels sm) (LabelsForInstance inst)\<rparr>,
       un_Spec = JObj
         [(''selector'', JObj [(''matchLabels'', toIface (SelectorLabels inst))]),
          (''endpoints'', JArr [JObj
            [(''port'', JStr MetricsPortName), (''interval'', JStr (or_default (sm_Interval sm) ''30s'')),
             (''scrapeTimeout'', JStr (or_default (sm_ScrapeTimeout sm) ''10s'')), (''path'', JStr ''/metrics''),
             (''scheme'', JStr (if BoolValue (metrics_Secure (obs_Metrics (spec_Observability (hi_Spec inst)))) then ''https'' else ''http''))]])]\<rparr>)"

definition PrometheusRuleGVK :: GroupVersionKind where
  "PrometheusRuleGVK = \<lparr>gvk_Group = ''monitoring.coreos.com'', gvk_Version = ''v1'', gvk_Kind = ''PrometheusRule''\<rparr>"

definition default_alert :: "HermesInstance \<Rightarrow> string \<Rightarrow> string \<Rightarrow> string \<Rightarrow> string \<Rightarrow> string \<Rightarrow> json" where
  "default_alert inst name expr dur summary descr =
     JObj [(''alert'', JStr name), (''expr'', JStr expr), (''for'', JStr dur),
           (''labels'', JObj [(''severity'', JStr ''warning''), (''instance'', JStr (inst_name inst))]),
           (''annotations'', JObj [(''summary'', JStr summary), (''description'', JStr descr)])]"

definition defaultPrometheusRules :: "HermesInstance \<Rightarrow> json list" where
  \<open>defaultPrometheusRules inst =
     [default_alert inst ''HermesHighRestartRate''
        (''sum by (pod) (rate(kube_pod_container_status_restarts_total{pod=~"'' @ inst_name inst @ ''-.*"}[10m])) > 0.1'')
        ''10m'' ''Hermes pod restarting frequently''
        ''Pod {{$labels.pod}} has been restarting > 0.1/min for 10m'',
      default_alert inst ''HermesMetricsDown'' (''up{job="'' @ inst_name inst @ ''"} == 0'')
        ''5m'' ''Hermes metrics endpoint is down''
        ''Pod {{$labels.pod}} stopped serving /metrics for 5m'']\<close>

definition additional_rule :: "PrometheusRule \<Rightarrow> json" where
  "additional_rule r =
     JObj ([(''alert'', JStr (prule_Alert r)), (''expr'', JStr (prule_Expr r))] @
           (if prule_For r \<noteq> '''' then [(''for'', JStr (prule_For r))] else []) @
           (if prule_Labels r \<noteq> [] then [(''labels'', toIface (prule_Labels r))] else []) @
           (if prule_Annotations r \<noteq> [] then [(''annotations'', toIface (prule_Annotations r))] else []))"

definition BuildPrometheusRule :: "HermesInstance \<Rightarrow> Unstructured" where
  "BuildPrometheusRule inst =
     \<lparr>un_GVK = PrometheusRuleGVK,
      un_Meta = (new_meta (PrometheusRuleName inst) (inst_ns inst))\<lparr>om_Labels := LabelsForInstance inst\<rparr>,
      un_Spec = JObj [(''groups'', JArr [JObj
        [(''name'', JStr (''hermes-'' @ inst_name inst)),
         (''rules'', JArr (defaultPrometheusRules inst @
            map additional_rule (prs_AdditionalRules (obs_PrometheusRule (spec_Observability (hi_Spec inst))))))]])]\<rparr>"

interpretation svc: built_object BuildService svc_Meta "''''"
  by unfold_locales (simp_all add: BuildService_def Let_def ServiceName_def new_meta_def)

interpretation netpol: built_object BuildNetworkPolicy np_Meta "''''"
  by unfold_locales (simp_all add: BuildNetworkPolicy_def NetworkPolicyName_def new_meta_def)

interpretation ingress: built_object BuildIngress ing_Meta "''''"
  by unfold_locales (simp_all add: BuildIngress_def Let_def IngressName_def new_meta_def)

interpretation prule: built_object BuildPrometheusRule un_Meta "''''"
  by unfold_locales (simp_all add: BuildPrometheusRule_def PrometheusRuleName_def new_meta_def)

section \<open>What a NetworkPolicy admits\<close>

text \<open>
  The documented meaning of a policy. An endpoint is the other end of a connection: inside the cluster
  a pod, with its namespace and the labels of both, outside of it no pod (\<open>ep_ns\<close> is \<open>None\<close>);
  \<open>ep_within\<close> tells which address blocks its address lies in. \<open>named\<close> gives the numbers of the named
  ports of the receiving pod. A rule with no peer admits every peer, one with no port every port; a
  peer with a pod selector alone is in the namespace of the policy; a peer that is an address block
  admits every address of the block.
\<close>

record endpoint =
  ep_ns :: "string option"
  ep_ns_labels :: strmap
  ep_labels :: strmap
  ep_within :: "string \<Rightarrow> bool"

definition match_labels :: "strmap \<Rightarrow> strmap \<Rightarrow> bool" where
  "match_labels sel ls \<longleftrightarrow> (\<forall>(k, v) \<in> set sel. mget ls k = Some v)"

definition peer_admits :: "string \<Rightarrow> endpoint \<Rightarrow> NetworkPolicyPeer \<Rightarrow> bool" where
  "peer_admits polns e p =
     (case (peer_NamespaceSelector p, peer_PodSelector p) of
        (None, None) \<Rightarrow> (case peer_IPBlock p of None \<Rightarrow> False | Some block \<Rightarrow> ep_within e block)
      | (None, Some pm) \<Rightarrow> ep_ns e = Some polns \<and> match_labels pm (ep_labels e)
      | (Some nm, None) \<Rightarrow> ep_ns e \<noteq> None \<and> match_labels nm (ep_ns_labels e)
      | (Some nm, Some pm) \<Rightarrow> ep_ns e \<noteq> None \<and> match_labels nm (ep_ns_labels e) \<and> match_labels pm (ep_labels e))"

definition port_admits :: "(string \<times> int) list \<Rightarrow> string \<Rightarrow> int \<Rightarrow> NetworkPolicyPort \<Rightarrow> bool" where
  "port_admits named proto port p \<longleftrightarrow>
     (case npp_Protocol p of None \<Rightarrow> ''TCP'' | Some q \<Rightarrow> q) = proto \<and>
     (case npp_Port p of None \<Rightarrow> True | Some (IntVal n) \<Rightarrow> n = port | Some (StrVal s) \<Rightarrow> mget named s = Some port)"

definition list_admits :: "('a \<Rightarrow> bool) \<Rightarrow> 'a list \<Rightarrow> bool" where
  "list_admits P xs \<longleftrightarrow> xs = [] \<or> (\<exists>x \<in> set xs. P x)"

definition admits_in :: "NetworkPolicy \<Rightarrow> endpoint \<Rightarrow> (string \<times> int) list \<Rightarrow> string \<Rightarrow> int \<Rightarrow> bool" where
  "admits_in np src named proto port \<longleftrightarrow>
     (\<exists>r \<in> set (nps_Ingress (np_Spec np)). list_admits (peer_admits (om_Namespace (np_Meta np)) src) (in_From r) \<and>
        list_admits (port_admits named proto port) (in_Ports r))"

definition admits_out :: "NetworkPolicy \<Rightarrow> endpoint \<Rightarrow> (string \<times> int) list \<Rightarrow> string \<Rightarrow> int \<Rightarrow> bool" where
  "admits_out np dst named proto port \<longleftrightarrow>
     (\<exists>r \<in> set (nps_Egress (np_Spec np)). list_admits (peer_admits (om_Namespace (np_Meta np)) dst) (eg_To r) \<and>
        list_admits (port_admits named proto port) (eg_Ports r))"

lemma peer_simps [simp]:
  "peer_admits n e (ns_peer ns) \<longleftrightarrow> ep_ns e \<noteq> None \<and> match_labels [(''kubernetes.io/metadata.name'', ns)] (ep_ns_labels e)"
  "peer_admits n e (pod_peer ls) \<longleftrightarrow> ep_ns e = Some n \<and> match_labels ls (ep_labels e)"
  "peer_admits n e (cidr_peer c) = ep_within e c"
  by (simp_all add: peer_admits_def ns_peer_def pod_peer_def cidr_peer_def)

lemma port_simps [simp]: "port_admits named proto port (npp q n) \<longleftrightarrow> q = proto \<and> n = port"
  by (simp add: port_admits_def npp_def)

lemma list_admits_simps [simp]:
  "list_admits P []" "list_admits P (x # xs) \<longleftrightarrow> P x \<or> (\<exists>y \<in> set xs. P y)"
  by (simp_all add: list_admits_def)

text \<open>
  Where a port of a Service leads: the protocol and the number on the pod, a named target resolved
  among the named ports of the pod.
\<close>

definition forwards_to :: "(string \<times> int) list \<Rightarrow> ServicePort \<Rightarrow> string \<Rightarrow> int \<Rightarrow> bool" where
  "forwards_to named p proto port \<longleftrightarrow>
     sp_Protocol p = proto \<and>
     (case sp_TargetPort p of IntVal n \<Rightarrow> n = port | StrVal s \<Rightarrow> mget named s = Some port)"

lemma ingress_ports_admit:
  assumes "mget named GatewayPortName = Some GatewayPort"
  shows "list_admits (port_admits named proto port) (networkPolicyIngressPorts inst) \<longleftrightarrow>
    (\<exists>p \<in> set (buildServicePorts inst). sp_TargetPort p \<noteq> StrVal MetricsPortName \<and> forwards_to named p proto port)"
  using assms
  by (auto simp: networkPolicyIngressPorts_def buildServicePorts_def policy_port_def custom_port_def named_port_def
      forwards_to_def list_admits_def Let_def)

lemma named_ns:
  "(\<And>n. ep_ns e = Some n \<Longrightarrow> mget (ep_ns_labels e) ''kubernetes.io/metadata.name'' = Some n) \<Longrightarrow>
   peer_admits pol e (ns_peer ns) \<longleftrightarrow> ep_ns e = Some ns"
  by (cases "ep_ns e") (auto simp: match_labels_def)

section \<open>Properties\<close>

text \<open>
  C36. What reaches the agent: the policy of an instance admits a connection exactly when it comes from
  a pod of the instance's namespace or of one of the allowed namespaces, or from an address in one of
  the allowed blocks, and goes where a port of the Service leads, the metrics port apart. The Service
  appends that port by default, with the container port name \<open>metrics\<close> as its target, and the policy
  leaves it out. Every namespace carries its name as a label, and the container port \<open>gateway\<close> of the
  agent is the gateway port.
\<close>

theorem agent_ingress_exact:
  assumes "\<And>ns. ep_ns src = Some ns \<Longrightarrow> mget (ep_ns_labels src) ''kubernetes.io/metadata.name'' = Some ns"
    and "mget named ''gateway'' = Some GatewayPort"
  shows "admits_in (BuildNetworkPolicy inst) src named proto port \<longleftrightarrow>
    ((\<exists>ns. ep_ns src = Some ns \<and> ns \<in> {inst_ns inst} \<union> set (netpol_AllowedIngressNamespaces (netpol_spec inst))) \<or>
     (\<exists>block \<in> set (netpol_AllowedIngressCIDRs (netpol_spec inst)). ep_within src block)) \<and>
    (\<exists>p \<in> set (svs_Ports (svc_Spec (BuildService inst))).
       sp_TargetPort p \<noteq> StrVal ''metrics'' \<and> forwards_to named p proto port)"
proof -
  have peers: "list_admits (peer_admits n src) [ns_peer ns] \<longleftrightarrow> ep_ns src = Some ns"
    "list_admits (peer_admits n src) [cidr_peer c] \<longleftrightarrow> ep_within src c" for n ns c
    using named_ns [OF assms(1)] by (simp_all add: list_admits_def)
  have g: "mget named GatewayPortName = Some GatewayPort" using assms(2) by simp
  have ps: "svs_Ports (svc_Spec (BuildService inst)) = buildServicePorts inst" by (simp add: BuildService_def Let_def)
  show ?thesis
    unfolding admits_in_def BuildNetworkPolicy_def buildIngressRules_def Let_def ps
    by (simp add: ingress_ports_admit [OF g] peers bex_Un del: list_admits_simps) blast
qed

lemma agent_ingress_exact_witness:
  "\<not> admits_in (BuildNetworkPolicy zero_HermesInstance)
     \<lparr>ep_ns = Some ''other'', ep_ns_labels = [(''kubernetes.io/metadata.name'', ''other'')], ep_labels = [], ep_within = (\<lambda>b. True)\<rparr>
     [(''gateway'', GatewayPort)] ''TCP'' GatewayPort \<and>
   admits_in (BuildNetworkPolicy zero_HermesInstance)
     \<lparr>ep_ns = Some '''', ep_ns_labels = [(''kubernetes.io/metadata.name'', '''')], ep_labels = [], ep_within = (\<lambda>b. False)\<rparr>
     [(''gateway'', GatewayPort)] ''TCP'' GatewayPort"
proof -
  let ?e = "\<lambda>ns b. \<lparr>ep_ns = Some ns, ep_ns_labels = [(''kubernetes.io/metadata.name'', ns)], ep_labels = [], ep_within = (\<lambda>c. b)\<rparr>"
  let ?n = "[(''gateway'', GatewayPort)]"
  have g: "mget ?n ''gateway'' = Some GatewayPort" by (simp add: mget_def)
  have l: "ep_ns (?e ns b) = Some n \<Longrightarrow> mget (ep_ns_labels (?e ns b)) ''kubernetes.io/metadata.name'' = Some n" for ns b n
    by (simp add: mget_def)
  have no: "admits_in (BuildNetworkPolicy zero_HermesInstance) (?e ''other'' True) ?n ''TCP'' GatewayPort \<Longrightarrow> False"
    by (subst (asm) agent_ingress_exact [OF l g]) (auto simp: zero_defs)
  have zero: "netpol_AllowedIngressNamespaces (netpol_spec zero_HermesInstance) = []"
    "netpol_AllowedIngressCIDRs (netpol_spec zero_HermesInstance) = []" "inst_ns zero_HermesInstance = ''''"
    "named_port GatewayPortName GatewayPort \<in> set (svs_Ports (svc_Spec (BuildService zero_HermesInstance)))"
    by (simp_all add: zero_defs BuildService_def buildServicePorts_def Let_def)
  have "forwards_to ?n (named_port GatewayPortName GatewayPort) ''TCP'' GatewayPort"
    "sp_TargetPort (named_port GatewayPortName GatewayPort) \<noteq> StrVal ''metrics''"
    using g by (simp_all add: forwards_to_def named_port_def)
  then have "admits_in (BuildNetworkPolicy zero_HermesInstance) (?e '''' False) ?n ''TCP'' GatewayPort"
    by (subst agent_ingress_exact [OF l g]) (use zero in auto)
  with no show ?thesis by blast
qed

text \<open>
  The profile store is isolated: its policy admits exactly the connections to TCP port 8000 from
  pods of its namespace with the labels of the instance's agent, and no connection out; and the
  agent's own policy lets the agent make them.
\<close>

theorem honcho_only_from_agent:
  assumes "honchoEnabled inst"
  shows "\<exists>np. BuildHonchoNetworkPolicy inst = Some np \<and>
    (\<forall>src named proto port. admits_in np src named proto port \<longleftrightarrow>
       ep_ns src = Some (inst_ns inst) \<and> match_labels (SelectorLabels inst) (ep_labels src) \<and> proto = ''TCP'' \<and> port = 8000) \<and>
    (\<forall>dst named proto port. \<not> admits_out np dst named proto port) \<and>
    (\<forall>dst named. ep_ns dst = Some (inst_ns inst) \<longrightarrow>
       match_labels (nps_PodSelector (np_Spec np)) (ep_labels dst) \<longrightarrow>
       admits_out (BuildNetworkPolicy inst) dst named ''TCP'' 8000)"
  using assms
  by (auto simp: BuildHonchoNetworkPolicy_def admits_in_def admits_out_def new_meta_def SelectorLabels_def
      BuildNetworkPolicy_def buildEgressRules_def ExtraEgressRules_def Let_def)

definition with_honcho :: HermesInstance where
  "with_honcho = zero_HermesInstance\<lparr>hi_Spec := zero_HermesInstanceSpec\<lparr>spec_ProfileStore :=
     zero_ProfileStoreSpec\<lparr>pstore_Honcho := zero_HonchoSpec\<lparr>hon_Enabled := Some True\<rparr>\<rparr>\<rparr>\<rparr>"

lemma honcho_only_from_agent_witness:
  "\<exists>np. BuildHonchoNetworkPolicy with_honcho = Some np \<and>
     \<not> admits_in np \<lparr>ep_ns = Some '''', ep_ns_labels = [], ep_labels = [], ep_within = (\<lambda>b. True)\<rparr> [] ''TCP'' 8000"
proof -
  have "honchoEnabled with_honcho" by (simp add: honchoEnabled_def with_honcho_def)
  from honcho_only_from_agent [OF this] show ?thesis
    by (auto simp: match_labels_def SelectorLabels_def mget_def)
qed

text \<open>
  The HTTPRoute's backend is a port of the Service: resolving a port name gives the number the
  Service has for it, whenever the Service has a port of that name.
\<close>

theorem route_port_mirrors_service:
  assumes "find (\<lambda>p. sp_Name p = name) (buildServicePorts inst) = Some p"
  shows "servicePortNumber inst name = sp_Port p"
proof -
  let ?custom = "ss_Ports (service_spec inst)"
  have f: "find (\<lambda>p. sp_Name p = name) (map custom_port xs) = map_option custom_port (find (\<lambda>p. nsp_Name p = name) xs)" for xs
    by (induction xs) (auto simp: custom_port_def)
  have fa: "find Q (xs @ ys) = (case find Q xs of None \<Rightarrow> find Q ys | Some x \<Rightarrow> Some x)" for Q :: "ServicePort \<Rightarrow> bool" and xs ys
    by (induction xs) auto
  show ?thesis
    using assms f [of ?custom]
    by (auto simp: buildServicePorts_def servicePortNumber_def Let_def named_port_def custom_port_def fa
        split: if_splits option.splits)
qed

lemma route_port_mirrors_service_witness: "servicePortNumber zero_HermesInstance ''metrics'' = 9090"
  using route_port_mirrors_service [of "''metrics''" zero_HermesInstance "named_port ''metrics'' 9090"]
  by (simp add: buildServicePorts_def named_port_def metrics_port_def Let_def zero_defs)

end
