(* ===== verification/Workload.thy ===== *)
theory Workload
  imports Latches Network
begin

text \<open>
  The agent's own objects: \<open>internal/resources/rbac.go\<close>, \<open>secret.go\<close>, \<open>pvc.go\<close>, \<open>pdb.go\<close>, \<open>hpa.go\<close> and
  \<open>statefulset.go\<close>. \<open>stateful_set_for\<close> is the StatefulSet the reconciler asks for, with the init
  containers and the source volume of a pending import.
\<close>

section \<open>Access\<close>

definition BuildServiceAccount :: "HermesInstance \<Rightarrow> ServiceAccount" where
  "BuildServiceAccount inst =
     \<lparr>sa_Meta = (new_meta (ServiceAccountName inst) (inst_ns inst))
        \<lparr>om_Labels := LabelsForInstance inst, om_Annotations := nilmap (rbac_Annotations (secy_RBAC (spec_Security (hi_Spec inst))))\<rparr>,
      sa_AutomountServiceAccountToken = Some (BoolValue (sconf_Enabled (spec_SelfConfigure (hi_Spec inst))))\<rparr>"

definition BuildRole :: "HermesInstance \<Rightarrow> Role" where
  "BuildRole inst =
     \<lparr>role_Meta = (new_meta (RoleName inst) (inst_ns inst))\<lparr>om_Labels := LabelsForInstance inst\<rparr>,
      role_Rules =
        [\<lparr>rule_APIGroups = [''''], rule_Resources = [''configmaps''],
          rule_ResourceNames = [ConfigMapName inst, WorkspaceConfigMapName inst], rule_Verbs = [''get'', ''watch'']\<rparr>,
         \<lparr>rule_APIGroups = [''''], rule_Resources = [''secrets''],
          rule_ResourceNames = [GatewayTokenSecretName inst], rule_Verbs = [''get'', ''watch'']\<rparr>] @
        (if BoolValue (sconf_Enabled (spec_SelfConfigure (hi_Spec inst)))
         then [\<lparr>rule_APIGroups = [''hermes.agent''], rule_Resources = [''hermesinstances''],
                rule_ResourceNames = [inst_name inst], rule_Verbs = [''get'']\<rparr>,
               \<lparr>rule_APIGroups = [''hermes.agent''], rule_Resources = [''hermesselfconfigs''],
                rule_ResourceNames = [], rule_Verbs = [''create'', ''get'', ''list'']\<rparr>]
         else [])\<rparr>"

definition BuildRoleBinding :: "HermesInstance \<Rightarrow> RoleBinding" where
  "BuildRoleBinding inst =
     \<lparr>rb_Meta = (new_meta (RoleBindingName inst) (inst_ns inst))\<lparr>om_Labels := LabelsForInstance inst\<rparr>,
      rb_Subjects = [\<lparr>sub_Kind = ''ServiceAccount'', sub_Name = ServiceAccountName inst, sub_Namespace = inst_ns inst\<rparr>],
      rb_RoleRef = \<lparr>ref_APIGroup = ''rbac.authorization.k8s.io'', ref_Kind = ''Role'', ref_Name = RoleName inst\<rparr>\<rparr>"

section \<open>Secret, storage and availability\<close>

definition BuildGatewayTokenSecret :: "HermesInstance \<Rightarrow> Secret" where
  "BuildGatewayTokenSecret inst =
     \<lparr>sec_Meta = (new_meta (GatewayTokenSecretName inst) (inst_ns inst))
        \<lparr>om_Labels := LabelsForInstance inst, om_Annotations := [(''hermes.agent/placeholder'', ''true'')]\<rparr>,
      sec_Type = ''Opaque'', sec_Data = [], sec_StringData = []\<rparr>"

definition BuildPVC :: "HermesInstance \<Rightarrow> PersistentVolumeClaim" where
  "BuildPVC inst =
     (let p = storage_Persistence (spec_Storage (hi_Spec inst)) in
      \<lparr>pvc_Meta = (new_meta (PVCName inst) (inst_ns inst))\<lparr>om_Labels := LabelsForInstance inst\<rparr>,
       pvc_AccessModes = [''ReadWriteOnce''], pvc_StorageRequest = or_default (persist_Size p) ''1Gi'',
       pvc_StorageClassName = persist_StorageClassName p\<rparr>)"

definition BuildPDB :: "HermesInstance \<Rightarrow> PodDisruptionBudget" where
  "BuildPDB inst =
     (let spec = avail_PodDisruptionBudget (spec_Availability (hi_Spec inst)) in
      \<lparr>pdb_Meta = (new_meta (PDBName inst) (inst_ns inst))\<lparr>om_Labels := LabelsForInstance inst\<rparr>,
       pdb_Selector = SelectorLabels inst,
       pdb_MinAvailable = pdbs_MinAvailable spec,
       pdb_MaxUnavailable =
         (if pdbs_MinAvailable spec \<noteq> None then None
          else case pdbs_MaxUnavailable spec of Some m \<Rightarrow> Some m | None \<Rightarrow> Some (IntVal 1))\<rparr>)"

definition or_int :: "int option \<Rightarrow> int \<Rightarrow> int" where
  "or_int v d = (case v of None \<Rightarrow> d | Some n \<Rightarrow> n)"

definition utilization :: "string \<Rightarrow> int option \<Rightarrow> MetricSpec" where
  "utilization r t = \<lparr>ms_ResourceName = r, ms_TargetType = ''Utilization'', ms_AverageUtilization = t\<rparr>"

definition BuildHPA :: "HermesInstance \<Rightarrow> HorizontalPodAutoscaler" where
  "BuildHPA inst =
     (let hs = avail_HorizontalPodAutoscaler (spec_Availability (hi_Spec inst)) in
      \<lparr>hpa_Meta = (new_meta (HPAName inst) (inst_ns inst))\<lparr>om_Labels := LabelsForInstance inst\<rparr>,
       hpa_ScaleTargetRef = (''apps/v1'', ''StatefulSet'', StatefulSetName inst),
       hpa_MinReplicas = Some (or_int (hpas_MinReplicas hs) 1),
       hpa_MaxReplicas = or_int (hpas_MaxReplicas hs) 5,
       hpa_Metrics =
         utilization ''cpu'' (Some (or_int (hpas_TargetCPUUtilization hs) 80)) #
         (if hpas_TargetMemoryUtilization hs \<noteq> None then [utilization ''memory'' (hpas_TargetMemoryUtilization hs)] else []),
       hpa_Behavior = hpas_Behavior hs\<rparr>)"

section \<open>The StatefulSet\<close>

definition imageRef :: "HermesInstance \<Rightarrow> string" where
  "imageRef inst =
     (let img = spec_Image (hi_Spec inst); repo = or_default (image_Repository img) ''ghcr.io/paperclipinc/hermes-agent'' in
      if image_Digest img \<noteq> '''' then repo @ ''@'' @ image_Digest img
      else repo @ '':'' @ or_default (image_Tag img) ''latest'')"

definition pullPolicy :: "HermesInstance \<Rightarrow> string" where
  "pullPolicy inst = or_default (image_PullPolicy (spec_Image (hi_Spec inst))) ''IfNotPresent''"

definition shareProcessNamespace :: "HermesInstance \<Rightarrow> bool option" where
  "shareProcessNamespace inst =
     (case spec_ShareProcessNamespace (hi_Spec inst) of Some b \<Rightarrow> Some b | None \<Rightarrow> Some False)"

definition ToContainerResourceRequirements :: "ResourcesSpec \<Rightarrow> ResourceRequirements" where
  "ToContainerResourceRequirements r = \<lparr>rr_Requests = res_Requests r, rr_Limits = res_Limits r\<rparr>"

text \<open>The mount and the volume of a CA bundle, when one is named; the ConfigMap comes first.\<close>

abbreviation ca_bundle :: "HermesInstance \<Rightarrow> CABundleSpec" where
  "ca_bundle inst \<equiv> secy_CABundle (spec_Security (hi_Spec inst))"

definition caBundleVolumeSource :: "HermesInstance \<Rightarrow> VolumeSource option" where
  "caBundleVolumeSource inst =
     (let ca = ca_bundle inst; items = [\<lparr>kp_Key = or_default (ca_Key ca) ''ca.crt'', kp_Path = ''ca.crt''\<rparr>] in
      if ca_ConfigMapName ca \<noteq> '''' then Some (VS_ConfigMap (ca_ConfigMapName ca) items 420)
      else if ca_SecretName ca \<noteq> '''' then Some (VS_Secret (ca_SecretName ca) items 420)
      else None)"

definition sub_mount :: "string \<Rightarrow> string \<Rightarrow> string \<Rightarrow> VolumeMount" where
  "sub_mount n p sub = (mount n p True)\<lparr>vm_SubPath := sub\<rparr>"

definition agent_mounts :: "HermesInstance \<Rightarrow> VolumeMount list" where
  "agent_mounts inst =
     [mount ''data'' ''/opt/data'' False, sub_mount ''config'' ''/opt/data/config.yaml'' ''config.yaml'',
      mount ''tmp'' ''/tmp'' False, mount ''workspace'' ''/home/hermes/.hermes-workspace-seed'' True] @
     (if caBundleVolumeSource inst \<noteq> None
      then [sub_mount ''ca-bundle'' ''/etc/ssl/certs/hermes-ca-bundle.crt'' ''ca.crt''] else [])"

definition agent_env :: "HermesInstance \<Rightarrow> EnvVar list" where
  "agent_env inst =
     (if caBundleVolumeSource inst \<noteq> None
      then [env_value ''SSL_CERT_FILE'' ''/etc/ssl/certs/hermes-ca-bundle.crt''] else []) @
     BuildAgentRuntimeEnv inst @ BuildGatewayEnv inst @ BuildHonchoConsumerEnv inst @ BuildSemaphoreEnv inst @
     spec_Env (hi_Spec inst)"

definition or_probe :: "Probe option \<Rightarrow> Probe option \<Rightarrow> Probe option" where
  "or_probe user dflt = (case user of Some p \<Rightarrow> Some p | None \<Rightarrow> dflt)"

definition agent_container :: "HermesInstance \<Rightarrow> Container" where
  "agent_container inst =
     (let health = HTTPGet ''/health'' (StrVal GatewayPortName); probes = spec_Probes (hi_Spec inst) in
      empty_container
        \<lparr>ctr_Name := ''hermes'', ctr_Image := imageRef inst, ctr_ImagePullPolicy := pullPolicy inst,
         ctr_Args := [''gateway'', ''run''],
         ctr_TerminationMessagePath := ''/dev/termination-log'', ctr_TerminationMessagePolicy := ''File'',
         ctr_Ports := [\<lparr>cp_Name = GatewayPortName, cp_ContainerPort = GatewayPort, cp_Protocol = ''TCP''\<rparr>],
         ctr_SecurityContext := Some (case secy_ContainerSecurityContext (spec_Security (hi_Spec inst)) of
             Some c \<Rightarrow> c
           | None \<Rightarrow> \<lparr>scx_RunAsNonRoot = None, scx_RunAsUser = None, scx_ReadOnlyRootFilesystem = None,
                      scx_AllowPrivilegeEscalation = Some False, scx_CapabilitiesDrop = [], scx_Opaque = JNull\<rparr>),
         ctr_VolumeMounts := agent_mounts inst @ spec_ExtraVolumeMounts (hi_Spec inst),
         ctr_ReadinessProbe := or_probe (probes_Readiness probes) (Some (probe health 5 10 2 6)),
         ctr_LivenessProbe := or_probe (probes_Liveness probes) (Some (probe health 30 15 2 3)),
         ctr_StartupProbe := probes_Startup probes,
         ctr_Resources := ToContainerResourceRequirements (spec_Resources (hi_Spec inst)),
         ctr_Env := agent_env inst,
         ctr_EnvFrom := BuildGatewayEnvFrom inst @ spec_EnvFrom (hi_Spec inst)\<rparr>)"

definition agent_volumes :: "HermesInstance \<Rightarrow> Volume list" where
  "agent_volumes inst =
     [volume ''config'' (VS_ConfigMap (ConfigMapName inst) [] 420),
      volume ''data'' (VS_PVC (PVCName inst) False), volume ''tmp'' VS_EmptyDir,
      volume ''workspace'' (VS_ConfigMap (WorkspaceConfigMapName inst) [] 420)] @
     (case caBundleVolumeSource inst of None \<Rightarrow> [] | Some s \<Rightarrow> [volume ''ca-bundle'' s]) @
     (case BuildTailscaleSidecar inst of
        None \<Rightarrow> []
      | Some _ \<Rightarrow>
          [volume tailscaleServeVolume
             (VS_ConfigMap (ConfigMapName inst) [\<lparr>kp_Key = tailscaleServeKey, kp_Path = tailscaleServeFile\<rparr>] 420),
           volume tailscaleTmpVolume VS_EmptyDir])"

definition agent_pod :: "HermesInstance \<Rightarrow> Container list \<Rightarrow> PodSpec" where
  "agent_pod inst extraInits =
     (let sched = spec_Scheduling (hi_Spec inst) in
      empty_pod_spec
        \<lparr>ps_RestartPolicy := ''Always'', ps_DNSPolicy := ''ClusterFirst'', ps_SchedulerName := ''default-scheduler'',
         ps_TerminationGracePeriodSeconds := Some 30, ps_ShareProcessNamespace := shareProcessNamespace inst,
         ps_SecurityContext := Some (case secy_PodSecurityContext (spec_Security (hi_Spec inst)) of
             Some c \<Rightarrow> c
           | None \<Rightarrow> \<lparr>psc_RunAsNonRoot = None, psc_RunAsUser = None, psc_RunAsGroup = None, psc_FSGroup = Some 1000,
                      psc_SeccompProfile = Some ''RuntimeDefault'', psc_Opaque = JNull\<rparr>),
         ps_NodeSelector := sched_NodeSelector sched, ps_Tolerations := sched_Tolerations sched,
         ps_Affinity := sched_Affinity sched, ps_PriorityClassName := sched_PriorityClassName sched,
         ps_TopologySpreadConstraints := avail_TopologySpreadConstraints (spec_Availability (hi_Spec inst)),
         ps_ServiceAccountName := ServiceAccountNameFor inst,
         ps_InitContainers := extraInits @ spec_InitContainers (hi_Spec inst),
         ps_Containers :=
           [agent_container inst] @ (case BuildTailscaleSidecar inst of None \<Rightarrow> [] | Some c \<Rightarrow> [c]) @ spec_Sidecars (hi_Spec inst),
         ps_Volumes := agent_volumes inst @ spec_ExtraVolumes (hi_Spec inst)\<rparr>)"

definition BuildStatefulSet :: "HermesInstance \<Rightarrow> Container list \<Rightarrow> StatefulSet" where
  "BuildStatefulSet inst extraInits =
     \<lparr>sts_Meta = (new_meta (StatefulSetName inst) (inst_ns inst))\<lparr>om_Labels := LabelsForInstance inst\<rparr>,
      sts_Spec =
        \<lparr>sts_ServiceName = ServiceName inst, sts_Replicas = Some (if spec_Suspended (hi_Spec inst) then 0 else 1),
         sts_RevisionHistoryLimit = Some 10, sts_PodManagementPolicy = ''OrderedReady'',
         sts_UpdateStrategy = (''RollingUpdate'', Some 0), sts_PVCRetention = Some (''Retain'', ''Retain''),
         sts_Selector = [(''app.kubernetes.io/name'', ''hermes-agent''), (''app.kubernetes.io/instance'', inst_name inst)],
         sts_Template = \<lparr>pts_Labels = LabelsForInstance inst, pts_Spec = agent_pod inst extraInits\<rparr>\<rparr>,
      sts_StatusReplicas = 0, sts_StatusReadyReplicas = 0, sts_StatusUpdatedReplicas = 0, sts_StatusCurrentRevision = ''''\<rparr>"

text \<open>\<open>reconcileStatefulSet\<close>'s desired object; \<open>migration\<close> tells whether a migration controller is attached.\<close>

definition import_inits :: "HermesInstance \<Rightarrow> Container list" where
  "import_inits inst =
     (case BuildRestoreInitContainer inst of None \<Rightarrow> [] | Some c \<Rightarrow> [c]) @
     (case BuildMigrationInitContainer inst of None \<Rightarrow> [] | Some c \<Rightarrow> [c])"

definition add_volume :: "Volume \<Rightarrow> StatefulSet \<Rightarrow> StatefulSet" where
  "add_volume v sts =
     sts\<lparr>sts_Spec := (sts_Spec sts)\<lparr>sts_Template := (sts_Template (sts_Spec sts))
       \<lparr>pts_Spec := (pts_Spec (sts_Template (sts_Spec sts)))
          \<lparr>ps_Volumes := ps_Volumes (pts_Spec (sts_Template (sts_Spec sts))) @ [v]\<rparr>\<rparr>\<rparr>\<rparr>"

definition stateful_set_for :: "bool \<Rightarrow> HermesInstance \<Rightarrow> StatefulSet" where
  "stateful_set_for migration inst =
     (let desired = BuildStatefulSet inst (import_inits inst) in
      if \<not> migration then desired
      else case BuildSourceVolume inst of None \<Rightarrow> desired | Some v \<Rightarrow> add_volume v desired)"

abbreviation pod_of :: "StatefulSet \<Rightarrow> PodSpec" where
  "pod_of sts \<equiv> pts_Spec (sts_Template (sts_Spec sts))"

interpretation sa: built_object BuildServiceAccount sa_Meta "''''"
  by unfold_locales (simp_all add: BuildServiceAccount_def ServiceAccountName_def new_meta_def)

interpretation role: built_object BuildRole role_Meta "''''"
  by unfold_locales (simp_all add: BuildRole_def RoleName_def new_meta_def)

interpretation rolebinding: built_object BuildRoleBinding rb_Meta "''''"
  by unfold_locales (simp_all add: BuildRoleBinding_def RoleBindingName_def new_meta_def)

interpretation tokens: built_object BuildGatewayTokenSecret sec_Meta "''-gateway-tokens''"
  by unfold_locales (simp_all add: BuildGatewayTokenSecret_def GatewayTokenSecretName_def new_meta_def)

interpretation pvc: built_object BuildPVC pvc_Meta "''-data''"
  by unfold_locales (simp_all add: BuildPVC_def Let_def PVCName_def new_meta_def)

interpretation pdb: built_object BuildPDB pdb_Meta "''''"
  by unfold_locales (simp_all add: BuildPDB_def Let_def PDBName_def new_meta_def)

interpretation hpa: built_object BuildHPA hpa_Meta "''''"
  by unfold_locales (simp_all add: BuildHPA_def Let_def HPAName_def new_meta_def)

interpretation sts: built_object "stateful_set_for m" sts_Meta "''''"
  by unfold_locales
    (simp_all add: stateful_set_for_def BuildStatefulSet_def add_volume_def Let_def StatefulSetName_def new_meta_def split: option.split)

section \<open>What the role grants\<close>

text \<open>The documented meaning of a rule: an empty list of names stands for every object.\<close>

definition rule_allows :: "PolicyRule \<Rightarrow> string \<Rightarrow> string \<Rightarrow> string \<Rightarrow> string \<Rightarrow> bool" where
  "rule_allows r grp resource name verb \<longleftrightarrow>
     grp \<in> set (rule_APIGroups r) \<and> resource \<in> set (rule_Resources r) \<and> verb \<in> set (rule_Verbs r) \<and>
     (rule_ResourceNames r = [] \<or> name \<in> set (rule_ResourceNames r))"

definition role_allows :: "Role \<Rightarrow> string \<Rightarrow> string \<Rightarrow> string \<Rightarrow> string \<Rightarrow> bool" where
  "role_allows role grp resource name verb \<longleftrightarrow> (\<exists>r \<in> set (role_Rules role). rule_allows r grp resource name verb)"

definition self_configures :: "HermesInstance \<Rightarrow> bool" where
  "self_configures inst \<longleftrightarrow> sconf_Enabled (spec_SelfConfigure (hi_Spec inst)) = Some True"

text \<open>
  C35. The agent's role: it may read its own two ConfigMaps and its own token Secret; with
  self-configuration on it may also read its own HermesInstance and create and read
  HermesSelfConfigs; it may do nothing else. In particular it can write no Secret and no ConfigMap.
\<close>

theorem role_grants_exact:
  "role_allows (BuildRole inst) grp resource name verb \<longleftrightarrow>
     grp = '''' \<and> verb \<in> {''get'', ''watch''} \<and>
       (resource = ''configmaps'' \<and> name \<in> {ConfigMapName inst, WorkspaceConfigMapName inst} \<or>
        resource = ''secrets'' \<and> name = GatewayTokenSecretName inst) \<or>
     self_configures inst \<and> grp = ''hermes.agent'' \<and>
       (resource = ''hermesinstances'' \<and> name = inst_name inst \<and> verb = ''get'' \<or>
        resource = ''hermesselfconfigs'' \<and> verb \<in> {''create'', ''get'', ''list''})"
proof -
  let ?base = "\<lambda>res names. \<lparr>rule_APIGroups = [''''], rule_Resources = [res], rule_ResourceNames = names, rule_Verbs = [''get'', ''watch'']\<rparr>"
  have b: "rule_allows (?base res [n, n']) grp resource name verb \<longleftrightarrow>
      grp = '''' \<and> resource = res \<and> name \<in> {n, n'} \<and> verb \<in> {''get'', ''watch''}"
    and b1: "rule_allows (?base res [n]) grp resource name verb \<longleftrightarrow>
      grp = '''' \<and> resource = res \<and> name = n \<and> verb \<in> {''get'', ''watch''}" for res n n'
    unfolding rule_allows_def by auto
  have i: "rule_allows \<lparr>rule_APIGroups = [''hermes.agent''], rule_Resources = [''hermesinstances''],
      rule_ResourceNames = [inst_name inst], rule_Verbs = [''get'']\<rparr> grp resource name verb \<longleftrightarrow>
      grp = ''hermes.agent'' \<and> resource = ''hermesinstances'' \<and> name = inst_name inst \<and> verb = ''get''"
    unfolding rule_allows_def by auto
  have s: "rule_allows \<lparr>rule_APIGroups = [''hermes.agent''], rule_Resources = [''hermesselfconfigs''],
      rule_ResourceNames = [], rule_Verbs = [''create'', ''get'', ''list'']\<rparr> grp resource name verb \<longleftrightarrow>
      grp = ''hermes.agent'' \<and> resource = ''hermesselfconfigs'' \<and> verb \<in> {''create'', ''get'', ''list''}"
    unfolding rule_allows_def by auto
  have "role_allows (BuildRole inst) grp resource name verb \<longleftrightarrow>
      rule_allows (?base ''configmaps'' [ConfigMapName inst, WorkspaceConfigMapName inst]) grp resource name verb \<or>
      rule_allows (?base ''secrets'' [GatewayTokenSecretName inst]) grp resource name verb \<or>
      self_configures inst \<and>
       (rule_allows \<lparr>rule_APIGroups = [''hermes.agent''], rule_Resources = [''hermesinstances''],
          rule_ResourceNames = [inst_name inst], rule_Verbs = [''get'']\<rparr> grp resource name verb \<or>
        rule_allows \<lparr>rule_APIGroups = [''hermes.agent''], rule_Resources = [''hermesselfconfigs''],
          rule_ResourceNames = [], rule_Verbs = [''create'', ''get'', ''list'']\<rparr> grp resource name verb)"
    unfolding role_allows_def BuildRole_def self_configures_def by (cases "sconf_Enabled (spec_SelfConfigure (hi_Spec inst)) = Some True") simp_all
  then show ?thesis
    unfolding b b1 i s by argo
qed

text \<open>
  The role reaches the pod exactly when the pod runs as the operator's own ServiceAccount: with
  another \<open>serviceAccountName\<close> the binding still names the instance's account, and the agent gets
  nothing.
\<close>

theorem binding_misses_overridden_account:
  "(\<exists>s \<in> set (rb_Subjects (BuildRoleBinding inst)).
      sub_Kind s = ''ServiceAccount'' \<and> sub_Namespace s = inst_ns inst \<and>
      sub_Name s = ps_ServiceAccountName (pod_of (stateful_set_for m inst))) \<longleftrightarrow>
   rbac_ServiceAccountName (secy_RBAC (spec_Security (hi_Spec inst))) \<in> {'''', inst_name inst}"
  by (auto simp: BuildRoleBinding_def stateful_set_for_def BuildStatefulSet_def agent_pod_def add_volume_def
      ServiceAccountNameFor_def ServiceAccountName_def Let_def split: option.split)

definition backed :: "PodSpec \<Rightarrow> VolumeMount list \<Rightarrow> bool" where
  "backed pod ms \<longleftrightarrow> (\<forall>m \<in> set ms. \<exists>v \<in> set (ps_Volumes pod). vol_Name v = vm_Name m)"

lemma backed_volumes:
  "backed pod ms \<longleftrightarrow> vm_Name ` set ms \<subseteq> vol_Name ` set (ps_Volumes pod)"
  unfolding backed_def image_subset_iff image_iff by metis

lemma pod_volumes:
  "{''config'', ''data'', ''tmp'', ''workspace''} \<union>
     (if caBundleVolumeSource inst \<noteq> None then {''ca-bundle''} else {}) \<union>
     (if tailscaleEnabled inst then {tailscaleServeVolume, tailscaleTmpVolume} else {}) \<union>
     (if BuildSourceVolume inst \<noteq> None then {MigrationSourceVolumeName} else {})
   \<subseteq> vol_Name ` set (ps_Volumes (pod_of (stateful_set_for True inst)))"
proof -
  have v: "vol_Name (volume n s) = n" for n s by (simp add: volume_def)
  have src: "BuildSourceVolume inst = Some x \<Longrightarrow> vol_Name x = MigrationSourceVolumeName" for x
    by (auto simp: BuildSourceVolume_def v split: option.splits if_splits)
  have vols: "set (ps_Volumes (pod_of (stateful_set_for True inst))) =
      set (agent_volumes inst) \<union> set (spec_ExtraVolumes (hi_Spec inst)) \<union> set_option (BuildSourceVolume inst)"
    by (cases "BuildSourceVolume inst")
      (simp_all add: stateful_set_for_def BuildStatefulSet_def agent_pod_def add_volume_def Let_def Un_ac)
  have agent: "{''config'', ''data'', ''tmp'', ''workspace''} \<union>
     (if caBundleVolumeSource inst \<noteq> None then {''ca-bundle''} else {}) \<union>
     (if tailscaleEnabled inst then {tailscaleServeVolume, tailscaleTmpVolume} else {}) \<subseteq> vol_Name ` set (agent_volumes inst)"
    unfolding agent_volumes_def BuildTailscaleSidecar_def
    by (cases "caBundleVolumeSource inst"; cases "tailscaleEnabled inst") (simp_all add: v)
  have "(if BuildSourceVolume inst \<noteq> None then {MigrationSourceVolumeName} else {}) \<subseteq> vol_Name ` set_option (BuildSourceVolume inst)"
    using src by (cases "BuildSourceVolume inst") auto
  with agent show ?thesis unfolding vols image_Un by blast
qed

lemma agent_mount_names:
  "vm_Name ` set (agent_mounts inst) =
     {''data'', ''config'', ''tmp'', ''workspace''} \<union> (if caBundleVolumeSource inst \<noteq> None then {''ca-bundle''} else {})"
  by (simp add: agent_mounts_def mount_def sub_mount_def)

lemma import_mount_names:
  assumes "c \<in> set (import_inits inst)"
  shows "vm_Name ` set (ctr_VolumeMounts c) \<subseteq>
    {''data''} \<union> (if BuildSourceVolume inst \<noteq> None then {MigrationSourceVolumeName} else {})"
  using assms
  by (auto simp: import_inits_def BuildRestoreInitContainer_def BuildMigrationInitContainer_def restic_container_def
      BuildSourceVolume_def mount_def Let_def split: option.splits if_splits)

lemma sidecar_mount_names:
  "BuildTailscaleSidecar inst = Some c \<Longrightarrow>
   tailscaleEnabled inst \<and> vm_Name ` set (ctr_VolumeMounts c) = {tailscaleServeVolume, tailscaleTmpVolume}"
  by (auto simp: BuildTailscaleSidecar_def mount_def split: if_splits)

text \<open>
  C37. Every mount of a container the operator makes is backed: the agent's own mounts, those of the
  Tailscale sidecar and those of the import init containers each name a volume of the pod.
\<close>

theorem pod_mounts_backed:
  "let pod = pod_of (stateful_set_for True inst) in
   backed pod (agent_mounts inst) \<and>
   (\<forall>c. BuildTailscaleSidecar inst = Some c \<longrightarrow> backed pod (ctr_VolumeMounts c)) \<and>
   (\<forall>c \<in> set (import_inits inst). backed pod (ctr_VolumeMounts c))"
proof -
  have "backed (pod_of (stateful_set_for True inst)) (agent_mounts inst)"
    using pod_volumes [of inst] unfolding backed_volumes agent_mount_names by blast
  moreover have "backed (pod_of (stateful_set_for True inst)) (ctr_VolumeMounts c)"
    if "BuildTailscaleSidecar inst = Some c" for c
    using sidecar_mount_names [OF that] pod_volumes [of inst] unfolding backed_volumes by auto
  moreover have "backed (pod_of (stateful_set_for True inst)) (ctr_VolumeMounts c)"
    if "c \<in> set (import_inits inst)" for c
    using import_mount_names [OF that] pod_volumes [of inst] unfolding backed_volumes by blast
  ultimately show ?thesis by (simp add: Let_def)
qed

lemma pod_mounts_backed_witness:
  "backed (pod_of (stateful_set_for True (zero_HermesInstance\<lparr>hi_Spec := zero_HermesInstanceSpec
     \<lparr>spec_Tailscale := zero_TailscaleSpec\<lparr>ts_Enabled := Some True\<rparr>\<rparr>\<rparr>)))
     [mount tailscaleServeVolume tailscaleServeMount True, mount tailscaleTmpVolume ''/tmp'' False]"
proof -
  let ?i = "zero_HermesInstance\<lparr>hi_Spec := zero_HermesInstanceSpec
     \<lparr>spec_Tailscale := zero_TailscaleSpec\<lparr>ts_Enabled := Some True\<rparr>\<rparr>\<rparr>"
  obtain c where c: "BuildTailscaleSidecar ?i = Some c"
    and m: "ctr_VolumeMounts c = [mount tailscaleServeVolume tailscaleServeMount True, mount tailscaleTmpVolume ''/tmp'' False]"
    by (simp add: BuildTailscaleSidecar_def tailscaleEnabled_def)
  have "backed (pod_of (stateful_set_for True ?i)) (ctr_VolumeMounts c)"
    using pod_mounts_backed [of ?i] c by (simp add: Let_def)
  then show ?thesis unfolding m .
qed

text \<open>
  The autoscaler is overruled: whatever bounds an enabled autoscaler has, the StatefulSet it
  scales is asked to have one replica, or none when suspended, so a minimum above one is undone by
  every reconcile.
\<close>

theorem replicas_ignore_autoscaler:
  assumes "IsHPAEnabled inst" and "hpas_MinReplicas (avail_HorizontalPodAutoscaler (spec_Availability (hi_Spec inst))) = Some n"
    and "1 < n"
  shows "hpa_ScaleTargetRef (BuildHPA inst) = (''apps/v1'', ''StatefulSet'', om_Name (sts_Meta (stateful_set_for m inst))) \<and>
    (\<exists>k. sts_Replicas (sts_Spec (stateful_set_for m inst)) = Some k \<and> hpa_MinReplicas (BuildHPA inst) = Some n \<and> k < n)"
  using assms sts.built_name [of m inst]
  by (auto simp: BuildHPA_def Let_def StatefulSetName_def or_int_def stateful_set_for_def BuildStatefulSet_def
      add_volume_def split: option.split)

lemma replicas_ignore_autoscaler_witness:
  "sts_Replicas (sts_Spec (stateful_set_for False (zero_HermesInstance\<lparr>hi_Spec := zero_HermesInstanceSpec
     \<lparr>spec_Availability := zero_AvailabilitySpec\<lparr>avail_HorizontalPodAutoscaler := zero_HPASpec
       \<lparr>hpas_Enabled := Some True, hpas_MinReplicas := Some 3\<rparr>\<rparr>\<rparr>\<rparr>))) \<noteq> Some 3"
  using replicas_ignore_autoscaler
    [of "zero_HermesInstance\<lparr>hi_Spec := zero_HermesInstanceSpec
     \<lparr>spec_Availability := zero_AvailabilitySpec\<lparr>avail_HorizontalPodAutoscaler := zero_HPASpec
       \<lparr>hpas_Enabled := Some True, hpas_MinReplicas := Some 3\<rparr>\<rparr>\<rparr>\<rparr>" 3 False]
  by (auto simp: IsHPAEnabled_def)

text \<open>
  The metrics port leads nowhere: with the default Service and metrics on, the Service has a
  metrics port whose target is a named container port that no container of the operator declares,
  and whose number the policy of the instance does not admit.
\<close>

theorem metrics_port_unbacked:
  assumes "ss_Ports (service_spec inst) = []"
    and "BoolValueOrDefault (metrics_Enabled (obs_Metrics (spec_Observability (hi_Spec inst)))) True"
    and "metrics_port inst \<noteq> GatewayPort"
  shows "named_port MetricsPortName (metrics_port inst) \<in> set (svs_Ports (svc_Spec (BuildService inst))) \<and>
    (\<forall>c \<in> set (ps_Containers (pod_of (stateful_set_for m inst))) - set (spec_Sidecars (hi_Spec inst)).
       \<forall>p \<in> set (ctr_Ports c). cp_Name p \<noteq> MetricsPortName) \<and>
    \<not> admits_in (BuildNetworkPolicy inst) src named proto (metrics_port inst)"
proof -
  have 1: "named_port MetricsPortName (metrics_port inst) \<in> set (svs_Ports (svc_Spec (BuildService inst)))"
    using assms(1,2) by (simp add: BuildService_def buildServicePorts_def Let_def named_port_def)
  have cs: "set (ps_Containers (pod_of (stateful_set_for m inst))) =
      {agent_container inst} \<union> set_option (BuildTailscaleSidecar inst) \<union> set (spec_Sidecars (hi_Spec inst))"
    by (cases "BuildTailscaleSidecar inst"; cases "BuildSourceVolume inst")
      (auto simp: stateful_set_for_def BuildStatefulSet_def agent_pod_def add_volume_def Let_def)
  have a: "ctr_Ports (agent_container inst) = [\<lparr>cp_Name = GatewayPortName, cp_ContainerPort = GatewayPort, cp_Protocol = ''TCP''\<rparr>]"
    by (simp add: agent_container_def Let_def)
  have t: "BuildTailscaleSidecar inst = Some c \<Longrightarrow> ctr_Ports c = []" for c
    by (auto simp: BuildTailscaleSidecar_def empty_container_def split: if_splits)
  have 2: "\<forall>c \<in> set (ps_Containers (pod_of (stateful_set_for m inst))) - set (spec_Sidecars (hi_Spec inst)).
       \<forall>p \<in> set (ctr_Ports c). cp_Name p \<noteq> MetricsPortName"
    unfolding cs using a t by (auto simp: elem_set)
  have "\<not> list_admits (port_admits named proto (metrics_port inst)) (networkPolicyIngressPorts inst)"
    using assms(1,3) by (simp add: networkPolicyIngressPorts_def)
  then have 3: "\<not> admits_in (BuildNetworkPolicy inst) src named proto (metrics_port inst)"
    by (auto simp: admits_in_def BuildNetworkPolicy_def buildIngressRules_def Let_def simp del: list_admits_simps)
  from 1 2 3 show ?thesis by blast
qed

lemma metrics_port_unbacked_witness:
  "\<not> admits_in (BuildNetworkPolicy zero_HermesInstance)
     \<lparr>ep_ns = Some '''', ep_ns_labels = [(''kubernetes.io/metadata.name'', '''')], ep_labels = [], ep_within = (\<lambda>b. True)\<rparr> [] ''TCP'' 9090"
proof -
  let ?e = "\<lparr>ep_ns = Some '''', ep_ns_labels = [(''kubernetes.io/metadata.name'', '''')], ep_labels = [], ep_within = (\<lambda>b. True)\<rparr>"
  have m: "metrics_port zero_HermesInstance = 9090" by (simp add: metrics_port_def zero_defs)
  from metrics_port_unbacked [of zero_HermesInstance] show ?thesis
    unfolding m by (simp add: zero_defs)
qed

lemma default_pod_not_hardened:
  assumes "secy_PodSecurityContext (spec_Security (hi_Spec inst)) = None"
    and "secy_ContainerSecurityContext (spec_Security (hi_Spec inst)) = None"
  shows "\<exists>psc scx. ps_SecurityContext (agent_pod inst inits) = Some psc \<and> psc_RunAsNonRoot psc = None \<and> psc_RunAsUser psc = None \<and>
    ctr_SecurityContext (agent_container inst) = Some scx \<and> scx_ReadOnlyRootFilesystem scx = None \<and> scx_CapabilitiesDrop scx = []"
  using assms by (simp add: agent_pod_def agent_container_def Let_def)

end
