(* ===== verification/Config.thy ===== *)
theory Config
  imports Env Companions "HOL-Library.Countable"
begin

text \<open>
  \<open>internal/resources/configmap.go\<close>: the rendered \<open>config.yaml\<close>. The YAML package is a parameter
  (\<open>yaml_lib\<close>): decoding into a \<open>map[string]any\<close> gives an error or a map, where \<open>None\<close> is the nil map
  that a null document leaves behind; a write to a nil map panics. A Go map is an association list
  with distinct keys. The locale \<open>deep_merge\<close> is the contract of a merge of configurations.
\<close>

section \<open>Deep merge\<close>

lemma size_member:
  "(k, JObj vm) \<in> set m \<Longrightarrow> size_list (\<lambda>p. size (snd p)) vm < size_list (\<lambda>p. size (snd p)) m"
proof (induction m)
  case (Cons x m)
  have "size (JObj vm) = Suc (size_list (size_prod (\<lambda>_. 0) size) vm)" by simp
  moreover have "size_list (\<lambda>p. size (snd p)) vm \<le> size_list (size_prod (\<lambda>_. 0) size) vm"
    by (induction vm) (auto simp: size_prod_simp)
  ultimately show ?case using Cons by auto
qed simp

text \<open>
  \<open>deepMergeMaps\<close>. The order in which Go visits the overlay's keys does not matter, as they are
  distinct; the recursion is into a value of the overlay.
\<close>

function deepMergeMaps :: "(string \<times> json) list \<Rightarrow> (string \<times> json) list \<Rightarrow> (string \<times> json) list" where
  "deepMergeMaps base overlay =
     fold (\<lambda>(k, v) out. mset1 k
             (case (mget out k, v) of
                (Some (JObj bm), JObj vm) \<Rightarrow> JObj (deepMergeMaps bm vm)
              | _ \<Rightarrow> v) out)
       overlay base"
  by pat_completeness auto
termination
  by (relation "measure (\<lambda>(b, m). size_list (\<lambda>p. size (snd p)) m)") (auto dest: size_member)

declare deepMergeMaps.simps [simp del]

section \<open>Rendering\<close>

record yaml_lib =
  y_unmarshal :: "string \<Rightarrow> go_error + (string \<times> json) list option"
  y_marshal :: "json \<Rightarrow> go_error + string"
  y_json_to_yaml :: "string \<Rightarrow> go_error + string"

text \<open>Decoding a body into a fresh map, which an empty body leaves empty.\<close>

definition decode_body :: "yaml_lib \<Rightarrow> string \<Rightarrow> string \<Rightarrow> go_error + (string \<times> json) list option" where
  "decode_body yl what body =
     (if body = '''' then Inr (Some [])
      else case y_unmarshal yl body of Inl e \<Rightarrow> Inl (Wrapped what e) | Inr m \<Rightarrow> Inr m)"

definition encode_body :: "yaml_lib \<Rightarrow> string \<Rightarrow> (string \<times> json) list \<Rightarrow> go_error + string" where
  "encode_body yl what m =
     (case y_marshal yl (JObj m) of Inl e \<Rightarrow> Inl (Wrapped what e) | Inr s \<Rightarrow> Inr s)"

definition nil_map_write :: go_error where
  "nil_map_write = GoPanic ''assignment to entry in nil map''"

definition merge_fragments :: "(string \<times> json) list \<Rightarrow> (string \<times> json) list \<Rightarrow> (string \<times> json) list" where
  "merge_fragments frags root =
     mset1 ''gateways''
       (JObj (mputall frags (case mget root ''gateways'' of Some (JObj g) \<Rightarrow> g | _ \<Rightarrow> []))) root"

definition mergeGatewayFragments :: "yaml_lib \<Rightarrow> string \<Rightarrow> (string \<times> json) list \<Rightarrow> go_error + string" where
  "mergeGatewayFragments yl body frags =
     (if frags = [] then Inr body
      else case decode_body yl ''parse rendered config'' body of
        Inl e \<Rightarrow> Inl e
      | Inr None \<Rightarrow> Inl nil_map_write
      | Inr (Some root) \<Rightarrow> encode_body yl ''marshal merged config'' (merge_fragments frags root))"

definition add_model :: "(string \<times> json) list \<Rightarrow> (string \<times> json) list" where
  "add_model root =
     mset1 ''api_key'' (JStr ''placeholder-no-live-calls'')
       (mset1 ''base_url'' (JStr ''http://127.0.0.1:9/v1'') (mset1 ''model'' (JStr ''gpt-4o-mini'') root))"

definition ensureModelDefault :: "yaml_lib \<Rightarrow> string \<Rightarrow> go_error + string" where
  "ensureModelDefault yl body =
     (case decode_body yl ''parse rendered config'' body of
        Inl e \<Rightarrow> Inl e
      | Inr None \<Rightarrow> Inl nil_map_write
      | Inr (Some root) \<Rightarrow>
          if mget root ''model'' \<noteq> None then Inr body
          else encode_body yl ''marshal config with model default'' (add_model root))"

definition MergeYAMLBodies :: "yaml_lib \<Rightarrow> string \<Rightarrow> string \<Rightarrow> go_error + string" where
  "MergeYAMLBodies yl base overlay =
     (case decode_body yl ''parse base YAML'' base of
        Inl e \<Rightarrow> Inl e
      | Inr b \<Rightarrow>
         (case decode_body yl ''parse overlay'' overlay of
            Inl e \<Rightarrow> Inl e
          | Inr v \<Rightarrow> encode_body yl ''marshal merged'' (deepMergeMaps (nilmap b) (nilmap v))))"

text \<open>
  A step of the builder keeps the body it has when the step returns an error; a panic is not an
  error value and ends the builder.
\<close>

definition keep_on_error :: "string \<Rightarrow> go_error + string \<Rightarrow> go_error + string" where
  "keep_on_error body r =
     (case r of Inr b \<Rightarrow> Inr b | Inl e \<Rightarrow> if is_panic e then Inl e else Inr body)"

definition initial_body :: "yaml_lib \<Rightarrow> HermesInstance \<Rightarrow> string \<Rightarrow> string" where
  "initial_body yl inst resolvedBody =
     (if resolvedBody \<noteq> '''' then resolvedBody
      else case cfg_Raw (spec_Config (hi_Spec inst)) of
        None \<Rightarrow> ''{}'' @ [CHR 0x0A]
      | Some raw \<Rightarrow>
          if rawcfg_RawExtension raw = '''' then ''{}'' @ [CHR 0x0A]
          else (case y_json_to_yaml yl (rawcfg_RawExtension raw) of Inl e \<Rightarrow> ''{}'' @ [CHR 0x0A] | Inr y \<Rightarrow> y))"

definition render_config :: "yaml_lib \<Rightarrow> HermesInstance \<Rightarrow> string \<Rightarrow> go_error + string" where
  "render_config yl inst resolvedBody =
     (let body = initial_body yl inst resolvedBody in
      case keep_on_error body (mergeGatewayFragments yl body (BuildGatewayConfigFragments inst)) of
        Inl e \<Rightarrow> Inl e
      | Inr body1 \<Rightarrow> keep_on_error body1 (ensureModelDefault yl body1))"

definition BuildConfigMap :: "yaml_lib \<Rightarrow> HermesInstance \<Rightarrow> string \<Rightarrow> go_error + ConfigMap" where
  "BuildConfigMap yl inst resolvedBody =
     (case render_config yl inst resolvedBody of
        Inl e \<Rightarrow> Inl e
      | Inr body \<Rightarrow> Inr
          \<lparr>cm_Meta = (new_meta (ConfigMapName inst) (inst_ns inst))\<lparr>om_Labels := LabelsForInstance inst\<rparr>,
           cm_Data = [(''config.yaml'', body)] @
             (if tailscaleEnabled inst then [(tailscaleServeKey, BuildTailscaleServeConfig inst)] else [])\<rparr>)"

section \<open>Configurations by path\<close>

text \<open>The value at a path of keys.\<close>

fun at :: "json \<Rightarrow> string list \<Rightarrow> json option" where
  "at v [] = Some v"
| "at (JObj m) (k # p) = (case mget m k of None \<Rightarrow> None | Some x \<Rightarrow> at x p)"
| "at v (k # p) = None"

lemma at_Cons: "at v (k # p) = (case v of JObj m \<Rightarrow> (case mget m k of None \<Rightarrow> None | Some x \<Rightarrow> at x p) | _ \<Rightarrow> None)"
  by (cases v) auto

lemma at_append: "at v (p @ q) = (case at v p of None \<Rightarrow> None | Some x \<Rightarrow> at x q)"
  by (induction p arbitrary: v) (auto simp: at_Cons split: json.split option.split)

lemma size_value: "x \<in> set m \<Longrightarrow> size (snd x) < Suc (size_list (size_prod (\<lambda>_. 0) size) m)"
  using size_list_estimation' [of x m "size (snd x)" "size_prod (\<lambda>_. 0) size"] by (cases x) simp

text \<open>The maps of a decoded document have distinct keys, at every depth.\<close>

function maps_ok :: "json \<Rightarrow> bool" where
  "maps_ok (JObj m) \<longleftrightarrow> distinct (map fst m) \<and> (\<forall>x \<in> set m. maps_ok (snd x))"
| "maps_ok JNull = True" | "maps_ok (JBool b) = True" | "maps_ok (JInt i) = True"
| "maps_ok (JNum s) = True" | "maps_ok (JStr s) = True" | "maps_ok (JArr l) = True"
  by pat_completeness auto
termination by (relation "measure size") (auto dest: size_value)

lemma maps_ok_value: "maps_ok (JObj m) \<Longrightarrow> mget m k = Some v \<Longrightarrow> maps_ok v"
  by (auto simp: mget_def dest: map_of_SomeD)

definition merge_value :: "((string \<times> json) list \<Rightarrow> (string \<times> json) list \<Rightarrow> (string \<times> json) list) \<Rightarrow> json option \<Rightarrow> json \<Rightarrow> json" where
  "merge_value merge b v =
     (case (b, v) of (Some (JObj bm), JObj vm) \<Rightarrow> JObj (merge bm vm) | _ \<Rightarrow> v)"

text \<open>
  The contract of a merge: a key of the overlay has the overlay's value, merged with the base's
  when both are maps; every other key has the base's. The rest follows for whole paths.
\<close>

locale deep_merge =
  fixes merge :: "(string \<times> json) list \<Rightarrow> (string \<times> json) list \<Rightarrow> (string \<times> json) list"
  assumes lookup: "distinct (map fst ov) \<Longrightarrow>
    mget (merge b ov) k = (case mget ov k of None \<Rightarrow> mget b k | Some v \<Rightarrow> Some (merge_value merge (mget b k) v))"
begin

lemma overlay_wins:
  "maps_ok (JObj ov) \<Longrightarrow> at (JObj ov) p = Some v \<Longrightarrow> \<not> is_obj v \<Longrightarrow> at (JObj (merge b ov)) p = Some v"
proof (induction p arbitrary: b ov)
  case (Cons k p)
  from Cons.prems(2) obtain x where x: "mget ov k = Some x" and a: "at x p = Some v"
    by (auto split: option.splits)
  have ok: "maps_ok x" using maps_ok_value [OF Cons.prems(1) x] .
  have d: "distinct (map fst ov)" using Cons.prems(1) by simp
  show ?case
  proof (cases "\<exists>bm vm. mget b k = Some (JObj bm) \<and> x = JObj vm")
    case True
    then obtain bm vm where bv: "mget b k = Some (JObj bm)" "x = JObj vm" by blast
    with Cons.IH [of vm bm] ok a Cons.prems(3) show ?thesis by (simp add: lookup [OF d] x merge_value_def)
  next
    case False
    then have "merge_value merge (mget b k) x = x"
      by (auto simp: merge_value_def split: option.splits json.splits)
    with a show ?thesis by (simp add: lookup [OF d] x)
  qed
qed auto

lemma base_kept:
  "maps_ok (JObj ov) \<Longrightarrow> at (JObj b) p = Some v \<Longrightarrow>
   (\<And>q r. p = q @ r \<Longrightarrow> r = [] \<Longrightarrow> at (JObj ov) q = None) \<Longrightarrow>
   (\<And>q r x. p = q @ r \<Longrightarrow> at (JObj ov) q = Some x \<Longrightarrow> is_obj x) \<Longrightarrow> at (JObj (merge b ov)) p = Some v"
proof (induction p arbitrary: b ov)
  case Nil
  then show ?case using Nil.prems(3) [of "[]" "[]"] by simp
next
  case (Cons k p)
  have d: "distinct (map fst ov)" using Cons.prems(1) by simp
  from Cons.prems(2) obtain y where y: "mget b k = Some y" and a: "at y p = Some v"
    by (auto split: option.splits)
  show ?case
  proof (cases "mget ov k")
    case None
    with y a show ?thesis by (simp add: lookup [OF d])
  next
    case (Some x)
    have "is_obj x" using Cons.prems(4) [of "[k]" p x] Some by simp
    then obtain vm where vm: "x = JObj vm" by (cases x) auto
    have pne: "p \<noteq> []" using Cons.prems(3) [of "[k]" "[]"] Some by auto
    obtain bm where bm: "y = JObj bm" using a pne by (cases p; cases y) auto
    have "at (JObj (merge bm vm)) p = Some v"
    proof (rule Cons.IH)
      show "maps_ok (JObj vm)" using maps_ok_value [OF Cons.prems(1) Some] vm by simp
      show "at (JObj bm) p = Some v" using a bm by simp
      show "at (JObj vm) q = None" if "p = q @ r" "r = []" for q r
        using Cons.prems(3) [of "k # q" r] that Some vm by simp
      show "is_obj x" if "p = q @ r" "at (JObj vm) q = Some x" for q r x
        using Cons.prems(4) [of "k # q" r x] that Some vm by simp
    qed
    then show ?thesis by (simp add: lookup [OF d] Some vm y bm merge_value_def)
  qed
qed

end

lemma mget_mset1: "mget (mset1 k v m) j = (if j = k then Some v else mget m j)"
  by (simp add: mget_def)

lemma deep_fold:
  "distinct (map fst ov) \<Longrightarrow>
   mget (fold (\<lambda>(k, v) out. mset1 k (merge_value deepMergeMaps (mget out k) v) out) ov b) j =
   (case mget ov j of None \<Rightarrow> mget b j | Some v \<Rightarrow> Some (merge_value deepMergeMaps (mget b j) v))"
proof (induction ov arbitrary: b)
  case Nil
  then show ?case by (simp add: mget_def)
next
  case (Cons x ov)
  obtain k v where x: "x = (k, v)" by fastforce
  have "mget (x # ov) j = (if j = k then Some v else mget ov j)" by (simp add: x mget_def)
  moreover have "j = k \<Longrightarrow> mget ov j = None"
    using Cons.prems x by (auto simp: mget_def map_of_eq_None_iff image_iff)
  ultimately show ?case
    using Cons by (simp add: x mget_mset1 del: map_of_eq_None_iff split: option.split)
qed

interpretation dm: deep_merge deepMergeMaps
proof
  fix ov b :: "(string \<times> json) list" and k
  assume "distinct (map fst ov)"
  moreover have "deepMergeMaps b ov = fold (\<lambda>(k, v) out. mset1 k (merge_value deepMergeMaps (mget out k) v) out) ov b"
    unfolding merge_value_def by (rule deepMergeMaps.simps)
  ultimately show "mget (deepMergeMaps b ov) k =
      (case mget ov k of None \<Rightarrow> mget b k | Some v \<Rightarrow> Some (merge_value deepMergeMaps (mget b k) v))"
    by (simp add: deep_fold)
qed

section \<open>The contract of the YAML package\<close>

text \<open>
  What is relied on: a document printed from a map reads back as a map with the same paths, the
  same strings, booleans and nulls at them, and numbers, lists and maps where there were such. The
  order of keys and the form of numbers may change.
\<close>

definition shape :: "json \<Rightarrow> json" where
  "shape v = (case v of JInt i \<Rightarrow> JNum '''' | JNum s \<Rightarrow> JNum '''' | JArr l \<Rightarrow> JArr [] | JObj m \<Rightarrow> JObj [] | _ \<Rightarrow> v)"

definition view :: "(string \<times> json) list \<Rightarrow> string list \<Rightarrow> json option" where
  "view m p = map_option shape (at (JObj m) p)"

definition yaml_ok :: "yaml_lib \<Rightarrow> bool" where
  "yaml_ok yl \<longleftrightarrow>
     (\<forall>m. \<exists>s m'. y_marshal yl (JObj m) = Inr s \<and> s \<noteq> '''' \<and> y_unmarshal yl s = Inr (Some m') \<and> (\<forall>p. view m' p = view m p))"

lemma encode_decode:
  assumes "yaml_ok yl"
  obtains s m' where "encode_body yl what m = Inr s" and "decode_body yl what' s = Inr (Some m')" and "\<And>p. view m' p = view m p"
proof -
  from assms obtain s m' where "y_marshal yl (JObj m) = Inr s" "s \<noteq> ''''" "y_unmarshal yl s = Inr (Some m')" "\<forall>p. view m' p = view m p"
    unfolding yaml_ok_def by blast
  then show ?thesis by (intro that [of s m']) (auto simp: encode_body_def decode_body_def)
qed

lemma view_single: "view m [k] = map_option shape (mget m k)"
  by (simp add: view_def split: option.split)

lemma mget_None_view: "mget m k = None \<longleftrightarrow> view m [k] = None"
  by (simp add: view_single)

lemma view_frags:
  assumes "distinct (map fst frags)" and "(g, JObj f) \<in> set frags" and "mget f ''enabled'' = Some (JBool True)"
  shows "view (merge_fragments frags root) [''gateways'', g, ''enabled''] = Some (JBool True)"
proof -
  have "mget (mputall frags base) g = Some (JObj f)" for base
    using assms(1,2) by (simp add: mget_def mputall_distinct map_add_def)
  then show ?thesis
    using assms(3) by (simp add: view_def merge_fragments_def mget_mset1 shape_def)
qed

lemma view_frags_other: "k \<noteq> ''gateways'' \<Longrightarrow> view (merge_fragments frags root) [k] = view root [k]"
  by (simp add: view_single merge_fragments_def mget_mset1)

lemma view_add_model:
  "view (add_model root) [''model''] = Some (JStr ''gpt-4o-mini'')"
  "view (add_model root) (''gateways'' # p) = view root (''gateways'' # p)"
  by (simp_all add: view_def add_model_def mget_mset1 shape_def)

lemma fragments_distinct: "distinct (map fst (BuildGatewayConfigFragments inst))"
  by (simp add: BuildGatewayConfigFragments_def Let_def)

lemma fragment_enabled:
  "(g, v) \<in> set (BuildGatewayConfigFragments inst) \<Longrightarrow> \<exists>f. v = JObj f \<and> mget f ''enabled'' = Some (JBool True)"
  by (auto simp: BuildGatewayConfigFragments_def Let_def mget_def split: if_splits)

text \<open>The two steps of the rendering, each from a body that is a map.\<close>

lemma merge_step:
  assumes "yaml_ok yl" and "decode_body yl ''parse rendered config'' body = Inr (Some root)"
  obtains body1 root1 where "mergeGatewayFragments yl body (BuildGatewayConfigFragments inst) = Inr body1"
    and "decode_body yl ''parse rendered config'' body1 = Inr (Some root1)"
    and "view root1 [''model''] = view root [''model'']"
    and "\<And>g v. (g, v) \<in> set (BuildGatewayConfigFragments inst) \<Longrightarrow> view root1 [''gateways'', g, ''enabled''] = Some (JBool True)"
proof (cases "BuildGatewayConfigFragments inst = []")
  case True
  then show ?thesis
    using assms(2) by (intro that [of body root]) (simp_all add: mergeGatewayFragments_def)
next
  case False
  let ?m = "merge_fragments (BuildGatewayConfigFragments inst) root"
  obtain s m' where s: "encode_body yl ''marshal merged config'' ?m = Inr s"
    "decode_body yl ''parse rendered config'' s = Inr (Some m')" "\<And>p. view m' p = view ?m p"
    by (rule encode_decode [OF assms(1), of "''marshal merged config''" ?m "''parse rendered config''"]) (rule that)
  have "view m' [''gateways'', g, ''enabled''] = Some (JBool True)" if fr: "(g, v) \<in> set (BuildGatewayConfigFragments inst)" for g v
  proof -
    obtain f where f: "v = JObj f" "mget f ''enabled'' = Some (JBool True)" using fragment_enabled [OF fr] by blast
    show ?thesis unfolding s(3) using view_frags [OF fragments_distinct fr [unfolded f(1)] f(2)] .
  qed
  moreover have "view m' [''model''] = view root [''model'']"
    unfolding s(3) by (rule view_frags_other) simp
  ultimately show ?thesis
    using False assms(2) s(1,2) by (intro that [of s m']) (simp_all add: mergeGatewayFragments_def)
qed

lemma model_step:
  assumes "yaml_ok yl" and "decode_body yl ''parse rendered config'' body = Inr (Some root)"
  obtains body1 root1 where "ensureModelDefault yl body = Inr body1"
    and "decode_body yl ''parse rendered config'' body1 = Inr (Some root1)"
    and "view root1 [''model''] \<noteq> None"
    and "view root [''model''] \<noteq> None \<Longrightarrow> view root1 [''model''] = view root [''model'']"
    and "\<And>p. view root1 (''gateways'' # p) = view root (''gateways'' # p)"
proof (cases "mget root ''model'' = None")
  case False
  then show ?thesis
    using assms(2) by (intro that [of body root]) (auto simp: ensureModelDefault_def mget_None_view)
next
  case True
  obtain s m' where s: "encode_body yl ''marshal config with model default'' (add_model root) = Inr s"
    "decode_body yl ''parse rendered config'' s = Inr (Some m')" "\<And>p. view m' p = view (add_model root) p"
    by (rule encode_decode [OF assms(1), of "''marshal config with model default''" "add_model root" "''parse rendered config''"]) (rule that)
  then show ?thesis
    using True assms(2)
    by (intro that [of s m']) (simp_all add: ensureModelDefault_def view_add_model mget_None_view)
qed

section \<open>Properties\<close>

text \<open>
  The rendered configuration lets the gateway start: when the configured body is a YAML map, the
  ConfigMap is built, its \<open>config.yaml\<close> is a map with a model, the user's if there was one, and every
  enabled gateway is enabled in it.
\<close>

theorem rendered_config_complete:
  assumes "yaml_ok yl" and "decode_body yl ''parse rendered config'' (initial_body yl inst body) = Inr (Some root)"
  shows "\<exists>cm out m. BuildConfigMap yl inst body = Inr cm \<and> mget (cm_Data cm) ''config.yaml'' = Some out \<and>
    decode_body yl ''parse rendered config'' out = Inr (Some m) \<and> view m [''model''] \<noteq> None \<and>
    (view root [''model''] \<noteq> None \<longrightarrow> view m [''model''] = view root [''model'']) \<and>
    (\<forall>g v. (g, v) \<in> set (BuildGatewayConfigFragments inst) \<longrightarrow> view m [''gateways'', g, ''enabled''] = Some (JBool True))"
proof -
  obtain b1 r1 where m1: "mergeGatewayFragments yl (initial_body yl inst body) (BuildGatewayConfigFragments inst) = Inr b1"
    "decode_body yl ''parse rendered config'' b1 = Inr (Some r1)" "view r1 [''model''] = view root [''model'']"
    "\<And>g v. (g, v) \<in> set (BuildGatewayConfigFragments inst) \<Longrightarrow> view r1 [''gateways'', g, ''enabled''] = Some (JBool True)"
    by (rule merge_step [OF assms, of inst]) (rule that)
  obtain b2 r2 where m2: "ensureModelDefault yl b1 = Inr b2" "decode_body yl ''parse rendered config'' b2 = Inr (Some r2)"
    "view r2 [''model''] \<noteq> None" "view r1 [''model''] \<noteq> None \<Longrightarrow> view r2 [''model''] = view r1 [''model'']"
    "\<And>p. view r2 (''gateways'' # p) = view r1 (''gateways'' # p)"
    by (rule model_step [OF assms(1) m1(2)]) (rule that)
  have "BuildConfigMap yl inst body = Inr
      \<lparr>cm_Meta = (new_meta (ConfigMapName inst) (inst_ns inst))\<lparr>om_Labels := LabelsForInstance inst\<rparr>,
       cm_Data = [(''config.yaml'', b2)] @ (if tailscaleEnabled inst then [(tailscaleServeKey, BuildTailscaleServeConfig inst)] else [])\<rparr>"
    by (simp add: BuildConfigMap_def render_config_def keep_on_error_def m1(1) m2(1))
  moreover have "mget (cm_Data \<lparr>cm_Meta = M, cm_Data = [(''config.yaml'', b2)] @ l\<rparr>) ''config.yaml'' = Some b2" for M l
    by (simp add: mget_def)
  moreover have "view root [''model''] \<noteq> None \<longrightarrow> view r2 [''model''] = view root [''model'']"
    using m1(3) m2(4) by simp
  moreover have "\<forall>g v. (g, v) \<in> set (BuildGatewayConfigFragments inst) \<longrightarrow> view r2 [''gateways'', g, ''enabled''] = Some (JBool True)"
    using m1(4) m2(5) by simp
  ultimately show ?thesis using m2(2,3) by blast
qed

text \<open>A package that keeps its contract: a document is a run of letters as long as the code of its map.\<close>

instance json :: countable
  by countable_datatype

definition code_yaml :: yaml_lib where
  "code_yaml =
     \<lparr>y_unmarshal = (\<lambda>s. if s = ''#'' then Inr None else Inr (Some (from_nat (length s - 1)))),
      y_marshal = (\<lambda>j. case j of JObj m \<Rightarrow> Inr (replicate (Suc (to_nat m)) (CHR ''x'')) | _ \<Rightarrow> Inl (Plain ''not a map'')),
      y_json_to_yaml = (\<lambda>s. Inr s)\<rparr>"

lemma code_yaml_ok: "yaml_ok code_yaml"
proof -
  have "replicate (Suc n) (CHR ''x'') \<noteq> ''#''" for n by simp
  then show ?thesis
    unfolding yaml_ok_def code_yaml_def by (simp del: replicate_Suc)
qed

definition telegram_on :: HermesInstance where
  "telegram_on = zero_HermesInstance\<lparr>hi_Spec := zero_HermesInstanceSpec\<lparr>spec_Gateways := zero_GatewaysSpec
     \<lparr>gw_Telegram := zero_TelegramGatewaySpec\<lparr>tg_Enabled := Some True\<rparr>\<rparr>\<rparr>\<rparr>"

lemma rendered_config_complete_witness:
  "\<exists>cm out m. BuildConfigMap code_yaml telegram_on ''abc'' = Inr cm \<and> mget (cm_Data cm) ''config.yaml'' = Some out \<and>
     decode_body code_yaml ''parse rendered config'' out = Inr (Some m) \<and>
     view m [''gateways'', ''telegram'', ''enabled''] = Some (JBool True)"
proof -
  have d: "decode_body code_yaml ''parse rendered config'' (initial_body code_yaml telegram_on ''abc'') = Inr (Some (from_nat (Suc (Suc 0))))"
    by (simp add: decode_body_def initial_body_def code_yaml_def)
  have "\<exists>v. (''telegram'', v) \<in> set (BuildGatewayConfigFragments telegram_on)"
    by (simp add: BuildGatewayConfigFragments_def Let_def telegram_on_def)
  with rendered_config_complete [OF code_yaml_ok d] show ?thesis by blast
qed

text \<open>
  A configuration that is a null document, such as a file of comments, makes the operator panic:
  the decoder leaves a nil map, and the default model is written into it. No ConfigMap is built,
  whatever the instance.
\<close>

theorem null_config_panics:
  assumes "y_unmarshal yl body = Inr None" and "body \<noteq> ''''"
  shows "BuildConfigMap yl inst body = Inl nil_map_write"
  using assms
  by (simp add: BuildConfigMap_def render_config_def initial_body_def keep_on_error_def mergeGatewayFragments_def
      ensureModelDefault_def decode_body_def nil_map_write_def)

lemma null_config_panics_witness: "BuildConfigMap code_yaml zero_HermesInstance ''#'' = Inl nil_map_write"
  by (rule null_config_panics) (simp_all add: code_yaml_def)

text \<open>
  C40. Merging configurations by path: a value of the overlay that is not a map stands at its path in
  the merge, and a value of the base stays at its path when the overlay has nothing there and only
  maps on the way.
\<close>

theorem config_merge_by_path:
  assumes "maps_ok (JObj overlay)"
  shows "(\<forall>p v. at (JObj overlay) p = Some v \<and> \<not> is_obj v \<longrightarrow> at (JObj (deepMergeMaps base overlay)) p = Some v) \<and>
    (\<forall>p v. at (JObj base) p = Some v \<and> at (JObj overlay) p = None \<and>
       (\<forall>q r x. p = q @ r \<and> at (JObj overlay) q = Some x \<longrightarrow> is_obj x) \<longrightarrow>
       at (JObj (deepMergeMaps base overlay)) p = Some v)"
proof -
  have 1: "at (JObj (deepMergeMaps base overlay)) p = Some v" if "at (JObj overlay) p = Some v" "\<not> is_obj v" for p v
    by (rule dm.overlay_wins [OF assms that])
  have 2: "at (JObj (deepMergeMaps base overlay)) p = Some v"
    if b: "at (JObj base) p = Some v" and n: "at (JObj overlay) p = None"
      and w: "\<forall>q r x. p = q @ r \<and> at (JObj overlay) q = Some x \<longrightarrow> is_obj x" for p v
  proof (rule dm.base_kept [OF assms b])
    show "at (JObj overlay) q = None" if "p = q @ r" "r = []" for q r using that n by simp
    show "is_obj x" if "p = q @ r" "at (JObj overlay) q = Some x" for q r x using w that by blast
  qed
  show ?thesis
  proof (intro conjI allI impI)
    fix p v assume "at (JObj overlay) p = Some v \<and> \<not> is_obj v"
    then show "at (JObj (deepMergeMaps base overlay)) p = Some v" using 1 by blast
  next
    fix p v assume "at (JObj base) p = Some v \<and> at (JObj overlay) p = None \<and>
       (\<forall>q r x. p = q @ r \<and> at (JObj overlay) q = Some x \<longrightarrow> is_obj x)"
    then show "at (JObj (deepMergeMaps base overlay)) p = Some v" by (elim conjE) (rule 2)
  qed
qed

lemma config_merge_by_path_witness:
  "at (JObj (deepMergeMaps [(''a'', JObj [(''b'', JNull), (''c'', JBool True)])] [(''a'', JObj [(''b'', JBool False)])])) [''a'', ''c''] =
     Some (JBool True)"
proof -
  let ?b = "[(''a'', JObj [(''b'', JNull), (''c'', JBool True)])]" and ?o = "[(''a'', JObj [(''b'', JBool False)])]"
  have ok: "maps_ok (JObj ?o)" by simp
  have pre: "is_obj x" if "[''a'', ''c''] = q @ r" "at (JObj ?o) q = Some x" for q r x
  proof -
    from that(1) consider "q = []" | "q = [''a'']" | "q = [''a'', ''c'']"
      by (cases q; cases "tl q"; cases "tl (tl q)") auto
    then show ?thesis using that(2) by cases (auto simp: mget_def)
  qed
  have "at (JObj ?b) [''a'', ''c''] = Some (JBool True)" "at (JObj ?o) [''a'', ''c''] = None"
    by (simp_all add: mget_def)
  with config_merge_by_path [OF ok, of ?b] pre show ?thesis by blast
qed

end
