(* ===== verification/Grafana.thy ===== *)
theory Grafana
  imports Common JSON
begin

text \<open>
  \<open>internal/resources/grafana_dashboard.go\<close>: the two dashboard ConfigMaps. The structs of the
  dashboard are records, \<open>grafanaPanel\<close> a datatype as a row holds panels; \<open>json.Marshal\<close> prints the
  fields in their order, leaving out the empty ones marked \<open>omitempty\<close>, and the keys of a map sorted.
  The last section shows that the panels are laid out without overlap.
\<close>

section \<open>The dashboard structs and their JSON\<close>

record grafanaGridPos =
  gp_H :: int
  gp_W :: int
  gp_X :: int
  gp_Y :: int

record grafanaTarget =
  gt_Expr :: string
  gt_LegendFormat :: string
  gt_RefID :: string
  gt_Instant :: bool
  gt_Format :: string

record grafanaDatasource =
  ds_Type :: string
  ds_UID :: string

record grafanaFieldConfig =
  fc_Defaults :: "(string \<times> json) list"
  fc_Overrides :: "(string \<times> json) list list"

datatype grafanaPanel = GrafanaPanel
  (pn_ID: int) (pn_Title: string) (pn_Type: string) (pn_GridPos: grafanaGridPos) (pn_Targets: "grafanaTarget list")
  (pn_Options: "(string \<times> json) list") (pn_FieldConfig: "grafanaFieldConfig option")
  (pn_Datasource: "grafanaDatasource option") (pn_Panels: "grafanaPanel list") (pn_Collapsed: bool)

record grafanaVariable =
  gv_Current :: "(string \<times> json) list"
  gv_Hide :: int
  gv_IncludeAll :: bool
  gv_Label :: string
  gv_Multi :: bool
  gv_Name :: string
  gv_Options :: "json list"
  gv_Query :: json
  gv_Refresh :: int
  gv_Regex :: string
  gv_Type :: string
  gv_Datasource :: "json option"
  gv_Definition :: string
  gv_Sort :: int
  gv_AllValue :: string

record grafanaTime =
  gtime_From :: string
  gtime_To :: string

record grafanaDashboard =
  db_Annotations :: "json list"
  db_Editable :: bool
  db_GraphTooltip :: int
  db_Panels :: "grafanaPanel list"
  db_SchemaVersion :: int
  db_Tags :: "string list"
  db_Templating :: "grafanaVariable list"
  db_Time :: grafanaTime
  db_Refresh :: string
  db_Title :: string
  db_UID :: string

definition omit_str :: "string \<Rightarrow> string \<Rightarrow> (string \<times> json) list" where
  "omit_str k s = (if s = '''' then [] else [(k, JStr s)])"

definition omit_false :: "string \<Rightarrow> bool \<Rightarrow> (string \<times> json) list" where
  "omit_false k b = (if b then [(k, JBool b)] else [])"

definition marshal_gridPos :: "grafanaGridPos \<Rightarrow> json" where
  "marshal_gridPos g = JObj [(''h'', JInt (gp_H g)), (''w'', JInt (gp_W g)), (''x'', JInt (gp_X g)), (''y'', JInt (gp_Y g))]"

definition marshal_target :: "grafanaTarget \<Rightarrow> json" where
  "marshal_target t =
     JObj ([(''expr'', JStr (gt_Expr t)), (''legendFormat'', JStr (gt_LegendFormat t)), (''refId'', JStr (gt_RefID t))] @
           omit_false ''instant'' (gt_Instant t) @ omit_str ''format'' (gt_Format t))"

definition marshal_datasource :: "grafanaDatasource \<Rightarrow> json" where
  "marshal_datasource d = JObj [(''type'', JStr (ds_Type d)), (''uid'', JStr (ds_UID d))]"

definition marshal_fieldConfig :: "grafanaFieldConfig \<Rightarrow> json" where
  "marshal_fieldConfig f =
     JObj ([(''defaults'', JObj (fc_Defaults f))] @
           (if fc_Overrides f = [] then [] else [(''overrides'', JArr (map JObj (fc_Overrides f)))]))"

fun marshal_panel :: "grafanaPanel \<Rightarrow> json" where
  "marshal_panel (GrafanaPanel i title ty pos targets opts fc ds panels collapsed) =
     JObj ([(''id'', JInt i), (''title'', JStr title), (''type'', JStr ty), (''gridPos'', marshal_gridPos pos)] @
           (if targets = [] then [] else [(''targets'', JArr (map marshal_target targets))]) @
           (if opts = [] then [] else [(''options'', JObj opts)]) @
           (case fc of None \<Rightarrow> [] | Some f \<Rightarrow> [(''fieldConfig'', marshal_fieldConfig f)]) @
           (case ds of None \<Rightarrow> [] | Some d \<Rightarrow> [(''datasource'', marshal_datasource d)]) @
           (if panels = [] then [] else [(''panels'', JArr (map marshal_panel panels))]) @
           omit_false ''collapsed'' collapsed)"

definition marshal_variable :: "grafanaVariable \<Rightarrow> json" where
  "marshal_variable v =
     JObj ([(''current'', JObj (gv_Current v)), (''hide'', JInt (gv_Hide v)), (''includeAll'', JBool (gv_IncludeAll v)),
            (''label'', JStr (gv_Label v)), (''multi'', JBool (gv_Multi v)), (''name'', JStr (gv_Name v)),
            (''options'', JArr (gv_Options v)), (''query'', gv_Query v), (''refresh'', JInt (gv_Refresh v)),
            (''regex'', JStr (gv_Regex v)), (''type'', JStr (gv_Type v))] @
           (case gv_Datasource v of None \<Rightarrow> [] | Some d \<Rightarrow> [(''datasource'', d)]) @
           omit_str ''definition'' (gv_Definition v) @
           (if gv_Sort v = 0 then [] else [(''sort'', JInt (gv_Sort v))]) @
           omit_str ''allValue'' (gv_AllValue v))"

definition marshal_dashboard :: "grafanaDashboard \<Rightarrow> json" where
  "marshal_dashboard d =
     JObj [(''annotations'', JObj [(''list'', JArr (db_Annotations d))]), (''editable'', JBool (db_Editable d)),
           (''graphTooltip'', JInt (db_GraphTooltip d)), (''panels'', JArr (map marshal_panel (db_Panels d))),
           (''schemaVersion'', JInt (db_SchemaVersion d)), (''tags'', JArr (map JStr (db_Tags d))),
           (''templating'', JObj [(''list'', JArr (map marshal_variable (db_Templating d)))]),
           (''time'', JObj [(''from'', JStr (gtime_From (db_Time d))), (''to'', JStr (gtime_To (db_Time d)))]),
           (''refresh'', JStr (db_Refresh d)), (''title'', JStr (db_Title d)), (''uid'', JStr (db_UID d))]"

text \<open>\<open>mustMarshalJSON\<close> on a dashboard; none of its values fails to marshal.\<close>

definition mustMarshalJSON :: "grafanaDashboard \<Rightarrow> string" where
  "mustMarshalJSON d = print_json (marshal_dashboard d)"

section \<open>Variables and panels\<close>

definition dsVar :: grafanaDatasource where
  "dsVar = \<lparr>ds_Type = ''prometheus'', ds_UID = ''${datasource}''\<rparr>"

definition zero_variable :: grafanaVariable where
  "zero_variable =
     \<lparr>gv_Current = [], gv_Hide = 0, gv_IncludeAll = False, gv_Label = '''', gv_Multi = False, gv_Name = '''',
      gv_Options = [], gv_Query = JNull, gv_Refresh = 0, gv_Regex = '''', gv_Type = '''', gv_Datasource = None,
      gv_Definition = '''', gv_Sort = 0, gv_AllValue = ''''\<rparr>"

definition datasourceVar :: grafanaVariable where
  "datasourceVar = zero_variable\<lparr>gv_Label := ''Datasource'', gv_Name := ''datasource'', gv_Query := JStr ''prometheus'',
     gv_Refresh := 1, gv_Type := ''datasource''\<rparr>"

definition query_datasource :: json where
  "query_datasource = JObj [(''type'', JStr ''prometheus''), (''uid'', JStr ''${datasource}'')]"

definition namespaceVar :: "bool \<Rightarrow> grafanaVariable" where
  \<open>namespaceVar multi =
     (let q = ''label_values(kube_pod_labels{label_app_kubernetes_io_name="hermes-agent"}, namespace)''
      in zero_variable\<lparr>gv_IncludeAll := multi, gv_Label := ''Namespace'', gv_Multi := multi, gv_Name := ''namespace'',
           gv_Query := JStr q, gv_Definition := q, gv_Refresh := 2, gv_Type := ''query'', gv_Sort := 1,
           gv_Datasource := Some query_datasource\<rparr>)\<close>

definition instanceVar :: "bool \<Rightarrow> grafanaVariable" where
  \<open>instanceVar multi =
     (let q = ''label_values(kube_pod_labels{namespace=~"$namespace",label_app_kubernetes_io_name="hermes-agent"}, label_app_kubernetes_io_instance)''
      in zero_variable\<lparr>gv_IncludeAll := multi, gv_Label := ''Instance'', gv_Multi := multi, gv_Name := ''instance'',
           gv_Query := JStr q, gv_Definition := q, gv_Refresh := 2, gv_Type := ''query'', gv_Sort := 1,
           gv_Datasource := Some query_datasource, gv_AllValue := (if multi then ''.*'' else '''')\<rparr>)\<close>

definition instant_target :: "string \<Rightarrow> grafanaTarget" where
  "instant_target expr = \<lparr>gt_Expr = expr, gt_LegendFormat = '''', gt_RefID = ''A'', gt_Instant = True, gt_Format = ''''\<rparr>"

definition target :: "string \<Rightarrow> string \<Rightarrow> string \<Rightarrow> grafanaTarget" where
  "target expr legend ref = \<lparr>gt_Expr = expr, gt_LegendFormat = legend, gt_RefID = ref, gt_Instant = False, gt_Format = ''''\<rparr>"

definition statPanel :: "int \<Rightarrow> string \<Rightarrow> string \<Rightarrow> grafanaGridPos \<Rightarrow> grafanaPanel" where
  "statPanel i title expr pos =
     GrafanaPanel i title ''stat'' pos [instant_target expr] [] (Some \<lparr>fc_Defaults = [], fc_Overrides = []\<rparr>) (Some dsVar) [] False"

definition timeseriesPanel :: "int \<Rightarrow> string \<Rightarrow> grafanaTarget list \<Rightarrow> grafanaGridPos \<Rightarrow> grafanaPanel" where
  "timeseriesPanel i title targets pos =
     GrafanaPanel i title ''timeseries'' pos targets []
       (Some \<lparr>fc_Defaults = [(''custom'', JObj [(''fillOpacity'', JInt 10), (''lineWidth'', JInt 1), (''pointSize'', JInt 5),
                                               (''showPoints'', JStr ''auto'')])], fc_Overrides = []\<rparr>)
       (Some dsVar) [] False"

definition threshold_step :: "string \<Rightarrow> json \<Rightarrow> json" where
  "threshold_step color v = JObj [(''color'', JStr color), (''value'', v)]"

definition gaugePanel :: "int \<Rightarrow> string \<Rightarrow> string \<Rightarrow> grafanaGridPos \<Rightarrow> grafanaPanel" where
  "gaugePanel i title expr pos =
     GrafanaPanel i title ''gauge'' pos [instant_target expr] []
       (Some \<lparr>fc_Defaults =
          [(''max'', JInt 1), (''min'', JInt 0),
           (''thresholds'', JObj [(''steps'', JArr [threshold_step ''green'' JNull, threshold_step ''yellow'' (JNum ''0.8''),
                                                  threshold_step ''red'' (JNum ''0.9'')])]),
           (''unit'', JStr ''percentunit'')], fc_Overrides = []\<rparr>)
       (Some dsVar) [] False"

definition gp :: "int \<Rightarrow> int \<Rightarrow> int \<Rightarrow> int \<Rightarrow> grafanaGridPos" where
  "gp h w x y = \<lparr>gp_H = h, gp_W = w, gp_X = x, gp_Y = y\<rparr>"

definition rowPanel :: "int \<Rightarrow> string \<Rightarrow> int \<Rightarrow> bool \<Rightarrow> grafanaPanel list \<Rightarrow> grafanaPanel" where
  "rowPanel i title y collapsed panels =
     GrafanaPanel i title ''row'' (gp 1 24 0 y) [] [] None None panels collapsed"

section \<open>The two dashboards\<close>

definition podSel :: string where
  \<open>podSel = ''kube_pod_labels{namespace=~"$namespace",label_app_kubernetes_io_name="hermes-agent",label_app_kubernetes_io_instance=~"$instance"}''\<close>

definition buildOperatorPanels :: "grafanaPanel list" where
  \<open>buildOperatorPanels =
     [rowPanel 100 ''Fleet Overview'' 0 False [],
      statPanel 1 ''Managed Instances'' (''count('' @ podSel @ '')'') (gp 4 8 0 1),
      statPanel 2 ''Pods Running'' ''count(kube_pod_status_phase{namespace=~"$namespace",phase="Running",pod=~"$instance-.*"})'' (gp 4 8 8 1),
      statPanel 3 ''Container Restarts (1h)'' ''sum(increase(kube_pod_container_status_restarts_total{namespace=~"$namespace",pod=~"$instance-.*",container="hermes"}[1h]))'' (gp 4 8 16 1),
      rowPanel 101 ''SelfConfigure'' 5 False [],
      timeseriesPanel 4 ''SelfConfig Applied'' [target ''sum(rate(hermes_selfconfig_applied_total{namespace=~"$namespace"}[5m])) by (namespace)'' ''{{ namespace }}'' ''A''] (gp 8 12 0 6),
      timeseriesPanel 5 ''SelfConfig Denied'' [target ''sum(rate(hermes_selfconfig_denied_total{namespace=~"$namespace"}[5m])) by (namespace)'' ''{{ namespace }}'' ''A''] (gp 8 12 12 6),
      rowPanel 102 ''Fleet Resource Usage'' 14 False [],
      timeseriesPanel 6 ''CPU Usage by Instance'' [target ''sum(rate(container_cpu_usage_seconds_total{namespace=~"$namespace",pod=~"$instance-.*",container="hermes"}[5m])) by (pod)'' ''{{ pod }}'' ''A''] (gp 8 12 0 15),
      timeseriesPanel 7 ''Memory Working Set by Instance'' [target ''sum(container_memory_working_set_bytes{namespace=~"$namespace",pod=~"$instance-.*",container="hermes"}) by (pod)'' ''{{ pod }}'' ''A''] (gp 8 12 12 15)]\<close>

definition buildInstancePanels :: "grafanaPanel list" where
  \<open>buildInstancePanels =
     [rowPanel 200 ''Health'' 0 False [],
      statPanel 21 ''Pods Running'' ''count(kube_pod_status_phase{namespace="$namespace",phase="Running",pod=~"$instance-.*"})'' (gp 4 6 0 1),
      gaugePanel 22 ''CPU %'' ''sum(rate(container_cpu_usage_seconds_total{namespace="$namespace",pod=~"$instance-.*",container="hermes"}[5m])) / sum(kube_pod_container_resource_limits{namespace="$namespace",pod=~"$instance-.*",container="hermes",resource="cpu"})'' (gp 4 6 6 1),
      gaugePanel 23 ''Memory %'' ''sum(container_memory_working_set_bytes{namespace="$namespace",pod=~"$instance-.*",container="hermes"}) / sum(kube_pod_container_resource_limits{namespace="$namespace",pod=~"$instance-.*",container="hermes",resource="memory"})'' (gp 4 6 12 1),
      gaugePanel 24 ''PVC %'' ''kubelet_volume_stats_used_bytes{namespace="$namespace",persistentvolumeclaim=~"data-$instance.*"} / kubelet_volume_stats_capacity_bytes{namespace="$namespace",persistentvolumeclaim=~"data-$instance.*"}'' (gp 4 6 18 1),
      rowPanel 201 ''CPU and Memory'' 5 False [],
      timeseriesPanel 25 ''CPU Usage vs Request/Limit'' [target ''sum(rate(container_cpu_usage_seconds_total{namespace="$namespace",pod=~"$instance-.*",container="hermes"}[5m]))'' ''usage'' ''A'',
         target ''sum(kube_pod_container_resource_requests{namespace="$namespace",pod=~"$instance-.*",container="hermes",resource="cpu"})'' ''request'' ''B'',
         target ''sum(kube_pod_container_resource_limits{namespace="$namespace",pod=~"$instance-.*",container="hermes",resource="cpu"})'' ''limit'' ''C''] (gp 8 12 0 6),
      timeseriesPanel 26 ''Memory Working Set vs Limit'' [target ''sum(container_memory_working_set_bytes{namespace="$namespace",pod=~"$instance-.*",container="hermes"})'' ''working set'' ''A'',
         target ''sum(kube_pod_container_resource_limits{namespace="$namespace",pod=~"$instance-.*",container="hermes",resource="memory"})'' ''limit'' ''B''] (gp 8 12 12 6),
      rowPanel 202 ''Pod Health'' 14 False [],
      timeseriesPanel 27 ''Container Restarts'' [target ''sum(kube_pod_container_status_restarts_total{namespace="$namespace",pod=~"$instance-.*"}) by (container)'' ''{{ container }}'' ''A''] (gp 8 12 0 15),
      timeseriesPanel 28 ''OOM Kills'' [target ''sum(kube_pod_container_status_last_terminated_reason{namespace="$namespace",pod=~"$instance-.*",container="hermes",reason="OOMKilled"})'' ''OOM killed'' ''A''] (gp 8 12 12 15),
      rowPanel 203 ''Storage'' 23 True [timeseriesPanel 29 ''PVC Usage'' [target ''kubelet_volume_stats_used_bytes{namespace="$namespace",persistentvolumeclaim=~"data-$instance.*"}'' ''used'' ''A'',
         target ''kubelet_volume_stats_capacity_bytes{namespace="$namespace",persistentvolumeclaim=~"data-$instance.*"}'' ''capacity'' ''B''] (gp 8 24 0 24)]]\<close>

definition operator_dashboard :: grafanaDashboard where
  "operator_dashboard =
     \<lparr>db_Annotations = [], db_Editable = True, db_GraphTooltip = 1, db_Panels = buildOperatorPanels, db_SchemaVersion = 39,
      db_Tags = [''hermes'', ''operator''], db_Templating = [datasourceVar, namespaceVar True, instanceVar True],
      db_Time = \<lparr>gtime_From = ''now-1h'', gtime_To = ''now''\<rparr>, db_Refresh = ''30s'', db_Title = ''Hermes Operator'',
      db_UID = ''hermes-operator-overview''\<rparr>"

definition buildOperatorDashboard :: string where
  "buildOperatorDashboard = mustMarshalJSON operator_dashboard"

definition instance_dashboard :: grafanaDashboard where
  "instance_dashboard =
     \<lparr>db_Annotations = [], db_Editable = True, db_GraphTooltip = 1, db_Panels = buildInstancePanels, db_SchemaVersion = 39,
      db_Tags = [''hermes'', ''instance''], db_Templating = [datasourceVar, namespaceVar False, instanceVar False],
      db_Time = \<lparr>gtime_From = ''now-1h'', gtime_To = ''now''\<rparr>, db_Refresh = ''30s'', db_Title = ''Hermes Instance'',
      db_UID = ''hermes-instance-detail''\<rparr>"

definition buildInstanceDashboard :: string where
  "buildInstanceDashboard = mustMarshalJSON instance_dashboard"

section \<open>The ConfigMaps\<close>

definition GrafanaDashboardEnabled :: "HermesInstance \<Rightarrow> bool" where
  "GrafanaDashboardEnabled inst =
     (case metrics_GrafanaDashboard (obs_Metrics (spec_Observability (hi_Spec inst))) of
        None \<Rightarrow> False | Some gd \<Rightarrow> BoolValue (gd_Enabled gd))"

definition GrafanaDashboardOperatorName :: "HermesInstance \<Rightarrow> string" where
  "GrafanaDashboardOperatorName inst = inst_name inst @ ''-dashboard-operator''"

definition GrafanaDashboardInstanceName :: "HermesInstance \<Rightarrow> string" where
  "GrafanaDashboardInstanceName inst = inst_name inst @ ''-dashboard-instance''"

definition defaultGrafanaFolder :: string where
  "defaultGrafanaFolder = ''Hermes''"

definition dashboard_folder :: "HermesInstance \<Rightarrow> string" where
  "dashboard_folder inst =
     (case metrics_GrafanaDashboard (obs_Metrics (spec_Observability (hi_Spec inst))) of
        None \<Rightarrow> defaultGrafanaFolder
      | Some gd \<Rightarrow> if gd_Folder gd \<noteq> '''' then gd_Folder gd else defaultGrafanaFolder)"

definition dashboard_labels :: "HermesInstance \<Rightarrow> strmap" where
  "dashboard_labels inst =
     (let labels = mset1 ''grafana_dashboard'' ''1'' (LabelsForInstance inst)
      in case metrics_GrafanaDashboard (obs_Metrics (spec_Observability (hi_Spec inst))) of
           None \<Rightarrow> labels | Some gd \<Rightarrow> mputall (gd_Labels gd) labels)"

definition buildDashboardConfigMap :: "HermesInstance \<Rightarrow> string \<Rightarrow> string \<Rightarrow> string \<Rightarrow> ConfigMap" where
  "buildDashboardConfigMap inst name dataKey dashboardJSON =
     \<lparr>cm_Meta = (new_meta name (inst_ns inst))
        \<lparr>om_Labels := dashboard_labels inst, om_Annotations := [(''grafana_folder'', dashboard_folder inst)]\<rparr>,
      cm_Data = [(dataKey, dashboardJSON)]\<rparr>"

definition BuildGrafanaDashboardOperator :: "HermesInstance \<Rightarrow> ConfigMap" where
  "BuildGrafanaDashboardOperator inst =
     buildDashboardConfigMap inst (GrafanaDashboardOperatorName inst) ''hermes-operator.json'' buildOperatorDashboard"

definition BuildGrafanaDashboardInstance :: "HermesInstance \<Rightarrow> ConfigMap" where
  "BuildGrafanaDashboardInstance inst =
     buildDashboardConfigMap inst (GrafanaDashboardInstanceName inst) ''hermes-instance.json'' buildInstanceDashboard"

section \<open>Layout\<close>

text \<open>
  Grafana's grid is 24 columns wide. A panel is on the grid when its rectangle is, two panels are
  apart when their rectangles do not meet, and the identifiers of all panels, those inside rows
  included, are distinct.
\<close>

definition on_grid :: "grafanaPanel \<Rightarrow> bool" where
  "on_grid p = (case pn_GridPos p of g \<Rightarrow>
     0 < gp_H g \<and> 0 < gp_W g \<and> 0 \<le> gp_X g \<and> 0 \<le> gp_Y g \<and> gp_X g + gp_W g \<le> 24)"

definition apart :: "grafanaPanel \<Rightarrow> grafanaPanel \<Rightarrow> bool" where
  "apart p q = (case (pn_GridPos p, pn_GridPos q) of (g, h) \<Rightarrow>
     gp_X g + gp_W g \<le> gp_X h \<or> gp_X h + gp_W h \<le> gp_X g \<or> gp_Y g + gp_H g \<le> gp_Y h \<or> gp_Y h + gp_H h \<le> gp_Y g)"

fun pairwise_apart :: "grafanaPanel list \<Rightarrow> bool" where
  "pairwise_apart [] = True"
| "pairwise_apart (p # ps) = (list_all (apart p) ps \<and> pairwise_apart ps)"

definition all_panels :: "grafanaPanel list \<Rightarrow> grafanaPanel list" where
  "all_panels ps = concat (map (\<lambda>p. p # pn_Panels p) ps)"

definition layout_ok :: "grafanaPanel list \<Rightarrow> bool" where
  "layout_ok ps \<longleftrightarrow> list_all on_grid (all_panels ps) \<and> pairwise_apart (all_panels ps) \<and> distinct (map pn_ID (all_panels ps))"

lemmas panel_defs = statPanel_def timeseriesPanel_def gaugePanel_def rowPanel_def gp_def

text \<open>
  Both dashboards are well formed: every panel is on Grafana's grid, no two panels overlap, the
  panels inside a row included, and no two panels of a dashboard have the same identifier.
\<close>

theorem dashboards_laid_out: "layout_ok (db_Panels operator_dashboard) \<and> layout_ok (db_Panels instance_dashboard)"
  by (simp add: operator_dashboard_def instance_dashboard_def buildOperatorPanels_def buildInstancePanels_def
      layout_ok_def all_panels_def on_grid_def apart_def panel_defs)

text \<open>
  The storage panels select the claims named \<open>data-<instance>\<close> and on, while the claim of an
  instance is \<open><instance>-data\<close>. The two agree on the names made of the word data alone.
\<close>

definition storage_prefix :: "HermesInstance \<Rightarrow> string" where
  "storage_prefix inst = ''data-'' @ inst_name inst"

lemma storage_panels_miss_claim:
  "(\<exists>rest. PVCName inst = storage_prefix inst @ rest) \<longleftrightarrow> inst_name inst @ ''-data'' = ''data-'' @ inst_name inst"
proof
  assume "\<exists>rest. PVCName inst = storage_prefix inst @ rest"
  then obtain rest where eq: "inst_name inst @ ''-data'' = (''data-'' @ inst_name inst) @ rest"
    by (auto simp: PVCName_def storage_prefix_def)
  then have "length (inst_name inst @ ''-data'') = length ((''data-'' @ inst_name inst) @ rest)" by (rule arg_cong)
  then have "rest = []" by simp
  with eq show "inst_name inst @ ''-data'' = ''data-'' @ inst_name inst" by simp
next
  assume "inst_name inst @ ''-data'' = ''data-'' @ inst_name inst"
  then show "\<exists>rest. PVCName inst = storage_prefix inst @ rest"
    by (intro exI [of _ "[]"]) (simp add: PVCName_def storage_prefix_def)
qed

text \<open>
  A dashboard sidecar finds the ConfigMaps: they carry the \<open>grafana_dashboard\<close> label unless the
  user's labels replace it, and every label of the user.
\<close>

lemma dashboards_discoverable:
  assumes "metrics_GrafanaDashboard (obs_Metrics (spec_Observability (hi_Spec inst))) = Some gd" and "distinct (map fst (gd_Labels gd))"
    and "cm \<in> {BuildGrafanaDashboardOperator inst, BuildGrafanaDashboardInstance inst}"
  shows "(\<forall>k v. mget (gd_Labels gd) k = Some v \<longrightarrow> mget (om_Labels (cm_Meta cm)) k = Some v) \<and>
    (mget (gd_Labels gd) ''grafana_dashboard'' = None \<longrightarrow> mget (om_Labels (cm_Meta cm)) ''grafana_dashboard'' = Some ''1'')"
proof -
  have "om_Labels (cm_Meta cm) = mputall (gd_Labels gd) (mset1 ''grafana_dashboard'' ''1'' (LabelsForInstance inst))"
    using assms(1,3)
    by (auto simp: BuildGrafanaDashboardOperator_def BuildGrafanaDashboardInstance_def buildDashboardConfigMap_def dashboard_labels_def)
  then show ?thesis
    using assms(2) by (simp add: mget_def mputall_distinct map_add_def)
qed

end
