(* ===== verification/Backup.thy ===== *)
theory Backup
  imports Env BackupJobs
begin

text \<open>
  \<open>internal/controller/job_utils.go\<close>, \<open>s3.go\<close> and \<open>backup.go\<close>: the backup sub-controller. It owns the
  finalizer that holds a deletion until a last snapshot is taken, the periodic CronJobs, and the
  one-shot snapshot the auto-update controller waits for. A handler returns its results, the
  instance as it holds it at the end and the world.
\<close>

section \<open>Jobs\<close>

text \<open>\<open>IsJobFinished\<close>: the type of the first terminal condition, if any.\<close>

fun IsJobFinished_cond :: "JobCondition list \<Rightarrow> string option" where
  "IsJobFinished_cond [] = None"
| "IsJobFinished_cond (c # cs) =
     (if (jc_Type c = ''Complete'' \<or> jc_Type c = ''Failed'') \<and> jc_Status c = ConditionTrue
      then Some (jc_Type c) else IsJobFinished_cond cs)"

definition IsJobFinished :: "Job \<Rightarrow> bool \<times> string" where
  "IsJobFinished job =
     (case IsJobFinished_cond (job_Conditions job) of None \<Rightarrow> (False, '''') | Some t \<Rightarrow> (True, t))"

definition GetJob ::
  "'w env \<Rightarrow> string \<Rightarrow> string \<Rightarrow> 'w \<Rightarrow> (go_error + Job option) \<times> 'w" where
  "GetJob E name ns w =
     (case kc_get (env_jobs E) (ns, name) w of
        (Inl e, w1) \<Rightarrow> if IsNotFound e then (Inr None, w1) else (Inl e, w1)
      | (Inr j, w1) \<Rightarrow> (Inr (Some j), w1))"

section \<open>Object storage\<close>

record S3Creds =
  creds_AccessKeyID :: string
  creds_SecretAccessKey :: string

definition ReadS3CredsFromSecret ::
  "'w env \<Rightarrow> string \<Rightarrow> string \<Rightarrow> 'w \<Rightarrow> (go_error + S3Creds) \<times> 'w" where
  "ReadS3CredsFromSecret E ns name w =
     (case kc_get (env_secrets E) (ns, name) w of
        (Inl e, w1) \<Rightarrow> (Inl (Wrapped (''fetch S3 credentials secret '' @ ns @ ''/'' @ name) e), w1)
      | (Inr secret, w1) \<Rightarrow>
          (let missing = (\<lambda>k. Plain (''S3 credentials secret '' @ ns @ ''/'' @ name @ '' missing key '' @ quoted k));
               i = mget0 (sec_Data secret) ''S3_ACCESS_KEY_ID'';
               s = mget0 (sec_Data secret) ''S3_SECRET_ACCESS_KEY'' in
           if i = '''' then (Inl (missing ''S3_ACCESS_KEY_ID''), w1)
           else if s = '''' then (Inl (missing ''S3_SECRET_ACCESS_KEY''), w1)
           else (Inr \<lparr>creds_AccessKeyID = i, creds_SecretAccessKey = s\<rparr>, w1)))"

definition key_prefix :: "BackupS3Spec option \<Rightarrow> string" where
  "key_prefix s3 =
     (case s3 of
        None \<Rightarrow> ''''
      | Some s \<Rightarrow>
          if bs3_PathPrefix s \<noteq> '''' \<and> \<not> HasSuffix (bs3_PathPrefix s) ''/''
          then bs3_PathPrefix s @ ''/'' else bs3_PathPrefix s)"

definition SnapshotKey :: "HermesInstance \<Rightarrow> string \<Rightarrow> string \<Rightarrow> string" where
  "SnapshotKey inst kind timestamp =
     (let dir = key_prefix (bk_S3 (spec_Backup (hi_Spec inst))) @ inst_ns inst @ ''/'' @ inst_name inst in
      if kind = ''failed'' then dir @ ''/failed/'' @ timestamp @ ''.tar.zst''
      else dir @ ''/'' @ timestamp @ ''.tar.zst'')"

definition S3EnvVars :: "S3Creds \<Rightarrow> BackupS3Spec \<Rightarrow> EnvVar list" where
  "S3EnvVars creds s3 =
     [env_value ''AWS_ACCESS_KEY_ID'' (creds_AccessKeyID creds),
      env_value ''AWS_SECRET_ACCESS_KEY'' (creds_SecretAccessKey creds),
      env_value ''RESTIC_REPOSITORY'' (''s3:'' @ bs3_Endpoint s3 @ ''/'' @ bs3_Bucket s3)] @
     (if bs3_Region s3 \<noteq> '''' then [env_value ''AWS_DEFAULT_REGION'' (bs3_Region s3)] else [])"

section \<open>The finalizer\<close>

definition finalBackupDeadline :: duration where
  "finalBackupDeadline = 30 * Minute"

definition ContainsFinalizer :: "HermesInstance \<Rightarrow> string \<Rightarrow> bool" where
  "ContainsFinalizer inst f \<longleftrightarrow> f \<in> set (om_Finalizers (hi_ObjectMeta inst))"

definition AddFinalizer :: "string \<Rightarrow> HermesInstance \<Rightarrow> HermesInstance" where
  "AddFinalizer f inst =
     upd_meta (\<lambda>m. m\<lparr>om_Finalizers := if f \<in> set (om_Finalizers m) then om_Finalizers m
                                       else om_Finalizers m @ [f]\<rparr>) inst"

definition DropFinalizer :: "string \<Rightarrow> HermesInstance \<Rightarrow> HermesInstance" where
  "DropFinalizer f inst = upd_meta (\<lambda>m. m\<lparr>om_Finalizers := filter (\<lambda>g. g \<noteq> f) (om_Finalizers m)\<rparr>) inst"

definition wrap_err :: "string \<Rightarrow> go_error option \<Rightarrow> go_error option" where
  "wrap_err s e = map_option (Wrapped s) e"

definition EnsureFinalizer ::
  "'w env \<Rightarrow> HermesInstance \<Rightarrow> 'w \<Rightarrow> go_error option \<times> HermesInstance \<times> 'w" where
  "EnsureFinalizer E inst w =
     (if \<not> bk_OnDelete (spec_Backup (hi_Spec inst)) then (None, inst, w)
      else if ContainsFinalizer inst FinalizerBackupOnDelete then (None, inst, w)
      else case patch_instance E inst (AddFinalizer FinalizerBackupOnDelete inst) w of
        (err, inst1, w1) \<Rightarrow> (wrap_err ''patch finalizer add'' err, inst1, w1))"

definition RemoveFinalizer ::
  "'w env \<Rightarrow> HermesInstance \<Rightarrow> 'w \<Rightarrow> go_error option \<times> HermesInstance \<times> 'w" where
  "RemoveFinalizer E inst w =
     (if \<not> ContainsFinalizer inst FinalizerBackupOnDelete then (None, inst, w)
      else case patch_instance E inst (DropFinalizer FinalizerBackupOnDelete inst) w of
        (err, inst1, w1) \<Rightarrow> (wrap_err ''patch finalizer remove'' err, inst1, w1))"

section \<open>Periodic backups\<close>

definition merge_labels :: "ObjectMeta \<Rightarrow> ObjectMeta \<Rightarrow> ObjectMeta" where
  "merge_labels desired m =
     m\<lparr>om_Labels := MergePreservingForeign (om_Labels m) (om_Labels desired) operatorLabelPrefix\<rparr>"

definition mutate_cronjob :: "'w env \<Rightarrow> HermesInstance \<Rightarrow> CronJob \<Rightarrow> CronJob \<Rightarrow> 'w \<Rightarrow> (go_error + CronJob) \<times> 'w" where
  "mutate_cronjob E inst desired obj w =
     (let obj1 = obj\<lparr>cj_Meta := merge_labels (cj_Meta desired) (cj_Meta obj), cj_Spec := cj_Spec desired\<rparr> in
      case env_set_owner E inst (cj_Meta obj1) of
        Inl e \<Rightarrow> (Inl e, w)
      | Inr m \<Rightarrow> (Inr (obj1\<lparr>cj_Meta := m\<rparr>), w))"

definition empty_cronjob :: "string \<Rightarrow> string \<Rightarrow> CronJob" where
  "empty_cronjob n ns =
     \<lparr>cj_Meta = new_meta n ns,
      cj_Spec = \<lparr>cj_Schedule = '''', cj_ConcurrencyPolicy = '''', cj_SuccessfulJobsHistoryLimit = None,
                 cj_FailedJobsHistoryLimit = None, cj_JobLabels = [],
                 cj_JobSpec = \<lparr>job_BackoffLimit = None, job_TTLSecondsAfterFinished = None,
                               job_Template = \<lparr>pts_Labels = [], pts_Spec = empty_pod_spec\<rparr>\<rparr>\<rparr>\<rparr>"

definition deleteCronJob ::
  "'w env \<Rightarrow> HermesInstance \<Rightarrow> string \<Rightarrow> 'w \<Rightarrow> go_error option \<times> HermesInstance \<times> 'w" where
  "deleteCronJob E inst name w =
     (case kc_get (env_cronjobs E) (inst_ns inst, name) w of
        (Inl e, w1) \<Rightarrow>
          if IsNotFound e then (None, drop_condition E ConditionBackupReady inst, w1)
          else (Some e, inst, w1)
      | (Inr cj, w1) \<Rightarrow>
          (case kc_delete (env_cronjobs E) cj w1 of
             (Some e, w2) \<Rightarrow>
               if IsNotFound e then (None, drop_condition E ConditionBackupReady inst, w2)
               else (Some e, inst, w2)
           | (None, w2) \<Rightarrow> (None, drop_condition E ConditionBackupReady inst, w2)))"

definition ReconcileCronJob ::
  "'w env \<Rightarrow> HermesInstance \<Rightarrow> 'w \<Rightarrow> go_error option \<times> HermesInstance \<times> 'w" where
  "ReconcileCronJob E inst w =
     (let bk = spec_Backup (hi_Spec inst) in
      if bk_Schedule bk = '''' \<or> bk_S3 bk = None
      then deleteCronJob E inst (BackupCronJobName inst) w
      else case kc_create_or_update (env_cronjobs E) (empty_cronjob (BackupCronJobName inst) (inst_ns inst))
                  (mutate_cronjob E inst (BuildBackupCronJob inst)) w of
        (Some e, w1) \<Rightarrow> (Some (Wrapped ''reconcile backup CronJob'' e), inst, w1)
      | (None, w1) \<Rightarrow>
         (case kc_create_or_update (env_cronjobs E) (empty_cronjob (BackupPruneCronJobName inst) (inst_ns inst))
                 (mutate_cronjob E inst (BuildBackupPruneCronJob inst)) w1 of
            (Some e, w2) \<Rightarrow> (Some (Wrapped ''reconcile prune CronJob'' e), inst, w2)
          | (None, w2) \<Rightarrow>
              (None,
               put_condition E w2 (condition inst ConditionBackupReady ConditionTrue ''Scheduled''
                  (''Backup CronJob '' @ quoted (BackupCronJobName inst) @ '' scheduled '' @ quoted (bk_Schedule bk))) inst,
               w2)))"

section \<open>The last backup before a deletion\<close>

type_synonym 'w deletion_result = "ctrl_result \<times> bool \<times> go_error option \<times> HermesInstance \<times> 'w"

text \<open>Releasing the finalizer; \<open>True\<close> means it is still held.\<close>

definition release :: "'w env \<Rightarrow> HermesInstance \<Rightarrow> 'w \<Rightarrow> 'w deletion_result" where
  "release E inst w =
     (case RemoveFinalizer E inst w of
        (Some e, inst1, w1) \<Rightarrow> (no_requeue, True, Some e, inst1, w1)
      | (None, inst1, w1) \<Rightarrow> (no_requeue, False, None, inst1, w1))"

definition set_last_failure :: "time \<Rightarrow> string \<Rightarrow> HermesInstance \<Rightarrow> HermesInstance" where
  "set_last_failure now reason inst =
     upd_status (\<lambda>s. s\<lparr>st_Backup := (st_Backup s)
       \<lparr>bst_LastFailureTime := Some now, bst_LastFailureReason := reason\<rparr>\<rparr>) inst"

definition set_last_success :: "time \<Rightarrow> HermesInstance \<Rightarrow> HermesInstance" where
  "set_last_success now inst =
     upd_status (\<lambda>s. s\<lparr>st_Backup := (st_Backup s)\<lparr>bst_LastSuccessTime := Some now\<rparr>\<rparr>) inst"

definition set_final_job :: "string \<Rightarrow> HermesInstance \<Rightarrow> HermesInstance" where
  "set_final_job n inst =
     upd_status (\<lambda>s. s\<lparr>st_Backup := (st_Backup s)\<lparr>bst_FinalBackupJobName := n\<rparr>\<rparr>) inst"

definition start_final_backup :: "'w env \<Rightarrow> HermesInstance \<Rightarrow> 'w \<Rightarrow> 'w deletion_result" where
  "start_final_backup E inst w =
     (let jobName = FinalBackupJobName inst;
          (now, w1) = env_now E w;
          key = SnapshotKey inst ''onDelete'' (format_key_time now);
          desired = BuildBackupOneShotJob inst
            \<lparr>opt_Name = jobName, opt_SnapshotKey = key, opt_Kind = ''onDelete''\<rparr> in
      case env_set_owner E inst (job_Meta desired) of
        Inl e \<Rightarrow> (no_requeue, True, Some e, inst, w1)
      | Inr m \<Rightarrow>
         (case kc_create (env_jobs E) (desired\<lparr>job_Meta := m\<rparr>) w1 of
            (cerr, w2) \<Rightarrow>
              if (case cerr of None \<Rightarrow> False | Some e \<Rightarrow> \<not> IsAlreadyExists e)
              then (no_requeue, True, wrap_err ''create final backup Job'' cerr, inst, w2)
              else (case status_update E (set_final_job jobName inst) w2 of
                      (Some e, inst1, w3) \<Rightarrow> (no_requeue, True, Some e, inst1, w3)
                    | (None, inst1, w3) \<Rightarrow>
                        (requeue_after (10 * Second), True, None, inst1,
                         env_record E (instance_ref inst1) EventNormal ''FinalBackupStarted''
                           (''Final backup Job '' @ quoted jobName @ '' started; snapshot key '' @ quoted key) w3))))"

text \<open>\<open>HandleDeletion\<close> from the lookup of the Job on.\<close>

definition await_final_backup :: "'w env \<Rightarrow> HermesInstance \<Rightarrow> 'w \<Rightarrow> 'w deletion_result" where
  "await_final_backup E inst w0 =
     (case GetJob E (FinalBackupJobName inst) (inst_ns inst) w0 of
        (Inl e, w1) \<Rightarrow> (no_requeue, True, Some e, inst, w1)
      | (Inr None, w1) \<Rightarrow> start_final_backup E inst w1
      | (Inr (Some job), w1) \<Rightarrow>
          (case IsJobFinished job of (finished, cond) \<Rightarrow>
             if \<not> finished then (requeue_after (10 * Second), True, None, inst, w1)
             else if cond = ''Failed''
             then
              (let w2 = env_record E (instance_ref inst) EventWarning ''FinalBackupFailed''
                     (''Final backup Job '' @ quoted (FinalBackupJobName inst) @
                      '' failed. Inspect logs, delete the Job to retry, or annotate '' @
                      quoted AnnotationSkipFinalBackup @ ''=true to skip.'') w1;
                   (now, w3) = env_now E w2 in
               case status_update E (set_last_failure now ''FinalBackupJobFailed'' inst) w3 of
                 (Some e, inst1, w4) \<Rightarrow> (no_requeue, True, Some e, inst1, w4)
               | (None, inst1, w4) \<Rightarrow> (requeue_after (30 * Second), True, None, inst1, w4))
             else
              (case env_now E w1 of (now, w2) \<Rightarrow>
               (case status_update E (set_last_success now inst) w2 of
                  (Some e, inst1, w3) \<Rightarrow> (no_requeue, True, Some e, inst1, w3)
                | (None, inst1, w3) \<Rightarrow> release E inst1 w3))))"

definition HandleDeletion :: "'w env \<Rightarrow> HermesInstance \<Rightarrow> 'w \<Rightarrow> 'w deletion_result" where
  "HandleDeletion E inst w =
     (if \<not> ContainsFinalizer inst FinalizerBackupOnDelete then (no_requeue, False, None, inst, w)
      else if mget0 (om_Annotations (hi_ObjectMeta inst)) AnnotationSkipFinalBackup = ''true''
      then release E inst
             (env_record E (instance_ref inst) EventWarning ''FinalBackupSkipped''
               (''Skipping final backup because annotation '' @ quoted AnnotationSkipFinalBackup @ '' is true'') w)
      else if bk_S3 (spec_Backup (hi_Spec inst)) = None
      then release E inst
             (env_record E (instance_ref inst) EventWarning ''FinalBackupSkipped''
               ''spec.backup.s3 is unset; cannot run final backup'' w)
      else
       (let (overdue, w0) =
          (case om_DeletionTimestamp (hi_ObjectMeta inst) of
             None \<Rightarrow> (False, w)
           | Some dt \<Rightarrow> (case env_now E w of (now, w1) \<Rightarrow> (finalBackupDeadline < now - dt, w1))) in
        if overdue
        then
         (let w1 = env_record E (instance_ref inst) EventWarning ''FinalBackupAbandoned''
                (''Final backup did not complete within 30m0s of deletion; releasing the finalizer so the instance can be deleted. The final snapshot was NOT taken and PVC data may be lost. Inspect Job '' @
                 quoted (FinalBackupJobName inst) @ '', or set annotation '' @
                 quoted AnnotationSkipFinalBackup @ ''=true to skip explicitly next time.'') w0;
              (now, w2) = env_now E w1;
              (_, inst1, w3) = status_update E (set_last_failure now ''FinalBackupDeadlineExceeded'' inst) w2
          in release E inst1 w3)
        else
         await_final_backup E inst w0))"

section \<open>The snapshot before an update\<close>

type_synonym 'w oneshot_result = "string \<times> bool \<times> go_error option \<times> HermesInstance \<times> 'w"

definition pre_snapshot :: "HermesInstance \<Rightarrow> string" where
  "pre_snapshot inst = ast_PreUpdateSnapshot (st_AutoUpdate (hi_Status inst))"

definition set_pre_snapshot :: "string \<Rightarrow> HermesInstance \<Rightarrow> HermesInstance" where
  "set_pre_snapshot k inst =
     upd_status (\<lambda>s. s\<lparr>st_AutoUpdate := (st_AutoUpdate s)\<lparr>ast_PreUpdateSnapshot := k\<rparr>\<rparr>) inst"

definition start_oneshot :: "'w env \<Rightarrow> HermesInstance \<Rightarrow> string \<Rightarrow> 'w \<Rightarrow> 'w oneshot_result" where
  "start_oneshot E inst key w =
     (let jobName = PreUpdateBackupJobName inst;
          desired = BuildBackupOneShotJob inst
            \<lparr>opt_Name = jobName, opt_SnapshotKey = key, opt_Kind = ''preUpdate''\<rparr> in
      case env_set_owner E inst (job_Meta desired) of
        Inl e \<Rightarrow> ('''', False, Some e, inst, w)
      | Inr m \<Rightarrow>
         (case kc_create (env_jobs E) (desired\<lparr>job_Meta := m\<rparr>) w of
            (cerr, w1) \<Rightarrow>
              if (case cerr of None \<Rightarrow> False | Some e \<Rightarrow> \<not> IsAlreadyExists e)
              then ('''', False, wrap_err ''create pre-update backup Job'' cerr, inst, w1)
              else (key, False, None, inst,
                    env_record E (instance_ref inst) EventNormal ''PreUpdateBackupStarted''
                      (''Pre-update backup Job '' @ quoted jobName @ '' started; snapshot '' @ quoted key) w1)))"

definition RunOneShot :: "'w env \<Rightarrow> HermesInstance \<Rightarrow> 'w \<Rightarrow> 'w oneshot_result" where
  "RunOneShot E inst w =
     (case env_now E w of (now, w1) \<Rightarrow>
      (let key = SnapshotKey inst ''preUpdate'' (format_key_time now) in
       case GetJob E (PreUpdateBackupJobName inst) (inst_ns inst) w1 of
         (Inl e, w2) \<Rightarrow> ('''', False, Some e, inst, w2)
       | (Inr None, w2) \<Rightarrow>
           if pre_snapshot inst = ''''
           then (case status_update E (set_pre_snapshot key inst) w2 of
                   (Some e, inst1, w3) \<Rightarrow> ('''', False, Some e, inst1, w3)
                 | (None, inst1, w3) \<Rightarrow> start_oneshot E inst1 key w3)
           else start_oneshot E inst (pre_snapshot inst) w2
       | (Inr (Some job), w2) \<Rightarrow>
           (case IsJobFinished job of (finished, cond) \<Rightarrow>
              if \<not> finished then (pre_snapshot inst, False, None, inst, w2)
              else if cond = ''Failed''
              then (pre_snapshot inst, False,
                    Some (Plain (''pre-update backup Job '' @ quoted (PreUpdateBackupJobName inst) @ '' failed'')), inst, w2)
              else (pre_snapshot inst, True, None, inst, w2))))"

section \<open>Facts\<close>

lemma IsJobFinished_cases:
  "IsJobFinished job = (True, t) \<Longrightarrow> t = ''Complete'' \<or> t = ''Failed''"
proof -
  have "IsJobFinished_cond cs = Some t \<Longrightarrow> t = ''Complete'' \<or> t = ''Failed''" for cs
    by (induction cs) (auto split: if_splits)
  then show "IsJobFinished job = (True, t) \<Longrightarrow> t = ''Complete'' \<or> t = ''Failed''"
    by (auto simp: IsJobFinished_def split: option.splits)
qed

lemma finalizer_simps [simp]:
  "ContainsFinalizer (AddFinalizer f inst) g \<longleftrightarrow> g = f \<or> ContainsFinalizer inst g"
  "ContainsFinalizer (DropFinalizer f inst) g \<longleftrightarrow> g \<noteq> f \<and> ContainsFinalizer inst g"
  "hi_Spec (AddFinalizer f inst) = hi_Spec inst"
  "hi_Spec (DropFinalizer f inst) = hi_Spec inst"
  by (auto simp: ContainsFinalizer_def AddFinalizer_def DropFinalizer_def)

lemma patch_instance_None:
  assumes "patch_echoes_meta E" and "patch_instance E i0 i w = (None, i', w')"
  shows "hi_Spec i' = hi_Spec i" and "ContainsFinalizer i' f = ContainsFinalizer i f"
proof -
  obtain w1 where p: "kc_patch (env_instances E) i0 i w = (Inr i', w1)"
    using assms(2) by (auto simp: patch_instance_def split: prod.splits sum.splits)
  then show "hi_Spec i' = hi_Spec i" and "ContainsFinalizer i' f = ContainsFinalizer i f"
    using patch_echoesD [OF assms(1)] unfolding ContainsFinalizer_def by (blast, metis)
qed

lemma wrap_err_None [simp]: "wrap_err s e = None \<longleftrightarrow> e = None"
  by (simp add: wrap_err_def)

lemma release_gone:
  assumes "patch_echoes_meta E" and "release E inst w = (r, False, None, inst', w')"
  shows "\<not> ContainsFinalizer inst' FinalizerBackupOnDelete"
  using assms(2) patch_instance_None(2) [OF assms(1), of inst "DropFinalizer FinalizerBackupOnDelete inst"]
  by (auto simp: release_def RemoveFinalizer_def split: prod.splits option.splits if_splits)

lemma release_result:
  "release E inst w = (r, held, err, inst', w') \<Longrightarrow> held = (err \<noteq> None)"
  by (auto simp: release_def split: prod.splits option.splits)

lemma release_requeue:
  "release E inst w = (r, held, err, inst', w') \<Longrightarrow> RequeueAfter r = 0"
  by (auto simp: release_def no_requeue_def split: prod.splits option.splits)

lemma start_final_held: "start_final_backup E inst w = (r, held, err, inst', w') \<Longrightarrow> held"
  by (auto simp: start_final_backup_def Let_def split: prod.splits sum.splits option.splits if_splits)

definition final_backup_done :: "'w env \<Rightarrow> HermesInstance \<Rightarrow> bool" where
  "final_backup_done E inst \<longleftrightarrow>
     (\<exists>w job w'. GetJob E (FinalBackupJobName inst) (inst_ns inst) w = (Inr (Some job), w') \<and>
        IsJobFinished job = (True, ''Complete''))"

lemma await_released:
  assumes "await_final_backup E inst w = (r, False, err, inst', w')"
  shows "final_backup_done E inst" and "\<exists>i w. release E i w = (r, False, err, inst', w')"
proof -
  obtain job w1 where g: "GetJob E (FinalBackupJobName inst) (inst_ns inst) w = (Inr (Some job), w1)"
    using assms
    by (auto simp: await_final_backup_def split: prod.splits sum.splits option.splits dest: start_final_held)
  obtain fin t where j: "IsJobFinished job = (fin, t)" by fastforce
  have ft: "fin \<and> t \<noteq> ''Failed''"
    using assms by (auto simp: await_final_backup_def g j Let_def split: prod.splits option.splits if_splits)
  then show "final_backup_done E inst"
    using g j IsJobFinished_cases [of job t] by (auto simp: final_backup_done_def)
  show "\<exists>i w. release E i w = (r, False, err, inst', w')"
    using assms ft
    by (auto simp: await_final_backup_def g j Let_def split: prod.splits option.splits if_splits)
qed

section \<open>Properties\<close>

definition overdue :: "'w env \<Rightarrow> HermesInstance \<Rightarrow> 'w \<Rightarrow> bool" where
  "overdue E inst w \<longleftrightarrow>
     (case om_DeletionTimestamp (hi_ObjectMeta inst) of
        None \<Rightarrow> False | Some dt \<Rightarrow> 30 * 60 * 1000000000 < fst (env_now E w) - dt)"

text \<open>
  C12. The finalizer guards the last snapshot: a deletion pass that releases it really removes it,
  and does so for one of four reasons only: the skip annotation, no object storage configured, the
  deadline of thirty minutes since the deletion request, or a final backup Job that completed.
\<close>

theorem finalizer_released_for_cause:
  assumes "patch_echoes_meta E" and "ContainsFinalizer inst FinalizerBackupOnDelete"
    and "HandleDeletion E inst w = (r, False, None, inst', w')"
  shows "\<not> ContainsFinalizer inst' FinalizerBackupOnDelete \<and>
    (mget0 (om_Annotations (hi_ObjectMeta inst)) AnnotationSkipFinalBackup = ''true'' \<or>
     bk_S3 (spec_Backup (hi_Spec inst)) = None \<or> overdue E inst w \<or> final_backup_done E inst)"
proof (cases "mget0 (om_Annotations (hi_ObjectMeta inst)) AnnotationSkipFinalBackup = ''true'' \<or>
     bk_S3 (spec_Backup (hi_Spec inst)) = None \<or> overdue E inst w")
  case True
  then have "\<exists>i w. release E i w = (r, False, None, inst', w')"
    using assms(2,3)
    by (auto simp: HandleDeletion_def overdue_def finalBackupDeadline_def durations
        split: if_splits option.splits prod.splits)
  then show ?thesis using release_gone [OF assms(1)] True by blast
next
  case False
  then have "\<exists>w0. await_final_backup E inst w0 = (r, False, None, inst', w')"
    using assms(2,3)
    by (auto simp: HandleDeletion_def overdue_def finalBackupDeadline_def durations Let_def
        split: if_splits option.splits prod.splits)
  then obtain w0 where a: "await_final_backup E inst w0 = (r, False, None, inst', w')" by blast
  from await_released(2) [OF a] obtain i w1 where "release E i w1 = (r, False, None, inst', w')" by blast
  from release_gone [OF assms(1) this] await_released(1) [OF a] show ?thesis by blast
qed

definition doomed :: HermesInstance where
  "doomed = zero_HermesInstance\<lparr>hi_ObjectMeta := (new_meta ''a'' ''ns'')
     \<lparr>om_Finalizers := [FinalizerBackupOnDelete]\<rparr>\<rparr>"

lemma finalizer_released_for_cause_witness:
  "\<exists>inst'. HandleDeletion quiet_env doomed () = (no_requeue, False, None, inst', ()) \<and>
     \<not> ContainsFinalizer inst' FinalizerBackupOnDelete"
proof -
  have c: "ContainsFinalizer doomed FinalizerBackupOnDelete"
    by (simp add: doomed_def ContainsFinalizer_def)
  have h: "HandleDeletion quiet_env doomed () =
      (no_requeue, False, None, DropFinalizer FinalizerBackupOnDelete doomed, ())"
    using c by (simp add: HandleDeletion_def release_def RemoveFinalizer_def patch_instance_def
        quiet_env_def quiet_client_def wrap_err_def)
      (simp add: doomed_def zero_defs mget0_def mget_def)
  from finalizer_released_for_cause [OF quiet_echoes(2) c h] h show ?thesis by blast
qed

text \<open>
  A deletion cannot hang: once thirty minutes have passed since the deletion request, a pass
  either releases the finalizer or reports the error of the patch that would have, whatever the
  state of the backup Job and whether or not the status could be written.
\<close>

theorem deletion_bounded:
  assumes "overdue E inst w" and "HandleDeletion E inst w = (r, held, err, inst', w')"
  shows "(held \<longrightarrow> err \<noteq> None) \<and> RequeueAfter r = 0"
proof -
  have "(\<exists>i w. release E i w = (r, held, err, inst', w')) \<or> (\<not> held \<and> r = no_requeue)"
    using assms
    by (auto simp: HandleDeletion_def overdue_def finalBackupDeadline_def durations
        split: if_splits option.splits prod.splits)
  then show ?thesis
  proof
    assume "\<exists>i w. release E i w = (r, held, err, inst', w')"
    then obtain i w1 where "release E i w1 = (r, held, err, inst', w')" by blast
    from release_requeue [OF this] release_result [OF this] show ?thesis by blast
  qed (simp add: no_requeue_def)
qed

definition late_env :: "unit env" where
  "late_env = quiet_env\<lparr>env_now := (\<lambda>w. (3600 * 1000000000, w))\<rparr>"

lemma deletion_bounded_witness:
  "case HandleDeletion late_env
     (doomed\<lparr>hi_ObjectMeta := (hi_ObjectMeta doomed)\<lparr>om_DeletionTimestamp := Some 0\<rparr>\<rparr>) () of
     (r, held, err, i, w') \<Rightarrow> (held \<longrightarrow> err \<noteq> None) \<and> RequeueAfter r = 0"
proof -
  let ?d = "doomed\<lparr>hi_ObjectMeta := (hi_ObjectMeta doomed)\<lparr>om_DeletionTimestamp := Some 0\<rparr>\<rparr>"
  have late: "overdue late_env ?d ()"
    by (simp add: overdue_def late_env_def)
  show ?thesis
    using deletion_bounded [OF late] by (auto split: prod.split)
qed

section \<open>Snapshot keys\<close>

text \<open>
  The directories of a path and its file, as an object store shows them: the parts between slashes.
  Those of a path prefix leave out the empty part after a slash at its end.
\<close>

fun segments :: "string \<Rightarrow> string list" where
  "segments [] = [[]]"
| "segments (c # s) = (if c = CHR ''/'' then [] # segments s else (c # hd (segments s)) # tl (segments s))"

definition raw_prefix :: "HermesInstance \<Rightarrow> string" where
  "raw_prefix inst = (case bk_S3 (spec_Backup (hi_Spec inst)) of None \<Rightarrow> '''' | Some s \<Rightarrow> bs3_PathPrefix s)"

definition prefix_segments :: "string \<Rightarrow> string list" where
  "prefix_segments p = (if p = '''' then [] else if last p = CHR ''/'' then segments (butlast p) else segments p)"

lemma segments_ne [simp]: "segments s \<noteq> []"
  by (cases s) simp_all

lemma segments_append: "segments (p @ CHR ''/'' # r) = segments p @ segments r"
  by (induction p) (simp_all add: hd_append)

lemma segments_plain: "CHR ''/'' \<notin> set s \<Longrightarrow> segments s = [s]"
  by (induction s) auto

lemma segments_prefix: "segments (key_prefix (bk_S3 (spec_Backup (hi_Spec inst))) @ r) = prefix_segments (raw_prefix inst) @ segments r"
proof -
  define p where "p = raw_prefix inst"
  have k: "key_prefix (bk_S3 (spec_Backup (hi_Spec inst))) = (if p \<noteq> '''' \<and> \<not> HasSuffix p ''/'' then p @ ''/'' else p)"
    by (simp add: key_prefix_def p_def raw_prefix_def split: option.split)
  show ?thesis
  proof (cases "p = ''''")
    case True
    then show ?thesis by (simp add: k prefix_segments_def p_def [symmetric])
  next
    case False
    then obtain q c where q: "p = q @ [c]" by (cases p rule: rev_cases) auto
    have suffix: "HasSuffix p ''/'' \<longleftrightarrow> c = CHR ''/''"
      by (auto simp: q HasSuffix_def)
    show ?thesis
      using segments_append [of q r] segments_append [of p r]
      by (simp add: k suffix prefix_segments_def p_def [symmetric]) (auto simp: q)
  qed
qed

text \<open>
  C29. A snapshot is stored under the directories of the path prefix, then those of the namespace and
  the name of its instance, in a directory for failed ones if it is one, in a file named after its
  time. So snapshots of one path prefix do not collide: two keys are equal only for the same
  instance, the same time and the same side of the failed directory. The periodic backup computes
  the directory itself, without the slash \<open>SnapshotKey\<close> adds after the prefix: the two directories
  agree exactly when the prefix is empty or ends with a slash.
\<close>

theorem snapshot_keys_injective:
  assumes "\<forall>s \<in> {inst_ns a, inst_name a, t, inst_ns b, inst_name b, u}. CHR ''/'' \<notin> set s"
  shows "segments (SnapshotKey a k t) = prefix_segments (raw_prefix a) @
      [inst_ns a, inst_name a] @ (if k = ''failed'' then [''failed''] else []) @ [t @ ''.tar.zst''] \<and>
    (SnapshotKey a k t = SnapshotKey b l u \<and> raw_prefix a = raw_prefix b \<longrightarrow>
      inst_ns a = inst_ns b \<and> inst_name a = inst_name b \<and> t = u \<and> (k = ''failed'' \<longleftrightarrow> l = ''failed''))"
proof -
  have seg: "segments (SnapshotKey i k t) = prefix_segments (raw_prefix i) @
      [inst_ns i, inst_name i] @ (if k = ''failed'' then [''failed''] else []) @ [t @ ''.tar.zst'']"
    if "\<forall>s \<in> {inst_ns i, inst_name i, t}. CHR ''/'' \<notin> set s" for i k t
  proof -
    have "CHR ''/'' \<notin> set (t @ ''.tar.zst'')" using that by simp
    then show ?thesis
      using that segments_append [of "inst_ns i"] segments_append [of "inst_name i"] segments_append [of "''failed''"]
      by (simp add: SnapshotKey_def Let_def segments_prefix segments_plain)
  qed
  show ?thesis using seg [of a t k] seg [of b u l] assms by (auto split: if_splits)
qed

definition s3_instance :: "string \<Rightarrow> HermesInstance" where
  "s3_instance p = (let z = zero_HermesInstance in
     z\<lparr>hi_ObjectMeta := new_meta ''a'' ''ns'', hi_Spec := (hi_Spec z)\<lparr>spec_Backup := (spec_Backup (hi_Spec z))
       \<lparr>bk_S3 := Some (zero_BackupS3Spec\<lparr>bs3_PathPrefix := p\<rparr>)\<rparr>\<rparr>\<rparr>)"

lemma snapshot_keys_injective_witness:
  "SnapshotKey (s3_instance ''prod'') ''onDelete'' ''t1'' \<noteq> SnapshotKey (s3_instance ''prod'') ''failed'' ''t1'' \<and>
   segments (SnapshotKey (s3_instance ''prod'') ''onDelete'' ''t1'') = [''prod'', ''ns'', ''a'', ''t1.tar.zst'']"
proof -
  have z: "inst_ns (s3_instance ''prod'') = ''ns''" "inst_name (s3_instance ''prod'') = ''a''" "raw_prefix (s3_instance ''prod'') = ''prod''"
    by (simp_all add: s3_instance_def raw_prefix_def new_meta_def Let_def)
  have "\<forall>s \<in> {inst_ns (s3_instance ''prod''), inst_name (s3_instance ''prod''), ''t1'',
      inst_ns (s3_instance ''prod''), inst_name (s3_instance ''prod''), ''t1''}. CHR ''/'' \<notin> set s"
    by (simp add: z)
  from snapshot_keys_injective [OF this, of "''onDelete''" "''failed''"] show ?thesis
    by (auto simp: z prefix_segments_def)
qed

lemma cron_directory:
  "s @ inst_ns i @ ''/'' @ inst_name i @ ''/'' =
   key_prefix (Some (zero_BackupS3Spec\<lparr>bs3_PathPrefix := s\<rparr>)) @ inst_ns i @ ''/'' @ inst_name i @ ''/'' \<longleftrightarrow>
   s = '''' \<or> HasSuffix s ''/''"
  by (auto simp: key_prefix_def)

section \<open>Turning periodic backups off\<close>

text \<open>
  Turning periodic backups off leaves the pruning CronJob behind: on any server where reading
  does not write, an object has the key it was read under and a deletion removes only its object,
  the pass that follows an empty schedule does not change the pruning CronJob.
\<close>

theorem prune_cronjob_survives:
  fixes see :: "'w \<Rightarrow> nsname \<Rightarrow> CronJob option"
  assumes read: "\<And>k w x w'. kc_get (env_cronjobs E) k w = (x, w') \<Longrightarrow>
      w' = w \<and> (\<forall>cj. x = Inr cj \<longrightarrow> (om_Namespace (cj_Meta cj), om_Name (cj_Meta cj)) = k)"
    and local: "\<And>cj k w x w'. kc_delete (env_cronjobs E) cj w = (x, w') \<Longrightarrow>
      k \<noteq> (om_Namespace (cj_Meta cj), om_Name (cj_Meta cj)) \<Longrightarrow> see w' k = see w k"
    and off: "bk_Schedule (spec_Backup (hi_Spec inst)) = ''''"
    and run: "ReconcileCronJob E inst w = (err, inst', w')"
  shows "see w' (inst_ns inst, BackupPruneCronJobName inst) = see w (inst_ns inst, BackupPruneCronJobName inst)"
proof -
  have ne: "BackupPruneCronJobName inst \<noteq> BackupCronJobName inst"
    by (simp add: name_defs)
  have d: "deleteCronJob E inst (BackupCronJobName inst) w = (err, inst', w')"
    using off run by (simp add: ReconcileCronJob_def)
  obtain x w1 where g: "kc_get (env_cronjobs E) (inst_ns inst, BackupCronJobName inst) w = (x, w1)" by fastforce
  from read [OF g] have w1: "w1 = w" by simp
  show ?thesis
  proof (cases x)
    case (Inl e)
    with d g w1 show ?thesis by (auto simp: deleteCronJob_def split: if_splits)
  next
    case (Inr cj)
    then have k: "(om_Namespace (cj_Meta cj), om_Name (cj_Meta cj)) = (inst_ns inst, BackupCronJobName inst)"
      using read [OF g] by simp
    obtain y w2 where del: "kc_delete (env_cronjobs E) cj w = (y, w2)" by fastforce
    have "w' = w2"
      using d g w1 Inr del by (auto simp: deleteCronJob_def split: option.splits if_splits)
    then show ?thesis using local [OF del] ne k by simp
  qed
qed

definition cron_world :: "((nsname \<Rightarrow> CronJob option)) env" where
  "cron_world = quiet_env\<lparr>env_cronjobs := quiet_client
     \<lparr>kc_get := (\<lambda>k w. (case w k of
          Some cj \<Rightarrow> if (om_Namespace (cj_Meta cj), om_Name (cj_Meta cj)) = k then Inr cj
                     else Inl (ApiStatus ReasonOther ''corrupt'')
        | None \<Rightarrow> Inl (ApiStatus ReasonNotFound ''not found''), w)),
      kc_delete := (\<lambda>cj w. (None, w((om_Namespace (cj_Meta cj), om_Name (cj_Meta cj)) := None)))\<rparr>\<rparr>"

lemma prune_cronjob_survives_witness:
  "snd (snd (ReconcileCronJob cron_world zero_HermesInstance
      [([], ''-backup-prune'') \<mapsto> BuildBackupPruneCronJob zero_HermesInstance,
       ([], ''-backup-cron'') \<mapsto> BuildBackupCronJob zero_HermesInstance])) ([], ''-backup-prune'') =
   Some (BuildBackupPruneCronJob zero_HermesInstance)"
proof -
  let ?w = "[([], ''-backup-prune'') \<mapsto> BuildBackupPruneCronJob zero_HermesInstance,
       ([], ''-backup-cron'') \<mapsto> BuildBackupCronJob zero_HermesInstance] :: nsname \<Rightarrow> CronJob option"
  have z: "inst_name zero_HermesInstance = []" "inst_ns zero_HermesInstance = []"
    "bk_Schedule (spec_Backup (hi_Spec zero_HermesInstance)) = []"
    by (simp_all add: zero_defs)
  obtain err i w' where r: "ReconcileCronJob cron_world zero_HermesInstance ?w = (err, i, w')"
    by (metis prod_cases3)
  have "w' (inst_ns zero_HermesInstance, BackupPruneCronJobName zero_HermesInstance) =
      ?w (inst_ns zero_HermesInstance, BackupPruneCronJobName zero_HermesInstance)"
    by (rule prune_cronjob_survives [where see = "\<lambda>w. w", OF _ _ z(3) r])
      (auto simp: cron_world_def split: option.splits if_splits)
  with r z show ?thesis by (simp add: name_defs)
qed

section \<open>The snapshot before an update\<close>

text \<open>
  A finished pre-update Job is taken for the snapshot of the next update: while the Job of an
  earlier update is still there, completed, the one-shot backup answers that it is done, without
  creating anything, and gives whatever snapshot key the status has, the empty one included.
\<close>

theorem oneshot_reuses_old_job:
  assumes "env_now E w = (now, w1)"
    and "kc_get (env_jobs E) (inst_ns inst, PreUpdateBackupJobName inst) w1 = (Inr job, w2)"
    and "IsJobFinished job = (True, ''Complete'')"
  shows "RunOneShot E inst w = (pre_snapshot inst, True, None, inst, w2)"
  using assms by (simp add: RunOneShot_def Let_def GetJob_def)

definition old_job :: Job where
  "old_job = (BuildBackupOneShotJob zero_HermesInstance \<lparr>opt_Name = ''-backup-preupdate'', opt_SnapshotKey = ''old'', opt_Kind = ''preUpdate''\<rparr>)
     \<lparr>job_Conditions := [\<lparr>jc_Type = ''Complete'', jc_Status = ConditionTrue\<rparr>]\<rparr>"

lemma oneshot_reuses_old_job_witness:
  "RunOneShot (quiet_env\<lparr>env_jobs := quiet_client\<lparr>kc_get := (\<lambda>k w. (Inr old_job, w))\<rparr>\<rparr>) zero_HermesInstance () =
   ('''', True, None, zero_HermesInstance, ())"
  using oneshot_reuses_old_job
    [of "quiet_env\<lparr>env_jobs := quiet_client\<lparr>kc_get := (\<lambda>k w. (Inr old_job, w))\<rparr>\<rparr>" "()" 0 "()" zero_HermesInstance old_job "()"]
  by (simp add: quiet_env_def IsJobFinished_def old_job_def pre_snapshot_def zero_defs)

text \<open>
  The backup pods have nowhere to put their temporary file: every one of them runs on a
  read-only root file system, its only mount is the instance's data (read-only for the periodic
  backup, none for pruning), and the backup scripts start with \<open>mktemp\<close>.
\<close>

theorem backup_pods_have_no_tmp:
  "(\<forall>c \<in> set (ps_Containers (pts_Spec (job_Template (job_Spec (BuildBackupOneShotJob inst opts))))).
      ctr_SecurityContext c = Some restricted_scx \<and>
      ctr_VolumeMounts c = [mount ''data'' ''/home/hermes/.hermes'' False] \<and>
      Contains (ctr_Args c ! 1) ''META=$(mktemp)'') \<and>
   (\<forall>c \<in> set (ps_Containers (pts_Spec (job_Template (cj_JobSpec (cj_Spec (BuildBackupCronJob inst)))))).
      ctr_SecurityContext c = Some restricted_scx \<and>
      ctr_VolumeMounts c = [mount ''data'' ''/home/hermes/.hermes'' True]) \<and>
   scx_ReadOnlyRootFilesystem restricted_scx = Some True"
  by (simp add: BuildBackupOneShotJob_def BuildBackupCronJob_def Let_def backup_pod_def
      restic_container_def script_container_def restricted_scx_def backup_script_def HasPrefix_def)

lemma backup_pods_have_no_tmp_witness:
  "ctr_VolumeMounts (hd (ps_Containers (pts_Spec (job_Template (cj_JobSpec (cj_Spec (BuildBackupCronJob zero_HermesInstance))))))) =
   [mount ''data'' ''/home/hermes/.hermes'' True]"
  using backup_pods_have_no_tmp [of zero_HermesInstance]
  by (simp add: BuildBackupCronJob_def Let_def backup_pod_def)

end
