(* ===== verification/Objects.thy ===== *)
theory Objects
  imports Workspace Workload Config Grafana Backup
begin

text \<open>
  The per-subsystem reconcilers of \<open>internal/controller/hermesinstance_controller.go\<close>, from
  \<open>reconcileSecret\<close> to \<open>reconcileTailscale\<close>, with \<open>deleteIfExists\<close>. Each \<open>mutate_\<close> definition is the
  callback its reconciler hands to \<open>controllerutil.CreateOrUpdate\<close>. What the steps leave in the
  cluster is shown in theory \<open>Cluster\<close>.
\<close>

section \<open>Helpers\<close>

definition merge_annotations :: "ObjectMeta \<Rightarrow> ObjectMeta \<Rightarrow> ObjectMeta" where
  "merge_annotations desired m =
     m\<lparr>om_Annotations := MergePreservingForeign (om_Annotations m) (om_Annotations desired) operatorLabelPrefix\<rparr>"

text \<open>\<open>controllerutil.SetControllerReference(inst, obj, r.Scheme)\<close> as the last statement of a callback.\<close>

definition own :: "'w env \<Rightarrow> HermesInstance \<Rightarrow> ('o \<Rightarrow> ObjectMeta) \<Rightarrow> ((ObjectMeta \<Rightarrow> ObjectMeta) \<Rightarrow> 'o \<Rightarrow> 'o) \<Rightarrow> 'o \<Rightarrow> 'w \<Rightarrow> (go_error + 'o) \<times> 'w" where
  "own E inst get_meta upd obj w =
     (case env_set_owner E inst (get_meta obj) of Inl e \<Rightarrow> (Inl e, w) | Inr m \<Rightarrow> (Inr (upd (\<lambda>_. m) obj), w))"

definition deleteIfExists :: "('o, 'w) kind_client \<Rightarrow> nsname \<Rightarrow> 'w \<Rightarrow> go_error option \<times> 'w" where
  "deleteIfExists kc key w =
     (case kc_get kc key w of
        (Inl e, w1) \<Rightarrow> if IsNotFound e then (None, w1) else (Some e, w1)
      | (Inr obj, w1) \<Rightarrow>
          (case kc_delete kc obj w1 of
             (Some e, w2) \<Rightarrow> if IsNotFound e then (None, w2) else (Some e, w2)
           | (None, w2) \<Rightarrow> (None, w2)))"

text \<open>One step after another, and the prefix a step puts before its error.\<close>

type_synonym 'w act = "'w \<Rightarrow> go_error option \<times> 'w"

definition and_then :: "'w act \<Rightarrow> 'w act \<Rightarrow> 'w act" where
  "and_then a b w = (case a w of (Some e, w1) \<Rightarrow> (Some e, w1) | (None, w1) \<Rightarrow> b w1)"

definition labelled :: "string \<Rightarrow> 'w act \<Rightarrow> 'w act" where
  "labelled s a w = (case a w of (Some e, w1) \<Rightarrow> (Some (wrapf s e), w1) | (None, w1) \<Rightarrow> (None, w1))"

section \<open>Secret and storage\<close>

definition EncodeToString :: "string \<Rightarrow> string" where
  "EncodeToString b = concat (map (\<lambda>c. [hex_digit (of_char c div 16), hex_digit (of_char c mod 16)]) b)"

definition GenerateAPIServerKey :: "'w env \<Rightarrow> 'w \<Rightarrow> (go_error + string) \<times> 'w" where
  "GenerateAPIServerKey E w =
     (case env_random E w of
        (Inl e, w1) \<Rightarrow> (Inl (Wrapped ''generate api server key'' e), w1)
      | (Inr b, w1) \<Rightarrow> (Inr (EncodeToString b), w1))"

definition empty_secret :: "string \<Rightarrow> string \<Rightarrow> Secret" where
  "empty_secret n ns = \<lparr>sec_Meta = new_meta n ns, sec_Type = '''', sec_Data = [], sec_StringData = []\<rparr>"

definition mutate_secret :: "'w env \<Rightarrow> HermesInstance \<Rightarrow> Secret \<Rightarrow> 'w \<Rightarrow> (go_error + Secret) \<times> 'w" where
  "mutate_secret E inst obj w =
     (let desired = BuildGatewayTokenSecret inst;
          obj1 = obj\<lparr>sec_Meta := merge_annotations (sec_Meta desired) (merge_labels (sec_Meta desired) (sec_Meta obj)),
                     sec_Type := sec_Type desired\<rparr> in
      if mget0 (sec_Data obj1) APIServerKeySecretKey = ''''
      then (case GenerateAPIServerKey E w of
              (Inl e, w1) \<Rightarrow> (Inl e, w1)
            | (Inr key, w1) \<Rightarrow>
                own E inst sec_Meta sec_Meta_update (obj1\<lparr>sec_Data := mset1 APIServerKeySecretKey key (sec_Data obj1)\<rparr>) w1)
      else own E inst sec_Meta sec_Meta_update obj1 w)"

definition reconcileSecret :: "'w env \<Rightarrow> HermesInstance \<Rightarrow> 'w act" where
  "reconcileSecret E inst =
     kc_create_or_update (env_secrets E) (empty_secret (GatewayTokenSecretName inst) (inst_ns inst)) (mutate_secret E inst)"

text \<open>\<open>resource.MustParse\<close> panics on a size that is no quantity.\<close>

definition must_parse_ok :: "'w env \<Rightarrow> PersistentVolumeClaim \<Rightarrow> bool" where
  "must_parse_ok E c = env_quantity_ok E (pvc_StorageRequest c)"

definition bad_quantity :: go_error where
  "bad_quantity = GoPanic ''cannot parse quantity''"

definition create_owned_pvc :: "'w env \<Rightarrow> HermesInstance \<Rightarrow> string \<Rightarrow> string \<Rightarrow> PersistentVolumeClaim \<Rightarrow> 'w act" where
  "create_owned_pvc E inst owner_label create_label desired w =
     (if \<not> must_parse_ok E desired then (Some bad_quantity, w)
      else case env_set_owner E inst (pvc_Meta desired) of
        Inl e \<Rightarrow> (Some (if owner_label = '''' then e else wrapf owner_label e), w)
      | Inr m \<Rightarrow>
         (case kc_create (env_pvcs E) (desired\<lparr>pvc_Meta := m\<rparr>) w of
            (Some e, w1) \<Rightarrow> (Some (if create_label = '''' then e else wrapf create_label e), w1)
          | (None, w1) \<Rightarrow> (None, w1)))"

definition reconcilePVC :: "'w env \<Rightarrow> HermesInstance \<Rightarrow> 'w act" where
  "reconcilePVC E inst w =
     (case kc_get (env_pvcs E) (inst_ns inst, PVCName inst) w of
        (Inl e, w1) \<Rightarrow> if IsNotFound e then create_owned_pvc E inst '''' '''' (BuildPVC inst) w1 else (Some e, w1)
      | (Inr pvc, w1) \<Rightarrow> (None, w1))"

section \<open>ConfigMaps\<close>

definition empty_configmap :: "string \<Rightarrow> string \<Rightarrow> ConfigMap" where
  "empty_configmap n ns = \<lparr>cm_Meta = new_meta n ns, cm_Data = []\<rparr>"

definition resolveConfigBody :: "yaml_lib \<Rightarrow> 'w env \<Rightarrow> HermesInstance \<Rightarrow> 'w \<Rightarrow> (go_error + string) \<times> 'w" where
  "resolveConfigBody yl E inst w =
     (let cs = spec_Config (hi_Spec inst) in
      case cfg_ConfigMapRef cs of
        None \<Rightarrow> (Inr '''', w)
      | Some ref \<Rightarrow>
         (case kc_get (env_configmaps E) (inst_ns inst, ref) w of
            (Inl e, w1) \<Rightarrow> (Inl (Wrapped (''resolve configMapRef '' @ quoted ref) e), w1)
          | (Inr user, w1) \<Rightarrow>
              (let base = mget0 (cm_Data user) ''config.yaml'' in
               case cfg_Raw cs of
                 None \<Rightarrow> (Inr base, w1)
               | Some raw \<Rightarrow>
                   if cfg_MergeMode cs = ConfigMergeModeMerge
                   then (MergeYAMLBodies yl base (rawcfg_RawExtension raw), w1)
                   else (Inr '''', w1))))"

definition put_configmap :: "'w env \<Rightarrow> HermesInstance \<Rightarrow> ConfigMap \<Rightarrow> ConfigMap \<Rightarrow> 'w \<Rightarrow> (go_error + ConfigMap) \<times> 'w" where
  "put_configmap E inst desired obj w =
     own E inst cm_Meta cm_Meta_update
       (obj\<lparr>cm_Meta := merge_labels (cm_Meta desired) (cm_Meta obj), cm_Data := cm_Data desired\<rparr>) w"

definition mutate_configmap :: "yaml_lib \<Rightarrow> 'w env \<Rightarrow> HermesInstance \<Rightarrow> string \<Rightarrow> ConfigMap \<Rightarrow> 'w \<Rightarrow> (go_error + ConfigMap) \<times> 'w" where
  "mutate_configmap yl E inst body obj w =
     (case BuildConfigMap yl inst body of
        Inl e \<Rightarrow> (Inl e, w)
      | Inr desired \<Rightarrow> put_configmap E inst desired obj w)"

definition reconcileConfigMap :: "yaml_lib \<Rightarrow> 'w env \<Rightarrow> HermesInstance \<Rightarrow> 'w act" where
  "reconcileConfigMap yl E inst w =
     (case resolveConfigBody yl E inst w of
        (Inl e, w1) \<Rightarrow> (Some e, w1)
      | (Inr body, w1) \<Rightarrow>
          kc_create_or_update (env_configmaps E) (empty_configmap (ConfigMapName inst) (inst_ns inst))
            (mutate_configmap yl E inst body) w1)"

definition mutate_workspace :: "'w env \<Rightarrow> HermesInstance \<Rightarrow> ConfigMap \<Rightarrow> 'w \<Rightarrow> (go_error + ConfigMap) \<times> 'w" where
  "mutate_workspace E inst obj w = put_configmap E inst (BuildWorkspaceConfigMap inst) obj w"

definition reconcileWorkspaceConfigMap :: "'w env \<Rightarrow> HermesInstance \<Rightarrow> 'w act" where
  "reconcileWorkspaceConfigMap E inst =
     kc_create_or_update (env_configmaps E) (empty_configmap (WorkspaceConfigMapName inst) (inst_ns inst)) (mutate_workspace E inst)"

definition mutate_dashboard :: "'w env \<Rightarrow> HermesInstance \<Rightarrow> ConfigMap \<Rightarrow> ConfigMap \<Rightarrow> 'w \<Rightarrow> (go_error + ConfigMap) \<times> 'w" where
  "mutate_dashboard E inst desired obj w =
     own E inst cm_Meta cm_Meta_update
       (obj\<lparr>cm_Meta := merge_annotations (cm_Meta desired) (merge_labels (cm_Meta desired) (cm_Meta obj)),
            cm_Data := cm_Data desired\<rparr>) w"

definition apply_dashboard :: "'w env \<Rightarrow> HermesInstance \<Rightarrow> ConfigMap \<Rightarrow> 'w act" where
  "apply_dashboard E inst desired =
     kc_create_or_update (env_configmaps E) (empty_configmap (om_Name (cm_Meta desired)) (om_Namespace (cm_Meta desired)))
       (mutate_dashboard E inst desired)"

definition reconcileGrafanaDashboards :: "'w env \<Rightarrow> HermesInstance \<Rightarrow> 'w act" where
  "reconcileGrafanaDashboards E inst =
     (if \<not> GrafanaDashboardEnabled inst
      then and_then (deleteIfExists (env_configmaps E) (inst_ns inst, GrafanaDashboardOperatorName inst))
                    (deleteIfExists (env_configmaps E) (inst_ns inst, GrafanaDashboardInstanceName inst))
      else and_then (apply_dashboard E inst (BuildGrafanaDashboardOperator inst))
                    (apply_dashboard E inst (BuildGrafanaDashboardInstance inst)))"

section \<open>Access\<close>

definition mutate_sa :: "'w env \<Rightarrow> HermesInstance \<Rightarrow> ServiceAccount \<Rightarrow> 'w \<Rightarrow> (go_error + ServiceAccount) \<times> 'w" where
  "mutate_sa E inst obj w =
     (let desired = BuildServiceAccount inst in
      own E inst sa_Meta sa_Meta_update
        (obj\<lparr>sa_Meta := merge_annotations (sa_Meta desired) (merge_labels (sa_Meta desired) (sa_Meta obj)),
             sa_AutomountServiceAccountToken := sa_AutomountServiceAccountToken desired\<rparr>) w)"

definition mutate_role :: "'w env \<Rightarrow> HermesInstance \<Rightarrow> Role \<Rightarrow> 'w \<Rightarrow> (go_error + Role) \<times> 'w" where
  "mutate_role E inst obj w =
     (let desired = BuildRole inst in
      own E inst role_Meta role_Meta_update
        (obj\<lparr>role_Meta := merge_labels (role_Meta desired) (role_Meta obj), role_Rules := role_Rules desired\<rparr>) w)"

definition mutate_rolebinding :: "'w env \<Rightarrow> HermesInstance \<Rightarrow> RoleBinding \<Rightarrow> 'w \<Rightarrow> (go_error + RoleBinding) \<times> 'w" where
  "mutate_rolebinding E inst obj w =
     (let desired = BuildRoleBinding inst in
      own E inst rb_Meta rb_Meta_update
        (obj\<lparr>rb_Meta := merge_labels (rb_Meta desired) (rb_Meta obj), rb_Subjects := rb_Subjects desired,
             rb_RoleRef := rb_RoleRef desired\<rparr>) w)"

definition reconcileRBAC :: "'w env \<Rightarrow> HermesInstance \<Rightarrow> 'w act" where
  "reconcileRBAC E inst =
     (if \<not> BoolValueOrDefault (rbac_CreateServiceAccount (secy_RBAC (spec_Security (hi_Spec inst)))) True then (\<lambda>w. (None, w))
      else and_then
        (labelled ''sa'' (kc_create_or_update (env_serviceaccounts E)
           \<lparr>sa_Meta = new_meta (ServiceAccountName inst) (inst_ns inst), sa_AutomountServiceAccountToken = None\<rparr> (mutate_sa E inst)))
        (and_then
          (labelled ''role'' (kc_create_or_update (env_roles E)
             \<lparr>role_Meta = new_meta (RoleName inst) (inst_ns inst), role_Rules = []\<rparr> (mutate_role E inst)))
          (labelled ''rolebinding'' (kc_create_or_update (env_rolebindings E)
             \<lparr>rb_Meta = new_meta (RoleBindingName inst) (inst_ns inst), rb_Subjects = [],
              rb_RoleRef = \<lparr>ref_APIGroup = '''', ref_Kind = '''', ref_Name = ''''\<rparr>\<rparr> (mutate_rolebinding E inst)))))"

section \<open>Network\<close>

definition empty_netpol :: "string \<Rightarrow> string \<Rightarrow> NetworkPolicy" where
  "empty_netpol n ns = \<lparr>np_Meta = new_meta n ns,
     np_Spec = \<lparr>nps_PodSelector = [], nps_PolicyTypes = [], nps_Ingress = [], nps_Egress = []\<rparr>\<rparr>"

definition mutate_netpol :: "'w env \<Rightarrow> HermesInstance \<Rightarrow> NetworkPolicy \<Rightarrow> NetworkPolicy \<Rightarrow> 'w \<Rightarrow> (go_error + NetworkPolicy) \<times> 'w" where
  "mutate_netpol E inst desired obj w =
     own E inst np_Meta np_Meta_update
       (obj\<lparr>np_Meta := merge_labels (np_Meta desired) (np_Meta obj), np_Spec := np_Spec desired\<rparr>) w"

definition netpol_enabled :: "HermesInstance \<Rightarrow> bool" where
  "netpol_enabled inst = BoolValueOrDefault (netpol_Enabled (secy_NetworkPolicy (spec_Security (hi_Spec inst)))) True"

definition reconcileNetworkPolicy :: "'w env \<Rightarrow> HermesInstance \<Rightarrow> 'w act" where
  "reconcileNetworkPolicy E inst =
     (if \<not> netpol_enabled inst then deleteIfExists (env_netpols E) (inst_ns inst, NetworkPolicyName inst)
      else kc_create_or_update (env_netpols E) (empty_netpol (NetworkPolicyName inst) (inst_ns inst))
             (mutate_netpol E inst (BuildNetworkPolicy inst)))"

definition empty_service :: "string \<Rightarrow> string \<Rightarrow> Service" where
  "empty_service n ns = \<lparr>svc_Meta = new_meta n ns,
     svc_Spec = \<lparr>svs_Type = '''', svs_ClusterIP = '''', svs_ClusterIPs = [], svs_SessionAffinity = '''', svs_Selector = [],
                 svs_Ports = [], svs_LoadBalancerClass = None, svs_ExternalTrafficPolicy = ''''\<rparr>\<rparr>"

text \<open>The desired spec, with the cluster IPs the API server has given.\<close>

definition keep_cluster_ip :: "CoreServiceSpec \<Rightarrow> CoreServiceSpec \<Rightarrow> CoreServiceSpec" where
  "keep_cluster_ip old desired =
     (if svs_ClusterIP old \<noteq> '''' then desired\<lparr>svs_ClusterIP := svs_ClusterIP old, svs_ClusterIPs := svs_ClusterIPs old\<rparr>
      else desired)"

definition mutate_service :: "'w env \<Rightarrow> HermesInstance \<Rightarrow> Service \<Rightarrow> Service \<Rightarrow> 'w \<Rightarrow> (go_error + Service) \<times> 'w" where
  "mutate_service E inst desired obj w =
     own E inst svc_Meta svc_Meta_update
       (obj\<lparr>svc_Meta := merge_annotations (svc_Meta desired) (merge_labels (svc_Meta desired) (svc_Meta obj)),
            svc_Spec := keep_cluster_ip (svc_Spec obj) (svc_Spec desired)\<rparr>) w"

definition reconcileService :: "'w env \<Rightarrow> HermesInstance \<Rightarrow> 'w act" where
  "reconcileService E inst =
     kc_create_or_update (env_services E) (empty_service (ServiceName inst) (inst_ns inst))
       (mutate_service E inst (BuildService inst))"

definition mutate_pdb :: "'w env \<Rightarrow> HermesInstance \<Rightarrow> PodDisruptionBudget \<Rightarrow> 'w \<Rightarrow> (go_error + PodDisruptionBudget) \<times> 'w" where
  "mutate_pdb E inst obj w =
     (let desired = BuildPDB inst in
      own E inst pdb_Meta pdb_Meta_update
        (obj\<lparr>pdb_Meta := merge_labels (pdb_Meta desired) (pdb_Meta obj), pdb_Selector := pdb_Selector desired,
             pdb_MinAvailable := pdb_MinAvailable desired, pdb_MaxUnavailable := pdb_MaxUnavailable desired\<rparr>) w)"

definition reconcilePDB :: "'w env \<Rightarrow> HermesInstance \<Rightarrow> 'w act" where
  "reconcilePDB E inst =
     (if \<not> BoolValue (pdbs_Enabled (avail_PodDisruptionBudget (spec_Availability (hi_Spec inst))))
      then deleteIfExists (env_pdbs E) (inst_ns inst, PDBName inst)
      else kc_create_or_update (env_pdbs E)
             \<lparr>pdb_Meta = new_meta (PDBName inst) (inst_ns inst), pdb_Selector = [], pdb_MinAvailable = None, pdb_MaxUnavailable = None\<rparr>
             (mutate_pdb E inst))"

definition mutate_hpa :: "'w env \<Rightarrow> HermesInstance \<Rightarrow> HorizontalPodAutoscaler \<Rightarrow> 'w \<Rightarrow> (go_error + HorizontalPodAutoscaler) \<times> 'w" where
  "mutate_hpa E inst obj w =
     (let desired = BuildHPA inst in
      own E inst hpa_Meta hpa_Meta_update
        (obj\<lparr>hpa_Meta := merge_labels (hpa_Meta desired) (hpa_Meta obj), hpa_ScaleTargetRef := hpa_ScaleTargetRef desired,
             hpa_MinReplicas := hpa_MinReplicas desired, hpa_MaxReplicas := hpa_MaxReplicas desired,
             hpa_Metrics := hpa_Metrics desired, hpa_Behavior := hpa_Behavior desired\<rparr>) w)"

definition reconcileHPA :: "'w env \<Rightarrow> HermesInstance \<Rightarrow> 'w act" where
  "reconcileHPA E inst =
     (if \<not> IsHPAEnabled inst then deleteIfExists (env_hpas E) (inst_ns inst, HPAName inst)
      else kc_create_or_update (env_hpas E)
             \<lparr>hpa_Meta = new_meta (HPAName inst) (inst_ns inst), hpa_ScaleTargetRef = ('''', '''', ''''), hpa_MinReplicas = None,
              hpa_MaxReplicas = 0, hpa_Metrics = [], hpa_Behavior = None\<rparr>
             (mutate_hpa E inst))"

definition mutate_ingress :: "'w env \<Rightarrow> HermesInstance \<Rightarrow> Ingress \<Rightarrow> 'w \<Rightarrow> (go_error + Ingress) \<times> 'w" where
  "mutate_ingress E inst obj w =
     (let desired = BuildIngress inst in
      own E inst ing_Meta ing_Meta_update
        (obj\<lparr>ing_Meta := merge_annotations (ing_Meta desired) (merge_labels (ing_Meta desired) (ing_Meta obj)),
             ing_IngressClassName := ing_IngressClassName desired, ing_Rules := ing_Rules desired, ing_TLS := ing_TLS desired\<rparr>) w)"

definition reconcileIngress :: "'w env \<Rightarrow> HermesInstance \<Rightarrow> 'w act" where
  "reconcileIngress E inst =
     (if \<not> BoolValue (ingr_Enabled (nw_Ingress (spec_Networking (hi_Spec inst))))
      then deleteIfExists (env_ingresses E) (inst_ns inst, IngressName inst)
      else kc_create_or_update (env_ingresses E)
             \<lparr>ing_Meta = new_meta (IngressName inst) (inst_ns inst), ing_IngressClassName = None, ing_Rules = [], ing_TLS = []\<rparr>
             (mutate_ingress E inst))"

section \<open>Gateway API and Prometheus objects\<close>

definition IsNoMatchError :: "go_error \<Rightarrow> bool" where
  "IsNoMatchError e = (case e of NoKindMatch _ \<Rightarrow> True | _ \<Rightarrow> False)"

definition IsNotRegisteredError :: "go_error \<Rightarrow> bool" where
  "IsNotRegisteredError e = (case e of NotRegistered _ \<Rightarrow> True | _ \<Rightarrow> False)"

definition ignoreNoGatewayAPI :: "go_error option \<Rightarrow> go_error option" where
  "ignoreNoGatewayAPI err =
     (case err of
        None \<Rightarrow> None
      | Some e \<Rightarrow> if IsNoMatchError e \<or> IsNotRegisteredError e then None else Some e)"

text \<open>
  The callback takes the spec and the owner of the object built beforehand; annotations are merged
  for the HTTPRoute only.
\<close>

definition mutate_unstructured :: "bool \<Rightarrow> Unstructured \<Rightarrow> Unstructured \<Rightarrow> 'w \<Rightarrow> (go_error + Unstructured) \<times> 'w" where
  "mutate_unstructured annotate desired obj w =
     (let m = merge_labels (un_Meta desired) (un_Meta obj);
          m = (if annotate then merge_annotations (un_Meta desired) m else m)
      in (Inr (obj\<lparr>un_Spec := un_Spec desired, un_Meta := m\<lparr>om_OwnerReferences := om_OwnerReferences (un_Meta desired)\<rparr>\<rparr>), w))"

definition apply_unstructured :: "'w env \<Rightarrow> HermesInstance \<Rightarrow> bool \<Rightarrow> Unstructured \<Rightarrow> 'w act" where
  "apply_unstructured E inst annotate desired w =
     (case env_set_owner E inst (un_Meta desired) of
        Inl e \<Rightarrow> (Some e, w)
      | Inr m \<Rightarrow>
          kc_create_or_update (env_unstructured E (un_GVK desired))
            \<lparr>un_GVK = un_GVK desired, un_Meta = new_meta (om_Name (un_Meta desired)) (om_Namespace (un_Meta desired)), un_Spec = JNull\<rparr>
            (mutate_unstructured annotate (desired\<lparr>un_Meta := m\<rparr>)) w)"

definition httproute_enabled :: "HermesInstance \<Rightarrow> bool" where
  "httproute_enabled inst =
     (case nw_HTTPRoute (spec_Networking (hi_Spec inst)) of None \<Rightarrow> False | Some s \<Rightarrow> BoolValue (hr_Enabled s))"

definition reconcileHTTPRoute :: "'w env \<Rightarrow> HermesInstance \<Rightarrow> 'w act" where
  "reconcileHTTPRoute E inst w =
     (if \<not> httproute_enabled inst
      then (case deleteIfExists (env_unstructured E HTTPRouteGVK) (inst_ns inst, HTTPRouteName inst) w of
              (err, w1) \<Rightarrow> (ignoreNoGatewayAPI err, w1))
      else case BuildHTTPRoute inst of
        None \<Rightarrow> (Some nil_deref, w)
      | Some desired \<Rightarrow> apply_unstructured E inst True desired w)"

definition reconcileServiceMonitor :: "bool \<Rightarrow> 'w env \<Rightarrow> HermesInstance \<Rightarrow> 'w act" where
  "reconcileServiceMonitor crds E inst =
     (if \<not> crds then (\<lambda>w. (None, w))
      else if \<not> BoolValue (sm_Enabled (obs_ServiceMonitor (spec_Observability (hi_Spec inst))))
      then deleteIfExists (env_unstructured E ServiceMonitorGVK) (inst_ns inst, ServiceMonitorName inst)
      else apply_unstructured E inst False (BuildServiceMonitor inst))"

definition reconcilePrometheusRule :: "bool \<Rightarrow> 'w env \<Rightarrow> HermesInstance \<Rightarrow> 'w act" where
  "reconcilePrometheusRule crds E inst =
     (if \<not> crds then (\<lambda>w. (None, w))
      else if \<not> BoolValue (prs_Enabled (obs_PrometheusRule (spec_Observability (hi_Spec inst))))
      then deleteIfExists (env_unstructured E PrometheusRuleGVK) (inst_ns inst, PrometheusRuleName inst)
      else apply_unstructured E inst False (BuildPrometheusRule inst))"

section \<open>Workloads\<close>

definition empty_template :: PodTemplateSpec where
  "empty_template = \<lparr>pts_Labels = [], pts_Spec = empty_pod_spec\<rparr>"

definition empty_statefulset :: "string \<Rightarrow> string \<Rightarrow> StatefulSet" where
  "empty_statefulset n ns =
     \<lparr>sts_Meta = new_meta n ns,
      sts_Spec = \<lparr>sts_ServiceName = '''', sts_Replicas = None, sts_RevisionHistoryLimit = None, sts_PodManagementPolicy = '''',
                  sts_UpdateStrategy = ('''', None), sts_PVCRetention = None, sts_Selector = [], sts_Template = empty_template\<rparr>,
      sts_StatusReplicas = 0, sts_StatusReadyReplicas = 0, sts_StatusUpdatedReplicas = 0, sts_StatusCurrentRevision = ''''\<rparr>"

definition mutate_statefulset :: "bool \<Rightarrow> 'w env \<Rightarrow> HermesInstance \<Rightarrow> StatefulSet \<Rightarrow> 'w \<Rightarrow> (go_error + StatefulSet) \<times> 'w" where
  "mutate_statefulset migration E inst obj w =
     (let desired = stateful_set_for migration inst in
      own E inst sts_Meta sts_Meta_update
        (obj\<lparr>sts_Meta := merge_labels (sts_Meta desired) (sts_Meta obj), sts_Spec := sts_Spec desired\<rparr>) w)"

definition reconcileStatefulSet :: "bool \<Rightarrow> 'w env \<Rightarrow> HermesInstance \<Rightarrow> 'w act" where
  "reconcileStatefulSet migration E inst =
     kc_create_or_update (env_statefulsets E) (empty_statefulset (StatefulSetName inst) (inst_ns inst))
       (mutate_statefulset migration E inst)"

definition honcho_pvc :: "'w env \<Rightarrow> HermesInstance \<Rightarrow> 'w act" where
  "honcho_pvc E inst w =
     (case kc_get (env_pvcs E) (inst_ns inst, HonchoPVCName inst) w of
        (Inl e, w1) \<Rightarrow>
          if IsNotFound e
          then (let desired = BuildHonchoPVC inst in
                create_owned_pvc E inst ''honcho pvc owner ref'' ''honcho pvc create''
                  (desired\<lparr>pvc_Meta := merge_labels (pvc_Meta desired) (pvc_Meta desired)\<rparr>) w1)
          else (Some (wrapf ''honcho pvc get'' e), w1)
      | (Inr pvc, w1) \<Rightarrow> (None, w1))"

definition mutate_deployment :: "'w env \<Rightarrow> HermesInstance \<Rightarrow> Deployment \<Rightarrow> 'w \<Rightarrow> (go_error + Deployment) \<times> 'w" where
  "mutate_deployment E inst obj w =
     (let desired = BuildHonchoDeployment inst in
      own E inst dep_Meta dep_Meta_update
        (obj\<lparr>dep_Meta := merge_labels (dep_Meta desired) (dep_Meta obj), dep_Spec := dep_Spec desired\<rparr>) w)"

definition empty_deployment :: "string \<Rightarrow> string \<Rightarrow> Deployment" where
  "empty_deployment n ns =
     \<lparr>dep_Meta = new_meta n ns,
      dep_Spec = \<lparr>dep_Replicas = None, dep_RevisionHistoryLimit = None, dep_ProgressDeadlineSeconds = None, dep_Strategy = '''',
                  dep_Selector = [], dep_Template = empty_template\<rparr>,
      dep_StatusReplicas = 0, dep_StatusReadyReplicas = 0\<rparr>"

definition honcho_netpol :: "'w env \<Rightarrow> HermesInstance \<Rightarrow> NetworkPolicy \<Rightarrow> 'w \<Rightarrow> (go_error + NetworkPolicy) \<times> 'w" where
  "honcho_netpol E inst obj w =
     (case BuildHonchoNetworkPolicy inst of
        None \<Rightarrow> (Inl nil_deref, w)
      | Some desired \<Rightarrow> mutate_netpol E inst desired obj w)"

definition reconcileHoncho :: "'w env \<Rightarrow> HermesInstance \<Rightarrow> 'w act" where
  "reconcileHoncho E inst =
     (let enabled = honchoEnabled inst; ns = inst_ns inst in
      and_then
        (if enabled \<and> BoolValueOrDefault (honper_Enabled (hon_Persistence (honcho inst))) True then honcho_pvc E inst
         else (\<lambda>w. (None, w)))
      (and_then
        (if \<not> enabled then labelled ''honcho svc delete'' (deleteIfExists (env_services E) (ns, HonchoServiceName inst))
         else labelled ''honcho svc'' (kc_create_or_update (env_services E) (empty_service (HonchoServiceName inst) ns)
                (mutate_service E inst (BuildHonchoService inst))))
      (and_then
        (if \<not> enabled then labelled ''honcho deployment delete'' (deleteIfExists (env_deployments E) (ns, HonchoDeploymentName inst))
         else labelled ''honcho deployment'' (kc_create_or_update (env_deployments E)
                (empty_deployment (HonchoDeploymentName inst) ns) (mutate_deployment E inst)))
        (if \<not> (enabled \<and> netpol_enabled inst)
         then labelled ''honcho netpol delete'' (deleteIfExists (env_netpols E) (ns, HonchoDeploymentName inst))
         else labelled ''honcho netpol'' (kc_create_or_update (env_netpols E) (empty_netpol (HonchoDeploymentName inst) ns)
                (honcho_netpol E inst))))))"

definition reconcileTailscale :: "'w act" where
  "reconcileTailscale w = (None, w)"

end
