(* ===== verification/Cluster.thy ===== *)
theory Cluster
  imports Objects
begin

text \<open>
  The objects the operator manages, seen as the contents of the API server. \<open>serves\<close> states the
  documented behaviour of a client on one kind of object: a read answers what is stored, a write
  that succeeds stores what it was sent, up to what the server fills in itself, and
  \<open>CreateOrUpdate\<close> hands the stored object, or the given one, to its callback. The locale
  \<open>managed_object\<close> is the contract of a callback that merges metadata and overwrites the rest; its
  interpretations give what each reconciler leaves in the cluster and that it touches nothing else.
\<close>

section \<open>The contents of the API server\<close>

datatype kind =
    KSecret | KPVC | KConfigMap | KServiceAccount | KRole | KRoleBinding | KService | KNetworkPolicy
  | KPDB | KHPA | KIngress | KUnstructured GroupVersionKind | KStatefulSet | KDeployment

datatype api_object =
    ObjSecret Secret | ObjPVC PersistentVolumeClaim | ObjConfigMap ConfigMap | ObjServiceAccount ServiceAccount
  | ObjRole Role | ObjRoleBinding RoleBinding | ObjService Service | ObjNetworkPolicy NetworkPolicy
  | ObjPDB PodDisruptionBudget | ObjHPA HorizontalPodAutoscaler | ObjIngress Ingress | ObjUnstructured Unstructured
  | ObjStatefulSet StatefulSet | ObjDeployment Deployment

type_synonym object_id = "kind \<times> nsname"
type_synonym cluster = "object_id \<Rightarrow> api_object option"

definition object_key :: "ObjectMeta \<Rightarrow> nsname" where
  "object_key m = (om_Namespace m, om_Name m)"

definition wf_meta :: "ObjectMeta \<Rightarrow> bool" where
  "wf_meta m \<longleftrightarrow> distinct (map fst (om_Labels m)) \<and> distinct (map fst (om_Annotations m))"

text \<open>
  What a stored object keeps of the one that was sent: its key, labels, annotations (as maps), owners
  and \<open>body\<close>, the part of it that the operator manages, for kinds with defaults up to these
  (\<open>defaulting\<close> below).
\<close>

definition keeps :: "('o \<Rightarrow> ObjectMeta) \<Rightarrow> ('o \<Rightarrow> 'b) \<Rightarrow> 'o \<Rightarrow> 'o \<Rightarrow> bool" where
  "keeps meta body sent stored \<longleftrightarrow>
     object_key (meta stored) = object_key (meta sent) \<and>
     map_of (om_Labels (meta stored)) = map_of (om_Labels (meta sent)) \<and>
     map_of (om_Annotations (meta stored)) = map_of (om_Annotations (meta sent)) \<and>
     om_OwnerReferences (meta stored) = om_OwnerReferences (meta sent) \<and>
     (wf_meta (meta sent) \<longrightarrow> wf_meta (meta stored)) \<and> body stored = body sent"

text \<open>A callback that leaves the key of the object and the distinctness of its maps alone.\<close>

definition keyed :: "('o \<Rightarrow> ObjectMeta) \<Rightarrow> ('o \<Rightarrow> 'w \<Rightarrow> (go_error + 'o) \<times> 'w) \<Rightarrow> bool" where
  "keyed meta f \<longleftrightarrow>
     (\<forall>x w y w'. f x w = (Inr y, w') \<longrightarrow> object_key (meta y) = object_key (meta x) \<and> (wf_meta (meta x) \<longrightarrow> wf_meta (meta y)))"

text \<open>The errors that say that an object, or its kind, is not there.\<close>

definition says_absent :: "go_error \<Rightarrow> bool" where
  "says_absent e \<longleftrightarrow> IsNotFound e \<or> IsNoMatchError e \<or> IsNotRegisteredError e"

definition serves_get :: "('o, 'w) kind_client \<Rightarrow> kind \<Rightarrow> ('o \<Rightarrow> api_object) \<Rightarrow> ('o \<Rightarrow> ObjectMeta) \<Rightarrow> ('w \<Rightarrow> cluster) \<Rightarrow> bool" where
  "serves_get kc k tag meta look \<longleftrightarrow>
     (\<forall>key w r w'. kc_get kc key w = (r, w') \<longrightarrow> look w' = look w \<and>
        (case r of Inr x \<Rightarrow> look w (k, key) = Some (tag x) \<and> object_key (meta x) = key
                 | Inl e \<Rightarrow> says_absent e \<longrightarrow> look w (k, key) = None))"

definition serves_create :: "('o, 'w) kind_client \<Rightarrow> kind \<Rightarrow> ('o \<Rightarrow> api_object) \<Rightarrow> ('o \<Rightarrow> ObjectMeta) \<Rightarrow> ('o \<Rightarrow> 'b) \<Rightarrow> ('w \<Rightarrow> cluster) \<Rightarrow> bool" where
  "serves_create kc k tag meta body look \<longleftrightarrow>
     (\<forall>x w w'. wf_meta (meta x) \<longrightarrow> kc_create kc x w = (None, w') \<longrightarrow>
        (\<exists>y. keeps meta body x y \<and> look w' = (look w)((k, object_key (meta x)) \<mapsto> tag y)))"

definition serves_delete :: "('o, 'w) kind_client \<Rightarrow> kind \<Rightarrow> ('o \<Rightarrow> ObjectMeta) \<Rightarrow> ('w \<Rightarrow> cluster) \<Rightarrow> bool" where
  "serves_delete kc k meta look \<longleftrightarrow>
     (\<forall>x w r w'. kc_delete kc x w = (r, w') \<longrightarrow>
        (case r of None \<Rightarrow> look w' = (look w)((k, object_key (meta x)) := None)
                 | Some e \<Rightarrow> (\<forall>i. i \<noteq> (k, object_key (meta x)) \<longrightarrow> look w' i = look w i) \<and>
                     (says_absent e \<longrightarrow> look w' (k, object_key (meta x)) = None)))"

definition serves_update :: "('o, 'w) kind_client \<Rightarrow> kind \<Rightarrow> ('o \<Rightarrow> api_object) \<Rightarrow> ('o \<Rightarrow> ObjectMeta) \<Rightarrow> ('o \<Rightarrow> 'b) \<Rightarrow> ('w \<Rightarrow> cluster) \<Rightarrow> bool" where
  "serves_update kc k tag meta body look \<longleftrightarrow>
     (\<forall>x f w w'. keyed meta f \<longrightarrow> wf_meta (meta x) \<longrightarrow> kc_create_or_update kc x f w = (None, w') \<longrightarrow>
        (\<exists>cur w1 y w2 z. look w1 = look w \<and> wf_meta (meta cur) \<and>
           (look w (k, object_key (meta x)) = Some (tag cur) \<or> look w (k, object_key (meta x)) = None \<and> cur = x) \<and>
           f cur w1 = (Inr y, w2) \<and> keeps meta body y z \<and> look w' = (look w2)((k, object_key (meta x)) \<mapsto> tag z)))"

definition serves :: "('o, 'w) kind_client \<Rightarrow> kind \<Rightarrow> ('o \<Rightarrow> api_object) \<Rightarrow> ('o \<Rightarrow> ObjectMeta) \<Rightarrow> ('o \<Rightarrow> 'b) \<Rightarrow> ('w \<Rightarrow> cluster) \<Rightarrow> bool" where
  "serves kc k tag meta body look \<longleftrightarrow>
     serves_get kc k tag meta look \<and> serves_create kc k tag meta body look \<and>
     serves_delete kc k meta look \<and> serves_update kc k tag meta body look"

lemma serves_updateE:
  assumes "serves kc k tag meta body look" and "keyed meta f" and "wf_meta (meta x)"
    and "kc_create_or_update kc x f w = (None, w')"
  obtains cur w1 y w2 z where "look w1 = look w" and "wf_meta (meta cur)"
    and "look w (k, object_key (meta x)) = Some (tag cur) \<or> look w (k, object_key (meta x)) = None \<and> cur = x"
    and "f cur w1 = (Inr y, w2)" and "keeps meta body y z" and "look w' = (look w2)((k, object_key (meta x)) \<mapsto> tag z)"
  using assms(1) [unfolded serves_def, THEN conjunct2, THEN conjunct2, THEN conjunct2, unfolded serves_update_def,
      rule_format, OF assms(2-4)] that
  by blast

text \<open>\<open>SetControllerReference\<close> changes the owner references and nothing else.\<close>

definition owner_api :: "'w env \<Rightarrow> bool" where
  "owner_api E \<longleftrightarrow>
     (\<forall>i m m'. env_set_owner E i m = Inr m' \<longrightarrow> m' = m\<lparr>om_OwnerReferences := om_OwnerReferences m'\<rparr>)"

lemma owner_apiD:
  assumes "owner_api E" and "env_set_owner E i m = Inr m'"
  shows "om_Labels m' = om_Labels m" and "om_Annotations m' = om_Annotations m" and "object_key m' = object_key m"
proof -
  have "m' = m\<lparr>om_OwnerReferences := om_OwnerReferences m'\<rparr>" using assms unfolding owner_api_def by blast
  then obtain rs where "m' = m\<lparr>om_OwnerReferences := rs\<rparr>" by blast
  then show "om_Labels m' = om_Labels m" "om_Annotations m' = om_Annotations m" "object_key m' = object_key m"
    by (simp_all add: object_key_def)
qed

section \<open>What a reconciler leaves behind\<close>

definition has_all :: "strmap \<Rightarrow> strmap \<Rightarrow> bool" where
  "has_all wanted m \<longleftrightarrow> (\<forall>k v. mget wanted k = Some v \<longrightarrow> mget m k = Some v)"

lemma has_all_kept:
  assumes "keeps meta body y z"
  shows "has_all d (om_Labels (meta z)) = has_all d (om_Labels (meta y))"
    and "has_all d (om_Annotations (meta z)) = has_all d (om_Annotations (meta y))" and "body z = body y"
  using assms by (simp_all add: keeps_def has_all_def mget_def)

definition conforms ::
  "('o \<Rightarrow> api_object) \<Rightarrow> ('o \<Rightarrow> ObjectMeta) \<Rightarrow> ('o \<Rightarrow> 'b) \<Rightarrow> object_id \<Rightarrow> ObjectMeta \<Rightarrow> bool \<Rightarrow> 'b \<Rightarrow> cluster \<Rightarrow> bool" where
  "conforms tag meta body oid wanted annotate b c \<longleftrightarrow>
     (\<exists>x. c oid = Some (tag x) \<and> has_all (om_Labels wanted) (om_Labels (meta x)) \<and>
          (annotate \<longrightarrow> has_all (om_Annotations wanted) (om_Annotations (meta x))) \<and> body x = b)"

text \<open>A change of the cluster that leaves every object outside a set alone.\<close>

definition only_at :: "object_id set \<Rightarrow> cluster \<Rightarrow> cluster \<Rightarrow> bool" where
  "only_at S c c' \<longleftrightarrow> (\<forall>x. x \<notin> S \<longrightarrow> c' x = c x)"

lemma only_at_refl [simp, intro]: "only_at S c c"
  by (simp add: only_at_def)

lemma only_at_trans: "only_at S c c1 \<Longrightarrow> only_at T c1 c2 \<Longrightarrow> only_at (S \<union> T) c c2"
  by (simp add: only_at_def)

lemma only_at_mono: "only_at S c c' \<Longrightarrow> S \<subseteq> T \<Longrightarrow> only_at T c c'"
  by (auto simp: only_at_def)

lemma conforms_only_at:
  "only_at S c c' \<Longrightarrow> oid \<notin> S \<Longrightarrow> conforms tag meta body oid m a b c' = conforms tag meta body oid m a b c"
  unfolding only_at_def conforms_def by (simp del: split_paired_All)

definition merged_meta :: "bool \<Rightarrow> ObjectMeta \<Rightarrow> ObjectMeta \<Rightarrow> ObjectMeta" where
  "merged_meta annotate wanted m =
     (if annotate then merge_annotations wanted (merge_labels wanted m) else merge_labels wanted m)"

lemma merged_key [simp]: "object_key (merged_meta a wanted m) = object_key m"
  by (simp add: merged_meta_def object_key_def merge_annotations_def merge_labels_def)

lemma merged_wf:
  assumes "wf_meta wanted" and "wf_meta m"
  shows "wf_meta (merged_meta a wanted m)"
  using assms by (simp add: wf_meta_def merged_meta_def merge_annotations_def merge_labels_def mpf.merge_distinct)

lemma has_all_merge:
  "distinct (map fst e) \<Longrightarrow> distinct (map fst d) \<Longrightarrow> has_all d (MergePreservingForeign e d p)"
  using mpf.merge_desired by (simp add: has_all_def mget_def)

lemma merged_has_all:
  assumes "wf_meta m" and "wf_meta wanted"
  shows "has_all (om_Labels wanted) (om_Labels (merged_meta a wanted m))"
    and "a \<Longrightarrow> has_all (om_Annotations wanted) (om_Annotations (merged_meta a wanted m))"
  using assms by (simp_all add: merged_meta_def wf_meta_def merge_annotations_def merge_labels_def has_all_merge)

text \<open>A callback that ends with \<open>SetControllerReference\<close>.\<close>

lemma own_managed:
  assumes "owner_api E" and "own E i meta upd z w = (Inr y, w')"
    and "\<And>f. meta (upd f z) = f (meta z)" and "\<And>f. body (upd f z) = body z"
    and "meta z = merged_meta a m (meta x)" and "body z = b"
  shows "w' = w \<and> object_key (meta y) = object_key (meta x) \<and> body y = b \<and>
    om_Labels (meta y) = om_Labels (merged_meta a m (meta x)) \<and>
    om_Annotations (meta y) = om_Annotations (merged_meta a m (meta x))"
proof -
  from assms(2) obtain n where n: "env_set_owner E i (meta z) = Inr n" "y = upd (\<lambda>_. n) z" "w' = w"
    by (auto simp: own_def split: sum.splits)
  from owner_apiD [OF assms(1) n(1)] n(2,3) show ?thesis by (simp add: assms(3-6))
qed

locale managed_object =
  fixes callback :: "'w env \<Rightarrow> HermesInstance \<Rightarrow> 'o \<Rightarrow> 'w \<Rightarrow> (go_error + 'o) \<times> 'w"
    and meta :: "'o \<Rightarrow> ObjectMeta" and body :: "'o \<Rightarrow> 'b"
    and wanted :: "HermesInstance \<Rightarrow> ObjectMeta" and annotate :: bool and want :: "HermesInstance \<Rightarrow> 'b"
  assumes callback_all: "owner_api E \<Longrightarrow> callback E i x w = (Inr y, w') \<Longrightarrow>
    w' = w \<and> object_key (meta y) = object_key (meta x) \<and> body y = want i \<and>
    om_Labels (meta y) = om_Labels (merged_meta annotate (wanted i) (meta x)) \<and>
    om_Annotations (meta y) = om_Annotations (merged_meta annotate (wanted i) (meta x))"
begin

lemma callback_result:
  assumes "owner_api E" and "callback E i x w = (Inr y, w')"
  shows "w' = w" and "object_key (meta y) = object_key (meta x)" and "body y = want i"
    and "om_Labels (meta y) = om_Labels (merged_meta annotate (wanted i) (meta x))"
    and "om_Annotations (meta y) = om_Annotations (merged_meta annotate (wanted i) (meta x))"
  using callback_all [OF assms] by simp_all

lemma callback_keyed:
  assumes "owner_api E" and "wf_meta (wanted i)"
  shows "keyed meta (callback E i)"
  unfolding keyed_def
proof (intro allI impI)
  fix x w y w' assume y: "callback E i x w = (Inr y, w')"
  show "object_key (meta y) = object_key (meta x) \<and> (wf_meta (meta x) \<longrightarrow> wf_meta (meta y))"
    using callback_result [OF assms(1) y] merged_wf [OF assms(2), of "meta x" annotate] by (simp add: wf_meta_def)
qed

lemma converges:
  assumes api: "serves kc k tag meta body look" and own: "owner_api E" and wf: "wf_meta (wanted i)" "wf_meta (meta x)"
    and run: "kc_create_or_update kc x (callback E i) w = (None, w')"
  shows "conforms tag meta body (k, object_key (meta x)) (wanted i) annotate (want i) (look w') \<and>
    only_at {(k, object_key (meta x))} (look w) (look w')"
proof -
  obtain cur w1 y w2 z where r: "look w1 = look w" "wf_meta (meta cur)" "callback E i cur w1 = (Inr y, w2)"
    "keeps meta body y z" "look w' = (look w2)((k, object_key (meta x)) \<mapsto> tag z)"
    by (rule serves_updateE [OF api callback_keyed [OF own wf(1)] wf(2) run])
  have w2: "w2 = w1" by (rule callback_result(1) [OF own r(3)])
  have "has_all (om_Labels (wanted i)) (om_Labels (meta z))"
    using merged_has_all(1) [OF r(2) wf(1)] callback_result(4) [OF own r(3)] by (simp add: has_all_kept [OF r(4)])
  moreover have "annotate \<longrightarrow> has_all (om_Annotations (wanted i)) (om_Annotations (meta z))"
    using merged_has_all(2) [OF r(2) wf(1)] callback_result(5) [OF own r(3)] by (simp add: has_all_kept [OF r(4)])
  moreover have "body z = want i"
    using callback_result(3) [OF own r(3)] by (simp add: has_all_kept [OF r(4)])
  ultimately show ?thesis
    using r(1,5) w2 by (auto simp: conforms_def only_at_def)
qed

end

section \<open>The managed objects\<close>

text \<open>The managed part of each kind; the API server allots the addresses and node ports of a Service.\<close>

definition service_body :: "Service \<Rightarrow> CoreServiceSpec" where
  "service_body s = (svc_Spec s)\<lparr>svs_ClusterIP := '''', svs_ClusterIPs := [],
     svs_Ports := map (\<lambda>p. p\<lparr>sp_NodePort := 0\<rparr>) (svs_Ports (svc_Spec s))\<rparr>"

definition rb_body :: "RoleBinding \<Rightarrow> Subject list \<times> RoleRef" where
  "rb_body x = (rb_Subjects x, rb_RoleRef x)"

definition pdb_body :: "PodDisruptionBudget \<Rightarrow> strmap \<times> IntOrString option \<times> IntOrString option" where
  "pdb_body x = (pdb_Selector x, pdb_MinAvailable x, pdb_MaxUnavailable x)"

definition hpa_body :: "HorizontalPodAutoscaler \<Rightarrow> (string \<times> string \<times> string) \<times> int option \<times> int \<times> MetricSpec list \<times> json option" where
  "hpa_body x = (hpa_ScaleTargetRef x, hpa_MinReplicas x, hpa_MaxReplicas x, hpa_Metrics x, hpa_Behavior x)"

definition ing_body :: "Ingress \<Rightarrow> string option \<times> IngressRule list \<times> IngressTLS list" where
  "ing_body x = (ing_IngressClassName x, ing_Rules x, ing_TLS x)"

definition pvc_body :: "PersistentVolumeClaim \<Rightarrow> string list \<times> string \<times> string option" where
  "pvc_body x = (pvc_AccessModes x, pvc_StorageRequest x, pvc_StorageClassName x)"

lemmas body_defs = service_body_def rb_body_def pdb_body_def hpa_body_def ing_body_def pvc_body_def keep_cluster_ip_def

text \<open>
  What the API server fills in where a body leaves something out, for the kinds with defaults. A
  stored body is what was sent up to that: \<open>df\<close> of the one is \<open>df\<close> of the other. \<open>exact\<close> fills in nothing.
\<close>

record defaulting =
  df_rb :: "Subject list \<times> RoleRef \<Rightarrow> Subject list \<times> RoleRef"
  df_service :: "CoreServiceSpec \<Rightarrow> CoreServiceSpec"
  df_netpol :: "CoreNetworkPolicySpec \<Rightarrow> CoreNetworkPolicySpec"
  df_pdb :: "strmap \<times> IntOrString option \<times> IntOrString option \<Rightarrow> strmap \<times> IntOrString option \<times> IntOrString option"
  df_hpa :: "(string \<times> string \<times> string) \<times> int option \<times> int \<times> MetricSpec list \<times> json option \<Rightarrow>
    (string \<times> string \<times> string) \<times> int option \<times> int \<times> MetricSpec list \<times> json option"
  df_ingress :: "string option \<times> IngressRule list \<times> IngressTLS list \<Rightarrow> string option \<times> IngressRule list \<times> IngressTLS list"
  df_unstructured :: "GroupVersionKind \<Rightarrow> json \<Rightarrow> json"
  df_sts :: "StatefulSetSpec \<Rightarrow> StatefulSetSpec"
  df_dep :: "DeploymentSpec \<Rightarrow> DeploymentSpec"

definition exact :: defaulting where
  "exact = \<lparr>df_rb = id, df_service = id, df_netpol = id, df_pdb = id, df_hpa = id, df_ingress = id, df_unstructured = (\<lambda>g. id),
     df_sts = id, df_dep = id\<rparr>"

lemma exact_simps [simp]:
  "df_rb exact = id" "df_service exact = id" "df_netpol exact = id" "df_pdb exact = id" "df_hpa exact = id" "df_ingress exact = id"
  "df_unstructured exact g = id" "df_sts exact = id" "df_dep exact = id"
  by (simp_all add: exact_def)


interpretation mcm: managed_object "\<lambda>E i. put_configmap E i (D i)" cm_Meta cm_Data "\<lambda>i. cm_Meta (D i)" False "\<lambda>i. cm_Data (D i)" for D
  by unfold_locales (unfold put_configmap_def, erule (1) own_managed, simp_all add: merged_meta_def body_defs)

interpretation mdash: managed_object "\<lambda>E i. mutate_dashboard E i (D i)" cm_Meta cm_Data "\<lambda>i. cm_Meta (D i)" True "\<lambda>i. cm_Data (D i)" for D
  by unfold_locales (unfold mutate_dashboard_def, erule (1) own_managed, simp_all add: merged_meta_def body_defs)

interpretation msa: managed_object "mutate_sa" sa_Meta sa_AutomountServiceAccountToken "\<lambda>i. sa_Meta (BuildServiceAccount i)" True "\<lambda>i. sa_AutomountServiceAccountToken (BuildServiceAccount i)"
  by unfold_locales (unfold mutate_sa_def Let_def, erule (1) own_managed, simp_all add: merged_meta_def body_defs)

interpretation mrole: managed_object "mutate_role" role_Meta role_Rules "\<lambda>i. role_Meta (BuildRole i)" False "\<lambda>i. role_Rules (BuildRole i)"
  by unfold_locales (unfold mutate_role_def Let_def, erule (1) own_managed, simp_all add: merged_meta_def body_defs)

interpretation mrb: managed_object "mutate_rolebinding" rb_Meta "c \<circ> rb_body" "\<lambda>i. rb_Meta (BuildRoleBinding i)" False "\<lambda>i. c (rb_body (BuildRoleBinding i))" for c
  by unfold_locales (unfold mutate_rolebinding_def Let_def, erule (1) own_managed, simp_all add: merged_meta_def body_defs)

interpretation mnp: managed_object "\<lambda>E i. mutate_netpol E i (D i)" np_Meta "c \<circ> np_Spec" "\<lambda>i. np_Meta (D i)" False "\<lambda>i. c (np_Spec (D i))" for D c
  by unfold_locales (unfold mutate_netpol_def, erule (1) own_managed, simp_all add: merged_meta_def body_defs)

interpretation msvc: managed_object "\<lambda>E i. mutate_service E i (D i)" svc_Meta "c \<circ> service_body" "\<lambda>i. svc_Meta (D i)" True "\<lambda>i. c (service_body (D i))" for D c
  by unfold_locales (unfold mutate_service_def, erule (1) own_managed, simp_all add: merged_meta_def body_defs)

interpretation mpdb: managed_object "mutate_pdb" pdb_Meta "c \<circ> pdb_body" "\<lambda>i. pdb_Meta (BuildPDB i)" False "\<lambda>i. c (pdb_body (BuildPDB i))" for c
  by unfold_locales (unfold mutate_pdb_def Let_def, erule (1) own_managed, simp_all add: merged_meta_def body_defs)

interpretation mhpa: managed_object "mutate_hpa" hpa_Meta "c \<circ> hpa_body" "\<lambda>i. hpa_Meta (BuildHPA i)" False "\<lambda>i. c (hpa_body (BuildHPA i))" for c
  by unfold_locales (unfold mutate_hpa_def Let_def, erule (1) own_managed, simp_all add: merged_meta_def body_defs)

interpretation ming: managed_object "mutate_ingress" ing_Meta "c \<circ> ing_body" "\<lambda>i. ing_Meta (BuildIngress i)" True "\<lambda>i. c (ing_body (BuildIngress i))" for c
  by unfold_locales (unfold mutate_ingress_def Let_def, erule (1) own_managed, simp_all add: merged_meta_def body_defs)

interpretation msts: managed_object "mutate_statefulset mg" sts_Meta "c \<circ> sts_Spec" "\<lambda>i. sts_Meta (stateful_set_for mg i)" False "\<lambda>i. c (sts_Spec (stateful_set_for mg i))" for mg c
  by unfold_locales (unfold mutate_statefulset_def Let_def, erule (1) own_managed, simp_all add: merged_meta_def body_defs)

interpretation mdep: managed_object "mutate_deployment" dep_Meta "c \<circ> dep_Spec" "\<lambda>i. dep_Meta (BuildHonchoDeployment i)" False "\<lambda>i. c (dep_Spec (BuildHonchoDeployment i))" for c
  by unfold_locales (unfold mutate_deployment_def Let_def, erule (1) own_managed, simp_all add: merged_meta_def body_defs)

interpretation mun: managed_object "\<lambda>E i. mutate_unstructured a (D i)" un_Meta "c \<circ> un_Spec" "\<lambda>i. un_Meta (D i)" a "\<lambda>i. c (un_Spec (D i))" for a D c
  by unfold_locales (auto simp: mutate_unstructured_def Let_def merged_meta_def merge_labels_def merge_annotations_def object_key_def)

section \<open>What each reconciler leaves behind\<close>

definition secret_body :: "Secret \<Rightarrow> string \<times> strmap" where
  "secret_body s = (sec_Type s, sec_Data s)"

text \<open>
  A well-behaved API server, which fills in \<open>N\<close>, and source of randomness, for every kind the
  reconcilers write.
\<close>

definition api_server :: "defaulting \<Rightarrow> 'w env \<Rightarrow> ('w \<Rightarrow> cluster) \<Rightarrow> bool" where
  "api_server N E look \<longleftrightarrow>
     serves (env_secrets E) KSecret ObjSecret sec_Meta secret_body look \<and>
     serves (env_pvcs E) KPVC ObjPVC pvc_Meta pvc_body look \<and>
     serves (env_configmaps E) KConfigMap ObjConfigMap cm_Meta cm_Data look \<and>
     serves (env_serviceaccounts E) KServiceAccount ObjServiceAccount sa_Meta sa_AutomountServiceAccountToken look \<and>
     serves (env_roles E) KRole ObjRole role_Meta role_Rules look \<and>
     serves (env_rolebindings E) KRoleBinding ObjRoleBinding rb_Meta (df_rb N \<circ> rb_body) look \<and>
     serves (env_services E) KService ObjService svc_Meta (df_service N \<circ> service_body) look \<and>
     serves (env_netpols E) KNetworkPolicy ObjNetworkPolicy np_Meta (df_netpol N \<circ> np_Spec) look \<and>
     serves (env_pdbs E) KPDB ObjPDB pdb_Meta (df_pdb N \<circ> pdb_body) look \<and>
     serves (env_hpas E) KHPA ObjHPA hpa_Meta (df_hpa N \<circ> hpa_body) look \<and>
     serves (env_ingresses E) KIngress ObjIngress ing_Meta (df_ingress N \<circ> ing_body) look \<and>
     (\<forall>g. serves (env_unstructured E g) (KUnstructured g) ObjUnstructured un_Meta (df_unstructured N g \<circ> un_Spec) look) \<and>
     serves (env_statefulsets E) KStatefulSet ObjStatefulSet sts_Meta (df_sts N \<circ> sts_Spec) look \<and>
     serves (env_deployments E) KDeployment ObjDeployment dep_Meta (df_dep N \<circ> dep_Spec) look \<and>
     (\<forall>w. look (snd (env_random E w)) = look w) \<and> (\<forall>w b w'. env_random E w = (Inr b, w') \<longrightarrow> b \<noteq> '''') \<and>
     owner_api E"

lemma api_serves:
  assumes "api_server N E look"
  shows "serves (env_secrets E) KSecret ObjSecret sec_Meta secret_body look"
    and "serves (env_pvcs E) KPVC ObjPVC pvc_Meta pvc_body look"
    and "serves (env_configmaps E) KConfigMap ObjConfigMap cm_Meta cm_Data look"
    and "serves (env_serviceaccounts E) KServiceAccount ObjServiceAccount sa_Meta sa_AutomountServiceAccountToken look"
    and "serves (env_roles E) KRole ObjRole role_Meta role_Rules look"
    and "serves (env_rolebindings E) KRoleBinding ObjRoleBinding rb_Meta (df_rb N \<circ> rb_body) look"
    and "serves (env_services E) KService ObjService svc_Meta (df_service N \<circ> service_body) look"
    and "serves (env_netpols E) KNetworkPolicy ObjNetworkPolicy np_Meta (df_netpol N \<circ> np_Spec) look"
    and "serves (env_pdbs E) KPDB ObjPDB pdb_Meta (df_pdb N \<circ> pdb_body) look"
    and "serves (env_hpas E) KHPA ObjHPA hpa_Meta (df_hpa N \<circ> hpa_body) look"
    and "serves (env_ingresses E) KIngress ObjIngress ing_Meta (df_ingress N \<circ> ing_body) look"
    and "serves (env_unstructured E g) (KUnstructured g) ObjUnstructured un_Meta (df_unstructured N g \<circ> un_Spec) look"
    and "serves (env_statefulsets E) KStatefulSet ObjStatefulSet sts_Meta (df_sts N \<circ> sts_Spec) look"
    and "serves (env_deployments E) KDeployment ObjDeployment dep_Meta (df_dep N \<circ> dep_Spec) look"
    and "owner_api E"
  using assms by (simp_all add: api_server_def)

lemma api_random:
  assumes "api_server N E look" and "env_random E w = (Inr b, w')"
  shows "look w' = look w" and "b \<noteq> ''''"
proof -
  have "look (snd (env_random E w)) = look w" using assms(1) by (simp add: api_server_def)
  then show "look w' = look w" by (simp add: assms(2))
  show "b \<noteq> ''''" using assms unfolding api_server_def by blast
qed

lemma delete_any:
  assumes "serves kc k tag meta body look" and "deleteIfExists kc key w = (err, w')"
  shows "only_at {(k, key)} (look w) (look w')"
    and "(case err of None \<Rightarrow> True | Some e \<Rightarrow> says_absent e) \<Longrightarrow> look w' (k, key) = None"
proof -
  have g: "kc_get kc key w = (r, w1) \<Longrightarrow> look w1 = look w \<and>
      (case r of Inr x \<Rightarrow> look w (k, key) = Some (tag x) \<and> object_key (meta x) = key | Inl e \<Rightarrow> says_absent e \<longrightarrow> look w (k, key) = None)" for r w1
    using assms(1) unfolding serves_def serves_get_def by blast
  have d: "kc_delete kc x w1 = (r, w2) \<Longrightarrow>
      (case r of None \<Rightarrow> look w2 = (look w1)((k, object_key (meta x)) := None)
               | Some e \<Rightarrow> (\<forall>i. i \<noteq> (k, object_key (meta x)) \<longrightarrow> look w2 i = look w1 i) \<and>
                   (says_absent e \<longrightarrow> look w2 (k, object_key (meta x)) = None))" for x w1 r w2
    using assms(1) unfolding serves_def serves_delete_def by blast
  obtain r w1 where gr: "kc_get kc key w = (r, w1)" by fastforce
  note g1 = g [OF gr]
  have nf: "IsNotFound e \<Longrightarrow> says_absent e" for e by (simp add: says_absent_def)
  have "only_at {(k, key)} (look w) (look w') \<and>
    ((case err of None \<Rightarrow> True | Some e \<Rightarrow> says_absent e) \<longrightarrow> look w' (k, key) = None)"
  proof (cases r)
    case (Inl e)
    then show ?thesis using assms(2) g1 gr nf by (auto simp: deleteIfExists_def split: if_splits)
  next
    case (Inr x)
    obtain r2 w2 where dr: "kc_delete kc x w1 = (r2, w2)" by fastforce
    then show ?thesis
      using d [OF dr] assms(2) g1 gr Inr nf
      by (auto simp: deleteIfExists_def only_at_def split: option.splits if_splits)
  qed
  then show "only_at {(k, key)} (look w) (look w')"
    and "(case err of None \<Rightarrow> True | Some e \<Rightarrow> says_absent e) \<Longrightarrow> look w' (k, key) = None"
    by blast+
qed

lemma delete_step:
  assumes "serves kc k tag meta body look" and "deleteIfExists kc key w = (None, w')"
  shows "look w' (k, key) = None \<and> only_at {(k, key)} (look w) (look w')"
  using delete_any [OF assms] by simp

definition secret_reached :: "HermesInstance \<Rightarrow> cluster \<Rightarrow> bool" where
  "secret_reached inst c \<longleftrightarrow>
     (\<exists>x. c (KSecret, (inst_ns inst, GatewayTokenSecretName inst)) = Some (ObjSecret x) \<and>
        has_all (LabelsForInstance inst) (om_Labels (sec_Meta x)) \<and> mget0 (sec_Data x) APIServerKeySecretKey \<noteq> '''')"

lemma mutate_secret_result:
  assumes "owner_api E" and "mutate_secret E inst x w = (Inr y, w')"
  shows "object_key (sec_Meta y) = object_key (sec_Meta x)"
    and "om_Labels (sec_Meta y) = om_Labels (merged_meta True (sec_Meta (BuildGatewayTokenSecret inst)) (sec_Meta x))"
    and "if mget0 (sec_Data x) APIServerKeySecretKey = ''''
         then \<exists>b. env_random E w = (Inr b, w') \<and> sec_Data y = mset1 APIServerKeySecretKey (EncodeToString b) (sec_Data x)
         else w' = w \<and> sec_Data y = sec_Data x"
    and "om_Annotations (sec_Meta y) = om_Annotations (merged_meta True (sec_Meta (BuildGatewayTokenSecret inst)) (sec_Meta x))"
proof -
  let ?x1 = "x\<lparr>sec_Meta := merged_meta True (sec_Meta (BuildGatewayTokenSecret inst)) (sec_Meta x),
               sec_Type := sec_Type (BuildGatewayTokenSecret inst)\<rparr>"
  consider (old) "mget0 (sec_Data x) APIServerKeySecretKey \<noteq> ''''" "own E inst sec_Meta sec_Meta_update ?x1 w = (Inr y, w')"
    | (new) b where "mget0 (sec_Data x) APIServerKeySecretKey = ''''" "env_random E w = (Inr b, w')"
      "own E inst sec_Meta sec_Meta_update (?x1\<lparr>sec_Data := mset1 APIServerKeySecretKey (EncodeToString b) (sec_Data x)\<rparr>) w' = (Inr y, w')"
    using assms(2)
    by (auto simp: mutate_secret_def merged_meta_def GenerateAPIServerKey_def own_def Let_def split: if_splits prod.splits sum.splits)
  then have "object_key (sec_Meta y) = object_key (sec_Meta x) \<and>
     om_Labels (sec_Meta y) = om_Labels (merged_meta True (sec_Meta (BuildGatewayTokenSecret inst)) (sec_Meta x)) \<and>
     om_Annotations (sec_Meta y) = om_Annotations (merged_meta True (sec_Meta (BuildGatewayTokenSecret inst)) (sec_Meta x)) \<and>
     (if mget0 (sec_Data x) APIServerKeySecretKey = ''''
      then \<exists>b. env_random E w = (Inr b, w') \<and> sec_Data y = mset1 APIServerKeySecretKey (EncodeToString b) (sec_Data x)
      else w' = w \<and> sec_Data y = sec_Data x)"
  proof cases
    case old
    from own_managed [where body = sec_Data, OF assms(1) old(2)] old(1) show ?thesis by auto
  next
    case new
    from own_managed [where body = sec_Data, OF assms(1) new(3)] new(1,2) show ?thesis by auto
  qed
  then show "object_key (sec_Meta y) = object_key (sec_Meta x)"
    and "om_Labels (sec_Meta y) = om_Labels (merged_meta True (sec_Meta (BuildGatewayTokenSecret inst)) (sec_Meta x))"
    and "if mget0 (sec_Data x) APIServerKeySecretKey = ''''
         then \<exists>b. env_random E w = (Inr b, w') \<and> sec_Data y = mset1 APIServerKeySecretKey (EncodeToString b) (sec_Data x)
         else w' = w \<and> sec_Data y = sec_Data x"
    and "om_Annotations (sec_Meta y) = om_Annotations (merged_meta True (sec_Meta (BuildGatewayTokenSecret inst)) (sec_Meta x))"
    by blast+
qed

lemma mget0_mset1 [simp]: "mget0 (mset1 k v m) k = v"
  by (simp add: mget0_def mget_def)

lemma EncodeToString_ne: "b \<noteq> '''' \<Longrightarrow> EncodeToString b \<noteq> ''''"
  by (cases b) (simp_all add: EncodeToString_def)

abbreviation key_of_secret :: "Secret \<Rightarrow> string" where
  "key_of_secret x \<equiv> mget0 (sec_Data x) APIServerKeySecretKey"

abbreviation token_id :: "HermesInstance \<Rightarrow> object_id" where
  "token_id inst \<equiv> (KSecret, (inst_ns inst, GatewayTokenSecretName inst))"

lemma wf_new_meta [simp]: "wf_meta (new_meta n ns)" "object_key (new_meta n ns) = (ns, n)"
  by (simp_all add: wf_meta_def new_meta_def object_key_def)

lemma wf_labels [simp]: "distinct (map fst (LabelsForInstance inst))"
  by (simp add: LabelsForInstance_def)

lemma token_meta [simp]:
  "om_Labels (sec_Meta (BuildGatewayTokenSecret inst)) = LabelsForInstance inst" "wf_meta (sec_Meta (BuildGatewayTokenSecret inst))"
  by (simp_all add: BuildGatewayTokenSecret_def wf_meta_def new_meta_def)

lemma secret_keyed:
  assumes "owner_api E"
  shows "keyed sec_Meta (mutate_secret E inst)"
  unfolding keyed_def
proof (intro allI impI)
  fix x w y w' assume y: "mutate_secret E inst x w = (Inr y, w')"
  show "object_key (sec_Meta y) = object_key (sec_Meta x) \<and> (wf_meta (sec_Meta x) \<longrightarrow> wf_meta (sec_Meta y))"
    using mutate_secret_result [OF assms y] merged_wf [OF token_meta(2), of "sec_Meta x" True inst] by (simp add: wf_meta_def)
qed

lemma secret_step:
  assumes api: "api_server N E look" and run: "reconcileSecret E inst w = (None, w')"
  shows "secret_reached inst (look w')" and "only_at {token_id inst} (look w) (look w')"
    and "look w (token_id inst) = Some (ObjSecret x) \<Longrightarrow> key_of_secret x \<noteq> '''' \<Longrightarrow>
      \<exists>z. look w' (token_id inst) = Some (ObjSecret z) \<and> key_of_secret z = key_of_secret x"
proof -
  have own: "owner_api E" by (rule api_serves(15) [OF api])
  have kd: "keyed sec_Meta (mutate_secret E inst)" by (rule secret_keyed [OF own])
  have sv: "serves (env_secrets E) KSecret ObjSecret sec_Meta secret_body look"
    by (rule api_serves(1) [OF api])
  have wf: "wf_meta (sec_Meta (empty_secret (GatewayTokenSecretName inst) (inst_ns inst)))"
    and key: "object_key (sec_Meta (empty_secret (GatewayTokenSecretName inst) (inst_ns inst))) = (inst_ns inst, GatewayTokenSecretName inst)"
    by (simp_all add: empty_secret_def)
  obtain cur w1 y w2 z where r: "look w1 = look w" "wf_meta (sec_Meta cur)"
    "look w (token_id inst) = Some (ObjSecret cur) \<or>
       look w (token_id inst) = None \<and> cur = empty_secret (GatewayTokenSecretName inst) (inst_ns inst)"
    "mutate_secret E inst cur w1 = (Inr y, w2)" "keeps sec_Meta secret_body y z"
    "look w' = (look w2)(token_id inst \<mapsto> ObjSecret z)"
    by (rule serves_updateE [OF sv kd wf run [unfolded reconcileSecret_def], unfolded key])
  note m = mutate_secret_result [OF own r(4)]
  have w2: "look w2 = look w"
    using m(3) r(1) api_random(1) [OF api] by (auto split: if_splits)
  have dz: "sec_Data z = sec_Data y" using has_all_kept(3) [OF r(5)] by (simp add: secret_body_def)
  have k: "key_of_secret y \<noteq> ''''"
    using m(3) api_random(2) [OF api] by (auto simp: EncodeToString_ne split: if_splits)
  have "has_all (LabelsForInstance inst) (om_Labels (sec_Meta z))"
    using merged_has_all(1) [OF r(2) token_meta(2) [of inst], where a = True] m(2) by (simp add: has_all_kept [OF r(5)])
  then show "secret_reached inst (look w')"
    using k dz r(6) by (auto simp: secret_reached_def)
  show "only_at {token_id inst} (look w) (look w')"
    using r(6) w2 by (auto simp: only_at_def)
  show "\<exists>z. look w' (token_id inst) = Some (ObjSecret z) \<and> key_of_secret z = key_of_secret x"
    if "look w (token_id inst) = Some (ObjSecret x)" "key_of_secret x \<noteq> ''''"
    using that r(3,6) m(3) dz by auto
qed

section \<open>Storage\<close>

definition exists_at :: "object_id \<Rightarrow> cluster \<Rightarrow> bool" where
  "exists_at i c \<longleftrightarrow> c i \<noteq> None"

lemma create_pvc_step:
  assumes api: "api_server N E look" and wf: "wf_meta (pvc_Meta desired)" and run: "create_owned_pvc E inst l1 l2 desired w = (None, w')"
  shows "exists_at (KPVC, object_key (pvc_Meta desired)) (look w') \<and> only_at {(KPVC, object_key (pvc_Meta desired))} (look w) (look w')"
proof -
  have own: "owner_api E" and sc: "serves_create (env_pvcs E) KPVC ObjPVC pvc_Meta pvc_body look"
    using api_serves(2,15) [OF api] by (simp_all add: serves_def)
  from run obtain m where m: "env_set_owner E inst (pvc_Meta desired) = Inr m"
    "kc_create (env_pvcs E) (desired\<lparr>pvc_Meta := m\<rparr>) w = (None, w')"
    by (auto simp: create_owned_pvc_def split: if_splits sum.splits prod.splits option.splits)
  have "wf_meta (pvc_Meta (desired\<lparr>pvc_Meta := m\<rparr>))" using wf owner_apiD [OF own m(1)] by (simp add: wf_meta_def)
  from sc [unfolded serves_create_def, rule_format, OF this m(2)] owner_apiD(3) [OF own m(1)]
  show ?thesis by (auto simp: exists_at_def only_at_def)
qed

lemma pvc_step:
  assumes api: "api_server N E look" and run: "reconcilePVC E inst w = (None, w')"
  shows "exists_at (KPVC, (inst_ns inst, PVCName inst)) (look w') \<and>
    only_at {(KPVC, (inst_ns inst, PVCName inst))} (look w) (look w')"
proof -
  have sg: "serves_get (env_pvcs E) KPVC ObjPVC pvc_Meta look" using api_serves(2) [OF api] by (simp add: serves_def)
  obtain r w1 where g: "kc_get (env_pvcs E) (inst_ns inst, PVCName inst) w = (r, w1)" by fastforce
  note s = sg [unfolded serves_get_def, rule_format, OF g]
  have key: "object_key (pvc_Meta (BuildPVC inst)) = (inst_ns inst, PVCName inst)" and wf: "wf_meta (pvc_Meta (BuildPVC inst))"
    by (simp_all add: BuildPVC_def Let_def new_meta_def object_key_def wf_meta_def)
  show ?thesis
  proof (cases r)
    case (Inl e)
    then have "create_owned_pvc E inst '''' '''' (BuildPVC inst) w1 = (None, w')"
      using run g by (auto simp: reconcilePVC_def split: if_splits)
    from create_pvc_step [OF api wf this] s key show ?thesis by simp
  next
    case (Inr x)
    then show ?thesis using run g s by (auto simp: reconcilePVC_def exists_at_def)
  qed
qed

section \<open>Managed kinds\<close>

text \<open>An object that is there as wanted when its feature is on, and gone when it is off.\<close>

definition there_iff :: "bool \<Rightarrow> object_id \<Rightarrow> (cluster \<Rightarrow> bool) \<Rightarrow> cluster \<Rightarrow> bool" where
  "there_iff enabled i P c \<longleftrightarrow> (if enabled then P c else c i = None)"

text \<open>
  The annotation maps of the instance have distinct keys, as Go maps do.
\<close>

definition maps_distinct :: "HermesInstance \<Rightarrow> bool" where
  "maps_distinct inst \<longleftrightarrow>
     wf_meta (sa_Meta (BuildServiceAccount inst)) \<and> wf_meta (svc_Meta (BuildService inst)) \<and>
     wf_meta (ing_Meta (BuildIngress inst)) \<and> (\<forall>d. BuildHTTPRoute inst = Some d \<longrightarrow> wf_meta (un_Meta d))"

lemma built_wf [simp]:
  "wf_meta (cm_Meta (BuildWorkspaceConfigMap i))" "wf_meta (role_Meta (BuildRole i))" "wf_meta (rb_Meta (BuildRoleBinding i))"
  "wf_meta (np_Meta (BuildNetworkPolicy i))" "wf_meta (pdb_Meta (BuildPDB i))" "wf_meta (hpa_Meta (BuildHPA i))"
  "wf_meta (un_Meta (BuildServiceMonitor i))" "wf_meta (un_Meta (BuildPrometheusRule i))"
  "wf_meta (cm_Meta (BuildGrafanaDashboardOperator i))" "wf_meta (cm_Meta (BuildGrafanaDashboardInstance i))"
  by (simp_all add: wf_meta_def new_meta_def BuildWorkspaceConfigMap_def BuildRole_def BuildRoleBinding_def
      BuildNetworkPolicy_def BuildPDB_def BuildHPA_def BuildServiceMonitor_def BuildPrometheusRule_def Let_def distinct_mputall
      BuildGrafanaDashboardOperator_def BuildGrafanaDashboardInstance_def buildDashboardConfigMap_def dashboard_labels_def
      split: option.split)

lemma honcho_wf [simp]: "wf_meta (svc_Meta (BuildHonchoService i))" "wf_meta (dep_Meta (BuildHonchoDeployment i))"
  by (simp_all add: wf_meta_def new_meta_def BuildHonchoService_def BuildHonchoDeployment_def HonchoLabels_def Let_def)

lemma sts_wf [simp]: "wf_meta (sts_Meta (stateful_set_for m i))"
  by (simp add: stateful_set_for_def BuildStatefulSet_def add_volume_def Let_def wf_meta_def new_meta_def split: option.split)

abbreviation cm_id :: "HermesInstance \<Rightarrow> string \<Rightarrow> object_id" where
  "cm_id inst n \<equiv> (KConfigMap, (inst_ns inst, n))"

definition configmap_reached :: "yaml_lib \<Rightarrow> HermesInstance \<Rightarrow> cluster \<Rightarrow> bool" where
  "configmap_reached yl inst c \<longleftrightarrow>
     (\<exists>body d. (cfg_ConfigMapRef (spec_Config (hi_Spec inst)) = None \<longrightarrow> body = '''') \<and> BuildConfigMap yl inst body = Inr d \<and>
        conforms ObjConfigMap cm_Meta cm_Data (cm_id inst (ConfigMapName inst)) (cm_Meta d) False (cm_Data d) c)"

lemma resolve_step:
  assumes "api_server N E look" and "resolveConfigBody yl E inst w = (r, w')"
  shows "look w' = look w" and "r = Inr body \<Longrightarrow> cfg_ConfigMapRef (spec_Config (hi_Spec inst)) = None \<Longrightarrow> body = ''''"
proof -
  have "serves_get (env_configmaps E) KConfigMap ObjConfigMap cm_Meta look"
    using api_serves(3) [OF assms(1)] by (simp add: serves_def)
  then have "kc_get (env_configmaps E) key w = (s, w1) \<Longrightarrow> look w1 = look w" for key s w1
    unfolding serves_get_def by blast
  then show "look w' = look w"
    using assms(2) by (auto simp: resolveConfigBody_def Let_def split: option.splits prod.splits sum.splits if_splits)
  show "r = Inr body \<Longrightarrow> cfg_ConfigMapRef (spec_Config (hi_Spec inst)) = None \<Longrightarrow> body = ''''"
    using assms(2) by (simp add: resolveConfigBody_def)
qed

lemma configmap_step:
  assumes api: "api_server N E look" and run: "reconcileConfigMap yl E inst w = (None, w')"
  shows "configmap_reached yl inst (look w') \<and> only_at {cm_id inst (ConfigMapName inst)} (look w) (look w')"
proof -
  let ?x = "empty_configmap (ConfigMapName inst) (inst_ns inst)"
  have x: "wf_meta (cm_Meta ?x)" "object_key (cm_Meta ?x) = (inst_ns inst, ConfigMapName inst)" by (simp_all add: empty_configmap_def)
  from run obtain body w1 where b: "resolveConfigBody yl E inst w = (Inr body, w1)"
    "kc_create_or_update (env_configmaps E) ?x (mutate_configmap yl E inst body) w1 = (None, w')"
    by (auto simp: reconcileConfigMap_def split: prod.splits sum.splits)
  note rs = resolve_step [OF api b(1)]
  show ?thesis
  proof (cases "BuildConfigMap yl inst body")
    case (Inl e)
    have "keyed cm_Meta (mutate_configmap yl E inst body)" by (simp add: keyed_def mutate_configmap_def Inl)
    from serves_updateE [OF api_serves(3) [OF api] this x(1) b(2)] show ?thesis by (simp add: mutate_configmap_def Inl)
  next
    case (Inr d)
    have cb: "mutate_configmap yl E inst body = put_configmap E inst d" by (simp add: fun_eq_iff mutate_configmap_def Inr)
    have d: "wf_meta (cm_Meta d)"
      using Inr by (auto simp: BuildConfigMap_def wf_meta_def new_meta_def split: sum.splits)
    note cv = mcm.converges [OF api_serves(3,15) [OF api], where D = "\<lambda>_. d", OF d x(1), OF b(2) [unfolded cb]]
    have "configmap_reached yl inst (look w')"
      unfolding configmap_reached_def by (intro exI [of _ body] exI [of _ d]) (use cv x(2) rs(2) Inr in simp)
    then show ?thesis using cv x(2) rs(1) by simp
  qed
qed

definition workspace_reached :: "HermesInstance \<Rightarrow> cluster \<Rightarrow> bool" where
  "workspace_reached inst =
     conforms ObjConfigMap cm_Meta cm_Data (cm_id inst (WorkspaceConfigMapName inst)) (cm_Meta (BuildWorkspaceConfigMap inst)) False
       (cm_Data (BuildWorkspaceConfigMap inst))"

lemma workspace_step:
  assumes api: "api_server N E look" and run: "reconcileWorkspaceConfigMap E inst w = (None, w')"
  shows "workspace_reached inst (look w') \<and> only_at {cm_id inst (WorkspaceConfigMapName inst)} (look w) (look w')"
proof -
  let ?x = "empty_configmap (WorkspaceConfigMapName inst) (inst_ns inst)"
  have x: "wf_meta (cm_Meta ?x)" "object_key (cm_Meta ?x) = (inst_ns inst, WorkspaceConfigMapName inst)" by (simp_all add: empty_configmap_def)
  have cb: "mutate_workspace E inst = put_configmap E inst (BuildWorkspaceConfigMap inst)" by (simp add: fun_eq_iff mutate_workspace_def)
  from mcm.converges [OF api_serves(3,15) [OF api], where D = BuildWorkspaceConfigMap, OF built_wf(1) x(1)
      run [unfolded reconcileWorkspaceConfigMap_def cb]] x(2)
  show ?thesis by (simp add: workspace_reached_def)
qed

definition netpol_reached :: "defaulting \<Rightarrow> HermesInstance \<Rightarrow> cluster \<Rightarrow> bool" where
  "netpol_reached N inst =
     there_iff (netpol_enabled inst) (KNetworkPolicy, (inst_ns inst, NetworkPolicyName inst))
       (conforms ObjNetworkPolicy np_Meta (df_netpol N \<circ> np_Spec) (KNetworkPolicy, (inst_ns inst, NetworkPolicyName inst))
          (np_Meta (BuildNetworkPolicy inst)) False (df_netpol N (np_Spec (BuildNetworkPolicy inst))))"

lemma netpol_step:
  assumes api: "api_server N E look" and run: "reconcileNetworkPolicy E inst w = (None, w')"
  shows "netpol_reached N inst (look w') \<and> only_at {(KNetworkPolicy, (inst_ns inst, NetworkPolicyName inst))} (look w) (look w')"
proof (cases "netpol_enabled inst")
  case False
  then have "deleteIfExists (env_netpols E) (inst_ns inst, NetworkPolicyName inst) w = (None, w')"
    using run by (simp add: reconcileNetworkPolicy_def)
  from delete_step [OF api_serves(8) [OF api] this] False show ?thesis by (simp add: netpol_reached_def there_iff_def)
next
  case True
  have x: "wf_meta (np_Meta (empty_netpol n ns))" "object_key (np_Meta (empty_netpol n ns)) = (ns, n)" for n ns
    by (simp_all add: empty_netpol_def)
  have r: "kc_create_or_update (env_netpols E) (empty_netpol (NetworkPolicyName inst) (inst_ns inst))
      (mutate_netpol E inst (BuildNetworkPolicy inst)) w = (None, w')"
    using run True by (simp add: reconcileNetworkPolicy_def)
  from mnp.converges [OF api_serves(8,15) [OF api], where D = BuildNetworkPolicy, OF built_wf(4) x(1) r] x(2) True
  show ?thesis by (simp add: netpol_reached_def there_iff_def)
qed

lemma labelled_None: "labelled s a w = (None, w') \<longleftrightarrow> a w = (None, w')"
  by (auto simp: labelled_def split: prod.splits option.splits)

lemma and_thenE:
  assumes "and_then a b w = (None, w')"
  obtains w1 where "a w = (None, w1)" and "b w1 = (None, w')"
  using assms by (auto simp: and_then_def split: prod.splits option.splits)

definition rbac_ids :: "HermesInstance \<Rightarrow> object_id set" where
  "rbac_ids inst = {(KServiceAccount, (inst_ns inst, ServiceAccountName inst)), (KRole, (inst_ns inst, RoleName inst)),
     (KRoleBinding, (inst_ns inst, RoleBindingName inst))}"

definition rbac_reached :: "defaulting \<Rightarrow> HermesInstance \<Rightarrow> cluster \<Rightarrow> bool" where
  "rbac_reached N inst c \<longleftrightarrow>
     (BoolValueOrDefault (rbac_CreateServiceAccount (secy_RBAC (spec_Security (hi_Spec inst)))) True \<longrightarrow>
      conforms ObjServiceAccount sa_Meta sa_AutomountServiceAccountToken (KServiceAccount, (inst_ns inst, ServiceAccountName inst))
        (sa_Meta (BuildServiceAccount inst)) True (sa_AutomountServiceAccountToken (BuildServiceAccount inst)) c \<and>
      conforms ObjRole role_Meta role_Rules (KRole, (inst_ns inst, RoleName inst))
        (role_Meta (BuildRole inst)) False (role_Rules (BuildRole inst)) c \<and>
      conforms ObjRoleBinding rb_Meta (df_rb N \<circ> rb_body) (KRoleBinding, (inst_ns inst, RoleBindingName inst))
        (rb_Meta (BuildRoleBinding inst)) False (df_rb N (rb_body (BuildRoleBinding inst))) c)"

lemma rbac_step:
  assumes api: "api_server N E look" and md: "maps_distinct inst" and run: "reconcileRBAC E inst w = (None, w')"
  shows "rbac_reached N inst (look w') \<and> only_at (rbac_ids inst) (look w) (look w')"
proof (cases "BoolValueOrDefault (rbac_CreateServiceAccount (secy_RBAC (spec_Security (hi_Spec inst)))) True")
  case False
  then show ?thesis using run by (simp add: reconcileRBAC_def rbac_reached_def)
next
  case True
  let ?sa = "\<lparr>sa_Meta = new_meta (ServiceAccountName inst) (inst_ns inst), sa_AutomountServiceAccountToken = None\<rparr>"
  let ?role = "\<lparr>role_Meta = new_meta (RoleName inst) (inst_ns inst), role_Rules = []\<rparr>"
  let ?rb = "\<lparr>rb_Meta = new_meta (RoleBindingName inst) (inst_ns inst), rb_Subjects = [],
              rb_RoleRef = \<lparr>ref_APIGroup = '''', ref_Kind = '''', ref_Name = ''''\<rparr>\<rparr>"
  from run True obtain w1 w2 where r:
    "kc_create_or_update (env_serviceaccounts E) ?sa (mutate_sa E inst) w = (None, w1)"
    "kc_create_or_update (env_roles E) ?role (mutate_role E inst) w1 = (None, w2)"
    "kc_create_or_update (env_rolebindings E) ?rb (mutate_rolebinding E inst) w2 = (None, w')"
    by (auto simp: reconcileRBAC_def labelled_None elim!: and_thenE)
  have "wf_meta (sa_Meta ?sa)" "wf_meta (role_Meta ?role)" "wf_meta (rb_Meta ?rb)" by simp_all
  note wf = this
  have sw: "wf_meta (sa_Meta (BuildServiceAccount inst))" using md by (simp add: maps_distinct_def)
  note 1 = msa.converges [OF api_serves(4,15) [OF api] sw wf(1) r(1), simplified]
    and 2 = mrole.converges [OF api_serves(5,15) [OF api] built_wf(2) wf(2) r(2), simplified]
    and 3 = mrb.converges [OF api_serves(6,15) [OF api] built_wf(3) wf(3) r(3), simplified]
  have c: "rbac_reached N inst (look w')"
    using 1 2 3
    by (simp add: rbac_reached_def conforms_only_at [OF conjunct2 [OF 2]] conforms_only_at [OF conjunct2 [OF 3]])
  have "only_at (rbac_ids inst) (look w) (look w')"
    by (rule only_at_mono [OF only_at_trans [OF only_at_trans [OF conjunct2 [OF 1] conjunct2 [OF 2]] conjunct2 [OF 3]]])
      (simp add: rbac_ids_def)
  with c show ?thesis by simp
qed

definition service_reached :: "defaulting \<Rightarrow> HermesInstance \<Rightarrow> cluster \<Rightarrow> bool" where
  "service_reached N inst =
     conforms ObjService svc_Meta (df_service N \<circ> service_body) (KService, (inst_ns inst, ServiceName inst)) (svc_Meta (BuildService inst)) True
       (df_service N (service_body (BuildService inst)))"

lemma empty_service_ok [simp]:
  "wf_meta (svc_Meta (empty_service n ns))" "object_key (svc_Meta (empty_service n ns)) = (ns, n)"
  by (simp_all add: empty_service_def)

lemma service_step:
  assumes api: "api_server N E look" and md: "maps_distinct inst" and run: "reconcileService E inst w = (None, w')"
  shows "service_reached N inst (look w') \<and> only_at {(KService, (inst_ns inst, ServiceName inst))} (look w) (look w')"
proof -
  have sw: "wf_meta (svc_Meta (BuildService inst))" using md by (simp add: maps_distinct_def)
  from msvc.converges [OF api_serves(7,15) [OF api], where D = BuildService, OF sw empty_service_ok(1) run [unfolded reconcileService_def]]
  show ?thesis by (simp add: service_reached_def)
qed

definition pdb_reached :: "defaulting \<Rightarrow> HermesInstance \<Rightarrow> cluster \<Rightarrow> bool" where
  "pdb_reached N inst =
     there_iff (BoolValue (pdbs_Enabled (avail_PodDisruptionBudget (spec_Availability (hi_Spec inst))))) (KPDB, (inst_ns inst, PDBName inst))
       (conforms ObjPDB pdb_Meta (df_pdb N \<circ> pdb_body) (KPDB, (inst_ns inst, PDBName inst)) (pdb_Meta (BuildPDB inst)) False (df_pdb N (pdb_body (BuildPDB inst))))"

lemma pdb_step:
  assumes api: "api_server N E look" and run: "reconcilePDB E inst w = (None, w')"
  shows "pdb_reached N inst (look w') \<and> only_at {(KPDB, (inst_ns inst, PDBName inst))} (look w) (look w')"
proof (cases "BoolValue (pdbs_Enabled (avail_PodDisruptionBudget (spec_Availability (hi_Spec inst))))")
  case False
  then have "deleteIfExists (env_pdbs E) (inst_ns inst, PDBName inst) w = (None, w')" using run by (simp add: reconcilePDB_def)
  from delete_step [OF api_serves(9) [OF api] this] False show ?thesis by (simp add: pdb_reached_def there_iff_def)
next
  case True
  let ?x = "\<lparr>pdb_Meta = new_meta (PDBName inst) (inst_ns inst), pdb_Selector = [], pdb_MinAvailable = None, pdb_MaxUnavailable = None\<rparr>"
  have x: "wf_meta (pdb_Meta ?x)" and r: "kc_create_or_update (env_pdbs E) ?x (mutate_pdb E inst) w = (None, w')"
    using run True by (simp_all add: reconcilePDB_def)
  from mpdb.converges [OF api_serves(9,15) [OF api] built_wf(5) x r] True show ?thesis by (simp add: pdb_reached_def there_iff_def)
qed

definition hpa_reached :: "defaulting \<Rightarrow> HermesInstance \<Rightarrow> cluster \<Rightarrow> bool" where
  "hpa_reached N inst =
     there_iff (IsHPAEnabled inst) (KHPA, (inst_ns inst, HPAName inst))
       (conforms ObjHPA hpa_Meta (df_hpa N \<circ> hpa_body) (KHPA, (inst_ns inst, HPAName inst)) (hpa_Meta (BuildHPA inst)) False (df_hpa N (hpa_body (BuildHPA inst))))"

lemma hpa_step:
  assumes api: "api_server N E look" and run: "reconcileHPA E inst w = (None, w')"
  shows "hpa_reached N inst (look w') \<and> only_at {(KHPA, (inst_ns inst, HPAName inst))} (look w) (look w')"
proof (cases "IsHPAEnabled inst")
  case False
  then have "deleteIfExists (env_hpas E) (inst_ns inst, HPAName inst) w = (None, w')" using run by (simp add: reconcileHPA_def)
  from delete_step [OF api_serves(10) [OF api] this] False show ?thesis by (simp add: hpa_reached_def there_iff_def)
next
  case True
  let ?x = "\<lparr>hpa_Meta = new_meta (HPAName inst) (inst_ns inst), hpa_ScaleTargetRef = ('''', '''', ''''), hpa_MinReplicas = None,
              hpa_MaxReplicas = 0, hpa_Metrics = [], hpa_Behavior = None\<rparr>"
  have x: "wf_meta (hpa_Meta ?x)" and r: "kc_create_or_update (env_hpas E) ?x (mutate_hpa E inst) w = (None, w')"
    using run True by (simp_all add: reconcileHPA_def)
  from mhpa.converges [OF api_serves(10,15) [OF api] built_wf(6) x r] True show ?thesis by (simp add: hpa_reached_def there_iff_def)
qed

definition ingress_reached :: "defaulting \<Rightarrow> HermesInstance \<Rightarrow> cluster \<Rightarrow> bool" where
  "ingress_reached N inst =
     there_iff (BoolValue (ingr_Enabled (nw_Ingress (spec_Networking (hi_Spec inst))))) (KIngress, (inst_ns inst, IngressName inst))
       (conforms ObjIngress ing_Meta (df_ingress N \<circ> ing_body) (KIngress, (inst_ns inst, IngressName inst)) (ing_Meta (BuildIngress inst)) True (df_ingress N (ing_body (BuildIngress inst))))"

lemma ingress_step:
  assumes api: "api_server N E look" and md: "maps_distinct inst" and run: "reconcileIngress E inst w = (None, w')"
  shows "ingress_reached N inst (look w') \<and> only_at {(KIngress, (inst_ns inst, IngressName inst))} (look w) (look w')"
proof (cases "BoolValue (ingr_Enabled (nw_Ingress (spec_Networking (hi_Spec inst))))")
  case False
  then have "deleteIfExists (env_ingresses E) (inst_ns inst, IngressName inst) w = (None, w')" using run by (simp add: reconcileIngress_def)
  from delete_step [OF api_serves(11) [OF api] this] False show ?thesis by (simp add: ingress_reached_def there_iff_def)
next
  case True
  let ?x = "\<lparr>ing_Meta = new_meta (IngressName inst) (inst_ns inst), ing_IngressClassName = None, ing_Rules = [], ing_TLS = []\<rparr>"
  have x: "wf_meta (ing_Meta ?x)" and r: "kc_create_or_update (env_ingresses E) ?x (mutate_ingress E inst) w = (None, w')"
    using run True by (simp_all add: reconcileIngress_def)
  have iw: "wf_meta (ing_Meta (BuildIngress inst))" using md by (simp add: maps_distinct_def)
  from ming.converges [OF api_serves(11,15) [OF api] iw x r] True show ?thesis by (simp add: ingress_reached_def there_iff_def)
qed

abbreviation un_id :: "GroupVersionKind \<Rightarrow> HermesInstance \<Rightarrow> string \<Rightarrow> object_id" where
  "un_id g inst n \<equiv> (KUnstructured g, (inst_ns inst, n))"

abbreviation un_conforms :: "defaulting \<Rightarrow> bool \<Rightarrow> object_id \<Rightarrow> Unstructured \<Rightarrow> cluster \<Rightarrow> bool" where
  "un_conforms N a i d \<equiv> conforms ObjUnstructured un_Meta (df_unstructured N (un_GVK d) \<circ> un_Spec) i (un_Meta d) a (df_unstructured N (un_GVK d) (un_Spec d))"

lemma unstructured_step:
  assumes api: "api_server N E look" and wf: "wf_meta (un_Meta d)" and run: "apply_unstructured E inst a d w = (None, w')"
  shows "un_conforms N a (KUnstructured (un_GVK d), object_key (un_Meta d)) d (look w') \<and>
    only_at {(KUnstructured (un_GVK d), object_key (un_Meta d))} (look w) (look w')"
proof -
  let ?x = "\<lparr>un_GVK = un_GVK d, un_Meta = new_meta (om_Name (un_Meta d)) (om_Namespace (un_Meta d)), un_Spec = JNull\<rparr>"
  from run obtain m where m: "env_set_owner E inst (un_Meta d) = Inr m"
    "kc_create_or_update (env_unstructured E (un_GVK d)) ?x (mutate_unstructured a (d\<lparr>un_Meta := m\<rparr>)) w = (None, w')"
    by (auto simp: apply_unstructured_def split: sum.splits)
  note o1 = owner_apiD [OF api_serves(15) [OF api] m(1)]
  have wm: "wf_meta (un_Meta (d\<lparr>un_Meta := m\<rparr>))" using wf o1 by (simp add: wf_meta_def)
  have wx: "wf_meta (un_Meta ?x)" by simp
  have k: "object_key (un_Meta ?x) = object_key (un_Meta d)" by (simp add: object_key_def new_meta_def)
  from mun.converges [OF api_serves(12,15) [OF api], where D = "\<lambda>_. d\<lparr>un_Meta := m\<rparr>", OF wm wx m(2)] o1 k
  show ?thesis by (simp add: conforms_def)
qed

definition httproute_reached :: "defaulting \<Rightarrow> HermesInstance \<Rightarrow> cluster \<Rightarrow> bool" where
  "httproute_reached N inst =
     there_iff (httproute_enabled inst) (un_id HTTPRouteGVK inst (HTTPRouteName inst))
       (\<lambda>c. \<exists>d. BuildHTTPRoute inst = Some d \<and> un_conforms N True (un_id HTTPRouteGVK inst (HTTPRouteName inst)) d c)"

lemma httproute_step:
  assumes api: "api_server N E look" and md: "maps_distinct inst" and run: "reconcileHTTPRoute E inst w = (None, w')"
  shows "httproute_reached N inst (look w') \<and> only_at {un_id HTTPRouteGVK inst (HTTPRouteName inst)} (look w) (look w')"
proof (cases "httproute_enabled inst")
  case False
  obtain err where d: "deleteIfExists (env_unstructured E HTTPRouteGVK) (inst_ns inst, HTTPRouteName inst) w = (err, w')"
    and e: "ignoreNoGatewayAPI err = None"
    using run False by (auto simp: reconcileHTTPRoute_def split: prod.splits)
  have "case err of None \<Rightarrow> True | Some e \<Rightarrow> says_absent e"
    using e by (auto simp: ignoreNoGatewayAPI_def says_absent_def split: option.splits if_splits)
  with delete_any [OF api_serves(12) [OF api] d] False show ?thesis by (simp add: httproute_reached_def there_iff_def)
next
  case True
  then obtain d where d: "BuildHTTPRoute inst = Some d" "apply_unstructured E inst True d w = (None, w')"
    using run by (auto simp: reconcileHTTPRoute_def split: option.splits)
  have "un_GVK d = HTTPRouteGVK" "object_key (un_Meta d) = (inst_ns inst, HTTPRouteName inst)"
    using d(1) by (auto simp: BuildHTTPRoute_def object_key_def new_meta_def split: option.splits)
  with unstructured_step [OF api _ d(2)] md d(1) True show ?thesis
    by (simp add: httproute_reached_def there_iff_def maps_distinct_def)
qed

definition monitor_reached :: "defaulting \<Rightarrow> bool \<Rightarrow> bool \<Rightarrow> (HermesInstance \<Rightarrow> Unstructured) \<Rightarrow> HermesInstance \<Rightarrow> cluster \<Rightarrow> bool" where
  "monitor_reached N crds enabled build inst c \<longleftrightarrow>
     (crds \<longrightarrow> there_iff enabled (un_id (un_GVK (build inst)) inst (inst_name inst))
        (un_conforms N False (un_id (un_GVK (build inst)) inst (inst_name inst)) (build inst)) c)"

abbreviation sm_enabled :: "HermesInstance \<Rightarrow> bool" where
  "sm_enabled inst \<equiv> BoolValue (sm_Enabled (obs_ServiceMonitor (spec_Observability (hi_Spec inst))))"

abbreviation pr_enabled :: "HermesInstance \<Rightarrow> bool" where
  "pr_enabled inst \<equiv> BoolValue (prs_Enabled (obs_PrometheusRule (spec_Observability (hi_Spec inst))))"

lemma sm_built [simp]:
  "un_GVK (BuildServiceMonitor i) = ServiceMonitorGVK" "object_key (un_Meta (BuildServiceMonitor i)) = (inst_ns i, inst_name i)"
  "un_GVK (BuildPrometheusRule i) = PrometheusRuleGVK" "object_key (un_Meta (BuildPrometheusRule i)) = (inst_ns i, inst_name i)"
  by (simp_all add: BuildServiceMonitor_def BuildPrometheusRule_def Let_def object_key_def new_meta_def ServiceMonitorName_def PrometheusRuleName_def)

lemma servicemonitor_step:
  assumes api: "api_server N E look" and run: "reconcileServiceMonitor crds E inst w = (None, w')"
  shows "monitor_reached N crds (sm_enabled inst) BuildServiceMonitor inst (look w') \<and>
    only_at {un_id ServiceMonitorGVK inst (inst_name inst)} (look w) (look w')"
proof -
  consider "\<not> crds" "w' = w" | "crds" "\<not> sm_enabled inst" "deleteIfExists (env_unstructured E ServiceMonitorGVK) (inst_ns inst, inst_name inst) w = (None, w')"
    | "crds" "sm_enabled inst" "apply_unstructured E inst False (BuildServiceMonitor inst) w = (None, w')"
    using run by (auto simp: reconcileServiceMonitor_def ServiceMonitorName_def split: if_splits)
  then show ?thesis
  proof cases
    case 2
    from delete_step [OF api_serves(12) [OF api] 2(3)] 2 show ?thesis by (simp add: monitor_reached_def there_iff_def)
  next
    case 3
    from unstructured_step [OF api built_wf(7) 3(3)] 3 show ?thesis by (simp add: monitor_reached_def there_iff_def)
  qed (simp add: monitor_reached_def)
qed

lemma prometheusrule_step:
  assumes api: "api_server N E look" and run: "reconcilePrometheusRule crds E inst w = (None, w')"
  shows "monitor_reached N crds (pr_enabled inst) BuildPrometheusRule inst (look w') \<and>
    only_at {un_id PrometheusRuleGVK inst (inst_name inst)} (look w) (look w')"
proof -
  consider "\<not> crds" "w' = w" | "crds" "\<not> pr_enabled inst" "deleteIfExists (env_unstructured E PrometheusRuleGVK) (inst_ns inst, inst_name inst) w = (None, w')"
    | "crds" "pr_enabled inst" "apply_unstructured E inst False (BuildPrometheusRule inst) w = (None, w')"
    using run by (auto simp: reconcilePrometheusRule_def PrometheusRuleName_def split: if_splits)
  then show ?thesis
  proof cases
    case 2
    from delete_step [OF api_serves(12) [OF api] 2(3)] 2 show ?thesis by (simp add: monitor_reached_def there_iff_def)
  next
    case 3
    from unstructured_step [OF api built_wf(8) 3(3)] 3 show ?thesis by (simp add: monitor_reached_def there_iff_def)
  qed (simp add: monitor_reached_def)
qed

definition dashboard_ids :: "HermesInstance \<Rightarrow> object_id set" where
  "dashboard_ids inst = {cm_id inst (GrafanaDashboardOperatorName inst), cm_id inst (GrafanaDashboardInstanceName inst)}"

abbreviation cm_conforms :: "object_id \<Rightarrow> ConfigMap \<Rightarrow> cluster \<Rightarrow> bool" where
  "cm_conforms i d \<equiv> conforms ObjConfigMap cm_Meta cm_Data i (cm_Meta d) True (cm_Data d)"

definition dashboards_reached :: "HermesInstance \<Rightarrow> cluster \<Rightarrow> bool" where
  "dashboards_reached inst c \<longleftrightarrow>
     there_iff (GrafanaDashboardEnabled inst) (cm_id inst (GrafanaDashboardOperatorName inst))
       (cm_conforms (cm_id inst (GrafanaDashboardOperatorName inst)) (BuildGrafanaDashboardOperator inst)) c \<and>
     there_iff (GrafanaDashboardEnabled inst) (cm_id inst (GrafanaDashboardInstanceName inst))
       (cm_conforms (cm_id inst (GrafanaDashboardInstanceName inst)) (BuildGrafanaDashboardInstance inst)) c"

lemma dashboard_names [simp]:
  "om_Name (cm_Meta (BuildGrafanaDashboardOperator i)) = GrafanaDashboardOperatorName i"
  "om_Namespace (cm_Meta (BuildGrafanaDashboardOperator i)) = inst_ns i"
  "om_Name (cm_Meta (BuildGrafanaDashboardInstance i)) = GrafanaDashboardInstanceName i"
  "om_Namespace (cm_Meta (BuildGrafanaDashboardInstance i)) = inst_ns i"
  "GrafanaDashboardOperatorName i \<noteq> GrafanaDashboardInstanceName i" "GrafanaDashboardInstanceName i \<noteq> GrafanaDashboardOperatorName i"
  by (simp_all add: BuildGrafanaDashboardOperator_def BuildGrafanaDashboardInstance_def buildDashboardConfigMap_def new_meta_def
      GrafanaDashboardOperatorName_def GrafanaDashboardInstanceName_def)

lemma dashboard_step:
  assumes api: "api_server N E look" and wf: "wf_meta (cm_Meta d)" and run: "apply_dashboard E inst d w = (None, w')"
  shows "cm_conforms (KConfigMap, object_key (cm_Meta d)) d (look w') \<and> only_at {(KConfigMap, object_key (cm_Meta d))} (look w) (look w')"
proof -
  let ?x = "empty_configmap (om_Name (cm_Meta d)) (om_Namespace (cm_Meta d))"
  have x: "wf_meta (cm_Meta ?x)" "object_key (cm_Meta ?x) = object_key (cm_Meta d)"
    by (simp_all add: empty_configmap_def) (simp add: object_key_def)
  from mdash.converges [OF api_serves(3,15) [OF api], where D = "\<lambda>_. d", OF wf x(1) run [unfolded apply_dashboard_def]] x(2)
  show ?thesis by simp
qed

lemma dashboards_step:
  assumes api: "api_server N E look" and run: "reconcileGrafanaDashboards E inst w = (None, w')"
  shows "dashboards_reached inst (look w') \<and> only_at (dashboard_ids inst) (look w) (look w')"
proof -
  let ?a = "cm_id inst (GrafanaDashboardOperatorName inst)" and ?b = "cm_id inst (GrafanaDashboardInstanceName inst)"
  have ab: "{?a} \<union> {?b} \<subseteq> dashboard_ids inst" by (simp add: dashboard_ids_def)
  show ?thesis
  proof (cases "GrafanaDashboardEnabled inst")
    case False
    with run obtain w1 where r: "deleteIfExists (env_configmaps E) (inst_ns inst, GrafanaDashboardOperatorName inst) w = (None, w1)"
      "deleteIfExists (env_configmaps E) (inst_ns inst, GrafanaDashboardInstanceName inst) w1 = (None, w')"
      by (auto simp: reconcileGrafanaDashboards_def elim!: and_thenE)
    note 1 = delete_step [OF api_serves(3) [OF api] r(1)] and 2 = delete_step [OF api_serves(3) [OF api] r(2)]
    have "look w' ?a = None" using 1 2 by (simp add: only_at_def)
    then show ?thesis
      using 1 2 False only_at_mono [OF only_at_trans [OF conjunct2 [OF 1] conjunct2 [OF 2]] ab]
      by (simp add: dashboards_reached_def there_iff_def)
  next
    case True
    with run obtain w1 where r: "apply_dashboard E inst (BuildGrafanaDashboardOperator inst) w = (None, w1)"
      "apply_dashboard E inst (BuildGrafanaDashboardInstance inst) w1 = (None, w')"
      by (auto simp: reconcileGrafanaDashboards_def elim!: and_thenE)
    note 1 = dashboard_step [OF api built_wf(9) r(1), unfolded object_key_def dashboard_names]
      and 2 = dashboard_step [OF api built_wf(10) r(2), unfolded object_key_def dashboard_names]
    from 1 2 True only_at_mono [OF only_at_trans [OF conjunct2 [OF 1] conjunct2 [OF 2]] ab]
    show ?thesis by (simp add: dashboards_reached_def there_iff_def conforms_only_at [OF conjunct2 [OF 2]])
  qed
qed

definition statefulset_reached :: "defaulting \<Rightarrow> bool \<Rightarrow> HermesInstance \<Rightarrow> cluster \<Rightarrow> bool" where
  "statefulset_reached N mg inst =
     conforms ObjStatefulSet sts_Meta (df_sts N \<circ> sts_Spec) (KStatefulSet, (inst_ns inst, StatefulSetName inst))
       (sts_Meta (stateful_set_for mg inst)) False (df_sts N (sts_Spec (stateful_set_for mg inst)))"

lemma statefulset_step:
  assumes api: "api_server N E look" and run: "reconcileStatefulSet mg E inst w = (None, w')"
  shows "statefulset_reached N mg inst (look w') \<and> only_at {(KStatefulSet, (inst_ns inst, StatefulSetName inst))} (look w) (look w')"
proof -
  have x: "wf_meta (sts_Meta (empty_statefulset n ns))" "object_key (sts_Meta (empty_statefulset n ns)) = (ns, n)" for n ns
    by (simp_all add: empty_statefulset_def)
  from msts.converges [OF api_serves(13,15) [OF api] sts_wf x(1) run [unfolded reconcileStatefulSet_def]] x(2)
  show ?thesis by (simp add: statefulset_reached_def)
qed

definition honcho_ids :: "HermesInstance \<Rightarrow> object_id set" where
  "honcho_ids inst = {(KPVC, (inst_ns inst, HonchoPVCName inst)), (KService, (inst_ns inst, HonchoServiceName inst)),
     (KDeployment, (inst_ns inst, HonchoDeploymentName inst)), (KNetworkPolicy, (inst_ns inst, HonchoDeploymentName inst))}"

definition honcho_reached :: "defaulting \<Rightarrow> HermesInstance \<Rightarrow> cluster \<Rightarrow> bool" where
  "honcho_reached N inst c \<longleftrightarrow>
     (honchoEnabled inst \<and> BoolValueOrDefault (honper_Enabled (hon_Persistence (honcho inst))) True \<longrightarrow>
        exists_at (KPVC, (inst_ns inst, HonchoPVCName inst)) c) \<and>
     there_iff (honchoEnabled inst) (KService, (inst_ns inst, HonchoServiceName inst))
       (conforms ObjService svc_Meta (df_service N \<circ> service_body) (KService, (inst_ns inst, HonchoServiceName inst))
          (svc_Meta (BuildHonchoService inst)) True (df_service N (service_body (BuildHonchoService inst)))) c \<and>
     there_iff (honchoEnabled inst) (KDeployment, (inst_ns inst, HonchoDeploymentName inst))
       (conforms ObjDeployment dep_Meta (df_dep N \<circ> dep_Spec) (KDeployment, (inst_ns inst, HonchoDeploymentName inst))
          (dep_Meta (BuildHonchoDeployment inst)) False (df_dep N (dep_Spec (BuildHonchoDeployment inst)))) c \<and>
     there_iff (honchoEnabled inst \<and> netpol_enabled inst) (KNetworkPolicy, (inst_ns inst, HonchoDeploymentName inst))
       (\<lambda>c. \<exists>d. BuildHonchoNetworkPolicy inst = Some d \<and>
          conforms ObjNetworkPolicy np_Meta (df_netpol N \<circ> np_Spec) (KNetworkPolicy, (inst_ns inst, HonchoDeploymentName inst)) (np_Meta d) False (df_netpol N (np_Spec d)) c) c"

lemma honcho_pvc_step:
  assumes api: "api_server N E look" and run: "honcho_pvc E inst w = (None, w')"
  shows "exists_at (KPVC, (inst_ns inst, HonchoPVCName inst)) (look w') \<and>
    only_at {(KPVC, (inst_ns inst, HonchoPVCName inst))} (look w) (look w')"
proof -
  have sg: "serves_get (env_pvcs E) KPVC ObjPVC pvc_Meta look" using api_serves(2) [OF api] by (simp add: serves_def)
  obtain r w1 where g: "kc_get (env_pvcs E) (inst_ns inst, HonchoPVCName inst) w = (r, w1)" by fastforce
  note s = sg [unfolded serves_get_def, rule_format, OF g]
  let ?d = "(BuildHonchoPVC inst)\<lparr>pvc_Meta := merge_labels (pvc_Meta (BuildHonchoPVC inst)) (pvc_Meta (BuildHonchoPVC inst))\<rparr>"
  have key: "object_key (pvc_Meta ?d) = (inst_ns inst, HonchoPVCName inst)"
    and wf: "wf_meta (pvc_Meta ?d)"
    by (simp_all add: BuildHonchoPVC_def Let_def new_meta_def object_key_def merge_labels_def wf_meta_def HonchoLabels_def
        mpf.merge_distinct)
  show ?thesis
  proof (cases r)
    case (Inl e)
    then have "create_owned_pvc E inst ''honcho pvc owner ref'' ''honcho pvc create'' ?d w1 = (None, w')"
      using run g by (auto simp: honcho_pvc_def Let_def split: if_splits)
    from create_pvc_step [OF api wf this] s key show ?thesis by simp
  next
    case (Inr x)
    then show ?thesis using run g s by (auto simp: honcho_pvc_def exists_at_def)
  qed
qed

lemma honcho_service_step:
  assumes api: "api_server N E look"
    and run: "(if \<not> honchoEnabled inst then labelled l1 (deleteIfExists (env_services E) (inst_ns inst, HonchoServiceName inst))
      else labelled l2 (kc_create_or_update (env_services E) (empty_service (HonchoServiceName inst) (inst_ns inst))
                (mutate_service E inst (BuildHonchoService inst)))) w = (None, w')"
  shows "there_iff (honchoEnabled inst) (KService, (inst_ns inst, HonchoServiceName inst))
       (conforms ObjService svc_Meta (df_service N \<circ> service_body) (KService, (inst_ns inst, HonchoServiceName inst))
          (svc_Meta (BuildHonchoService inst)) True (df_service N (service_body (BuildHonchoService inst)))) (look w') \<and>
    only_at {(KService, (inst_ns inst, HonchoServiceName inst))} (look w) (look w')"
proof (cases "honchoEnabled inst")
  case False
  with run have "deleteIfExists (env_services E) (inst_ns inst, HonchoServiceName inst) w = (None, w')" by (simp add: labelled_None)
  from delete_step [OF api_serves(7) [OF api] this] False show ?thesis by (simp add: there_iff_def)
next
  case True
  with run have r: "kc_create_or_update (env_services E) (empty_service (HonchoServiceName inst) (inst_ns inst))
      (mutate_service E inst (BuildHonchoService inst)) w = (None, w')" by (simp add: labelled_None)
  from msvc.converges [OF api_serves(7,15) [OF api], where D = BuildHonchoService, OF honcho_wf(1) empty_service_ok(1) r] True
  show ?thesis by (simp add: there_iff_def)
qed

lemma honcho_deployment_step:
  assumes api: "api_server N E look"
    and run: "(if \<not> honchoEnabled inst then labelled l1 (deleteIfExists (env_deployments E) (inst_ns inst, HonchoDeploymentName inst))
      else labelled l2 (kc_create_or_update (env_deployments E) (empty_deployment (HonchoDeploymentName inst) (inst_ns inst))
                (mutate_deployment E inst))) w = (None, w')"
  shows "there_iff (honchoEnabled inst) (KDeployment, (inst_ns inst, HonchoDeploymentName inst))
       (conforms ObjDeployment dep_Meta (df_dep N \<circ> dep_Spec) (KDeployment, (inst_ns inst, HonchoDeploymentName inst))
          (dep_Meta (BuildHonchoDeployment inst)) False (df_dep N (dep_Spec (BuildHonchoDeployment inst)))) (look w') \<and>
    only_at {(KDeployment, (inst_ns inst, HonchoDeploymentName inst))} (look w) (look w')"
proof (cases "honchoEnabled inst")
  case False
  with run have "deleteIfExists (env_deployments E) (inst_ns inst, HonchoDeploymentName inst) w = (None, w')" by (simp add: labelled_None)
  from delete_step [OF api_serves(14) [OF api] this] False show ?thesis by (simp add: there_iff_def)
next
  case True
  have x: "wf_meta (dep_Meta (empty_deployment n ns))" "object_key (dep_Meta (empty_deployment n ns)) = (ns, n)" for n ns
    by (simp_all add: empty_deployment_def)
  from True run have r: "kc_create_or_update (env_deployments E) (empty_deployment (HonchoDeploymentName inst) (inst_ns inst))
      (mutate_deployment E inst) w = (None, w')" by (simp add: labelled_None)
  from mdep.converges [OF api_serves(14,15) [OF api] honcho_wf(2) x(1) r] x(2) True
  show ?thesis by (simp add: there_iff_def)
qed

lemma honcho_netpol_step:
  assumes api: "api_server N E look"
    and run: "(if \<not> (honchoEnabled inst \<and> netpol_enabled inst)
      then labelled l1 (deleteIfExists (env_netpols E) (inst_ns inst, HonchoDeploymentName inst))
      else labelled l2 (kc_create_or_update (env_netpols E) (empty_netpol (HonchoDeploymentName inst) (inst_ns inst)) (honcho_netpol E inst))) w
        = (None, w')"
  shows "there_iff (honchoEnabled inst \<and> netpol_enabled inst) (KNetworkPolicy, (inst_ns inst, HonchoDeploymentName inst))
       (\<lambda>c. \<exists>d. BuildHonchoNetworkPolicy inst = Some d \<and>
          conforms ObjNetworkPolicy np_Meta (df_netpol N \<circ> np_Spec) (KNetworkPolicy, (inst_ns inst, HonchoDeploymentName inst)) (np_Meta d) False (df_netpol N (np_Spec d)) c) (look w') \<and>
    only_at {(KNetworkPolicy, (inst_ns inst, HonchoDeploymentName inst))} (look w) (look w')"
proof (cases "honchoEnabled inst \<and> netpol_enabled inst")
  case False
  with run have "deleteIfExists (env_netpols E) (inst_ns inst, HonchoDeploymentName inst) w = (None, w')" by (simp add: labelled_None)
  from delete_step [OF api_serves(8) [OF api] this] show ?thesis unfolding there_iff_def if_not_P [OF False] .
next
  case True
  have x: "wf_meta (np_Meta (empty_netpol n ns))" "object_key (np_Meta (empty_netpol n ns)) = (ns, n)" for n ns
    by (simp_all add: empty_netpol_def)
  from True obtain d where d: "BuildHonchoNetworkPolicy inst = Some d" by (simp add: BuildHonchoNetworkPolicy_def)
  then have dw: "wf_meta (np_Meta d)"
    by (auto simp: BuildHonchoNetworkPolicy_def wf_meta_def new_meta_def HonchoLabels_def Let_def split: if_splits)
  have cb: "honcho_netpol E inst = mutate_netpol E inst d" by (simp add: fun_eq_iff honcho_netpol_def d)
  from True run have r: "kc_create_or_update (env_netpols E) (empty_netpol (HonchoDeploymentName inst) (inst_ns inst))
      (mutate_netpol E inst d) w = (None, w')" by (simp add: labelled_None cb)
  from mnp.converges [OF api_serves(8,15) [OF api], where D = "\<lambda>_. d", OF dw x(1) r] x(2) True d
  show ?thesis by (simp add: there_iff_def)
qed

lemma there_iff_only_at:
  assumes "only_at S c c'" and "i \<notin> S"
  shows "there_iff e i (conforms tag meta body i m a b) c' = there_iff e i (conforms tag meta body i m a b) c"
proof -
  have "c' i = c i" using assms unfolding only_at_def by blast
  then show ?thesis by (simp add: there_iff_def conforms_only_at [OF assms])
qed

lemma honcho_step:
  assumes api: "api_server N E look" and run: "reconcileHoncho E inst w = (None, w')"
  shows "honcho_reached N inst (look w') \<and> only_at (honcho_ids inst) (look w) (look w')"
proof -
  let ?p = "honchoEnabled inst \<and> BoolValueOrDefault (honper_Enabled (hon_Persistence (honcho inst))) True"
  from run obtain w1 w2 w3 where r:
    "(if ?p then honcho_pvc E inst else (\<lambda>w. (None, w))) w = (None, w1)"
    "(if \<not> honchoEnabled inst then labelled ''honcho svc delete'' (deleteIfExists (env_services E) (inst_ns inst, HonchoServiceName inst))
      else labelled ''honcho svc'' (kc_create_or_update (env_services E) (empty_service (HonchoServiceName inst) (inst_ns inst))
                (mutate_service E inst (BuildHonchoService inst)))) w1 = (None, w2)"
    "(if \<not> honchoEnabled inst then labelled ''honcho deployment delete'' (deleteIfExists (env_deployments E) (inst_ns inst, HonchoDeploymentName inst))
      else labelled ''honcho deployment'' (kc_create_or_update (env_deployments E) (empty_deployment (HonchoDeploymentName inst) (inst_ns inst))
                (mutate_deployment E inst))) w2 = (None, w3)"
    "(if \<not> (honchoEnabled inst \<and> netpol_enabled inst)
      then labelled ''honcho netpol delete'' (deleteIfExists (env_netpols E) (inst_ns inst, HonchoDeploymentName inst))
      else labelled ''honcho netpol'' (kc_create_or_update (env_netpols E) (empty_netpol (HonchoDeploymentName inst) (inst_ns inst)) (honcho_netpol E inst))) w3
        = (None, w')"
    unfolding reconcileHoncho_def Let_def by (elim and_thenE) (rule that)
  have 1: "(?p \<longrightarrow> exists_at (KPVC, (inst_ns inst, HonchoPVCName inst)) (look w1)) \<and>
      only_at {(KPVC, (inst_ns inst, HonchoPVCName inst))} (look w) (look w1)"
    using r(1) honcho_pvc_step [OF api, of inst w w1] by (auto split: if_splits)
  note 2 = honcho_service_step [OF api r(2)] and 3 = honcho_deployment_step [OF api r(3)] and 4 = honcho_netpol_step [OF api r(4)]
  have fr: "only_at (honcho_ids inst) (look w) (look w')"
    by (rule only_at_mono [OF only_at_trans [OF only_at_trans [OF only_at_trans [OF conjunct2 [OF 1] conjunct2 [OF 2]] conjunct2 [OF 3]] conjunct2 [OF 4]]])
      (simp add: honcho_ids_def)
  have "?p \<longrightarrow> exists_at (KPVC, (inst_ns inst, HonchoPVCName inst)) (look w')"
    using 1 2 3 4 by (simp add: exists_at_def only_at_def)
  then show ?thesis
    using 2 3 4 fr
    by (simp add: honcho_reached_def there_iff_only_at [OF conjunct2 [OF 3]] there_iff_only_at [OF conjunct2 [OF 4]])
qed

section \<open>A healthy API server\<close>

text \<open>
  Requests that succeed, when the object they name exists, and callbacks that give an object.
\<close>

definition gives_object :: "('o \<Rightarrow> 'w \<Rightarrow> (go_error + 'o) \<times> 'w) \<Rightarrow> bool" where
  "gives_object f \<longleftrightarrow> (\<forall>x w. \<exists>y w'. f x w = (Inr y, w'))"

definition client_ok :: "('o, 'w) kind_client \<Rightarrow> bool" where
  "client_ok kc \<longleftrightarrow>
     (\<forall>k w r w'. kc_get kc k w = (r, w') \<longrightarrow> (\<forall>e. r = Inl e \<longrightarrow> IsNotFound e)) \<and>
     (\<forall>x w. fst (kc_create kc x w) = None) \<and>
     (\<forall>x w r w'. kc_delete kc x w = (r, w') \<longrightarrow> (\<forall>e. r = Some e \<longrightarrow> IsNotFound e)) \<and>
     (\<forall>x f w. gives_object f \<longrightarrow> fst (kc_create_or_update kc x f w) = None)"

definition healthy :: "'w env \<Rightarrow> HermesInstance \<Rightarrow> bool" where
  "healthy E inst \<longleftrightarrow>
     client_ok (env_secrets E) \<and> client_ok (env_pvcs E) \<and> client_ok (env_configmaps E) \<and> client_ok (env_serviceaccounts E) \<and>
     client_ok (env_roles E) \<and> client_ok (env_rolebindings E) \<and> client_ok (env_services E) \<and> client_ok (env_netpols E) \<and>
     client_ok (env_pdbs E) \<and> client_ok (env_hpas E) \<and> client_ok (env_ingresses E) \<and> (\<forall>g. client_ok (env_unstructured E g)) \<and>
     client_ok (env_statefulsets E) \<and> client_ok (env_deployments E) \<and>
     (\<forall>i m. \<exists>m'. env_set_owner E i m = Inr m') \<and> (\<forall>w. \<exists>b w'. env_random E w = (Inr b, w')) \<and>
     must_parse_ok E (BuildPVC inst) \<and> must_parse_ok E (BuildHonchoPVC inst)"

definition succeeds :: "'w act \<Rightarrow> bool" where
  "succeeds a \<longleftrightarrow> (\<forall>w. fst (a w) = None)"

lemma succeeds_rules:
  "succeeds (\<lambda>w. (None, w))" "succeeds a \<Longrightarrow> succeeds (labelled s a)" "succeeds a \<Longrightarrow> succeeds b \<Longrightarrow> succeeds (and_then a b)"
  "(P \<Longrightarrow> succeeds a) \<Longrightarrow> (\<not> P \<Longrightarrow> succeeds b) \<Longrightarrow> succeeds (if P then a else b)"
  by (auto simp: succeeds_def labelled_def and_then_def split: prod.splits option.splits) (metis fst_conv option.distinct(1))+

lemma delete_succeeds: "client_ok kc \<Longrightarrow> succeeds (deleteIfExists kc key)"
proof -
  assume ok: "client_ok kc"
  have "kc_get kc k w = (Inl e, w') \<Longrightarrow> IsNotFound e" and "kc_delete kc x w = (Some e, w') \<Longrightarrow> IsNotFound e" for k w e w' x
    using ok unfolding client_ok_def by blast+
  then show ?thesis
    unfolding succeeds_def deleteIfExists_def by (auto split: prod.splits sum.splits option.splits)
qed

lemma update_succeeds: "client_ok kc \<Longrightarrow> gives_object f \<Longrightarrow> succeeds (kc_create_or_update kc x f)"
  unfolding succeeds_def client_ok_def by blast

lemma own_total:
  assumes "healthy E inst"
  shows "\<exists>y w'. own E i meta upd x w = (Inr y, w')"
proof -
  obtain m where "env_set_owner E i (meta x) = Inr m" using assms unfolding healthy_def by blast
  then show ?thesis by (simp add: own_def)
qed

lemma callbacks_total:
  assumes "healthy E inst"
  shows "gives_object (mutate_sa E i)" "gives_object (mutate_role E i)" "gives_object (mutate_rolebinding E i)" "gives_object (put_configmap E i d)"
    "gives_object (mutate_dashboard E i d)" "gives_object (mutate_netpol E i np)" "gives_object (mutate_service E i svc)" "gives_object (mutate_pdb E i)"
    "gives_object (mutate_hpa E i)" "gives_object (mutate_ingress E i)" "gives_object (mutate_statefulset mg E i)" "gives_object (mutate_deployment E i)"
    "gives_object (mutate_unstructured a u)" "gives_object (mutate_workspace E i)"
  unfolding gives_object_def mutate_sa_def mutate_role_def mutate_rolebinding_def put_configmap_def mutate_dashboard_def mutate_netpol_def
    mutate_service_def mutate_pdb_def mutate_hpa_def mutate_ingress_def mutate_statefulset_def mutate_deployment_def mutate_workspace_def Let_def
  by (intro allI own_total [OF assms])+ (simp add: mutate_unstructured_def Let_def, intro allI own_total [OF assms])

lemma secret_total:
  assumes "healthy E inst"
  shows "gives_object (mutate_secret E i)"
  unfolding gives_object_def
proof (intro allI)
  fix x w
  obtain b w1 where "env_random E w = (Inr b, w1)" using assms unfolding healthy_def by blast
  then show "\<exists>y w'. mutate_secret E i x w = (Inr y, w')"
    by (simp add: mutate_secret_def GenerateAPIServerKey_def Let_def own_total [OF assms])
qed

lemma healthy_clients:
  assumes "healthy E inst"
  shows "client_ok (env_secrets E)" "client_ok (env_pvcs E)" "client_ok (env_configmaps E)" "client_ok (env_serviceaccounts E)"
    "client_ok (env_roles E)" "client_ok (env_rolebindings E)" "client_ok (env_services E)" "client_ok (env_netpols E)"
    "client_ok (env_pdbs E)" "client_ok (env_hpas E)" "client_ok (env_ingresses E)" "client_ok (env_unstructured E g)"
    "client_ok (env_statefulsets E)" "client_ok (env_deployments E)"
    "must_parse_ok E (BuildPVC inst)" "must_parse_ok E (BuildHonchoPVC inst)"
  using assms by (simp_all add: healthy_def)

lemma create_pvc_succeeds:
  assumes "healthy E inst" and "must_parse_ok E d"
  shows "succeeds (create_owned_pvc E i l1 l2 d)"
proof -
  obtain m where "env_set_owner E i (pvc_Meta d) = Inr m" using assms(1) unfolding healthy_def by blast
  moreover have "fst (kc_create (env_pvcs E) x w) = None" for x w
    using healthy_clients(2) [OF assms(1)] by (simp add: client_ok_def)
  ultimately show ?thesis
    using assms(2) by (simp add: succeeds_def create_owned_pvc_def split: prod.splits option.splits) (metis fst_conv option.distinct(1))
qed

lemma get_or_create_succeeds:
  assumes "client_ok kc" and "succeeds a"
    and "\<And>w e w'. kc_get kc k w = (Inl e, w') \<Longrightarrow> IsNotFound e \<Longrightarrow> b w = a w'"
    and "\<And>w x w'. kc_get kc k w = (Inr x, w') \<Longrightarrow> b w = (None, w')"
  shows "succeeds b"
  unfolding succeeds_def
proof
  fix w
  have nf: "kc_get kc k w = (Inl e, w') \<Longrightarrow> IsNotFound e" for e w' using assms(1) unfolding client_ok_def by blast
  obtain r w' where g: "kc_get kc k w = (r, w')" by fastforce
  show "fst (b w) = None"
  proof (cases r)
    case (Inl e)
    then show ?thesis using assms(2,3) g nf by (simp add: succeeds_def)
  next
    case (Inr x)
    then show ?thesis using assms(4) g by simp
  qed
qed

lemma unstructured_succeeds:
  assumes "healthy E inst"
  shows "succeeds (apply_unstructured E i a d)"
proof -
  obtain m where "env_set_owner E i (un_Meta d) = Inr m" using assms unfolding healthy_def by blast
  then show ?thesis
    using update_succeeds [OF healthy_clients(12) [OF assms] callbacks_total(13) [OF assms]]
    by (simp add: succeeds_def apply_unstructured_def)
qed

text \<open>Every reconciler succeeds; the ConfigMap needs a configuration that resolves and renders.\<close>

lemma steps_succeed:
  assumes h: "healthy E i"
  shows "succeeds (reconcileSecret E i)" "succeeds (reconcilePVC E i)" "succeeds (reconcileWorkspaceConfigMap E i)"
    "succeeds (reconcileNetworkPolicy E i)" "succeeds (reconcileRBAC E i)" "succeeds (reconcileService E i)" "succeeds (reconcilePDB E i)"
    "succeeds (reconcileHPA E i)" "succeeds (reconcileIngress E i)" "succeeds (reconcileHTTPRoute E i)"
    "succeeds (reconcileServiceMonitor crds E i)" "succeeds (reconcilePrometheusRule crds E i)" "succeeds (reconcileGrafanaDashboards E i)"
    "succeeds (reconcileStatefulSet mg E i)" "succeeds reconcileTailscale"
proof -
  note ok = delete_succeeds healthy_clients [OF h] update_succeeds callbacks_total [OF h] unstructured_succeeds [OF h] secret_total [OF h]
  show "succeeds (reconcileSecret E i)" unfolding reconcileSecret_def by (intro ok)
  show "succeeds (reconcilePVC E i)"
    by (rule get_or_create_succeeds [where k = "(inst_ns i, PVCName i)", OF healthy_clients(2) [OF h]
          create_pvc_succeeds [OF h healthy_clients(15) [OF h], of i "''''" "''''"]])
      (simp_all add: reconcilePVC_def)
  show "succeeds (reconcileWorkspaceConfigMap E i)" unfolding reconcileWorkspaceConfigMap_def by (intro ok)
  show "succeeds (reconcileNetworkPolicy E i)" unfolding reconcileNetworkPolicy_def by (intro succeeds_rules ok)
  show "succeeds (reconcileRBAC E i)" unfolding reconcileRBAC_def by (intro succeeds_rules ok)
  show "succeeds (reconcileService E i)" unfolding reconcileService_def by (intro ok)
  show "succeeds (reconcilePDB E i)" unfolding reconcilePDB_def by (intro succeeds_rules ok)
  show "succeeds (reconcileHPA E i)" unfolding reconcileHPA_def by (intro succeeds_rules ok)
  show "succeeds (reconcileIngress E i)" unfolding reconcileIngress_def by (intro succeeds_rules ok)
  show "succeeds (reconcileServiceMonitor crds E i)" unfolding reconcileServiceMonitor_def by (intro succeeds_rules ok)
  show "succeeds (reconcilePrometheusRule crds E i)" unfolding reconcilePrometheusRule_def by (intro succeeds_rules ok)
  show "succeeds (reconcileGrafanaDashboards E i)" unfolding reconcileGrafanaDashboards_def apply_dashboard_def by (intro succeeds_rules ok)
  show "succeeds (reconcileStatefulSet mg E i)" unfolding reconcileStatefulSet_def by (intro ok)
  show "succeeds reconcileTailscale" by (simp add: succeeds_def reconcileTailscale_def)
  show "succeeds (reconcileHTTPRoute E i)"
  proof (cases "httproute_enabled i")
    case False
    have "fst (deleteIfExists (env_unstructured E HTTPRouteGVK) key w) = None" for key w
      using ok(1) [OF healthy_clients(12) [OF h]] by (simp add: succeeds_def)
    then show ?thesis
      using False by (auto simp: succeeds_def reconcileHTTPRoute_def ignoreNoGatewayAPI_def split: prod.splits option.splits)
        (metis fst_conv option.distinct(1))+
  next
    case True
    then obtain d where "BuildHTTPRoute i = Some d"
      by (auto simp: httproute_enabled_def BuildHTTPRoute_def split: option.splits)
    then show ?thesis using True unstructured_succeeds [OF h] by (simp add: succeeds_def reconcileHTTPRoute_def)
  qed
qed

lemma honcho_succeeds:
  assumes h: "healthy E i"
  shows "succeeds (reconcileHoncho E i)"
proof -
  have p: "must_parse_ok E ((BuildHonchoPVC i)\<lparr>pvc_Meta := m\<rparr>)" for m
    using healthy_clients(16) [OF h] by (simp add: must_parse_ok_def)
  have 1: "succeeds (honcho_pvc E i)"
    by (rule get_or_create_succeeds [where k = "(inst_ns i, HonchoPVCName i)", OF healthy_clients(2) [OF h]
          create_pvc_succeeds [OF h p, of i "''honcho pvc owner ref''" "''honcho pvc create''"
            "merge_labels (pvc_Meta (BuildHonchoPVC i)) (pvc_Meta (BuildHonchoPVC i))"]])
      (simp_all add: honcho_pvc_def Let_def)
  have 2: "gives_object (honcho_netpol E i)" if "honchoEnabled i"
    using that callbacks_total(6) [OF h] by (simp add: gives_object_def honcho_netpol_def BuildHonchoNetworkPolicy_def)
  show ?thesis
    unfolding reconcileHoncho_def Let_def
    by (intro succeeds_rules 1 delete_succeeds update_succeeds healthy_clients [OF h] callbacks_total [OF h] 2) simp
qed

text \<open>The ConfigMap a configuration refers to, if it does: the one object read that is not written.\<close>

definition ref_ids :: "HermesInstance \<Rightarrow> object_id set" where
  "ref_ids inst = (case cfg_ConfigMapRef (spec_Config (hi_Spec inst)) of None \<Rightarrow> {} | Some r \<Rightarrow> {cm_id inst r})"

text \<open>The configuration as the cluster has it, before it is rendered.\<close>

definition config_in :: "yaml_lib \<Rightarrow> HermesInstance \<Rightarrow> cluster \<Rightarrow> go_error + string" where
  "config_in yl inst c =
     (let cs = spec_Config (hi_Spec inst) in
      case cfg_ConfigMapRef cs of
        None \<Rightarrow> Inr ''''
      | Some ref \<Rightarrow>
         (case c (cm_id inst ref) of
            Some (ObjConfigMap user) \<Rightarrow>
              (let base = mget0 (cm_Data user) ''config.yaml'' in
               case cfg_Raw cs of
                 None \<Rightarrow> Inr base
               | Some raw \<Rightarrow>
                   if cfg_MergeMode cs = ConfigMergeModeMerge then MergeYAMLBodies yl base (rawcfg_RawExtension raw) else Inr '''')
          | _ \<Rightarrow> Inl (Plain ''no such ConfigMap'')))"

definition config_renders :: "yaml_lib \<Rightarrow> HermesInstance \<Rightarrow> cluster \<Rightarrow> bool" where
  "config_renders yl inst c \<longleftrightarrow> (\<exists>body d. config_in yl inst c = Inr body \<and> BuildConfigMap yl inst body = Inr d)"

lemma config_renders_local:
  assumes "\<And>x. x \<in> ref_ids inst \<Longrightarrow> c' x = c x"
  shows "config_renders yl inst c' = config_renders yl inst c"
proof -
  have "config_in yl inst c' = config_in yl inst c"
    using assms by (auto simp: config_in_def ref_ids_def Let_def split: option.split)
  then show ?thesis by (simp add: config_renders_def)
qed

lemma resolve_succeeds:
  assumes api: "api_server N E look" and h: "healthy E i" and body: "config_in yl i (look w) = Inr body"
  shows "\<exists>w1. resolveConfigBody yl E i w = (Inr body, w1)"
proof (cases "cfg_ConfigMapRef (spec_Config (hi_Spec i))")
  case None
  then show ?thesis using body by (simp add: config_in_def resolveConfigBody_def)
next
  case (Some ref)
  let ?kc = "env_configmaps E" and ?k = "(inst_ns i, ref)"
  obtain r w1 where g: "kc_get ?kc ?k w = (r, w1)" by fastforce
  have sv: "case r of Inr x \<Rightarrow> look w (KConfigMap, ?k) = Some (ObjConfigMap x) \<and> object_key (cm_Meta x) = ?k
      | Inl e \<Rightarrow> says_absent e \<longrightarrow> look w (KConfigMap, ?k) = None"
    using api_serves(3) [OF api] g unfolding serves_def serves_get_def by blast
  have nf: "r = Inl e \<Longrightarrow> IsNotFound e" for e
    using healthy_clients(3) [OF h] g unfolding client_ok_def by blast
  show ?thesis
  proof (cases r)
    case (Inl e)
    then show ?thesis using sv nf body Some by (auto simp: says_absent_def config_in_def Let_def)
  next
    case (Inr user)
    then show ?thesis
      using sv body Some g by (auto simp: config_in_def resolveConfigBody_def Let_def split: option.splits if_splits)
  qed
qed

lemma configmap_succeeds:
  assumes api: "api_server N E look" and h: "healthy E i" and "config_renders yl i (look w)"
  shows "fst (reconcileConfigMap yl E i w) = None"
proof -
  from assms(3) obtain body d where b: "config_in yl i (look w) = Inr body" "BuildConfigMap yl i body = Inr d"
    unfolding config_renders_def by blast
  from resolve_succeeds [OF api h b(1)] obtain w1 where r: "resolveConfigBody yl E i w = (Inr body, w1)" ..
  have "mutate_configmap yl E i body = put_configmap E i d" using b(2) by (simp add: fun_eq_iff mutate_configmap_def)
  then have "gives_object (mutate_configmap yl E i body)" using callbacks_total(4) [OF h] by simp
  from update_succeeds [OF healthy_clients(3) [OF h] this] r
  show ?thesis by (simp add: succeeds_def reconcileConfigMap_def)
qed

end
