(* ===== verification/Store.thy ===== *)
theory Store
  imports Cluster
begin

text \<open>
  A concrete API server: an environment whose world is the contents of the cluster. It meets the
  hypotheses \<open>api_server exact\<close> and \<open>healthy\<close> of \<open>Cluster\<close>, so that what rests on them is not empty.
  \<open>Settle\<close> has a server that fills in a default.
\<close>

primrec meta_of :: "api_object \<Rightarrow> ObjectMeta" where
  "meta_of (ObjSecret x) = sec_Meta x"
| "meta_of (ObjPVC x) = pvc_Meta x"
| "meta_of (ObjConfigMap x) = cm_Meta x"
| "meta_of (ObjServiceAccount x) = sa_Meta x"
| "meta_of (ObjRole x) = role_Meta x"
| "meta_of (ObjRoleBinding x) = rb_Meta x"
| "meta_of (ObjService x) = svc_Meta x"
| "meta_of (ObjNetworkPolicy x) = np_Meta x"
| "meta_of (ObjPDB x) = pdb_Meta x"
| "meta_of (ObjHPA x) = hpa_Meta x"
| "meta_of (ObjIngress x) = ing_Meta x"
| "meta_of (ObjUnstructured x) = un_Meta x"
| "meta_of (ObjStatefulSet x) = sts_Meta x"
| "meta_of (ObjDeployment x) = dep_Meta x"

primrec of_kind :: "api_object \<Rightarrow> kind \<Rightarrow> bool" where
  "of_kind (ObjSecret x) k = (k = KSecret)"
| "of_kind (ObjPVC x) k = (k = KPVC)"
| "of_kind (ObjConfigMap x) k = (k = KConfigMap)"
| "of_kind (ObjServiceAccount x) k = (k = KServiceAccount)"
| "of_kind (ObjRole x) k = (k = KRole)"
| "of_kind (ObjRoleBinding x) k = (k = KRoleBinding)"
| "of_kind (ObjService x) k = (k = KService)"
| "of_kind (ObjNetworkPolicy x) k = (k = KNetworkPolicy)"
| "of_kind (ObjPDB x) k = (k = KPDB)"
| "of_kind (ObjHPA x) k = (k = KHPA)"
| "of_kind (ObjIngress x) k = (k = KIngress)"
| "of_kind (ObjUnstructured x) k = (case k of KUnstructured g \<Rightarrow> True | _ \<Rightarrow> False)"
| "of_kind (ObjStatefulSet x) k = (k = KStatefulSet)"
| "of_kind (ObjDeployment x) k = (k = KDeployment)"

definition fits :: "object_id \<Rightarrow> api_object \<Rightarrow> bool" where
  "fits i a \<longleftrightarrow> of_kind a (fst i) \<and> object_key (meta_of a) = snd i \<and> wf_meta (meta_of a)"

definition clean :: "cluster \<Rightarrow> cluster" where
  "clean c i = (case c i of None \<Rightarrow> None | Some a \<Rightarrow> if fits i a then Some a else None)"

text \<open>
  The client of one kind. \<open>fill\<close> is what the server makes of an object before it stores it; a write
  that comes to what is stored, up to \<open>body\<close>, changes nothing.
\<close>

definition filling_client ::
  "('o \<Rightarrow> 'o) \<Rightarrow> kind \<Rightarrow> ('o \<Rightarrow> api_object) \<Rightarrow> (api_object \<Rightarrow> 'o option) \<Rightarrow> ('o \<Rightarrow> ObjectMeta) \<Rightarrow> ('o \<Rightarrow> 'b) \<Rightarrow>
     ('o, cluster) kind_client" where
  "filling_client fill k tag untag meta body = quiet_client
     \<lparr>kc_get := (\<lambda>key c. (case clean c (k, key) of
          None \<Rightarrow> Inl (ApiStatus ReasonNotFound ''not found'')
        | Some a \<Rightarrow> (case untag a of None \<Rightarrow> Inl (ApiStatus ReasonNotFound ''not found'') | Some x \<Rightarrow> Inr x), c)),
      kc_create := (\<lambda>x c. (None, c((k, object_key (meta x)) \<mapsto> tag (fill x)))),
      kc_delete := (\<lambda>x c. (None, c((k, object_key (meta x)) := None))),
      kc_create_or_update := (\<lambda>x f c.
        (let i = (k, object_key (meta x));
             cur = (case clean c i of None \<Rightarrow> x | Some a \<Rightarrow> (case untag a of None \<Rightarrow> x | Some y \<Rightarrow> y)) in
         case f cur c of
           (Inl e, c1) \<Rightarrow> (Some e, c1)
         | (Inr y, c1) \<Rightarrow> (None, if clean c1 i = Some (tag cur) \<and> keeps meta body y cur then c1 else c1(i \<mapsto> tag (fill y)))))\<rparr>"

abbreviation store_client ::
  "kind \<Rightarrow> ('o \<Rightarrow> api_object) \<Rightarrow> (api_object \<Rightarrow> 'o option) \<Rightarrow> ('o \<Rightarrow> ObjectMeta) \<Rightarrow> ('o \<Rightarrow> 'b) \<Rightarrow> ('o, cluster) kind_client" where
  "store_client \<equiv> filling_client (\<lambda>x. x)"

definition cluster_env :: "cluster env" where
  "cluster_env = quiet_env
     \<lparr>env_secrets := store_client KSecret ObjSecret (\<lambda>a. case a of ObjSecret x \<Rightarrow> Some x | _ \<Rightarrow> None) sec_Meta secret_body,
      env_pvcs := store_client KPVC ObjPVC (\<lambda>a. case a of ObjPVC x \<Rightarrow> Some x | _ \<Rightarrow> None) pvc_Meta pvc_body,
      env_configmaps := store_client KConfigMap ObjConfigMap (\<lambda>a. case a of ObjConfigMap x \<Rightarrow> Some x | _ \<Rightarrow> None) cm_Meta cm_Data,
      env_serviceaccounts := store_client KServiceAccount ObjServiceAccount (\<lambda>a. case a of ObjServiceAccount x \<Rightarrow> Some x | _ \<Rightarrow> None) sa_Meta sa_AutomountServiceAccountToken,
      env_roles := store_client KRole ObjRole (\<lambda>a. case a of ObjRole x \<Rightarrow> Some x | _ \<Rightarrow> None) role_Meta role_Rules,
      env_rolebindings := store_client KRoleBinding ObjRoleBinding (\<lambda>a. case a of ObjRoleBinding x \<Rightarrow> Some x | _ \<Rightarrow> None) rb_Meta rb_body,
      env_services := store_client KService ObjService (\<lambda>a. case a of ObjService x \<Rightarrow> Some x | _ \<Rightarrow> None) svc_Meta service_body,
      env_netpols := store_client KNetworkPolicy ObjNetworkPolicy (\<lambda>a. case a of ObjNetworkPolicy x \<Rightarrow> Some x | _ \<Rightarrow> None) np_Meta np_Spec,
      env_pdbs := store_client KPDB ObjPDB (\<lambda>a. case a of ObjPDB x \<Rightarrow> Some x | _ \<Rightarrow> None) pdb_Meta pdb_body,
      env_hpas := store_client KHPA ObjHPA (\<lambda>a. case a of ObjHPA x \<Rightarrow> Some x | _ \<Rightarrow> None) hpa_Meta hpa_body,
      env_ingresses := store_client KIngress ObjIngress (\<lambda>a. case a of ObjIngress x \<Rightarrow> Some x | _ \<Rightarrow> None) ing_Meta ing_body,
      env_unstructured := (\<lambda>g. store_client (KUnstructured g) ObjUnstructured (\<lambda>a. case a of ObjUnstructured x \<Rightarrow> Some x | _ \<Rightarrow> None) un_Meta un_Spec),
      env_statefulsets := store_client KStatefulSet ObjStatefulSet (\<lambda>a. case a of ObjStatefulSet x \<Rightarrow> Some x | _ \<Rightarrow> None) sts_Meta sts_Spec,
      env_deployments := store_client KDeployment ObjDeployment (\<lambda>a. case a of ObjDeployment x \<Rightarrow> Some x | _ \<Rightarrow> None) dep_Meta dep_Spec\<rparr>"

lemma clean_upd: "fits i a \<Longrightarrow> clean (c(i \<mapsto> a)) = (clean c)(i \<mapsto> a)"
  by (simp add: fun_eq_iff clean_def)

lemma clean_del: "clean (c(i := None)) = (clean c)(i := None)"
  by (simp add: fun_eq_iff clean_def)

lemma clean_fits: "clean c i = Some a \<Longrightarrow> fits i a"
  by (simp add: clean_def split: option.splits if_splits)

lemma store_serves:
  assumes tag: "\<And>x. untag (tag x) = Some x" "\<And>a. of_kind a k \<Longrightarrow> \<exists>x. a = tag x" "\<And>x. of_kind (tag x) k" "\<And>x. meta_of (tag x) = meta x"
    and fill: "\<And>x. meta (fill x) = meta x" "\<And>x. body (fill x) = body x"
  shows "serves (filling_client fill k tag untag meta body) k tag meta body clean" and "client_ok (filling_client fill k tag untag meta body)"
proof -
  let ?kc = "filling_client fill k tag untag meta body"
  have stored: "\<exists>x. a = tag x \<and> object_key (meta x) = key \<and> wf_meta (meta x)" if "clean c (k, key) = Some a" for c key a
    using clean_fits [OF that] tag(2) [of a] tag(4) by (auto simp: fits_def)
  have fit: "fits (k, object_key (meta x)) (tag x)" if "wf_meta (meta x)" for x
    using that tag(3,4) by (simp add: fits_def)
  have "serves_get ?kc k tag meta clean"
    using stored by (fastforce simp: serves_get_def filling_client_def tag(1) split: option.splits)
  moreover have "serves_create ?kc k tag meta body clean"
    unfolding serves_create_def
  proof (intro allI impI)
    fix x c c' assume wf: "wf_meta (meta x)" and "kc_create ?kc x c = (None, c')"
    then have "clean c' = (clean c)((k, object_key (meta x)) \<mapsto> tag (fill x))"
      using fit [of "fill x"] by (auto simp: filling_client_def clean_upd fill)
    moreover have "keeps meta body x (fill x)" by (simp add: keeps_def fill)
    ultimately show "\<exists>y. keeps meta body x y \<and> clean c' = (clean c)((k, object_key (meta x)) \<mapsto> tag y)" by blast
  qed
  moreover have "serves_delete ?kc k meta clean"
    by (auto simp: serves_delete_def filling_client_def clean_del)
  moreover have "serves_update ?kc k tag meta body clean"
    unfolding serves_update_def
  proof (intro allI impI)
    fix x f c c' assume kd: "keyed meta f" and wf: "wf_meta (meta x)" and run: "kc_create_or_update ?kc x f c = (None, c')"
    let ?i = "(k, object_key (meta x))"
    obtain cur where cur: "wf_meta (meta cur)" "object_key (meta cur) = object_key (meta x)"
      "clean c ?i = Some (tag cur) \<or> clean c ?i = None \<and> cur = x"
      "(case clean c ?i of None \<Rightarrow> x | Some a \<Rightarrow> (case untag a of None \<Rightarrow> x | Some y \<Rightarrow> y)) = cur"
      using stored wf by (cases "clean c ?i") (fastforce simp: tag(1))+
    from run cur(4) obtain y c1 where y: "f cur c = (Inr y, c1)"
      "c' = (if clean c1 ?i = Some (tag cur) \<and> keeps meta body y cur then c1 else c1(?i \<mapsto> tag (fill y)))"
      by (auto simp: filling_client_def Let_def split: prod.splits sum.splits)
    have "object_key (meta y) = object_key (meta cur) \<and> (wf_meta (meta cur) \<longrightarrow> wf_meta (meta y))"
      using kd y(1) unfolding keyed_def by blast
    then have "object_key (meta y) = object_key (meta x)" "wf_meta (meta y)" using cur(1,2) by simp_all
    then have fy: "fits ?i (tag (fill y))" using fit [of "fill y"] by (simp add: fill)
    have "\<exists>z. keeps meta body y z \<and> clean c' = (clean c1)(?i \<mapsto> tag z)"
    proof (cases "clean c1 ?i = Some (tag cur) \<and> keeps meta body y cur")
      case True
      then have "clean c' = (clean c1)(?i \<mapsto> tag cur)" using y(2) by (simp add: fun_upd_idem)
      with True show ?thesis by blast
    next
      case False
      have "c' = c1(?i \<mapsto> tag (fill y))" using y(2) unfolding if_not_P [OF False] .
      then have "clean c' = (clean c1)(?i \<mapsto> tag (fill y))" using clean_upd [OF fy] by simp
      then show ?thesis by (intro exI [of _ "fill y"]) (simp add: keeps_def fill)
    qed
    then show "\<exists>cur w1 y w2 z. clean w1 = clean c \<and> wf_meta (meta cur) \<and>
        (clean c ?i = Some (tag cur) \<or> clean c ?i = None \<and> cur = x) \<and>
        f cur w1 = (Inr y, w2) \<and> keeps meta body y z \<and> clean c' = (clean w2)(?i \<mapsto> tag z)"
      using cur(1,3) y(1) by blast
  qed
  ultimately show "serves ?kc k tag meta body clean" by (simp add: serves_def)
  show "client_ok ?kc"
    by (auto simp: client_ok_def filling_client_def gives_object_def IsNotFound_def Let_def split: option.splits prod.splits sum.splits)
      (metis prod.inject sum.distinct(1))+
qed

lemma kind_cases:
  "of_kind a KSecret \<Longrightarrow> \<exists>x. a = ObjSecret x"
  "of_kind a KPVC \<Longrightarrow> \<exists>x. a = ObjPVC x"
  "of_kind a KConfigMap \<Longrightarrow> \<exists>x. a = ObjConfigMap x"
  "of_kind a KServiceAccount \<Longrightarrow> \<exists>x. a = ObjServiceAccount x"
  "of_kind a KRole \<Longrightarrow> \<exists>x. a = ObjRole x"
  "of_kind a KRoleBinding \<Longrightarrow> \<exists>x. a = ObjRoleBinding x"
  "of_kind a KService \<Longrightarrow> \<exists>x. a = ObjService x"
  "of_kind a KNetworkPolicy \<Longrightarrow> \<exists>x. a = ObjNetworkPolicy x"
  "of_kind a KPDB \<Longrightarrow> \<exists>x. a = ObjPDB x"
  "of_kind a KHPA \<Longrightarrow> \<exists>x. a = ObjHPA x"
  "of_kind a KIngress \<Longrightarrow> \<exists>x. a = ObjIngress x"
  "of_kind a (KUnstructured g) \<Longrightarrow> \<exists>x. a = ObjUnstructured x"
  "of_kind a KStatefulSet \<Longrightarrow> \<exists>x. a = ObjStatefulSet x"
  "of_kind a KDeployment \<Longrightarrow> \<exists>x. a = ObjDeployment x"
  by (cases a; auto split: kind.splits)+

lemma cluster_api: "api_server exact cluster_env clean"
  unfolding api_server_def
  by (intro conjI allI impI; (simp add: cluster_env_def; rule store_serves(1); (simp add: kind_cases)?)?)
    (auto simp: cluster_env_def quiet_env_def owner_api_def)

lemma cluster_healthy: "healthy cluster_env inst"
  unfolding healthy_def
  by (intro conjI allI; (simp add: cluster_env_def; rule store_serves(2); (simp add: kind_cases)?)?)
    (auto simp: cluster_env_def quiet_env_def must_parse_ok_def)

text \<open>Instances with the defaults, and the configuration they render.\<close>

definition plain :: "string \<Rightarrow> HermesInstance" where
  "plain n = zero_HermesInstance\<lparr>hi_ObjectMeta := new_meta n ''prod''\<rparr>"

abbreviation demo :: HermesInstance where
  "demo \<equiv> plain ''demo''"

lemma plain_simps [simp]: "hi_Spec (plain n) = zero_HermesInstanceSpec" "inst_name (plain n) = n" "inst_ns (plain n) = ''prod''"
  by (simp_all add: plain_def new_meta_def zero_HermesInstance_def)

lemma plain_maps: "maps_distinct (plain n)"
  by (simp add: maps_distinct_def wf_meta_def BuildServiceAccount_def BuildService_def BuildIngress_def BuildHTTPRoute_def new_meta_def
      buildIngressAnnotations_def DetectIngressProvider_def provider_annotations_def Let_def zero_defs)

lemma plain_renders: "\<exists>d. BuildConfigMap code_yaml (plain n) '''' = Inr d"
proof -
  have f: "BuildGatewayConfigFragments (plain n) = []" by (simp add: BuildGatewayConfigFragments_def zero_defs)
  have "\<exists>b. ensureModelDefault code_yaml (''{}'' @ [CHR 0x0A]) = Inr b"
    by (simp add: ensureModelDefault_def decode_body_def encode_body_def code_yaml_def)
  then obtain b where "ensureModelDefault code_yaml (''{}'' @ [CHR 0x0A]) = Inr b" ..
  moreover have "initial_body code_yaml (plain n) '''' = ''{}'' @ [CHR 0x0A]" by (simp add: initial_body_def zero_defs)
  ultimately show ?thesis
    by (simp add: BuildConfigMap_def render_config_def mergeGatewayFragments_def keep_on_error_def f Let_def)
qed

end
