(* ===== verification/Semaphore.thy ===== *)
theory Semaphore
  imports Env Common JSON
begin

text \<open>
  The Semaphore integration of \<open>internal/controller/hermesinstance_controller.go\<close>:
  \<open>reconcileSemaphore\<close>, which provisions a project, a user and an API token over HTTP, and
  \<open>semaphoreCleanup\<close>, which the deletion path calls. \<open>net/http\<close> is a parameter (\<open>http_lib\<close>): which
  URLs \<open>NewRequest\<close> accepts, and what \<open>DefaultClient.Do\<close> answers. The code drops the error of
  \<open>NewRequest\<close>, so an invalid URL is a nil pointer dereference. Bodies are decoded as
  \<open>json.NewDecoder(..).Decode\<close> decodes into the structs of the code.
\<close>

section \<open>Requests\<close>

record http_request =
  rq_Method :: string
  rq_URL :: string
  rq_Header :: strmap
  rq_Body :: string

record http_response =
  rs_StatusCode :: int
  rs_Cookies :: strmap
  rs_Body :: string

record 'w http_lib =
  ht_url_ok :: "string \<Rightarrow> bool"
  ht_do :: "http_request \<Rightarrow> 'w \<Rightarrow> (go_error + http_response) \<times> 'w"

text \<open>A computation that may fail and changes the world, and its sequencing.\<close>

type_synonym ('a, 'w) io = "'w \<Rightarrow> (go_error + 'a) \<times> 'w"

definition seqE :: "('a, 'w) io \<Rightarrow> ('a \<Rightarrow> ('b, 'w) io) \<Rightarrow> ('b, 'w) io" where
  "seqE m f w = (case m w of (Inl e, w1) \<Rightarrow> (Inl e, w1) | (Inr a, w1) \<Rightarrow> f a w1)"

definition wrapE :: "string \<Rightarrow> ('a, 'w) io \<Rightarrow> ('a, 'w) io" where
  "wrapE s m w = (case m w of (Inl e, w1) \<Rightarrow> (Inl (wrapf s e), w1) | (Inr a, w1) \<Rightarrow> (Inr a, w1))"

definition failE :: "string \<Rightarrow> ('a, 'w) io" where
  "failE s w = (Inl (Plain s), w)"

definition okE :: "'a \<Rightarrow> ('a, 'w) io" where
  "okE a w = (Inr a, w)"

definition send :: "'w http_lib \<Rightarrow> http_request \<Rightarrow> (http_response, 'w) io" where
  "send H r w = (if ht_url_ok H (rq_URL r) then ht_do H r w else (Inl nil_deref, w))"

definition json_header :: strmap where
  "json_header = [(''Content-Type'', ''application/json'')]"

definition cookie_header :: "string \<Rightarrow> strmap" where
  "cookie_header cookie = [(''Cookie'', ''semaphore='' @ cookie)]"

section \<open>Decoding bodies\<close>

text \<open>
  A decoder reads the first value of the body and leaves what follows it: the shortest prefix that
  is a document. (A number may be cut short by this, but no caller accepts a number.)
\<close>

definition Decode :: "string \<Rightarrow> json option" where
  "Decode s =
     (case filter (\<lambda>j. j \<noteq> None) (map (\<lambda>n. Unmarshal (take n s)) [0..<Suc (length s)]) of
        [] \<Rightarrow> None | j # _ \<Rightarrow> j)"

definition parse_int :: "string \<Rightarrow> int option" where
  "parse_int s =
     (let neg = (take 1 s = ''-''); ds = (if neg then drop 1 s else s);
          i = (if neg then - int (digits_val ds) else int (digits_val ds)) in
      if ds \<noteq> [] \<and> list_all is_digit ds \<and> - (2 ^ 63) \<le> i \<and> i < 2 ^ 63 then Some i else None)"

text \<open>
  A row of a listing: \<open>struct \{ ID int `json:"id"`; Name string `json:"name"` \}\<close> and its likes. A key
  matches a field in any case; a null leaves the field; a value of another type is an error that
  decoding reports at the end, after the other fields.
\<close>

record row =
  row_ID :: int
  row_Name :: string

definition decode_field :: "string \<Rightarrow> string \<times> json \<Rightarrow> row \<times> bool \<Rightarrow> row \<times> bool" where
  "decode_field name_key kv rb =
     (case (kv, rb) of ((k, v), (r, ok)) \<Rightarrow>
        if v = JNull then (r, ok)
        else if ToLower k = ''id''
        then (case v of JNum s \<Rightarrow> (case parse_int s of Some i \<Rightarrow> (r\<lparr>row_ID := i\<rparr>, ok) | None \<Rightarrow> (r, False)) | _ \<Rightarrow> (r, False))
        else if ToLower k = name_key
        then (case v of JStr s \<Rightarrow> (r\<lparr>row_Name := s\<rparr>, ok) | _ \<Rightarrow> (r, False))
        else (r, ok))"

definition decode_row :: "string \<Rightarrow> json \<Rightarrow> row \<times> bool" where
  "decode_row name_key j =
     (case j of
        JObj m \<Rightarrow> fold (decode_field name_key) m (\<lparr>row_ID = 0, row_Name = ''''\<rparr>, True)
      | JNull \<Rightarrow> (\<lparr>row_ID = 0, row_Name = ''''\<rparr>, True)
      | _ \<Rightarrow> (\<lparr>row_ID = 0, row_Name = ''''\<rparr>, False))"

definition syntax_error :: go_error where "syntax_error = Plain ''invalid JSON''"
definition type_error :: go_error where "type_error = Plain ''json: cannot unmarshal''"

definition decode_rows :: "string \<Rightarrow> string \<Rightarrow> row list \<times> go_error option" where
  "decode_rows name_key body =
     (case Decode body of
        None \<Rightarrow> ([], Some syntax_error)
      | Some JNull \<Rightarrow> ([], None)
      | Some (JArr l) \<Rightarrow>
          (map (fst \<circ> decode_row name_key) l,
           if list_all (snd \<circ> decode_row name_key) l then None else Some type_error)
      | Some _ \<Rightarrow> ([], Some type_error))"

text \<open>The \<open>created\<close> struct (an identifier) and the \<open>tok\<close> and \<open>apiError\<close> structs (one string).\<close>

definition decode_id :: "string \<Rightarrow> go_error + int" where
  "decode_id body =
     (case Decode body of
        None \<Rightarrow> Inl syntax_error
      | Some j \<Rightarrow> (case decode_row ''id'' j of (r, ok) \<Rightarrow> if ok then Inr (row_ID r) else Inl type_error))"

definition decode_string :: "string \<Rightarrow> string \<Rightarrow> go_error + string" where
  "decode_string key body =
     (case Decode body of
        None \<Rightarrow> Inl syntax_error
      | Some JNull \<Rightarrow> Inr ''''
      | Some (JObj m) \<Rightarrow>
          fold (\<lambda>(k, v) acc. if ToLower k \<noteq> key \<or> v = JNull then acc
                  else case (v, acc) of (JStr s, Inr _) \<Rightarrow> Inr s | _ \<Rightarrow> Inl type_error) m (Inr '''')
      | Some _ \<Rightarrow> Inl type_error)"

section \<open>Calls of the Semaphore API\<close>

definition semaphore_cookie :: "http_response \<Rightarrow> string" where
  "semaphore_cookie r = (case filter (\<lambda>c. fst c = ''semaphore'') (rs_Cookies r) of [] \<Rightarrow> '''' | c # _ \<Rightarrow> snd c)"

definition login_body :: "string \<Rightarrow> string \<Rightarrow> string" where
  \<open>login_body auth password = ''{"auth":"'' @ auth @ ''","password":"'' @ password @ ''"}''\<close>

definition login_request :: "string \<Rightarrow> string \<Rightarrow> http_request" where
  "login_request url body =
     \<lparr>rq_Method = ''POST'', rq_URL = url @ ''/api/auth/login'', rq_Header = json_header, rq_Body = body\<rparr>"

definition login :: "'w http_lib \<Rightarrow> string \<Rightarrow> string \<Rightarrow> string \<Rightarrow> string \<Rightarrow> (string, 'w) io" where
  "login H url body what no_cookie =
     seqE (wrapE what (send H (login_request url body)))
       (\<lambda>r. if semaphore_cookie r = '''' then failE no_cookie else okE (semaphore_cookie r))"

definition get_request :: "string \<Rightarrow> string \<Rightarrow> string \<Rightarrow> http_request" where
  "get_request url cookie path =
     \<lparr>rq_Method = ''GET'', rq_URL = url @ path, rq_Header = cookie_header cookie, rq_Body = ''''\<rparr>"

text \<open>\<open>apiGet\<close>, with the rows decoded before an error.\<close>

definition apiGet_partial :: "'w http_lib \<Rightarrow> string \<Rightarrow> string \<Rightarrow> string \<Rightarrow> string \<Rightarrow> 'w \<Rightarrow> (go_error option \<times> row list) \<times> 'w" where
  "apiGet_partial H url cookie path name_key w =
     (case send H (get_request url cookie path) w of
        (Inl e, w1) \<Rightarrow> ((Some e, []), w1)
      | (Inr r, w1) \<Rightarrow> (case decode_rows name_key (rs_Body r) of (rows, err) \<Rightarrow> ((err, rows), w1)))"

definition apiGet :: "'w http_lib \<Rightarrow> string \<Rightarrow> string \<Rightarrow> string \<Rightarrow> string \<Rightarrow> (row list, 'w) io" where
  "apiGet H url cookie path name_key w =
     (case apiGet_partial H url cookie path name_key w of
        ((Some e, _), w1) \<Rightarrow> (Inl e, w1) | ((None, rows), w1) \<Rightarrow> (Inr rows, w1))"

definition apiPost :: "'w http_lib \<Rightarrow> string \<Rightarrow> string \<Rightarrow> string \<Rightarrow> string \<Rightarrow> bool \<Rightarrow> (int, 'w) io" where
  "apiPost H url cookie path body has_target =
     seqE (send H \<lparr>rq_Method = ''POST'', rq_URL = url @ path, rq_Header = json_header @ cookie_header cookie, rq_Body = body\<rparr>)
       (\<lambda>r. if 400 \<le> rs_StatusCode r
            then failE (''POST '' @ path @ '': '' @ Itoa (rs_StatusCode r) @ '' '' @
                   (case decode_string ''error'' (rs_Body r) of Inl _ \<Rightarrow> '''' | Inr s \<Rightarrow> s))
            else if has_target
            then (\<lambda>w. (decode_id (rs_Body r), w))
            else okE 0)"

definition find_id :: "string \<Rightarrow> row list \<Rightarrow> int" where
  "find_id n rows = (case filter (\<lambda>r. row_Name r = n) rows of [] \<Rightarrow> 0 | r # _ \<Rightarrow> row_ID r)"

section \<open>Provisioning\<close>

definition admin_password :: "'w env \<Rightarrow> SecretKeySelector \<Rightarrow> (string, 'w) io" where
  "admin_password E ref =
     seqE (wrapE ''read admin secret'' (kc_get (env_secrets E) (''semaphore'', sks_Name ref)))
       (\<lambda>s. let pw = TrimSpace (mget0 (sec_Data s) (sks_Key ref)) in
            if pw = '''' then failE (''admin password empty in secret '' @ sks_Name ref) else okE pw)"

definition agent_username :: "HermesInstance \<Rightarrow> string" where
  "agent_username inst = inst_name inst @ ''-agent''"

definition agent_password :: "HermesInstance \<Rightarrow> string" where
  "agent_password inst = agent_username inst @ ''-auto''"

definition project_body :: "string \<Rightarrow> string" where
  \<open>project_body name = ''{"name":"'' @ name @ ''","alert":false,"max_parallel_tasks":0}''\<close>

definition ensure_project :: "'w http_lib \<Rightarrow> HermesInstance \<Rightarrow> string \<Rightarrow> string \<Rightarrow> (int, 'w) io" where
  "ensure_project H inst url cookie =
     seqE (wrapE ''list projects'' (apiGet H url cookie ''/api/projects'' ''name''))
       (\<lambda>projects.
          if find_id (inst_name inst) projects \<noteq> 0 then okE (find_id (inst_name inst) projects)
          else wrapE (''create project '' @ inst_name inst)
                 (apiPost H url cookie ''/api/projects'' (project_body (inst_name inst)) True))"

definition user_body :: "HermesInstance \<Rightarrow> string" where
  \<open>user_body inst =
     ''{"name":"'' @ inst_name inst @ '' Agent","username":"'' @ agent_username inst @ ''","email":"'' @
     agent_username inst @ ''@semaphore.local","password":"'' @ agent_password inst @ ''","admin":false}''\<close>

definition ensure_user :: "'w http_lib \<Rightarrow> HermesInstance \<Rightarrow> string \<Rightarrow> string \<Rightarrow> (int, 'w) io" where
  "ensure_user H inst url cookie =
     seqE (wrapE ''list users'' (apiGet H url cookie ''/api/users'' ''username''))
       (\<lambda>users.
          if find_id (agent_username inst) users \<noteq> 0 then okE (find_id (agent_username inst) users)
          else wrapE (''create user '' @ agent_username inst) (apiPost H url cookie ''/api/users'' (user_body inst) True))"

text \<open>The listing of the members ignores the error of its decoding.\<close>

definition member_body :: "int \<Rightarrow> string" where
  \<open>member_body userID = ''{"user_id":'' @ Itoa userID @ '',"role":"manager"}''\<close>

definition add_member :: "'w http_lib \<Rightarrow> string \<Rightarrow> string \<Rightarrow> int \<Rightarrow> int \<Rightarrow> row list \<Rightarrow> (unit, 'w) io" where
  "add_member H url cookie projectID userID projUsers =
     (if \<exists>r \<in> set projUsers. row_ID r = userID then okE ()
      else seqE (wrapE (''add user '' @ Itoa userID @ '' to project '' @ Itoa projectID)
                   (apiPost H url cookie (''/api/project/'' @ Itoa projectID @ ''/users'') (member_body userID) False))
             (\<lambda>_. okE ()))"

definition ensure_member :: "'w http_lib \<Rightarrow> string \<Rightarrow> string \<Rightarrow> int \<Rightarrow> int \<Rightarrow> (unit, 'w) io" where
  "ensure_member H url cookie projectID userID w =
     (case apiGet_partial H url cookie (''/api/project/'' @ Itoa projectID @ ''/users'') ''username'' w of
        ((err, rows), w1) \<Rightarrow>
          if (case err of Some e \<Rightarrow> is_panic e | None \<Rightarrow> False)
          then (case err of Some e \<Rightarrow> (Inl e, w1) | None \<Rightarrow> (Inr (), w1))
          else add_member H url cookie projectID userID rows w1)"

definition token_request :: "string \<Rightarrow> string \<Rightarrow> http_request" where
  "token_request url cookie =
     \<lparr>rq_Method = ''POST'', rq_URL = url @ ''/api/user/tokens'', rq_Header = json_header @ cookie_header cookie,
      rq_Body = ''{}''\<rparr>"

definition token_secret :: "HermesInstance \<Rightarrow> SecretKeySelector \<Rightarrow> string \<Rightarrow> Secret" where
  "token_secret inst ref tok =
     \<lparr>sec_Meta = new_meta (sks_Name ref) (inst_ns inst), sec_Type = '''', sec_Data = [],
      sec_StringData = [(sks_Key ref, tok)]\<rparr>"

definition create_secret :: "'w env \<Rightarrow> Secret \<Rightarrow> (unit, 'w) io" where
  "create_secret E s w = (case kc_create (env_secrets E) s w of (Some e, w1) \<Rightarrow> (Inl e, w1) | (None, w1) \<Rightarrow> (Inr (), w1))"

definition generate_token :: "'w http_lib \<Rightarrow> 'w env \<Rightarrow> HermesInstance \<Rightarrow> string \<Rightarrow> SecretKeySelector \<Rightarrow> (unit, 'w) io" where
  "generate_token H E inst url ref =
     seqE (login H url (login_body (agent_username inst) (agent_password inst)) ''user login''
             (''no session cookie for user '' @ agent_username inst))
       (\<lambda>cookie. seqE (wrapE ''generate token'' (send H (token_request url cookie)))
          (\<lambda>r. seqE (wrapE ''decode token'' (\<lambda>w. (decode_string ''id'' (rs_Body r), w)))
             (\<lambda>tok. wrapE ''create token secret'' (create_secret E (token_secret inst ref tok)))))"

definition ensure_token :: "'w http_lib \<Rightarrow> 'w env \<Rightarrow> HermesInstance \<Rightarrow> string \<Rightarrow> SecretKeySelector \<Rightarrow> (unit, 'w) io" where
  "ensure_token H E inst url ref w =
     (case kc_get (env_secrets E) (inst_ns inst, sks_Name ref) w of
        (Inr s, w1) \<Rightarrow> (Inr (), w1)
      | (Inl e, w1) \<Rightarrow>
          if IsNotFound e then generate_token H E inst url ref w1 else (Inl (wrapf ''read token secret'' e), w1))"

definition provision :: "'w http_lib \<Rightarrow> 'w env \<Rightarrow> HermesInstance \<Rightarrow> SecretKeySelector \<Rightarrow> SecretKeySelector \<Rightarrow> (unit, 'w) io" where
  "provision H E inst admin_ref token_ref =
     (let url = sema_URL (spec_Semaphore (hi_Spec inst)) in
      seqE (admin_password E admin_ref) (\<lambda>pw.
      seqE (login H url (login_body ''admin'' pw) ''semaphore login'' ''no semaphore session cookie'') (\<lambda>cookie.
      seqE (ensure_project H inst url cookie) (\<lambda>projectID.
      seqE (ensure_user H inst url cookie) (\<lambda>userID.
      seqE (ensure_member H url cookie projectID userID) (\<lambda>_.
      ensure_token H E inst url token_ref))))))"

definition ensure_skill :: "'w env \<Rightarrow> HermesInstance \<Rightarrow> 'w \<Rightarrow> go_error option \<times> HermesInstance \<times> 'w" where
  "ensure_skill E inst w =
     (if \<exists>sk \<in> set (spec_Skills (hi_Spec inst)). skill_Source sk = ''semaphore-ui'' then (None, inst, w)
      else case patch_instance E inst
                  (inst\<lparr>hi_Spec := (hi_Spec inst)\<lparr>spec_Skills := spec_Skills (hi_Spec inst) @
                     [zero_InstanceSkill\<lparr>skill_Source := ''semaphore-ui''\<rparr>]\<rparr>\<rparr>) w of
        (err, inst1, w1) \<Rightarrow> (map_option (wrapf ''patch semaphore skill'') err, inst1, w1))"

definition reconcileSemaphore :: "'w http_lib \<Rightarrow> 'w env \<Rightarrow> HermesInstance \<Rightarrow> 'w \<Rightarrow> go_error option \<times> HermesInstance \<times> 'w" where
  "reconcileSemaphore H E inst w =
     (if \<not> SemaphoreEnabled inst then (None, inst, w)
      else case (sema_AdminTokenSecretRef (spec_Semaphore (hi_Spec inst)), sema_TokenSecretRef (spec_Semaphore (hi_Spec inst))) of
        (Some admin_ref, Some token_ref) \<Rightarrow>
          (case provision H E inst admin_ref token_ref w of
             (Inl e, w1) \<Rightarrow> (Some e, inst, w1)
           | (Inr _, w1) \<Rightarrow> ensure_skill E inst w1)
      | _ \<Rightarrow> (Some (Plain ''semaphore enabled but adminTokenSecretRef or tokenSecretRef not set''), inst, w))"

section \<open>Cleanup\<close>

definition cleanup_password :: "'w env \<Rightarrow> SecretKeySelector option \<Rightarrow> (string, 'w) io" where
  "cleanup_password E ref =
     (case ref of
        None \<Rightarrow> (\<lambda>w. (Inl nil_deref, w))
      | Some r \<Rightarrow>
          seqE (wrapE (''read admin token secret semaphore/'' @ sks_Name r) (kc_get (env_secrets E) (''semaphore'', sks_Name r)))
            (\<lambda>s. let pw = mget0 (sec_Data s) (sks_Key r) in
                 if pw = '''' then failE (''admin password empty in secret '' @ sks_Name r) else okE pw))"

definition list_all_rows :: "'w http_lib \<Rightarrow> string \<Rightarrow> string \<Rightarrow> string \<Rightarrow> string \<Rightarrow> string \<Rightarrow> (row list, 'w) io" where
  "list_all_rows H url cookie path name_key what =
     seqE (wrapE (''list '' @ what) (send H (get_request url cookie path)))
       (\<lambda>r. wrapE (''decode '' @ what) (\<lambda>w. case decode_rows name_key (rs_Body r) of
               (_, Some e) \<Rightarrow> (Inl e, w) | (rows, None) \<Rightarrow> (Inr rows, w)))"

definition delete_request :: "string \<Rightarrow> string \<Rightarrow> string \<Rightarrow> http_request" where
  "delete_request url cookie path =
     \<lparr>rq_Method = ''DELETE'', rq_URL = url @ path, rq_Header = cookie_header cookie, rq_Body = ''''\<rparr>"

definition delete_both :: "'w http_lib \<Rightarrow> string \<Rightarrow> string \<Rightarrow> int \<Rightarrow> int \<Rightarrow> (unit, 'w) io" where
  "delete_both H url cookie projectID userID =
     seqE (wrapE (''delete project '' @ Itoa projectID) (send H (delete_request url cookie (''/api/project/'' @ Itoa projectID))))
       (\<lambda>_. if 0 < userID \<and> userID \<noteq> 1
            then seqE (wrapE (''delete user '' @ Itoa userID) (send H (delete_request url cookie (''/api/users/'' @ Itoa userID))))
                   (\<lambda>_. okE ())
            else okE ())"

definition cleanup :: "'w http_lib \<Rightarrow> 'w env \<Rightarrow> HermesInstance \<Rightarrow> (unit, 'w) io" where
  "cleanup H E inst =
     (let s = spec_Semaphore (hi_Spec inst); url = sema_URL s in
      seqE (cleanup_password E (sema_AdminTokenSecretRef s)) (\<lambda>pw.
      seqE (login H url (login_body ''admin'' pw) ''semaphore login'' ''no semaphore session cookie in login response'') (\<lambda>cookie.
      seqE (list_all_rows H url cookie ''/api/projects'' ''name'' ''projects'') (\<lambda>projects.
      if find_id (inst_name inst) projects = 0 then okE ()
      else seqE (list_all_rows H url cookie ''/api/users'' ''username'' ''users'') (\<lambda>users.
        delete_both H url cookie (find_id (inst_name inst) projects) (find_id (agent_username inst) users))))))"

definition semaphoreCleanup :: "'w http_lib \<Rightarrow> 'w env \<Rightarrow> HermesInstance \<Rightarrow> 'w \<Rightarrow> go_error option \<times> 'w" where
  "semaphoreCleanup H E inst w =
     (case cleanup H E inst w of (Inl e, w1) \<Rightarrow> (Some e, w1) | (Inr _, w1) \<Rightarrow> (None, w1))"

section \<open>What the cleanup deletes\<close>

text \<open>
  The deletions the cleanup may ask for: a project with an identifier, and a user other than the
  administrator.
\<close>

definition own_deletion :: "string \<Rightarrow> http_request \<Rightarrow> bool" where
  "own_deletion url r \<longleftrightarrow>
     (\<exists>i. i \<noteq> 0 \<and> rq_URL r = url @ ''/api/project/'' @ Itoa i) \<or>
     (\<exists>i. 1 < i \<and> rq_URL r = url @ ''/api/users/'' @ Itoa i)"

lemma Itoa_not_one: "1 < i \<Longrightarrow> Itoa i \<noteq> ''1''"
proof -
  assume i: "1 < i"
  have "nat_digits n \<noteq> ''1''" if "1 < n" for n
  proof (cases "n < 10")
    case True
    then have "n \<in> {2, 3, 4, 5, 6, 7, 8, 9}" using that by auto
    then show ?thesis by (subst nat_digits.simps) (auto simp: char_of_def)
  next
    case False
    have "nat_digits (n div 10) \<noteq> []" by (subst nat_digits.simps) simp
    with False show ?thesis by (subst nat_digits.simps) (simp add: append_eq_Cons_conv)
  qed
  then show ?thesis using i by (simp add: Itoa_def)
qed

lemma own_deletion_not_admin: "own_deletion url r \<Longrightarrow> rq_URL r \<noteq> url @ ''/api/users/1''"
  by (auto simp: own_deletion_def Itoa_not_one)

definition agree_on :: "(http_request \<Rightarrow> bool) \<Rightarrow> 'w http_lib \<Rightarrow> 'w http_lib \<Rightarrow> bool" where
  "agree_on P H H' \<longleftrightarrow> ht_url_ok H = ht_url_ok H' \<and> (\<forall>r w. P r \<longrightarrow> ht_do H r w = ht_do H' r w)"

lemma send_agree: "agree_on P H H' \<Longrightarrow> P r \<Longrightarrow> send H r = send H' r"
  by (simp add: agree_on_def send_def fun_eq_iff)

lemma login_agree:
  assumes "agree_on P H H'" and "P (login_request url body)"
  shows "login H url body what no_cookie = login H' url body what no_cookie"
  by (simp add: login_def send_agree [OF assms])

lemma list_agree:
  assumes "agree_on P H H'" and "P (get_request url cookie path)"
  shows "list_all_rows H url cookie path k what = list_all_rows H' url cookie path k what"
  by (simp add: list_all_rows_def send_agree [OF assms])

lemma delete_agree:
  assumes "agree_on P H H'" and "\<And>r. own_deletion url r \<Longrightarrow> P r" and "projectID \<noteq> 0"
  shows "delete_both H url cookie projectID userID = delete_both H' url cookie projectID userID"
proof -
  have "P (delete_request url cookie (''/api/project/'' @ Itoa projectID))"
    using assms(3) by (intro assms(2)) (auto simp: own_deletion_def delete_request_def)
  moreover have "P (delete_request url cookie (''/api/users/'' @ Itoa userID))" if "0 < userID" "userID \<noteq> 1"
    using that by (intro assms(2)) (auto simp: own_deletion_def delete_request_def intro!: exI [of _ userID])
  ultimately show ?thesis
    by (simp add: delete_both_def send_agree [OF assms(1)] cong: if_cong)
qed

lemma cleanup_agree:
  assumes "agree_on P H H'" and "\<And>r. own_deletion (sema_URL (spec_Semaphore (hi_Spec inst))) r \<Longrightarrow> P r"
    and "\<And>r. rq_Method r \<noteq> ''DELETE'' \<Longrightarrow> P r"
  shows "cleanup H E inst = cleanup H' E inst"
proof -
  let ?url = "sema_URL (spec_Semaphore (hi_Spec inst))"
  have 1: "login H ?url b x y = login H' ?url b x y" for b x y
    by (rule login_agree [OF assms(1)], rule assms(3)) (simp add: login_request_def)
  have 2: "list_all_rows H ?url c p k x = list_all_rows H' ?url c p k x" for c p k x
    by (rule list_agree [OF assms(1)], rule assms(3)) (simp add: get_request_def)
  have 3: "i \<noteq> 0 \<Longrightarrow> delete_both H ?url c i u = delete_both H' ?url c i u" for c i u
    by (rule delete_agree [OF assms(1,2)])
  show ?thesis by (simp add: cleanup_def Let_def 1 2 3 cong: if_cong)
qed

text \<open>
  C18. The cleanup asks for no deletion but that of a project and of a user other than the
  administrator: its outcome is the same whatever the server would answer to any other DELETE,
  among them that of the user 1.
\<close>

theorem cleanup_spares_admin:
  assumes "agree_on (\<lambda>r. rq_Method r = ''DELETE'' \<longrightarrow> own_deletion (sema_URL (spec_Semaphore (hi_Spec inst))) r) H H'"
  shows "semaphoreCleanup H E inst w = semaphoreCleanup H' E inst w \<and>
    \<not> own_deletion (sema_URL (spec_Semaphore (hi_Spec inst)))
        \<lparr>rq_Method = ''DELETE'', rq_URL = sema_URL (spec_Semaphore (hi_Spec inst)) @ ''/api/users/1'', rq_Header = h, rq_Body = b\<rparr>"
proof
  have "cleanup H E inst = cleanup H' E inst"
    by (rule cleanup_agree [OF assms]) simp_all
  then show "semaphoreCleanup H E inst w = semaphoreCleanup H' E inst w" by (simp add: semaphoreCleanup_def)
next
  show "\<not> own_deletion (sema_URL (spec_Semaphore (hi_Spec inst)))
        \<lparr>rq_Method = ''DELETE'', rq_URL = sema_URL (spec_Semaphore (hi_Spec inst)) @ ''/api/users/1'', rq_Header = h, rq_Body = b\<rparr>"
    using own_deletion_not_admin by fastforce
qed

text \<open>A server that logs what it is asked, and one that refuses to delete its administrator.\<close>

definition refusal :: http_response where
  "refusal = \<lparr>rs_StatusCode = 500, rs_Cookies = [], rs_Body = ''{}''\<rparr>"

definition demo_server :: "http_request list http_lib" where
  \<open>demo_server =
     \<lparr>ht_url_ok = (\<lambda>u. True),
      ht_do = (\<lambda>r log. (Inr
        (if rq_URL r = ''http://s/api/auth/login'' then \<lparr>rs_StatusCode = 204, rs_Cookies = [(''semaphore'', ''c'')], rs_Body = ''''\<rparr>
         else if rq_URL r = ''http://s/api/user/tokens'' then refusal
         else \<lparr>rs_StatusCode = 200, rs_Cookies = [], rs_Body = ''[]''\<rparr>), log @ [r]))\<rparr>\<close>

definition guarded_server :: "http_request list http_lib" where
  "guarded_server = demo_server\<lparr>ht_do := (\<lambda>r log. if rq_Method r = ''DELETE'' \<and> rq_URL r = ''http://s/api/users/1''
     then (Inl (Plain ''refused''), log) else ht_do demo_server r log)\<rparr>"

definition demo_semaphore :: HermesInstance where
  "demo_semaphore = zero_HermesInstance\<lparr>hi_Spec := zero_HermesInstanceSpec\<lparr>spec_Semaphore := zero_SemaphoreSpec
     \<lparr>sema_Enabled := Some True, sema_URL := ''http://s'', sema_CleanupOnDelete := Some True,
      sema_AdminTokenSecretRef := Some \<lparr>sks_Name = ''admin'', sks_Key = ''password'', sks_Optional = None\<rparr>,
      sema_TokenSecretRef := Some \<lparr>sks_Name = ''tok'', sks_Key = ''token'', sks_Optional = None\<rparr>\<rparr>\<rparr>\<rparr>"

lemma demo_url [simp]: "sema_URL (spec_Semaphore (hi_Spec demo_semaphore)) = ''http://s''"
  by (simp add: demo_semaphore_def)

lemma cleanup_spares_admin_witness:
  "semaphoreCleanup demo_server quiet_env demo_semaphore [] = semaphoreCleanup guarded_server quiet_env demo_semaphore []"
proof -
  have "agree_on (\<lambda>r. rq_Method r = ''DELETE'' \<longrightarrow> own_deletion (sema_URL (spec_Semaphore (hi_Spec demo_semaphore))) r)
      demo_server guarded_server"
  proof -
    have "own_deletion ''http://s'' r \<Longrightarrow> rq_URL r \<noteq> ''http://s/api/users/1''" for r
      using own_deletion_not_admin [of "''http://s''" r] by simp
    then show ?thesis by (auto simp: agree_on_def guarded_server_def)
  qed
  from cleanup_spares_admin [OF this] show ?thesis by blast
qed

section \<open>A refused token\<close>

text \<open>
  A token request the server refuses is taken for an empty token: the status is not looked at,
  so a body without an identifier makes the operator store a Secret with an empty token and report
  success; and as the Secret exists from then on, no later pass asks for a token again.
\<close>

theorem refused_token_is_kept:
  assumes "kc_get (env_secrets E) (inst_ns inst, sks_Name ref) w = (Inl e, w1)" and "IsNotFound e"
    and "login H url (login_body (agent_username inst) (agent_password inst)) ''user login''
           (''no session cookie for user '' @ agent_username inst) w1 = (Inr cookie, w2)"
    and "send H (token_request url cookie) w2 = (Inr r, w3)" and "decode_string ''id'' (rs_Body r) = Inr ''''"
    and "kc_create (env_secrets E) (token_secret inst ref '''') w3 = (None, w4)"
    and "kc_get (env_secrets E) (inst_ns inst, sks_Name ref) w4 = (Inr s, w5)"
  shows "ensure_token H E inst url ref w = (Inr (), w4) \<and> ensure_token H' E inst url ref w4 = (Inr (), w5)"
  using assms by (simp add: ensure_token_def generate_token_def seqE_def wrapE_def create_secret_def)

text \<open>The world of the witness: the requests made, and whether the Secret was created.\<close>

definition once_env :: "http_request list env" where
  "once_env = quiet_env\<lparr>env_secrets := quiet_client\<lparr>
     kc_get := (\<lambda>k log. (if last (None # map Some log) = None then Inl (ApiStatus ReasonNotFound ''no'')
                         else Inr (token_secret demo_semaphore \<lparr>sks_Name = ''tok'', sks_Key = ''token'', sks_Optional = None\<rparr> ''''), log))\<rparr>\<rparr>"

lemma refused_token_is_kept_witness:
  "ensure_token demo_server once_env demo_semaphore ''http://s'' \<lparr>sks_Name = ''tok'', sks_Key = ''token'', sks_Optional = None\<rparr> [] =
     (Inr (), [login_request ''http://s'' (login_body (agent_username demo_semaphore) (agent_password demo_semaphore)),
               token_request ''http://s'' ''c''])"
proof -
  let ?ref = "\<lparr>sks_Name = ''tok'', sks_Key = ''token'', sks_Optional = None\<rparr>"
  let ?l = "login_request ''http://s'' (login_body (agent_username demo_semaphore) (agent_password demo_semaphore))"
  let ?r = "token_request ''http://s'' ''c''"
  note defs = once_env_def quiet_client_def demo_server_def refusal_def
  have 1: "kc_get (env_secrets once_env) (inst_ns demo_semaphore, sks_Name ?ref) [] = (Inl (ApiStatus ReasonNotFound ''no''), [])"
    by (simp add: defs)
  have 2: "login demo_server ''http://s'' (login_body (agent_username demo_semaphore) (agent_password demo_semaphore)) what no [] =
      (Inr ''c'', [?l])" for what no
    by (simp add: login_def seqE_def wrapE_def send_def login_request_def semaphore_cookie_def okE_def defs)
  have 3: "send demo_server (token_request ''http://s'' ''c'') [?l] = (Inr refusal, [?l, ?r])"
    by (simp add: send_def token_request_def defs)
  have 4: "decode_string ''id'' (rs_Body refusal) = Inr ''''" by code_simp
  have 5: "kc_create (env_secrets once_env) (token_secret demo_semaphore ?ref '''') [?l, ?r] = (None, [?l, ?r])"
    by (simp add: defs)
  have 6: "kc_get (env_secrets once_env) (inst_ns demo_semaphore, sks_Name ?ref) [?l, ?r] =
      (Inr (token_secret demo_semaphore ?ref ''''), [?l, ?r])"
    by (simp add: defs)
  have nf: "IsNotFound (ApiStatus ReasonNotFound ''no'')" by (simp add: IsNotFound_def)
  show ?thesis
    using refused_token_is_kept [OF 1 nf 2 3 4 5 6] by blast
qed

end
