(* ===== verification/OCI.thy ===== *)
theory OCI
  imports Prelude "HOL-Library.Multiset"
begin

text \<open>
  \<open>internal/oci/client.go\<close> and \<open>fake.go\<close>: listing the tags of an image repository and choosing among
  them. The semver package (\<open>Masterminds/semver\<close>), \<open>sort.Sort\<close>, which is not stable, and the registry
  transport are parameters. The locale \<open>registry\<close> is the contract of \<open>Registry.ListTags\<close>; the
  production client and the in-memory one are its instances.
\<close>

section \<open>Choosing a tag\<close>

record 'v semver_lib =
  sv_version :: "string \<Rightarrow> 'v option"
  sv_constraint :: "string \<Rightarrow> go_error + ('v \<Rightarrow> bool)"
  sv_sort :: "'v list \<Rightarrow> 'v list"
  sv_original :: "'v \<Rightarrow> string"
  sv_major :: "'v \<Rightarrow> nat"

definition matching_versions :: "'v semver_lib \<Rightarrow> ('v \<Rightarrow> bool) \<Rightarrow> string list \<Rightarrow> 'v list" where
  "matching_versions lib ok tags = filter ok (List.map_filter (sv_version lib) tags)"

definition HighestMatching :: "'v semver_lib \<Rightarrow> string list \<Rightarrow> string \<Rightarrow> go_error + string" where
  "HighestMatching lib tags channel =
     (case sv_constraint lib channel of
        Inl e \<Rightarrow> Inl (Wrapped (''invalid channel '' @ quoted channel) e)
      | Inr ok \<Rightarrow>
          (let versions = matching_versions lib ok tags in
           if versions = [] then Inl NoMatchingTag
           else Inr (sv_original lib (last (sv_sort lib versions)))))"

definition DefaultChannel :: "'v semver_lib \<Rightarrow> string \<Rightarrow> string" where
  "DefaultChannel lib currentTag =
     (case sv_version lib currentTag of
        None \<Rightarrow> ''*''
      | Some v \<Rightarrow> Itoa (int (sv_major lib v)) @ ''.x'')"

text \<open>
  What is documented of the packages: a version remembers the text it was parsed from, and sorting
  permutes its input into an order in which no element is below an earlier one.
\<close>

definition semver_contract :: "'v semver_lib \<Rightarrow> ('v \<Rightarrow> 'v \<Rightarrow> bool) \<Rightarrow> bool" where
  "semver_contract lib lt \<longleftrightarrow>
     (\<forall>t v. sv_version lib t = Some v \<longrightarrow> sv_original lib v = t) \<and>
     (\<forall>vs. mset (sv_sort lib vs) = mset vs \<and> sorted_wrt (\<lambda>a b. \<not> lt b a) (sv_sort lib vs)) \<and>
     (\<forall>a. \<not> lt a a)"

lemma matching_versions_iff:
  "v \<in> set (matching_versions lib ok tags) \<longleftrightarrow> ok v \<and> (\<exists>t \<in> set tags. sv_version lib t = Some v)"
  by (force simp: matching_versions_def map_filter_def)

lemma last_sorted:
  assumes "sorted_wrt (\<lambda>a b. \<not> lt b a) xs" and "x \<in> set xs" and "\<not> lt x x"
  shows "\<not> lt (last xs) x"
  using assms by (induction xs rule: rev_induct) (auto simp: sorted_wrt_append)

text \<open>
  C34. The tag chosen is a highest one of the channel: it is one of the listed tags, satisfies the
  channel, and no listed tag that satisfies the channel is above it; and an answer "no matching tag"
  means that no listed tag is a version the channel accepts.
\<close>

theorem highest_matching_is_maximal:
  assumes "semver_contract lib lt" and "sv_constraint lib channel = Inr ok"
  shows "case HighestMatching lib tags channel of
      Inr best \<Rightarrow> best \<in> set tags \<and>
        (\<exists>v. sv_version lib best = Some v \<and> ok v \<and>
           (\<forall>t \<in> set tags. \<forall>u. sv_version lib t = Some u \<and> ok u \<longrightarrow> \<not> lt v u))
    | Inl e \<Rightarrow> e = NoMatchingTag \<and> (\<forall>t \<in> set tags. \<forall>u. sv_version lib t = Some u \<longrightarrow> \<not> ok u)"
proof -
  let ?vs = "matching_versions lib ok tags"
  show ?thesis
  proof (cases "?vs = []")
    case True
    then have "\<not> ok u" if "t \<in> set tags" "sv_version lib t = Some u" for t u
      using that matching_versions_iff [of u lib ok tags] by auto
    then show ?thesis
      using True by (auto simp: HighestMatching_def assms(2))
  next
    case False
    let ?s = "sv_sort lib ?vs"
    have ms: "mset ?s = mset ?vs" and so: "sorted_wrt (\<lambda>a b. \<not> lt b a) ?s"
      and orig: "\<And>t v. sv_version lib t = Some v \<Longrightarrow> sv_original lib v = t" and irr: "\<And>a. \<not> lt a a"
      using assms(1) by (auto simp: semver_contract_def)
    from ms have st: "set ?s = set ?vs" by (rule mset_eq_setD)
    have "?s \<noteq> []" using ms False by auto
    then have l: "last ?s \<in> set ?vs" using st last_in_set by blast
    then obtain t where t: "t \<in> set tags" "sv_version lib t = Some (last ?s)" and ok: "ok (last ?s)"
      by (auto simp: matching_versions_iff)
    have top: "\<not> lt (last ?s) u" if "t' \<in> set tags" "sv_version lib t' = Some u" "ok u" for t' u
      using last_sorted [OF so _ irr, of u] that st by (auto simp: matching_versions_iff)
    show ?thesis
      using False t ok top orig [OF t(2)] by (auto simp: HighestMatching_def assms(2) Let_def)
  qed
qed

definition nat_semver :: "nat semver_lib" where
  "nat_semver =
     \<lparr>sv_version = (\<lambda>s. if s = ''1'' then Some 1 else if s = ''2'' then Some 2 else None),
      sv_constraint = (\<lambda>c. if c = ''!'' then Inl (Plain ''improper constraint'') else Inr (\<lambda>v. True)),
      sv_sort = sort, sv_original = (\<lambda>v. if v = 1 then ''1'' else ''2''), sv_major = id\<rparr>"

lemma nat_semver_contract: "semver_contract nat_semver (<)"
proof -
  have "sorted_wrt (\<lambda>a b. \<not> b < a) (sort vs)" for vs :: "nat list"
    using sorted_sort [of vs] by (simp add: not_less)
  then show ?thesis
    by (auto simp: semver_contract_def nat_semver_def split: if_splits)
qed

lemma highest_matching_is_maximal_witness:
  "HighestMatching nat_semver [''2'', ''latest'', ''1''] ''*'' = Inr ''2''"
proof -
  have c: "sv_constraint nat_semver ''*'' = Inr (\<lambda>v. True)"
    by (simp add: nat_semver_def)
  have "sv_version nat_semver ''2'' = Some 2" by (simp add: nat_semver_def)
  then show ?thesis
    using highest_matching_is_maximal [OF nat_semver_contract c, of "[''2'', ''latest'', ''1'']"]
    by (auto simp: nat_semver_def split: sum.splits if_splits)
qed

section \<open>Listing tags\<close>

record oci_client =
  cl_cache :: "(string \<times> (string list \<times> time)) list"
  cl_ttl :: duration

definition NewClient :: "duration \<Rightarrow> oci_client" where
  "NewClient ttl = \<lparr>cl_cache = [], cl_ttl = ttl\<rparr>"

text \<open>
  The transport: parsing a repository name, and a listing that fails with an error and, when it is
  an HTTP error, its status code.
\<close>

record transport =
  tr_repository :: "string \<Rightarrow> go_error option"
  tr_list :: "string \<Rightarrow> (nat option \<times> go_error) + string list"

text \<open>\<open>ListTags\<close>, with the times at which it reads the clock: \<open>t0\<close> for the age, \<open>t1\<close> for the entry.\<close>

definition client_ListTags ::
  "transport \<Rightarrow> time \<Rightarrow> time \<Rightarrow> oci_client \<Rightarrow> string \<Rightarrow> (go_error + string list) \<times> oci_client" where
  "client_ListTags tr t0 t1 c repo =
     (let cached = mget (cl_cache c) repo in
      case cached of
        Some (tags, fetched) \<Rightarrow>
          if 0 < cl_ttl c \<and> t0 - fetched < cl_ttl c then (Inr tags, c)
          else (case tr_repository tr repo of
                  Some e \<Rightarrow> (Inl (Wrapped (''parse repository '' @ quoted repo) e), c)
                | None \<Rightarrow>
                   (case tr_list tr repo of
                      Inl (code, e) \<Rightarrow>
                        if code = Some 304 then (Inr tags, c)
                        else (Inl (Wrapped (''list tags for '' @ quoted repo) e), c)
                    | Inr ts \<Rightarrow> (Inr ts, c\<lparr>cl_cache := mset1 repo (ts, t1) (cl_cache c)\<rparr>)))
      | None \<Rightarrow>
          (case tr_repository tr repo of
             Some e \<Rightarrow> (Inl (Wrapped (''parse repository '' @ quoted repo) e), c)
           | None \<Rightarrow>
              (case tr_list tr repo of
                 Inl (code, e) \<Rightarrow> (Inl (Wrapped (''list tags for '' @ quoted repo) e), c)
               | Inr ts \<Rightarrow> (Inr ts, c\<lparr>cl_cache := mset1 repo (ts, t1) (cl_cache c)\<rparr>))))"

record fake_registry =
  fk_tags :: "(string \<times> string list) list"
  fk_CallCount :: "(string \<times> int) list"

definition NewFake :: fake_registry where
  "NewFake = \<lparr>fk_tags = [], fk_CallCount = []\<rparr>"

definition SetTags :: "string \<Rightarrow> string list \<Rightarrow> fake_registry \<Rightarrow> fake_registry" where
  "SetTags repo tags f = f\<lparr>fk_tags := mset1 repo tags (fk_tags f)\<rparr>"

definition fake_ListTags :: "fake_registry \<Rightarrow> string \<Rightarrow> (go_error + string list) \<times> fake_registry" where
  "fake_ListTags f repo =
     (Inr (case mget (fk_tags f) repo of None \<Rightarrow> [] | Some ts \<Rightarrow> ts),
      f\<lparr>fk_CallCount := mset1 repo ((case mget (fk_CallCount f) repo of None \<Rightarrow> 0 | Some n \<Rightarrow> n) + 1) (fk_CallCount f)\<rparr>)"

text \<open>
  The contract of a registry: a successful listing is what the registry holds for the repository
  afterwards, and listing one repository does not disturb another.
\<close>

locale registry =
  fixes list_tags :: "'s \<Rightarrow> string \<Rightarrow> (go_error + string list) \<times> 's"
    and holds :: "'s \<Rightarrow> string \<Rightarrow> string list"
  assumes listed: "list_tags s r = (Inr ts, s') \<Longrightarrow> holds s' r = ts"
    and undisturbed: "list_tags s r = (x, s') \<Longrightarrow> q \<noteq> r \<Longrightarrow> holds s' q = holds s q"
begin

lemma two_listings:
  assumes "list_tags s r = (Inr ts, s1)" and "list_tags s1 q = (Inr us, s2)" and "q \<noteq> r"
  shows "holds s2 r = ts \<and> holds s2 q = us"
  using listed [OF assms(1)] listed [OF assms(2)] undisturbed [OF assms(2), of r] assms(3) by simp

end

interpretation fake: registry fake_ListTags "\<lambda>f r. case mget (fk_tags f) r of None \<Rightarrow> [] | Some ts \<Rightarrow> ts"
  by unfold_locales (auto simp: fake_ListTags_def)

interpretation client: registry "client_ListTags tr t0 t1"
  "\<lambda>c r. case mget (cl_cache c) r of None \<Rightarrow> [] | Some (ts, _) \<Rightarrow> ts"
  by unfold_locales
    (auto simp: client_ListTags_def mget_def Let_def
      split: option.splits prod.splits if_splits sum.splits)

lemma client_uses_cache:
  assumes "0 < cl_ttl c" and "client_ListTags tr t0 t1 c r = (Inr ts, c1)"
    and "mget (cl_cache c1) r = Some (ts, f)" and "t2 - f < cl_ttl c1" and "cl_ttl c1 = cl_ttl c"
  shows "client_ListTags tr' t2 t3 c1 r = (Inr ts, c1)"
  using assms by (simp add: client_ListTags_def)

end
