(* ===== verification/AutoUpdate.thy ===== *)
theory AutoUpdate
  imports Backup OCI JSON
begin

text \<open>
  \<open>internal/controller/autoupdate.go\<close>: the sub-controller that polls a registry, rolls a new tag out
  and confirms it or rolls it back. \<open>updater\<close> is the receiver: the registry, if any, the semver
  package, and whether a backup controller is attached. A duration is in nanoseconds, as in Go.
\<close>

section \<open>Durations\<close>

text \<open>
  \<open>time.ParseDuration\<close>. \<open>None\<close> is an error. The fraction of a unit is computed exactly and rounded
  down; Go computes it in floating point.
\<close>

definition duration_unit :: "string \<Rightarrow> nat option" where
  "duration_unit u =
     map_of [(''ns'', 1), (''us'', 1000), ([CHR 0xC2, CHR 0xB5, CHR ''s''], 1000),
             ([CHR 0xCE, CHR 0xBC, CHR ''s''], 1000), (''ms'', 1000000), (''s'', 1000000000),
             (''m'', 60000000000), (''h'', 3600000000000)] u"

definition unit_char :: "char \<Rightarrow> bool" where
  "unit_char c \<longleftrightarrow> c \<noteq> CHR ''.'' \<and> \<not> is_digit c"

text \<open>One term of a duration: its value and what follows it.\<close>

definition duration_term :: "string \<Rightarrow> (nat \<times> string) option" where
  "duration_term s =
     (let ip = takeWhile is_digit s; s1 = dropWhile is_digit s; dot = (take 1 s1 = ''.'');
          fp = (if dot then takeWhile is_digit (drop 1 s1) else '''');
          s2 = (if dot then dropWhile is_digit (drop 1 s1) else s1);
          u = takeWhile unit_char s2; s3 = dropWhile unit_char s2; v = digits_val ip in
      if ip = '''' \<and> fp = '''' then None
      else if 2 ^ 63 < v then None
      else case duration_unit u of
        None \<Rightarrow> None
      | Some un \<Rightarrow>
          (let total = v * un + digits_val fp * un div 10 ^ length fp in
           if 2 ^ 63 div un < v \<or> 2 ^ 63 < total then None else Some (total, s3)))"

function duration_terms :: "nat \<Rightarrow> string \<Rightarrow> nat option" where
  "duration_terms d [] = Some d"
| "duration_terms d (c # s) =
     (case duration_term (c # s) of
        None \<Rightarrow> None
      | Some (v, r) \<Rightarrow>
          if 2 ^ 63 < d + v then None
          else if length r \<le> length s then duration_terms (d + v) r else None)"
  by pat_completeness auto
termination by (relation "measure (\<lambda>(d, s). length s)") auto

definition ParseDuration :: "string \<Rightarrow> duration option" where
  "ParseDuration s =
     (let neg = (take 1 s = ''-''); s1 = (if take 1 s = ''-'' \<or> take 1 s = ''+'' then drop 1 s else s) in
      if s1 = ''0'' then Some 0
      else if s1 = '''' then None
      else case duration_terms 0 s1 of
        None \<Rightarrow> None
      | Some d \<Rightarrow> if neg then Some (- int d) else if 2 ^ 63 - 1 < d then None else Some (int d))"

definition parsePollInterval :: "string \<Rightarrow> duration option" where
  "parsePollInterval s =
     (if s = '''' then Some Hour
      else case ParseDuration s of
        None \<Rightarrow> None
      | Some d \<Rightarrow>
          if d < 15 * Minute then Some (15 * Minute)
          else if 168 * Hour < d then Some (168 * Hour)
          else Some d)"

section \<open>The receiver and small parts\<close>

record ('v, 'w) updater =
  up_Registry :: "(string \<Rightarrow> 'w \<Rightarrow> (go_error + string list) \<times> 'w) option"
  up_semver :: "'v semver_lib"
  up_Backup :: bool

definition rolloutWindow :: duration where "rolloutWindow = 5 * Minute"

type_synonym 'w au_result = "ctrl_result \<times> go_error option \<times> HermesInstance \<times> 'w"

abbreviation au_status :: "HermesInstance \<Rightarrow> AutoUpdateStatus" where
  "au_status inst \<equiv> st_AutoUpdate (hi_Status inst)"

definition upd_au :: "(AutoUpdateStatus \<Rightarrow> AutoUpdateStatus) \<Rightarrow> HermesInstance \<Rightarrow> HermesInstance" where
  "upd_au f inst = upd_status (\<lambda>s. s\<lparr>st_AutoUpdate := f (st_AutoUpdate s)\<rparr>) inst"

definition currentRunningTag :: "HermesInstance \<Rightarrow> string" where
  "currentRunningTag inst = or_default (ast_CurrentTag (au_status inst)) (image_Tag (spec_Image (hi_Spec inst)))"

definition rollout_image :: "HermesInstance \<Rightarrow> string \<Rightarrow> string" where
  "rollout_image inst tag =
     or_default (image_Repository (spec_Image (hi_Spec inst))) ''ghcr.io/paperclipinc/hermes-agent'' @ '':'' @ tag"

definition sts_containers :: "StatefulSet \<Rightarrow> Container list" where
  "sts_containers sts = ps_Containers (pts_Spec (sts_Template (sts_Spec sts)))"

definition set_first_image :: "string \<Rightarrow> StatefulSet \<Rightarrow> StatefulSet" where
  "set_first_image img sts =
     sts\<lparr>sts_Spec := (sts_Spec sts)\<lparr>sts_Template := (sts_Template (sts_Spec sts))
       \<lparr>pts_Spec := (pts_Spec (sts_Template (sts_Spec sts)))
          \<lparr>ps_Containers := (case sts_containers sts of [] \<Rightarrow> [] | c # cs \<Rightarrow> c\<lparr>ctr_Image := img\<rparr> # cs)\<rparr>\<rparr>\<rparr>\<rparr>"

definition get_sts :: "'w env \<Rightarrow> HermesInstance \<Rightarrow> 'w \<Rightarrow> (go_error + StatefulSet) \<times> 'w" where
  "get_sts E inst w = kc_get (env_statefulsets E) (inst_ns inst, StatefulSetName inst) w"

text \<open>\<open>delete(inst.Annotations, target)\<close> and its patch, when the annotation is there.\<close>

definition drop_target_annotation ::
  "'w env \<Rightarrow> HermesInstance \<Rightarrow> 'w \<Rightarrow> go_error option \<times> HermesInstance \<times> 'w" where
  "drop_target_annotation E inst w =
     (if mget0 (om_Annotations (hi_ObjectMeta inst)) AnnotationAutoUpdateTarget = '''' then (None, inst, w)
      else patch_instance E inst
             (upd_meta (\<lambda>m. m\<lparr>om_Annotations := mdelete AnnotationAutoUpdateTarget (om_Annotations m)\<rparr>) inst) w)"

definition counts_as_failure :: "HermesInstance \<Rightarrow> CoreEvent \<Rightarrow> bool" where
  "counts_as_failure inst e \<longleftrightarrow>
     cev_InvolvedName e = StatefulSetName inst @ ''-0'' \<and> cev_InvolvedKind e = ''Pod'' \<and>
     cev_Reason e \<in> {''Unhealthy'', ''FailedMount''} \<and>
     (case ast_RolloutDeadline (au_status inst) of
        None \<Rightarrow> True | Some dl \<Rightarrow> \<not> cev_LastTimestamp e < dl - rolloutWindow)"

definition countProbeFailures :: "'w env \<Rightarrow> HermesInstance \<Rightarrow> 'w \<Rightarrow> (go_error + int) \<times> 'w" where
  "countProbeFailures E inst w =
     (case kc_list (env_events E) (inst_ns inst) w of
        (Inl e, w1) \<Rightarrow> (Inl e, w1)
      | (Inr es, w1) \<Rightarrow> (Inr (wrap32 (int (length (filter (counts_as_failure inst) es)))), w1))"

section \<open>Starting a rollout\<close>

definition roll_image :: "'w env \<Rightarrow> HermesInstance \<Rightarrow> string \<Rightarrow> StatefulSet \<Rightarrow> 'w \<Rightarrow> go_error option \<times> 'w" where
  "roll_image E inst targetTag sts w =
     (case sts_containers sts of
        [] \<Rightarrow> (Some (Plain ''StatefulSet has no containers''), w)
      | c # _ \<Rightarrow>
          if ctr_Image c = rollout_image inst targetTag then (None, w)
          else (case kc_patch (env_statefulsets E) sts (set_first_image (rollout_image inst targetTag) sts) w of
                  (Inl e, w1) \<Rightarrow> (Some (Wrapped ''patch STS image'' e), w1)
                | (Inr _, w1) \<Rightarrow> (None, w1)))"

definition mark_in_flight :: "'w env \<Rightarrow> time \<Rightarrow> string \<Rightarrow> 'w \<Rightarrow> HermesInstance \<Rightarrow> HermesInstance" where
  "mark_in_flight E deadline targetTag w inst =
     put_condition E w (condition inst ConditionAutoUpdated ConditionFalse ''RolloutInFlight'' (''rolling out tag '' @ targetTag))
       (upd_au (\<lambda>a. a\<lparr>ast_TargetTag := targetTag, ast_RolloutDeadline := Some deadline, ast_ProbeFailures := 0\<rparr>) inst)"

text \<open>\<open>startRollout\<close> after the pre-update backup.\<close>

definition begin_rollout :: "'w env \<Rightarrow> HermesInstance \<Rightarrow> string \<Rightarrow> 'w \<Rightarrow> 'w au_result" where
  "begin_rollout E inst targetTag w =
     (case get_sts E inst w of
        (Inl e, w1) \<Rightarrow>
          if IsNotFound e then (requeue_after (10 * Second), None, inst, w1) else (no_requeue, Some e, inst, w1)
      | (Inr sts, w1) \<Rightarrow>
         (case roll_image E inst targetTag sts w1 of
            (Some e, w2) \<Rightarrow> (no_requeue, Some e, inst, w2)
          | (None, w2) \<Rightarrow>
             (case patch_instance E inst
                     (upd_meta (\<lambda>m. m\<lparr>om_Annotations := mset1 AnnotationAutoUpdateTarget targetTag (om_Annotations m)\<rparr>) inst) w2 of
                (Some e, inst1, w3) \<Rightarrow> (no_requeue, Some (Wrapped ''patch CR annotation'' e), inst1, w3)
              | (None, inst1, w3) \<Rightarrow>
                 (case env_now E w3 of (now, w4) \<Rightarrow>
                  (case status_update E (mark_in_flight E (now + rolloutWindow) targetTag w4 inst1) w4 of
                     (Some e, inst2, w5) \<Rightarrow> (no_requeue, Some e, inst2, w5)
                   | (None, inst2, w5) \<Rightarrow>
                       (requeue_after (15 * Second), None, inst2,
                        env_record E (instance_ref inst2) EventNormal ''AutoUpdateStarted''
                          (''rolling out tag '' @ targetTag @ '' (deadline '' @ format_rfc3339 (now + rolloutWindow) @ '')'') w5))))))"

definition startRollout :: "('v, 'w) updater \<Rightarrow> 'w env \<Rightarrow> HermesInstance \<Rightarrow> string \<Rightarrow> 'w \<Rightarrow> 'w au_result" where
  "startRollout up E inst targetTag w =
     (if BoolValueOrDefault (au_BackupBeforeUpdate (spec_AutoUpdate (hi_Spec inst))) True \<and>
         bk_S3 (spec_Backup (hi_Spec inst)) \<noteq> None \<and> up_Backup up
      then (case RunOneShot E inst w of
              (_, done, Some e, inst1, w1) \<Rightarrow>
                (requeue_after Minute, None, inst1,
                 env_record E (instance_ref inst1) EventWarning ''AutoUpdatePreUpdateBackupFailed''
                   (''pre-update backup failed: '' @ err_text e @ '': aborting rollout'') w1)
            | (_, done, None, inst1, w1) \<Rightarrow>
                if \<not> done then (requeue_after (10 * Second), None, inst1, w1)
                else begin_rollout E inst1 targetTag w1)
      else begin_rollout E inst targetTag w)"

section \<open>Confirming and rolling back\<close>

definition confirmed :: "string \<Rightarrow> AutoUpdateStatus \<Rightarrow> AutoUpdateStatus" where
  "confirmed t a = a\<lparr>ast_LastSuccessTag := t, ast_CurrentTag := t, ast_TargetTag := '''',
     ast_RolloutDeadline := None, ast_ProbeFailures := 0, ast_PreUpdateSnapshot := ''''\<rparr>"

definition confirmRollout :: "'w env \<Rightarrow> HermesInstance \<Rightarrow> string \<Rightarrow> 'w \<Rightarrow> 'w au_result" where
  "confirmRollout E inst target w =
     (case env_now E w of (now, w0) \<Rightarrow>
      (let inst0 = upd_au (confirmed target) inst;
           inst1 = drop_condition E ConditionAutoUpdateRolledBack
                     (put_condition E w0 (condition inst ConditionAutoUpdated ConditionTrue ''Confirmed''
                        (''tag '' @ target @ '' confirmed at '' @ format_rfc3339 now)) inst0) in
       case status_update E inst1 w0 of
         (Some e, inst2, w1) \<Rightarrow> (no_requeue, Some e, inst2, w1)
       | (None, inst2, w1) \<Rightarrow>
          (case drop_target_annotation E inst2 w1 of
             (Some e, inst3, w2) \<Rightarrow> (no_requeue, Some e, inst3, w2)
           | (None, inst3, w2) \<Rightarrow>
               (no_requeue, None, inst3,
                env_record E (instance_ref inst3) EventNormal ''AutoUpdateConfirmed''
                  (''tag '' @ target @ '' rolled out and passed readiness watch'') w2))))"

definition rolled_back :: "string \<Rightarrow> string \<Rightarrow> AutoUpdateStatus \<Rightarrow> AutoUpdateStatus" where
  "rolled_back t prev a = a\<lparr>ast_LastFailedTag := t, ast_TargetTag := '''', ast_RolloutDeadline := None,
     ast_CurrentTag := prev\<rparr>"

definition prev_tag :: "HermesInstance \<Rightarrow> string" where
  "prev_tag inst = or_default (ast_LastSuccessTag (au_status inst)) (image_Tag (spec_Image (hi_Spec inst)))"

definition rollback_reason :: "string \<Rightarrow> string" where
  "rollback_reason failedTag = ''RolledBackFrom_'' @ failedTag"

definition mark_rolled_back :: "'w env \<Rightarrow> string \<Rightarrow> string \<Rightarrow> string \<Rightarrow> 'w \<Rightarrow> HermesInstance \<Rightarrow> HermesInstance" where
  "mark_rolled_back E failedTag prev reason w inst =
     put_condition E w (condition inst ConditionAutoUpdated ConditionFalse ''RolledBack''
         (''tag '' @ failedTag @ '' failed readiness; reverted to '' @ prev))
       (put_condition E w (condition inst ConditionAutoUpdateRolledBack ConditionTrue (rollback_reason failedTag) reason)
         (upd_au (rolled_back failedTag prev) inst))"

definition rollback :: "'w env \<Rightarrow> HermesInstance \<Rightarrow> string \<Rightarrow> string \<Rightarrow> 'w \<Rightarrow> 'w au_result" where
  "rollback E inst failedTag reason w =
     (let prev = prev_tag inst in
      case get_sts E inst w of
        (Inl e, w1) \<Rightarrow> (no_requeue, Some e, inst, w1)
      | (Inr sts, w1) \<Rightarrow>
          if sts_containers sts = [] then (no_requeue, Some (Plain ''STS has no containers''), inst, w1)
          else (case kc_patch (env_statefulsets E) sts (set_first_image (rollout_image inst prev) sts) w1 of
            (Inl e, w2) \<Rightarrow> (no_requeue, Some (Wrapped ''patch STS rollback'' e), inst, w2)
          | (Inr _, w2) \<Rightarrow>
             (case status_update E (mark_rolled_back E failedTag prev reason w2 inst) w2 of
                (Some e, inst1, w3) \<Rightarrow> (no_requeue, Some e, inst1, w3)
              | (None, inst1, w3) \<Rightarrow>
                 (case drop_target_annotation E inst1 w3 of
                    (Some e, inst2, w4) \<Rightarrow> (no_requeue, Some e, inst2, w4)
                  | (None, inst2, w4) \<Rightarrow>
                      (no_requeue, None, inst2,
                       env_record E (instance_ref inst2) EventWarning ''AutoUpdateRolledBack''
                         (''rolled back from '' @ failedTag @ '' to '' @ prev @ '': '' @ reason) w4)))))"

definition rollout_ready :: "StatefulSet \<Rightarrow> bool" where
  "rollout_ready sts \<longleftrightarrow>
     sts_StatusReadyReplicas sts = 1 \<and> sts_StatusUpdatedReplicas sts = 1 \<and> sts_StatusCurrentRevision sts \<noteq> ''''"

definition failure_threshold :: "HermesInstance \<Rightarrow> int" where
  "failure_threshold inst =
     (let t = aur_ProbeFailureThreshold (au_Rollback (spec_AutoUpdate (hi_Spec inst))) in if 0 < t then t else 3)"

definition past_deadline :: "'w env \<Rightarrow> HermesInstance \<Rightarrow> 'w \<Rightarrow> bool \<times> 'w" where
  "past_deadline E inst w =
     (case ast_RolloutDeadline (au_status inst) of
        None \<Rightarrow> (False, w)
      | Some dl \<Rightarrow> (case env_now E w of (now, w1) \<Rightarrow> (dl < now, w1)))"

definition rollback_enabled :: "HermesInstance \<Rightarrow> bool" where
  "rollback_enabled inst = BoolValueOrDefault (aur_Enabled (au_Rollback (spec_AutoUpdate (hi_Spec inst)))) True"

definition driveRollout :: "'w env \<Rightarrow> HermesInstance \<Rightarrow> 'w \<Rightarrow> 'w au_result" where
  "driveRollout E inst w =
     (let target = ast_TargetTag (au_status inst) in
      case get_sts E inst w of
        (Inl e, w1) \<Rightarrow> (no_requeue, Some e, inst, w1)
      | (Inr sts, w1) \<Rightarrow>
          if rollout_ready sts then confirmRollout E inst target w1
          else (case countProbeFailures E inst w1 of
            (Inl e, w2) \<Rightarrow> (no_requeue, Some e, inst, w2)
          | (Inr failures, w2) \<Rightarrow>
             (let inst1 = upd_au (\<lambda>a. a\<lparr>ast_ProbeFailures := failures\<rparr>) inst;
                  threshold = failure_threshold inst1;
                  (pastDeadline, w3) = past_deadline E inst1 w2 in
              if rollback_enabled inst1 \<and> (threshold \<le> failures \<or> pastDeadline)
              then rollback E inst1 target
                     (''probe failures '' @ Itoa failures @ '' >= threshold '' @ Itoa threshold @
                      '' (pastDeadline='' @ fmt_bool pastDeadline @ '')'') w3
              else (case status_update E inst1 w3 of
                      (Some e, inst2, w4) \<Rightarrow> (no_requeue, Some e, inst2, w4)
                    | (None, inst2, w4) \<Rightarrow> (requeue_after (15 * Second), None, inst2, w4)))))"

section \<open>Polling\<close>

definition poll_interval :: "HermesInstance \<Rightarrow> duration" where
  "poll_interval inst =
     (case parsePollInterval (au_PollInterval (spec_AutoUpdate (hi_Spec inst))) of None \<Rightarrow> Hour | Some d \<Rightarrow> d)"

definition update_channel :: "'v semver_lib \<Rightarrow> HermesInstance \<Rightarrow> string" where
  "update_channel lib inst =
     (let c = aus_Channel (au_Source (spec_AutoUpdate (hi_Spec inst))) in
      if c = '''' then DefaultChannel lib (image_Tag (spec_Image (hi_Spec inst))) else c)"

definition update_repo :: "HermesInstance \<Rightarrow> string" where
  "update_repo inst =
     or_default (aus_Registry (au_Source (spec_AutoUpdate (hi_Spec inst)))) (image_Repository (spec_Image (hi_Spec inst)))"

definition set_last_check :: "time \<Rightarrow> HermesInstance \<Rightarrow> HermesInstance" where
  "set_last_check now inst = upd_au (\<lambda>a. a\<lparr>ast_LastCheckTime := Some now\<rparr>) inst"

text \<open>A verdict of the poll that only writes a condition, and polls again later.\<close>

definition record_verdict ::
  "'w env \<Rightarrow> HermesInstance \<Rightarrow> cond_status \<Rightarrow> string \<Rightarrow> string \<Rightarrow> 'w \<Rightarrow> 'w au_result" where
  "record_verdict E inst st reason msg w =
     (case status_update E (put_condition E w (condition inst ConditionAutoUpdated st reason msg) inst) w of
        (Some e, inst1, w1) \<Rightarrow> (no_requeue, Some e, inst1, w1)
      | (None, inst1, w1) \<Rightarrow> (requeue_after (poll_interval inst), None, inst1, w1))"

text \<open>The poll proper, from the listed tags on.\<close>

definition decide_update ::
  "('v, 'w) updater \<Rightarrow> 'w env \<Rightarrow> HermesInstance \<Rightarrow> string list \<Rightarrow> 'w \<Rightarrow> 'w au_result" where
  "decide_update up E inst tags w =
     (let channel = update_channel (up_semver up) inst;
          choice = HighestMatching (up_semver up) tags channel in
      case env_now E w of (now, w1) \<Rightarrow>
       (let inst1 = set_last_check now inst in
        case choice of
          Inl e \<Rightarrow>
            if is_no_matching_tag e
            then record_verdict E inst1 ConditionFalse ''NoMatchingTag''
                   (''no tag in '' @ update_repo inst @ '' matches channel '' @ quoted channel) w1
            else (no_requeue, Some (Wrapped ''HighestMatching'' e), inst1, w1)
        | Inr best \<Rightarrow>
            if best = ast_LastFailedTag (au_status inst1)
            then record_verdict E inst1 ConditionFalse ''SuppressedKnownFailure''
                   (''not retrying tag '' @ best @ '' (recorded in lastFailedTag)'') w1
            else if best = currentRunningTag inst1
            then record_verdict E inst1 ConditionTrue ''UpToDate''
                   (''current tag '' @ currentRunningTag inst1 @ '' is the highest in channel '' @ quoted channel) w1
            else startRollout up E inst1 best w1))"

definition AutoUpdateReconcile :: "('v, 'w) updater \<Rightarrow> 'w env \<Rightarrow> HermesInstance \<Rightarrow> 'w \<Rightarrow> 'w au_result" where
  "AutoUpdateReconcile up E inst w =
     (if \<not> au_Enabled (spec_AutoUpdate (hi_Spec inst)) then (no_requeue, None, inst, w)
      else case up_Registry up of
        None \<Rightarrow> (no_requeue, None, inst, w)
      | Some list_tags \<Rightarrow>
          if ast_TargetTag (au_status inst) \<noteq> '''' then driveRollout E inst w
          else
           (let (early, w0) =
              (case ast_LastCheckTime (au_status inst) of
                 None \<Rightarrow> (False, w)
               | Some t \<Rightarrow> (case env_now E w of (now, w0) \<Rightarrow> (now - t < poll_interval inst, w0))) in
            if early then (requeue_after (poll_interval inst), None, inst, w0)
            else (case list_tags (update_repo inst) w0 of
                    (Inl e, w1) \<Rightarrow>
                      (let w2 = env_record E (instance_ref inst) EventWarning ''AutoUpdateListTagsFailed''
                             (''Could not list tags for '' @ update_repo inst @ '': '' @ err_text e) w1;
                           (now, w3) = env_now E w2 in
                       case status_update E (set_last_check now inst) w3 of
                         (Some e', inst1, w4) \<Rightarrow> (no_requeue, Some e', inst1, w4)
                       | (None, inst1, w4) \<Rightarrow> (requeue_after (poll_interval inst), None, inst1, w4))
                  | (Inr tags, w1) \<Rightarrow> decide_update up E inst tags w1)))"

section \<open>Facts on durations\<close>

lemma digit_char [simp]:
  fixes n :: nat
  shows "n < 10 \<Longrightarrow> of_char (char_of (48 + n) :: char) = 48 + n" and "n < 10 \<Longrightarrow> is_digit (char_of (48 + n))"
  by (simp_all add: is_digit_def Let_def of_char_of)

lemma digits_val_snoc: "digits_val (ds @ [c]) = 10 * digits_val ds + (of_char c - 48)"
  by (simp add: digits_val_def)

lemma nat_digits_props: "digits_val (nat_digits n) = n \<and> (\<forall>c \<in> set (nat_digits n). is_digit c) \<and> nat_digits n \<noteq> []"
proof (induction n rule: nat_digits.induct)
  case (1 n)
  show ?case
  proof (cases "n < 10")
    case True
    then show ?thesis by (subst (1 2 3) nat_digits.simps) (simp add: digits_val_def)
  next
    case False
    from 1 [OF False] have "digits_val (nat_digits (n div 10) @ [char_of (48 + n mod 10)]) = n"
      by (simp add: digits_val_snoc)
    with 1 [OF False] False show ?thesis by (subst (1 2 3) nat_digits.simps) simp
  qed
qed

lemma duration_term_minutes:
  assumes "n * 60000000000 \<le> 2 ^ 63"
  shows "duration_term (nat_digits n @ ''m'') = Some (n * 60000000000, '''')"
proof -
  note d = nat_digits_props [of n]
  have m: "\<not> is_digit (CHR ''m'')" "unit_char (CHR ''m'')" by (simp_all add: is_digit_def unit_char_def)
  have t: "takeWhile is_digit (nat_digits n @ ''m'') = nat_digits n" "dropWhile is_digit (nat_digits n @ ''m'') = ''m''"
    using d m by (simp_all add: takeWhile_append2 dropWhile_append2)
  have u: "duration_unit ''m'' = Some 60000000000" by (simp add: duration_unit_def)
  have z: "digits_val '''' = 0" by (simp add: digits_val_def)
  from assms have "n \<le> 2 ^ 63 div 60000000000" by simp
  then show ?thesis
    using d t u z m assms by (simp add: duration_term_def Let_def)
qed

lemma ParseDuration_minutes:
  assumes "n * 60000000000 < 2 ^ 63"
  shows "ParseDuration (nat_digits n @ ''m'') = Some (int n * Minute)"
proof -
  note d = nat_digits_props [of n]
  then obtain c s where s: "nat_digits n = c # s" and c: "is_digit c" by (cases "nat_digits n") auto
  from c have nc: "c \<noteq> CHR ''-''" "c \<noteq> CHR ''+''" by (auto simp: is_digit_def)
  have one: "duration_term (c # s @ ''m'') = Some (n * 60000000000, '''')"
    using duration_term_minutes [of n] assms s by simp
  have "duration_terms 0 (c # s @ ''m'') = Some (n * 60000000000)"
    using one assms by simp
  then show ?thesis
    using s nc assms by (simp add: ParseDuration_def durations)
qed

section \<open>Facts on a rollout\<close>

text \<open>
  The status subresource, as seen through \<open>stored\<close>, the status the server holds: a successful status
  update stores and answers the status it was sent; a patch of the main resource answers the stored
  status and leaves it.
\<close>

definition status_subresource :: "'w env \<Rightarrow> ('w \<Rightarrow> HermesInstanceStatus) \<Rightarrow> bool" where
  "status_subresource E stored \<longleftrightarrow>
     (\<forall>i w i' w'. kc_status_update (env_instances E) i w = (Inr i', w') \<longrightarrow>
        hi_Status i' = hi_Status i \<and> stored w' = hi_Status i) \<and>
     (\<forall>o1 i w i' w'. kc_patch (env_instances E) o1 i w = (Inr i', w') \<longrightarrow>
        hi_Status i' = stored w \<and> stored w' = stored w)"

lemma au_status_simps [simp]:
  "au_status (upd_au f inst) = f (au_status inst)"
  "hi_Spec (upd_au f inst) = hi_Spec inst"
  "hi_ObjectMeta (upd_au f inst) = hi_ObjectMeta inst"
  by (simp_all add: upd_au_def)

lemma status_update_stored:
  assumes "status_subresource E stored" and "status_update E i w = (None, i', w')"
  shows "hi_Status i' = hi_Status i" and "stored w' = hi_Status i"
  using assms unfolding status_subresource_def status_update_def
  by (auto split: prod.splits sum.splits)

lemma drop_target_status:
  assumes "status_subresource E stored" and "drop_target_annotation E i w = (None, i', w')"
    and "stored w = hi_Status i"
  shows "hi_Status i' = hi_Status i"
proof (cases "mget0 (om_Annotations (hi_ObjectMeta i)) AnnotationAutoUpdateTarget = ''''")
  case True
  with assms(2) show ?thesis by (simp add: drop_target_annotation_def)
next
  case False
  with assms(2) obtain j w1 where "kc_patch (env_instances E) i j w = (Inr i', w1)"
    by (auto simp: drop_target_annotation_def patch_instance_def split: prod.splits sum.splits)
  with assms(1,3) show ?thesis unfolding status_subresource_def by metis
qed

text \<open>A status update followed by the removal of the annotation leaves the status that was sent.\<close>

lemma update_then_drop:
  assumes "status_subresource E stored" and "status_update E i w = (None, i1, w1)"
    and "drop_target_annotation E i1 w1 = (None, i2, w2)"
  shows "hi_Status i2 = hi_Status i"
  using status_update_stored [OF assms(1,2)] drop_target_status [OF assms(1,3)] by simp

lemma confirmRollout_status:
  assumes "status_subresource E stored" and "confirmRollout E inst t w = (r, None, inst', w')"
  shows "au_status inst' = confirmed t (au_status inst)"
proof -
  obtain now w0 where n: "env_now E w = (now, w0)" by fastforce
  let ?i1 = "drop_condition E ConditionAutoUpdateRolledBack
     (put_condition E w0 (condition inst ConditionAutoUpdated ConditionTrue ''Confirmed''
        (''tag '' @ t @ '' confirmed at '' @ format_rfc3339 now)) (upd_au (confirmed t) inst))"
  obtain i2 w1 where u: "status_update E ?i1 w0 = (None, i2, w1)"
    using assms(2) n by (auto simp: confirmRollout_def Let_def split: prod.splits option.splits)
  obtain w2 where d: "drop_target_annotation E i2 w1 = (None, inst', w2)"
    using assms(2) n u by (auto simp: confirmRollout_def Let_def split: prod.splits option.splits)
  from update_then_drop [OF assms(1) u d] show ?thesis by simp
qed

lemma mark_rolled_back_status [simp]:
  "au_status (mark_rolled_back E t prev reason w inst) = rolled_back t prev (au_status inst)"
  by (simp add: mark_rolled_back_def)

lemma rollback_status:
  assumes "status_subresource E stored" and "rollback E inst t reason w = (r, None, inst', w')"
  shows "au_status inst' = rolled_back t (prev_tag inst) (au_status inst)"
proof -
  obtain sts w1 where g: "get_sts E inst w = (Inr sts, w1)" "sts_containers sts \<noteq> []"
    using assms(2) by (auto simp: rollback_def Let_def split: prod.splits sum.splits if_splits)
  obtain x w2 where p: "kc_patch (env_statefulsets E) sts (set_first_image (rollout_image inst (prev_tag inst)) sts) w1 = (Inr x, w2)"
    using assms(2) g by (auto simp: rollback_def Let_def split: prod.splits sum.splits)
  obtain i1 w3 where u: "status_update E (mark_rolled_back E t (prev_tag inst) reason w2 inst) w2 = (None, i1, w3)"
    using assms(2) g p by (auto simp: rollback_def Let_def split: prod.splits option.splits)
  obtain w4 where d: "drop_target_annotation E i1 w3 = (None, inst', w4)"
    using assms(2) g p u by (auto simp: rollback_def Let_def split: prod.splits option.splits)
  from update_then_drop [OF assms(1) u d] show ?thesis by simp
qed

lemma RunOneShot_target:
  assumes "status_subresource E stored" and "RunOneShot E inst w = (k, d, err, inst', w')"
  shows "ast_TargetTag (au_status inst') = ast_TargetTag (au_status inst)"
proof -
  have up: "ast_TargetTag (au_status i) = ast_TargetTag (au_status inst)"
    if "status_update E (set_pre_snapshot key inst) v = (x, i, v')" for key v x i v'
    using that status_update_stored(1) [OF assms(1), of "set_pre_snapshot key inst" v i v']
    by (cases x) (auto simp: set_pre_snapshot_def dest: status_update_Some)
  have st: "i' = i" if "start_oneshot E i key v = (k', d', e', i', v')" for i key v k' d' e' i' v'
    using that by (auto simp: start_oneshot_def Let_def split: sum.splits prod.splits if_splits)
  show ?thesis
    using assms(2) unfolding RunOneShot_def
    by (auto simp: Let_def split: prod.splits sum.splits option.splits if_splits dest: up st)
qed

definition flying :: "string \<Rightarrow> AutoUpdateStatus \<Rightarrow> bool" where
  "flying t a \<longleftrightarrow> ast_TargetTag a = t \<and> (\<exists>now. ast_RolloutDeadline a = Some (now + rolloutWindow))"

lemma mark_in_flight_flying: "flying t (au_status (mark_in_flight E (now + rolloutWindow) t w inst))"
  by (auto simp: mark_in_flight_def flying_def)

lemma begin_rollout_flying:
  assumes "status_subresource E stored" and "begin_rollout E inst t w = (r, err, inst', w')"
  shows "ast_TargetTag (au_status inst') = ast_TargetTag (au_status inst) \<or> flying t (au_status inst')"
proof -
  have patched: "hi_Status i = hi_Status inst"
    if "patch_instance E inst (upd_meta f inst) v = (Some e, i, v')" for f v e i v'
    using that by (auto simp: patch_instance_def split: prod.splits sum.splits)
  have sent: "flying t (au_status i')"
    if "status_update E (mark_in_flight E (now + rolloutWindow) t v i) v = (x, i', v')" for now i v x i' v'
    using that mark_in_flight_flying [of t E now v i] status_update_stored(1) [OF assms(1), of "mark_in_flight E (now + rolloutWindow) t v i" v i' v']
    by (cases x) (auto dest: status_update_Some)
  show ?thesis
    using assms(2) unfolding begin_rollout_def
    by (auto split: prod.splits sum.splits option.splits if_splits dest: patched sent)
qed

lemma startRollout_flying:
  assumes "status_subresource E stored" and "startRollout up E inst t w = (r, err, inst', w')"
  shows "ast_TargetTag (au_status inst') = ast_TargetTag (au_status inst) \<or> flying t (au_status inst')"
proof -
  have after: "ast_TargetTag (au_status inst') = ast_TargetTag (au_status inst) \<or> flying t (au_status inst')"
    if "RunOneShot E inst w = (k, d, e, i, v)" and "begin_rollout E i t v = (r, err, inst', w')" for k d e i v
    using RunOneShot_target [OF assms(1) that(1)] begin_rollout_flying [OF assms(1) that(2)] by simp
  show ?thesis
    using assms(2) unfolding startRollout_def
    by (auto split: prod.splits option.splits if_splits
        dest: RunOneShot_target [OF assms(1)] begin_rollout_flying [OF assms(1)] after)
qed

lemma record_verdict_au:
  assumes "status_subresource E stored" and "record_verdict E inst s reason msg w = (r, err, inst', w')"
  shows "au_status inst' = au_status inst"
proof -
  let ?i = "put_condition E w (condition inst ConditionAutoUpdated s reason msg) inst"
  obtain x w1 where u: "status_update E ?i w = (x, inst', w1)"
    using assms(2) by (auto simp: record_verdict_def split: prod.splits option.splits)
  then have "hi_Status inst' = hi_Status ?i"
    using status_update_stored(1) [OF assms(1)] by (cases x) (auto dest: status_update_Some)
  then show ?thesis by simp
qed

lemma set_last_check_simps [simp]:
  "ast_TargetTag (au_status (set_last_check now inst)) = ast_TargetTag (au_status inst)"
  "ast_LastFailedTag (au_status (set_last_check now inst)) = ast_LastFailedTag (au_status inst)"
  "currentRunningTag (set_last_check now inst) = currentRunningTag inst"
  "hi_Spec (set_last_check now inst) = hi_Spec inst"
  by (simp_all add: set_last_check_def currentRunningTag_def)

lemma decide_update_flying:
  assumes "status_subresource E stored" and "decide_update up E inst tags w = (r, err, inst', w')"
    and "ast_TargetTag (au_status inst) = ''''" and "ast_TargetTag (au_status inst') \<noteq> ''''"
  shows "\<exists>t. HighestMatching (up_semver up) tags (update_channel (up_semver up) inst) = Inr t \<and>
     t \<noteq> ast_LastFailedTag (au_status inst) \<and> t \<noteq> currentRunningTag inst \<and> flying t (au_status inst')"
proof -
  obtain now w1 where n: "env_now E w = (now, w1)" by fastforce
  have vd: False if "record_verdict E (set_last_check now inst) s reason msg v = (r', err', inst', v')"
    for s reason msg v r' err' v'
    using record_verdict_au [OF assms(1) that] assms(3,4) by simp
  obtain t where t: "HighestMatching (up_semver up) tags (update_channel (up_semver up) inst) = Inr t"
    using assms(2-4) n
    by (auto simp: decide_update_def Let_def split: sum.splits if_splits dest: vd)
  have ne: "t \<noteq> ast_LastFailedTag (au_status inst)" "t \<noteq> currentRunningTag inst"
    using assms(2) n t by (auto simp: decide_update_def Let_def split: if_splits dest: vd)
  then have "startRollout up E (set_last_check now inst) t w1 = (r, err, inst', w')"
    using assms(2) n t by (simp add: decide_update_def Let_def)
  from startRollout_flying [OF assms(1) this] assms(3,4) have "flying t (au_status inst')" by auto
  with t ne show ?thesis by blast
qed

section \<open>Properties\<close>

text \<open>
  C33. A rollout starts for a cause: when a pass of an instance with no rollout in flight leaves a
  target tag, automatic updates are on, the target is the tag \<open>HighestMatching\<close> chooses from a
  listing of the repository, it is neither the last tag that failed nor the running one, and its
  deadline is five minutes after a reading of the clock.
\<close>

theorem rollout_starts_for_cause:
  assumes "status_subresource E stored" and "ast_TargetTag (au_status inst) = ''''"
    and "AutoUpdateReconcile up E inst w = (r, err, inst', w')" and "ast_TargetTag (au_status inst') \<noteq> ''''"
  shows "au_Enabled (spec_AutoUpdate (hi_Spec inst)) \<and>
    (\<exists>list_tags w0 tags w1. up_Registry up = Some list_tags \<and> list_tags (update_repo inst) w0 = (Inr tags, w1) \<and>
       HighestMatching (up_semver up) tags (update_channel (up_semver up) inst) = Inr (ast_TargetTag (au_status inst'))) \<and>
    ast_TargetTag (au_status inst') \<noteq> ast_LastFailedTag (au_status inst) \<and>
    ast_TargetTag (au_status inst') \<noteq> currentRunningTag inst \<and>
    (\<exists>now. ast_RolloutDeadline (au_status inst') = Some (now + 5 * Minute))"
proof -
  have checked: False if "status_update E (set_last_check now inst) v = (x, inst', v')" for now v x v'
    using that assms(2,4) status_update_stored(1) [OF assms(1), of "set_last_check now inst" v inst' v']
    by (cases x) (auto dest: status_update_Some)
  have on: "au_Enabled (spec_AutoUpdate (hi_Spec inst))"
    using assms(2-4) by (auto simp: AutoUpdateReconcile_def split: if_splits)
  obtain list_tags where reg: "up_Registry up = Some list_tags"
    using assms(2-4) on by (cases "up_Registry up") (auto simp: AutoUpdateReconcile_def)
  obtain w0 tags w1 where l: "list_tags (update_repo inst) w0 = (Inr tags, w1)"
    and d: "decide_update up E inst tags w1 = (r, err, inst', w')"
    using assms(2-4) on reg
    by (auto simp: AutoUpdateReconcile_def Let_def split: prod.splits option.splits sum.splits if_splits dest: checked)
  from decide_update_flying [OF assms(1) d assms(2,4)] on reg l show ?thesis
    by (auto simp: flying_def rolloutWindow_def)
qed

text \<open>
  A tag that failed is not rolled out again: as long as every listing of the repository has the
  last failed tag (or the running one) as its choice, a pass with no rollout in flight neither reads
  nor writes StatefulSets and Jobs: its outcome is the same for every behaviour of those clients.
\<close>

theorem failed_tag_not_retried:
  assumes "ast_TargetTag (au_status inst) = ''''"
    and "\<And>list_tags w0 tags w1 t. up_Registry up = Some list_tags \<Longrightarrow>
       list_tags (update_repo inst) w0 = (Inr tags, w1) \<Longrightarrow>
       HighestMatching (up_semver up) tags (update_channel (up_semver up) inst) = Inr t \<Longrightarrow>
       t = ast_LastFailedTag (au_status inst) \<or> t = currentRunningTag inst"
  shows "AutoUpdateReconcile up (E\<lparr>env_statefulsets := c, env_jobs := d\<rparr>) inst w = AutoUpdateReconcile up E inst w"
proof -
  let ?E = "E\<lparr>env_statefulsets := c, env_jobs := d\<rparr>"
  have su: "status_update ?E = status_update E" by (intro ext) (simp add: status_update_def)
  have rv: "record_verdict ?E = record_verdict E"
    by (intro ext) (simp add: record_verdict_def su put_condition_def)
  have du: "decide_update up ?E inst tags w1 = decide_update up E inst tags w1"
    if "up_Registry up = Some list_tags" "list_tags (update_repo inst) w0 = (Inr tags, w1)" for list_tags w0 tags w1
    using assms(2) [OF that] by (auto simp: decide_update_def rv Let_def split: sum.split prod.split)
  show ?thesis
    using assms(1) du
    by (auto simp: AutoUpdateReconcile_def su Let_def split: option.split prod.split sum.split)
qed

text \<open>
  The warnings that count against a rollout, written out: the events on the pod \<open>-0\<close> of the instance
  with one of the two reasons, none older than the five minutes before the deadline.
\<close>

definition strikes :: "HermesInstance \<Rightarrow> CoreEvent list \<Rightarrow> CoreEvent list" where
  "strikes inst es = [e \<leftarrow> es. cev_InvolvedKind e = ''Pod'' \<and> cev_InvolvedName e = om_Name (hi_ObjectMeta inst) @ ''-0'' \<and>
     (cev_Reason e = ''Unhealthy'' \<or> cev_Reason e = ''FailedMount'') \<and>
     (\<forall>dl \<in> set_option (ast_RolloutDeadline (au_status inst)). dl - 5 * Minute \<le> cev_LastTimestamp e)]"

lemma countProbeFailures_strikes:
  assumes "countProbeFailures E inst w = (Inr n, w')"
  obtains es where "kc_list (env_events E) (om_Namespace (hi_ObjectMeta inst)) w = (Inr es, w')"
    and "n = wrap32 (int (length (strikes inst es)))"
proof -
  have "counts_as_failure inst = (\<lambda>e. cev_InvolvedKind e = ''Pod'' \<and> cev_InvolvedName e = om_Name (hi_ObjectMeta inst) @ ''-0'' \<and>
     (cev_Reason e = ''Unhealthy'' \<or> cev_Reason e = ''FailedMount'') \<and>
     (\<forall>dl \<in> set_option (ast_RolloutDeadline (au_status inst)). dl - 5 * Minute \<le> cev_LastTimestamp e))"
    by (rule ext) (auto simp: counts_as_failure_def StatefulSetName_def rolloutWindow_def split: option.split)
  then have "filter (counts_as_failure inst) es = strikes inst es" for es by (simp add: strikes_def)
  with assms that show thesis
    by (auto simp: countProbeFailures_def split: prod.splits sum.splits)
qed

lemma rollback_patches:
  assumes "rollback E inst t reason w = (r, None, inst', w')"
  shows "\<exists>sts w1 x w2. kc_get (env_statefulsets E) (inst_ns inst, StatefulSetName inst) w = (Inr sts, w1) \<and>
    kc_patch (env_statefulsets E) sts (set_first_image (rollout_image inst (prev_tag inst)) sts) w1 = (Inr x, w2)"
  using assms by (auto simp: rollback_def get_sts_def Let_def split: prod.splits sum.splits if_splits)

text \<open>
  C32. What a successful pass of a rollout in flight leaves, and why. The StatefulSet it reads decides
  first: with one ready replica, one updated replica and a current revision, the target is recorded as
  the running and last successful tag and the rollout is over. Otherwise the warnings on the pod are
  counted. When rollback is not disabled, and the count reaches the threshold (three unless the spec
  sets a positive one) or the clock has passed the deadline, the StatefulSet's first container gets the
  image of the previous tag, the last successful one or the spec's, and the target is recorded as
  failed. In every other case the rollout goes on with the count recorded and is looked at again in
  fifteen seconds: with rollback disabled that is so past the deadline, too.
\<close>

theorem rollout_pass_outcomes:
  assumes "status_subresource E stored" and "au_Enabled (spec_AutoUpdate (hi_Spec inst))"
    and "up_Registry up \<noteq> None" and "ast_TargetTag (au_status inst) = t" and "t \<noteq> ''''"
    and "AutoUpdateReconcile up E inst w = (r, None, inst', w')"
  shows "\<exists>sts w1. kc_get (env_statefulsets E) (inst_ns inst, om_Name (hi_ObjectMeta inst)) w = (Inr sts, w1) \<and>
    (if sts_StatusReadyReplicas sts = 1 \<and> sts_StatusUpdatedReplicas sts = 1 \<and> sts_StatusCurrentRevision sts \<noteq> ''''
     then au_status inst' = (au_status inst)\<lparr>ast_CurrentTag := t, ast_LastSuccessTag := t, ast_TargetTag := '''',
            ast_RolloutDeadline := None, ast_ProbeFailures := 0, ast_PreUpdateSnapshot := ''''\<rparr>
     else \<exists>es w2 n. kc_list (env_events E) (inst_ns inst) w1 = (Inr es, w2) \<and>
       n = wrap32 (int (length (strikes inst es))) \<and>
       (let rb = au_Rollback (spec_AutoUpdate (hi_Spec inst)); limit = aur_ProbeFailureThreshold rb;
            late = (\<exists>dl. ast_RolloutDeadline (au_status inst) = Some dl \<and> dl < fst (env_now E w2));
            prev = (if ast_LastSuccessTag (au_status inst) = '''' then image_Tag (spec_Image (hi_Spec inst))
                    else ast_LastSuccessTag (au_status inst)) in
        if aur_Enabled rb \<noteq> Some False \<and> ((if 0 < limit then limit else 3) \<le> n \<or> late)
        then au_status inst' = (au_status inst)\<lparr>ast_LastFailedTag := t, ast_CurrentTag := prev, ast_TargetTag := '''',
               ast_RolloutDeadline := None, ast_ProbeFailures := n\<rparr> \<and>
             (\<exists>sts3 v3 v4 x v5. kc_get (env_statefulsets E) (inst_ns inst, om_Name (hi_ObjectMeta inst)) v3 = (Inr sts3, v4) \<and>
                kc_patch (env_statefulsets E) sts3 (set_first_image (rollout_image inst prev) sts3) v4 = (Inr x, v5))
        else au_status inst' = (au_status inst)\<lparr>ast_ProbeFailures := n\<rparr> \<and> RequeueAfter r = 15 * Second))"
proof -
  have run: "driveRollout E inst w = (r, None, inst', w')"
    using assms(2-6) by (auto simp: AutoUpdateReconcile_def)
  obtain sts w1 where g: "get_sts E inst w = (Inr sts, w1)"
    using run by (auto simp: driveRollout_def Let_def split: prod.splits sum.splits)
  then have g': "kc_get (env_statefulsets E) (inst_ns inst, om_Name (hi_ObjectMeta inst)) w = (Inr sts, w1)"
    by (simp add: get_sts_def StatefulSetName_def)
  have pick: "p \<Longrightarrow> a \<Longrightarrow> if p then a else b" "\<not> p \<Longrightarrow> b \<Longrightarrow> if p then a else b" for p a b by simp_all
  show ?thesis
  proof (cases "rollout_ready sts")
    case True
    with run g assms(4) have "confirmRollout E inst t w1 = (r, None, inst', w')" by (simp add: driveRollout_def)
    from confirmRollout_status [OF assms(1) this] g' True show ?thesis
      by (intro exI [of _ sts] exI [of _ w1]) (simp add: rollout_ready_def confirmed_def)
  next
    case False
    obtain n w2 where c: "countProbeFailures E inst w1 = (Inr n, w2)"
      using run g False by (auto simp: driveRollout_def Let_def split: prod.splits sum.splits)
    obtain es where es: "kc_list (env_events E) (inst_ns inst) w1 = (Inr es, w2)" "n = wrap32 (int (length (strikes inst es)))"
      using countProbeFailures_strikes [OF c] by metis
    let ?i = "upd_au (\<lambda>a. a\<lparr>ast_ProbeFailures := n\<rparr>) inst"
    have i: "failure_threshold ?i = failure_threshold inst" "rollback_enabled ?i = rollback_enabled inst"
      "prev_tag ?i = prev_tag inst" "rollout_image ?i = rollout_image inst"
      by (simp_all add: failure_threshold_def rollback_enabled_def prev_tag_def rollout_image_def fun_eq_iff)
    have en: "rollback_enabled inst \<longleftrightarrow> aur_Enabled (au_Rollback (spec_AutoUpdate (hi_Spec inst))) \<noteq> Some False"
      by (auto simp: rollback_enabled_def BoolValueOrDefault_def split: option.split)
    obtain past w3 where p: "past_deadline E ?i w2 = (past, w3)" by fastforce
    have late: "past \<longleftrightarrow> (\<exists>dl. ast_RolloutDeadline (au_status inst) = Some dl \<and> dl < fst (env_now E w2))"
      using p by (auto simp: past_deadline_def split: prod.splits option.splits)
    have nr: "\<not> (sts_StatusReadyReplicas sts = 1 \<and> sts_StatusUpdatedReplicas sts = 1 \<and> sts_StatusCurrentRevision sts \<noteq> '''')"
      using False by (simp add: rollout_ready_def)
    show ?thesis
    proof (cases "rollback_enabled inst \<and> (failure_threshold inst \<le> n \<or> past)")
      case True
      then obtain reason where rb: "rollback E ?i t reason w3 = (r, None, inst', w')"
        using run g False c p i assms(4) unfolding driveRollout_def by (simp add: Let_def)
      from rollback_patches [OF rb] obtain sts3 v4 x v5 where
        pt: "kc_get (env_statefulsets E) (inst_ns inst, om_Name (hi_ObjectMeta inst)) w3 = (Inr sts3, v4)"
          "kc_patch (env_statefulsets E) sts3 (set_first_image (rollout_image inst (prev_tag inst)) sts3) v4 = (Inr x, v5)"
        unfolding i by (auto simp: StatefulSetName_def)
      have st: "au_status inst' = rolled_back t (prev_tag inst) ((au_status inst)\<lparr>ast_ProbeFailures := n\<rparr>)"
        using rollback_status [OF assms(1) rb] i by simp
      have go: "aur_Enabled (au_Rollback (spec_AutoUpdate (hi_Spec inst))) \<noteq> Some False"
        "failure_threshold inst \<le> n \<or> (\<exists>dl. ast_RolloutDeadline (au_status inst) = Some dl \<and> dl < fst (env_now E w2))"
        using True unfolding en late by simp_all
      show ?thesis
        apply (rule exI [of _ sts], rule exI [of _ w1], rule conjI [OF g'], subst if_not_P [OF nr])
        apply (rule exI [of _ es], rule exI [of _ w2], rule exI [of _ n], rule conjI [OF es(1)], rule conjI [OF es(2)])
        using st pt go unfolding failure_threshold_def prev_tag_def or_default_def rolled_back_def Let_def
        by (intro pick(1)) (blast, rule conjI, simp, blast)
    next
      case stay: False
      then obtain w4 where u: "status_update E ?i w3 = (None, inst', w4)" and r: "r = requeue_after (15 * Second)"
        using run g False c p i unfolding driveRollout_def
        by (auto simp: Let_def split: prod.splits option.splits)
      have st: "au_status inst' = (au_status inst)\<lparr>ast_ProbeFailures := n\<rparr>"
        using status_update_stored(1) [OF assms(1) u] by simp
      show ?thesis
        apply (rule exI [of _ sts], rule exI [of _ w1], rule conjI [OF g'], subst if_not_P [OF nr])
        apply (rule exI [of _ es], rule exI [of _ w2], rule exI [of _ n], rule conjI [OF es(1)], rule conjI [OF es(2)])
        using st stay r unfolding en late failure_threshold_def Let_def requeue_after_def
        by (intro pick(2)) (blast, simp)
    qed
  qed
qed

section \<open>A server that stores the status\<close>

text \<open>
  The world of the witnesses is the status the server holds; \<open>sts\<close> is the StatefulSet every read
  answers, and \<open>now\<close> the time.
\<close>

definition store_env :: "StatefulSet \<Rightarrow> time \<Rightarrow> HermesInstanceStatus env" where
  "store_env sts now = quiet_env
     \<lparr>env_instances := quiet_client\<lparr>kc_status_update := (\<lambda>i w. (Inr i, hi_Status i)),
        kc_patch := (\<lambda>o1 i w. (Inr (i\<lparr>hi_Status := w\<rparr>), w))\<rparr>,
      env_statefulsets := quiet_client\<lparr>kc_get := (\<lambda>k w. (Inr sts, w))\<rparr>, env_now := (\<lambda>w. (now, w))\<rparr>"

lemma store_env_subresource: "status_subresource (store_env sts now) (\<lambda>w. w)"
  by (simp add: status_subresource_def store_env_def)

lemma store_env_simps [simp]:
  "status_update (store_env sts now) i w = (None, i, hi_Status i)"
  "patch_instance (store_env sts now) o1 i w = (None, i\<lparr>hi_Status := w\<rparr>, w)"
  "get_sts (store_env sts now) i w = (Inr sts, w)"
  "kc_patch (env_statefulsets (store_env sts now)) s1 s2 w = (Inr s2, w)"
  "kc_get (env_statefulsets (store_env sts now)) k w = (Inr sts, w)"
  "kc_list (env_events (store_env sts now)) ns w = (Inr [], w)"
  "env_now (store_env sts now) w = (now, w)"
  "env_record (store_env sts now) ref ty reason msg w = w"
  by (simp_all add: store_env_def status_update_def patch_instance_def get_sts_def quiet_env_def quiet_client_def)

definition one_pod :: "string \<Rightarrow> int \<Rightarrow> StatefulSet" where
  "one_pod img ready =
     \<lparr>sts_Meta = new_meta ''a'' ''ns'',
      sts_Spec = \<lparr>sts_ServiceName = '''', sts_Replicas = Some 1, sts_RevisionHistoryLimit = None,
        sts_PodManagementPolicy = '''', sts_UpdateStrategy = ('''', None), sts_PVCRetention = None, sts_Selector = [],
        sts_Template = \<lparr>pts_Labels = [], pts_Spec = empty_pod_spec\<lparr>ps_Containers := [empty_container\<lparr>ctr_Image := img\<rparr>]\<rparr>\<rparr>\<rparr>,
      sts_StatusReplicas = 1, sts_StatusReadyReplicas = ready, sts_StatusUpdatedReplicas = 1, sts_StatusCurrentRevision = ''r1''\<rparr>"

definition updating :: "string \<Rightarrow> time option \<Rightarrow> HermesInstance" where
  "updating target dl = zero_HermesInstance
     \<lparr>hi_Spec := zero_HermesInstanceSpec\<lparr>spec_AutoUpdate := zero_AutoUpdateSpec\<lparr>au_Enabled := True\<rparr>,
        spec_Image := zero_ImageSpec\<lparr>image_Tag := ''1''\<rparr>\<rparr>,
      hi_Status := zero_HermesInstanceStatus\<lparr>st_AutoUpdate := zero_AutoUpdateStatus
        \<lparr>ast_TargetTag := target, ast_RolloutDeadline := dl\<rparr>\<rparr>\<rparr>"

definition lister :: "string list \<Rightarrow> (nat, 'w) updater" where
  "lister tags = \<lparr>up_Registry = Some (\<lambda>r w. (Inr tags, w)), up_semver = nat_semver, up_Backup = False\<rparr>"

lemma updating_simps [simp]:
  "au_status (updating t dl) = zero_AutoUpdateStatus\<lparr>ast_TargetTag := t, ast_RolloutDeadline := dl\<rparr>"
  "spec_AutoUpdate (hi_Spec (updating t dl)) = zero_AutoUpdateSpec\<lparr>au_Enabled := True\<rparr>"
  "spec_Image (hi_Spec (updating t dl)) = zero_ImageSpec\<lparr>image_Tag := ''1''\<rparr>"
  "bk_S3 (spec_Backup (hi_Spec (updating t dl))) = None"
  by (simp_all add: updating_def zero_HermesInstanceSpec_def zero_BackupSpec_def)

lemma rollout_starts_for_cause_witness:
  "\<exists>r inst' w'. AutoUpdateReconcile (lister [''1'', ''2'']) (store_env (one_pod ''x'' 0) 0) (updating '''' None) zero_HermesInstanceStatus
     = (r, None, inst', w') \<and> ast_TargetTag (au_status inst') = ''2'' \<and> ''2'' \<noteq> currentRunningTag (updating '''' None)"
proof -
  let ?E = "store_env (one_pod ''x'' 0) 0" and ?i = "updating '''' None" and ?w = "zero_HermesInstanceStatus"
  obtain r err inst' w' where run: "AutoUpdateReconcile (lister [''1'', ''2'']) ?E ?i ?w = (r, err, inst', w')"
    by (metis prod_cases4)
  have ch: "HighestMatching nat_semver [''1'', ''2''] (update_channel nat_semver ?i) = Inr ''2''"
    by (simp add: update_channel_def HighestMatching_def DefaultChannel_def nat_semver_def zero_defs
        Let_def matching_versions_def map_filter_simps)
  have t: "ast_TargetTag (au_status inst') = ''2'' \<and> err = None"
    using run ch
    by (auto simp: AutoUpdateReconcile_def lister_def zero_AutoUpdateStatus_def decide_update_def currentRunningTag_def
       startRollout_def begin_rollout_def roll_image_def one_pod_def sts_containers_def
       mark_in_flight_def set_last_check_def Let_def split: if_splits)
  from rollout_starts_for_cause [OF store_env_subresource _ run] t run show ?thesis by auto
qed

definition broken_client :: "('o, 'w) kind_client" where
  "broken_client = quiet_client\<lparr>kc_patch := (\<lambda>o1 i w. (Inl (Plain ''down''), w)), kc_create := (\<lambda>i w. (Some (Plain ''down''), w))\<rparr>"

lemma failed_tag_not_retried_witness:
  "AutoUpdateReconcile (lister [''1'']) (quiet_env\<lparr>env_statefulsets := broken_client, env_jobs := broken_client\<rparr>) (updating '''' None) () =
   AutoUpdateReconcile (lister [''1'']) quiet_env (updating '''' None) ()"
proof (rule failed_tag_not_retried)
  show "ast_TargetTag (au_status (updating '''' None)) = ''''" by simp
  fix list_tags w0 tags w1 t
  assume "up_Registry (lister [''1''] :: (nat, unit) updater) = Some list_tags"
    and "list_tags (update_repo (updating '''' None)) w0 = (Inr tags, w1)"
    and "HighestMatching (up_semver (lister [''1''] :: (nat, unit) updater)) tags
      (update_channel (up_semver (lister [''1''] :: (nat, unit) updater)) (updating '''' None)) = Inr t"
  then show "t = ast_LastFailedTag (au_status (updating '''' None)) \<or> t = currentRunningTag (updating '''' None)"
    by (auto simp: lister_def HighestMatching_def nat_semver_def update_channel_def Let_def matching_versions_def
        map_filter_simps currentRunningTag_def zero_defs split: if_splits sum.splits)
qed

lemma rollout_pass_outcomes_witness:
  "\<exists>r inst' w'. AutoUpdateReconcile (lister []) (store_env (one_pod ''x'' 0) 1) (updating ''2'' (Some 0)) zero_HermesInstanceStatus
     = (r, None, inst', w') \<and> ast_TargetTag (au_status inst') = '''' \<and> ast_LastFailedTag (au_status inst') = ''2''"
proof -
  let ?E = "store_env (one_pod ''x'' 0) 1" and ?i = "updating ''2'' (Some 0)" and ?w = "zero_HermesInstanceStatus"
  have en: "au_Enabled (spec_AutoUpdate (hi_Spec ?i))" "rollback_enabled ?i"
    by (simp_all add: rollback_enabled_def zero_defs)
  obtain r err inst' w' where run: "AutoUpdateReconcile (lister []) ?E ?i ?w = (r, err, inst', w')"
    by (metis prod_cases4)
  have e: "err = None \<and> RequeueAfter r = 0 \<and> ast_LastSuccessTag (au_status inst') = ''''"
    using run en
    by (auto simp: AutoUpdateReconcile_def lister_def driveRollout_def rollout_ready_def one_pod_def
        countProbeFailures_def past_deadline_def rollback_def sts_containers_def rollback_enabled_def
        drop_target_annotation_def no_requeue_def Let_def mark_rolled_back_def
        rolled_back_def zero_AutoUpdateStatus_def wrap32_def split: if_splits)
  have run': "AutoUpdateReconcile (lister []) ?E ?i ?w = (r, None, inst', w')" using run e by simp
  have facts: "up_Registry (lister []) \<noteq> None" "ast_TargetTag (au_status ?i) = ''2''" "''2'' \<noteq> ''''"
    by (simp_all add: lister_def)
  have "ast_TargetTag (au_status inst') = '''' \<and> ast_LastFailedTag (au_status inst') = ''2''"
    using rollout_pass_outcomes [OF store_env_subresource en(1) facts run']
    by (simp add: one_pod_def zero_defs Let_def)
  with run' show ?thesis by blast
qed

text \<open>
  The poll interval: whatever the spec says, the operator polls no more often than every fifteen
  minutes and no less often than once a week; a number of minutes between is taken as it is, and
  outside of the range is clamped.
\<close>

theorem poll_interval_clamped:
  "15 * Minute \<le> poll_interval inst \<and> poll_interval inst \<le> 168 * Hour \<and>
   (\<forall>n. au_PollInterval (spec_AutoUpdate (hi_Spec inst)) = nat_digits n @ ''m'' \<and> n * 60000000000 < 2 ^ 63 \<longrightarrow>
      poll_interval inst = max (15 * Minute) (min (168 * Hour) (int n * Minute)))"
proof -
  have "poll_interval inst = max (15 * Minute) (min (168 * Hour) (int n * Minute))"
    if "au_PollInterval (spec_AutoUpdate (hi_Spec inst)) = nat_digits n @ ''m''" "n * 60000000000 < 2 ^ 63" for n
    using that ParseDuration_minutes [OF that(2)]
    by (auto simp: poll_interval_def parsePollInterval_def durations)
  then show ?thesis
    by (auto simp: poll_interval_def parsePollInterval_def durations split: option.split)
qed

lemma poll_interval_clamped_witness:
  "poll_interval (zero_HermesInstance\<lparr>hi_Spec := zero_HermesInstanceSpec
     \<lparr>spec_AutoUpdate := zero_AutoUpdateSpec\<lparr>au_PollInterval := ''90m''\<rparr>\<rparr>\<rparr>) = 90 * Minute"
proof -
  let ?i = "zero_HermesInstance\<lparr>hi_Spec := zero_HermesInstanceSpec
     \<lparr>spec_AutoUpdate := zero_AutoUpdateSpec\<lparr>au_PollInterval := ''90m''\<rparr>\<rparr>\<rparr>"
  have "au_PollInterval (spec_AutoUpdate (hi_Spec ?i)) = ''90m''" by simp
  also have "''90m'' = nat_digits 90 @ ''m''" by code_simp
  finally have "poll_interval ?i = max (15 * Minute) (min (168 * Hour) (int 90 * Minute))"
    using poll_interval_clamped [of ?i, THEN conjunct2, THEN conjunct2, rule_format, of 90] by simp
  then show ?thesis by (simp add: durations)
qed

section \<open>A rollback the server refuses\<close>

text \<open>
  The pattern the CRD demands of a condition's reason,
  \<open>[A-Za-z]([A-Za-z0-9_,:]*[A-Za-z0-9_])?\<close> from end to end, and the server's enforcing it.
\<close>

definition letter :: "char \<Rightarrow> bool" where
  "letter c \<longleftrightarrow> (let n = of_char c :: nat in (65 \<le> n \<and> n \<le> 90) \<or> (97 \<le> n \<and> n \<le> 122))"

definition reason_last :: "char \<Rightarrow> bool" where
  "reason_last c \<longleftrightarrow> letter c \<or> is_digit c \<or> c = CHR ''_''"

definition reason_char :: "char \<Rightarrow> bool" where
  "reason_char c \<longleftrightarrow> reason_last c \<or> c = CHR '','' \<or> c = CHR '':''"

definition reason_ok :: "string \<Rightarrow> bool" where
  "reason_ok s = (case s of
     [] \<Rightarrow> False
   | c # cs \<Rightarrow> letter c \<and> (cs = [] \<or> (list_all reason_char (butlast cs) \<and> reason_last (last cs))))"

definition crd_enforced :: "'w env \<Rightarrow> bool" where
  "crd_enforced E \<longleftrightarrow>
     (\<forall>i w t c. find_condition (st_Conditions (hi_Status i)) t = Some c \<and> \<not> reason_ok (cd_Reason c) \<longrightarrow>
        (\<exists>e w'. kc_status_update (env_instances E) i w = (Inl e, w')))"

lemma rollback_reason_ok_iff:
  "reason_ok (rollback_reason t) \<longleftrightarrow> t = '''' \<or> (list_all reason_char (butlast t) \<and> reason_last (last t))"
proof -
  have pre: "list_all reason_char ''olledBackFrom_''" "letter (CHR ''R'')" "reason_last (last ''olledBackFrom_'')"
    "list_all reason_char (butlast ''olledBackFrom_'')"
    by (simp_all add: reason_char_def reason_last_def letter_def)
  have r: "rollback_reason t = CHR ''R'' # (''olledBackFrom_'' @ t)" by (simp add: rollback_reason_def)
  show ?thesis
  proof (cases "t = ''''")
    case True
    then show ?thesis unfolding r reason_ok_def using pre by simp
  next
    case False
    have "butlast (''olledBackFrom_'' @ t) = ''olledBackFrom_'' @ butlast t"
      and "last (''olledBackFrom_'' @ t) = last t" using False by (simp_all add: butlast_append)
    then show ?thesis unfolding r reason_ok_def using pre False by (simp del: append.simps)
  qed
qed

lemma dotted_reason: "CHR ''.'' \<in> set t \<or> CHR ''-'' \<in> set t \<Longrightarrow> \<not> reason_ok (rollback_reason t)"
proof
  assume d: "CHR ''.'' \<in> set t \<or> CHR ''-'' \<in> set t" and ok: "reason_ok (rollback_reason t)"
  have bad: "\<not> reason_char (CHR ''.'')" "\<not> reason_char (CHR ''-'')"
    by (simp_all add: reason_char_def reason_last_def letter_def is_digit_def)
  from d have ne: "t \<noteq> []" by auto
  with ok have "list_all reason_char (butlast t)" "reason_char (last t)"
    by (auto simp: rollback_reason_ok_iff reason_char_def)
  then have "list_all reason_char (butlast t @ [last t])" by simp
  with ne have "list_all reason_char t" by simp
  with d bad show False by (auto simp: list_all_iff)
qed

text \<open>
  A rollback of a dotted tag does not complete: the condition it sets carries the failed tag in
  its reason, which the CRD's pattern refuses when the tag has a dot or a dash, as every semantic
  version with a minor number does. The image is reverted but the status update fails, so the
  failed tag is not recorded and the rollout stays in flight.
\<close>

theorem rollback_of_dotted_tag_fails:
  assumes "conditions_api E" and "crd_enforced E" and "CHR ''.'' \<in> set t \<or> CHR ''-'' \<in> set t"
    and "rollback E inst t reason w = (r, err, inst', w')"
  shows "err \<noteq> None"
proof -
  have "\<exists>e i v'. status_update E (mark_rolled_back E t prev reason v inst) v = (Some e, i, v')" for prev v
  proof -
    let ?c = "condition inst ConditionAutoUpdateRolledBack ConditionTrue (rollback_reason t) reason"
    have ty: "cd_Type (condition inst y s q m) = y" for y s q m by (simp add: condition_def)
    let ?cs = "env_set_condition E v (st_Conditions (hi_Status (upd_au (rolled_back t prev) inst))) ?c"
    have "find_condition (st_Conditions (hi_Status (mark_rolled_back E t prev reason v inst))) ConditionAutoUpdateRolledBack =
        find_condition ?cs ConditionAutoUpdateRolledBack"
      unfolding mark_rolled_back_def put_condition_simps
      by (rule conditions_apiD(2) [OF assms(1)]) (simp add: ty)
    moreover obtain u where "find_condition ?cs ConditionAutoUpdateRolledBack = Some (?c\<lparr>cd_LastTransitionTime := u\<rparr>)"
      using conditions_apiD(1) [OF assms(1), of v _ ?c] unfolding ty by blast
    moreover have "\<not> reason_ok (cd_Reason (?c\<lparr>cd_LastTransitionTime := u\<rparr>))"
      using dotted_reason [OF assms(3)] by (simp add: condition_def)
    ultimately obtain e v' where "kc_status_update (env_instances E) (mark_rolled_back E t prev reason v inst) v = (Inl e, v')"
      using assms(2) unfolding crd_enforced_def by metis
    then show ?thesis by (simp add: status_update_def)
  qed
  then have no: "status_update E (mark_rolled_back E t prev reason v inst) v \<noteq> (None, i, v')" for prev v i v'
    by (metis option.distinct(1) prod.inject)
  show ?thesis
    using assms(4)
    by (auto simp: rollback_def Let_def no split: prod.splits sum.splits option.splits if_splits)
qed

definition strict_env :: "StatefulSet \<Rightarrow> HermesInstanceStatus env" where
  "strict_env sts = (store_env sts 0)\<lparr>env_instances := (env_instances (store_env sts 0))
     \<lparr>kc_status_update := (\<lambda>i w.
        if list_all (\<lambda>c. reason_ok (cd_Reason c)) (st_Conditions (hi_Status i)) then (Inr i, hi_Status i)
        else (Inl (ApiStatus ReasonOther ''invalid''), w))\<rparr>\<rparr>"

lemma strict_env_ok: "conditions_api (strict_env sts)" "crd_enforced (strict_env sts)"
proof -
  show "conditions_api (strict_env sts)"
    using quiet_conditions by (simp add: conditions_api_def strict_env_def store_env_def quiet_env_def)
  have "find_condition cs t = Some c \<Longrightarrow> c \<in> set cs" for cs t c
    unfolding find_condition_def by (metis find_Some_iff nth_mem)
  then show "crd_enforced (strict_env sts)"
    by (auto simp: crd_enforced_def strict_env_def list_all_iff)
qed

lemma rollback_of_dotted_tag_fails_witness:
  "fst (snd (rollback (strict_env (one_pod ''x'' 0)) (updating ''1.2.0'' (Some 0)) ''1.2.0'' ''late'' zero_HermesInstanceStatus)) \<noteq> None"
proof -
  obtain r err i w where run: "rollback (strict_env (one_pod ''x'' 0)) (updating ''1.2.0'' (Some 0)) ''1.2.0'' ''late''
      zero_HermesInstanceStatus = (r, err, i, w)"
    by (metis prod_cases4)
  have "CHR ''.'' \<in> set ''1.2.0'' \<or> CHR ''-'' \<in> set ''1.2.0''" by simp
  from rollback_of_dotted_tag_fails [OF strict_env_ok this run] run show ?thesis by simp
qed

text \<open>
  Confirmation does not look at the image: while a rollout of \<open>t\<close> is in flight, a ready
  StatefulSet that runs the previous tag, be it because a rollback reverted the image and could not
  record it or because another writer did, makes a successful pass record \<open>t\<close> as the running and
  last successful tag.
\<close>

theorem reverted_image_confirmed:
  assumes "status_subresource E stored" and "au_Enabled (spec_AutoUpdate (hi_Spec inst))"
    and "up_Registry up \<noteq> None" and "ast_TargetTag (au_status inst) = t" and "t \<noteq> ''''"
    and "get_sts E inst w = (Inr sts, w1)" and "rollout_ready sts"
    and "ctr_Image (hd (sts_containers sts)) = rollout_image inst (prev_tag inst)" and "prev_tag inst \<noteq> t"
    and "AutoUpdateReconcile up E inst w = (r, None, inst', w')"
  shows "au_status inst' = confirmed t (au_status inst) \<and>
    rollout_image inst' (currentRunningTag inst') \<noteq> rollout_image inst' (prev_tag inst)"
proof -
  have "confirmRollout E inst t w1 = (r, None, inst', w')"
    using assms(2-7,10) by (auto simp: AutoUpdateReconcile_def driveRollout_def)
  from confirmRollout_status [OF assms(1) this] have c: "au_status inst' = confirmed t (au_status inst)" .
  then have "currentRunningTag inst' = t"
    using assms(5) by (simp add: currentRunningTag_def confirmed_def or_default_def)
  with c assms(9) show ?thesis by (simp add: rollout_image_def)
qed

lemma reverted_image_confirmed_witness:
  "\<exists>r inst' w'. AutoUpdateReconcile (lister []) (store_env (one_pod ''ghcr.io/paperclipinc/hermes-agent:1'' 1) 1)
      (updating ''2'' (Some 0)) zero_HermesInstanceStatus = (r, None, inst', w') \<and>
    ast_LastSuccessTag (au_status inst') = ''2''"
proof -
  let ?s = "one_pod ''ghcr.io/paperclipinc/hermes-agent:1'' 1"
  let ?E = "store_env ?s 1" and ?i = "updating ''2'' (Some 0)" and ?w = "zero_HermesInstanceStatus"
  have en: "au_Enabled (spec_AutoUpdate (hi_Spec ?i))" by simp
  obtain r err inst' w' where run: "AutoUpdateReconcile (lister []) ?E ?i ?w = (r, err, inst', w')"
    by (metis prod_cases4)
  have ready: "rollout_ready ?s" by (simp add: rollout_ready_def one_pod_def)
  have e: "err = None"
    using run ready
    by (auto simp: AutoUpdateReconcile_def lister_def driveRollout_def confirmRollout_def Let_def
        drop_target_annotation_def split: if_splits)
  have img: "ctr_Image (hd (sts_containers ?s)) = rollout_image ?i (prev_tag ?i)" "prev_tag ?i \<noteq> ''2''"
    by (simp_all add: one_pod_def sts_containers_def rollout_image_def prev_tag_def zero_defs)
  have "au_status inst' = confirmed ''2'' (au_status ?i)"
    using reverted_image_confirmed [OF store_env_subresource en, of "lister []" "''2''" ?s 1 ?w ?s ?w r inst' w']
      ready img run e by (simp add: lister_def)
  then show ?thesis using run e by (simp add: confirmed_def)
qed

end
