(* ===== verification/Instance.thy ===== *)
theory Instance
  imports Store Semaphore AutoUpdate
begin

text \<open>
  \<open>HermesInstanceReconciler\<close> of \<open>internal/controller/hermesinstance_controller.go\<close>: \<open>Reconcile\<close> with
  its pipeline of subsystem steps, the chain of sub-controllers, the deletion path and the status.
  The receiver \<open>reconciler\<close> holds the environment, the HTTP and YAML packages and the optional
  sub-controllers, whose presence the code tests. The sections after the definitions show the
  properties of a whole pass.
\<close>

section \<open>The receiver\<close>

record ('v, 'w) reconciler =
  rc_env :: "'w env"
  rc_http :: "'w http_lib"
  rc_yaml :: yaml_lib
  rc_PrometheusOperatorCRDsPresent :: bool
  rc_Backup :: bool
  rc_Restore :: bool
  rc_AutoUpdate :: "('v, 'w) updater option"
  rc_Migration :: bool

type_synonym 'w inst_act = "HermesInstance \<Rightarrow> 'w \<Rightarrow> go_error option \<times> HermesInstance \<times> 'w"
type_synonym 'w step = "string \<times> string \<times> 'w inst_act"

text \<open>A step that reads the instance only.\<close>

definition reading :: "(HermesInstance \<Rightarrow> 'w act) \<Rightarrow> 'w inst_act" where
  "reading act inst w = (case act inst w of (err, w1) \<Rightarrow> (err, inst, w1))"

definition resource_steps :: "('v, 'w) reconciler \<Rightarrow> 'w step list" where
  "resource_steps R =
     (let E = rc_env R in
      [(''Secret'', ConditionTypeSecretsReady, reading (reconcileSecret E)),
       (''PVC'', ConditionTypeStorageReady, reading (reconcilePVC E)),
       (''ConfigMap'', ConditionTypeConfigReady, reading (reconcileConfigMap (rc_yaml R) E)),
       (''WorkspaceConfigMap'', ConditionTypeConfigReady, reading (reconcileWorkspaceConfigMap E)),
       (''NetworkPolicy'', ConditionTypeNetworkPolicyReady, reading (reconcileNetworkPolicy E)),
       (''RBAC'', ConditionTypeRBACReady, reading (reconcileRBAC E)),
       (''Service'', ConditionTypeServiceReady, reading (reconcileService E)),
       (''PDB'', ConditionTypePDBReady, reading (reconcilePDB E)),
       (''HPA'', ConditionTypeHPAReady, reading (reconcileHPA E)),
       (''Ingress'', ConditionTypeIngressReady, reading (reconcileIngress E)),
       (''HTTPRoute'', ConditionTypeHTTPRouteReady, reading (reconcileHTTPRoute E)),
       (''ServiceMonitor'', ConditionTypeServiceMonitorReady, reading (reconcileServiceMonitor (rc_PrometheusOperatorCRDsPresent R) E)),
       (''PrometheusRule'', ConditionTypePrometheusRuleReady, reading (reconcilePrometheusRule (rc_PrometheusOperatorCRDsPresent R) E)),
       (''GrafanaDashboard'', ConditionTypeGrafanaDashboardReady, reading (reconcileGrafanaDashboards E)),
       (''StatefulSet'', ''StatefulSetReady'', reading (reconcileStatefulSet (rc_Migration R) E)),
       (''Honcho'', ''ProfileStoreReady'', reading (reconcileHoncho E)),
       (''Tailscale'', ConditionTailscaleReady, reading (\<lambda>inst. reconcileTailscale))])"

definition steps :: "('v, 'w) reconciler \<Rightarrow> 'w step list" where
  "steps R = resource_steps R @ [(''Semaphore'', ConditionSemaphoreReady, reconcileSemaphore (rc_http R) (rc_env R))]"

definition setCondition :: "'w env \<Rightarrow> HermesInstance \<Rightarrow> string \<Rightarrow> cond_status \<Rightarrow> string \<Rightarrow> string \<Rightarrow> 'w \<Rightarrow> HermesInstance" where
  "setCondition E inst t status reason msg w = put_condition E w (condition inst t status reason msg) inst"

text \<open>
  The loop over the steps. An error stops it: the condition of the step turns false, the status is
  written, its own error being ignored, and the error is returned. A panic unwinds at once.
\<close>

fun run_pipeline :: "'w env \<Rightarrow> 'w step list \<Rightarrow> 'w inst_act" where
  "run_pipeline E [] inst w = (None, inst, w)"
| "run_pipeline E ((name, cond, fn) # rest) inst w =
     (case fn inst w of
        (Some e, inst1, w1) \<Rightarrow>
          if is_panic e then (Some e, inst1, w1)
          else (case status_update E (setCondition E inst1 cond ConditionFalse ''Error'' (err_text e) w1) w1 of
                  (_, inst2, w2) \<Rightarrow> (Some (Wrapped (''reconcile '' @ name) e), inst2, w2))
      | (None, inst1, w1) \<Rightarrow>
          run_pipeline E rest (setCondition E inst1 cond ConditionTrue ''Reconciled'' (name @ '' up to date'') w1) w1)"

section \<open>Sub-controllers and status\<close>

text \<open>The chain after the steps: the errors of the sub-controllers are logged and dropped.\<close>

definition run_chain :: "('v, 'w) reconciler \<Rightarrow> HermesInstance \<Rightarrow> 'w \<Rightarrow> HermesInstance \<times> 'w" where
  "run_chain R inst w =
     (let E = rc_env R;
          (i1, w1) = (if rc_Backup R then (case ReconcileCronJob E inst w of (_, i, v) \<Rightarrow> (i, v)) else (inst, w));
          (i2, w2) = (if rc_Migration R then (case MigrationReconcile E i1 w1 of (_, _, _, i, v) \<Rightarrow> (i, v)) else (i1, w1));
          (i3, w3) = (if rc_Restore R then (case RestoreReconcile E i2 w2 of (_, _, _, i, v) \<Rightarrow> (i, v)) else (i2, w2))
      in case rc_AutoUpdate R of
           None \<Rightarrow> (i3, w3)
         | Some up \<Rightarrow> (case AutoUpdateReconcile up E i3 w3 of (_, _, i, v) \<Rightarrow> (i, v)))"

abbreviation reasonProfileStoreDisabled :: string where "reasonProfileStoreDisabled \<equiv> ''Disabled''"
abbreviation reasonProfileStoreDeploymentDown :: string where "reasonProfileStoreDeploymentDown \<equiv> ''DeploymentNotReady''"
abbreviation reasonProfileStoreReady :: string where "reasonProfileStoreReady \<equiv> ''Ready''"

definition updateProfileStoreCondition :: "'w env \<Rightarrow> HermesInstance \<Rightarrow> 'w \<Rightarrow> HermesInstance \<times> 'w" where
  "updateProfileStoreCondition E inst w =
     (if \<not> honchoEnabled inst
      then (setCondition E inst ''ProfileStoreReady'' ConditionTrue reasonProfileStoreDisabled
              ''Honcho profile store disabled (spec.profileStore.honcho.enabled=false)'' w, w)
      else case kc_get (env_deployments E) (inst_ns inst, HonchoDeploymentName inst) w of
        (Inl e, w1) \<Rightarrow>
          (setCondition E inst ''ProfileStoreReady'' ConditionFalse reasonProfileStoreDeploymentDown
             (''Honcho Deployment not found: '' @ err_text e) w1, w1)
      | (Inr dep, w1) \<Rightarrow>
          if 1 \<le> dep_StatusReadyReplicas dep
          then (setCondition E inst ''ProfileStoreReady'' ConditionTrue reasonProfileStoreReady
                  ''Honcho Deployment has >=1 ready replica'' w1, w1)
          else (setCondition E inst ''ProfileStoreReady'' ConditionFalse reasonProfileStoreDeploymentDown
                  (''Honcho Deployment has '' @ Itoa (dep_StatusReadyReplicas dep) @ ''/'' @ Itoa (dep_StatusReplicas dep) @
                   '' ready replicas'') w1, w1))"

definition observe_replicas :: "StatefulSet \<Rightarrow> HermesInstance \<Rightarrow> HermesInstance" where
  "observe_replicas sts inst =
     upd_status (\<lambda>s. s\<lparr>st_Replicas := sts_StatusReplicas sts, st_ReadyReplicas := sts_StatusReadyReplicas sts,
                       st_ObservedGeneration := om_Generation (hi_ObjectMeta inst)\<rparr>) inst"

definition set_phase :: "string \<Rightarrow> HermesInstance \<Rightarrow> HermesInstance" where
  "set_phase p inst = upd_status (\<lambda>s. s\<lparr>st_Phase := p\<rparr>) inst"

definition updateStatus :: "'w env \<Rightarrow> 'w inst_act" where
  "updateStatus E inst w =
     (case kc_get (env_statefulsets E) (inst_ns inst, StatefulSetName inst) w of
        (Inl e, w1) \<Rightarrow> (Some e, inst, w1)
      | (Inr sts, w1) \<Rightarrow>
          (let i = observe_replicas sts inst in
           status_update E
             (if spec_Suspended (hi_Spec i) then set_phase ''Suspended'' i
              else if 0 < sts_StatusReadyReplicas sts \<and> sts_StatusReadyReplicas sts = sts_StatusReplicas sts
              then setCondition E (set_phase ''Ready'' i) ConditionTypeReady ConditionTrue ''AllSubsystemsReady'' '''' w1
              else setCondition E (set_phase ''Pending'' i) ConditionTypeReady ConditionFalse ''StatefulSetNotReady'' '''' w1) w1))"

section \<open>Reconciling\<close>

type_synonym 'w pass_result = "ctrl_result \<times> go_error option \<times> HermesInstance \<times> 'w"

definition cleanup_due :: "HermesInstance \<Rightarrow> bool" where
  "cleanup_due inst \<longleftrightarrow> SemaphoreCleanupOnDelete inst \<and> ContainsFinalizer inst FinalizerSemaphoreCleanup"

definition release_semaphore :: "('v, 'w) reconciler \<Rightarrow> HermesInstance \<Rightarrow> 'w \<Rightarrow> 'w pass_result" where
  "release_semaphore R inst w =
     (if \<not> cleanup_due inst then (no_requeue, None, inst, w)
      else case semaphoreCleanup (rc_http R) (rc_env R) inst w of
        (Some e, w1) \<Rightarrow>
          if is_panic e then (no_requeue, Some e, inst, w1) else (requeue_after (30 * Second), None, inst, w1)
      | (None, w1) \<Rightarrow>
         (case patch_instance (rc_env R) inst (DropFinalizer FinalizerSemaphoreCleanup inst) w1 of
            (err, inst1, w2) \<Rightarrow> (no_requeue, wrap_err ''patch semaphore finalizer remove'' err, inst1, w2)))"

definition reconcile_deleted :: "('v, 'w) reconciler \<Rightarrow> HermesInstance \<Rightarrow> 'w \<Rightarrow> 'w pass_result" where
  "reconcile_deleted R inst w =
     (if rc_Backup R
      then (case HandleDeletion (rc_env R) inst w of (res, held, err, inst1, w1) \<Rightarrow>
              (case err of
                 Some e \<Rightarrow> (no_requeue, Some e, inst1, w1)
               | None \<Rightarrow> if held then (res, None, inst1, w1) else release_semaphore R inst1 w1))
      else release_semaphore R inst w)"

definition ensure_semaphore_finalizer :: "'w env \<Rightarrow> 'w inst_act" where
  "ensure_semaphore_finalizer E inst w =
     (if SemaphoreCleanupOnDelete inst \<and> \<not> ContainsFinalizer inst FinalizerSemaphoreCleanup
      then (case patch_instance E inst (AddFinalizer FinalizerSemaphoreCleanup inst) w of
              (err, inst1, w1) \<Rightarrow> (wrap_err ''patch semaphore finalizer add'' err, inst1, w1))
      else (None, inst, w))"

definition ensure_finalizers :: "('v, 'w) reconciler \<Rightarrow> 'w inst_act" where
  "ensure_finalizers R inst w =
     (case (if rc_Backup R then EnsureFinalizer (rc_env R) inst w else (None, inst, w)) of
        (Some e, inst1, w1) \<Rightarrow> (Some e, inst1, w1)
      | (None, inst1, w1) \<Rightarrow> ensure_semaphore_finalizer (rc_env R) inst1 w1)"

definition finish_pass :: "('v, 'w) reconciler \<Rightarrow> HermesInstance \<Rightarrow> 'w \<Rightarrow> 'w pass_result" where
  "finish_pass R inst w =
     (let (i1, w1) = run_chain R inst w;
          (i2, w2) = updateProfileStoreCondition (rc_env R) i1 w1;
          (_, i3, w3) = updateStatus (rc_env R) i2 w2
      in (requeue_after (5 * Minute), None, i3, w3))"

definition reconcile_live :: "('v, 'w) reconciler \<Rightarrow> HermesInstance \<Rightarrow> 'w \<Rightarrow> 'w pass_result" where
  "reconcile_live R inst w =
     (case ensure_finalizers R inst w of
        (Some e, inst1, w1) \<Rightarrow> (no_requeue, Some e, inst1, w1)
      | (None, inst1, w1) \<Rightarrow>
         (case run_pipeline (rc_env R) (steps R) inst1 w1 of
            (Some e, inst2, w2) \<Rightarrow> (no_requeue, Some e, inst2, w2)
          | (None, inst2, w2) \<Rightarrow> finish_pass R inst2 w2))"

definition reconcile_instance :: "('v, 'w) reconciler \<Rightarrow> HermesInstance \<Rightarrow> 'w \<Rightarrow> 'w pass_result" where
  "reconcile_instance R inst w =
     (if om_DeletionTimestamp (hi_ObjectMeta inst) \<noteq> None then reconcile_deleted R inst w else reconcile_live R inst w)"

definition Reconcile :: "('v, 'w) reconciler \<Rightarrow> nsname \<Rightarrow> 'w \<Rightarrow> ctrl_result \<times> go_error option \<times> 'w" where
  "Reconcile R req w =
     (case kc_get (env_instances (rc_env R)) req w of
        (Inl e, w1) \<Rightarrow> if IsNotFound e then (no_requeue, None, w1) else (no_requeue, Some e, w1)
      | (Inr inst, w1) \<Rightarrow> (case reconcile_instance R inst w1 of (res, err, _, w2) \<Rightarrow> (res, err, w2)))"

section \<open>Instances that differ in their conditions\<close>

text \<open>
  The pipeline changes nothing of the instance but its conditions, and no builder reads those.
\<close>

definition recond :: "Condition list \<Rightarrow> HermesInstance \<Rightarrow> HermesInstance" where
  "recond cs i = upd_status (\<lambda>s. s\<lparr>st_Conditions := cs\<rparr>) i"

lemma recond_simps [simp]:
  "hi_Spec (recond cs i) = hi_Spec i" "hi_ObjectMeta (recond cs i) = hi_ObjectMeta i"
  "recond cs (recond ds i) = recond cs i" "st_RestoredFrom (hi_Status (recond cs i)) = st_RestoredFrom (hi_Status i)"
  "st_Migration (hi_Status (recond cs i)) = st_Migration (hi_Status i)"
  by (simp_all add: recond_def upd_status_def)

lemma setCondition_recond:
  "setCondition E i t s r m w = recond (env_set_condition E w (st_Conditions (hi_Status i)) (condition i t s r m)) i"
  by (simp add: setCondition_def put_condition_def recond_def upd_status_def)

named_theorems recond_builders "builders do not read the conditions"

lemma recond_names [recond_builders]:
  "PVCName (recond cs i) = PVCName i" "ConfigMapName (recond cs i) = ConfigMapName i"
  "WorkspaceConfigMapName (recond cs i) = WorkspaceConfigMapName i" "GatewayTokenSecretName (recond cs i) = GatewayTokenSecretName i"
  "StatefulSetName (recond cs i) = StatefulSetName i" "ServiceName (recond cs i) = ServiceName i"
  "NetworkPolicyName (recond cs i) = NetworkPolicyName i" "ServiceAccountName (recond cs i) = ServiceAccountName i"
  "RoleName (recond cs i) = RoleName i" "RoleBindingName (recond cs i) = RoleBindingName i" "PDBName (recond cs i) = PDBName i"
  "HPAName (recond cs i) = HPAName i" "IngressName (recond cs i) = IngressName i" "HTTPRouteName (recond cs i) = HTTPRouteName i"
  "HonchoDeploymentName (recond cs i) = HonchoDeploymentName i" "HonchoServiceName (recond cs i) = HonchoServiceName i"
  "HonchoPVCName (recond cs i) = HonchoPVCName i" "GrafanaDashboardOperatorName (recond cs i) = GrafanaDashboardOperatorName i"
  "GrafanaDashboardInstanceName (recond cs i) = GrafanaDashboardInstanceName i"
  "ServiceMonitorName (recond cs i) = ServiceMonitorName i" "PrometheusRuleName (recond cs i) = PrometheusRuleName i"
  by (simp_all add: name_defs GrafanaDashboardOperatorName_def GrafanaDashboardInstanceName_def)

lemma recond_switches [recond_builders]:
  "honchoEnabled (recond cs i) = honchoEnabled i" "netpol_enabled (recond cs i) = netpol_enabled i"
  "IsHPAEnabled (recond cs i) = IsHPAEnabled i" "httproute_enabled (recond cs i) = httproute_enabled i"
  "tailscaleEnabled (recond cs i) = tailscaleEnabled i" "GrafanaDashboardEnabled (recond cs i) = GrafanaDashboardEnabled i"
  "honcho (recond cs i) = honcho i" "LabelsForInstance (recond cs i) = LabelsForInstance i" "SelectorLabels (recond cs i) = SelectorLabels i"
  "HonchoLabels (recond cs i) = HonchoLabels i" "honcho_selector (recond cs i) = honcho_selector i"
  "SemaphoreEnabled (recond cs i) = SemaphoreEnabled i" "ServiceAccountNameFor (recond cs i) = ServiceAccountNameFor i"
  by (simp_all add: honchoEnabled_def netpol_enabled_def IsHPAEnabled_def httproute_enabled_def tailscaleEnabled_def
      GrafanaDashboardEnabled_def honcho_def LabelsForInstance_def SelectorLabels_def HonchoLabels_def honcho_selector_def
      SemaphoreEnabled_def ServiceAccountNameFor_def Let_def name_defs)

lemma recond_parts [recond_builders]:
  "workspace_content (recond cs i) = workspace_content i"
  "metrics_port (recond cs i) = metrics_port i" "networkPolicyIngressPorts (recond cs i) = networkPolicyIngressPorts i"
  "buildTailscaleEgressRules (recond cs i) = buildTailscaleEgressRules i" "ExtraEgressRules (recond cs i) = ExtraEgressRules i"
  "buildIngressAnnotations (recond cs i) = buildIngressAnnotations i" "servicePortNumber (recond cs i) = servicePortNumber i"
  "default_alert (recond cs i) = default_alert i" "dashboard_folder (recond cs i) = dashboard_folder i"
  "dashboard_labels (recond cs i) = dashboard_labels i" "BuildGatewayConfigFragments (recond cs i) = BuildGatewayConfigFragments i"
  "BuildTailscaleServeConfig (recond cs i) = BuildTailscaleServeConfig i" "initial_body yl (recond cs i) = initial_body yl i"
  unfolding fun_eq_iff
  by (simp_all only: workspace_content_def metrics_port_def networkPolicyIngressPorts_def buildTailscaleEgressRules_def
      ExtraEgressRules_def BuildGatewayEgressEndpoints_def buildIngressAnnotations_def servicePortNumber_def default_alert_def dashboard_folder_def
      dashboard_labels_def BuildGatewayConfigFragments_def BuildTailscaleServeConfig_def initial_body_def recond_simps recond_builders Let_def
      simp_thms)

lemma recond_rules [recond_builders]:
  "buildServicePorts (recond cs i) = buildServicePorts i" "buildIngressRules (recond cs i) = buildIngressRules i"
  "buildEgressRules (recond cs i) = buildEgressRules i" "defaultPrometheusRules (recond cs i) = defaultPrometheusRules i"
  "buildDashboardConfigMap (recond cs i) = buildDashboardConfigMap i" "render_config yl (recond cs i) = render_config yl i"
  unfolding fun_eq_iff
  by (simp_all only: buildServicePorts_def buildIngressRules_def buildEgressRules_def defaultPrometheusRules_def
      buildDashboardConfigMap_def render_config_def recond_simps recond_builders Let_def simp_thms)

lemma recond_objects [recond_builders]:
  "BuildServiceAccount (recond cs i) = BuildServiceAccount i" "BuildRole (recond cs i) = BuildRole i"
  "BuildRoleBinding (recond cs i) = BuildRoleBinding i" "BuildPDB (recond cs i) = BuildPDB i" "BuildHPA (recond cs i) = BuildHPA i"
  "BuildWorkspaceConfigMap (recond cs i) = BuildWorkspaceConfigMap i" "BuildService (recond cs i) = BuildService i"
  "BuildNetworkPolicy (recond cs i) = BuildNetworkPolicy i" "BuildHonchoNetworkPolicy (recond cs i) = BuildHonchoNetworkPolicy i"
  "BuildIngress (recond cs i) = BuildIngress i" "BuildHTTPRoute (recond cs i) = BuildHTTPRoute i"
  "BuildServiceMonitor (recond cs i) = BuildServiceMonitor i" "BuildPrometheusRule (recond cs i) = BuildPrometheusRule i"
  "BuildGrafanaDashboardOperator (recond cs i) = BuildGrafanaDashboardOperator i"
  "BuildGrafanaDashboardInstance (recond cs i) = BuildGrafanaDashboardInstance i"
  "BuildConfigMap yl (recond cs i) = BuildConfigMap yl i" "BuildHonchoService (recond cs i) = BuildHonchoService i"
  "BuildHonchoDeployment (recond cs i) = BuildHonchoDeployment i" "BuildHonchoPVC (recond cs i) = BuildHonchoPVC i"
  "BuildPVC (recond cs i) = BuildPVC i"
  unfolding fun_eq_iff
  by (simp_all only: BuildServiceAccount_def BuildRole_def BuildRoleBinding_def BuildPDB_def BuildHPA_def BuildWorkspaceConfigMap_def
      BuildService_def BuildNetworkPolicy_def BuildHonchoNetworkPolicy_def BuildIngress_def BuildHTTPRoute_def BuildServiceMonitor_def
      BuildPrometheusRule_def BuildGrafanaDashboardOperator_def BuildGrafanaDashboardInstance_def BuildConfigMap_def
      BuildHonchoService_def BuildHonchoDeployment_def BuildHonchoPVC_def BuildPVC_def recond_simps recond_builders Let_def simp_thms)

lemma recond_pod [recond_builders]:
  "imageRef (recond cs i) = imageRef i" "pullPolicy (recond cs i) = pullPolicy i" "shareProcessNamespace (recond cs i) = shareProcessNamespace i"
  "caBundleVolumeSource (recond cs i) = caBundleVolumeSource i" "BuildAgentRuntimeEnv (recond cs i) = BuildAgentRuntimeEnv i"
  "BuildGatewayEnv (recond cs i) = BuildGatewayEnv i" "BuildHonchoConsumerEnv (recond cs i) = BuildHonchoConsumerEnv i"
  "BuildSemaphoreEnv (recond cs i) = BuildSemaphoreEnv i" "BuildGatewayEnvFrom (recond cs i) = BuildGatewayEnvFrom i"
  "tailscaleImage (recond cs i) = tailscaleImage i" "tailscaleHostname (recond cs i) = tailscaleHostname i"
  "restore_script (recond cs i) = restore_script i" "s3CredsSecretName (recond cs i) = s3CredsSecretName i"
  "backup_image (recond cs i) = backup_image i" "backup_region (recond cs i) = backup_region i"
  "migration_image (recond cs i) = migration_image i" "BuildSourceVolume (recond cs i) = BuildSourceVolume i"
  unfolding fun_eq_iff
  by (simp_all only: imageRef_def pullPolicy_def shareProcessNamespace_def caBundleVolumeSource_def BuildAgentRuntimeEnv_def
      BuildGatewayEnv_def BuildHonchoConsumerEnv_def BuildSemaphoreEnv_def BuildGatewayEnvFrom_def tailscaleImage_def tailscaleHostname_def
      restore_script_def s3CredsSecretName_def backup_image_def backup_region_def migration_image_def BuildSourceVolume_def
      recond_simps recond_builders Let_def simp_thms)

lemma recond_containers [recond_builders]:
  "agent_mounts (recond cs i) = agent_mounts i" "agent_env (recond cs i) = agent_env i" "tailscale_env (recond cs i) = tailscale_env i"
  "restic_container (recond cs i) = restic_container i"
  unfolding fun_eq_iff
  by (simp_all only: agent_mounts_def agent_env_def tailscale_env_def restic_container_def recond_simps recond_builders Let_def simp_thms)

lemma recond_inits [recond_builders]:
  "BuildTailscaleSidecar (recond cs i) = BuildTailscaleSidecar i" "agent_container (recond cs i) = agent_container i"
  "BuildRestoreInitContainer (recond cs i) = BuildRestoreInitContainer i"
  "BuildMigrationInitContainer (recond cs i) = BuildMigrationInitContainer i"
  by (simp_all only: BuildTailscaleSidecar_def agent_container_def BuildRestoreInitContainer_def BuildMigrationInitContainer_def
      recond_simps recond_builders Let_def simp_thms)

lemma recond_workload [recond_builders]: "stateful_set_for m (recond cs i) = stateful_set_for m i"
  by (simp only: stateful_set_for_def import_inits_def BuildStatefulSet_def agent_pod_def agent_volumes_def
      recond_simps recond_builders Let_def simp_thms)

lemma recond_reached [recond_builders]:
  "secret_reached (recond cs i) = secret_reached i" "configmap_reached yl (recond cs i) = configmap_reached yl i"
  "workspace_reached (recond cs i) = workspace_reached i" "netpol_reached N (recond cs i) = netpol_reached N i"
  "rbac_reached N (recond cs i) = rbac_reached N i" "rbac_ids (recond cs i) = rbac_ids i" "service_reached N (recond cs i) = service_reached N i"
  "pdb_reached N (recond cs i) = pdb_reached N i" "hpa_reached N (recond cs i) = hpa_reached N i" "ingress_reached N (recond cs i) = ingress_reached N i"
  "httproute_reached N (recond cs i) = httproute_reached N i"
  "monitor_reached N b1 b2 BuildServiceMonitor (recond cs i) = monitor_reached N b1 b2 BuildServiceMonitor i"
  "monitor_reached N b1 b2 BuildPrometheusRule (recond cs i) = monitor_reached N b1 b2 BuildPrometheusRule i"
  "dashboards_reached (recond cs i) = dashboards_reached i" "dashboard_ids (recond cs i) = dashboard_ids i"
  "statefulset_reached N m (recond cs i) = statefulset_reached N m i"
  "honcho_reached N (recond cs i) = honcho_reached N i" "honcho_ids (recond cs i) = honcho_ids i" "maps_distinct (recond cs i) = maps_distinct i"
  unfolding fun_eq_iff
  by (simp_all only: secret_reached_def configmap_reached_def workspace_reached_def netpol_reached_def rbac_reached_def rbac_ids_def
      service_reached_def pdb_reached_def hpa_reached_def ingress_reached_def httproute_reached_def monitor_reached_def
      dashboards_reached_def dashboard_ids_def statefulset_reached_def honcho_reached_def honcho_ids_def maps_distinct_def
      recond_simps recond_builders simp_thms)

lemma recond_same: "recond (st_Conditions (hi_Status i)) i = i"
  by (simp add: recond_def upd_status_def)

section \<open>A pass over disjoint footprints\<close>

definition achieves :: "('w \<Rightarrow> cluster) \<Rightarrow> HermesInstance \<Rightarrow> (HermesInstance \<Rightarrow> 'w act) \<Rightarrow> object_id set \<Rightarrow> (cluster \<Rightarrow> bool) \<Rightarrow> bool" where
  "achieves look inst act S post \<longleftrightarrow>
     (\<forall>cs w w'. act (recond cs inst) w = (None, w') \<longrightarrow> post (look w') \<and> only_at S (look w) (look w'))"

definition local_to :: "object_id set \<Rightarrow> (cluster \<Rightarrow> bool) \<Rightarrow> bool" where
  "local_to S post \<longleftrightarrow> (\<forall>c c'. (\<forall>x \<in> S. c' x = c x) \<longrightarrow> post c \<longrightarrow> post c')"

fun apart_sets :: "'a set list \<Rightarrow> bool" where
  "apart_sets [] = True"
| "apart_sets (S # Ss) \<longleftrightarrow> S \<inter> \<Union> (set Ss) = {} \<and> apart_sets Ss"

type_synonym 'w goal = "string \<times> string \<times> (HermesInstance \<Rightarrow> 'w act) \<times> object_id set \<times> (cluster \<Rightarrow> bool)"

definition step_of :: "'w goal \<Rightarrow> 'w step" where
  "step_of g = (case g of (n, c, a, S, P) \<Rightarrow> (n, c, reading a))"

definition area_of :: "'w goal \<Rightarrow> object_id set" where
  "area_of g = (case g of (n, c, a, S, P) \<Rightarrow> S)"

definition goal_ok :: "('w \<Rightarrow> cluster) \<Rightarrow> HermesInstance \<Rightarrow> 'w goal \<Rightarrow> bool" where
  "goal_ok look inst g = (case g of (n, c, a, S, P) \<Rightarrow> achieves look inst a S P \<and> local_to S P)"

definition goal_met :: "cluster \<Rightarrow> 'w goal \<Rightarrow> bool" where
  "goal_met cl g = (case g of (n, c, a, S, P) \<Rightarrow> P cl)"

lemma goal_simps [simp]:
  "step_of (n, c, a, S, P) = (n, c, reading a)" "area_of (n, c, a, S, P) = S"
  "goal_ok look inst (n, c, a, S, P) \<longleftrightarrow> achieves look inst a S P \<and> local_to S P" "goal_met cl (n, c, a, S, P) = P cl"
  by (simp_all add: step_of_def area_of_def goal_ok_def goal_met_def)

lemma pipeline_achieves:
  assumes "run_pipeline E (map step_of L) (recond cs inst) w = (None, i', w')"
    and "\<forall>g \<in> set L. goal_ok look inst g" and "apart_sets (map area_of L)"
  shows "(\<forall>g \<in> set L. goal_met (look w') g) \<and> only_at (\<Union> (set (map area_of L))) (look w) (look w') \<and> (\<exists>ds. i' = recond ds inst)"
  using assms
proof (induction L arbitrary: cs w)
  case Nil
  then show ?case by auto
next
  case (Cons g L)
  obtain n c a S P where g: "g = (n, c, a, S, P)" by (cases g)
  obtain err w1 where a: "a (recond cs inst) w = (err, w1)" by fastforce
  have none: "err = None"
    using Cons.prems(1) a
    by (auto simp: g reading_def split: option.splits if_splits prod.splits)
  have ok: "achieves look inst a S P" "local_to S P" using Cons.prems(2) by (simp_all add: g)
  have P1: "P (look w1)" and fr1: "only_at S (look w) (look w1)"
    using ok(1) a none unfolding achieves_def by blast+
  from Cons.prems(1) a none obtain cs1 where r: "run_pipeline E (map step_of L) (recond cs1 inst) w1 = (None, i', w')"
    by (auto simp: g reading_def setCondition_recond)
  have "\<forall>g \<in> set L. goal_ok look inst g" "apart_sets (map area_of L)" using Cons.prems(2,3) by simp_all
  from Cons.IH [OF r this] have ih: "\<forall>g \<in> set L. goal_met (look w') g" "only_at (\<Union> (set (map area_of L))) (look w1) (look w')"
    "\<exists>ds. i' = recond ds inst" by blast+
  have "look w' x = look w1 x" if "x \<in> S" for x
  proof -
    have "x \<notin> \<Union> (set (map area_of L))" using that Cons.prems(3) by (auto simp: g)
    then show ?thesis using ih(2) unfolding only_at_def by blast
  qed
  then have "P (look w')" using ok(2) P1 unfolding local_to_def by blast
  moreover have "only_at (\<Union> (set (map area_of (g # L)))) (look w) (look w')"
    using only_at_trans [OF fr1 ih(2)] by (simp add: g)
  ultimately show ?case using ih by (simp add: g)
qed

lemma local_conforms: "oid \<in> S \<Longrightarrow> local_to S (conforms tag meta body oid m a b)"
  by (auto simp: local_to_def conforms_def)

lemma local_there: "i \<in> S \<Longrightarrow> local_to S P \<Longrightarrow> local_to S (there_iff e i P)"
  unfolding local_to_def there_iff_def by (auto split: if_splits)

lemma local_exists: "i \<in> S \<Longrightarrow> local_to S (exists_at i)"
  by (auto simp: local_to_def exists_at_def)

lemma local_conj: "local_to S P \<Longrightarrow> local_to S Q \<Longrightarrow> local_to S (\<lambda>c. P c \<and> Q c)"
  unfolding local_to_def by blast

lemma local_imp: "local_to S P \<Longrightarrow> local_to S (\<lambda>c. b \<longrightarrow> P c)"
  unfolding local_to_def by blast

lemma local_ex: "(\<And>d. local_to S (P d)) \<Longrightarrow> local_to S (\<lambda>c. \<exists>d. P d c)"
  unfolding local_to_def by blast

lemma local_pre: "local_to S P \<Longrightarrow> local_to S (\<lambda>c. b \<and> P c)"
  unfolding local_to_def by blast

lemmas locals = local_conforms local_there local_exists local_conj local_imp local_ex local_pre

lemma reached_local:
  "local_to {token_id i} (secret_reached i)" "local_to {cm_id i (ConfigMapName i)} (configmap_reached yl i)"
  "local_to {cm_id i (WorkspaceConfigMapName i)} (workspace_reached i)"
  "local_to {(KNetworkPolicy, inst_ns i, NetworkPolicyName i)} (netpol_reached N i)"
  "local_to (rbac_ids i) (rbac_reached N i)" "local_to {(KService, inst_ns i, ServiceName i)} (service_reached N i)"
  "local_to {(KPDB, inst_ns i, PDBName i)} (pdb_reached N i)" "local_to {(KHPA, inst_ns i, HPAName i)} (hpa_reached N i)"
  "local_to {(KIngress, inst_ns i, IngressName i)} (ingress_reached N i)"
  "local_to {un_id HTTPRouteGVK i (HTTPRouteName i)} (httproute_reached N i)"
  "local_to {un_id ServiceMonitorGVK i (inst_name i)} (monitor_reached N b1 b2 BuildServiceMonitor i)"
  "local_to {un_id PrometheusRuleGVK i (inst_name i)} (monitor_reached N b1 b2 BuildPrometheusRule i)"
  "local_to (dashboard_ids i) (dashboards_reached i)"
  "local_to {(KStatefulSet, inst_ns i, StatefulSetName i)} (statefulset_reached N m i)"
  "local_to (honcho_ids i) (honcho_reached N i)"
  subgoal by (simp add: local_to_def secret_reached_def)
  subgoal unfolding configmap_reached_def [abs_def] by (intro locals) simp
  subgoal unfolding workspace_reached_def by (intro locals) simp
  subgoal unfolding netpol_reached_def by (intro locals) simp_all
  subgoal unfolding rbac_reached_def [abs_def] rbac_ids_def by (intro locals) simp_all
  subgoal unfolding service_reached_def by (intro locals) simp
  subgoal unfolding pdb_reached_def by (intro locals) simp_all
  subgoal unfolding hpa_reached_def by (intro locals) simp_all
  subgoal unfolding ingress_reached_def by (intro locals) simp_all
  subgoal unfolding httproute_reached_def by (intro locals) simp_all
  subgoal unfolding monitor_reached_def [abs_def] sm_built by (intro locals) simp_all
  subgoal unfolding monitor_reached_def [abs_def] sm_built by (intro locals) simp_all
  subgoal unfolding dashboards_reached_def [abs_def] dashboard_ids_def by (intro locals) simp_all
  subgoal unfolding statefulset_reached_def by (intro locals) simp
  subgoal unfolding honcho_reached_def [abs_def] honcho_ids_def by (intro locals) simp_all
  done

section \<open>The desired state\<close>

text \<open>
  The abstract specification of a pass: every object the instance asks for is there with the
  labels, annotations and contents of its builder, up to what the API server fills in (\<open>N\<close>), and
  those of the features that are off are gone.
\<close>

definition desired_state :: "defaulting \<Rightarrow> ('v, 'w) reconciler \<Rightarrow> HermesInstance \<Rightarrow> cluster \<Rightarrow> bool" where
  "desired_state N R inst c \<longleftrightarrow>
     secret_reached inst c \<and> exists_at (KPVC, (inst_ns inst, PVCName inst)) c \<and> configmap_reached (rc_yaml R) inst c \<and>
     workspace_reached inst c \<and> netpol_reached N inst c \<and> rbac_reached N inst c \<and> service_reached N inst c \<and> pdb_reached N inst c \<and>
     hpa_reached N inst c \<and> ingress_reached N inst c \<and> httproute_reached N inst c \<and>
     monitor_reached N (rc_PrometheusOperatorCRDsPresent R) (sm_enabled inst) BuildServiceMonitor inst c \<and>
     monitor_reached N (rc_PrometheusOperatorCRDsPresent R) (pr_enabled inst) BuildPrometheusRule inst c \<and>
     dashboards_reached inst c \<and> statefulset_reached N (rc_Migration R) inst c \<and> honcho_reached N inst c"

definition goals :: "defaulting \<Rightarrow> ('v, 'w) reconciler \<Rightarrow> HermesInstance \<Rightarrow> 'w goal list" where
  "goals N R inst =
     (let E = rc_env R; ns = inst_ns inst; crds = rc_PrometheusOperatorCRDsPresent R in
      [(''Secret'', ConditionTypeSecretsReady, reconcileSecret E, {token_id inst}, secret_reached inst),
       (''PVC'', ConditionTypeStorageReady, reconcilePVC E, {(KPVC, (ns, PVCName inst))}, exists_at (KPVC, (ns, PVCName inst))),
       (''ConfigMap'', ConditionTypeConfigReady, reconcileConfigMap (rc_yaml R) E, {cm_id inst (ConfigMapName inst)}, configmap_reached (rc_yaml R) inst),
       (''WorkspaceConfigMap'', ConditionTypeConfigReady, reconcileWorkspaceConfigMap E, {cm_id inst (WorkspaceConfigMapName inst)}, workspace_reached inst),
       (''NetworkPolicy'', ConditionTypeNetworkPolicyReady, reconcileNetworkPolicy E, {(KNetworkPolicy, (ns, NetworkPolicyName inst))}, netpol_reached N inst),
       (''RBAC'', ConditionTypeRBACReady, reconcileRBAC E, rbac_ids inst, rbac_reached N inst),
       (''Service'', ConditionTypeServiceReady, reconcileService E, {(KService, (ns, ServiceName inst))}, service_reached N inst),
       (''PDB'', ConditionTypePDBReady, reconcilePDB E, {(KPDB, (ns, PDBName inst))}, pdb_reached N inst),
       (''HPA'', ConditionTypeHPAReady, reconcileHPA E, {(KHPA, (ns, HPAName inst))}, hpa_reached N inst),
       (''Ingress'', ConditionTypeIngressReady, reconcileIngress E, {(KIngress, (ns, IngressName inst))}, ingress_reached N inst),
       (''HTTPRoute'', ConditionTypeHTTPRouteReady, reconcileHTTPRoute E, {un_id HTTPRouteGVK inst (HTTPRouteName inst)}, httproute_reached N inst),
       (''ServiceMonitor'', ConditionTypeServiceMonitorReady, reconcileServiceMonitor crds E, {un_id ServiceMonitorGVK inst (inst_name inst)},
          monitor_reached N crds (sm_enabled inst) BuildServiceMonitor inst),
       (''PrometheusRule'', ConditionTypePrometheusRuleReady, reconcilePrometheusRule crds E, {un_id PrometheusRuleGVK inst (inst_name inst)},
          monitor_reached N crds (pr_enabled inst) BuildPrometheusRule inst),
       (''GrafanaDashboard'', ConditionTypeGrafanaDashboardReady, reconcileGrafanaDashboards E, dashboard_ids inst, dashboards_reached inst),
       (''StatefulSet'', ''StatefulSetReady'', reconcileStatefulSet (rc_Migration R) E, {(KStatefulSet, (ns, StatefulSetName inst))},
          statefulset_reached N (rc_Migration R) inst),
       (''Honcho'', ''ProfileStoreReady'', reconcileHoncho E, honcho_ids inst, honcho_reached N inst),
       (''Tailscale'', ConditionTailscaleReady, \<lambda>inst. reconcileTailscale, {}, \<lambda>c. True)])"

definition managed_ids :: "('v, 'w) reconciler \<Rightarrow> HermesInstance \<Rightarrow> object_id set" where
  "managed_ids R inst = \<Union> (set (map area_of (goals exact R inst)))"

lemma goals_areas: "map area_of (goals N R inst) = map area_of (goals exact R inst)"
  by (simp add: goals_def Let_def)

lemma managed_goals: "managed_ids R inst = \<Union> (set (map area_of (goals N R inst)))"
  unfolding managed_ids_def by (simp only: goals_areas [of N])

lemma goals_steps: "map step_of (goals N R inst) = resource_steps R"
  by (simp add: goals_def resource_steps_def Let_def)

lemma goals_apart: "apart_sets (map area_of (goals N R inst))"
  by (simp add: goals_def Let_def name_defs rbac_ids_def dashboard_ids_def honcho_ids_def GrafanaDashboardOperatorName_def
      GrafanaDashboardInstanceName_def HTTPRouteGVK_def ServiceMonitorGVK_def PrometheusRuleGVK_def)

lemma achievesI:
  assumes "\<And>i w w'. act i w = (None, w') \<Longrightarrow> maps_distinct i \<Longrightarrow> P i (look w') \<and> only_at (S i) (look w) (look w')"
    and "\<And>cs. P (recond cs inst) = P inst" and "\<And>cs. S (recond cs inst) = S inst" and "maps_distinct inst"
  shows "achieves look inst act (S inst) (P inst)"
  unfolding achieves_def
proof (intro allI impI)
  fix cs w w' assume "act (recond cs inst) w = (None, w')"
  from assms(1) [OF this] assms(2-4) show "P inst (look w') \<and> only_at (S inst) (look w) (look w')"
    by (simp add: recond_builders)
qed

lemma step_achieves:
  assumes api: "api_server N E look" and md: "maps_distinct inst"
  shows "achieves look inst (reconcileSecret E) {token_id inst} (secret_reached inst)"
    and "achieves look inst (reconcilePVC E) {(KPVC, inst_ns inst, PVCName inst)} (exists_at (KPVC, inst_ns inst, PVCName inst))"
    and "achieves look inst (reconcileConfigMap yl E) {cm_id inst (ConfigMapName inst)} (configmap_reached yl inst)"
    and "achieves look inst (reconcileWorkspaceConfigMap E) {cm_id inst (WorkspaceConfigMapName inst)} (workspace_reached inst)"
    and "achieves look inst (reconcileNetworkPolicy E) {(KNetworkPolicy, inst_ns inst, NetworkPolicyName inst)} (netpol_reached N inst)"
    and "achieves look inst (reconcileRBAC E) (rbac_ids inst) (rbac_reached N inst)"
    and "achieves look inst (reconcileService E) {(KService, inst_ns inst, ServiceName inst)} (service_reached N inst)"
    and "achieves look inst (reconcilePDB E) {(KPDB, inst_ns inst, PDBName inst)} (pdb_reached N inst)"
    and "achieves look inst (reconcileHPA E) {(KHPA, inst_ns inst, HPAName inst)} (hpa_reached N inst)"
    and "achieves look inst (reconcileIngress E) {(KIngress, inst_ns inst, IngressName inst)} (ingress_reached N inst)"
    and "achieves look inst (reconcileHTTPRoute E) {un_id HTTPRouteGVK inst (HTTPRouteName inst)} (httproute_reached N inst)"
    and "achieves look inst (reconcileServiceMonitor crds E) {un_id ServiceMonitorGVK inst (inst_name inst)}
           (monitor_reached N crds (sm_enabled inst) BuildServiceMonitor inst)"
    and "achieves look inst (reconcilePrometheusRule crds E) {un_id PrometheusRuleGVK inst (inst_name inst)}
           (monitor_reached N crds (pr_enabled inst) BuildPrometheusRule inst)"
    and "achieves look inst (reconcileGrafanaDashboards E) (dashboard_ids inst) (dashboards_reached inst)"
    and "achieves look inst (reconcileStatefulSet mg E) {(KStatefulSet, inst_ns inst, StatefulSetName inst)} (statefulset_reached N mg inst)"
    and "achieves look inst (reconcileHoncho E) (honcho_ids inst) (honcho_reached N inst)"
    and "achieves look inst (\<lambda>inst. reconcileTailscale) {} (\<lambda>c. True)"
  subgoal using secret_step [OF api] by (intro achievesI [where P = secret_reached and S = "\<lambda>i. {token_id i}", OF _ _ _ md]) (auto simp: recond_builders)
  subgoal using pvc_step [OF api] by (intro achievesI [where P = "\<lambda>i. exists_at (KPVC, inst_ns i, PVCName i)" and S = "\<lambda>i. {(KPVC, inst_ns i, PVCName i)}", OF _ _ _ md]) (auto simp: recond_builders)
  subgoal using configmap_step [OF api] by (intro achievesI [where P = "configmap_reached yl" and S = "\<lambda>i. {cm_id i (ConfigMapName i)}", OF _ _ _ md]) (auto simp: recond_builders)
  subgoal using workspace_step [OF api] by (intro achievesI [where P = workspace_reached and S = "\<lambda>i. {cm_id i (WorkspaceConfigMapName i)}", OF _ _ _ md]) (auto simp: recond_builders)
  subgoal using netpol_step [OF api] by (intro achievesI [where P = "netpol_reached N" and S = "\<lambda>i. {(KNetworkPolicy, inst_ns i, NetworkPolicyName i)}", OF _ _ _ md]) (auto simp: recond_builders)
  subgoal using rbac_step [OF api] by (intro achievesI [where P = "rbac_reached N" and S = rbac_ids, OF _ _ _ md]) (auto simp: recond_builders)
  subgoal using service_step [OF api] by (intro achievesI [where P = "service_reached N" and S = "\<lambda>i. {(KService, inst_ns i, ServiceName i)}", OF _ _ _ md]) (auto simp: recond_builders)
  subgoal using pdb_step [OF api] by (intro achievesI [where P = "pdb_reached N" and S = "\<lambda>i. {(KPDB, inst_ns i, PDBName i)}", OF _ _ _ md]) (auto simp: recond_builders)
  subgoal using hpa_step [OF api] by (intro achievesI [where P = "hpa_reached N" and S = "\<lambda>i. {(KHPA, inst_ns i, HPAName i)}", OF _ _ _ md]) (auto simp: recond_builders)
  subgoal using ingress_step [OF api] by (intro achievesI [where P = "ingress_reached N" and S = "\<lambda>i. {(KIngress, inst_ns i, IngressName i)}", OF _ _ _ md]) (auto simp: recond_builders)
  subgoal using httproute_step [OF api] by (intro achievesI [where P = "httproute_reached N" and S = "\<lambda>i. {un_id HTTPRouteGVK i (HTTPRouteName i)}", OF _ _ _ md]) (auto simp: recond_builders)
  subgoal using servicemonitor_step [OF api] by (intro achievesI [where P = "\<lambda>i. monitor_reached N crds (sm_enabled i) BuildServiceMonitor i" and S = "\<lambda>i. {un_id ServiceMonitorGVK i (inst_name i)}", OF _ _ _ md]) (auto simp: recond_builders)
  subgoal using prometheusrule_step [OF api] by (intro achievesI [where P = "\<lambda>i. monitor_reached N crds (pr_enabled i) BuildPrometheusRule i" and S = "\<lambda>i. {un_id PrometheusRuleGVK i (inst_name i)}", OF _ _ _ md]) (auto simp: recond_builders)
  subgoal using dashboards_step [OF api] by (intro achievesI [where P = dashboards_reached and S = dashboard_ids, OF _ _ _ md]) (auto simp: recond_builders)
  subgoal using statefulset_step [OF api] by (intro achievesI [where P = "statefulset_reached N mg" and S = "\<lambda>i. {(KStatefulSet, inst_ns i, StatefulSetName i)}", OF _ _ _ md]) (auto simp: recond_builders)
  subgoal using honcho_step [OF api] by (intro achievesI [where P = "honcho_reached N" and S = honcho_ids, OF _ _ _ md]) (auto simp: recond_builders)
  subgoal by (simp add: achieves_def reconcileTailscale_def)
  done

lemma goals_ok:
  assumes "api_server N (rc_env R) look" and "maps_distinct inst"
  shows "\<forall>g \<in> set (goals N R inst). goal_ok look inst g"
proof -
  have "local_to {} (\<lambda>c. True)" and "local_to {(KPVC, inst_ns inst, PVCName inst)} (exists_at (KPVC, inst_ns inst, PVCName inst))"
    by (simp add: local_to_def) (intro locals, simp)
  then show ?thesis by (simp add: goals_def Let_def step_achieves [OF assms] reached_local del: BoolValue_simps(3))
qed

lemma pass_goals:
  assumes "api_server N (rc_env R) look" and "maps_distinct inst"
    and "run_pipeline (rc_env R) (resource_steps R) inst w = (None, inst', w')"
  shows "desired_state N R inst (look w')" and "only_at (managed_ids R inst) (look w) (look w')"
    and "\<exists>cs. inst' = recond cs inst"
proof -
  have "run_pipeline (rc_env R) (map step_of (goals N R inst)) (recond (st_Conditions (hi_Status inst)) inst) w = (None, inst', w')"
    using assms(3) by (simp add: goals_steps recond_same)
  note g = pipeline_achieves [OF this goals_ok [OF assms(1,2)] goals_apart]
  then show "desired_state N R inst (look w')" and "only_at (managed_ids R inst) (look w) (look w')"
    by (simp_all add: managed_goals [of R inst N] desired_state_def goals_def Let_def del: BoolValue_simps(3))
  show "\<exists>cs. inst' = recond cs inst" using g by blast
qed

text \<open>
  C1. A pass refines the desired state. On an API server that stores what it is sent, up to what it
  fills in (\<open>N\<close>; \<open>exact\<close> for one that fills in nothing), when the seventeen resource steps of a pass
  succeed every managed object is as the builders want it up to that, the objects of features that
  are off are gone, and no object outside the managed ones was touched.
\<close>

theorem pass_reaches_desired_state:
  assumes "api_server N (rc_env R) look" and "maps_distinct inst"
    and "run_pipeline (rc_env R) (resource_steps R) inst w = (None, inst', w')"
  shows "desired_state N R inst (look w') \<and> only_at (managed_ids R inst) (look w) (look w')"
  using pass_goals [OF assms] by blast

text \<open>The reconciler on the concrete cluster, with every sub-controller absent.\<close>

definition demo_reconciler :: "(nat, cluster) reconciler" where
  "demo_reconciler =
     \<lparr>rc_env = cluster_env, rc_http = \<lparr>ht_url_ok = (\<lambda>u. True), ht_do = (\<lambda>r c. (Inl (Plain ''offline''), c))\<rparr>,
      rc_yaml = code_yaml, rc_PrometheusOperatorCRDsPresent = True, rc_Backup = False, rc_Restore = False,
      rc_AutoUpdate = None, rc_Migration = False\<rparr>"

lemma demo_reconciler_simps [simp]: "rc_env demo_reconciler = cluster_env" "rc_yaml demo_reconciler = code_yaml"
  by (simp_all add: demo_reconciler_def)

section \<open>Success on a healthy server\<close>

text \<open>Steps that succeed in clusters with a property that none of them disturbs.\<close>

lemma pipeline_succeeds:
  assumes "\<forall>g \<in> set L. case g of (n, c, a, S, P) \<Rightarrow> \<forall>cs w. U (look w) \<longrightarrow> fst (a (recond cs inst) w) = None"
    and "\<forall>g \<in> set L. goal_ok look inst g" and "U (look w)"
    and U: "\<And>c c'. only_at (\<Union> (set (map area_of L))) c c' \<Longrightarrow> U c \<Longrightarrow> U c'"
  shows "\<exists>i' w'. run_pipeline E (map step_of L) (recond cs inst) w = (None, i', w')"
  using assms
proof (induction L arbitrary: cs w)
  case (Cons g L)
  obtain n c a S P where g: "g = (n, c, a, S, P)" by (cases g)
  have "fst (a (recond cs inst) w) = None" using Cons.prems(1,3) by (simp add: g)
  then obtain w1 where a: "a (recond cs inst) w = (None, w1)" by (cases "a (recond cs inst) w") simp
  have "achieves look inst a S P" using Cons.prems(2) by (simp add: g)
  then have "only_at S (look w) (look w1)" using a unfolding achieves_def by blast
  then have "U (look w1)" using Cons.prems(3,4) by (auto simp: g intro: only_at_mono)
  moreover have "U c'" if "only_at (\<Union> (set (map area_of L))) c c'" "U c" for c c'
    using Cons.prems(4) [of c c'] that by (auto simp: g intro: only_at_mono)
  ultimately have "\<exists>i' w'. run_pipeline E (map step_of L) (recond ds inst) w1 = (None, i', w')" for ds
    using Cons.prems(1,2) by (intro Cons.IH) simp_all
  then show ?case by (simp add: g reading_def a setCondition_recond)
qed simp

lemma healthy_recond: "healthy E (recond cs i) = healthy E i"
  by (simp add: healthy_def recond_builders)

lemma config_recond: "config_renders yl (recond cs i) = config_renders yl i"
proof -
  have "config_in yl (recond cs i) = config_in yl i"
    by (simp add: fun_eq_iff config_in_def Let_def split: option.split)
  then show ?thesis by (simp add: fun_eq_iff config_renders_def recond_builders)
qed

lemma goals_succeed:
  assumes "api_server N (rc_env R) look" and "healthy (rc_env R) inst"
  shows "\<forall>g \<in> set (goals N R inst). case g of (n, c, a, S, P) \<Rightarrow>
    \<forall>cs w. config_renders (rc_yaml R) inst (look w) \<longrightarrow> fst (a (recond cs inst) w) = None"
proof -
  have h: "healthy (rc_env R) (recond cs inst)" for cs using assms(2) by (simp add: healthy_recond)
  have "fst (reconcileConfigMap (rc_yaml R) (rc_env R) (recond cs inst) w) = None"
    if "config_renders (rc_yaml R) inst (look w)" for cs w
    by (rule configmap_succeeds [OF assms(1) h]) (simp add: that config_recond)
  then show ?thesis
    using steps_succeed [OF h] honcho_succeeds [OF h] unfolding succeeds_def
    by (simp add: goals_def Let_def reconcileTailscale_def)
qed

lemma pass_succeeds:
  assumes "api_server N (rc_env R) look" and "healthy (rc_env R) inst" and "maps_distinct inst"
    and "ref_ids inst \<inter> managed_ids R inst = {}" and "config_renders (rc_yaml R) inst (look w)"
  shows "\<exists>i' w'. run_pipeline (rc_env R) (resource_steps R) inst w = (None, i', w')"
proof -
  have kept: "config_renders (rc_yaml R) inst c'" if "only_at (\<Union> (set (map area_of (goals N R inst)))) c c'"
    "config_renders (rc_yaml R) inst c" for c c'
  proof -
    have "c' x = c x" if "x \<in> ref_ids inst" for x
      using that \<open>only_at _ c c'\<close> assms(4) unfolding only_at_def managed_goals [of R inst N] by blast
    then show ?thesis using that(2) config_renders_local by blast
  qed
  have "\<exists>i' w'. run_pipeline (rc_env R) (map step_of (goals N R inst)) (recond (st_Conditions (hi_Status inst)) inst) w = (None, i', w')"
    by (rule pipeline_succeeds [where U = "config_renders (rc_yaml R) inst", OF goals_succeed [OF assms(1,2)] goals_ok [OF assms(1,3)] assms(5)])
      (rule kept)
  then show ?thesis by (simp add: goals_steps recond_same)
qed

lemma plain_config: "ref_ids (plain n) = {}" "config_renders code_yaml (plain n) c"
  using plain_renders by (auto simp: ref_ids_def config_renders_def config_in_def zero_defs)

lemma plain_succeeds:
  "\<exists>i' w'. run_pipeline cluster_env (resource_steps demo_reconciler) (plain n) w = (None, i', w')"
  using pass_succeeds [where N = exact and R = demo_reconciler and look = clean and inst = "plain n" and w = w]
  by (simp only: demo_reconciler_simps cluster_api cluster_healthy plain_maps plain_config Int_empty_left simp_thms)

lemma pass_reaches_desired_state_witness:
  "\<exists>i' w'. run_pipeline cluster_env (resource_steps demo_reconciler) demo Map.empty = (None, i', w') \<and>
     desired_state exact demo_reconciler demo (clean w')"
proof -
  obtain i' w' where r: "run_pipeline (rc_env demo_reconciler) (resource_steps demo_reconciler) demo Map.empty = (None, i', w')"
    unfolding demo_reconciler_simps using plain_succeeds by blast
  have "api_server exact (rc_env demo_reconciler) clean" by (simp add: cluster_api)
  from pass_reaches_desired_state [OF this plain_maps r] r show ?thesis by auto
qed

text \<open>
  C2. The resource steps make progress: on a healthy API server, with sizes that are quantities, a
  configuration that renders, be it inline or in a ConfigMap of the user, and that ConfigMap not one
  of the managed objects, all seventeen of them succeed and leave the cluster in the desired state,
  whatever else it held before. Each condition is needed of the code: a configuration that is a null
  document does not render, it makes every pass panic (\<open>Config.null_config_panics\<close>). The Semaphore
  step and the sub-controllers, which call other services, are outside of this.
\<close>

theorem healthy_pass_converges:
  assumes "api_server N (rc_env R) look" and "healthy (rc_env R) inst" and "maps_distinct inst"
    and "ref_ids inst \<inter> managed_ids R inst = {}" and "config_renders (rc_yaml R) inst (look w)"
  shows "\<exists>inst' w'. run_pipeline (rc_env R) (resource_steps R) inst w = (None, inst', w') \<and> desired_state N R inst (look w')"
  using pass_succeeds [OF assms] pass_goals(1) [OF assms(1,3)] by blast

lemma healthy_pass_converges_witness:
  "\<exists>inst' w'. run_pipeline cluster_env (resource_steps demo_reconciler) demo Map.empty = (None, inst', w') \<and>
     desired_state exact demo_reconciler demo (clean w')"
proof -
  have "api_server exact (rc_env demo_reconciler) clean" "healthy (rc_env demo_reconciler) demo"
    "ref_ids demo \<inter> managed_ids demo_reconciler demo = {}" "config_renders (rc_yaml demo_reconciler) demo (clean Map.empty)"
    by (simp_all add: cluster_api cluster_healthy plain_config)
  from healthy_pass_converges [OF this(1,2) plain_maps this(3,4)] show ?thesis by simp
qed

end
