(* ===== verification/Lifecycle.thy ===== *)
theory Lifecycle
  imports Instance SelfConfig
begin

text \<open>
  Properties of whole passes of \<open>HermesInstanceReconciler\<close> that join several components: how a pass
  fails, what survives many passes, what a pass undoes of the work of the other controllers, and how
  a deletion ends.
\<close>

section \<open>A failing step\<close>

lemma pipeline_append:
  "run_pipeline E pre inst w = (None, i1, w1) \<Longrightarrow> run_pipeline E (pre @ L) inst w = run_pipeline E L i1 w1"
proof (induction E pre inst w rule: run_pipeline.induct)
  case (2 E name cond fn rest inst w)
  then show ?case by (auto split: prod.splits option.splits if_splits)
qed simp

text \<open>
  C17. A pass stops at the first step that fails: the steps after it and the sub-controllers do not
  run, the condition of the step turns false with the text of the error in the status that is
  written, and the pass returns the error under the name of the step, which makes the manager try
  again. Whatever the later steps are, they make no difference.
\<close>

theorem pass_stops_at_first_failure:
  assumes "conditions_api (rc_env R)" and "status_update_echoes (rc_env R)"
    and "ensure_finalizers R inst w = (None, i0, w0)" and "steps R = pre @ (name, cond, fn) # post"
    and "run_pipeline (rc_env R) pre i0 w0 = (None, i1, w1)" and "fn i1 w1 = (Some e, i2, w2)" and "\<not> is_panic e"
  shows "\<exists>i3 w3 c. reconcile_live R inst w = (no_requeue, Some (Wrapped (''reconcile '' @ name) e), i3, w3) \<and>
    run_pipeline (rc_env R) (pre @ [(name, cond, fn)]) i0 w0 = (Some (Wrapped (''reconcile '' @ name) e), i3, w3) \<and>
    find_condition (st_Conditions (hi_Status i3)) cond = Some c \<and>
    cd_Status c = ConditionFalse \<and> cd_Reason c = ''Error'' \<and> cd_Message c = err_text e"
proof -
  let ?E = "rc_env R"
  let ?i = "setCondition ?E i2 cond ConditionFalse ''Error'' (err_text e) w2"
  obtain r i3 w3 where u: "status_update ?E ?i w2 = (r, i3, w3)" by (metis prod_cases3)
  have run: "run_pipeline ?E (pre @ (name, cond, fn) # L) i0 w0 = (Some (Wrapped (''reconcile '' @ name) e), i3, w3)" for L
    using assms(6,7) u by (simp add: pipeline_append [OF assms(5)])
  obtain t where "find_condition (st_Conditions (hi_Status ?i)) cond =
      Some ((condition i2 cond ConditionFalse ''Error'' (err_text e))\<lparr>cd_LastTransitionTime := t\<rparr>)"
    using conditions_apiD(1) [OF assms(1), of w2 _ "condition i2 cond ConditionFalse ''Error'' (err_text e)"]
    by (auto simp: setCondition_def condition_def)
  moreover have "hi_Status i3 = hi_Status ?i" using status_update_status(1) [OF assms(2) u] .
  ultimately have "find_condition (st_Conditions (hi_Status i3)) cond =
      Some ((condition i2 cond ConditionFalse ''Error'' (err_text e))\<lparr>cd_LastTransitionTime := t\<rparr>)" by simp
  then show ?thesis using run [of post] run [of "[]"] assms(3,4) by (simp add: reconcile_live_def condition_def)
qed

text \<open>The concrete cluster with an API server that refuses every Secret.\<close>

definition refusing_env :: "cluster env" where
  "refusing_env = cluster_env\<lparr>env_secrets := quiet_client\<lparr>kc_create_or_update := (\<lambda>x f c. (Some (Plain ''quota''), c))\<rparr>\<rparr>"

lemma cluster_documented:
  "conditions_api cluster_env" "status_update_echoes cluster_env" "patch_echoes_meta cluster_env"
  "conditions_api refusing_env" "status_update_echoes refusing_env"
  using quiet_conditions quiet_echoes
  by (simp_all add: conditions_api_def status_update_echoes_def patch_echoes_meta_def refusing_env_def cluster_env_def
      quiet_env_def quiet_client_def)

lemma pass_stops_at_first_failure_witness:
  "\<exists>i3 w3 c. reconcile_live (demo_reconciler\<lparr>rc_env := refusing_env\<rparr>) demo Map.empty =
      (no_requeue, Some (Wrapped (''reconcile '' @ ''Secret'') (Plain ''quota'')), i3, w3) \<and>
    find_condition (st_Conditions (hi_Status i3)) ConditionTypeSecretsReady = Some c \<and> cd_Status c = ConditionFalse"
proof -
  let ?R = "demo_reconciler\<lparr>rc_env := refusing_env\<rparr>"
  let ?fn = "reading (reconcileSecret refusing_env)"
  obtain post where s: "steps ?R = [] @ (''Secret'', ConditionTypeSecretsReady, ?fn) # post"
    by (simp add: steps_def resource_steps_def Let_def)
  have f: "ensure_finalizers ?R demo Map.empty = (None, demo, Map.empty)"
    by (simp add: ensure_finalizers_def ensure_semaphore_finalizer_def SemaphoreCleanupOnDelete_def SemaphoreEnabled_def
        demo_reconciler_def zero_defs)
  have r: "?fn demo Map.empty = (Some (Plain ''quota''), demo, Map.empty)"
    by (simp add: reading_def reconcileSecret_def refusing_env_def)
  have p: "run_pipeline (rc_env ?R) [] demo Map.empty = (None, demo, Map.empty)" by simp
  have d: "conditions_api (rc_env ?R)" "status_update_echoes (rc_env ?R)" by (simp_all add: cluster_documented)
  show ?thesis
    using pass_stops_at_first_failure [OF d f s p r] by auto
qed

section \<open>What survives many passes\<close>

text \<open>
  Histories of the cluster under one name: passes of whatever specifications the instance has over
  time, and changes by others that leave the token Secret alone.
\<close>

inductive history :: "('v, 'w) reconciler \<Rightarrow> ('w \<Rightarrow> cluster) \<Rightarrow> object_id \<Rightarrow> 'w \<Rightarrow> 'w \<Rightarrow> bool"
  for R :: "('v, 'w) reconciler" and look :: "'w \<Rightarrow> cluster" and sid :: object_id where
  start: "history R look sid w w"
| pass: "history R look sid w w1 \<Longrightarrow> token_id inst = sid \<Longrightarrow> maps_distinct inst \<Longrightarrow>
    run_pipeline (rc_env R) (resource_steps R) inst w1 = (None, inst', w2) \<Longrightarrow> history R look sid w w2"
| others: "history R look sid w w1 \<Longrightarrow> look w2 sid = look w1 sid \<Longrightarrow> history R look sid w w2"

definition holds_key :: "cluster \<Rightarrow> object_id \<Rightarrow> string \<Rightarrow> bool" where
  "holds_key c sid k \<longleftrightarrow> (\<exists>x. c sid = Some (ObjSecret x) \<and> key_of_secret x = k)"

lemma pass_keeps_key:
  assumes api: "api_server N (rc_env R) look" and md: "maps_distinct inst" and key: "holds_key (look w) (token_id inst) k" "k \<noteq> ''''"
    and run: "run_pipeline (rc_env R) (resource_steps R) inst w = (None, inst', w')"
  shows "holds_key (look w') (token_id inst) k"
proof -
  obtain x where x: "look w (token_id inst) = Some (ObjSecret x)" "key_of_secret x = k" using key(1) by (auto simp: holds_key_def)
  define g0 where "g0 = (''Secret'', ConditionTypeSecretsReady, reconcileSecret (rc_env R), {token_id inst}, secret_reached inst)"
  obtain rest where gl: "goals N R inst = g0 # rest" by (simp add: goals_def Let_def g0_def)
  note ok = goals_ok [OF api md, unfolded gl] and ap = goals_apart [where N = N and R = R and inst = inst, unfolded gl]
  obtain err w1 where s: "reconcileSecret (rc_env R) inst w = (err, w1)" by fastforce
  note r = run [folded goals_steps [where N = N and R = R and inst = inst], unfolded gl, simplified g0_def list.map goal_simps run_pipeline.simps reading_def s prod.case]
  have none: "err = None" using r by (auto split: option.splits if_splits prod.splits)
  with r obtain cs where r1: "run_pipeline (rc_env R) (map step_of rest) (recond cs inst) w1 = (None, inst', w')"
    by (auto simp: setCondition_recond)
  have "holds_key (look w1) (token_id inst) k"
    using secret_step(3) [OF api s [unfolded none] x(1)] x(2) key(2) by (auto simp: holds_key_def)
  moreover have "only_at (\<Union> (set (map area_of rest))) (look w1) (look w')"
    using pipeline_achieves [OF r1] ok ap by simp
  moreover have "token_id inst \<notin> \<Union> (set (map area_of rest))" using ap by (simp add: g0_def)
  ultimately show ?thesis by (simp add: holds_key_def only_at_def del: split_paired_All)
qed

text \<open>
  C9. The API server key of an agent is generated once: along every history of passes, with whatever
  changes of the specification, and of changes by others to other objects, a key that is there
  stays the same key, so that clients of the agent are never cut off by the operator.
\<close>

theorem api_key_generated_once:
  assumes "history R look sid w w'" and "api_server N (rc_env R) look" and "holds_key (look w) sid k" and "k \<noteq> ''''"
  shows "holds_key (look w') sid k"
  using assms
proof (induction rule: history.induct)
  case (pass w w1 inst inst' w2)
  then show ?case using pass_keeps_key [of N R look inst w1 k inst' w2] by simp
qed (simp_all add: holds_key_def)

lemma demo_pass:
  "\<exists>i' w'. run_pipeline (rc_env demo_reconciler) (resource_steps demo_reconciler) demo w = (None, i', w') \<and>
     desired_state exact demo_reconciler demo (clean w')"
proof -
  obtain i' w' where r: "run_pipeline (rc_env demo_reconciler) (resource_steps demo_reconciler) demo w = (None, i', w')"
    unfolding demo_reconciler_simps using plain_succeeds by blast
  have "api_server exact (rc_env demo_reconciler) clean" by (simp add: cluster_api)
  from pass_goals(1) [OF this plain_maps r] r show ?thesis by blast
qed

lemma api_key_generated_once_witness:
  "\<exists>k w1 w2 i1 i2. k \<noteq> '''' \<and>
     run_pipeline (rc_env demo_reconciler) (resource_steps demo_reconciler) demo Map.empty = (None, i1, w1) \<and>
     run_pipeline (rc_env demo_reconciler) (resource_steps demo_reconciler) demo w1 = (None, i2, w2) \<and>
     holds_key (clean w1) (token_id demo) k \<and> holds_key (clean w2) (token_id demo) k"
proof -
  obtain i1 w1 where r1: "run_pipeline (rc_env demo_reconciler) (resource_steps demo_reconciler) demo Map.empty = (None, i1, w1)"
    and d: "desired_state exact demo_reconciler demo (clean w1)" using demo_pass by blast
  obtain i2 w2 where r2: "run_pipeline (rc_env demo_reconciler) (resource_steps demo_reconciler) demo w1 = (None, i2, w2)"
    using demo_pass by blast
  have "secret_reached demo (clean w1)" using d by (simp add: desired_state_def)
  then obtain k where k: "holds_key (clean w1) (token_id demo) k" "k \<noteq> ''''" by (auto simp: secret_reached_def holds_key_def)
  have h: "history demo_reconciler clean (token_id demo) w1 w2"
    by (rule history.pass [OF history.start refl plain_maps r2])
  have "api_server exact (rc_env demo_reconciler) clean" by (simp add: cluster_api)
  from api_key_generated_once [where look = clean and w = w1, OF h this k] k r1 r2 show ?thesis by blast
qed

section \<open>What a pass undoes\<close>

lemma built_image: "\<exists>cs. sts_containers (stateful_set_for mg inst) = agent_container inst # cs"
  by (auto simp: stateful_set_for_def BuildStatefulSet_def agent_pod_def add_volume_def sts_containers_def Let_def split: option.splits)

lemma agent_image [simp]: "ctr_Image (agent_container inst) = imageRef inst"
  by (simp add: agent_container_def Let_def)

text \<open>
  C39. A pass undoes the auto-update: the update controller rolls a new tag out by patching the image
  of the StatefulSet and never changes the specification, and the next pass writes the image of the
  specification back, whatever the rollout and its outcome. So no target tag other than that of the
  specification runs longer than until the next pass.
\<close>

theorem pass_reverts_rollout:
  assumes "api_server exact (rc_env R) look" and "maps_distinct inst"
    and "run_pipeline (rc_env R) (resource_steps R) inst w = (None, inst', w')"
    and "image_Digest (spec_Image (hi_Spec inst)) = ''''" and "tag \<noteq> or_default (image_Tag (spec_Image (hi_Spec inst))) ''latest''"
  shows "\<exists>sts c cs. look w' (KStatefulSet, (inst_ns inst, StatefulSetName inst)) = Some (ObjStatefulSet sts) \<and>
    sts_containers sts = c # cs \<and> ctr_Image c = imageRef inst \<and> ctr_Image c \<noteq> rollout_image inst tag"
proof -
  obtain cs where cs: "sts_containers (stateful_set_for (rc_Migration R) inst) = agent_container inst # cs"
    using built_image by blast
  have "statefulset_reached exact (rc_Migration R) inst (look w')"
    using pass_goals(1) [OF assms(1-3)] by (simp add: desired_state_def)
  then obtain sts where s: "look w' (KStatefulSet, (inst_ns inst, StatefulSetName inst)) = Some (ObjStatefulSet sts)"
    "sts_Spec sts = sts_Spec (stateful_set_for (rc_Migration R) inst)"
    by (auto simp: statefulset_reached_def conforms_def)
  have "sts_containers sts = agent_container inst # cs" using s(2) cs by (simp add: sts_containers_def)
  moreover have "imageRef inst \<noteq> rollout_image inst tag"
    using assms(4,5) by (simp add: imageRef_def rollout_image_def Let_def)
  ultimately show ?thesis using s(1) by simp
qed

lemma pass_reverts_rollout_witness:
  "\<exists>i' w' sts c cs. run_pipeline (rc_env demo_reconciler) (resource_steps demo_reconciler) demo Map.empty = (None, i', w') \<and>
     clean w' (KStatefulSet, (inst_ns demo, StatefulSetName demo)) = Some (ObjStatefulSet sts) \<and>
     sts_containers sts = c # cs \<and> ctr_Image c = imageRef demo \<and> ctr_Image c \<noteq> rollout_image demo ''1.2.3''"
proof -
  obtain i' w' where r: "run_pipeline (rc_env demo_reconciler) (resource_steps demo_reconciler) demo Map.empty = (None, i', w')"
    using demo_pass by blast
  have a: "api_server exact (rc_env demo_reconciler) clean" by (simp add: cluster_api)
  have d: "image_Digest (spec_Image (hi_Spec demo)) = ''''"
    and t: "''1.2.3'' \<noteq> or_default (image_Tag (spec_Image (hi_Spec demo))) ''latest''" by (simp_all add: zero_defs or_default_def)
  from pass_reverts_rollout [OF a plain_maps r d t] r show ?thesis by blast
qed

text \<open>
  A pass undoes self-configuration: what the self-config reconciler writes for an agent, its
  configuration patch and the files it adds, goes into the workspace ConfigMap of the instance, and
  the next pass replaces the data of that ConfigMap by the rendering of the specification, which
  knows nothing of them.
\<close>

theorem pass_drops_selfconfig:
  assumes "api_server N (rc_env R) look" and "maps_distinct inst"
    and "run_pipeline (rc_env R) (resource_steps R) inst w = (None, inst', w')"
    and "workspace_patch inst sc = Some cm" and "mget (cm_Data cm) k \<noteq> None"
    and "mget (cm_Data (BuildWorkspaceConfigMap inst)) k = None"
  shows "\<exists>x. look w' (KConfigMap, object_key (cm_Meta cm)) = Some (ObjConfigMap x) \<and> mget (cm_Data x) k = None"
proof -
  have "object_key (cm_Meta cm) = (inst_ns inst, WorkspaceConfigMapName inst)"
    using assms(4)
    by (auto simp: workspace_patch_def mergeConfigMapPatches_def buildWorkspaceFilesPatch_def buildPatchConfigPayload_def
        object_key_def new_meta_def Let_def split: if_splits option.splits)
  moreover have "workspace_reached inst (look w')" using pass_goals(1) [OF assms(1-3)] by (simp add: desired_state_def)
  ultimately show ?thesis using assms(6) by (auto simp: workspace_reached_def conforms_def)
qed

lemma pass_drops_selfconfig_witness:
  "\<exists>i' w' x. run_pipeline (rc_env demo_reconciler) (resource_steps demo_reconciler) demo Map.empty = (None, i', w') \<and>
     clean w' (KConfigMap, (''prod'', WorkspaceConfigMapName demo)) = Some (ObjConfigMap x) \<and>
     mget (cm_Data x) ''selfconfig.yaml'' = None"
proof -
  obtain i' w' where r: "run_pipeline (rc_env demo_reconciler) (resource_steps demo_reconciler) demo Map.empty = (None, i', w')"
    using demo_pass by blast
  have a: "api_server exact (rc_env demo_reconciler) clean" by (simp add: cluster_api)
  obtain cm where p: "workspace_patch demo (patch_request ''x'') = Some cm" "mget (cm_Data cm) ''selfconfig.yaml'' \<noteq> None"
      "object_key (cm_Meta cm) = (''prod'', WorkspaceConfigMapName demo)"
    by (simp add: workspace_patch_def patch_request_def has_patch_def buildPatchConfigPayload_def zero_defs mget_def
        object_key_def new_meta_def)
  have b: "mget (cm_Data (BuildWorkspaceConfigMap demo)) ''selfconfig.yaml'' = None"
    by (simp add: BuildWorkspaceConfigMap_def workspace_content_def zero_defs mget_def Let_def)
  from pass_drops_selfconfig [OF a plain_maps r p(1,2) b] r p(3) show ?thesis by auto
qed

section \<open>The status of a pass\<close>

text \<open>
  C38. What the status tells: the replicas are those of the StatefulSet and the generation is the one
  reconciled; the phase is Ready, with a true Ready condition, exactly when the instance is not
  suspended and all of at least one replicas are ready, and Pending with a false one otherwise. A
  suspended instance has the phase Suspended and keeps the Ready condition it had, even a true one.
  No other condition has a part in this, although \<open>docs/conditions.md\<close> defines Ready as the rollup of
  all of them and False for a suspended instance: the code looks at the StatefulSet alone, whatever
  the reason \<open>AllSubsystemsReady\<close> that it records says.
\<close>

theorem status_exact:
  assumes "conditions_api E" and "status_update_echoes E"
    and "kc_get (env_statefulsets E) (inst_ns inst, StatefulSetName inst) w = (Inr sts, w1)"
    and "updateStatus E inst w = (err, inst', w')"
  shows "st_Replicas (hi_Status inst') = sts_StatusReplicas sts \<and> st_ReadyReplicas (hi_Status inst') = sts_StatusReadyReplicas sts \<and>
    st_ObservedGeneration (hi_Status inst') = om_Generation (hi_ObjectMeta inst) \<and>
    (let ready = find_condition (st_Conditions (hi_Status inst')) ConditionTypeReady in
     if spec_Suspended (hi_Spec inst)
     then st_Phase (hi_Status inst') = ''Suspended'' \<and> ready = find_condition (st_Conditions (hi_Status inst)) ConditionTypeReady
     else if 0 < sts_StatusReadyReplicas sts \<and> sts_StatusReadyReplicas sts = sts_StatusReplicas sts
     then st_Phase (hi_Status inst') = ''Ready'' \<and> map_option cd_Status ready = Some ConditionTrue
     else st_Phase (hi_Status inst') = ''Pending'' \<and> map_option cd_Status ready = Some ConditionFalse)"
proof -
  have m: "\<exists>c. find_condition (env_set_condition E v cs (condition i ConditionTypeReady st rs m)) ConditionTypeReady = Some c \<and> cd_Status c = st"
    for v cs i st rs m
    using conditions_apiD(1) [OF assms(1), of v cs "condition i ConditionTypeReady st rs m"] by (auto simp: condition_def)
  obtain i where u: "status_update E i w1 = (err, inst', w')" and i: "i =
      (let j = observe_replicas sts inst in
       if spec_Suspended (hi_Spec j) then set_phase ''Suspended'' j
       else if 0 < sts_StatusReadyReplicas sts \<and> sts_StatusReadyReplicas sts = sts_StatusReplicas sts
       then setCondition E (set_phase ''Ready'' j) ConditionTypeReady ConditionTrue ''AllSubsystemsReady'' '''' w1
       else setCondition E (set_phase ''Pending'' j) ConditionTypeReady ConditionFalse ''StatefulSetNotReady'' '''' w1)"
    using assms(4) by (simp add: updateStatus_def assms(3) Let_def)
  have st: "hi_Status inst' = hi_Status i" by (rule status_update_status(1) [OF assms(2) u])
  note defs = st i Let_def observe_replicas_def set_phase_def setCondition_def put_condition_def m
  show ?thesis
  proof (cases "spec_Suspended (hi_Spec inst)")
    case True
    then show ?thesis by (simp add: defs)
  next
    case False
    then show ?thesis
      by (cases "0 < sts_StatusReadyReplicas sts \<and> sts_StatusReadyReplicas sts = sts_StatusReplicas sts") (simp_all add: defs)
  qed
qed

definition suspended_demo :: HermesInstance where
  "suspended_demo = demo\<lparr>hi_Spec := zero_HermesInstanceSpec\<lparr>spec_Suspended := True\<rparr>,
     hi_Status := (hi_Status demo)\<lparr>st_Conditions := [condition demo ConditionTypeReady ConditionTrue ''AllSubsystemsReady'' '''']\<rparr>\<rparr>"

definition sts_env :: "unit env" where
  "sts_env = quiet_env\<lparr>env_statefulsets := quiet_client\<lparr>kc_get := (\<lambda>k w. (Inr (BuildStatefulSet suspended_demo []), w))\<rparr>\<rparr>"

lemma status_exact_witness:
  "\<exists>inst'. updateStatus sts_env suspended_demo () = (None, inst', ()) \<and> st_Phase (hi_Status inst') = ''Suspended'' \<and>
     map_option cd_Status (find_condition (st_Conditions (hi_Status inst')) ConditionTypeReady) = Some ConditionTrue"
proof -
  have d: "conditions_api sts_env" "status_update_echoes sts_env"
    using quiet_conditions
    by (simp_all add: conditions_api_def status_update_echoes_def sts_env_def quiet_env_def quiet_client_def)
  have g: "kc_get (env_statefulsets sts_env) (inst_ns suspended_demo, StatefulSetName suspended_demo) () =
      (Inr (BuildStatefulSet suspended_demo []), ())"
    by (simp add: sts_env_def)
  obtain i where u: "updateStatus sts_env suspended_demo () = (None, i, ())"
    by (simp add: updateStatus_def g Let_def status_update_def) (simp add: sts_env_def quiet_env_def quiet_client_def)
  have "find_condition (st_Conditions (hi_Status suspended_demo)) ConditionTypeReady =
      Some (condition demo ConditionTypeReady ConditionTrue ''AllSubsystemsReady'' '''')"
    and "spec_Suspended (hi_Spec suspended_demo)"
    by (simp_all add: suspended_demo_def find_condition_def condition_def)
  then show ?thesis using status_exact [OF d g u] u by (simp add: Let_def condition_def)
qed

end
