(* ===== verification/Deletion.thy ===== *)
theory Deletion
  imports Lifecycle
begin

text \<open>
  How a deletion ends: \<open>Reconcile\<close>'s deletion path with the two finalizers, the last backup and the
  cleanup of Semaphore.
\<close>

section \<open>Finalizers along a deletion pass\<close>

lemma patch_instance_Some: "patch_instance E i0 i w = (Some e, i', w') \<Longrightarrow> i' = i"
  by (auto simp: patch_instance_def split: prod.splits sum.splits)

lemma patch_instance_keeps:
  assumes "patch_echoes_meta E" and "patch_instance E i0 i w = (err, i', w')"
  shows "hi_Spec i' = hi_Spec i \<and> ContainsFinalizer i' f = ContainsFinalizer i f"
proof (cases err)
  case None
  then show ?thesis using patch_instance_None [OF assms(1)] assms(2) by blast
next
  case (Some e)
  then show ?thesis using patch_instance_Some [of E i0 i w e i' w'] assms(2) by simp
qed

lemma status_update_keeps:
  assumes "status_update_echoes E" and "status_update E i w = (err, i', w')"
  shows "hi_Spec i' = hi_Spec i \<and> ContainsFinalizer i' f = ContainsFinalizer i f"
proof (cases err)
  case None
  then show ?thesis using status_update_None [OF assms(1)] assms(2) by (simp add: ContainsFinalizer_def)
next
  case (Some e)
  then show ?thesis using status_update_Some [of E i w e i' w'] assms(2) by simp
qed

lemma stamps_keep [simp]:
  "hi_Spec (set_last_failure t r i) = hi_Spec i" "ContainsFinalizer (set_last_failure t r i) f = ContainsFinalizer i f"
  "hi_Spec (set_last_success t i) = hi_Spec i" "ContainsFinalizer (set_last_success t i) f = ContainsFinalizer i f"
  "hi_Spec (set_final_job j i) = hi_Spec i" "ContainsFinalizer (set_final_job j i) f = ContainsFinalizer i f"
  by (simp_all add: set_last_failure_def set_last_success_def set_final_job_def ContainsFinalizer_def)

definition same_but_backup :: "HermesInstance \<Rightarrow> HermesInstance \<Rightarrow> bool" where
  "same_but_backup i i' \<longleftrightarrow>
     hi_Spec i' = hi_Spec i \<and> (\<forall>f. f \<noteq> FinalizerBackupOnDelete \<longrightarrow> ContainsFinalizer i' f = ContainsFinalizer i f)"

lemma same_but_backupI: "hi_Spec i' = hi_Spec i \<Longrightarrow> (\<And>f. ContainsFinalizer i' f = ContainsFinalizer i f) \<Longrightarrow> same_but_backup i i'"
  by (simp add: same_but_backup_def)

lemma same_but_backup_refl [simp]: "same_but_backup i i"
  by (simp add: same_but_backup_def)

lemma same_but_backup_trans: "same_but_backup i i1 \<Longrightarrow> same_but_backup i1 i2 \<Longrightarrow> same_but_backup i i2"
  by (simp add: same_but_backup_def)

lemma same_release:
  assumes echo: "patch_echoes_meta E" "status_update_echoes E" and run: "release E i w = (r, held, err, i', w')"
  shows "same_but_backup i i'"
proof -
  have "same_but_backup i j" if "patch_instance E i (DropFinalizer FinalizerBackupOnDelete i) w = (e, j, w1)" for e j w1
    using patch_instance_keeps [OF echo(1) that] by (simp add: same_but_backup_def)
  then show ?thesis
    using run by (auto simp: release_def RemoveFinalizer_def split: prod.splits option.splits if_splits)
qed

lemma same_start:
  assumes echo: "patch_echoes_meta E" "status_update_echoes E" and run: "start_final_backup E i w = (r, held, err, i', w')"
  shows "same_but_backup i i'"
proof -
  have "same_but_backup i j" if "status_update E (set_final_job n i) w0 = (e, j, w1)" for n e j w0 w1
    using status_update_keeps [OF echo(2) that] by (simp add: same_but_backup_def)
  then show ?thesis
    using run by (auto simp: start_final_backup_def Let_def split: prod.splits option.splits sum.splits if_splits)
qed

lemma same_await:
  assumes echo: "patch_echoes_meta E" "status_update_echoes E" and run: "await_final_backup E i w = (r, held, err, i', w')"
  shows "same_but_backup i i'"
proof -
  have "same_but_backup i j" if "status_update E (set_last_failure t m i) w0 = (e, j, w1)" for t m e j w0 w1
    using status_update_keeps [OF echo(2) that] by (simp add: same_but_backup_def)
  moreover have s: "same_but_backup i j" if "status_update E (set_last_success t i) w0 = (e, j, w1)" for t e j w0 w1
    using status_update_keeps [OF echo(2) that] by (simp add: same_but_backup_def)
  moreover have "same_but_backup i k" if "status_update E (set_last_success t i) w0 = (e, j, w1)" "release E j w1 = (r', h, e', k, w2)"
    for t e j w0 w1 r' h e' k w2
    using same_but_backup_trans [OF s [OF that(1)] same_release [OF echo that(2)]] .
  ultimately show ?thesis
    using run
    by (auto simp: await_final_backup_def Let_def split: prod.splits option.splits sum.splits if_splits dest: same_start [OF echo])
qed

lemma same_deletion:
  assumes echo: "patch_echoes_meta E" "status_update_echoes E" and run: "HandleDeletion E i w = (r, held, err, i', w')"
  shows "same_but_backup i i'"
proof -
  have "same_but_backup i k" if "status_update E (set_last_failure t m i) w0 = (e, j, w1)" "release E j w1 = (r', h, e', k, w2)"
    for t m e j w0 w1 r' h e' k w2
  proof -
    have "same_but_backup i j" using status_update_keeps [OF echo(2) that(1)] by (simp add: same_but_backup_def)
    from same_but_backup_trans [OF this same_release [OF echo that(2)]] show ?thesis .
  qed
  then show ?thesis
    using run
    by (auto simp: HandleDeletion_def Let_def split: prod.splits option.splits if_splits dest: same_release [OF echo] same_await [OF echo])
qed

section \<open>Deletions that end\<close>

text \<open>Patches of instances that never fail.\<close>

definition patches_succeed :: "'w env \<Rightarrow> bool" where
  "patches_succeed E \<longleftrightarrow> (\<forall>o1 i w. \<exists>i' w'. kc_patch (env_instances E) o1 i w = (Inr i', w'))"

lemma patched:
  assumes "patches_succeed E" and "patch_echoes_meta E"
  obtains i' w' where "patch_instance E i0 i w = (None, i', w')" "hi_Spec i' = hi_Spec i" "\<And>f. ContainsFinalizer i' f = ContainsFinalizer i f"
proof -
  obtain i' w' where "kc_patch (env_instances E) i0 i w = (Inr i', w')" using assms(1) unfolding patches_succeed_def by blast
  then have p: "patch_instance E i0 i w = (None, i', w')" by (simp add: patch_instance_def)
  from that [OF p] patch_instance_None [OF assms(2) p] show thesis by blast
qed

lemma release_succeeds:
  assumes "patches_succeed E" and "patch_echoes_meta E"
  shows "\<exists>i' w'. release E i w = (no_requeue, False, None, i', w')"
proof (cases "ContainsFinalizer i FinalizerBackupOnDelete")
  case True
  obtain i' w' where "patch_instance E i (DropFinalizer FinalizerBackupOnDelete i) w = (None, i', w')"
    using patched [OF assms] by blast
  then show ?thesis using True by (simp add: release_def RemoveFinalizer_def wrap_err_def)
qed (simp add: release_def RemoveFinalizer_def)

lemma overdue_released:
  assumes "patches_succeed E" and "patch_echoes_meta E" and "overdue E i w"
  shows "\<exists>i' w'. HandleDeletion E i w = (no_requeue, False, None, i', w') \<and> \<not> ContainsFinalizer i' FinalizerBackupOnDelete"
proof (cases "ContainsFinalizer i FinalizerBackupOnDelete")
  case True
  then have "\<exists>j w1. HandleDeletion E i w = release E j w1"
    using assms(3)
    by (auto simp: HandleDeletion_def overdue_def finalBackupDeadline_def durations split: if_splits option.splits prod.splits)
  then obtain j w1 where h: "HandleDeletion E i w = release E j w1" by blast
  obtain i' w' where r: "release E j w1 = (no_requeue, False, None, i', w')" using release_succeeds [OF assms(1,2)] by blast
  from release_gone [OF assms(2) r] h r show ?thesis by simp
qed (simp add: HandleDeletion_def)

lemma release_semaphore_ends:
  assumes "patches_succeed (rc_env R)" and "patch_echoes_meta (rc_env R)"
  shows "(\<exists>i' w'. release_semaphore R i w = (no_requeue, None, i', w') \<and> \<not> ContainsFinalizer i' FinalizerSemaphoreCleanup) \<longleftrightarrow>
    (ContainsFinalizer i FinalizerSemaphoreCleanup \<longrightarrow>
       SemaphoreCleanupOnDelete i \<and> fst (semaphoreCleanup (rc_http R) (rc_env R) i w) = None)"
proof (cases "cleanup_due i")
  case True
  obtain err w1 where c: "semaphoreCleanup (rc_http R) (rc_env R) i w = (err, w1)" by fastforce
  obtain i2 w2 where p: "patch_instance (rc_env R) i (DropFinalizer FinalizerSemaphoreCleanup i) w1 = (None, i2, w2)"
    "\<And>f. ContainsFinalizer i2 f = ContainsFinalizer (DropFinalizer FinalizerSemaphoreCleanup i) f"
    using patched [OF assms] by metis
  have "requeue_after (30 * Second) \<noteq> no_requeue" by (simp add: requeue_after_def no_requeue_def durations)
  then show ?thesis using True c p
    by (cases err) (auto simp: release_semaphore_def cleanup_due_def wrap_err_def)
qed (auto simp: release_semaphore_def cleanup_due_def)

lemma release_semaphore_others:
  assumes "patch_echoes_meta (rc_env R)" and "release_semaphore R i w = (r, None, i', w')" and "f \<noteq> FinalizerSemaphoreCleanup"
  shows "ContainsFinalizer i' f = ContainsFinalizer i f"
  using assms(2,3) patch_instance_None [OF assms(1)]
  by (auto simp: release_semaphore_def wrap_err_def split: if_splits prod.splits option.splits)

text \<open>
  C13. When a deletion ends. With backups wired and patches of the instance that succeed, a pass that
  comes thirty minutes after the request always drops the finalizer of the last backup, whatever
  became of the backup. The same pass ends the deletion, with both finalizers of the operator gone,
  no error and no further pass asked for, exactly when the Semaphore finalizer was not there or
  \<open>cleanupOnDelete\<close> is still on and the cleanup of Semaphore succeeds. So a Semaphore that does
  not answer holds an instance for any time, and one whose \<open>cleanupOnDelete\<close> was turned off after the
  finalizer was added is never let go (\<open>dropped_cleanup_strands_instance\<close> below).
\<close>

theorem deletion_terminates:
  assumes "patches_succeed (rc_env R)" and "patch_echoes_meta (rc_env R)" and "status_update_echoes (rc_env R)"
    and "rc_Backup R" and "overdue (rc_env R) inst w"
  shows "\<exists>i1 w1. HandleDeletion (rc_env R) inst w = (no_requeue, False, None, i1, w1) \<and>
    \<not> ContainsFinalizer i1 FinalizerBackupOnDelete \<and>
    ((\<exists>inst' w'. reconcile_instance R inst w = (no_requeue, None, inst', w') \<and>
        \<not> ContainsFinalizer inst' FinalizerBackupOnDelete \<and> \<not> ContainsFinalizer inst' FinalizerSemaphoreCleanup) \<longleftrightarrow>
     (ContainsFinalizer inst FinalizerSemaphoreCleanup \<longrightarrow>
        SemaphoreCleanupOnDelete inst \<and> fst (semaphoreCleanup (rc_http R) (rc_env R) i1 w1) = None))"
proof -
  obtain i1 w1 where h: "HandleDeletion (rc_env R) inst w = (no_requeue, False, None, i1, w1)"
    "\<not> ContainsFinalizer i1 FinalizerBackupOnDelete" using overdue_released [OF assms(1,2,5)] by blast
  have "om_DeletionTimestamp (hi_ObjectMeta inst) \<noteq> None"
    using assms(5) by (cases "om_DeletionTimestamp (hi_ObjectMeta inst)") (simp_all add: overdue_def)
  then have d: "reconcile_instance R inst w = release_semaphore R i1 w1"
    using assms(4) h(1) by (simp add: reconcile_instance_def reconcile_deleted_def)
  have s: "same_but_backup inst i1" by (rule same_deletion [OF assms(2,3) h(1)])
  then have "SemaphoreCleanupOnDelete i1 = SemaphoreCleanupOnDelete inst"
    "ContainsFinalizer i1 FinalizerSemaphoreCleanup = ContainsFinalizer inst FinalizerSemaphoreCleanup"
    by (simp_all add: same_but_backup_def SemaphoreCleanupOnDelete_def SemaphoreEnabled_def)
  note ends = release_semaphore_ends [OF assms(1,2), of i1 w1, unfolded this]
  have "\<not> ContainsFinalizer i' FinalizerBackupOnDelete" if "release_semaphore R i1 w1 = (no_requeue, None, i', w')" for i' w'
    using release_semaphore_others [OF assms(2) that] h(2) by simp
  with ends h show ?thesis unfolding d by (intro exI [of _ i1] exI [of _ w1]) blast
qed

text \<open>A deleted instance with both finalizers, long after the request, and a Semaphore that has no project of it.\<close>

definition dying :: HermesInstance where
  "dying = demo_semaphore\<lparr>hi_ObjectMeta := (new_meta ''demo'' ''prod'')
     \<lparr>om_DeletionTimestamp := Some 0, om_Finalizers := [FinalizerBackupOnDelete, FinalizerSemaphoreCleanup]\<rparr>\<rparr>"

definition empty_server :: "'w http_lib" where
  "empty_server =
     \<lparr>ht_url_ok = (\<lambda>u. True),
      ht_do = (\<lambda>r w. (Inr \<lparr>rs_StatusCode = 200, rs_Cookies = [(''semaphore'', ''c'')], rs_Body = ''[]''\<rparr>, w))\<rparr>"

definition admin_secret :: "string \<Rightarrow> Secret" where
  "admin_secret pw = (empty_secret ''admin'' ''semaphore'')\<lparr>sec_Data := [(''password'', pw)]\<rparr>"

definition dying_reconciler :: "(nat, unit) reconciler" where
  "dying_reconciler =
     \<lparr>rc_env = late_env\<lparr>env_secrets := quiet_client\<lparr>kc_get := (\<lambda>k w. (Inr (admin_secret ''pw''), w))\<rparr>\<rparr>,
      rc_http = empty_server, rc_yaml = code_yaml, rc_PrometheusOperatorCRDsPresent = True, rc_Backup = True, rc_Restore = False,
      rc_AutoUpdate = None, rc_Migration = False\<rparr>"

lemma empty_listing: "decode_rows ''name'' ''[]'' = ([], None)"
  by code_simp

lemma dying_documented:
  "patches_succeed (rc_env dying_reconciler)" "patch_echoes_meta (rc_env dying_reconciler)"
  "status_update_echoes (rc_env dying_reconciler)" "overdue (rc_env dying_reconciler) dying ()"
  by (simp_all add: patches_succeed_def patch_echoes_meta_def status_update_echoes_def overdue_def dying_reconciler_def late_env_def
      quiet_env_def quiet_client_def dying_def)

lemma deletion_terminates_witness:
  "\<exists>inst'. reconcile_instance dying_reconciler dying () = (no_requeue, None, inst', ()) \<and>
    \<not> ContainsFinalizer inst' FinalizerBackupOnDelete \<and> \<not> ContainsFinalizer inst' FinalizerSemaphoreCleanup"
proof -
  have b: "rc_Backup dying_reconciler" and c: "SemaphoreCleanupOnDelete dying"
    by (simp_all add: dying_reconciler_def dying_def demo_semaphore_def SemaphoreCleanupOnDelete_def SemaphoreEnabled_def)
  have clean: "fst (semaphoreCleanup (rc_http dying_reconciler) (rc_env dying_reconciler) i w) = None" if "hi_Spec i = hi_Spec dying" for i w
    using that by (simp add: semaphoreCleanup_def cleanup_def cleanup_password_def login_def list_all_rows_def seqE_def wrapE_def
        send_def okE_def failE_def semaphore_cookie_def empty_listing find_id_def dying_reconciler_def empty_server_def quiet_client_def
        dying_def demo_semaphore_def admin_secret_def empty_secret_def mget0_def mget_def Let_def)
  obtain i1 w1 where h: "HandleDeletion (rc_env dying_reconciler) dying () = (no_requeue, False, None, i1, w1)"
    and ends: "(\<exists>inst' w'. reconcile_instance dying_reconciler dying () = (no_requeue, None, inst', w') \<and>
        \<not> ContainsFinalizer inst' FinalizerBackupOnDelete \<and> \<not> ContainsFinalizer inst' FinalizerSemaphoreCleanup) \<longleftrightarrow>
     (ContainsFinalizer dying FinalizerSemaphoreCleanup \<longrightarrow> SemaphoreCleanupOnDelete dying \<and>
        fst (semaphoreCleanup (rc_http dying_reconciler) (rc_env dying_reconciler) i1 w1) = None)"
    using deletion_terminates [OF dying_documented(1-3) b dying_documented(4)] by blast
  have "hi_Spec i1 = hi_Spec dying" using same_deletion [OF dying_documented(2,3) h] by (simp add: same_but_backup_def)
  from ends clean [OF this] c show ?thesis by auto
qed

text \<open>
  An instance is stranded when \<open>cleanupOnDelete\<close> is turned off after the finalizer was added: no
  pass over the deleted instance removes the finalizer, and with no last backup pending a pass does
  nothing at all and asks for no further one, so that the instance stays until its finalizers are
  edited by hand.
\<close>

theorem dropped_cleanup_strands_instance:
  assumes "patch_echoes_meta (rc_env R)" and "status_update_echoes (rc_env R)"
    and "om_DeletionTimestamp (hi_ObjectMeta inst) \<noteq> None" and "\<not> SemaphoreCleanupOnDelete inst"
    and "ContainsFinalizer inst FinalizerSemaphoreCleanup"
    and "reconcile_instance R inst w = (res, err, inst', w')"
  shows "ContainsFinalizer inst' FinalizerSemaphoreCleanup \<and>
    (\<not> ContainsFinalizer inst FinalizerBackupOnDelete \<longrightarrow> res = no_requeue \<and> err = None \<and> inst' = inst \<and> w' = w)"
proof -
  have r: "reconcile_deleted R inst w = (res, err, inst', w')" using assms(3,6) by (simp add: reconcile_instance_def)
  have off: "release_semaphore R i v = (no_requeue, None, i, v)" if "hi_Spec i = hi_Spec inst" for i v
    using assms(4) that by (auto simp: release_semaphore_def cleanup_due_def SemaphoreCleanupOnDelete_def SemaphoreEnabled_def)
  show ?thesis
  proof (cases "rc_Backup R")
    case True
    obtain res1 held err1 i1 w1 where h: "HandleDeletion (rc_env R) inst w = (res1, held, err1, i1, w1)" by (metis prod_cases5)
    have s: "same_but_backup inst i1" by (rule same_deletion [OF assms(1,2) h])
    then have "release_semaphore R i1 w1 = (no_requeue, None, i1, w1)" by (intro off) (simp add: same_but_backup_def)
    then have "inst' = i1" using r True h by (auto simp: reconcile_deleted_def split: option.splits if_splits)
    then have "ContainsFinalizer inst' FinalizerSemaphoreCleanup" using s assms(5) by (simp add: same_but_backup_def)
    moreover have "res = no_requeue \<and> err = None \<and> inst' = inst \<and> w' = w" if "\<not> ContainsFinalizer inst FinalizerBackupOnDelete"
      using r True that off [of inst] by (simp add: reconcile_deleted_def HandleDeletion_def)
    ultimately show ?thesis by blast
  next
    case False
    then show ?thesis using r off [of inst] assms(5) by (simp add: reconcile_deleted_def)
  qed
qed

definition stranded :: HermesInstance where
  "stranded = demo\<lparr>hi_ObjectMeta := (new_meta ''demo'' ''prod'')
     \<lparr>om_DeletionTimestamp := Some 0, om_Finalizers := [FinalizerSemaphoreCleanup]\<rparr>\<rparr>"

lemma dropped_cleanup_strands_instance_witness:
  "reconcile_instance dying_reconciler stranded () = (no_requeue, None, stranded, ()) \<and>
    ContainsFinalizer stranded FinalizerSemaphoreCleanup"
proof -
  obtain res err i w' where r: "reconcile_instance dying_reconciler stranded () = (res, err, i, w')" by (metis prod_cases4)
  have s: "om_DeletionTimestamp (hi_ObjectMeta stranded) \<noteq> None" "\<not> SemaphoreCleanupOnDelete stranded"
    "ContainsFinalizer stranded FinalizerSemaphoreCleanup" "\<not> ContainsFinalizer stranded FinalizerBackupOnDelete"
    by (simp_all add: stranded_def ContainsFinalizer_def SemaphoreCleanupOnDelete_def SemaphoreEnabled_def zero_defs)
  from dropped_cleanup_strands_instance [OF dying_documented(2,3) s(1-3) r] s(3,4) r show ?thesis by auto
qed

section \<open>A password with a newline\<close>

text \<open>
  A trailing newline in the Secret of the administrator blocks every deletion: provisioning trims
  the password and logs in, but the cleanup sends the untrimmed one. On a server that opens a session
  for the right password only, the cleanup fails whenever it is tried, the finalizer stays, and the
  pass asks to be repeated in thirty seconds.
\<close>

theorem untrimmed_password_blocks_deletion:
  assumes "cleanup_due inst" and "sema_AdminTokenSecretRef (spec_Semaphore (hi_Spec inst)) = Some ref"
    and "kc_get (env_secrets (rc_env R)) (''semaphore'', sks_Name ref) w = (Inr s, w1)"
    and "mget0 (sec_Data s) (sks_Key ref) = pw @ [CHR 0x0A]" and "TrimSpace (pw @ [CHR 0x0A]) = pw" and "pw \<noteq> ''''"
    and "\<And>body v. ht_url_ok (rc_http R) (sema_URL (spec_Semaphore (hi_Spec inst)) @ ''/api/auth/login'') \<and>
      (body \<noteq> login_body ''admin'' pw \<longrightarrow>
        (\<exists>r v'. ht_do (rc_http R) (login_request (sema_URL (spec_Semaphore (hi_Spec inst))) body) v = (Inr r, v') \<and> semaphore_cookie r = ''''))"
  shows "admin_password (rc_env R) ref w = (Inr pw, w1) \<and>
    (\<exists>w'. release_semaphore R inst w = (requeue_after (30 * Second), None, inst, w'))"
proof
  show "admin_password (rc_env R) ref w = (Inr pw, w1)"
    using assms(3-6) by (simp add: admin_password_def seqE_def wrapE_def okE_def Let_def)
next
  let ?url = "sema_URL (spec_Semaphore (hi_Spec inst))" and ?body = "login_body ''admin'' (pw @ [CHR 0x0A])"
  have "?body \<noteq> login_body ''admin'' pw" by (simp add: login_body_def)
  then obtain r w2 where h: "ht_do (rc_http R) (login_request ?url ?body) w1 = (Inr r, w2)" "semaphore_cookie r = ''''"
    using assms(7) by blast
  have "send (rc_http R) (login_request ?url ?body) w1 = (Inr r, w2)"
    using h(1) assms(7) by (simp add: send_def login_request_def)
  then have "semaphoreCleanup (rc_http R) (rc_env R) inst w =
      (Some (Plain ''no semaphore session cookie in login response''), w2)"
    using assms(2-4) h(2)
    by (simp add: semaphoreCleanup_def cleanup_def cleanup_password_def login_def seqE_def wrapE_def okE_def failE_def Let_def)
  then show "\<exists>w'. release_semaphore R inst w = (requeue_after (30 * Second), None, inst, w')"
    using assms(1) by (simp add: release_semaphore_def)
qed

definition strict_server :: "'w http_lib" where
  "strict_server = empty_server\<lparr>ht_do := (\<lambda>r w. (Inr \<lparr>rs_StatusCode = 204,
     rs_Cookies = (if rq_Body r = login_body ''admin'' ''pw'' then [(''semaphore'', ''c'')] else []), rs_Body = ''''\<rparr>, w))\<rparr>"

definition newline_reconciler :: "(nat, unit) reconciler" where
  "newline_reconciler = dying_reconciler\<lparr>rc_http := strict_server,
     rc_env := late_env\<lparr>env_secrets := quiet_client\<lparr>kc_get := (\<lambda>k w. (Inr (admin_secret (''pw'' @ [CHR 0x0A])), w))\<rparr>\<rparr>\<rparr>"

lemma untrimmed_password_blocks_deletion_witness:
  "release_semaphore newline_reconciler dying () = (requeue_after (30 * Second), None, dying, ())"
proof -
  let ?ref = "\<lparr>sks_Name = ''admin'', sks_Key = ''password'', sks_Optional = None\<rparr>"
  have 1: "cleanup_due dying" "sema_AdminTokenSecretRef (spec_Semaphore (hi_Spec dying)) = Some ?ref"
    by (simp_all add: cleanup_due_def dying_def demo_semaphore_def SemaphoreCleanupOnDelete_def SemaphoreEnabled_def ContainsFinalizer_def)
  have 2: "kc_get (env_secrets (rc_env newline_reconciler)) (''semaphore'', sks_Name ?ref) () = (Inr (admin_secret (''pw'' @ [CHR 0x0A])), ())"
    "mget0 (sec_Data (admin_secret (''pw'' @ [CHR 0x0A]))) (sks_Key ?ref) = ''pw'' @ [CHR 0x0A]"
    by (simp_all add: newline_reconciler_def admin_secret_def mget0_def mget_def)
  have 3: "TrimSpace (''pw'' @ [CHR 0x0A]) = ''pw''" by code_simp
  have "ht_url_ok (rc_http newline_reconciler) u \<and>
      (body \<noteq> login_body ''admin'' ''pw'' \<longrightarrow>
        (\<exists>r v'. ht_do (rc_http newline_reconciler) (login_request u' body) v = (Inr r, v') \<and> semaphore_cookie r = ''''))" for u u' body v
    by (simp add: newline_reconciler_def strict_server_def empty_server_def login_request_def semaphore_cookie_def)
  from untrimmed_password_blocks_deletion [OF 1 2 3 _ this] show ?thesis by simp
qed

end
