(* ===== verification/DefaultsController.thy ===== *)
theory DefaultsController
  imports Env
begin

text \<open>
  \<open>HermesClusterDefaultsReconciler\<close> of \<open>internal/controller/hermesclusterdefaults_controller.go\<close>: it
  reports on every object of the cluster-scoped kind whether it is the one the webhook reads. The
  recorder is optional in the code, so its presence is an argument.
\<close>

definition singleton_condition :: "HermesClusterDefaults \<Rightarrow> time \<Rightarrow> Condition" where
  "singleton_condition hcd now =
     (let good = \<lparr>cd_Type = ''Ready'', cd_Status = ConditionTrue, cd_Reason = ''Singleton'',
                  cd_Message = ''HermesClusterDefaults singleton is healthy'',
                  cd_ObservedGeneration = om_Generation (hcd_ObjectMeta hcd), cd_LastTransitionTime = Some now\<rparr> in
      if om_Name (hcd_ObjectMeta hcd) \<noteq> ''cluster''
      then good\<lparr>cd_Status := ConditionFalse, cd_Reason := ''InvalidName'',
                cd_Message := ''name must be '' @ quoted ''cluster'' @ '' (got '' @ quoted (om_Name (hcd_ObjectMeta hcd)) @
                  ''); this resource is ignored by the defaulting webhook''\<rparr>
      else good)"

definition report_singleton :: "'w env \<Rightarrow> HermesClusterDefaults \<Rightarrow> Condition \<Rightarrow> 'w \<Rightarrow> HermesClusterDefaults" where
  "report_singleton E hcd cond w =
     hcd\<lparr>hcd_Status := (hcd_Status hcd)\<lparr>hcdst_Conditions := env_set_condition E w (hcdst_Conditions (hcd_Status hcd)) cond,
        hcdst_ObservedGeneration := om_Generation (hcd_ObjectMeta hcd)\<rparr>\<rparr>"

definition warn_name :: "'w env \<Rightarrow> bool \<Rightarrow> HermesClusterDefaults \<Rightarrow> Condition \<Rightarrow> 'w \<Rightarrow> 'w" where
  "warn_name E recorder hcd cond w =
     (if om_Name (hcd_ObjectMeta hcd) \<noteq> ''cluster'' \<and> recorder
      then env_record E (''HermesClusterDefaults'', om_Namespace (hcd_ObjectMeta hcd), om_Name (hcd_ObjectMeta hcd))
             EventWarning ''InvalidName'' (cd_Message cond) w
      else w)"

definition DefaultsReconcile :: "'w env \<Rightarrow> bool \<Rightarrow> nsname \<Rightarrow> 'w \<Rightarrow> ctrl_result \<times> go_error option \<times> 'w" where
  "DefaultsReconcile E recorder req w =
     (case kc_get (env_clusterdefaults E) req w of
        (Inl e, w1) \<Rightarrow> if IsNotFound e then (no_requeue, None, w1) else (no_requeue, Some e, w1)
      | (Inr hcd, w1) \<Rightarrow>
         (let (now, w2) = env_now E w1; cond = singleton_condition hcd now; w3 = warn_name E recorder hcd cond w2 in
          case kc_status_update (env_clusterdefaults E) (report_singleton E hcd cond w3) w3 of
            (Inl e, w4) \<Rightarrow> (no_requeue, Some (Wrapped ''update status'' e), w4)
          | (Inr _, w4) \<Rightarrow> (requeue_after (10 * Minute), None, w4)))"

text \<open>
  The controller of the cluster defaults reports the singleton: a pass over an object writes a
  Ready condition for its generation that is true exactly when the object is the one named
  \<open>cluster\<close>, which is the only one the defaulting webhook reads, and comes back after ten minutes;
  when the write fails, the error is returned.
\<close>

theorem singleton_reported:
  assumes "conditions_api E" and "kc_get (env_clusterdefaults E) req w = (Inr hcd, w1)"
  shows "\<exists>sent w2 c. DefaultsReconcile E recorder req w =
      (case kc_status_update (env_clusterdefaults E) sent w2 of
         (Inl e, w4) \<Rightarrow> (no_requeue, Some (Wrapped ''update status'' e), w4)
       | (Inr _, w4) \<Rightarrow> (requeue_after (10 * Minute), None, w4)) \<and>
    hcd_Spec sent = hcd_Spec hcd \<and> hcdst_ObservedGeneration (hcd_Status sent) = om_Generation (hcd_ObjectMeta hcd) \<and>
    find_condition (hcdst_Conditions (hcd_Status sent)) ''Ready'' = Some c \<and>
    cd_ObservedGeneration c = om_Generation (hcd_ObjectMeta hcd) \<and>
    (cd_Status c = ConditionTrue \<longleftrightarrow> om_Name (hcd_ObjectMeta hcd) = ''cluster'')"
proof -
  obtain now w2 where n: "env_now E w1 = (now, w2)" by fastforce
  let ?c = "singleton_condition hcd now" and ?w = "warn_name E recorder hcd (singleton_condition hcd now) w2"
  have t: "cd_Type ?c = ''Ready''" by (simp add: singleton_condition_def Let_def)
  obtain t where "find_condition (env_set_condition E ?w (hcdst_Conditions (hcd_Status hcd)) ?c) ''Ready'' = Some (?c\<lparr>cd_LastTransitionTime := t\<rparr>)"
    using conditions_apiD(1) [OF assms(1), of ?w "hcdst_Conditions (hcd_Status hcd)" ?c] unfolding t by blast
  then show ?thesis
    using assms(2) n
    by (intro exI [of _ "report_singleton E hcd ?c ?w"] exI [of _ ?w] exI [of _ "?c\<lparr>cd_LastTransitionTime := t\<rparr>"])
      (simp add: DefaultsReconcile_def report_singleton_def singleton_condition_def Let_def)
qed

definition named_defaults :: "string \<Rightarrow> HermesClusterDefaults" where
  "named_defaults n = zero_HermesClusterDefaults\<lparr>hcd_ObjectMeta := new_meta n ''''\<rparr>"

definition defaults_env :: "unit env" where
  "defaults_env = quiet_env\<lparr>env_clusterdefaults := quiet_client\<lparr>kc_get := (\<lambda>k w. (Inr (named_defaults (snd k)), w))\<rparr>\<rparr>"

lemma singleton_reported_witness:
  "DefaultsReconcile defaults_env True ('''', ''other'') () = (requeue_after (10 * Minute), None, ()) \<and>
   (\<exists>(sent :: HermesClusterDefaults) c. hcd_Spec sent = zero_HermesClusterDefaultsSpec \<and>
      find_condition (hcdst_Conditions (hcd_Status sent)) ''Ready'' = Some c \<and> cd_Status c \<noteq> ConditionTrue)"
proof -
  have d: "conditions_api defaults_env"
    using quiet_conditions by (simp add: conditions_api_def defaults_env_def quiet_env_def)
  have g: "kc_get (env_clusterdefaults defaults_env) ('''', ''other'') () = (Inr (named_defaults ''other''), ())"
    by (simp add: defaults_env_def)
  have ok: "kc_status_update (env_clusterdefaults defaults_env) sent () = (Inr sent, ())" for sent
    by (simp add: defaults_env_def quiet_client_def)
  have n: "hcd_Spec (named_defaults ''other'') = zero_HermesClusterDefaultsSpec" "om_Name (hcd_ObjectMeta (named_defaults ''other'')) = ''other''"
    by (simp_all add: named_defaults_def new_meta_def zero_HermesClusterDefaults_def)
  obtain sent :: HermesClusterDefaults and c where "DefaultsReconcile defaults_env True ('''', ''other'') () = (requeue_after (10 * Minute), None, ())"
    "hcd_Spec sent = zero_HermesClusterDefaultsSpec" "find_condition (hcdst_Conditions (hcd_Status sent)) ''Ready'' = Some c"
    "cd_Status c \<noteq> ConditionTrue"
    using singleton_reported [OF d g, of True] by (auto simp: ok n)
  then show ?thesis by blast
qed

end
