(* ===== verification/Calls.thy ===== *)
theory Calls
  imports Instance SelfConfig DefaultsController
begin

text \<open>
  Which calls of the API server the three reconcilers make. \<open>same_calls\<close> relates two environments that
  agree on those calls and may differ in all others: every operation, and so every pass, does the
  same in both. The operations are taken in the order of their components; each lemma lifts the
  agreement over the definitions that use the ones before.
\<close>

named_theorems blind "operations that see the calls of \<open>same_calls\<close> only"

section \<open>The calls\<close>

definition used_gvks :: "GroupVersionKind set" where
  "used_gvks = {HTTPRouteGVK, ServiceMonitorGVK, PrometheusRuleGVK}"

definition same_calls :: "'w env \<Rightarrow> 'w env \<Rightarrow> bool" where
  "same_calls E E' \<longleftrightarrow>
     kc_get (env_instances E') = kc_get (env_instances E) \<and> kc_patch (env_instances E') = kc_patch (env_instances E) \<and>
     kc_status_update (env_instances E') = kc_status_update (env_instances E) \<and>
     kc_apply (env_instances E') = kc_apply (env_instances E) \<and>
     kc_get (env_selfconfigs E') = kc_get (env_selfconfigs E) \<and>
     kc_status_update (env_selfconfigs E') = kc_status_update (env_selfconfigs E) \<and>
     kc_get (env_clusterdefaults E') = kc_get (env_clusterdefaults E) \<and>
     kc_status_update (env_clusterdefaults E') = kc_status_update (env_clusterdefaults E) \<and>
     kc_get (env_secrets E') = kc_get (env_secrets E) \<and> kc_create (env_secrets E') = kc_create (env_secrets E) \<and>
     kc_create_or_update (env_secrets E') = kc_create_or_update (env_secrets E) \<and>
     kc_get (env_configmaps E') = kc_get (env_configmaps E) \<and>
     kc_delete (env_configmaps E') = kc_delete (env_configmaps E) \<and>
     kc_apply (env_configmaps E') = kc_apply (env_configmaps E) \<and>
     kc_create_or_update (env_configmaps E') = kc_create_or_update (env_configmaps E) \<and>
     kc_get (env_pvcs E') = kc_get (env_pvcs E) \<and> kc_create (env_pvcs E') = kc_create (env_pvcs E) \<and>
     kc_create_or_update (env_serviceaccounts E') = kc_create_or_update (env_serviceaccounts E) \<and>
     kc_create_or_update (env_roles E') = kc_create_or_update (env_roles E) \<and>
     kc_create_or_update (env_rolebindings E') = kc_create_or_update (env_rolebindings E) \<and>
     kc_get (env_services E') = kc_get (env_services E) \<and> kc_delete (env_services E') = kc_delete (env_services E) \<and>
     kc_create_or_update (env_services E') = kc_create_or_update (env_services E) \<and>
     kc_get (env_netpols E') = kc_get (env_netpols E) \<and> kc_delete (env_netpols E') = kc_delete (env_netpols E) \<and>
     kc_create_or_update (env_netpols E') = kc_create_or_update (env_netpols E) \<and>
     kc_get (env_pdbs E') = kc_get (env_pdbs E) \<and> kc_delete (env_pdbs E') = kc_delete (env_pdbs E) \<and>
     kc_create_or_update (env_pdbs E') = kc_create_or_update (env_pdbs E) \<and> kc_get (env_hpas E') = kc_get (env_hpas E) \<and>
     kc_delete (env_hpas E') = kc_delete (env_hpas E) \<and>
     kc_create_or_update (env_hpas E') = kc_create_or_update (env_hpas E) \<and>
     kc_get (env_ingresses E') = kc_get (env_ingresses E) \<and> kc_delete (env_ingresses E') = kc_delete (env_ingresses E) \<and>
     kc_create_or_update (env_ingresses E') = kc_create_or_update (env_ingresses E) \<and>
     kc_get (env_statefulsets E') = kc_get (env_statefulsets E) \<and>
     kc_patch (env_statefulsets E') = kc_patch (env_statefulsets E) \<and>
     kc_create_or_update (env_statefulsets E') = kc_create_or_update (env_statefulsets E) \<and>
     kc_get (env_deployments E') = kc_get (env_deployments E) \<and>
     kc_delete (env_deployments E') = kc_delete (env_deployments E) \<and>
     kc_create_or_update (env_deployments E') = kc_create_or_update (env_deployments E) \<and>
     kc_get (env_cronjobs E') = kc_get (env_cronjobs E) \<and> kc_delete (env_cronjobs E') = kc_delete (env_cronjobs E) \<and>
     kc_create_or_update (env_cronjobs E') = kc_create_or_update (env_cronjobs E) \<and>
     kc_get (env_jobs E') = kc_get (env_jobs E) \<and> kc_create (env_jobs E') = kc_create (env_jobs E) \<and>
     kc_get (env_pods E') = kc_get (env_pods E) \<and> kc_list (env_events E') = kc_list (env_events E) \<and>
     env_now E' = env_now E \<and> env_random E' = env_random E \<and> env_record E' = env_record E \<and>
     env_count E' = env_count E \<and> env_set_owner E' = env_set_owner E \<and> env_set_condition E' = env_set_condition E \<and>
     env_remove_condition E' = env_remove_condition E \<and> env_condition_true E' = env_condition_true E \<and>
     env_quantity_ok E' = env_quantity_ok E \<and>
     (\<forall>g \<in> used_gvks. kc_get (env_unstructured E' g) = kc_get (env_unstructured E g) \<and>
        kc_delete (env_unstructured E' g) = kc_delete (env_unstructured E g) \<and>
        kc_create_or_update (env_unstructured E' g) = kc_create_or_update (env_unstructured E g))"

lemma same_client_calls [blind]:
  assumes "same_calls E E'"
  shows "kc_get (env_instances E') = kc_get (env_instances E)" and "kc_patch (env_instances E') = kc_patch (env_instances E)" and
    "kc_status_update (env_instances E') = kc_status_update (env_instances E)" and
    "kc_apply (env_instances E') = kc_apply (env_instances E)" and
    "kc_get (env_selfconfigs E') = kc_get (env_selfconfigs E)" and
    "kc_status_update (env_selfconfigs E') = kc_status_update (env_selfconfigs E)" and
    "kc_get (env_clusterdefaults E') = kc_get (env_clusterdefaults E)" and
    "kc_status_update (env_clusterdefaults E') = kc_status_update (env_clusterdefaults E)" and
    "kc_get (env_secrets E') = kc_get (env_secrets E)" and "kc_create (env_secrets E') = kc_create (env_secrets E)" and
    "kc_create_or_update (env_secrets E') = kc_create_or_update (env_secrets E)" and
    "kc_get (env_configmaps E') = kc_get (env_configmaps E)" and
    "kc_delete (env_configmaps E') = kc_delete (env_configmaps E)" and
    "kc_apply (env_configmaps E') = kc_apply (env_configmaps E)" and
    "kc_create_or_update (env_configmaps E') = kc_create_or_update (env_configmaps E)" and
    "kc_get (env_pvcs E') = kc_get (env_pvcs E)" and "kc_create (env_pvcs E') = kc_create (env_pvcs E)" and
    "kc_create_or_update (env_serviceaccounts E') = kc_create_or_update (env_serviceaccounts E)" and
    "kc_create_or_update (env_roles E') = kc_create_or_update (env_roles E)" and
    "kc_create_or_update (env_rolebindings E') = kc_create_or_update (env_rolebindings E)" and
    "kc_get (env_services E') = kc_get (env_services E)" and "kc_delete (env_services E') = kc_delete (env_services E)" and
    "kc_create_or_update (env_services E') = kc_create_or_update (env_services E)" and
    "kc_get (env_netpols E') = kc_get (env_netpols E)" and "kc_delete (env_netpols E') = kc_delete (env_netpols E)" and
    "kc_create_or_update (env_netpols E') = kc_create_or_update (env_netpols E)" and
    "kc_get (env_pdbs E') = kc_get (env_pdbs E)" and "kc_delete (env_pdbs E') = kc_delete (env_pdbs E)" and
    "kc_create_or_update (env_pdbs E') = kc_create_or_update (env_pdbs E)" and
    "kc_get (env_hpas E') = kc_get (env_hpas E)" and "kc_delete (env_hpas E') = kc_delete (env_hpas E)" and
    "kc_create_or_update (env_hpas E') = kc_create_or_update (env_hpas E)" and
    "kc_get (env_ingresses E') = kc_get (env_ingresses E)" and
    "kc_delete (env_ingresses E') = kc_delete (env_ingresses E)" and
    "kc_create_or_update (env_ingresses E') = kc_create_or_update (env_ingresses E)" and
    "kc_get (env_statefulsets E') = kc_get (env_statefulsets E)" and
    "kc_patch (env_statefulsets E') = kc_patch (env_statefulsets E)" and
    "kc_create_or_update (env_statefulsets E') = kc_create_or_update (env_statefulsets E)" and
    "kc_get (env_deployments E') = kc_get (env_deployments E)" and
    "kc_delete (env_deployments E') = kc_delete (env_deployments E)" and
    "kc_create_or_update (env_deployments E') = kc_create_or_update (env_deployments E)" and
    "kc_get (env_cronjobs E') = kc_get (env_cronjobs E)" and "kc_delete (env_cronjobs E') = kc_delete (env_cronjobs E)" and
    "kc_create_or_update (env_cronjobs E') = kc_create_or_update (env_cronjobs E)" and
    "kc_get (env_jobs E') = kc_get (env_jobs E)" and "kc_create (env_jobs E') = kc_create (env_jobs E)" and
    "kc_get (env_pods E') = kc_get (env_pods E)" and "kc_list (env_events E') = kc_list (env_events E)" and
    "env_now E' = env_now E" and "env_random E' = env_random E" and "env_record E' = env_record E" and
    "env_count E' = env_count E" and "env_set_owner E' = env_set_owner E" and "env_set_condition E' = env_set_condition E" and
    "env_remove_condition E' = env_remove_condition E" and "env_condition_true E' = env_condition_true E" and
    "env_quantity_ok E' = env_quantity_ok E"
  using assms unfolding same_calls_def by blast+

lemma same_unstructured:
  assumes "same_calls E E'" and "g \<in> used_gvks"
  shows "kc_get (env_unstructured E' g) = kc_get (env_unstructured E g)" and
    "kc_delete (env_unstructured E' g) = kc_delete (env_unstructured E g)" and
    "kc_create_or_update (env_unstructured E' g) = kc_create_or_update (env_unstructured E g)"
  using assms unfolding same_calls_def by blast+

lemma gvks_used: "HTTPRouteGVK \<in> used_gvks" "ServiceMonitorGVK \<in> used_gvks" "PrometheusRuleGVK \<in> used_gvks"
  by (simp_all add: used_gvks_def)

lemma deleteIfExists_cong: "kc_get kc' = kc_get kc \<Longrightarrow> kc_delete kc' = kc_delete kc \<Longrightarrow> deleteIfExists kc' = deleteIfExists kc"
  unfolding fun_eq_iff by (simp only: deleteIfExists_def simp_thms)

lemma applySSA_cong: "kc_apply kc' = kc_apply kc \<Longrightarrow> applySSA kc' = applySSA kc"
  unfolding fun_eq_iff by (simp only: applySSA_def simp_thms)

lemma same_deletes [blind]:
  assumes "same_calls E E'"
  shows "deleteIfExists (env_configmaps E') = deleteIfExists (env_configmaps E)"
    and "deleteIfExists (env_services E') = deleteIfExists (env_services E)"
    and "deleteIfExists (env_netpols E') = deleteIfExists (env_netpols E)"
    and "deleteIfExists (env_pdbs E') = deleteIfExists (env_pdbs E)"
    and "deleteIfExists (env_hpas E') = deleteIfExists (env_hpas E)"
    and "deleteIfExists (env_ingresses E') = deleteIfExists (env_ingresses E)"
    and "deleteIfExists (env_deployments E') = deleteIfExists (env_deployments E)"
    and "applySSA (env_instances E') = applySSA (env_instances E)"
    and "applySSA (env_configmaps E') = applySSA (env_configmaps E)"
  by (rule deleteIfExists_cong applySSA_cong; simp only: blind [OF assms])+

section \<open>The instance\<close>

lemma blind_base1 [blind]:
  assumes "same_calls E E'"
  shows "put_condition E' = put_condition E" and "drop_condition E' = drop_condition E" and
    "status_update E' = status_update E" and "patch_instance E' = patch_instance E"
  unfolding fun_eq_iff
  by (simp_all only: put_condition_def drop_condition_def status_update_def patch_instance_def
      blind [OF assms] simp_thms)

section \<open>Backups\<close>

lemma blind_backup1 [blind]:
  assumes "same_calls E E'"
  shows "GetJob E' = GetJob E" and "ReadS3CredsFromSecret E' = ReadS3CredsFromSecret E" and
    "EnsureFinalizer E' = EnsureFinalizer E" and "RemoveFinalizer E' = RemoveFinalizer E" and
    "mutate_cronjob E' = mutate_cronjob E" and "deleteCronJob E' = deleteCronJob E" and
    "start_final_backup E' = start_final_backup E" and "start_oneshot E' = start_oneshot E"
  unfolding fun_eq_iff
  by (simp_all only: GetJob_def ReadS3CredsFromSecret_def EnsureFinalizer_def RemoveFinalizer_def mutate_cronjob_def
      deleteCronJob_def start_final_backup_def start_oneshot_def
      blind [OF assms] simp_thms)

lemma blind_backup2 [blind]:
  assumes "same_calls E E'"
  shows "ReconcileCronJob E' = ReconcileCronJob E" and "release E' = release E" and "RunOneShot E' = RunOneShot E"
  unfolding fun_eq_iff
  by (simp_all only: ReconcileCronJob_def release_def RunOneShot_def
      blind [OF assms] simp_thms)

lemma blind_backup3 [blind]:
  assumes "same_calls E E'"
  shows "await_final_backup E' = await_final_backup E"
  unfolding fun_eq_iff
  by (simp_all only: await_final_backup_def
      blind [OF assms] simp_thms)

lemma blind_backup4 [blind]:
  assumes "same_calls E E'"
  shows "HandleDeletion E' = HandleDeletion E"
  unfolding fun_eq_iff
  by (simp_all only: HandleDeletion_def
      blind [OF assms] simp_thms)

section \<open>Imports\<close>

lemma blind_latches1 [blind]:
  assumes "same_calls E E'"
  shows "RestoreReconcile E' = RestoreReconcile E" and "move_advisory E' = move_advisory E"
  unfolding fun_eq_iff
  by (simp_all only: RestoreReconcile_def move_advisory_def
      blind [OF assms] simp_thms)

lemma blind_latches2 [blind]:
  assumes "same_calls E E'"
  shows "MigrationReconcile E' = MigrationReconcile E"
  unfolding fun_eq_iff
  by (simp_all only: MigrationReconcile_def
      blind [OF assms] simp_thms)

section \<open>Updates\<close>

lemma blind_update1 [blind]:
  assumes "same_calls E E'"
  shows "get_sts E' = get_sts E" and "drop_target_annotation E' = drop_target_annotation E" and
    "countProbeFailures E' = countProbeFailures E" and "roll_image E' = roll_image E" and
    "mark_in_flight E' = mark_in_flight E" and "mark_rolled_back E' = mark_rolled_back E" and
    "past_deadline E' = past_deadline E" and "record_verdict E' = record_verdict E"
  unfolding fun_eq_iff
  by (simp_all only: get_sts_def drop_target_annotation_def countProbeFailures_def roll_image_def mark_in_flight_def
      mark_rolled_back_def past_deadline_def record_verdict_def
      blind [OF assms] simp_thms)

lemma blind_update2 [blind]:
  assumes "same_calls E E'"
  shows "begin_rollout E' = begin_rollout E" and "confirmRollout E' = confirmRollout E" and "rollback E' = rollback E"
  unfolding fun_eq_iff
  by (simp_all only: begin_rollout_def confirmRollout_def rollback_def
      blind [OF assms] simp_thms)

lemma blind_update3 [blind]:
  assumes "same_calls E E'"
  shows "startRollout up E' = startRollout up E" and "driveRollout E' = driveRollout E"
  unfolding fun_eq_iff
  by (simp_all only: startRollout_def driveRollout_def
      blind [OF assms] simp_thms)

lemma blind_update4 [blind]:
  assumes "same_calls E E'"
  shows "decide_update up E' = decide_update up E"
  unfolding fun_eq_iff
  by (simp_all only: decide_update_def
      blind [OF assms] simp_thms)

lemma blind_update5 [blind]:
  assumes "same_calls E E'"
  shows "AutoUpdateReconcile up E' = AutoUpdateReconcile up E"
  unfolding fun_eq_iff
  by (simp_all only: AutoUpdateReconcile_def
      blind [OF assms] simp_thms)

section \<open>Semaphore\<close>

lemma blind_semaphore1 [blind]:
  assumes "same_calls E E'"
  shows "admin_password E' = admin_password E" and "create_secret E' = create_secret E" and "ensure_skill E' = ensure_skill E" and
    "cleanup_password E' = cleanup_password E"
  unfolding fun_eq_iff
  by (simp_all only: admin_password_def create_secret_def ensure_skill_def cleanup_password_def
      blind [OF assms] simp_thms)

lemma blind_semaphore2 [blind]:
  assumes "same_calls E E'"
  shows "generate_token H E' = generate_token H E" and "cleanup H E' = cleanup H E"
  unfolding fun_eq_iff
  by (simp_all only: generate_token_def cleanup_def
      blind [OF assms] simp_thms)

lemma blind_semaphore3 [blind]:
  assumes "same_calls E E'"
  shows "ensure_token H E' = ensure_token H E" and "semaphoreCleanup H E' = semaphoreCleanup H E"
  unfolding fun_eq_iff
  by (simp_all only: ensure_token_def semaphoreCleanup_def
      blind [OF assms] simp_thms)

lemma blind_semaphore4 [blind]:
  assumes "same_calls E E'"
  shows "provision H E' = provision H E"
  unfolding fun_eq_iff
  by (simp_all only: provision_def
      blind [OF assms] simp_thms)

lemma blind_semaphore5 [blind]:
  assumes "same_calls E E'"
  shows "reconcileSemaphore H E' = reconcileSemaphore H E"
  unfolding fun_eq_iff
  by (simp_all only: reconcileSemaphore_def
      blind [OF assms] simp_thms)

section \<open>Steps\<close>

lemma blind_object1 [blind]:
  assumes "same_calls E E'"
  shows "own E' = own E" and "GenerateAPIServerKey E' = GenerateAPIServerKey E" and "must_parse_ok E' = must_parse_ok E" and
    "resolveConfigBody yl E' = resolveConfigBody yl E"
  unfolding fun_eq_iff
  by (simp_all only: own_def GenerateAPIServerKey_def must_parse_ok_def resolveConfigBody_def
      blind [OF assms] simp_thms)

lemma blind_apply:
  assumes "same_calls E E'" and "un_GVK desired \<in> used_gvks"
  shows "apply_unstructured E' inst a desired = apply_unstructured E inst a desired"
  unfolding fun_eq_iff by (simp only: apply_unstructured_def same_unstructured [OF assms] blind [OF assms(1)] simp_thms)

lemma built_gvks:
  "BuildHTTPRoute inst = Some d \<Longrightarrow> un_GVK d \<in> used_gvks" "un_GVK (BuildServiceMonitor inst) \<in> used_gvks"
  "un_GVK (BuildPrometheusRule inst) \<in> used_gvks"
  by (auto simp: BuildHTTPRoute_def BuildServiceMonitor_def BuildPrometheusRule_def used_gvks_def Let_def split: option.splits if_splits)

lemma blind_unstructured [blind]:
  assumes "same_calls E E'"
  shows "reconcileHTTPRoute E' = reconcileHTTPRoute E" and "reconcileServiceMonitor crds E' = reconcileServiceMonitor crds E"
    and "reconcilePrometheusRule crds E' = reconcilePrometheusRule crds E"
proof -
  have d: "deleteIfExists (env_unstructured E' g) = deleteIfExists (env_unstructured E g)" if "g \<in> used_gvks" for g
    by (rule deleteIfExists_cong; rule same_unstructured [OF assms that])
  have r: "(case BuildHTTPRoute inst of None \<Rightarrow> (Some nil_deref, w) | Some x \<Rightarrow> apply_unstructured E' inst True x w) =
      (case BuildHTTPRoute inst of None \<Rightarrow> (Some nil_deref, w) | Some x \<Rightarrow> apply_unstructured E inst True x w)" for inst w
    by (cases "BuildHTTPRoute inst") (simp_all add: blind_apply [OF assms built_gvks(1)])
  show "reconcileHTTPRoute E' = reconcileHTTPRoute E"
    unfolding fun_eq_iff by (simp only: reconcileHTTPRoute_def d [OF gvks_used(1)] r simp_thms)
  show "reconcileServiceMonitor crds E' = reconcileServiceMonitor crds E"
    unfolding fun_eq_iff
    by (simp only: reconcileServiceMonitor_def d [OF gvks_used(2)] blind_apply [OF assms built_gvks(2)] simp_thms)
  show "reconcilePrometheusRule crds E' = reconcilePrometheusRule crds E"
    unfolding fun_eq_iff
    by (simp only: reconcilePrometheusRule_def d [OF gvks_used(3)] blind_apply [OF assms built_gvks(3)] simp_thms)
qed

lemma blind_object2 [blind]:
  assumes "same_calls E E'"
  shows "mutate_secret E' = mutate_secret E" and "create_owned_pvc E' = create_owned_pvc E" and
    "put_configmap E' = put_configmap E" and "mutate_dashboard E' = mutate_dashboard E" and "mutate_sa E' = mutate_sa E" and
    "mutate_role E' = mutate_role E" and "mutate_rolebinding E' = mutate_rolebinding E" and
    "mutate_netpol E' = mutate_netpol E" and "mutate_service E' = mutate_service E" and "mutate_pdb E' = mutate_pdb E" and
    "mutate_hpa E' = mutate_hpa E" and "mutate_ingress E' = mutate_ingress E" and
    "mutate_statefulset mig E' = mutate_statefulset mig E" and "mutate_deployment E' = mutate_deployment E"
  unfolding fun_eq_iff
  by (simp_all only: mutate_secret_def create_owned_pvc_def put_configmap_def mutate_dashboard_def mutate_sa_def mutate_role_def
      mutate_rolebinding_def mutate_netpol_def mutate_service_def mutate_pdb_def mutate_hpa_def mutate_ingress_def
      mutate_statefulset_def mutate_deployment_def
      blind [OF assms] simp_thms)

lemma blind_object3 [blind]:
  assumes "same_calls E E'"
  shows "reconcileSecret E' = reconcileSecret E" and "reconcilePVC E' = reconcilePVC E" and
    "mutate_configmap yl E' = mutate_configmap yl E" and "mutate_workspace E' = mutate_workspace E" and
    "apply_dashboard E' = apply_dashboard E" and "reconcileRBAC E' = reconcileRBAC E" and
    "reconcileNetworkPolicy E' = reconcileNetworkPolicy E" and "reconcileService E' = reconcileService E" and
    "reconcilePDB E' = reconcilePDB E" and "reconcileHPA E' = reconcileHPA E" and
    "reconcileIngress E' = reconcileIngress E" and "reconcileStatefulSet mig E' = reconcileStatefulSet mig E" and
    "honcho_pvc E' = honcho_pvc E" and "honcho_netpol E' = honcho_netpol E"
  unfolding fun_eq_iff
  by (simp_all only: reconcileSecret_def reconcilePVC_def mutate_configmap_def mutate_workspace_def apply_dashboard_def
      reconcileRBAC_def reconcileNetworkPolicy_def reconcileService_def reconcilePDB_def reconcileHPA_def
      reconcileIngress_def reconcileStatefulSet_def honcho_pvc_def honcho_netpol_def
      blind [OF assms] simp_thms)

lemma blind_object4 [blind]:
  assumes "same_calls E E'"
  shows "reconcileConfigMap yl E' = reconcileConfigMap yl E" and
    "reconcileWorkspaceConfigMap E' = reconcileWorkspaceConfigMap E" and
    "reconcileGrafanaDashboards E' = reconcileGrafanaDashboards E" and "reconcileHoncho E' = reconcileHoncho E"
  unfolding fun_eq_iff
  by (simp_all only: reconcileConfigMap_def reconcileWorkspaceConfigMap_def reconcileGrafanaDashboards_def reconcileHoncho_def
      blind [OF assms] simp_thms)

section \<open>Passes\<close>

lemma blind_instance1 [blind]:
  assumes "same_calls E E'"
  shows "setCondition E' = setCondition E" and "ensure_semaphore_finalizer E' = ensure_semaphore_finalizer E"
  unfolding fun_eq_iff
  by (simp_all only: setCondition_def ensure_semaphore_finalizer_def
      blind [OF assms] simp_thms)

lemma blind_instance2 [blind]:
  assumes "same_calls E E'"
  shows "updateProfileStoreCondition E' = updateProfileStoreCondition E" and "updateStatus E' = updateStatus E"
  unfolding fun_eq_iff
  by (simp_all only: updateProfileStoreCondition_def updateStatus_def
      blind [OF assms] simp_thms)

lemma blind_pipeline [blind]:
  assumes "same_calls E E'"
  shows "run_pipeline E' L = run_pipeline E L"
proof -
  have "run_pipeline E' L inst w = run_pipeline E L inst w" for inst w
  proof (induction L arbitrary: inst w)
    case (Cons s L)
    obtain name cond fn where "s = (name, cond, fn)" by (cases s)
    then show ?case by (simp add: blind [OF assms] Cons.IH split: prod.splits option.splits)
  qed simp
  then show ?thesis by (simp add: fun_eq_iff)
qed

definition with_env :: "'w env \<Rightarrow> ('v, 'w) reconciler \<Rightarrow> ('v, 'w) reconciler" where
  "with_env E R = R\<lparr>rc_env := E\<rparr>"

lemma with_env_simps [simp]:
  "rc_env (with_env E R) = E" "rc_http (with_env E R) = rc_http R"
  "rc_yaml (with_env E R) = rc_yaml R" "rc_Backup (with_env E R) = rc_Backup R" "rc_Restore (with_env E R) = rc_Restore R"
  "rc_PrometheusOperatorCRDsPresent (with_env E R) = rc_PrometheusOperatorCRDsPresent R"
  "rc_AutoUpdate (with_env E R) = rc_AutoUpdate R" "rc_Migration (with_env E R) = rc_Migration R"
  by (simp_all add: with_env_def)

lemma same_pass:
  assumes "same_calls (rc_env R) E'"
  shows "Reconcile (with_env E' R) = Reconcile R"
proof -
  note b = with_env_simps blind [OF assms] simp_thms
  have 1: "run_chain (with_env E' R) = run_chain R"
    unfolding fun_eq_iff by (simp only: run_chain_def Let_def b)
  have 2: "finish_pass (with_env E' R) = finish_pass R"
    unfolding fun_eq_iff by (simp only: finish_pass_def 1 b)
  have 3: "ensure_finalizers (with_env E' R) = ensure_finalizers R"
    unfolding fun_eq_iff by (simp only: ensure_finalizers_def b)
  have 4: "release_semaphore (with_env E' R) = release_semaphore R"
    unfolding fun_eq_iff by (simp only: release_semaphore_def b)
  have 5: "reconcile_deleted (with_env E' R) = reconcile_deleted R"
    unfolding fun_eq_iff by (simp only: reconcile_deleted_def 4 b)
  have 6: "steps (with_env E' R) = steps R"
    by (simp only: steps_def resource_steps_def Let_def b)
  have 7: "reconcile_live (with_env E' R) = reconcile_live R"
    unfolding fun_eq_iff by (simp only: reconcile_live_def 2 3 6 b)
  have 8: "reconcile_instance (with_env E' R) = reconcile_instance R"
    unfolding fun_eq_iff by (simp only: reconcile_instance_def 5 7 simp_thms)
  show ?thesis unfolding fun_eq_iff by (simp only: Reconcile_def 8 b)
qed

section \<open>Self-configuration\<close>

lemma blind_selfconfig1 [blind]:
  assumes "same_calls E E'"
  shows "emitSelfConfigEvent E' = emitSelfConfigEvent E" and "incSelfConfigApplied E' = incSelfConfigApplied E" and
    "incSelfConfigDenied E' = incSelfConfigDenied E" and "apply_skills E' = apply_skills E" and
    "apply_env E' = apply_env E" and "apply_workspace E' = apply_workspace E" and "apply_snapshot E' = apply_snapshot E" and
    "sc_status_update E' = sc_status_update E"
  unfolding fun_eq_iff
  by (simp_all only: emitSelfConfigEvent_def incSelfConfigApplied_def incSelfConfigDenied_def apply_skills_def apply_env_def
      apply_workspace_def apply_snapshot_def sc_status_update_def
      blind [OF assms] simp_thms)

lemma blind_selfconfig2 [blind]:
  assumes "same_calls E E'"
  shows "applyAll E' = applyAll E" and "deny E' = deny E" and "markApplied E' = markApplied E"
  unfolding fun_eq_iff
  by (simp_all only: applyAll_def deny_def markApplied_def
      blind [OF assms] simp_thms)

lemma blind_selfconfig3 [blind]:
  assumes "same_calls E E'"
  shows "sc_process E' = sc_process E"
  unfolding fun_eq_iff
  by (simp_all only: sc_process_def
      blind [OF assms] simp_thms)

lemma blind_selfconfig4 [blind]:
  assumes "same_calls E E'"
  shows "sc_reconcile E' = sc_reconcile E"
  unfolding fun_eq_iff
  by (simp_all only: sc_reconcile_def
      blind [OF assms] simp_thms)

section \<open>Cluster defaults\<close>

lemma blind_defaults1 [blind]:
  assumes "same_calls E E'"
  shows "report_singleton E' = report_singleton E" and "warn_name E' = warn_name E"
  unfolding fun_eq_iff
  by (simp_all only: report_singleton_def warn_name_def
      blind [OF assms] simp_thms)

lemma blind_defaults2 [blind]:
  assumes "same_calls E E'"
  shows "DefaultsReconcile E' = DefaultsReconcile E"
  unfolding fun_eq_iff
  by (simp_all only: DefaultsReconcile_def
      blind [OF assms] simp_thms)

end
