(* ===== verification/Access.thy ===== *)
theory Access
  imports Calls
begin

text \<open>
  What the operator is allowed to do and what it does. \<open>operator_rights\<close> are the permissions the
  sources declare in their \<open>+kubebuilder:rbac\<close> markers, which the ClusterRole of the operator is
  generated from; \<open>guarded_env\<close> is an environment behind an authorizer that refuses every call a
  list of rules does not grant. The meaning of a rule is that of theory \<open>Workload\<close>.
  \<open>operator_controllers\<close> are the watches the \<open>SetupWithManager\<close> methods set up.
\<close>

section \<open>The declared rights\<close>

definition marker :: "string list \<Rightarrow> string list \<Rightarrow> string list \<Rightarrow> PolicyRule" where
  "marker groups resources verbs =
     \<lparr>rule_APIGroups = groups, rule_Resources = resources, rule_ResourceNames = [], rule_Verbs = verbs\<rparr>"

abbreviation all_verbs :: "string list" where
  "all_verbs \<equiv> [''get'', ''list'', ''watch'', ''create'', ''update'', ''patch'', ''delete'']"

abbreviation read_verbs :: "string list" where
  "read_verbs \<equiv> [''get'', ''list'', ''watch'']"

definition instance_markers :: "PolicyRule list" where
  "instance_markers =
     [marker [''hermes.agent''] [''hermesinstances''] all_verbs,
      marker [''hermes.agent''] [''hermesinstances/status''] [''get'', ''update'', ''patch''],
      marker [''hermes.agent''] [''hermesinstances/finalizers''] [''update''],
      marker [''apps''] [''deployments''] all_verbs,
      marker [''apps''] [''statefulsets''] all_verbs,
      marker [''''] [''services'', ''configmaps'', ''persistentvolumeclaims'', ''secrets'', ''serviceaccounts'', ''events''] all_verbs,
      marker [''networking.k8s.io''] [''networkpolicies'', ''ingresses''] all_verbs,
      marker [''gateway.networking.k8s.io''] [''httproutes''] all_verbs,
      marker [''policy''] [''poddisruptionbudgets''] all_verbs,
      marker [''autoscaling''] [''horizontalpodautoscalers''] all_verbs,
      marker [''rbac.authorization.k8s.io''] [''roles'', ''rolebindings''] all_verbs,
      marker [''monitoring.coreos.com''] [''servicemonitors'', ''prometheusrules''] all_verbs,
      marker [''batch''] [''jobs'', ''cronjobs''] all_verbs,
      marker [''''] [''pods''] read_verbs,
      marker [''''] [''events''] [''get'', ''list'', ''watch'', ''create'', ''patch''],
      marker [''openclaw.rocks''] [''openclawinstances''] read_verbs]"

definition selfconfig_markers :: "PolicyRule list" where
  "selfconfig_markers =
     [marker [''hermes.agent''] [''hermesselfconfigs''] all_verbs,
      marker [''hermes.agent''] [''hermesselfconfigs/status''] [''get'', ''update'', ''patch''],
      marker [''hermes.agent''] [''hermesselfconfigs/finalizers''] [''update''],
      marker [''hermes.agent''] [''hermesinstances''] [''get'', ''list'', ''watch'', ''patch''],
      marker [''''] [''configmaps''] [''get'', ''list'', ''watch'', ''patch''],
      marker [''batch''] [''jobs''] [''get'', ''list'', ''watch'', ''create'', ''patch''],
      marker [''''] [''events''] [''create'', ''patch'']]"

definition defaults_markers :: "PolicyRule list" where
  "defaults_markers =
     [marker [''hermes.agent''] [''hermesclusterdefaults''] [''get'', ''list'', ''watch'', ''update'', ''patch''],
      marker [''hermes.agent''] [''hermesclusterdefaults/status''] [''get'', ''update'', ''patch''],
      marker [''''] [''events''] [''create'', ''patch'']]"

definition backup_marker :: PolicyRule where
  "backup_marker = marker [''batch''] [''jobs'', ''cronjobs''] all_verbs"

definition update_marker :: PolicyRule where
  "update_marker = marker [''''] [''events''] read_verbs"

definition migration_markers :: "PolicyRule list" where
  "migration_markers =
     [marker [''openclaw.rocks''] [''openclawinstances''] read_verbs,
      marker [''''] [''persistentvolumeclaims''] read_verbs]"

definition operator_rights :: "PolicyRule list" where
  "operator_rights =
     instance_markers @ selfconfig_markers @ defaults_markers @ [backup_marker, update_marker] @ migration_markers"

section \<open>An authorizer\<close>

text \<open>The rules let their holder do something to every object of a resource.\<close>

definition may :: "PolicyRule list \<Rightarrow> string \<Rightarrow> string \<Rightarrow> string \<Rightarrow> bool" where
  "may rights grp resource verb \<longleftrightarrow>
     (\<exists>r \<in> set rights. grp \<in> set (rule_APIGroups r) \<and> resource \<in> set (rule_Resources r) \<and> verb \<in> set (rule_Verbs r) \<and>
        rule_ResourceNames r = [])"

definition forbidden :: go_error where
  "forbidden = ApiStatus ReasonOther ''forbidden''"

text \<open>
  Which verbs a call of the client takes. The manager's client reads typed objects through its
  cache, which lists and watches them, and unstructured ones directly; \<open>CreateOrUpdate\<close> reads, creates
  and updates; a server-side apply may create; a status update is one of the status subresource.
\<close>

definition guard :: "bool \<Rightarrow> (string \<Rightarrow> bool) \<Rightarrow> (string \<Rightarrow> bool) \<Rightarrow> ('o, 'w) kind_client \<Rightarrow> ('o, 'w) kind_client" where
  "guard cached ok status_ok kc =
     (let reads = ok ''get'' \<and> (cached \<longrightarrow> ok ''list'' \<and> ok ''watch'') in
      \<lparr>kc_get = (if reads then kc_get kc else (\<lambda>k w. (Inl forbidden, w))),
       kc_list = (if reads \<and> ok ''list'' then kc_list kc else (\<lambda>ns w. (Inl forbidden, w))),
       kc_create = (if ok ''create'' then kc_create kc else (\<lambda>x w. (Some forbidden, w))),
       kc_delete = (if ok ''delete'' then kc_delete kc else (\<lambda>x w. (Some forbidden, w))),
       kc_patch = (if ok ''patch'' then kc_patch kc else (\<lambda>x y w. (Inl forbidden, w))),
       kc_apply = (if ok ''patch'' \<and> ok ''create'' then kc_apply kc else (\<lambda>x s b w. (Some forbidden, w))),
       kc_status_update = (if status_ok ''update'' then kc_status_update kc else (\<lambda>x w. (Inl forbidden, w))),
       kc_create_or_update =
         (if reads \<and> ok ''create'' \<and> ok ''update'' then kc_create_or_update kc else (\<lambda>x f w. (Some forbidden, w)))\<rparr>)"

definition guard_kind :: "PolicyRule list \<Rightarrow> string \<Rightarrow> string \<Rightarrow> ('o, 'w) kind_client \<Rightarrow> ('o, 'w) kind_client" where
  "guard_kind rights grp resource = guard True (may rights grp resource) (may rights grp (resource @ ''/status''))"

definition guarded_env :: "PolicyRule list \<Rightarrow> 'w env \<Rightarrow> 'w env" where
  "guarded_env rights E = E
     \<lparr>env_instances := guard_kind rights ''hermes.agent'' ''hermesinstances'' (env_instances E),
      env_selfconfigs := guard_kind rights ''hermes.agent'' ''hermesselfconfigs'' (env_selfconfigs E),
      env_clusterdefaults := guard_kind rights ''hermes.agent'' ''hermesclusterdefaults'' (env_clusterdefaults E),
      env_secrets := guard_kind rights '''' ''secrets'' (env_secrets E),
      env_configmaps := guard_kind rights '''' ''configmaps'' (env_configmaps E),
      env_pvcs := guard_kind rights '''' ''persistentvolumeclaims'' (env_pvcs E),
      env_serviceaccounts := guard_kind rights '''' ''serviceaccounts'' (env_serviceaccounts E),
      env_roles := guard_kind rights ''rbac.authorization.k8s.io'' ''roles'' (env_roles E),
      env_rolebindings := guard_kind rights ''rbac.authorization.k8s.io'' ''rolebindings'' (env_rolebindings E),
      env_services := guard_kind rights '''' ''services'' (env_services E),
      env_netpols := guard_kind rights ''networking.k8s.io'' ''networkpolicies'' (env_netpols E),
      env_pdbs := guard_kind rights ''policy'' ''poddisruptionbudgets'' (env_pdbs E),
      env_hpas := guard_kind rights ''autoscaling'' ''horizontalpodautoscalers'' (env_hpas E),
      env_ingresses := guard_kind rights ''networking.k8s.io'' ''ingresses'' (env_ingresses E),
      env_unstructured := (\<lambda>g. guard False (may rights (gvk_Group g) (ToLower (gvk_Kind g) @ ''s''))
        (may rights (gvk_Group g) (ToLower (gvk_Kind g) @ ''s/status'')) (env_unstructured E g)),
      env_statefulsets := guard_kind rights ''apps'' ''statefulsets'' (env_statefulsets E),
      env_deployments := guard_kind rights ''apps'' ''deployments'' (env_deployments E),
      env_cronjobs := guard_kind rights ''batch'' ''cronjobs'' (env_cronjobs E),
      env_jobs := guard_kind rights ''batch'' ''jobs'' (env_jobs E),
      env_pods := guard_kind rights '''' ''pods'' (env_pods E),
      env_events := guard_kind rights '''' ''events'' (env_events E)\<rparr>"

text \<open>The verbs the reconcilers need, by group and resource.\<close>

definition needed_rights :: "(string \<times> string \<times> string list) list" where
  "needed_rights =
     [(''hermes.agent'', ''hermesinstances'', read_verbs @ [''create'', ''patch'']),
      (''hermes.agent'', ''hermesinstances/status'', [''update'']),
      (''hermes.agent'', ''hermesselfconfigs'', read_verbs), (''hermes.agent'', ''hermesselfconfigs/status'', [''update'']),
      (''hermes.agent'', ''hermesclusterdefaults'', read_verbs), (''hermes.agent'', ''hermesclusterdefaults/status'', [''update'']),
      ('''', ''secrets'', read_verbs @ [''create'', ''update'']),
      ('''', ''configmaps'', all_verbs),
      ('''', ''persistentvolumeclaims'', read_verbs @ [''create'']),
      ('''', ''serviceaccounts'', read_verbs @ [''create'', ''update'']),
      (''rbac.authorization.k8s.io'', ''roles'', read_verbs @ [''create'', ''update'']),
      (''rbac.authorization.k8s.io'', ''rolebindings'', read_verbs @ [''create'', ''update'']),
      ('''', ''services'', read_verbs @ [''create'', ''update'', ''delete'']),
      (''networking.k8s.io'', ''networkpolicies'', read_verbs @ [''create'', ''update'', ''delete'']),
      (''policy'', ''poddisruptionbudgets'', read_verbs @ [''create'', ''update'', ''delete'']),
      (''autoscaling'', ''horizontalpodautoscalers'', read_verbs @ [''create'', ''update'', ''delete'']),
      (''networking.k8s.io'', ''ingresses'', read_verbs @ [''create'', ''update'', ''delete'']),
      (''gateway.networking.k8s.io'', ''httproutes'', [''get'', ''create'', ''update'', ''delete'']),
      (''monitoring.coreos.com'', ''servicemonitors'', [''get'', ''create'', ''update'', ''delete'']),
      (''monitoring.coreos.com'', ''prometheusrules'', [''get'', ''create'', ''update'', ''delete'']),
      (''apps'', ''statefulsets'', read_verbs @ [''create'', ''update'', ''patch'']),
      (''apps'', ''deployments'', read_verbs @ [''create'', ''update'', ''delete'']),
      (''batch'', ''cronjobs'', read_verbs @ [''create'', ''update'', ''delete'']),
      (''batch'', ''jobs'', read_verbs @ [''create'']), ('''', ''pods'', read_verbs), ('''', ''events'', read_verbs)]"

definition covers_needs :: "PolicyRule list \<Rightarrow> bool" where
  "covers_needs rights \<longleftrightarrow> list_all (\<lambda>(g, r, vs). list_all (may rights g r) vs) needed_rights"

lemma operator_covers: "covers_needs operator_rights"
  by code_simp

lemma unstructured_resources:
  "gvk_Group HTTPRouteGVK = ''gateway.networking.k8s.io''" "ToLower (gvk_Kind HTTPRouteGVK) @ ''s'' = ''httproutes''"
  "gvk_Group ServiceMonitorGVK = ''monitoring.coreos.com''" "ToLower (gvk_Kind ServiceMonitorGVK) @ ''s'' = ''servicemonitors''"
  "gvk_Group PrometheusRuleGVK = ''monitoring.coreos.com''" "ToLower (gvk_Kind PrometheusRuleGVK) @ ''s'' = ''prometheusrules''"
  by (simp_all add: HTTPRouteGVK_def ServiceMonitorGVK_def PrometheusRuleGVK_def) code_simp+

lemma guarded_clients:
  "env_instances (guarded_env rs E) = guard_kind rs ''hermes.agent'' ''hermesinstances'' (env_instances E)"
  "env_selfconfigs (guarded_env rs E) = guard_kind rs ''hermes.agent'' ''hermesselfconfigs'' (env_selfconfigs E)"
  "env_clusterdefaults (guarded_env rs E) = guard_kind rs ''hermes.agent'' ''hermesclusterdefaults'' (env_clusterdefaults E)"
  "env_secrets (guarded_env rs E) = guard_kind rs '''' ''secrets'' (env_secrets E)"
  "env_configmaps (guarded_env rs E) = guard_kind rs '''' ''configmaps'' (env_configmaps E)"
  "env_pvcs (guarded_env rs E) = guard_kind rs '''' ''persistentvolumeclaims'' (env_pvcs E)"
  "env_serviceaccounts (guarded_env rs E) = guard_kind rs '''' ''serviceaccounts'' (env_serviceaccounts E)"
  "env_roles (guarded_env rs E) = guard_kind rs ''rbac.authorization.k8s.io'' ''roles'' (env_roles E)"
  "env_rolebindings (guarded_env rs E) = guard_kind rs ''rbac.authorization.k8s.io'' ''rolebindings'' (env_rolebindings E)"
  "env_services (guarded_env rs E) = guard_kind rs '''' ''services'' (env_services E)"
  "env_netpols (guarded_env rs E) = guard_kind rs ''networking.k8s.io'' ''networkpolicies'' (env_netpols E)"
  "env_pdbs (guarded_env rs E) = guard_kind rs ''policy'' ''poddisruptionbudgets'' (env_pdbs E)"
  "env_hpas (guarded_env rs E) = guard_kind rs ''autoscaling'' ''horizontalpodautoscalers'' (env_hpas E)"
  "env_ingresses (guarded_env rs E) = guard_kind rs ''networking.k8s.io'' ''ingresses'' (env_ingresses E)"
  "env_unstructured (guarded_env rs E) g = guard False (may rs (gvk_Group g) (ToLower (gvk_Kind g) @ ''s''))
     (may rs (gvk_Group g) (ToLower (gvk_Kind g) @ ''s/status'')) (env_unstructured E g)"
  "env_statefulsets (guarded_env rs E) = guard_kind rs ''apps'' ''statefulsets'' (env_statefulsets E)"
  "env_deployments (guarded_env rs E) = guard_kind rs ''apps'' ''deployments'' (env_deployments E)"
  "env_cronjobs (guarded_env rs E) = guard_kind rs ''batch'' ''cronjobs'' (env_cronjobs E)"
  "env_jobs (guarded_env rs E) = guard_kind rs ''batch'' ''jobs'' (env_jobs E)"
  "env_pods (guarded_env rs E) = guard_kind rs '''' ''pods'' (env_pods E)"
  "env_events (guarded_env rs E) = guard_kind rs '''' ''events'' (env_events E)"
  by (simp_all add: guarded_env_def)

lemma guarded_rest:
  "env_now (guarded_env rs E) = env_now E" "env_random (guarded_env rs E) = env_random E" "env_record (guarded_env rs E) = env_record E"
  "env_count (guarded_env rs E) = env_count E" "env_set_owner (guarded_env rs E) = env_set_owner E"
  "env_set_condition (guarded_env rs E) = env_set_condition E" "env_remove_condition (guarded_env rs E) = env_remove_condition E"
  "env_condition_true (guarded_env rs E) = env_condition_true E" "env_quantity_ok (guarded_env rs E) = env_quantity_ok E"
  by (simp_all add: guarded_env_def)

lemma guard_passes:
  "ok ''get'' \<Longrightarrow> kc_get (guard False ok so kc) = kc_get kc"
  "ok ''get'' \<Longrightarrow> ok ''list'' \<Longrightarrow> ok ''watch'' \<Longrightarrow> kc_get (guard True ok so kc) = kc_get kc"
  "ok ''get'' \<Longrightarrow> ok ''list'' \<Longrightarrow> ok ''watch'' \<Longrightarrow> kc_list (guard True ok so kc) = kc_list kc"
  "ok ''create'' \<Longrightarrow> kc_create (guard c ok so kc) = kc_create kc"
  "ok ''delete'' \<Longrightarrow> kc_delete (guard c ok so kc) = kc_delete kc"
  "ok ''patch'' \<Longrightarrow> kc_patch (guard c ok so kc) = kc_patch kc"
  "ok ''patch'' \<Longrightarrow> ok ''create'' \<Longrightarrow> kc_apply (guard c ok so kc) = kc_apply kc"
  "so ''update'' \<Longrightarrow> kc_status_update (guard c ok so kc) = kc_status_update kc"
  "ok ''get'' \<Longrightarrow> ok ''create'' \<Longrightarrow> ok ''update'' \<Longrightarrow> kc_create_or_update (guard False ok so kc) = kc_create_or_update kc"
  "ok ''get'' \<Longrightarrow> ok ''list'' \<Longrightarrow> ok ''watch'' \<Longrightarrow> ok ''create'' \<Longrightarrow> ok ''update'' \<Longrightarrow>
   kc_create_or_update (guard True ok so kc) = kc_create_or_update kc"
  by (simp_all add: guard_def)

lemma guarded_same:
  assumes "covers_needs rights"
  shows "same_calls E (guarded_env rights E)"
proof -
  note n = assms [unfolded covers_needs_def needed_rights_def list.pred_inject append.simps prod.case]
  show ?thesis
    unfolding same_calls_def used_gvks_def ball_simps guarded_clients guarded_rest guard_kind_def unstructured_resources append.simps
    by (intro conjI guard_passes refl) (simp_all only: n simp_thms)
qed

section \<open>The watches\<close>

text \<open>
  A controller as \<open>SetupWithManager\<close> sets it up: its name, the kind it reconciles and the kinds whose
  owned objects wake it, each kind by its group.
\<close>

record controller_setup =
  cs_Name :: string
  cs_For :: "string \<times> string"
  cs_Owns :: "(string \<times> string) list"

definition instance_setup :: controller_setup where
  "instance_setup =
     \<lparr>cs_Name = ''hermesinstance'', cs_For = (''hermes.agent'', ''HermesInstance''),
      cs_Owns =
        [(''apps'', ''StatefulSet''), (''apps'', ''Deployment''), ('''', ''Service''), ('''', ''ConfigMap''),
         ('''', ''PersistentVolumeClaim''), ('''', ''Secret''), ('''', ''ServiceAccount''),
         (''rbac.authorization.k8s.io'', ''Role''), (''rbac.authorization.k8s.io'', ''RoleBinding''),
         (''networking.k8s.io'', ''NetworkPolicy''), (''networking.k8s.io'', ''Ingress''), (''policy'', ''PodDisruptionBudget''),
         (''autoscaling'', ''HorizontalPodAutoscaler''), (''batch'', ''Job''), (''batch'', ''CronJob'')]\<rparr>"

definition selfconfig_setup :: controller_setup where
  "selfconfig_setup = \<lparr>cs_Name = ''hermesselfconfig'', cs_For = (''hermes.agent'', ''HermesSelfConfig''), cs_Owns = []\<rparr>"

definition defaults_setup :: controller_setup where
  "defaults_setup = \<lparr>cs_Name = ''hermesclusterdefaults'', cs_For = (''hermes.agent'', ''HermesClusterDefaults''), cs_Owns = []\<rparr>"

definition operator_controllers :: "controller_setup list" where
  "operator_controllers = [instance_setup, defaults_setup, selfconfig_setup]"

primrec kind_name :: "kind \<Rightarrow> string \<times> string" where
  "kind_name KSecret = ('''', ''Secret'')"
| "kind_name KPVC = ('''', ''PersistentVolumeClaim'')"
| "kind_name KConfigMap = ('''', ''ConfigMap'')"
| "kind_name KServiceAccount = ('''', ''ServiceAccount'')"
| "kind_name KRole = (''rbac.authorization.k8s.io'', ''Role'')"
| "kind_name KRoleBinding = (''rbac.authorization.k8s.io'', ''RoleBinding'')"
| "kind_name KService = ('''', ''Service'')"
| "kind_name KNetworkPolicy = (''networking.k8s.io'', ''NetworkPolicy'')"
| "kind_name KPDB = (''policy'', ''PodDisruptionBudget'')"
| "kind_name KHPA = (''autoscaling'', ''HorizontalPodAutoscaler'')"
| "kind_name KIngress = (''networking.k8s.io'', ''Ingress'')"
| "kind_name (KUnstructured g) = (gvk_Group g, gvk_Kind g)"
| "kind_name KStatefulSet = (''apps'', ''StatefulSet'')"
| "kind_name KDeployment = (''apps'', ''Deployment'')"

text \<open>The resource of a kind: its name in lower case, in the plural.\<close>

definition resource_name :: "string \<Rightarrow> string" where
  "resource_name k =
     (if k = ''NetworkPolicy'' then ''networkpolicies'' else if k = ''Ingress'' then ''ingresses''
      else if k = ''HermesClusterDefaults'' then ''hermesclusterdefaults'' else ToLower k @ ''s'')"

definition may_watch :: "PolicyRule list \<Rightarrow> string \<times> string \<Rightarrow> bool" where
  "may_watch rights gk \<longleftrightarrow>
     may rights (fst gk) (resource_name (snd gk)) ''list'' \<and> may rights (fst gk) (resource_name (snd gk)) ''watch''"

text \<open>Two clients for claims that may differ on updates, patches and deletions only.\<close>

definition same_claims :: "(PersistentVolumeClaim, 'w) kind_client \<Rightarrow> (PersistentVolumeClaim, 'w) kind_client \<Rightarrow> bool" where
  "same_claims kc kc' \<longleftrightarrow> kc_get kc = kc_get kc' \<and> kc_create kc = kc_create kc'"

definition with_claims :: "(PersistentVolumeClaim, 'w) kind_client \<Rightarrow> ('v, 'w) reconciler \<Rightarrow> ('v, 'w) reconciler" where
  "with_claims kc R = with_env ((rc_env R)\<lparr>env_pvcs := kc\<rparr>) R"

lemma operator_reads:
  "v \<in> {''get'', ''watch''} \<Longrightarrow> may operator_rights '''' ''configmaps'' v"
  "v \<in> {''get'', ''watch''} \<Longrightarrow> may operator_rights '''' ''secrets'' v"
  "may operator_rights ''hermes.agent'' ''hermesinstances'' ''get''"
  "v \<in> {''create'', ''get'', ''list''} \<Longrightarrow> may operator_rights ''hermes.agent'' ''hermesselfconfigs'' v"
  by (auto simp: may_def operator_rights_def instance_markers_def selfconfig_markers_def marker_def)

lemma managed_kinds:
  "fst ` managed_ids R inst \<subseteq> {KSecret, KPVC, KConfigMap, KNetworkPolicy, KServiceAccount, KRole, KRoleBinding, KService, KPDB,
     KHPA, KIngress, KStatefulSet, KDeployment} \<union> KUnstructured ` used_gvks"
  by (simp add: managed_ids_def goals_def Let_def rbac_ids_def dashboard_ids_def honcho_ids_def used_gvks_def image_Un)

lemma owned_kinds:
  "list_all (\<lambda>k. kind_name k \<in> set (cs_Owns instance_setup)) [KSecret, KPVC, KConfigMap, KNetworkPolicy, KServiceAccount,
     KRole, KRoleBinding, KService, KPDB, KHPA, KIngress, KStatefulSet, KDeployment]"
  "list_all (\<lambda>g. kind_name (KUnstructured g) \<notin> set (cs_Owns instance_setup)) [HTTPRouteGVK, ServiceMonitorGVK, PrometheusRuleGVK]"
  by code_simp+

section \<open>Properties\<close>

text \<open>
  C8. No pass updates, patches or deletes a volume claim, be it the data volume of the agent or that
  of the profile store: whatever a pass does and returns, on every path including deletion, is the
  same when those calls of the client for claims are replaced by any others.
\<close>

theorem claims_only_created:
  assumes "same_claims kc (env_pvcs (rc_env R))"
  shows "Reconcile (with_claims kc R) req w = Reconcile R req w"
proof -
  have "same_calls (rc_env R) ((rc_env R)\<lparr>env_pvcs := kc\<rparr>)" using assms by (simp add: same_calls_def same_claims_def)
  from same_pass [OF this] show ?thesis by (simp add: with_claims_def)
qed

text \<open>A client that refuses every deletion of a claim.\<close>

lemma claims_only_created_witness:
  "Reconcile (with_claims ((env_pvcs cluster_env)\<lparr>kc_delete := (\<lambda>x c. (Some (Plain ''refused''), c))\<rparr>) demo_reconciler)
     (''prod'', ''demo'') Map.empty = Reconcile demo_reconciler (''prod'', ''demo'') Map.empty"
proof -
  have "same_claims ((env_pvcs cluster_env)\<lparr>kc_delete := (\<lambda>x c. (Some (Plain ''refused''), c))\<rparr>) (env_pvcs (rc_env demo_reconciler))"
    by (simp add: same_claims_def)
  then show ?thesis by (rule claims_only_created)
qed

text \<open>
  C11. The operator is never refused: behind an API server that authorizes its calls by the rights
  its sources declare, the three reconcilers do and return on every path exactly what they would
  with no authorization at all.
\<close>

theorem operator_never_forbidden:
  "Reconcile (with_env (guarded_env operator_rights (rc_env R)) R) req w = Reconcile R req w \<and>
   sc_reconcile (guarded_env operator_rights E) lib key v = sc_reconcile E lib key v \<and>
   DefaultsReconcile (guarded_env operator_rights E) recorder name v = DefaultsReconcile E recorder name v"
  using same_pass [OF guarded_same [OF operator_covers], of R] blind [OF guarded_same [OF operator_covers, of E]]
  by (simp only: simp_thms)

text \<open>
  C21. No escalation: whatever the role of an agent allows it, the operator's own rights allow the
  operator. The API server requires this of whoever writes a role, so the role is never refused.
\<close>

theorem role_within_rights:
  assumes "role_allows (BuildRole inst) grp resource name verb"
  shows "may operator_rights grp resource verb"
  using assms by (auto simp: role_allows_def rule_allows_def BuildRole_def operator_reads split: if_splits)

lemma role_within_rights_witness:
  "may operator_rights '''' ''secrets'' ''get''"
  by (rule role_within_rights [of demo _ _ "GatewayTokenSecretName demo"])
    (simp add: role_allows_def rule_allows_def BuildRole_def)

text \<open>
  C22. The watches: the controllers have distinct names and may list and watch every kind they ask
  for, and a change of any object a pass manages wakes the instance controller, but for the objects
  of the three unstructured kinds, whose drift is only repaired when the next pass is due.
\<close>

theorem managed_kinds_watched:
  "distinct (map cs_Name operator_controllers) \<and>
   list_all (\<lambda>c. list_all (may_watch operator_rights) (cs_For c # cs_Owns c)) operator_controllers \<and>
   (oid \<in> managed_ids R inst \<longrightarrow>
      (kind_name (fst oid) \<in> set (cs_Owns instance_setup) \<longleftrightarrow> fst oid \<notin> KUnstructured ` used_gvks))"
proof (intro conjI impI)
  show "distinct (map cs_Name operator_controllers)"
    by (simp add: operator_controllers_def instance_setup_def selfconfig_setup_def defaults_setup_def)
  show "list_all (\<lambda>c. list_all (may_watch operator_rights) (cs_For c # cs_Owns c)) operator_controllers"
    by code_simp
  assume "oid \<in> managed_ids R inst"
  then have "fst oid \<in> fst ` managed_ids R inst" by (rule imageI)
  with managed_kinds [of R inst] have "fst oid \<in> {KSecret, KPVC, KConfigMap, KNetworkPolicy, KServiceAccount, KRole, KRoleBinding,
      KService, KPDB, KHPA, KIngress, KStatefulSet, KDeployment} \<union> KUnstructured ` used_gvks" by (rule subsetD)
  then show "kind_name (fst oid) \<in> set (cs_Owns instance_setup) \<longleftrightarrow> fst oid \<notin> KUnstructured ` used_gvks"
    by (elim UnE insertE imageE emptyE; use owned_kinds in \<open>auto simp: used_gvks_def\<close>)
qed

lemma managed_kinds_watched_witness:
  "kind_name KSecret \<in> set (cs_Owns instance_setup)"
proof -
  have "token_id demo \<in> managed_ids demo_reconciler demo" by (simp add: managed_ids_def goals_def Let_def)
  with managed_kinds_watched [of "token_id demo" demo_reconciler demo] show ?thesis by (auto simp: used_gvks_def)
qed

end
