(* ===== verification/Entry.thy ===== *)
theory Entry
  imports Access
begin

text \<open>
  \<open>cmd/main.go\<close>: the flags, the hardening of the servers, the probe for the Prometheus operator, the
  wiring of the reconcilers with the registry client they share, and the sequence that sets the
  manager up and starts it. The manager is a parameter: what \<open>ctrl.NewManager\<close>, the registrations and
  \<open>Start\<close> answer. Parsing the command line is that of the packages \<open>flag\<close> and \<open>zap\<close>; the model starts
  from the parsed flags.
\<close>

section \<open>Flags and servers\<close>

record flags =
  fl_metricsAddr :: string
  fl_probeAddr :: string
  fl_enableLeaderElection :: bool
  fl_secureMetrics :: bool
  fl_enableHTTP2 :: bool

definition default_flags :: flags where
  "default_flags =
     \<lparr>fl_metricsAddr = ''0'', fl_probeAddr = '':8081'', fl_enableLeaderElection = False, fl_secureMetrics = True,
      fl_enableHTTP2 = False\<rparr>"

record tls_config =
  tls_NextProtos :: "string list"

definition disableHTTP2 :: "tls_config \<Rightarrow> tls_config" where
  "disableHTTP2 c = c\<lparr>tls_NextProtos := [''http/1.1'']\<rparr>"

definition tlsOpts :: "flags \<Rightarrow> (tls_config \<Rightarrow> tls_config) list" where
  "tlsOpts f = (if \<not> fl_enableHTTP2 f then [disableHTTP2] else [])"

record metrics_options =
  mx_BindAddress :: string
  mx_SecureServing :: bool
  mx_TLSOpts :: "(tls_config \<Rightarrow> tls_config) list"
  mx_FilterProvider :: bool

record manager_options =
  mo_Metrics :: metrics_options
  mo_WebhookTLSOpts :: "(tls_config \<Rightarrow> tls_config) list"
  mo_HealthProbeBindAddress :: string
  mo_LeaderElection :: bool
  mo_LeaderElectionID :: string

definition metrics_options :: "flags \<Rightarrow> metrics_options" where
  "metrics_options f =
     (let o1 = \<lparr>mx_BindAddress = fl_metricsAddr f, mx_SecureServing = fl_secureMetrics f, mx_TLSOpts = tlsOpts f,
                mx_FilterProvider = False\<rparr> in
      if fl_secureMetrics f then o1\<lparr>mx_FilterProvider := True\<rparr> else o1)"

definition manager_options :: "flags \<Rightarrow> manager_options" where
  "manager_options f =
     \<lparr>mo_Metrics = metrics_options f, mo_WebhookTLSOpts = tlsOpts f, mo_HealthProbeBindAddress = fl_probeAddr f,
      mo_LeaderElection = fl_enableLeaderElection f, mo_LeaderElectionID = ''1f361c61.agent''\<rparr>"

text \<open>A server applies its options to its configuration, in order.\<close>

definition server_tls :: "(tls_config \<Rightarrow> tls_config) list \<Rightarrow> tls_config \<Rightarrow> tls_config" where
  "server_tls opts c = fold (\<lambda>f. f) opts c"

section \<open>The reconciler\<close>

text \<open>
  \<open>NewDiscoveryClientForConfig\<close> may fail with \<open>client_err\<close>; \<open>groups\<close> is what \<open>ServerGroups\<close> answers.
\<close>

definition prometheusOperatorCRDsPresent :: "go_error option \<Rightarrow> go_error + string list \<Rightarrow> bool" where
  "prometheusOperatorCRDsPresent client_err groups =
     (case client_err of
        Some e \<Rightarrow> False
      | None \<Rightarrow> (case groups of Inl e \<Rightarrow> False | Inr gs \<Rightarrow> ''monitoring.coreos.com'' \<in> set gs))"

text \<open>
  The registry client is shared by all passes: the world of the wired operator holds its cache, and
  \<open>ListTags\<close> reads the clock of the environment.
\<close>

definition wired_registry ::
  "transport \<Rightarrow> ('w \<times> oci_client) env \<Rightarrow> string \<Rightarrow> 'w \<times> oci_client \<Rightarrow> (go_error + string list) \<times> ('w \<times> oci_client)" where
  "wired_registry tr E repo w =
     (case env_now E w of (t0, w1) \<Rightarrow>
      (case env_now E w1 of (t1, (w2, c)) \<Rightarrow>
       (case client_ListTags tr t0 t1 c repo of (ans, c') \<Rightarrow> (ans, (w2, c')))))"

definition operator_cache :: oci_client where
  "operator_cache = NewClient (15 * Minute)"

definition operator_reconciler ::
  "('w \<times> oci_client) env \<Rightarrow> ('w \<times> oci_client) http_lib \<Rightarrow> yaml_lib \<Rightarrow> 'v semver_lib \<Rightarrow> transport \<Rightarrow> bool \<Rightarrow>
   ('v, 'w \<times> oci_client) reconciler" where
  "operator_reconciler E H yl sv tr present =
     \<lparr>rc_env = E, rc_http = H, rc_yaml = yl, rc_PrometheusOperatorCRDsPresent = present, rc_Backup = True, rc_Restore = True,
      rc_AutoUpdate = Some \<lparr>up_Registry = Some (wired_registry tr E), up_semver = sv, up_Backup = True\<rparr>, rc_Migration = True\<rparr>"

section \<open>The admission webhooks\<close>

text \<open>
  The API server calls the webhooks the sources declare in their \<open>+kubebuilder:webhook\<close> markers; the
  manager serves those that are registered with it, at a path it derives from the kind.
\<close>

record webhook_marker =
  wm_path :: string
  wm_mutating :: bool
  wm_failurePolicy :: string
  wm_resource :: string
  wm_verbs :: "string list"
  wm_name :: string

definition instance_webhooks :: "webhook_marker list" where
  "instance_webhooks =
     [\<lparr>wm_path = ''/mutate-hermes-agent-v1-hermesinstance'', wm_mutating = True, wm_failurePolicy = ''fail'',
       wm_resource = ''hermesinstances'', wm_verbs = [''create'', ''update''], wm_name = ''mhermesinstance.hermes.agent''\<rparr>,
      \<lparr>wm_path = ''/validate-hermes-agent-v1-hermesinstance'', wm_mutating = False, wm_failurePolicy = ''fail'',
       wm_resource = ''hermesinstances'', wm_verbs = [''create'', ''update''], wm_name = ''vhermesinstance.hermes.agent''\<rparr>]"

definition defaults_webhooks :: "webhook_marker list" where
  "defaults_webhooks =
     [\<lparr>wm_path = ''/validate-hermes-agent-v1-hermesclusterdefaults'', wm_mutating = False, wm_failurePolicy = ''fail'',
       wm_resource = ''hermesclusterdefaults'', wm_verbs = [''create'', ''update''], wm_name = ''vhermesclusterdefaults.hermes.agent''\<rparr>]"

definition selfconfig_webhooks :: "webhook_marker list" where
  "selfconfig_webhooks =
     [\<lparr>wm_path = ''/validate-hermes-agent-v1-hermesselfconfig'', wm_mutating = False, wm_failurePolicy = ''fail'',
       wm_resource = ''hermesselfconfigs'', wm_verbs = [''create'', ''update''], wm_name = ''vhermesselfconfig.hermes.agent''\<rparr>]"

text \<open>The path the builder of \<open>NewWebhookManagedBy\<close> gives to a defaulter or a validator of a kind.\<close>

definition webhook_path :: "string \<Rightarrow> string \<Rightarrow> string" where
  "webhook_path action k = ''/'' @ action @ ''-'' @ ReplaceAll ''hermes.agent'' ''.'' ''-'' @ ''-v1-'' @ ToLower k"

section \<open>Starting\<close>

text \<open>
  What the manager answers to the calls of \<open>main\<close>; a webhook is registered with the paths it is
  served at.
\<close>

record 'm manager_lib =
  ml_new :: "manager_options \<Rightarrow> 'm \<Rightarrow> go_error option \<times> 'm"
  ml_controller :: "controller_setup \<Rightarrow> 'm \<Rightarrow> go_error option \<times> 'm"
  ml_webhook :: "string list \<Rightarrow> 'm \<Rightarrow> go_error option \<times> 'm"
  ml_check :: "string \<Rightarrow> 'm \<Rightarrow> go_error option \<times> 'm"
  ml_start :: "'m \<Rightarrow> go_error option \<times> 'm"

definition RegisterHermesInstanceWebhook :: "'m manager_lib \<Rightarrow> 'm \<Rightarrow> go_error option \<times> 'm" where
  "RegisterHermesInstanceWebhook ml = ml_webhook ml [webhook_path ''mutate'' ''HermesInstance'', webhook_path ''validate'' ''HermesInstance'']"

definition RegisterHermesClusterDefaultsWebhook :: "'m manager_lib \<Rightarrow> 'm \<Rightarrow> go_error option \<times> 'm" where
  "RegisterHermesClusterDefaultsWebhook ml = ml_webhook ml [webhook_path ''validate'' ''HermesClusterDefaults'']"

definition RegisterHermesSelfConfigWebhook :: "'m manager_lib \<Rightarrow> 'm \<Rightarrow> go_error option \<times> 'm" where
  "RegisterHermesSelfConfigWebhook ml = ml_webhook ml [webhook_path ''validate'' ''HermesSelfConfig'']"

text \<open>How the program ends: a message and an exit with status 1, or a return from \<open>main\<close>.\<close>

datatype outcome = ExitOne string go_error | Returned

definition setup_steps :: "'m manager_lib \<Rightarrow> flags \<Rightarrow> (string \<times> ('m \<Rightarrow> go_error option \<times> 'm)) list" where
  "setup_steps ml f =
     [(''unable to start manager'', ml_new ml (manager_options f)),
      (''unable to create controller'', ml_controller ml instance_setup),
      (''unable to create controller'', ml_controller ml defaults_setup),
      (''unable to create controller'', ml_controller ml selfconfig_setup),
      (''unable to register HermesInstance webhook'', RegisterHermesInstanceWebhook ml),
      (''unable to register HermesClusterDefaults webhook'', RegisterHermesClusterDefaultsWebhook ml),
      (''unable to register HermesSelfConfig webhook'', RegisterHermesSelfConfigWebhook ml),
      (''unable to set up health check'', ml_check ml ''healthz''),
      (''unable to set up ready check'', ml_check ml ''readyz''),
      (''problem running manager'', ml_start ml)]"

fun run_main :: "(string \<times> ('m \<Rightarrow> go_error option \<times> 'm)) list \<Rightarrow> 'm \<Rightarrow> outcome \<times> 'm" where
  "run_main [] m = (Returned, m)"
| "run_main ((msg, f) # rest) m =
     (case f m of (Some e, m1) \<Rightarrow> (ExitOne msg e, m1) | (None, m1) \<Rightarrow> run_main rest m1)"

definition operator_main :: "'m manager_lib \<Rightarrow> flags \<Rightarrow> 'm \<Rightarrow> outcome \<times> 'm" where
  "operator_main ml f m = run_main (setup_steps ml f) m"

section \<open>Properties\<close>

lemma run_main_append:
  "run_main (pre @ post) m = (case run_main pre m of (Returned, m1) \<Rightarrow> run_main post m1 | (ExitOne s e, m1) \<Rightarrow> (ExitOne s e, m1))"
  by (induction pre m rule: run_main.induct) (auto split: prod.splits option.splits)

text \<open>
  The program ends with status 1 at the first step that fails, with that step's message, and returns
  only when every registration and the run of the manager succeeded.
\<close>

lemma run_main_exit:
  assumes "run_main L m = (ExitOne msg e, m')"
  shows "\<exists>pre f post m1. L = pre @ (msg, f) # post \<and> run_main pre m = (Returned, m1) \<and> f m1 = (Some e, m')"
  using assms
proof (induction L arbitrary: m)
  case (Cons s L)
  obtain n g where s: "s = (n, g)" by (cases s)
  obtain r m1 where g: "g m = (r, m1)" by fastforce
  show ?case
  proof (cases r)
    case None
    then have "run_main L m1 = (ExitOne msg e, m')" using Cons.prems s g by simp
    from Cons.IH [OF this] obtain pre f post m2 where
      "L = pre @ (msg, f) # post" "run_main pre m1 = (Returned, m2)" "f m2 = (Some e, m')" by blast
    then have "s # L = (s # pre) @ (msg, f) # post" "run_main (s # pre) m = (Returned, m2)" "f m2 = (Some e, m')"
      using s g None by simp_all
    then show ?thesis by blast
  next
    case (Some e')
    then have "s # L = [] @ (msg, g) # L" "run_main [] m = (Returned, m)" "g m = (Some e, m')" using Cons.prems s g by simp_all
    then show ?thesis by blast
  qed
qed simp

text \<open>
  The servers: unless HTTP/2 is asked for, the metrics and the webhook server offer HTTP/1.1 only,
  whatever their configuration was; metrics served securely are behind authorization; and with the
  default flags no metrics are served at all, as the bind address is 0.
\<close>

theorem servers_hardened:
  "(fl_enableHTTP2 f \<or>
     tls_NextProtos (server_tls (mx_TLSOpts (mo_Metrics (manager_options f))) c) = [''http/1.1''] \<and>
     tls_NextProtos (server_tls (mo_WebhookTLSOpts (manager_options f)) c) = [''http/1.1'']) \<and>
   mx_FilterProvider (mo_Metrics (manager_options f)) = mx_SecureServing (mo_Metrics (manager_options f)) \<and>
   mx_BindAddress (mo_Metrics (manager_options default_flags)) = ''0''"
  by (simp add: manager_options_def metrics_options_def tlsOpts_def server_tls_def disableHTTP2_def default_flags_def Let_def)


text \<open>
  A manager that serves the paths it is given and drops none; \<open>paths\<close> are those it serves in a state.
\<close>

definition keeps_paths :: "('m \<Rightarrow> string set) \<Rightarrow> ('m \<Rightarrow> go_error option \<times> 'm) \<Rightarrow> bool" where
  "keeps_paths paths f \<longleftrightarrow> (\<forall>m m'. f m = (None, m') \<longrightarrow> paths m \<subseteq> paths m')"

definition serves_paths :: "('m \<Rightarrow> string set) \<Rightarrow> 'm manager_lib \<Rightarrow> bool" where
  "serves_paths paths ml \<longleftrightarrow>
     (\<forall>ps m m'. ml_webhook ml ps m = (None, m') \<longrightarrow> paths m \<union> set ps \<subseteq> paths m') \<and>
     (\<forall>o'. keeps_paths paths (ml_new ml o')) \<and> (\<forall>s. keeps_paths paths (ml_controller ml s)) \<and>
     (\<forall>n. keeps_paths paths (ml_check ml n))"

lemma serves_keeps:
  assumes "serves_paths paths ml"
  shows "keeps_paths paths (ml_webhook ml ps)" and "keeps_paths paths (ml_new ml opts)" and "keeps_paths paths (ml_controller ml s)"
    and "keeps_paths paths (ml_check ml n)"
  using assms by (auto simp: serves_paths_def keeps_paths_def)

text \<open>
  A manager that refuses to start in a state that \<open>ready\<close> does not hold of. The setup steps before the
  start are the same with it.
\<close>

definition gated_start :: "('m \<Rightarrow> bool) \<Rightarrow> 'm manager_lib \<Rightarrow> 'm manager_lib" where
  "gated_start ready ml = ml\<lparr>ml_start := (\<lambda>m. if ready m then ml_start ml m else (Some (Plain ''not ready''), m))\<rparr>"

lemma gated_simps [simp]:
  "ml_new (gated_start ready ml) = ml_new ml" "ml_controller (gated_start ready ml) = ml_controller ml"
  "ml_webhook (gated_start ready ml) = ml_webhook ml" "ml_check (gated_start ready ml) = ml_check ml"
  "ml_start (gated_start ready ml) m = (if ready m then ml_start ml m else (Some (Plain ''not ready''), m))"
  by (simp_all add: gated_start_def)

lemma declared_paths:
  "set (map wm_path (instance_webhooks @ defaults_webhooks @ selfconfig_webhooks)) =
   {webhook_path ''mutate'' ''HermesInstance'', webhook_path ''validate'' ''HermesInstance'',
    webhook_path ''validate'' ''HermesClusterDefaults'', webhook_path ''validate'' ''HermesSelfConfig''}"
proof -
  have "webhook_path ''mutate'' ''HermesInstance'' = ''/mutate-hermes-agent-v1-hermesinstance''"
    "webhook_path ''validate'' ''HermesInstance'' = ''/validate-hermes-agent-v1-hermesinstance''"
    "webhook_path ''validate'' ''HermesClusterDefaults'' = ''/validate-hermes-agent-v1-hermesclusterdefaults''"
    "webhook_path ''validate'' ''HermesSelfConfig'' = ''/validate-hermes-agent-v1-hermesselfconfig''"
    by code_simp+
  then show ?thesis by (simp add: instance_webhooks_def defaults_webhooks_def selfconfig_webhooks_def)
qed

lemma webhook_served: "serves_paths paths ml \<Longrightarrow> ml_webhook ml ps m = (None, m') \<Longrightarrow> set ps \<subseteq> paths m' \<and> paths m \<subseteq> paths m'"
  unfolding serves_paths_def by blast

lemma registered_at_start:
  assumes "serves_paths paths ml" and "run_main (butlast (setup_steps ml f)) m = (Returned, m')"
  shows "set (map wm_path (instance_webhooks @ defaults_webhooks @ selfconfig_webhooks)) \<subseteq> paths m'"
proof -
  note d = RegisterHermesInstanceWebhook_def RegisterHermesClusterDefaultsWebhook_def RegisterHermesSelfConfigWebhook_def
  from assms(2) obtain m1 m2 m3 m4 m5 where r:
    "RegisterHermesInstanceWebhook ml m1 = (None, m2)" "RegisterHermesClusterDefaultsWebhook ml m2 = (None, m3)"
    "RegisterHermesSelfConfigWebhook ml m3 = (None, m4)" "ml_check ml ''healthz'' m4 = (None, m5)" "ml_check ml ''readyz'' m5 = (None, m')"
    by (auto simp: setup_steps_def split: prod.splits option.splits)
  have "paths m4 \<subseteq> paths m'"
    using serves_keeps(4) [OF assms(1)] r(4,5) unfolding keeps_paths_def by blast
  moreover note webhook_served [OF assms(1) r(1) [unfolded d]] webhook_served [OF assms(1) r(2) [unfolded d]]
    webhook_served [OF assms(1) r(3) [unfolded d]]
  ultimately show ?thesis unfolding declared_paths by auto
qed

lemma main_starts_last:
  "operator_main ml f m = (case run_main (butlast (setup_steps ml f)) m of
     (Returned, m1) \<Rightarrow> run_main [(''problem running manager'', ml_start ml)] m1 | (ExitOne s e, m1) \<Rightarrow> (ExitOne s e, m1))"
proof -
  have "setup_steps ml f = butlast (setup_steps ml f) @ [(''problem running manager'', ml_start ml)]"
    by (simp add: setup_steps_def)
  then have "operator_main ml f m = run_main (butlast (setup_steps ml f) @ [(''problem running manager'', ml_start ml)]) m"
    by (simp add: operator_main_def)
  then show ?thesis by (simp only: run_main_append)
qed

lemma gated_main:
  assumes "\<And>m1. run_main (butlast (setup_steps ml f)) m = (Returned, m1) \<Longrightarrow> ready m1"
  shows "operator_main (gated_start ready ml) f m = operator_main ml f m"
proof -
  have pre: "butlast (setup_steps (gated_start ready ml) f) = butlast (setup_steps ml f)"
    by (simp add: setup_steps_def RegisterHermesInstanceWebhook_def RegisterHermesClusterDefaultsWebhook_def RegisterHermesSelfConfigWebhook_def)
  obtain r m1 where r: "run_main (butlast (setup_steps ml f)) m = (r, m1)" by fastforce
  show ?thesis
    unfolding main_starts_last pre r using assms r by (cases r) simp_all
qed

text \<open>Every webhook that the API server is told to call is served at the path it is told.\<close>

definition webhooks_served :: "('m \<Rightarrow> string set) \<Rightarrow> 'm \<Rightarrow> bool" where
  "webhooks_served paths m \<longleftrightarrow> (\<forall>h \<in> set (instance_webhooks @ defaults_webhooks @ selfconfig_webhooks). wm_path h \<in> paths m)"

text \<open>
  C23. The operator never runs without its admission rules: with a manager that refuses to start
  unless every webhook the API server is told to call is served, the program does and ends exactly as
  it does without, by an exit or a return; so wherever it starts the manager they are served by then.
  A webhook that does not answer refuses the creation or the update.
\<close>

theorem admission_in_force:
  assumes "serves_paths paths ml"
  shows "operator_main (gated_start (webhooks_served paths) ml) f m = operator_main ml f m \<and>
    (\<forall>h \<in> set (instance_webhooks @ defaults_webhooks @ selfconfig_webhooks).
       wm_failurePolicy h = ''fail'' \<and> set (wm_verbs h) = {''create'', ''update''})"
proof -
  have "webhooks_served paths m1" if "run_main (butlast (setup_steps ml f)) m = (Returned, m1)" for m1
    using registered_at_start [OF assms that] unfolding webhooks_served_def set_map by blast
  then have "operator_main (gated_start (webhooks_served paths) ml) f m = operator_main ml f m" by (rule gated_main)
  moreover have "list_all (\<lambda>h. wm_failurePolicy h = ''fail'' \<and> set (wm_verbs h) = {''create'', ''update''})
      (instance_webhooks @ defaults_webhooks @ selfconfig_webhooks)"
    by (simp add: instance_webhooks_def defaults_webhooks_def selfconfig_webhooks_def)
  ultimately show ?thesis by (simp add: list_all_iff)
qed

text \<open>A manager that records the paths it was given, and whether it was started.\<close>

definition recording_manager :: "(bool \<times> string list) manager_lib" where
  "recording_manager =
     \<lparr>ml_new = (\<lambda>o' m. (None, m)), ml_controller = (\<lambda>s m. (None, m)), ml_webhook = (\<lambda>ps (b, m). (None, (b, m @ ps))),
      ml_check = (\<lambda>n m. (None, m)), ml_start = (\<lambda>(b, m). (None, (True, m)))\<rparr>"

lemma admission_in_force_witness:
  "fst (snd (operator_main (gated_start (webhooks_served (\<lambda>m. set (snd m))) recording_manager) default_flags (False, [])))"
proof -
  have s: "serves_paths (\<lambda>m. set (snd m)) recording_manager"
    by (auto simp: serves_paths_def keeps_paths_def recording_manager_def)
  have "fst (snd (operator_main recording_manager default_flags (False, [])))"
    by (simp add: operator_main_def setup_steps_def recording_manager_def RegisterHermesInstanceWebhook_def
        RegisterHermesClusterDefaultsWebhook_def RegisterHermesSelfConfigWebhook_def)
  then show ?thesis using admission_in_force [OF s, of default_flags "(False, [])"] by simp
qed

end
