(* ===== verification/Frame.thy ===== *)
theory Frame
  imports Instance
begin

text \<open>
  What the operations leave alone. A predicate on worlds is kept by an operation when the operation
  ends in a world that satisfies it whenever it starts in one. A client is \<open>inert\<close> for a predicate
  when all of its calls keep it, \<open>CreateOrUpdate\<close> for callbacks that do. The sections show that every
  step that only reads the instance, and the provisioning of Semaphore, keep what the clients they
  use keep; theory \<open>Pass\<close> builds the invariants of whole passes on it.
\<close>

named_theorems kept "operations that keep a predicate of the world"

section \<open>Inert clients\<close>

definition steady :: "('w \<Rightarrow> bool) \<Rightarrow> ('w \<Rightarrow> 'a \<times> 'w) \<Rightarrow> bool" where
  "steady I f \<longleftrightarrow> (\<forall>w. I w \<longrightarrow> I (snd (f w)))"

lemma steadyI: "(\<And>w a w'. I w \<Longrightarrow> f w = (a, w') \<Longrightarrow> I w') \<Longrightarrow> steady I f"
  by (metis steady_def surjective_pairing)

lemma steadyD: "steady I f \<Longrightarrow> f w = (a, w') \<Longrightarrow> I w \<Longrightarrow> I w'"
  unfolding steady_def by (metis snd_conv)

definition inert :: "('w \<Rightarrow> bool) \<Rightarrow> ('o, 'w) kind_client \<Rightarrow> bool" where
  "inert I kc \<longleftrightarrow>
     (\<forall>k. steady I (kc_get kc k)) \<and> (\<forall>ns. steady I (kc_list kc ns)) \<and> (\<forall>x. steady I (kc_create kc x)) \<and>
     (\<forall>x. steady I (kc_delete kc x)) \<and> (\<forall>x y. steady I (kc_patch kc x y)) \<and> (\<forall>x o1 f. steady I (kc_apply kc x o1 f)) \<and>
     (\<forall>x. steady I (kc_status_update kc x)) \<and>
     (\<forall>x f. (\<forall>y. steady I (f y)) \<longrightarrow> steady I (kc_create_or_update kc x f))"

lemma inert_calls [kept]:
  assumes "inert I kc"
  shows "steady I (kc_get kc k)" and "steady I (kc_list kc ns)" and "steady I (kc_create kc x)"
    and "steady I (kc_delete kc x)" and "steady I (kc_patch kc x y)"
  using assms unfolding inert_def by blast+

lemma inert_update [kept]: "inert I kc \<Longrightarrow> (\<And>y. steady I (f y)) \<Longrightarrow> steady I (kc_create_or_update kc x f)"
  unfolding inert_def by blast

text \<open>The environment of the operator, without the client for instances.\<close>

definition inert_env :: "('w \<Rightarrow> bool) \<Rightarrow> 'w env \<Rightarrow> bool" where
  "inert_env I E \<longleftrightarrow>
     inert I (env_secrets E) \<and> inert I (env_configmaps E) \<and> inert I (env_pvcs E) \<and> inert I (env_serviceaccounts E) \<and>
     inert I (env_roles E) \<and> inert I (env_rolebindings E) \<and> inert I (env_services E) \<and> inert I (env_netpols E) \<and>
     inert I (env_pdbs E) \<and> inert I (env_hpas E) \<and> inert I (env_ingresses E) \<and> (\<forall>g. inert I (env_unstructured E g)) \<and>
     inert I (env_statefulsets E) \<and> inert I (env_deployments E) \<and> inert I (env_cronjobs E) \<and> inert I (env_jobs E) \<and>
     inert I (env_pods E) \<and> inert I (env_events E) \<and> steady I (env_now E) \<and> steady I (env_random E) \<and>
     (\<forall>ref ty r m w. I w \<longrightarrow> I (env_record E ref ty r m w))"

lemma inert_clients [kept]:
  assumes "inert_env I E"
  shows "inert I (env_secrets E)" and "inert I (env_configmaps E)" and "inert I (env_pvcs E)" and "inert I (env_serviceaccounts E)"
    and "inert I (env_roles E)" and "inert I (env_rolebindings E)" and "inert I (env_services E)" and "inert I (env_netpols E)"
    and "inert I (env_pdbs E)" and "inert I (env_hpas E)" and "inert I (env_ingresses E)" and "inert I (env_unstructured E g)"
    and "inert I (env_statefulsets E)" and "inert I (env_deployments E)" and "inert I (env_cronjobs E)" and "inert I (env_jobs E)"
    and "inert I (env_pods E)" and "inert I (env_events E)" and "steady I (env_now E)" and "steady I (env_random E)"
  using assms unfolding inert_env_def by blast+

lemma inert_record: "inert_env I E \<Longrightarrow> I w \<Longrightarrow> I (env_record E ref ty r m w)"
  unfolding inert_env_def by blast

section \<open>Sequencing\<close>

lemma steady_return [kept]: "steady I (\<lambda>w. (a, w))"
  by (simp add: steady_def)

lemma steady_if [kept]: "(b \<Longrightarrow> steady I f) \<Longrightarrow> (\<not> b \<Longrightarrow> steady I g) \<Longrightarrow> steady I (if b then f else g)"
  by simp

lemma steady_and_then [kept]: "steady I a \<Longrightarrow> steady I b \<Longrightarrow> steady I (and_then a b)"
  by (rule steadyI) (auto simp: and_then_def split: prod.splits option.splits dest: steadyD)

lemma steady_labelled [kept]: "steady I a \<Longrightarrow> steady I (labelled s a)"
  by (rule steadyI) (auto simp: labelled_def split: prod.splits option.splits dest: steadyD)

lemma steady_seqE [kept]: "steady I m \<Longrightarrow> (\<And>a. steady I (f a)) \<Longrightarrow> steady I (seqE m f)"
  by (rule steadyI) (auto simp: seqE_def split: prod.splits sum.splits dest: steadyD)

lemma steady_wrapE [kept]: "steady I m \<Longrightarrow> steady I (wrapE s m)"
  by (rule steadyI) (auto simp: wrapE_def split: prod.splits sum.splits dest: steadyD)

lemma steady_pure [kept]: "steady I (failE s)" "steady I (okE a)"
  by (simp_all add: steady_def failE_def okE_def)

lemma steady_own [kept]: "steady I (own E i meta upd x)"
  by (rule steadyI) (auto simp: own_def split: sum.splits)

lemma steady_delete [kept]: "inert I kc \<Longrightarrow> steady I (deleteIfExists kc key)"
  by (rule steadyI)
    (auto simp: deleteIfExists_def split: prod.splits sum.splits option.splits if_splits dest: steadyD [OF inert_calls(1)] steadyD [OF inert_calls(4)])

section \<open>The callbacks\<close>

lemma steady_key: "inert_env I E \<Longrightarrow> steady I (GenerateAPIServerKey E)"
  by (rule steadyI) (auto simp: GenerateAPIServerKey_def split: prod.splits sum.splits dest: steadyD [OF inert_clients(20)])

lemma steady_mutate_secret: "inert_env I E \<Longrightarrow> steady I (mutate_secret E inst obj)"
  by (rule steadyI)
    (auto simp: mutate_secret_def Let_def split: prod.splits sum.splits if_splits dest: steadyD [OF steady_key] steadyD [OF steady_own])

lemma steady_put [kept]:
  "steady I (put_configmap E inst desired obj)" "steady I (mutate_workspace E inst obj)"
  "steady I (mutate_dashboard E inst desired obj)" "steady I (mutate_sa E inst sa)" "steady I (mutate_role E inst ro)"
  "steady I (mutate_rolebinding E inst rb)" "steady I (mutate_netpol E inst np np')" "steady I (mutate_service E inst svc svc')"
  "steady I (mutate_pdb E inst pdb)" "steady I (mutate_hpa E inst hpa)" "steady I (mutate_ingress E inst ing)"
  "steady I (mutate_unstructured b u u')" "steady I (mutate_statefulset m E inst sts)" "steady I (mutate_deployment E inst dep)"
  by (rule steadyI;
      auto simp: put_configmap_def mutate_workspace_def mutate_dashboard_def mutate_sa_def mutate_role_def mutate_rolebinding_def
        mutate_netpol_def mutate_service_def mutate_pdb_def mutate_hpa_def mutate_ingress_def mutate_unstructured_def
        mutate_statefulset_def mutate_deployment_def own_def Let_def split: sum.splits)+

lemma steady_partial [kept]:
  "steady I (mutate_configmap yl E inst body obj)" "steady I (honcho_netpol E inst np)" "steady I (mutate_cronjob E inst cj cj')"
  by (rule steadyI;
      auto simp: mutate_configmap_def honcho_netpol_def mutate_cronjob_def Let_def split: sum.splits option.splits
        dest: steadyD [OF steady_put(1)] steadyD [OF steady_put(7)])+

section \<open>The steps\<close>

lemma steady_secret: "inert_env I E \<Longrightarrow> steady I (reconcileSecret E inst)"
  unfolding reconcileSecret_def by (intro kept steady_mutate_secret)

lemma steady_claims:
  assumes "inert_env I E"
  shows "steady I (create_owned_pvc E inst l1 l2 pvc)" and "steady I (reconcilePVC E inst)" and "steady I (honcho_pvc E inst)"
proof -
  note c = inert_clients(3) [OF assms]
  show 1: "steady I (create_owned_pvc E inst l1 l2 pvc)" for l1 l2 pvc
    by (rule steadyI)
      (auto simp: create_owned_pvc_def split: prod.splits sum.splits option.splits if_splits dest: steadyD [OF inert_calls(3) [OF c]])
  show "steady I (reconcilePVC E inst)" and "steady I (honcho_pvc E inst)"
    by (rule steadyI; auto simp: reconcilePVC_def honcho_pvc_def Let_def split: prod.splits sum.splits if_splits
        dest: steadyD [OF inert_calls(1) [OF c]] steadyD [OF 1])+
qed

lemma steady_config:
  assumes "inert_env I E"
  shows "steady I (resolveConfigBody yl E inst)" and "steady I (reconcileConfigMap yl E inst)"
proof -
  note c = inert_clients(2) [OF assms]
  show 1: "steady I (resolveConfigBody yl E inst)"
    by (rule steadyI)
      (auto simp: resolveConfigBody_def Let_def split: prod.splits sum.splits option.splits if_splits dest: steadyD [OF inert_calls(1) [OF c]])
  have 2: "steady I (kc_create_or_update (env_configmaps E) x (mutate_configmap yl E inst body))" for x body
    by (intro kept c)
  show "steady I (reconcileConfigMap yl E inst)"
    by (rule steadyI) (auto simp: reconcileConfigMap_def split: prod.splits sum.splits dest: steadyD [OF 1] steadyD [OF 2])
qed

lemma steady_steps:
  assumes "inert_env I E"
  shows "steady I (reconcileWorkspaceConfigMap E inst)" and "steady I (reconcileGrafanaDashboards E inst)"
    and "steady I (reconcileRBAC E inst)" and "steady I (reconcileNetworkPolicy E inst)" and "steady I (reconcileService E inst)"
    and "steady I (reconcilePDB E inst)" and "steady I (reconcileHPA E inst)" and "steady I (reconcileIngress E inst)"
    and "steady I (reconcileStatefulSet mg E inst)" and "steady I (reconcileHoncho E inst)"
  unfolding reconcileWorkspaceConfigMap_def reconcileGrafanaDashboards_def apply_dashboard_def reconcileRBAC_def
    reconcileNetworkPolicy_def reconcileService_def reconcilePDB_def reconcileHPA_def reconcileIngress_def reconcileStatefulSet_def
    reconcileHoncho_def Let_def
  using steady_claims(3) [OF assms]
  by (intro kept assms)+

lemma steady_tailscale: "steady I reconcileTailscale"
  by (simp add: steady_def reconcileTailscale_def)

lemma steady_unstructured:
  assumes "inert_env I E"
  shows "steady I (apply_unstructured E inst a u)" and "steady I (reconcileHTTPRoute E inst)"
    and "steady I (reconcileServiceMonitor crds E inst)" and "steady I (reconcilePrometheusRule crds E inst)"
proof -
  have 1: "steady I (kc_create_or_update (env_unstructured E g) x (mutate_unstructured a u))" for g x a u
    by (intro kept assms)
  have d: "steady I (deleteIfExists (env_unstructured E g) k)" for g k by (intro kept assms)
  show 2: "steady I (apply_unstructured E inst a u)" for a u
    by (rule steadyI) (auto simp: apply_unstructured_def split: sum.splits dest: steadyD [OF 1])
  show "steady I (reconcileHTTPRoute E inst)"
    by (rule steadyI)
      (auto simp: reconcileHTTPRoute_def split: prod.splits option.splits if_splits dest: steadyD [OF 2] steadyD [OF d])
  show "steady I (reconcileServiceMonitor crds E inst)" and "steady I (reconcilePrometheusRule crds E inst)"
    unfolding reconcileServiceMonitor_def reconcilePrometheusRule_def by (intro kept 2 d)+
qed

section \<open>Semaphore\<close>

definition inert_http :: "('w \<Rightarrow> bool) \<Rightarrow> 'w http_lib \<Rightarrow> bool" where
  "inert_http I H \<longleftrightarrow> (\<forall>r. steady I (ht_do H r))"

lemma steady_send [kept]: "inert_http I H \<Longrightarrow> steady I (send H r)"
  by (rule steadyI) (auto simp: send_def inert_http_def split: if_splits dest: steadyD)

lemma steady_api [kept]:
  assumes "inert_http I H"
  shows "steady I (login H url body what nc)" and "steady I (apiGet H url cookie path key)"
    and "steady I (apiPost H url cookie path body b)" and "steady I (add_member H url cookie p u rows)"
    and "steady I (ensure_member H url cookie p u)"
proof -
  have s: "steady I (send H r)" for r by (intro kept assms)
  show "steady I (login H url body what nc)" unfolding login_def by (intro kept assms)
  have g: "steady I (apiGet_partial H url cookie path key)" for path key
    by (rule steadyI) (auto simp: apiGet_partial_def split: prod.splits sum.splits dest: steadyD [OF s])
  show "steady I (apiGet H url cookie path key)"
    by (rule steadyI) (auto simp: apiGet_def split: prod.splits option.splits dest: steadyD [OF g])
  show p: "steady I (apiPost H url cookie path body b)" for path body b unfolding apiPost_def by (intro kept assms)
  show m: "steady I (add_member H url cookie p u rows)" for rows unfolding add_member_def by (intro kept p)
  show "steady I (ensure_member H url cookie p u)"
    by (rule steadyI) (auto simp: ensure_member_def split: prod.splits option.splits if_splits dest: steadyD [OF g] steadyD [OF m])
qed

lemma steady_provision:
  assumes "inert_http I H" and "inert_env I E"
  shows "steady I (provision H E inst a t)" and "steady I (semaphoreCleanup H E inst)"
proof -
  note c = inert_clients(1) [OF assms(2)]
  have cs: "steady I (create_secret E s)" for s
    by (rule steadyI) (auto simp: create_secret_def split: prod.splits option.splits dest: steadyD [OF inert_calls(3) [OF c]])
  have g: "steady I (generate_token H E inst url ref)" for url ref unfolding generate_token_def by (intro kept assms cs)
  have et: "steady I (ensure_token H E inst url ref)" for url ref
    by (rule steadyI)
      (auto simp: ensure_token_def split: prod.splits sum.splits if_splits dest: steadyD [OF g] steadyD [OF inert_calls(1) [OF c]])
  have ap: "steady I (admin_password E r)" for r unfolding admin_password_def Let_def by (intro kept assms)
  have ep: "steady I (ensure_project H inst u ck)" for u ck unfolding ensure_project_def by (intro kept assms)
  have eu: "steady I (ensure_user H inst u ck)" for u ck unfolding ensure_user_def by (intro kept assms)
  show "steady I (provision H E inst a t)"
    unfolding provision_def Let_def by (intro kept assms ap ep eu et)
  have cp: "steady I (cleanup_password E r)" for r
    unfolding cleanup_password_def Let_def by (cases r; simp; intro kept assms)
  have lr: "steady I (list_all_rows H u ck p nk wh)" for u ck p nk wh
  proof -
    have "steady I (\<lambda>w. case x of (rows, None) \<Rightarrow> (Inr rows, w) | (rows, Some e) \<Rightarrow> (Inl e, w))" for x :: "row list \<times> go_error option"
      by (cases x; cases "snd x"; simp add: steady_def)
    then show ?thesis unfolding list_all_rows_def by (intro kept assms)
  qed
  have db: "steady I (delete_both H u ck p us)" for u ck p us unfolding delete_both_def by (intro kept assms)
  have "steady I (cleanup H E inst)" unfolding cleanup_def Let_def by (intro kept assms cp lr db)
  then show "steady I (semaphoreCleanup H E inst)"
    by (intro steadyI) (auto simp: semaphoreCleanup_def split: prod.splits sum.splits dest: steadyD)
qed

end
