(* ===== verification/Pass.thy ===== *)
theory Pass
  imports Frame
begin

text \<open>
  Invariants of whole passes of \<open>HermesInstanceReconciler\<close>. The locale \<open>pass_invariant\<close> is the
  contract a predicate on instances has to meet so that no operation of the operator breaks it: it
  must not depend on what the operator writes, but for the conditions, which have a predicate of
  their own, and the two import latches. \<open>hosts\<close> states that the environment keeps the predicate on
  the stored instance through the calls the operator makes. The lemmas carry the predicate through
  every operation that touches the instance, up to \<open>Reconcile\<close>.
\<close>

section \<open>The contract\<close>

text \<open>The types of the conditions the operator sets.\<close>

definition status_conditions :: "string list" where
  "status_conditions =
     [ConditionTypeReady, ConditionTypeStorageReady, ConditionTypeConfigReady, ConditionTypeSecretsReady,
      ConditionTypeNetworkPolicyReady, ConditionTypeRBACReady, ConditionTypeServiceReady, ConditionTypePDBReady,
      ConditionTypeHPAReady, ConditionTypeIngressReady, ConditionTypeHTTPRouteReady, ConditionTypeServiceMonitorReady,
      ConditionTypePrometheusRuleReady, ConditionTypeGrafanaDashboardReady, ConditionBackupReady, ConditionRestoreApplied,
      ConditionAutoUpdated, ConditionAutoUpdateRolledBack, ConditionMigrationCompleted, ConditionTailscaleReady,
      ConditionSemaphoreReady, ''StatefulSetReady'', ''ProfileStoreReady'']"

lemma listed [simp]:
  "ConditionTypeReady \<in> set status_conditions" "ConditionBackupReady \<in> set status_conditions"
  "ConditionRestoreApplied \<in> set status_conditions" "ConditionAutoUpdated \<in> set status_conditions"
  "ConditionAutoUpdateRolledBack \<in> set status_conditions" "ConditionMigrationCompleted \<in> set status_conditions"
  "''ProfileStoreReady'' \<in> set status_conditions"
  by (simp_all add: status_conditions_def)

lemma steps_listed: "(n, c, f) \<in> set (steps R) \<Longrightarrow> c \<in> set status_conditions"
  by (auto simp: steps_def resource_steps_def status_conditions_def Let_def)

definition ui_skill :: InstanceSkill where
  "ui_skill = zero_InstanceSkill\<lparr>skill_Source := ''semaphore-ui''\<rparr>"

definition has_ui_skill :: "HermesInstanceSpec \<Rightarrow> bool" where
  "has_ui_skill s \<longleftrightarrow> (\<exists>sk \<in> set (spec_Skills s). skill_Source sk = ''semaphore-ui'')"

definition with_ui_skill :: "HermesInstanceSpec \<Rightarrow> HermesInstanceSpec" where
  "with_ui_skill s = s\<lparr>spec_Skills := spec_Skills s @ [ui_skill]\<rparr>"

text \<open>The two kinds of patch the operator sends for an instance: metadata, and the appended skill.\<close>

definition operator_patch :: "HermesInstance \<Rightarrow> HermesInstance \<Rightarrow> bool" where
  "operator_patch o1 i \<longleftrightarrow>
     hi_Status i = hi_Status o1 \<and> inst_key i = inst_key o1 \<and>
     (hi_Spec i = hi_Spec o1 \<or>
      SemaphoreEnabled o1 \<and> \<not> has_ui_skill (hi_Spec o1) \<and> hi_Spec i = with_ui_skill (hi_Spec o1))"

definition instance_kept :: "nsname \<Rightarrow> (HermesInstance \<Rightarrow> bool) \<Rightarrow> ('w \<Rightarrow> bool) \<Rightarrow> 'w env \<Rightarrow> bool" where
  "instance_kept k Q I E \<longleftrightarrow>
     (\<forall>w r w'. I w \<longrightarrow> kc_get (env_instances E) k w = (r, w') \<longrightarrow> I w' \<and> (\<forall>i. r = Inr i \<longrightarrow> Q i)) \<and>
     (\<forall>i w r w'. I w \<longrightarrow> Q i \<longrightarrow> kc_status_update (env_instances E) i w = (r, w') \<longrightarrow> I w' \<and> (\<forall>j. r = Inr j \<longrightarrow> Q j)) \<and>
     (\<forall>o1 i w r w'. I w \<longrightarrow> Q o1 \<longrightarrow> operator_patch o1 i \<longrightarrow> kc_patch (env_instances E) o1 i w = (r, w') \<longrightarrow>
        I w' \<and> (\<forall>j. r = Inr j \<longrightarrow> Q j))"

definition conditions_kept :: "(Condition list \<Rightarrow> bool) \<Rightarrow> 'w env \<Rightarrow> bool" where
  "conditions_kept Cs E \<longleftrightarrow>
     (\<forall>w cs c. Cs cs \<longrightarrow> cd_Type c \<in> set status_conditions \<longrightarrow> Cs (env_set_condition E w cs c)) \<and>
     (\<forall>cs t. Cs cs \<longrightarrow> Cs (env_remove_condition E cs t))"

definition hosts ::
  "nsname \<Rightarrow> (HermesInstance \<Rightarrow> bool) \<Rightarrow> (Condition list \<Rightarrow> bool) \<Rightarrow> ('w \<Rightarrow> bool) \<Rightarrow> ('v, 'w) reconciler \<Rightarrow> bool" where
  "hosts k Q Cs I R \<longleftrightarrow>
     inert_env I (rc_env R) \<and> inert_http I (rc_http R) \<and> instance_kept k Q I (rc_env R) \<and> conditions_kept Cs (rc_env R) \<and>
     (\<forall>up l s. rc_AutoUpdate R = Some up \<longrightarrow> up_Registry up = Some l \<longrightarrow> steady I (l s))"

lemma instance_keptD:
  assumes "instance_kept k Q I E" and "I w"
  shows "kc_get (env_instances E) k w = (r, w') \<Longrightarrow> I w' \<and> (\<forall>i. r = Inr i \<longrightarrow> Q i)"
    and "kc_status_update (env_instances E) i w = (r, w') \<Longrightarrow> Q i \<Longrightarrow> I w' \<and> (\<forall>j. r = Inr j \<longrightarrow> Q j)"
    and "kc_patch (env_instances E) o1 i w = (r, w') \<Longrightarrow> Q o1 \<Longrightarrow> operator_patch o1 i \<Longrightarrow> I w' \<and> (\<forall>j. r = Inr j \<longrightarrow> Q j)"
  using assms unfolding instance_kept_def by blast+

lemma keeps_status:
  assumes "instance_kept k Q I E" and "status_update E i w = (x, i', w')" and "Q i" and "I w"
  shows "Q i' \<and> I w'"
proof -
  obtain r w1 where u: "kc_status_update (env_instances E) i w = (r, w1)" by fastforce
  show ?thesis
    using instance_keptD(2) [OF assms(1,4) u assms(3)] assms(2,3) u by (auto simp: status_update_def split: sum.splits)
qed

lemma keeps_patch:
  assumes "instance_kept k Q I E" and "patch_instance E o1 i w = (x, i', w')" and "operator_patch o1 i" and "Q o1" and "Q i" and "I w"
  shows "Q i' \<and> I w'"
proof -
  obtain r w1 where u: "kc_patch (env_instances E) o1 i w = (r, w1)" by fastforce
  show ?thesis
    using instance_keptD(3) [OF assms(1,6) u assms(4,3)] assms(2,5) u by (auto simp: patch_instance_def split: sum.splits)
qed

locale pass_invariant =
  fixes Q :: "HermesInstance \<Rightarrow> bool" and Cs :: "Condition list \<Rightarrow> bool"
  assumes Q_conditions: "Q i \<Longrightarrow> Cs (st_Conditions (hi_Status i))"
    and Q_recond: "Q i \<Longrightarrow> Cs cs \<Longrightarrow> Q (recond cs i)"
    and Q_meta: "Q i \<Longrightarrow> om_Name (m (hi_ObjectMeta i)) = inst_name i \<Longrightarrow> om_Namespace (m (hi_ObjectMeta i)) = inst_ns i \<Longrightarrow>
           Q (upd_meta m i)"
    and Q_skill: "Q i \<Longrightarrow> SemaphoreEnabled i \<Longrightarrow> \<not> has_ui_skill (hi_Spec i) \<Longrightarrow> Q (i\<lparr>hi_Spec := with_ui_skill (hi_Spec i)\<rparr>)"
    and Q_backup: "Q i \<Longrightarrow> Q (upd_status (\<lambda>s. s\<lparr>st_Backup := b s\<rparr>) i)"
    and Q_update: "Q i \<Longrightarrow> Q (upd_status (\<lambda>s. s\<lparr>st_AutoUpdate := g s\<rparr>) i)"
    and Q_observed: "Q i \<Longrightarrow> Q (observe_replicas sts i)"
    and Q_phase: "Q i \<Longrightarrow> Q (set_phase p i)"
    and Q_restored: "Q i \<Longrightarrow> spec_RestoreFrom (hi_Spec i) \<noteq> '''' \<Longrightarrow> Q (set_restored (spec_RestoreFrom (hi_Spec i)) i)"
    and Q_migrated: "Q i \<Longrightarrow> Q (set_migrated now v i)"
begin

lemma keeps_put:
  assumes "conditions_kept Cs E" and "Q i" and "t \<in> set status_conditions"
  shows "Q (put_condition E w (condition j t s r m) i)" and "Q (setCondition E i t s r m w)"
proof -
  have "Cs (env_set_condition E w (st_Conditions (hi_Status i)) (condition j t s r m))" for j
    using assms(1,3) Q_conditions [OF assms(2)] by (simp add: conditions_kept_def condition_def)
  from Q_recond [OF assms(2) this] show "Q (put_condition E w (condition j t s r m) i)" for j
    by (simp add: put_condition_def recond_def upd_status_def)
  then show "Q (setCondition E i t s r m w)" by (simp add: setCondition_def)
qed

lemma keeps_drop: "conditions_kept Cs E \<Longrightarrow> Q i \<Longrightarrow> Q (drop_condition E t i)"
  using Q_recond [of i "env_remove_condition E (st_Conditions (hi_Status i)) t"] Q_conditions [of i]
  by (simp add: conditions_kept_def drop_condition_def recond_def upd_status_def)

lemma keeps_stamps:
  assumes "Q i"
  shows "Q (set_last_failure t r i)" and "Q (set_last_success t i)" and "Q (set_final_job n i)" and "Q (set_pre_snapshot s i)"
    and "Q (upd_au f i)" and "Q (set_last_check t i)"
  using assms
  by (simp_all add: set_last_failure_def set_last_success_def set_final_job_def set_pre_snapshot_def upd_au_def set_last_check_def
      Q_backup Q_update)

lemma keeps_finalizers: "Q i \<Longrightarrow> Q (AddFinalizer f i)" "Q i \<Longrightarrow> Q (DropFinalizer f i)"
  unfolding AddFinalizer_def DropFinalizer_def by (rule Q_meta; simp)+

lemma keeps_meta:
  assumes "instance_kept k Q I E" and "patch_instance E i (upd_meta f i) w = (x, i', w')" and "Q i" and "I w"
    and "om_Name (f (hi_ObjectMeta i)) = inst_name i" and "om_Namespace (f (hi_ObjectMeta i)) = inst_ns i"
  shows "Q i' \<and> I w'"
  using keeps_patch [OF assms(1,2) _ assms(3) Q_meta [where m = f, OF assms(3,5,6)] assms(4)] assms(5,6) by (simp add: operator_patch_def inst_key_def)

lemma keeps_finalizer_patch:
  assumes "instance_kept k Q I E" and "patch_instance E i (AddFinalizer f i) w = (x, i', w') \<or> patch_instance E i (DropFinalizer f i) w = (x, i', w')"
    and "Q i" and "I w"
  shows "Q i' \<and> I w'"
  using assms(2) keeps_meta [OF assms(1) _ assms(3,4)] unfolding AddFinalizer_def DropFinalizer_def by auto

text \<open>The status updates and patches of an operation, and its other calls.\<close>

lemma keeps_releases:
  assumes "instance_kept k Q I E" and "Q i" and "I w"
  shows "EnsureFinalizer E i w = (x, i', w') \<Longrightarrow> Q i' \<and> I w'" and "RemoveFinalizer E i w = (x, i', w') \<Longrightarrow> Q i' \<and> I w'"
    and "release E i w = (r, held, x, i', w') \<Longrightarrow> Q i' \<and> I w'" and "ensure_semaphore_finalizer E i w = (x, i', w') \<Longrightarrow> Q i' \<and> I w'"
proof -
  have p: "Q j \<and> I v"
    if "patch_instance E i (AddFinalizer f i) w = (y, j, v) \<or> patch_instance E i (DropFinalizer f i) w = (y, j, v)" for f y j v
    using keeps_finalizer_patch [OF assms(1) that assms(2,3)] .
  show "EnsureFinalizer E i w = (x, i', w') \<Longrightarrow> Q i' \<and> I w'" "ensure_semaphore_finalizer E i w = (x, i', w') \<Longrightarrow> Q i' \<and> I w'"
    using p assms by (auto simp: EnsureFinalizer_def ensure_semaphore_finalizer_def split: prod.splits if_splits)
  show r: "Q i' \<and> I w'" if "RemoveFinalizer E i w = (x, i', w')" for x i' w'
    using that p assms by (auto simp: RemoveFinalizer_def split: prod.splits if_splits)
  show "release E i w = (r, held, x, i', w') \<Longrightarrow> Q i' \<and> I w'"
    using r by (auto simp: release_def split: prod.splits option.splits)
qed

lemma steady_job: "inert_env I E \<Longrightarrow> steady I (GetJob E n ns)"
  by (rule steadyI) (auto simp: GetJob_def split: prod.splits sum.splits if_splits dest: steadyD [OF inert_calls(1) [OF inert_clients(16)]])

lemma keeps_cronjobs:
  assumes "inert_env I E" and "conditions_kept Cs E" and "ReconcileCronJob E i w = (x, i', w')" and "Q i" and "I w"
  shows "Q i' \<and> I w'"
proof -
  note c = inert_clients(15) [OF assms(1)]
  have u: "steady I (kc_create_or_update (env_cronjobs E) y (mutate_cronjob E j d))" for y j d by (intro kept c)
  have "Q j \<and> I v" if "deleteCronJob E i n w = (y, j, v)" for n y j v
    using that assms(4,5) keeps_drop [OF assms(2)]
    by (auto simp: deleteCronJob_def split: prod.splits sum.splits option.splits if_splits
        dest: steadyD [OF inert_calls(1) [OF c]] steadyD [OF inert_calls(4) [OF c]])
  then show ?thesis
    using assms(3-5)
    by (auto simp: ReconcileCronJob_def Let_def keeps_put [OF assms(2)] split: prod.splits option.splits if_splits dest: steadyD [OF u])
qed

lemma keeps_final_backup:
  assumes "inert_env I E" and "instance_kept k Q I E" and "Q i" and "I w"
  shows "start_final_backup E i w = (r, held, x, i', w') \<Longrightarrow> Q i' \<and> I w'"
    and "await_final_backup E i w = (r, held, x, i', w') \<Longrightarrow> Q i' \<and> I w'"
proof -
  note now = steadyD [OF inert_clients(19) [OF assms(1)]] and rec = inert_record [OF assms(1)]
    and st = keeps_status [OF assms(2)] and rel = keeps_releases(3) [OF assms(2)]
  have 1: "Q i' \<and> I w'" if "start_final_backup E i w = (r, held, x, i', w')" "Q i" "I w" for i w r held x i' w'
    using that
    by (auto simp: start_final_backup_def Let_def split: prod.splits option.splits sum.splits if_splits)
      (blast intro: rec keeps_stamps dest: now steadyD [OF inert_calls(3) [OF inert_clients(16) [OF assms(1)]]] st)+
  then show "start_final_backup E i w = (r, held, x, i', w') \<Longrightarrow> Q i' \<and> I w'" using assms(3,4) by blast
  show "await_final_backup E i w = (r, held, x, i', w') \<Longrightarrow> Q i' \<and> I w'"
    using assms(3,4)
    by (auto simp: await_final_backup_def Let_def split: prod.splits option.splits sum.splits if_splits)
      (blast intro: rec keeps_stamps dest: steadyD [OF steady_job [OF assms(1)]] now 1 st rel)+
qed

lemma keeps_deletion:
  assumes "inert_env I E" and "instance_kept k Q I E" and "HandleDeletion E i w = (r, held, x, i', w')" and "Q i" and "I w"
  shows "Q i' \<and> I w'"
  using assms(3-5)
  by (auto simp: HandleDeletion_def Let_def split: prod.splits option.splits if_splits)
    (blast intro: inert_record [OF assms(1)] keeps_stamps
      dest: steadyD [OF inert_clients(19) [OF assms(1)]] keeps_status [OF assms(2)] keeps_releases(3) [OF assms(2)]
        keeps_final_backup(2) [OF assms(1,2)])+

lemma keeps_oneshot:
  assumes "inert_env I E" and "instance_kept k Q I E"
  shows "start_oneshot E i key w = (n, d, x, i', w') \<Longrightarrow> Q i \<Longrightarrow> I w \<Longrightarrow> Q i' \<and> I w'"
    and "RunOneShot E i w = (n, d, x, i', w') \<Longrightarrow> Q i \<Longrightarrow> I w \<Longrightarrow> Q i' \<and> I w'"
proof -
  show 1: "start_oneshot E i key w = (n, d, x, i', w') \<Longrightarrow> Q i \<Longrightarrow> I w \<Longrightarrow> Q i' \<and> I w'" for i key w n d x i' w'
    by (auto simp: start_oneshot_def Let_def split: prod.splits option.splits sum.splits if_splits)
      (blast intro: inert_record [OF assms(1)] dest: steadyD [OF inert_calls(3) [OF inert_clients(16) [OF assms(1)]]])+
  show "RunOneShot E i w = (n, d, x, i', w') \<Longrightarrow> Q i \<Longrightarrow> I w \<Longrightarrow> Q i' \<and> I w'"
    by (auto simp: RunOneShot_def Let_def split: prod.splits option.splits sum.splits if_splits)
      (blast intro: keeps_stamps dest: steadyD [OF inert_clients(19) [OF assms(1)]] steadyD [OF steady_job [OF assms(1)]]
        keeps_status [OF assms(2)] 1)+
qed

lemma keeps_restore:
  assumes "inert_env I E" and "instance_kept k Q I E" and "conditions_kept Cs E"
    and "RestoreReconcile E i w = (r, d, x, i', w')" and "Q i" and "I w"
  shows "Q i' \<and> I w'"
  using assms(4-6)
  by (auto simp: RestoreReconcile_def Let_def keeps_put [OF assms(3)] split: prod.splits option.splits sum.splits if_splits)
    (blast intro: inert_record [OF assms(1)] keeps_put [OF assms(3)] listed Q_restored
      dest: steadyD [OF inert_calls(1) [OF inert_clients(17) [OF assms(1)]]] keeps_status [OF assms(2)])+

lemma keeps_migration:
  assumes "inert_env I E" and "instance_kept k Q I E" and "conditions_kept Cs E"
    and "MigrationReconcile E i w = (r, d, x, i', w')" and "Q i" and "I w"
  shows "Q i' \<and> I w'"
proof -
  have m: "I v \<Longrightarrow> I (move_advisory E j v)" for j v
    using inert_record [OF assms(1)] by (simp add: move_advisory_def split: option.split bool.split)
  show ?thesis
    using assms(4-6)
    by (auto simp: MigrationReconcile_def Let_def keeps_put [OF assms(3)] split: prod.splits option.splits sum.splits if_splits)
      (blast intro: m inert_record [OF assms(1)] keeps_put [OF assms(3)] listed Q_migrated
        dest: steadyD [OF inert_calls(1) [OF inert_clients(17) [OF assms(1)]]] steadyD [OF inert_clients(19) [OF assms(1)]]
          keeps_status [OF assms(2)])+
qed

lemma steady_rollout:
  assumes "inert_env I E"
  shows "steady I (get_sts E i)" and "steady I (countProbeFailures E i)" and "steady I (roll_image E i t sts)"
    and "steady I (past_deadline E i)"
proof -
  note s = inert_clients(13) [OF assms] and ev = inert_clients(18) [OF assms] and now = inert_clients(19) [OF assms]
  show "steady I (get_sts E i)"
    by (rule steadyI) (auto simp: get_sts_def dest: steadyD [OF inert_calls(1) [OF s]])
  show "steady I (countProbeFailures E i)"
    by (rule steadyI) (auto simp: countProbeFailures_def split: prod.splits sum.splits dest: steadyD [OF inert_calls(2) [OF ev]])
  show "steady I (roll_image E i t sts)"
    by (rule steadyI)
      (auto simp: roll_image_def split: list.splits if_splits prod.splits sum.splits dest: steadyD [OF inert_calls(5) [OF s]])
  show "steady I (past_deadline E i)"
    by (rule steadyI) (auto simp: past_deadline_def split: option.splits prod.splits dest: steadyD [OF now])
qed

lemma keeps_marks:
  assumes "conditions_kept Cs E" and "Q i"
  shows "Q (mark_in_flight E dl t w i)" and "Q (mark_rolled_back E ft pv rs w i)"
  using assms by (simp_all add: mark_in_flight_def mark_rolled_back_def keeps_put keeps_stamps)

lemma keeps_annotation:
  assumes "instance_kept k Q I E" and "Q i" and "I w"
  shows "drop_target_annotation E i w = (x, i', w') \<Longrightarrow> Q i' \<and> I w'"
    and "patch_instance E i (upd_meta (\<lambda>m. m\<lparr>om_Annotations := g m\<rparr>) i) w = (x, i', w') \<Longrightarrow> Q i' \<and> I w'"
proof -
  show 1: "Q i' \<and> I w'" if "patch_instance E i (upd_meta (\<lambda>m. m\<lparr>om_Annotations := g m\<rparr>) i) w = (x, i', w')" for g x i' w'
    using keeps_meta [OF assms(1) that assms(2,3)] by simp
  show "drop_target_annotation E i w = (x, i', w') \<Longrightarrow> Q i' \<and> I w'"
    using assms(2,3) 1 by (auto simp: drop_target_annotation_def split: if_splits)
qed

lemma keeps_rollout:
  assumes "inert_env I E" and "instance_kept k Q I E" and "conditions_kept Cs E"
  shows "begin_rollout E i t w = (r, x, i', w') \<Longrightarrow> Q i \<Longrightarrow> I w \<Longrightarrow> Q i' \<and> I w'"
    and "startRollout up E i t w = (r, x, i', w') \<Longrightarrow> Q i \<Longrightarrow> I w \<Longrightarrow> Q i' \<and> I w'"
proof -
  note now = steadyD [OF inert_clients(19) [OF assms(1)]] and rec = inert_record [OF assms(1)]
    and st = keeps_status [OF assms(2)] and sts = steady_rollout [OF assms(1), THEN steadyD]
  have an: "patch_instance E i (upd_meta (\<lambda>m. m\<lparr>om_Annotations := mset1 a t (om_Annotations m)\<rparr>) i) w = (x, i', w') \<Longrightarrow>
      Q i \<Longrightarrow> I w \<Longrightarrow> Q i' \<and> I w'" for i a t w x i' w'
    by (rule keeps_annotation(2) [OF assms(2)])
  show 1: "begin_rollout E i t w = (r, x, i', w') \<Longrightarrow> Q i \<Longrightarrow> I w \<Longrightarrow> Q i' \<and> I w'" for i t w r x i' w'
    by (auto simp: begin_rollout_def Let_def split: prod.splits option.splits sum.splits if_splits)
      (blast intro: rec keeps_marks(1) [OF assms(3)] dest: sts(1) sts(3) now an st)+
  show "startRollout up E i t w = (r, x, i', w') \<Longrightarrow> Q i \<Longrightarrow> I w \<Longrightarrow> Q i' \<and> I w'"
    by (auto simp: startRollout_def split: prod.splits option.splits if_splits)
      (blast intro: rec dest: keeps_oneshot(2) [OF assms(1,2)] 1)+
qed

lemma keeps_outcome:
  assumes "inert_env I E" and "instance_kept k Q I E" and "conditions_kept Cs E"
  shows "confirmRollout E i t w = (r, x, i', w') \<Longrightarrow> Q i \<Longrightarrow> I w \<Longrightarrow> Q i' \<and> I w'"
    and "rollback E i t rs w = (r, x, i', w') \<Longrightarrow> Q i \<Longrightarrow> I w \<Longrightarrow> Q i' \<and> I w'"
    and "driveRollout E i w = (r, x, i', w') \<Longrightarrow> Q i \<Longrightarrow> I w \<Longrightarrow> Q i' \<and> I w'"
proof -
  note now = steadyD [OF inert_clients(19) [OF assms(1)]] and rec = inert_record [OF assms(1)]
    and st = keeps_status [OF assms(2)] and sts = steady_rollout [OF assms(1), THEN steadyD]
    and drop = keeps_annotation(1) [OF assms(2)] and put = keeps_put(1) [OF assms(3)]
    and patch = steadyD [OF inert_calls(5) [OF inert_clients(13) [OF assms(1)]]]
  have confirmed: "Q i \<Longrightarrow> Q (drop_condition E ct (put_condition E v (condition j ConditionAutoUpdated cs rn m) (upd_au f i)))" for i ct v j cs rn m f
    by (intro keeps_drop [OF assms(3)] put keeps_stamps) simp_all
  show 1: "confirmRollout E i t w = (r, x, i', w') \<Longrightarrow> Q i \<Longrightarrow> I w \<Longrightarrow> Q i' \<and> I w'" for i t w r x i' w'
    by (auto simp: confirmRollout_def Let_def split: prod.splits option.splits)
      (blast intro: rec confirmed dest: now st drop)+
  show 2: "rollback E i t rs w = (r, x, i', w') \<Longrightarrow> Q i \<Longrightarrow> I w \<Longrightarrow> Q i' \<and> I w'" for i t rs w r x i' w'
    by (auto simp: rollback_def Let_def split: prod.splits option.splits sum.splits if_splits)
      (blast intro: rec keeps_marks [OF assms(3)] dest: sts(1) patch st drop)+
  show "driveRollout E i w = (r, x, i', w') \<Longrightarrow> Q i \<Longrightarrow> I w \<Longrightarrow> Q i' \<and> I w'"
    by (auto simp: driveRollout_def Let_def split: prod.splits option.splits sum.splits if_splits)
      (blast intro: rec keeps_stamps dest: sts(1) sts(2) sts(4) 1 2 st)+
qed

lemma keeps_poll:
  assumes "inert_env I E" and "instance_kept k Q I E" and "conditions_kept Cs E"
  shows "record_verdict E i s rn m w = (r, x, i', w') \<Longrightarrow> Q i \<Longrightarrow> I w \<Longrightarrow> Q i' \<and> I w'"
    and "decide_update up E i tags w = (r, x, i', w') \<Longrightarrow> Q i \<Longrightarrow> I w \<Longrightarrow> Q i' \<and> I w'"
proof -
  show 1: "record_verdict E i s rn m w = (r, x, i', w') \<Longrightarrow> Q i \<Longrightarrow> I w \<Longrightarrow> Q i' \<and> I w'" for i s rn m w r x i' w'
    by (auto simp: record_verdict_def split: prod.splits option.splits)
      (blast intro: keeps_put [OF assms(3)] listed dest: keeps_status [OF assms(2)])+
  show "decide_update up E i tags w = (r, x, i', w') \<Longrightarrow> Q i \<Longrightarrow> I w \<Longrightarrow> Q i' \<and> I w'"
    by (auto simp: decide_update_def Let_def split: prod.splits sum.splits if_splits)
      (blast intro: keeps_stamps dest: 1 keeps_rollout(2) [OF assms] steadyD [OF inert_clients(19) [OF assms(1)]])+
qed

lemma keeps_auto_update:
  assumes "inert_env I E" and "instance_kept k Q I E" and "conditions_kept Cs E"
    and "\<And>l s. up_Registry up = Some l \<Longrightarrow> steady I (l s)"
    and "AutoUpdateReconcile up E i w = (r, x, i', w')" and "Q i" and "I w"
  shows "Q i' \<and> I w'"
  using assms(5-7)
  by (auto simp: AutoUpdateReconcile_def Let_def split: prod.splits option.splits sum.splits if_splits)
    (blast intro: inert_record [OF assms(1)] keeps_stamps
      dest: keeps_outcome(3) [OF assms(1-3)] keeps_poll(2) [OF assms(1-3)] steadyD [OF assms(4)]
        steadyD [OF inert_clients(19) [OF assms(1)]] keeps_status [OF assms(2)])+

lemma keeps_semaphore:
  assumes "inert_env I E" and "instance_kept k Q I E" and "inert_http I H"
  shows "ensure_skill E i w = (x, i', w') \<Longrightarrow> SemaphoreEnabled i \<Longrightarrow> Q i \<Longrightarrow> I w \<Longrightarrow> Q i' \<and> I w'"
    and "reconcileSemaphore H E i w = (x, i', w') \<Longrightarrow> Q i \<Longrightarrow> I w \<Longrightarrow> Q i' \<and> I w'"
proof -
  show 1: "Q i' \<and> I w'" if run: "ensure_skill E i w = (x, i', w')" and on: "SemaphoreEnabled i" and q: "Q i" "I w" for i w x i' w'
  proof (cases "has_ui_skill (hi_Spec i)")
    case True
    then show ?thesis using run q by (simp add: ensure_skill_def has_ui_skill_def)
  next
    case False
    let ?j = "i\<lparr>hi_Spec := with_ui_skill (hi_Spec i)\<rparr>"
    obtain e where p: "patch_instance E i ?j w = (e, i', w')"
      using run False by (auto simp: ensure_skill_def has_ui_skill_def with_ui_skill_def ui_skill_def split: prod.splits)
    have "operator_patch i ?j" using False on by (simp add: operator_patch_def inst_key_def)
    from keeps_patch [OF assms(2) p this q(1) Q_skill [OF q(1) on False] q(2)] show ?thesis .
  qed
  show "reconcileSemaphore H E i w = (x, i', w') \<Longrightarrow> Q i \<Longrightarrow> I w \<Longrightarrow> Q i' \<and> I w'"
    by (auto simp: reconcileSemaphore_def split: prod.splits option.splits sum.splits if_splits
        dest: steadyD [OF steady_provision(1) [OF assms(3,1)]] 1)
qed

lemma keeps_reading: "steady I (act i) \<Longrightarrow> reading act i w = (x, i', w') \<Longrightarrow> Q i \<Longrightarrow> I w \<Longrightarrow> Q i' \<and> I w'"
  by (auto simp: reading_def split: prod.splits dest: steadyD)

lemma keeps_steps:
  assumes "inert_env I (rc_env R)" and "instance_kept k Q I (rc_env R)" and "inert_http I (rc_http R)"
    and "(n, c, fn) \<in> set (steps R)" and "fn i w = (x, i', w')" and "Q i" and "I w"
  shows "Q i' \<and> I w'"
proof (cases "fn = reconcileSemaphore (rc_http R) (rc_env R)")
  case True
  then show ?thesis using keeps_semaphore(2) [OF assms(1-3)] assms(5-7) by blast
next
  case False
  then have "(n, c, fn) \<in> set (resource_steps R)" using assms(4) by (simp add: steps_def)
  moreover define P where "P f \<longleftrightarrow> (\<exists>act. f = reading act \<and> (\<forall>j. steady I (act j)))" for f
  have p: "P (reading act)" if "\<And>j. steady I (act j)" for act
    using that unfolding P_def by blast
  have "\<forall>s \<in> set (resource_steps R). P (snd (snd s))"
    by (simp add: resource_steps_def Let_def p steady_secret steady_claims steady_config steady_steps steady_unstructured
        steady_tailscale assms(1))
  ultimately have "P fn" by fastforce
  then obtain act where act: "fn = reading act" "\<And>j. steady I (act j)" unfolding P_def by blast
  show ?thesis by (rule keeps_reading [OF act(2) assms(5) [unfolded act(1)] assms(6,7)])
qed

lemma keeps_pipeline:
  assumes "instance_kept k Q I E" and "conditions_kept Cs E"
  shows "run_pipeline E L i w = (x, i', w') \<Longrightarrow> Q i \<Longrightarrow> I w \<Longrightarrow>
    (\<And>n c fn j v y j' v'. (n, c, fn) \<in> set L \<Longrightarrow> fn j v = (y, j', v') \<Longrightarrow> Q j \<Longrightarrow> I v \<Longrightarrow> c \<in> set status_conditions \<and> Q j' \<and> I v') \<Longrightarrow>
    Q i' \<and> I w'"
proof (induction L arbitrary: i w)
  case (Cons s L)
  obtain n c fn where s: "s = (n, c, fn)" by (cases s)
  obtain e j v where r: "fn i w = (e, j, v)" by (metis prod_cases3)
  have q: "c \<in> set status_conditions" "Q j" "I v" using Cons.prems(4) [of n c fn i w e j v] Cons.prems(2,3) r by (simp_all add: s)
  note set_cond = keeps_put(2) [OF assms(2) q(2,1)]
  show ?case
  proof (cases e)
    case None
    then have "run_pipeline E L (setCondition E j c ConditionTrue ''Reconciled'' (n @ '' up to date'') v) v = (x, i', w')"
      using Cons.prems(1) r by (simp add: s)
    from Cons.IH [OF this set_cond q(3)] Cons.prems(4) show ?thesis by (meson list.set_intros(2))
  next
    case (Some err)
    then show ?thesis
      using Cons.prems(1) r q keeps_status [OF assms(1) _ set_cond q(3)] by (auto simp: s split: if_splits prod.splits)
  qed
qed simp

lemma keeps_chain:
  assumes "hosts k Q Cs I R" and "run_chain R i w = (i', w')" and "Q i" and "I w"
  shows "Q i' \<and> I w'"
proof -
  note h = assms(1) [unfolded hosts_def]
  have e: "inert_env I (rc_env R)" "instance_kept k Q I (rc_env R)" "conditions_kept Cs (rc_env R)" using h by blast+
  have u: "Q i' \<and> I w'" if "AutoUpdateReconcile up (rc_env R) j v = (r, x, i', w')" "rc_AutoUpdate R = Some up" "Q j" "I v"
    for up j v r x i' w'
    using keeps_auto_update [OF e _ that(1,3,4)] h that(2) by blast
  show ?thesis
    using assms(2-4)
    by (auto simp: run_chain_def Let_def split: prod.splits option.splits if_splits)
      (blast dest: u keeps_cronjobs [OF e(1,3)] keeps_migration [OF e] keeps_restore [OF e])+
qed

lemma keeps_observed:
  assumes "inert_env I E" and "instance_kept k Q I E" and "conditions_kept Cs E"
  shows "updateProfileStoreCondition E i w = (i', w') \<Longrightarrow> Q i \<Longrightarrow> I w \<Longrightarrow> Q i' \<and> I w'"
    and "updateStatus E i w = (x, i', w') \<Longrightarrow> Q i \<Longrightarrow> I w \<Longrightarrow> Q i' \<and> I w'"
proof -
  show "updateProfileStoreCondition E i w = (i', w') \<Longrightarrow> Q i \<Longrightarrow> I w \<Longrightarrow> Q i' \<and> I w'"
    by (auto simp: updateProfileStoreCondition_def keeps_put [OF assms(3)] split: prod.splits sum.splits if_splits
        dest: steadyD [OF inert_calls(1) [OF inert_clients(14) [OF assms(1)]]])
  show "updateStatus E i w = (x, i', w') \<Longrightarrow> Q i \<Longrightarrow> I w \<Longrightarrow> Q i' \<and> I w'"
    by (auto simp: updateStatus_def Let_def split: prod.splits sum.splits if_splits)
      (blast intro: keeps_put(2) [OF assms(3)] Q_observed Q_phase listed
        dest: steadyD [OF inert_calls(1) [OF inert_clients(13) [OF assms(1)]]] keeps_status [OF assms(2)])+
qed

lemma keeps_deleted:
  assumes "hosts k Q Cs I R" and "reconcile_deleted R i w = (r, x, i', w')" and "Q i" and "I w"
  shows "Q i' \<and> I w'"
proof -
  have e: "inert_env I (rc_env R)" "instance_kept k Q I (rc_env R)" "inert_http I (rc_http R)"
    using assms(1) unfolding hosts_def by blast+
  have p: "Q j' \<and> I v'" if "patch_instance (rc_env R) j (DropFinalizer f j) v = (y, j', v')" "Q j" "I v" for j f v y j' v'
    using keeps_finalizer_patch [OF e(2) _ that(2,3)] that(1) by blast
  have s: "release_semaphore R j v = (r, x, j', v') \<Longrightarrow> Q j \<Longrightarrow> I v \<Longrightarrow> Q j' \<and> I v'" for j v r x j' v'
    by (auto simp: release_semaphore_def split: prod.splits option.splits if_splits)
      (blast dest: p steadyD [OF steady_provision(2) [OF e(3,1)]])+
  show ?thesis
    using assms(2-4)
    by (auto simp: reconcile_deleted_def split: prod.splits option.splits if_splits)
      (blast dest: s keeps_deletion [OF e(1,2)])+
qed

lemma keeps_live:
  assumes "hosts k Q Cs I R" and "reconcile_live R i w = (r, x, i', w')" and "Q i" and "I w"
  shows "Q i' \<and> I w'"
proof -
  have e: "inert_env I (rc_env R)" "instance_kept k Q I (rc_env R)" "inert_http I (rc_http R)" "conditions_kept Cs (rc_env R)"
    using assms(1) unfolding hosts_def by blast+
  have f: "ensure_finalizers R j v = (y, j', v') \<Longrightarrow> Q j \<Longrightarrow> I v \<Longrightarrow> Q j' \<and> I v'" for j v y j' v'
    by (auto simp: ensure_finalizers_def split: prod.splits option.splits if_splits)
      (blast dest: keeps_releases(1) [OF e(2)] keeps_releases(4) [OF e(2)])+
  have pl: "Q j' \<and> I v'" if "run_pipeline (rc_env R) (steps R) j v = (y, j', v')" "Q j" "I v" for j v y j' v'
    using keeps_pipeline [OF e(2,4) that] keeps_steps [OF e(1-3)] steps_listed by metis
  have fin: "finish_pass R j v = (r, x, j', v') \<Longrightarrow> Q j \<Longrightarrow> I v \<Longrightarrow> Q j' \<and> I v'" for j v r x j' v'
    by (auto simp: finish_pass_def Let_def split: prod.splits)
      (blast dest: keeps_chain [OF assms(1)] keeps_observed(1) [OF e(1,2,4)] keeps_observed(2) [OF e(1,2,4)])+
  show ?thesis
    using assms(2-4)
    by (auto simp: reconcile_live_def split: prod.splits option.splits) (blast dest: f pl fin)+
qed

text \<open>A whole pass keeps the predicate on the stored instance.\<close>

lemma keeps_reconcile:
  assumes "hosts k Q Cs I R" and "Reconcile R k w = (r, x, w')" and "I w"
  shows "I w'"
proof -
  obtain g w1 where g: "kc_get (env_instances (rc_env R)) k w = (g, w1)" by fastforce
  have "instance_kept k Q I (rc_env R)" using assms(1) unfolding hosts_def by blast
  from instance_keptD(1) [where I = I, OF this assms(3) g] have k: "I w1" "\<And>i. g = Inr i \<Longrightarrow> Q i" by blast+
  have p: "Q i' \<and> I v" if "reconcile_instance R i w1 = (r, y, i', v)" "Q i" for i r y i' v
    using that k(1) keeps_deleted [OF assms(1)] keeps_live [OF assms(1)] unfolding reconcile_instance_def by metis
  show ?thesis
    using assms(2) g k p by (auto simp: Reconcile_def split: prod.splits sum.splits if_splits)
qed

end

end
