(* ===== verification/System.thy ===== *)
theory System
  imports Pass Lifecycle
begin

text \<open>
  The operator and everyone else on one instance. \<open>serves_instance\<close> is the documented behaviour of
  the API server for the stored instance when other clients may change it between and during the
  operator's calls, as the relation \<open>U\<close> allows; \<open>system\<close> is the step relation of whole passes of
  \<open>Reconcile\<close> and such changes. The predicates of the last sections are interpretations of the
  locale \<open>pass_invariant\<close>, so they hold along every history of the system.
\<close>

section \<open>The API server with other clients\<close>

text \<open>A client whose calls move the world by \<open>M\<close> only, and \<open>CreateOrUpdate\<close> by \<open>M\<close> and its callback.\<close>

definition calm :: "('w \<Rightarrow> 'w \<Rightarrow> bool) \<Rightarrow> ('o, 'w) kind_client \<Rightarrow> bool" where
  "calm M kc \<longleftrightarrow>
     (\<forall>w k. M w (snd (kc_get kc k w))) \<and> (\<forall>w ns. M w (snd (kc_list kc ns w))) \<and> (\<forall>w x. M w (snd (kc_create kc x w))) \<and>
     (\<forall>w x. M w (snd (kc_delete kc x w))) \<and> (\<forall>w x y. M w (snd (kc_patch kc x y w))) \<and>
     (\<forall>w x o1 f. M w (snd (kc_apply kc x o1 f w))) \<and> (\<forall>w x. M w (snd (kc_status_update kc x w))) \<and>
     (\<forall>w x f. (\<lambda>a b. M a b \<or> (\<exists>y. b = snd (f y a)))\<^sup>*\<^sup>* w (snd (kc_create_or_update kc x f w)))"

definition calm_env :: "('w \<Rightarrow> 'w \<Rightarrow> bool) \<Rightarrow> 'w env \<Rightarrow> bool" where
  "calm_env M E \<longleftrightarrow>
     calm M (env_secrets E) \<and> calm M (env_configmaps E) \<and> calm M (env_pvcs E) \<and> calm M (env_serviceaccounts E) \<and>
     calm M (env_roles E) \<and> calm M (env_rolebindings E) \<and> calm M (env_services E) \<and> calm M (env_netpols E) \<and>
     calm M (env_pdbs E) \<and> calm M (env_hpas E) \<and> calm M (env_ingresses E) \<and> (\<forall>g. calm M (env_unstructured E g)) \<and>
     calm M (env_statefulsets E) \<and> calm M (env_deployments E) \<and> calm M (env_cronjobs E) \<and> calm M (env_jobs E) \<and>
     calm M (env_pods E) \<and> calm M (env_events E) \<and> (\<forall>w. M w (snd (env_now E w))) \<and> (\<forall>w. M w (snd (env_random E w))) \<and>
     (\<forall>ref ty r m w. M w (env_record E ref ty r m w))"

lemma moves_steady: "(\<And>w. M w (snd (f w))) \<Longrightarrow> (\<And>a b. M a b \<Longrightarrow> I a \<Longrightarrow> I b) \<Longrightarrow> steady I f"
  unfolding steady_def by blast

lemma calm_inert:
  assumes "calm M kc" and "\<And>a b. M a b \<Longrightarrow> I a \<Longrightarrow> I b"
  shows "inert I kc"
proof -
  have "steady I (kc_create_or_update kc x f)" if s: "\<And>y. steady I (f y)" for x f
    unfolding steady_def
  proof (intro allI impI)
    fix w assume "I w"
    have "(\<lambda>a b. M a b \<or> (\<exists>y. b = snd (f y a)))\<^sup>*\<^sup>* w (snd (kc_create_or_update kc x f w))"
      using assms(1) unfolding calm_def by blast
    then show "I (snd (kc_create_or_update kc x f w))"
      by (induction rule: rtranclp_induct) (use \<open>I w\<close> assms(2) s in \<open>auto simp: steady_def\<close>)
  qed
  then show ?thesis
    using assms(1) unfolding inert_def calm_def by (simp add: moves_steady [of M, OF _ assms(2)])
qed

lemma calm_inert_env: "calm_env M E \<Longrightarrow> (\<And>a b. M a b \<Longrightarrow> I a \<Longrightarrow> I b) \<Longrightarrow> inert_env I E"
  unfolding calm_env_def inert_env_def by (blast intro: calm_inert [of M] moves_steady [of M])

text \<open>What a merge patch computed from \<open>old\<close> and \<open>new\<close> makes of a stored specification \<open>s\<close>.\<close>

definition spec_patched :: "HermesInstanceSpec \<Rightarrow> HermesInstanceSpec \<Rightarrow> HermesInstanceSpec \<Rightarrow> HermesInstanceSpec \<Rightarrow> bool" where
  "spec_patched old new s t \<longleftrightarrow>
     (new = old \<longrightarrow> t = s) \<and> (\<forall>sk. new = old\<lparr>spec_Skills := sk\<rparr> \<longrightarrow> sk \<noteq> spec_Skills old \<longrightarrow> t = s\<lparr>spec_Skills := sk\<rparr>)"

text \<open>
  A write: after changes by others it turns the stored object \<open>s\<close> into \<open>t\<close>, answers \<open>t\<close>, and others go
  on. A write that answers an error may still have taken place.
\<close>

type_synonym change = "HermesInstance option \<Rightarrow> HermesInstance option \<Rightarrow> bool"

definition written ::
  "change \<Rightarrow> (HermesInstance \<Rightarrow> HermesInstance \<Rightarrow> bool) \<Rightarrow> go_error + HermesInstance \<Rightarrow> HermesInstance option \<Rightarrow> HermesInstance option \<Rightarrow> bool" where
  "written U eff r a b \<longleftrightarrow>
     (case r of
        Inr t \<Rightarrow> \<exists>s. U\<^sup>*\<^sup>* a (Some s) \<and> eff s t \<and> U\<^sup>*\<^sup>* (Some t) b
      | Inl e \<Rightarrow> U\<^sup>*\<^sup>* a b \<or> (\<exists>s t. U\<^sup>*\<^sup>* a (Some s) \<and> eff s t \<and> U\<^sup>*\<^sup>* (Some t) b))"

definition serves_instance :: "nsname \<Rightarrow> change \<Rightarrow> ('w \<Rightarrow> HermesInstance option) \<Rightarrow> 'w env \<Rightarrow> bool" where
  "serves_instance k U stored E \<longleftrightarrow>
     (\<forall>w r w'. kc_get (env_instances E) k w = (r, w') \<longrightarrow>
        (case r of Inl e \<Rightarrow> U\<^sup>*\<^sup>* (stored w) (stored w') | Inr i \<Rightarrow> U\<^sup>*\<^sup>* (stored w) (Some i) \<and> U\<^sup>*\<^sup>* (Some i) (stored w'))) \<and>
     (\<forall>i w r w'. inst_key i = k \<longrightarrow> kc_status_update (env_instances E) i w = (r, w') \<longrightarrow>
        written U (\<lambda>s t. inst_key t = k \<and> hi_Spec t = hi_Spec s \<and> hi_Status t = hi_Status i) r (stored w) (stored w')) \<and>
     (\<forall>o1 i w r w'. inst_key i = k \<longrightarrow> kc_patch (env_instances E) o1 i w = (r, w') \<longrightarrow>
        written U (\<lambda>s t. inst_key t = k \<and> hi_Status t = hi_Status s \<and>
                         spec_patched (hi_Spec o1) (hi_Spec i) (hi_Spec s) (hi_Spec t)) r (stored w) (stored w'))"

definition others_move :: "change \<Rightarrow> ('w \<Rightarrow> HermesInstance option) \<Rightarrow> 'w \<Rightarrow> 'w \<Rightarrow> bool" where
  "others_move U stored w w' \<longleftrightarrow> U\<^sup>*\<^sup>* (stored w) (stored w')"

definition serves_operator :: "nsname \<Rightarrow> change \<Rightarrow> ('w \<Rightarrow> HermesInstance option) \<Rightarrow> ('v, 'w) reconciler \<Rightarrow> bool" where
  "serves_operator k U stored R \<longleftrightarrow>
     serves_instance k U stored (rc_env R) \<and> calm_env (others_move U stored) (rc_env R) \<and>
     (\<forall>r w. others_move U stored w (snd (ht_do (rc_http R) r w))) \<and>
     (\<forall>up l s w. rc_AutoUpdate R = Some up \<longrightarrow> up_Registry up = Some l \<longrightarrow> others_move U stored w (snd (l s w)))"

section \<open>Predicates of the specification and of the status\<close>

definition stays :: "nsname \<Rightarrow> (HermesInstanceSpec \<Rightarrow> bool) \<Rightarrow> (HermesInstanceStatus \<Rightarrow> bool) \<Rightarrow> HermesInstance \<Rightarrow> bool" where
  "stays k A B i \<longleftrightarrow> inst_key i = k \<and> A (hi_Spec i) \<and> B (hi_Status i)"

definition on_store :: "('w \<Rightarrow> HermesInstance option) \<Rightarrow> (HermesInstance \<Rightarrow> bool) \<Rightarrow> 'w \<Rightarrow> bool" where
  "on_store stored Q w \<longleftrightarrow> pred_option Q (stored w)"

definition kept_by :: "change \<Rightarrow> (HermesInstance \<Rightarrow> bool) \<Rightarrow> bool" where
  "kept_by U Q \<longleftrightarrow> (\<forall>a b. U a b \<longrightarrow> pred_option Q a \<longrightarrow> pred_option Q b)"

definition skills_free :: "(HermesInstanceSpec \<Rightarrow> bool) \<Rightarrow> bool" where
  "skills_free A \<longleftrightarrow>
     (\<forall>old s. A old \<longrightarrow> A s \<longrightarrow> BoolValue (sema_Enabled (spec_Semaphore old)) \<longrightarrow> \<not> has_ui_skill old \<longrightarrow>
        A (s\<lparr>spec_Skills := spec_Skills old @ [ui_skill]\<rparr>))"

lemma kept_by_all: "U\<^sup>*\<^sup>* a b \<Longrightarrow> kept_by U Q \<Longrightarrow> pred_option Q a \<Longrightarrow> pred_option Q b"
  unfolding kept_by_def by (induction rule: rtranclp_induct) blast+

lemma on_store_moves: "others_move U stored a b \<Longrightarrow> kept_by U Q \<Longrightarrow> on_store stored Q a \<Longrightarrow> on_store stored Q b"
  using kept_by_all [of U "stored a" "stored b" Q] by (simp add: others_move_def on_store_def)

text \<open>A write keeps \<open>Q\<close> when its effect does.\<close>

lemma written_keeps:
  assumes "written U eff r a b" and "kept_by U Q" and "\<And>s t. Q s \<Longrightarrow> eff s t \<Longrightarrow> Q t" and "pred_option Q a"
  shows "pred_option Q b \<and> (\<forall>j. r = Inr j \<longrightarrow> Q j)"
proof -
  have w: "Q t \<and> pred_option Q b" if "U\<^sup>*\<^sup>* a (Some s)" "eff s t" "U\<^sup>*\<^sup>* (Some t) b" for s t
  proof -
    have "Q s" using kept_by_all [OF that(1) assms(2,4)] by simp
    then have "Q t" using assms(3) that(2) by blast
    then show ?thesis using kept_by_all [OF that(3) assms(2)] by simp
  qed
  show ?thesis
  proof (cases r)
    case (Inl e)
    then show ?thesis using assms(1) w kept_by_all [OF _ assms(2,4)] unfolding written_def by auto
  next
    case (Inr t)
    then show ?thesis using assms(1) w unfolding written_def by auto
  qed
qed

lemma stays_patch:
  assumes "skills_free A" and "operator_patch o1 i" and "stays k A B o1" and "stays k A B s"
    and "inst_key t = k" and "hi_Status t = hi_Status s" and "spec_patched (hi_Spec o1) (hi_Spec i) (hi_Spec s) (hi_Spec t)"
  shows "stays k A B t"
proof (cases "hi_Spec i = hi_Spec o1")
  case True
  then show ?thesis using assms(4-7) by (simp add: stays_def spec_patched_def)
next
  case False
  then have i: "SemaphoreEnabled o1" "\<not> has_ui_skill (hi_Spec o1)" "hi_Spec i = with_ui_skill (hi_Spec o1)"
    using assms(2) by (simp_all add: operator_patch_def)
  then have "hi_Spec t = (hi_Spec s)\<lparr>spec_Skills := spec_Skills (hi_Spec o1) @ [ui_skill]\<rparr>"
    using assms(7) by (simp add: spec_patched_def with_ui_skill_def)
  then show ?thesis
    using assms(1,3-6) i(1,2) unfolding skills_free_def stays_def SemaphoreEnabled_def by simp
qed

lemma served_keeps:
  assumes "serves_instance k U stored E" and "kept_by U (stays k A B)" and "skills_free A"
  shows "instance_kept k (stays k A B) (on_store stored (stays k A B)) E"
proof -
  let ?Q = "stays k A B"
  note law = assms(1) [unfolded serves_instance_def]
  have "on_store stored ?Q w' \<and> (\<forall>i. r = Inr i \<longrightarrow> ?Q i)"
    if w: "on_store stored ?Q w" and g: "kc_get (env_instances E) k w = (r, w')" for w r w'
  proof (cases r)
    case (Inl e)
    then have "U\<^sup>*\<^sup>* (stored w) (stored w')" using law [THEN conjunct1, rule_format, OF g] by simp
    then show ?thesis using kept_by_all [OF _ assms(2)] w Inl unfolding on_store_def by blast
  next
    case (Inr i)
    then have u: "U\<^sup>*\<^sup>* (stored w) (Some i)" "U\<^sup>*\<^sup>* (Some i) (stored w')" using law [THEN conjunct1, rule_format, OF g] by simp_all
    have i: "?Q i" using kept_by_all [OF u(1) assms(2)] w unfolding on_store_def by simp
    then show ?thesis using kept_by_all [OF u(2) assms(2)] Inr unfolding on_store_def by simp
  qed
  moreover have "on_store stored ?Q w' \<and> (\<forall>j. r = Inr j \<longrightarrow> ?Q j)"
    if w: "on_store stored ?Q w" and i: "?Q i" and u: "kc_status_update (env_instances E) i w = (r, w')" for w i r w'
  proof -
    have k: "inst_key i = k" using i by (simp add: stays_def)
    show ?thesis
      using written_keeps [OF law [THEN conjunct2, THEN conjunct1, rule_format, OF k u] assms(2) _ w [unfolded on_store_def]] i
      unfolding on_store_def stays_def by simp
  qed
  moreover have "on_store stored ?Q w' \<and> (\<forall>j. r = Inr j \<longrightarrow> ?Q j)"
    if w: "on_store stored ?Q w" and o1: "?Q o1" and p: "operator_patch o1 i" and u: "kc_patch (env_instances E) o1 i w = (r, w')"
    for w o1 i r w'
  proof -
    have k: "inst_key i = k" using o1 p by (simp add: stays_def operator_patch_def)
    show ?thesis
      using written_keeps [OF law [THEN conjunct2, THEN conjunct2, rule_format, OF k u] assms(2) _ w [unfolded on_store_def]]
        stays_patch [OF assms(3) p o1]
      unfolding on_store_def by blast
  qed
  ultimately show ?thesis unfolding instance_kept_def by blast
qed

lemma served_hosts:
  assumes "serves_operator k U stored R" and "kept_by U (stays k A B)" and "skills_free A" and "conditions_kept Cs (rc_env R)"
  shows "hosts k (stays k A B) Cs (on_store stored (stays k A B)) R"
proof -
  let ?I = "on_store stored (stays k A B)" and ?M = "others_move U stored"
  have m: "?I b" if "?M a b" "?I a" for a b using on_store_moves [OF that(1) assms(2) that(2)] .
  have st: "steady ?I f" if "\<forall>w. ?M w (snd (f w))" for f
    by (rule moves_steady [of ?M f ?I, OF that [rule_format] m])
  note law = assms(1) [unfolded serves_operator_def]
  have "inert_env ?I (rc_env R)" by (rule calm_inert_env [of ?M, OF law [THEN conjunct2, THEN conjunct1] m])
  moreover have "inert_http ?I (rc_http R)" unfolding inert_http_def using law st by blast
  moreover have "\<forall>up l s. rc_AutoUpdate R = Some up \<longrightarrow> up_Registry up = Some l \<longrightarrow> steady ?I (l s)" using law st by blast
  moreover have "instance_kept k (stays k A B) ?I (rc_env R)" using served_keeps [OF _ assms(2,3)] law by blast
  ultimately show ?thesis using assms(4) unfolding hosts_def by blast
qed

section \<open>The system\<close>

inductive system :: "('v, 'w) reconciler \<Rightarrow> nsname \<Rightarrow> change \<Rightarrow> ('w \<Rightarrow> HermesInstance option) \<Rightarrow> 'w \<Rightarrow> 'w \<Rightarrow> bool"
  for R :: "('v, 'w) reconciler" and k :: nsname and U :: change and stored :: "'w \<Rightarrow> HermesInstance option" where
  pass: "Reconcile R k w = (r, x, w') \<Longrightarrow> system R k U stored w w'"
| others: "U (stored w) (stored w') \<Longrightarrow> system R k U stored w w'"

lemma system_keeps:
  assumes "pass_invariant (stays k A B) Cs" and "serves_operator k U stored R" and "kept_by U (stays k A B)"
    and "skills_free A" and "conditions_kept Cs (rc_env R)"
  shows "(system R k U stored)\<^sup>*\<^sup>* w w' \<Longrightarrow> on_store stored (stays k A B) w \<Longrightarrow> on_store stored (stays k A B) w'"
proof (induction rule: rtranclp_induct)
  case (step v v')
  have v: "on_store stored (stays k A B) v" using step by blast
  from step(2) show ?case
  proof cases
    case (pass r x)
    from pass_invariant.keeps_reconcile [OF assms(1) served_hosts [OF assms(2-5)] pass v] show ?thesis .
  next
    case others
    then show ?thesis using assms(3) v unfolding on_store_def kept_by_def by blast
  qed
qed simp

section \<open>What admission and deletion allow\<close>

text \<open>
  Other clients update the instance through the validating webhook, which an update of the main
  resource passes with its status unchanged, and delete it. An instance that was deleted and made
  anew under the same name is another one, with histories of its own.
\<close>

inductive admitted :: "'u validator \<Rightarrow> change" for v :: "'u validator" where
  update: "fst (snd (ValidateUpdate v i j u)) = None \<Longrightarrow> hi_Status j = hi_Status i \<Longrightarrow> inst_key j = inst_key i \<Longrightarrow>
    admitted v (Some i) (Some j)"
| delete: "admitted v (Some i) None"

definition deletions_only :: change where
  "deletions_only a b \<longleftrightarrow> b = None"

lemma admitted_kept:
  assumes "\<And>i j u. stays k A B i \<Longrightarrow> fst (snd (ValidateUpdate v i j u)) = None \<Longrightarrow> hi_Status j = hi_Status i \<Longrightarrow> A (hi_Spec j)"
  shows "kept_by (admitted v) (stays k A B)"
  unfolding kept_by_def
proof (intro allI impI)
  fix a b assume m: "admitted v a b" and a: "pred_option (stays k A B) a"
  from m show "pred_option (stays k A B) b"
  proof cases
    case (update i j u)
    have i: "stays k A B i" using a update(1) by simp
    from assms [OF this update(3,4)] i update(2,4,5) show ?thesis by (simp add: stays_def)
  qed simp
qed

lemma deletions_kept: "kept_by deletions_only Q"
  by (simp add: kept_by_def deletions_only_def)

section \<open>Import latches\<close>

definition restored_with :: "nsname \<Rightarrow> string \<Rightarrow> HermesInstance \<Rightarrow> bool" where
  "restored_with k key = stays k (\<lambda>s. spec_RestoreFrom s = key) (\<lambda>st. key \<noteq> '''' \<and> st_RestoredFrom st = key)"

definition migrated_with :: "nsname \<Rightarrow> MigrationSpec \<Rightarrow> HermesInstance \<Rightarrow> bool" where
  "migrated_with k m = stays k (\<lambda>s. spec_Migration s = m) (\<lambda>st. mig_FromOpenClaw m \<noteq> None \<and> mst_Completed (st_Migration st))"

definition one_source :: "nsname \<Rightarrow> HermesInstance \<Rightarrow> bool" where
  "one_source k = stays k (\<lambda>s. spec_RestoreFrom s = '''' \<or> mig_FromOpenClaw (spec_Migration s) = None) (\<lambda>st. True)"

lemmas stays_simps = stays_def inst_key_def recond_def upd_meta_def upd_status_def with_ui_skill_def observe_replicas_def set_phase_def
  set_restored_def set_migrated_def

interpretation restored_kept: pass_invariant "restored_with k key" "\<lambda>cs. True"
  by unfold_locales (auto simp: restored_with_def stays_simps)

interpretation migrated_kept: pass_invariant "migrated_with k m" "\<lambda>cs. True"
  by unfold_locales (auto simp: migrated_with_def stays_simps)

interpretation source_kept: pass_invariant "one_source k" "\<lambda>cs. True"
  by unfold_locales (auto simp: one_source_def stays_simps)

lemma free_of_skills:
  "skills_free (\<lambda>s. spec_RestoreFrom s = key)" "skills_free (\<lambda>s. spec_Migration s = m)"
  "skills_free (\<lambda>s. spec_RestoreFrom s = '''' \<or> mig_FromOpenClaw (spec_Migration s) = None)"
  by (simp_all add: skills_free_def)

lemma all_conditions: "conditions_kept (\<lambda>cs. True) E"
  by (simp add: conditions_kept_def)

lemma imports_kept:
  "kept_by (admitted v) (restored_with k key)" "kept_by (admitted v) (migrated_with k m)" "kept_by (admitted v) (one_source k)"
proof -
  show "kept_by (admitted v) (restored_with k key)"
    unfolding restored_with_def by (rule admitted_kept) (auto simp: stays_def respects_latches_def dest!: accept_latches)
  show "kept_by (admitted v) (migrated_with k m)"
    unfolding migrated_with_def by (rule admitted_kept) (auto simp: stays_def respects_latches_def dest!: accept_latches)
  show "kept_by (admitted v) (one_source k)"
    unfolding one_source_def by (rule admitted_kept) (auto simp: sources_ok_def dest!: accept_sources(2))
qed

lemma imports_along:
  assumes "serves_operator k (admitted v) stored R" and "(system R k (admitted v) stored)\<^sup>*\<^sup>* w w'"
  shows "on_store stored (restored_with k key) w \<Longrightarrow> on_store stored (restored_with k key) w'"
    and "on_store stored (migrated_with k m) w \<Longrightarrow> on_store stored (migrated_with k m) w'"
    and "on_store stored (one_source k) w \<Longrightarrow> on_store stored (one_source k) w'"
proof -
  show "on_store stored (restored_with k key) w \<Longrightarrow> on_store stored (restored_with k key) w'"
    using system_keeps [OF restored_kept.pass_invariant_axioms [unfolded restored_with_def] assms(1)
      imports_kept(1) [unfolded restored_with_def] free_of_skills(1) all_conditions assms(2)]
    by (simp add: restored_with_def)
  show "on_store stored (migrated_with k m) w \<Longrightarrow> on_store stored (migrated_with k m) w'"
    using system_keeps [OF migrated_kept.pass_invariant_axioms [unfolded migrated_with_def] assms(1)
      imports_kept(2) [unfolded migrated_with_def] free_of_skills(2) all_conditions assms(2)]
    by (simp add: migrated_with_def)
  show "on_store stored (one_source k) w \<Longrightarrow> on_store stored (one_source k) w'"
    using system_keeps [OF source_kept.pass_invariant_axioms [unfolded one_source_def] assms(1)
      imports_kept(3) [unfolded one_source_def] free_of_skills(3) all_conditions assms(2)]
    by (simp add: one_source_def)
qed

section \<open>Conditions and the specification\<close>

text \<open>
  \<open>meta.SetStatusCondition\<close> writes over the entry of the type or appends one, and
  \<open>meta.RemoveStatusCondition\<close> drops the entries of the type.
\<close>

definition conditions_in_place :: "'w env \<Rightarrow> bool" where
  "conditions_in_place E \<longleftrightarrow>
     (\<forall>w cs c. map cd_Type (env_set_condition E w cs c) =
        (if cd_Type c \<in> set (map cd_Type cs) then map cd_Type cs else map cd_Type cs @ [cd_Type c])) \<and>
     (\<forall>cs t. map cd_Type (env_remove_condition E cs t) = filter (\<lambda>u. u \<noteq> t) (map cd_Type cs))"

definition tidy_conditions :: "Condition list \<Rightarrow> bool" where
  "tidy_conditions cs \<longleftrightarrow> distinct (map cd_Type cs) \<and> set (map cd_Type cs) \<subseteq> set status_conditions"

definition tidy_status :: "nsname \<Rightarrow> HermesInstance \<Rightarrow> bool" where
  "tidy_status k = stays k (\<lambda>s. True) (\<lambda>st. tidy_conditions (st_Conditions st))"

text \<open>The specification a user wrote, but for the skill the Semaphore step appends.\<close>

definition as_written :: "HermesInstanceSpec \<Rightarrow> HermesInstanceSpec \<Rightarrow> bool" where
  "as_written s0 s \<longleftrightarrow>
     s = s0 \<or> BoolValue (sema_Enabled (spec_Semaphore s0)) \<and> \<not> has_ui_skill s0 \<and> s = with_ui_skill s0"

lemma has_ui_with [simp]: "has_ui_skill (with_ui_skill s)"
  by (simp add: has_ui_skill_def with_ui_skill_def ui_skill_def)

lemma in_place_tidy: "conditions_in_place E \<Longrightarrow> conditions_kept tidy_conditions E"
  by (simp add: conditions_in_place_def conditions_kept_def tidy_conditions_def) blast

interpretation tidy_kept: pass_invariant "tidy_status k" tidy_conditions
  by unfold_locales (auto simp: tidy_status_def stays_simps)

interpretation spec_kept: pass_invariant "stays k (as_written s0) (\<lambda>st. True)" "\<lambda>cs. True"
proof
  fix i assume "stays k (as_written s0) (\<lambda>st. True) i" "SemaphoreEnabled i" "\<not> has_ui_skill (hi_Spec i)"
  then show "stays k (as_written s0) (\<lambda>st. True) (i\<lparr>hi_Spec := with_ui_skill (hi_Spec i)\<rparr>)"
    by (auto simp: stays_def as_written_def SemaphoreEnabled_def inst_key_def)
qed (auto simp: stays_simps)

lemma skills_overwritten: "s\<lparr>spec_Skills := a, spec_Skills := b\<rparr> = s\<lparr>spec_Skills := b\<rparr>"
  by simp

lemma as_written_free: "skills_free (as_written s0)"
  unfolding skills_free_def
proof (intro allI impI)
  fix old s assume a: "as_written s0 old" "as_written s0 s" "BoolValue (sema_Enabled (spec_Semaphore old))" "\<not> has_ui_skill old"
  have old: "old = s0" using a(1,4) has_ui_with unfolding as_written_def by blast
  have "s\<lparr>spec_Skills := spec_Skills s0 @ [ui_skill]\<rparr> = with_ui_skill s0"
    using a(2) unfolding as_written_def by (elim disjE conjE) (simp_all only: with_ui_skill_def skills_overwritten)
  then show "as_written s0 (s\<lparr>spec_Skills := spec_Skills old @ [ui_skill]\<rparr>)"
    using a(3,4) unfolding old as_written_def by blast
qed

section \<open>Properties\<close>

text \<open>
  C7. An import runs once. Along every history of whole passes of the operator, with every
  sub-controller, and of updates the webhook admits in between and meanwhile, once the restore (the
  migration) is recorded in the stored instance, the record stands, the specification that asked for
  it is the same, and the pod has no init container (nor source volume) to run it again.
\<close>

theorem import_never_reruns:
  assumes "serves_operator k (admitted v) stored R" and "(system R k (admitted v) stored)\<^sup>*\<^sup>* w w'"
    and "stored w = Some i" and "inst_key i = k" and "stored w' = Some j"
  shows "(restored i \<longrightarrow> restored j \<and> spec_RestoreFrom (hi_Spec j) = spec_RestoreFrom (hi_Spec i) \<and>
            BuildRestoreInitContainer j = None) \<and>
         (migrated i \<longrightarrow> migrated j \<and> spec_Migration (hi_Spec j) = spec_Migration (hi_Spec i) \<and>
            BuildMigrationInitContainer j = None \<and> BuildSourceVolume j = None)"
  using imports_along(1) [OF assms(1,2), of "spec_RestoreFrom (hi_Spec i)"]
    imports_along(2) [OF assms(1,2), of "spec_Migration (hi_Spec i)"] assms(3-5)
  by (auto simp: on_store_def restored_with_def migrated_with_def stays_def restored_def migrated_def
      BuildRestoreInitContainer_def BuildMigrationInitContainer_def BuildSourceVolume_def split: option.split)

text \<open>
  C27. The two imports exclude each other: along every such history of an instance whose creation
  the webhook admitted, no pod has both init containers.
\<close>

theorem imports_never_together:
  assumes "serves_operator k (admitted v) stored R" and "(system R k (admitted v) stored)\<^sup>*\<^sup>* w w'"
    and "stored w = Some i" and "inst_key i = k" and "fst (snd (ValidateCreate v i u)) = None" and "stored w' = Some j"
  shows "BuildRestoreInitContainer j = None \<or> BuildMigrationInitContainer j = None"
proof -
  have "on_store stored (one_source k) w"
    using accept_sources(1) [OF assms(5)] assms(3,4) by (auto simp: on_store_def one_source_def stays_def sources_ok_def split: option.splits)
  from imports_along(3) [OF assms(1,2) this] assms(6) show ?thesis
    by (auto simp: on_store_def one_source_def stays_def BuildRestoreInitContainer_def BuildMigrationInitContainer_def split: option.splits)
qed

text \<open>
  C19. The conditions stay in order: along every such history the stored status has at most one
  condition of a type and only the twenty-three types the operator knows, so the list, a map keyed
  by the type in the schema, never grows beyond that, however many passes run and fail. These are the
  types the code sets. The catalogue \<open>docs/conditions.md\<close> and the comment of \<open>HermesInstanceStatus\<close>
  name two more, \<open>GatewayReady\<close> and \<open>WebhookReady\<close>, that the operator never sets: on a status that
  starts without them they never appear.
\<close>

theorem conditions_bounded:
  assumes "serves_operator k (admitted v) stored R" and "conditions_in_place (rc_env R)"
    and "(system R k (admitted v) stored)\<^sup>*\<^sup>* w w'"
    and "stored w = Some i" and "inst_key i = k" and "tidy_conditions (st_Conditions (hi_Status i))" and "stored w' = Some j"
  shows "tidy_conditions (st_Conditions (hi_Status j)) \<and> length (st_Conditions (hi_Status j)) \<le> 23"
proof -
  have "kept_by (admitted v) (tidy_status k)"
    unfolding tidy_status_def by (rule admitted_kept) simp
  from system_keeps [OF tidy_kept.pass_invariant_axioms [unfolded tidy_status_def] assms(1) this [unfolded tidy_status_def] _
      in_place_tidy [OF assms(2)] assms(3)] assms(4-7)
  have t: "tidy_conditions (st_Conditions (hi_Status j))"
    by (simp add: skills_free_def on_store_def stays_def)
  then have "card (set (map cd_Type (st_Conditions (hi_Status j)))) \<le> card (set status_conditions)"
    unfolding tidy_conditions_def by (intro card_mono) auto
  moreover have "card (set status_conditions) \<le> 23" by (rule order_trans [OF card_length]) (simp add: status_conditions_def)
  moreover have "card (set (map cd_Type (st_Conditions (hi_Status j)))) = length (st_Conditions (hi_Status j))"
    using t distinct_card [of "map cd_Type (st_Conditions (hi_Status j))"] by (simp add: tidy_conditions_def)
  ultimately show ?thesis using t by linarith
qed

text \<open>
  C10. The specification stays the user's: when nobody but the operator writes, any number of passes
  leaves the specification as it was, but for the skill \<open>semaphore-ui\<close> that is appended once when
  Semaphore is enabled and the list has no such skill.
\<close>

theorem spec_stays_users:
  assumes "serves_operator k deletions_only stored R" and "(system R k deletions_only stored)\<^sup>*\<^sup>* w w'"
    and "stored w = Some i" and "inst_key i = k" and "stored w' = Some j"
  shows "hi_Spec j = hi_Spec i \<or>
    SemaphoreEnabled i \<and> \<not> has_ui_skill (hi_Spec i) \<and>
    hi_Spec j = (hi_Spec i)\<lparr>spec_Skills := spec_Skills (hi_Spec i) @ [zero_InstanceSkill\<lparr>skill_Source := ''semaphore-ui''\<rparr>]\<rparr>"
  using system_keeps [OF spec_kept.pass_invariant_axioms assms(1) deletions_kept as_written_free all_conditions assms(2),
      of "hi_Spec i"] assms(3-5)
  by (simp add: on_store_def stays_def as_written_def SemaphoreEnabled_def with_ui_skill_def ui_skill_def)

section \<open>A server of one instance\<close>

text \<open>
  A world that is one stored instance, an API server over it, and a reconciler with all of its
  sub-controllers on it; no other object exists and every other write succeeds.
\<close>

definition under :: "nsname \<Rightarrow> HermesInstance option \<Rightarrow> HermesInstance option" where
  "under k w = (case w of None \<Rightarrow> None | Some i \<Rightarrow> if inst_key i = k then Some i else None)"

definition gone :: go_error where
  "gone = ApiStatus ReasonNotFound ''not found''"

definition patch_spec :: "HermesInstanceSpec \<Rightarrow> HermesInstanceSpec \<Rightarrow> HermesInstanceSpec \<Rightarrow> HermesInstanceSpec" where
  "patch_spec old new s = (if new = old then s else s\<lparr>spec_Skills := spec_Skills new\<rparr>)"

definition shelf_client :: "nsname \<Rightarrow> (HermesInstance, HermesInstance option) kind_client" where
  "shelf_client k = quiet_client
     \<lparr>kc_get := (\<lambda>key w. (case under key w of None \<Rightarrow> Inl gone | Some i \<Rightarrow> Inr i, w)),
      kc_status_update := (\<lambda>i w. case under k w of None \<Rightarrow> (Inl gone, w)
         | Some s \<Rightarrow> (Inr (s\<lparr>hi_Status := hi_Status i\<rparr>), Some (s\<lparr>hi_Status := hi_Status i\<rparr>))),
      kc_patch := (\<lambda>o1 i w. case under k w of None \<Rightarrow> (Inl gone, w)
         | Some s \<Rightarrow>
             (let t = (if inst_key i = k then i\<lparr>hi_Spec := patch_spec (hi_Spec o1) (hi_Spec i) (hi_Spec s), hi_Status := hi_Status s\<rparr> else s)
              in (Inr t, Some t)))\<rparr>"

definition shelf_reconciler :: "nsname \<Rightarrow> (nat, HermesInstance option) reconciler" where
  "shelf_reconciler k =
     \<lparr>rc_env = quiet_env\<lparr>env_instances := shelf_client k\<rparr>,
      rc_http = \<lparr>ht_url_ok = (\<lambda>u. True), ht_do = (\<lambda>r w. (Inl (Plain ''offline''), w))\<rparr>,
      rc_yaml = code_yaml, rc_PrometheusOperatorCRDsPresent = True, rc_Backup = True, rc_Restore = True,
      rc_AutoUpdate = Some \<lparr>up_Registry = Some (\<lambda>repo w. (Inr [], w)), up_semver = nat_semver, up_Backup = True\<rparr>,
      rc_Migration = True\<rparr>"

lemma quiet_still:
  "snd (kc_get quiet_client key w) = w" "snd (kc_list quiet_client ns w) = w" "snd (kc_create quiet_client x w) = w"
  "snd (kc_delete quiet_client x w) = w" "snd (kc_patch quiet_client x y w) = w" "snd (kc_apply quiet_client x s b w) = w"
  "snd (kc_status_update quiet_client x w) = w" "snd (kc_create_or_update quiet_client x f w) = snd (f x w)"
  by (simp_all add: quiet_client_def split: prod.split sum.split)

lemma quiet_calm:
  assumes "\<And>w. M w w"
  shows "calm M quiet_client"
  using assms unfolding calm_def quiet_still by (intro conjI allI r_into_rtranclp) blast+

lemma patched_skills:
  assumes "s\<lparr>spec_Skills := sk\<rparr> = s"
  shows "sk = spec_Skills s"
proof -
  have "spec_Skills (s\<lparr>spec_Skills := sk\<rparr>) = spec_Skills s" unfolding assms ..
  then show ?thesis by simp
qed

lemma patch_spec_patched: "spec_patched old new s (patch_spec old new s)"
  unfolding spec_patched_def patch_spec_def
proof (intro conjI allI impI)
  fix sk assume n: "new = old\<lparr>spec_Skills := sk\<rparr>" and sk: "sk \<noteq> spec_Skills old"
  have "new \<noteq> old" unfolding n using patched_skills [of sk old] sk by (rule contrapos_nn [rotated])
  moreover have "spec_Skills new = sk" unfolding n by simp
  ultimately show "(if new = old then s else s\<lparr>spec_Skills := spec_Skills new\<rparr>) = s\<lparr>spec_Skills := sk\<rparr>"
    by (simp only: if_False)
qed (rule if_P)

lemma shelf_serves: "serves_operator k U (under k) (shelf_reconciler k)"
proof -
  have m: "others_move U (under k) w w" for w by (simp add: others_move_def)
  have "calm_env (others_move U (under k)) (rc_env (shelf_reconciler k))"
    using m by (simp add: calm_env_def shelf_reconciler_def quiet_env_def quiet_calm)
  moreover have "serves_instance k U (under k) (rc_env (shelf_reconciler k))"
    unfolding serves_instance_def
  proof (intro conjI allI impI)
    fix w r w' assume "kc_get (env_instances (rc_env (shelf_reconciler k))) k w = (r, w')"
    then have "w' = w" "r = (case under k w of None \<Rightarrow> Inl gone | Some i \<Rightarrow> Inr i)"
      by (auto simp: shelf_reconciler_def shelf_client_def)
    then show "case r of Inl e \<Rightarrow> U\<^sup>*\<^sup>* (under k w) (under k w') | Inr i \<Rightarrow> U\<^sup>*\<^sup>* (under k w) (Some i) \<and> U\<^sup>*\<^sup>* (Some i) (under k w')"
      by (cases "under k w") simp_all
  next
    fix i w r w' assume "inst_key i = k" "kc_status_update (env_instances (rc_env (shelf_reconciler k))) i w = (r, w')"
    then show "written U (\<lambda>s t. inst_key t = k \<and> hi_Spec t = hi_Spec s \<and> hi_Status t = hi_Status i) r (under k w) (under k w')"
      by (cases w) (auto simp: shelf_reconciler_def shelf_client_def written_def under_def inst_key_def split: if_splits)
  next
    fix o1 i w r w' assume a: "inst_key i = k" "kc_patch (env_instances (rc_env (shelf_reconciler k))) o1 i w = (r, w')"
    show "written U (\<lambda>s t. inst_key t = k \<and> hi_Status t = hi_Status s \<and>
        spec_patched (hi_Spec o1) (hi_Spec i) (hi_Spec s) (hi_Spec t)) r (under k w) (under k w')"
    proof (cases "under k w")
      case None
      then show ?thesis using a by (auto simp: shelf_reconciler_def shelf_client_def written_def)
    next
      case (Some s)
      let ?t = "i\<lparr>hi_Spec := patch_spec (hi_Spec o1) (hi_Spec i) (hi_Spec s), hi_Status := hi_Status s\<rparr>"
      have r: "r = Inr ?t" "w' = Some ?t"
        using a Some by (simp_all add: shelf_reconciler_def shelf_client_def Let_def)
      have "inst_key ?t = k" using a(1) by (simp add: inst_key_def)
      moreover have "spec_patched (hi_Spec o1) (hi_Spec i) (hi_Spec s) (hi_Spec ?t)"
        using patch_spec_patched [of "hi_Spec o1" "hi_Spec i" "hi_Spec s"] by simp
      ultimately show ?thesis using Some r by (auto simp: written_def under_def)
    qed
  qed
  ultimately show ?thesis using m by (simp add: serves_operator_def) (simp add: shelf_reconciler_def)
qed

lemma shelf_pass: "(system (shelf_reconciler k) k U (under k))\<^sup>*\<^sup>* w (snd (snd (Reconcile (shelf_reconciler k) k w)))"
  by (rule r_into_rtranclp, rule system.pass [of _ _ _ "fst (Reconcile (shelf_reconciler k) k w)" "fst (snd (Reconcile (shelf_reconciler k) k w))"]) simp

text \<open>A pass on this server leaves the instance there.\<close>

interpretation key_kept: pass_invariant "stays k (\<lambda>s. True) (\<lambda>st. True)" "\<lambda>cs. True"
  by unfold_locales (auto simp: stays_simps)

lemma shelf_lasts:
  assumes "under k w = Some i"
  shows "\<exists>j. under k (snd (snd (Reconcile (shelf_reconciler k) k w))) = Some j"
proof -
  let ?R = "shelf_reconciler k" and ?I = "\<lambda>w. under k w \<noteq> None" and ?Q = "stays k (\<lambda>s. True) (\<lambda>st. True)"
  have "calm_env (=) (rc_env ?R)" by (simp add: calm_env_def shelf_reconciler_def quiet_env_def quiet_calm)
  then have "inert_env ?I (rc_env ?R)" by (rule calm_inert_env) simp
  moreover have "instance_kept k ?Q ?I (rc_env ?R)"
    by (auto simp: instance_kept_def shelf_reconciler_def shelf_client_def under_def stays_def inst_key_def operator_patch_def Let_def
        split: option.splits if_splits)
  ultimately have h: "hosts k ?Q (\<lambda>cs. True) ?I ?R"
    by (auto simp: hosts_def inert_http_def all_conditions shelf_reconciler_def steady_def)
  obtain r x w' where p: "Reconcile ?R k w = (r, x, w')" by (metis prod_cases3)
  from key_kept.keeps_reconcile [OF h p] assms show ?thesis by (simp add: p)
qed

lemma import_never_reruns_witness:
  "let k = (''ns'', ''a''); w' = snd (snd (Reconcile (shelf_reconciler k) k (Some restored_instance))) in
   \<exists>j. under k w' = Some j \<and> restored j \<and> BuildRestoreInitContainer j = None"
proof -
  have i: "under (''ns'', ''a'') (Some restored_instance) = Some restored_instance" "inst_key restored_instance = (''ns'', ''a'')"
    "restored restored_instance"
    by (simp_all add: under_def inst_key_def restored_def restored_instance_def small_instance_def new_meta_def)
  show ?thesis
    using import_never_reruns [where v = offline_validator, OF shelf_serves shelf_pass i(1,2)] i(3) shelf_lasts [OF i(1)] by (auto simp: Let_def)
qed

lemma imports_never_together_witness:
  "let k = (''ns'', ''a''); w' = snd (snd (Reconcile (shelf_reconciler k) k (Some small_instance))) in
   \<exists>j. under k w' = Some j \<and> (BuildRestoreInitContainer j = None \<or> BuildMigrationInitContainer j = None)"
proof -
  have i: "under (''ns'', ''a'') (Some small_instance) = Some small_instance" "inst_key small_instance = (''ns'', ''a'')"
    by (simp_all add: under_def inst_key_def small_instance_def new_meta_def)
  show ?thesis
    using imports_never_together [OF shelf_serves shelf_pass i small_accepted] shelf_lasts [OF i(1)] by (auto simp: Let_def)
qed

lemma conditions_bounded_witness:
  "let k = (''ns'', ''a''); w' = snd (snd (Reconcile (shelf_reconciler k) k (Some small_instance))) in
   \<exists>j. under k w' = Some j \<and> length (st_Conditions (hi_Status j)) \<le> 23"
proof -
  have i: "under (''ns'', ''a'') (Some small_instance) = Some small_instance" "inst_key small_instance = (''ns'', ''a'')"
    "tidy_conditions (st_Conditions (hi_Status small_instance))"
    by (simp_all add: under_def inst_key_def small_instance_def new_meta_def tidy_conditions_def zero_defs)
  have "map cd_Type (set_cond cs c) = (if cd_Type c \<in> set (map cd_Type cs) then map cd_Type cs else map cd_Type cs @ [cd_Type c])" for cs c
    by (auto simp: set_cond_def image_iff) (metis (no_types))+
  then have "conditions_in_place (rc_env (shelf_reconciler k))" for k
    by (simp add: conditions_in_place_def shelf_reconciler_def quiet_env_def filter_map comp_def)
  from conditions_bounded [where v = offline_validator, OF shelf_serves this shelf_pass i] show ?thesis using shelf_lasts [OF i(1)] by (auto simp: Let_def)
qed

lemma spec_stays_users_witness:
  "let k = (''ns'', ''a''); w' = snd (snd (Reconcile (shelf_reconciler k) k (Some small_instance))) in
   \<exists>j. under k w' = Some j \<and> hi_Spec j = hi_Spec small_instance"
proof -
  have i: "under (''ns'', ''a'') (Some small_instance) = Some small_instance" "inst_key small_instance = (''ns'', ''a'')"
    "\<not> SemaphoreEnabled small_instance"
    by (simp_all add: under_def inst_key_def small_instance_def new_meta_def SemaphoreEnabled_def zero_defs)
  from spec_stays_users [OF shelf_serves shelf_pass i(1,2)] i(3) show ?thesis using shelf_lasts [OF i(1)] by (auto simp: Let_def)
qed

end
