(* ===== verification/Settle.thy ===== *)
theory Settle
  imports Instance
begin

text \<open>
  A pass comes to rest. Every object a pass writes wakes the controller for another pass, so the
  operator would run for ever if passes kept writing. The callbacks of the steps are shown to leave
  an object they have written as it is, in the locale \<open>owned_object\<close>; on a server that takes a write
  which changes nothing for no write at all, a pass after a successful one then changes no object.
\<close>

section \<open>Objects at rest\<close>

text \<open>A callback leaves a stored object at rest: what it would send is what is stored.\<close>

definition at_rest :: "('o \<Rightarrow> ObjectMeta) \<Rightarrow> ('o \<Rightarrow> 'b) \<Rightarrow> ('o \<Rightarrow> 'w \<Rightarrow> (go_error + 'o) \<times> 'w) \<Rightarrow> 'o \<Rightarrow> bool" where
  "at_rest meta body f z \<longleftrightarrow> (\<forall>w. \<exists>y. f z w = (Inr y, w) \<and> keeps meta body y z)"

text \<open>
  \<open>CreateOrUpdate\<close> skips the write when its callback changed nothing, and the server takes a write of
  what it stores, up to what it fills in itself, for no change.
\<close>

definition no_needless_write ::
  "('o, 'w) kind_client \<Rightarrow> kind \<Rightarrow> ('o \<Rightarrow> api_object) \<Rightarrow> ('o \<Rightarrow> ObjectMeta) \<Rightarrow> ('o \<Rightarrow> 'b) \<Rightarrow> ('w \<Rightarrow> cluster) \<Rightarrow> bool" where
  "no_needless_write kc k tag meta body look \<longleftrightarrow>
     (\<forall>x f w r w' z. look w (k, object_key (meta x)) = Some (tag z) \<longrightarrow> at_rest meta body f z \<longrightarrow>
        kc_create_or_update kc x f w = (r, w') \<longrightarrow> look w' = look w)"

text \<open>
  \<open>SetControllerReference\<close> reads of the owner its metadata only, and sets a reference again that is
  there without a change.
\<close>

definition owner_stable :: "'w env \<Rightarrow> bool" where
  "owner_stable E \<longleftrightarrow>
     (\<forall>i j m. hi_ObjectMeta i = hi_ObjectMeta j \<longrightarrow> env_set_owner E i m = env_set_owner E j m) \<and>
     (\<forall>i m m' n. env_set_owner E i m = Inr m' \<longrightarrow> om_OwnerReferences n = om_OwnerReferences m' \<longrightarrow>
        om_Namespace n = om_Namespace m' \<longrightarrow> env_set_owner E i n = Inr n)"

text \<open>Merging again what has been merged gives the same map.\<close>

lemma merge_fixpoint:
  assumes "distinct (map fst c)" and "distinct (map fst d)" and "distinct (map fst z)"
    and "map_of z = map_of (MergePreservingForeign c d p)"
  shows "map_of (MergePreservingForeign z d p) = map_of z"
proof
  fix k
  have "map_of z k = (case map_of d k of Some v \<Rightarrow> Some v | None \<Rightarrow> if HasPrefix k p then None else map_of c k)"
    using MergePreservingForeign_lookup [OF assms(1,2)] assms(4) by simp
  then show "map_of (MergePreservingForeign z d p) k = map_of z k"
    by (simp add: MergePreservingForeign_lookup [OF assms(3,2)] split: option.splits)
qed

lemma merged_parts [simp]:
  "om_OwnerReferences (merged_meta a d m) = om_OwnerReferences m" "om_Namespace (merged_meta a d m) = om_Namespace m"
  by (simp_all add: merged_meta_def merge_annotations_def merge_labels_def)

lemma merged_fixpoint:
  assumes "wf_meta c" and "wf_meta d" and "wf_meta z"
    and "map_of (om_Labels z) = map_of (om_Labels (merged_meta a d c))"
    and "map_of (om_Annotations z) = map_of (om_Annotations (merged_meta a d c))"
  shows "map_of (om_Labels (merged_meta a d z)) = map_of (om_Labels z)"
    and "map_of (om_Annotations (merged_meta a d z)) = map_of (om_Annotations z)"
  using assms merge_fixpoint [of "om_Labels c" "om_Labels d" "om_Labels z" operatorLabelPrefix]
    merge_fixpoint [of "om_Annotations c" "om_Annotations d" "om_Annotations z" operatorLabelPrefix]
  by (simp_all add: wf_meta_def merged_meta_def merge_labels_def merge_annotations_def split: if_splits)

text \<open>What the metadata of a stored object is, seen by the callback that wrote it.\<close>

lemma owned_rest:
  assumes own: "owner_api E" "owner_stable E" and wf: "wf_meta d" "wf_meta c"
    and set: "env_set_owner E i (merged_meta a d c) = Inr (meta y)" and kept: "keeps meta body y z"
  defines "n \<equiv> merged_meta a d (meta z)"
  shows "env_set_owner E i n = Inr n" and "wf_meta (meta z)" and "object_key n = object_key (meta z)"
    and "om_OwnerReferences n = om_OwnerReferences (meta z)"
    and "map_of (om_Labels n) = map_of (om_Labels (meta z))" and "map_of (om_Annotations n) = map_of (om_Annotations (meta z))"
proof -
  note o = owner_apiD [OF own(1) set]
  have "wf_meta (meta y)" using merged_wf [OF wf, of a] o(1,2) by (simp add: wf_meta_def)
  then show wz: "wf_meta (meta z)" using kept by (simp add: keeps_def)
  have "map_of (om_Labels (meta z)) = map_of (om_Labels (merged_meta a d c))"
    "map_of (om_Annotations (meta z)) = map_of (om_Annotations (merged_meta a d c))"
    using kept o(1,2) by (simp_all add: keeps_def)
  from merged_fixpoint [OF wf(2,1) wz this]
  show "map_of (om_Labels n) = map_of (om_Labels (meta z))" "map_of (om_Annotations n) = map_of (om_Annotations (meta z))"
    by (simp_all add: n_def)
  show on: "om_OwnerReferences n = om_OwnerReferences (meta z)" and "object_key n = object_key (meta z)"
    by (simp_all add: n_def)
  have "om_OwnerReferences n = om_OwnerReferences (meta y)" "om_Namespace n = om_Namespace (meta y)"
    using on kept by (simp_all add: keeps_def n_def object_key_def)
  then show "env_set_owner E i n = Inr n" using own(2) set unfolding owner_stable_def by blast
qed

section \<open>Steps that settle\<close>

text \<open>
  Once a step has succeeded it changes nothing on the objects as it left them, whatever else has
  changed meanwhile and whatever it returns.
\<close>

definition settles :: "('w \<Rightarrow> cluster) \<Rightarrow> object_id set \<Rightarrow> 'w act \<Rightarrow> bool" where
  "settles look S a \<longleftrightarrow>
     (\<forall>w w' v r v'. a w = (None, w') \<longrightarrow> (\<forall>x \<in> S. look v x = look w' x) \<longrightarrow> a v = (r, v') \<longrightarrow> look v' = look v)"

lemma settlesD:
  "settles look S a \<Longrightarrow> a w = (None, w') \<Longrightarrow> (\<And>x. x \<in> S \<Longrightarrow> look v x = look w' x) \<Longrightarrow> a v = (r, v') \<Longrightarrow> look v' = look v"
  unfolding settles_def by blast

lemma settles_mono: "settles look S a \<Longrightarrow> S \<subseteq> T \<Longrightarrow> settles look T a"
  unfolding settles_def by blast

lemma settles_none: "settles look S (\<lambda>w. (None, w))"
  by (simp add: settles_def)

lemma settles_labelled:
  assumes "settles look S a"
  shows "settles look S (labelled l a)"
proof -
  have "\<exists>r1. a v = (r1, v')" if "labelled l a v = (r, v')" for v r v'
    using that by (auto simp: labelled_def split: prod.splits option.splits)
  with assms show ?thesis unfolding settles_def labelled_None by metis
qed

lemma settles_if: "(P \<Longrightarrow> settles look S a) \<Longrightarrow> (\<not> P \<Longrightarrow> settles look S b) \<Longrightarrow> settles look S (if P then a else b)"
  by simp

lemma settles_then:
  assumes a: "settles look S a" and b: "settles look T b" and apart: "S \<inter> T = {}"
    and only: "\<And>w w'. b w = (None, w') \<Longrightarrow> only_at T (look w) (look w')"
  shows "settles look (S \<union> T) (and_then a b)"
  unfolding settles_def
proof (intro allI impI)
  fix w w' v r v'
  assume run: "and_then a b w = (None, w')" and same: "\<forall>x \<in> S \<union> T. look v x = look w' x" and again: "and_then a b v = (r, v')"
  from run obtain w1 where w1: "a w = (None, w1)" "b w1 = (None, w')" by (rule and_thenE)
  obtain r1 v1 where v1: "a v = (r1, v1)" by fastforce
  have "look w' x = look w1 x" if "x \<in> S" for x
    using only [OF w1(2)] that apart unfolding only_at_def by blast
  then have l1: "look v1 = look v" using settlesD [OF a w1(1) _ v1] same by simp
  show "look v' = look v"
  proof (cases r1)
    case None
    then have "b v1 = (r, v')" using again v1 by (simp add: and_then_def)
    from settlesD [OF b w1(2) _ this] l1 same show ?thesis by simp
  next
    case (Some e)
    then show ?thesis using again v1 l1 by (simp add: and_then_def)
  qed
qed

lemma delete_absent:
  assumes "serves kc k tag meta body look" and "look v (k, key) = None" and "deleteIfExists kc key v = (r, v')"
  shows "look v' = look v"
proof -
  obtain s v1 where g: "kc_get kc key v = (s, v1)" by fastforce
  have "look v1 = look v \<and> (case s of Inr x \<Rightarrow> look v (k, key) = Some (tag x) \<and> object_key (meta x) = key | Inl e \<Rightarrow> says_absent e \<longrightarrow> look v (k, key) = None)"
    using assms(1) g unfolding serves_def serves_get_def by blast
  then show ?thesis using assms(2,3) g by (auto simp: deleteIfExists_def split: sum.splits if_splits)
qed

lemma settles_delete:
  assumes "serves kc k tag meta body look"
  shows "settles look {(k, key)} (deleteIfExists kc key)"
  using delete_step [OF assms] delete_absent [OF assms] unfolding settles_def by (metis insertI1)

lemma settles_update:
  assumes sv: "serves kc k tag meta body look" and nw: "no_needless_write kc k tag meta body look"
    and kd: "keyed meta f" and wf: "wf_meta (meta x)"
    and rest: "\<And>c w1 y w2 z. wf_meta (meta c) \<Longrightarrow> f c w1 = (Inr y, w2) \<Longrightarrow> keeps meta body y z \<Longrightarrow> at_rest meta body f z"
  shows "settles look {(k, object_key (meta x))} (kc_create_or_update kc x f)"
  unfolding settles_def
proof (intro allI impI)
  fix w w' v r v'
  assume run: "kc_create_or_update kc x f w = (None, w')" and same: "\<forall>i \<in> {(k, object_key (meta x))}. look v i = look w' i"
    and again: "kc_create_or_update kc x f v = (r, v')"
  obtain c w1 y w2 z where "wf_meta (meta c)" "f c w1 = (Inr y, w2)" "keeps meta body y z"
    and l: "look w' = (look w2)((k, object_key (meta x)) \<mapsto> tag z)"
    by (rule serves_updateE [OF sv kd wf run])
  then have "at_rest meta body f z" by (intro rest)
  moreover have "look v (k, object_key (meta x)) = Some (tag z)" using same l by simp
  ultimately show "look v' = look v" using nw again unfolding no_needless_write_def by blast
qed


section \<open>Callbacks that end with the owner reference\<close>

text \<open>
  A managed object whose callback merges the metadata, overwrites the managed part by \<open>put\<close> and sets
  the controller reference last.
\<close>

locale owned_object = managed_object callback meta body wanted annotate want
  for callback :: "'w env \<Rightarrow> HermesInstance \<Rightarrow> 'o \<Rightarrow> 'w \<Rightarrow> (go_error + 'o) \<times> 'w"
    and meta :: "'o \<Rightarrow> ObjectMeta" and body :: "'o \<Rightarrow> 'b"
    and wanted :: "HermesInstance \<Rightarrow> ObjectMeta" and annotate :: bool and want :: "HermesInstance \<Rightarrow> 'b" +
  fixes put :: "HermesInstance \<Rightarrow> ObjectMeta \<Rightarrow> 'o \<Rightarrow> 'o"
  assumes callback_put: "callback E i x w =
      (case env_set_owner E i (merged_meta annotate (wanted i) (meta x)) of Inl e \<Rightarrow> (Inl e, w) | Inr m \<Rightarrow> (Inr (put i m x), w))"
    and put_meta: "meta (put i m x) = m"
begin

lemma callback_rests:
  assumes own: "owner_api E" "owner_stable E" and wf: "wf_meta (wanted i)" "wf_meta (meta c)"
    and run: "callback E i c w1 = (Inr y, w2)" and kept: "keeps meta body y z"
  shows "at_rest meta body (callback E i) z"
  unfolding at_rest_def
proof
  fix w
  have "env_set_owner E i (merged_meta annotate (wanted i) (meta c)) = Inr (meta y)"
    using run by (auto simp: callback_put put_meta split: sum.splits)
  note r = owned_rest [OF own wf this kept]
  let ?n = "merged_meta annotate (wanted i) (meta z)"
  have again: "callback E i z w = (Inr (put i ?n z), w)" by (simp add: callback_put r(1))
  have "body (put i ?n z) = body z"
    using callback_result(3) [OF own(1) again] callback_result(3) [OF own(1) run] kept by (simp add: keeps_def)
  then have "keeps meta body (put i ?n z) z" unfolding keeps_def put_meta using r(2-6) by simp
  with again show "\<exists>y. callback E i z w = (Inr y, w) \<and> keeps meta body y z" by blast
qed

lemma callback_settles:
  assumes "serves kc k tag meta body look" and "no_needless_write kc k tag meta body look"
    and "owner_api E" and "owner_stable E" and "wf_meta (wanted i)" and "wf_meta (meta x)"
  shows "settles look {(k, object_key (meta x))} (kc_create_or_update kc x (callback E i))"
  using assms by (intro settles_update callback_keyed) (auto intro: callback_rests)

end

interpretation ocm: owned_object "\<lambda>E i. put_configmap E i (D i)" cm_Meta cm_Data "\<lambda>i. cm_Meta (D i)" False "\<lambda>i. cm_Data (D i)"
    "\<lambda>i m x. x\<lparr>cm_Meta := m, cm_Data := cm_Data (D i)\<rparr>" for D
  by unfold_locales (simp_all add: put_configmap_def own_def merged_meta_def Let_def split: sum.split)

interpretation odash: owned_object "\<lambda>E i. mutate_dashboard E i (D i)" cm_Meta cm_Data "\<lambda>i. cm_Meta (D i)" True "\<lambda>i. cm_Data (D i)"
    "\<lambda>i m x. x\<lparr>cm_Meta := m, cm_Data := cm_Data (D i)\<rparr>" for D
  by unfold_locales (simp_all add: mutate_dashboard_def own_def merged_meta_def Let_def split: sum.split)

interpretation osa: owned_object "mutate_sa" sa_Meta sa_AutomountServiceAccountToken "\<lambda>i. sa_Meta (BuildServiceAccount i)" True "\<lambda>i. sa_AutomountServiceAccountToken (BuildServiceAccount i)"
    "\<lambda>i m x. x\<lparr>sa_Meta := m, sa_AutomountServiceAccountToken := sa_AutomountServiceAccountToken (BuildServiceAccount i)\<rparr>"
  by unfold_locales (simp_all add: mutate_sa_def own_def merged_meta_def Let_def split: sum.split)

interpretation orole: owned_object "mutate_role" role_Meta role_Rules "\<lambda>i. role_Meta (BuildRole i)" False "\<lambda>i. role_Rules (BuildRole i)"
    "\<lambda>i m x. x\<lparr>role_Meta := m, role_Rules := role_Rules (BuildRole i)\<rparr>"
  by unfold_locales (simp_all add: mutate_role_def own_def merged_meta_def Let_def split: sum.split)

interpretation orb: owned_object "mutate_rolebinding" rb_Meta "c \<circ> rb_body" "\<lambda>i. rb_Meta (BuildRoleBinding i)" False "\<lambda>i. c (rb_body (BuildRoleBinding i))"
    "\<lambda>i m x. x\<lparr>rb_Meta := m, rb_Subjects := rb_Subjects (BuildRoleBinding i), rb_RoleRef := rb_RoleRef (BuildRoleBinding i)\<rparr>" for c
  by unfold_locales (simp_all add: mutate_rolebinding_def own_def merged_meta_def Let_def split: sum.split)

interpretation onp: owned_object "\<lambda>E i. mutate_netpol E i (D i)" np_Meta "c \<circ> np_Spec" "\<lambda>i. np_Meta (D i)" False "\<lambda>i. c (np_Spec (D i))"
    "\<lambda>i m x. x\<lparr>np_Meta := m, np_Spec := np_Spec (D i)\<rparr>" for D c
  by unfold_locales (simp_all add: mutate_netpol_def own_def merged_meta_def Let_def split: sum.split)

interpretation osvc: owned_object "\<lambda>E i. mutate_service E i (D i)" svc_Meta "c \<circ> service_body" "\<lambda>i. svc_Meta (D i)" True "\<lambda>i. c (service_body (D i))"
    "\<lambda>i m x. x\<lparr>svc_Meta := m, svc_Spec := keep_cluster_ip (svc_Spec x) (svc_Spec (D i))\<rparr>" for D c
  by unfold_locales (simp_all add: mutate_service_def own_def merged_meta_def Let_def split: sum.split)

interpretation opdb: owned_object "mutate_pdb" pdb_Meta "c \<circ> pdb_body" "\<lambda>i. pdb_Meta (BuildPDB i)" False "\<lambda>i. c (pdb_body (BuildPDB i))"
    "\<lambda>i m x. x\<lparr>pdb_Meta := m, pdb_Selector := pdb_Selector (BuildPDB i), pdb_MinAvailable := pdb_MinAvailable (BuildPDB i),
      pdb_MaxUnavailable := pdb_MaxUnavailable (BuildPDB i)\<rparr>" for c
  by unfold_locales (simp_all add: mutate_pdb_def own_def merged_meta_def Let_def split: sum.split)

interpretation ohpa: owned_object "mutate_hpa" hpa_Meta "c \<circ> hpa_body" "\<lambda>i. hpa_Meta (BuildHPA i)" False "\<lambda>i. c (hpa_body (BuildHPA i))"
    "\<lambda>i m x. x\<lparr>hpa_Meta := m, hpa_ScaleTargetRef := hpa_ScaleTargetRef (BuildHPA i), hpa_MinReplicas := hpa_MinReplicas (BuildHPA i),
      hpa_MaxReplicas := hpa_MaxReplicas (BuildHPA i), hpa_Metrics := hpa_Metrics (BuildHPA i), hpa_Behavior := hpa_Behavior (BuildHPA i)\<rparr>" for c
  by unfold_locales (simp_all add: mutate_hpa_def own_def merged_meta_def Let_def split: sum.split)

interpretation oing: owned_object "mutate_ingress" ing_Meta "c \<circ> ing_body" "\<lambda>i. ing_Meta (BuildIngress i)" True "\<lambda>i. c (ing_body (BuildIngress i))"
    "\<lambda>i m x. x\<lparr>ing_Meta := m, ing_IngressClassName := ing_IngressClassName (BuildIngress i), ing_Rules := ing_Rules (BuildIngress i),
      ing_TLS := ing_TLS (BuildIngress i)\<rparr>" for c
  by unfold_locales (simp_all add: mutate_ingress_def own_def merged_meta_def Let_def split: sum.split)

interpretation osts: owned_object "mutate_statefulset mg" sts_Meta "c \<circ> sts_Spec" "\<lambda>i. sts_Meta (stateful_set_for mg i)" False "\<lambda>i. c (sts_Spec (stateful_set_for mg i))"
    "\<lambda>i m x. x\<lparr>sts_Meta := m, sts_Spec := sts_Spec (stateful_set_for mg i)\<rparr>" for mg c
  by unfold_locales (simp_all add: mutate_statefulset_def own_def merged_meta_def Let_def split: sum.split)

interpretation odep: owned_object "mutate_deployment" dep_Meta "c \<circ> dep_Spec" "\<lambda>i. dep_Meta (BuildHonchoDeployment i)" False "\<lambda>i. c (dep_Spec (BuildHonchoDeployment i))"
    "\<lambda>i m x. x\<lparr>dep_Meta := m, dep_Spec := dep_Spec (BuildHonchoDeployment i)\<rparr>" for c
  by unfold_locales (simp_all add: mutate_deployment_def own_def merged_meta_def Let_def split: sum.split)

section \<open>The steps of a pass\<close>

definition sparing_server :: "defaulting \<Rightarrow> 'w env \<Rightarrow> ('w \<Rightarrow> cluster) \<Rightarrow> bool" where
  "sparing_server N E look \<longleftrightarrow>
     no_needless_write (env_secrets E) KSecret ObjSecret sec_Meta secret_body look \<and>
     no_needless_write (env_configmaps E) KConfigMap ObjConfigMap cm_Meta cm_Data look \<and>
     no_needless_write (env_serviceaccounts E) KServiceAccount ObjServiceAccount sa_Meta sa_AutomountServiceAccountToken look \<and>
     no_needless_write (env_roles E) KRole ObjRole role_Meta role_Rules look \<and>
     no_needless_write (env_rolebindings E) KRoleBinding ObjRoleBinding rb_Meta (df_rb N \<circ> rb_body) look \<and>
     no_needless_write (env_services E) KService ObjService svc_Meta (df_service N \<circ> service_body) look \<and>
     no_needless_write (env_netpols E) KNetworkPolicy ObjNetworkPolicy np_Meta (df_netpol N \<circ> np_Spec) look \<and>
     no_needless_write (env_pdbs E) KPDB ObjPDB pdb_Meta (df_pdb N \<circ> pdb_body) look \<and>
     no_needless_write (env_hpas E) KHPA ObjHPA hpa_Meta (df_hpa N \<circ> hpa_body) look \<and>
     no_needless_write (env_ingresses E) KIngress ObjIngress ing_Meta (df_ingress N \<circ> ing_body) look \<and>
     (\<forall>g. no_needless_write (env_unstructured E g) (KUnstructured g) ObjUnstructured un_Meta (df_unstructured N g \<circ> un_Spec) look) \<and>
     no_needless_write (env_statefulsets E) KStatefulSet ObjStatefulSet sts_Meta (df_sts N \<circ> sts_Spec) look \<and>
     no_needless_write (env_deployments E) KDeployment ObjDeployment dep_Meta (df_dep N \<circ> dep_Spec) look \<and>
     owner_stable E"

lemma sparing_serves:
  assumes "sparing_server N E look"
  shows "no_needless_write (env_secrets E) KSecret ObjSecret sec_Meta secret_body look"
    and "no_needless_write (env_configmaps E) KConfigMap ObjConfigMap cm_Meta cm_Data look"
    and "no_needless_write (env_serviceaccounts E) KServiceAccount ObjServiceAccount sa_Meta sa_AutomountServiceAccountToken look"
    and "no_needless_write (env_roles E) KRole ObjRole role_Meta role_Rules look"
    and "no_needless_write (env_rolebindings E) KRoleBinding ObjRoleBinding rb_Meta (df_rb N \<circ> rb_body) look"
    and "no_needless_write (env_services E) KService ObjService svc_Meta (df_service N \<circ> service_body) look"
    and "no_needless_write (env_netpols E) KNetworkPolicy ObjNetworkPolicy np_Meta (df_netpol N \<circ> np_Spec) look"
    and "no_needless_write (env_pdbs E) KPDB ObjPDB pdb_Meta (df_pdb N \<circ> pdb_body) look"
    and "no_needless_write (env_hpas E) KHPA ObjHPA hpa_Meta (df_hpa N \<circ> hpa_body) look"
    and "no_needless_write (env_ingresses E) KIngress ObjIngress ing_Meta (df_ingress N \<circ> ing_body) look"
    and "no_needless_write (env_unstructured E g) (KUnstructured g) ObjUnstructured un_Meta (df_unstructured N g \<circ> un_Spec) look"
    and "no_needless_write (env_statefulsets E) KStatefulSet ObjStatefulSet sts_Meta (df_sts N \<circ> sts_Spec) look"
    and "no_needless_write (env_deployments E) KDeployment ObjDeployment dep_Meta (df_dep N \<circ> dep_Spec) look"
    and "owner_stable E"
  using assms by (simp_all add: sparing_server_def)

text \<open>The token Secret: the key is generated only when there is none, so it rests as well.\<close>

lemma secret_rests:
  assumes own: "owner_api E" "owner_stable E" and wf: "wf_meta (sec_Meta c)" and rnd: "\<And>w b w'. env_random E w = (Inr b, w') \<Longrightarrow> b \<noteq> ''''"
    and run: "mutate_secret E inst c w1 = (Inr y, w2)" and kept: "keeps sec_Meta secret_body y z"
  shows "at_rest sec_Meta secret_body (mutate_secret E inst) z"
  unfolding at_rest_def
proof
  fix w
  let ?d = "sec_Meta (BuildGatewayTokenSecret inst)"
  have "env_set_owner E inst (merged_meta True ?d (sec_Meta c)) = Inr (sec_Meta y)"
    and ty: "sec_Type y = sec_Type (BuildGatewayTokenSecret inst)"
    using run by (auto simp: mutate_secret_def own_def merged_meta_def Let_def split: if_splits prod.splits sum.splits)
  note r = owned_rest [OF own token_meta(2) wf this(1) kept]
  have "key_of_secret y \<noteq> ''''"
    using mutate_secret_result(3) [OF own(1) run] rnd by (auto simp: EncodeToString_ne split: if_splits)
  moreover have z: "sec_Type z = sec_Type y" "sec_Data z = sec_Data y" using kept by (simp_all add: keeps_def secret_body_def)
  ultimately have k: "key_of_secret z \<noteq> ''''" by simp
  let ?n = "merged_meta True ?d (sec_Meta z)"
  have "mutate_secret E inst z w = (Inr (z\<lparr>sec_Meta := ?n, sec_Type := sec_Type (BuildGatewayTokenSecret inst)\<rparr>), w)"
    using k r(1) by (simp add: mutate_secret_def own_def merged_meta_def Let_def)
  moreover have "keeps sec_Meta secret_body (z\<lparr>sec_Meta := ?n, sec_Type := sec_Type (BuildGatewayTokenSecret inst)\<rparr>) z"
    using r(2-6) ty z by (simp add: keeps_def secret_body_def)
  ultimately show "\<exists>y. mutate_secret E inst z w = (Inr y, w) \<and> keeps sec_Meta secret_body y z" by blast
qed

lemma unstructured_callback:
  "mutate_unstructured a d x w =
     (Inr (x\<lparr>un_Spec := un_Spec d, un_Meta := (merged_meta a (un_Meta d) (un_Meta x))\<lparr>om_OwnerReferences := om_OwnerReferences (un_Meta d)\<rparr>\<rparr>), w)"
  by (simp add: mutate_unstructured_def merged_meta_def Let_def)

lemma unstructured_rests:
  assumes wf: "wf_meta (un_Meta d)" "wf_meta (un_Meta c)"
    and run: "mutate_unstructured a d c w1 = (Inr y, w2)" and kept: "keeps un_Meta (c1 \<circ> un_Spec) y z"
  shows "at_rest un_Meta (c1 \<circ> un_Spec) (mutate_unstructured a d) z"
  unfolding at_rest_def
proof
  fix w

  have y: "un_Meta y = (merged_meta a (un_Meta d) (un_Meta c))\<lparr>om_OwnerReferences := om_OwnerReferences (un_Meta d)\<rparr>" "un_Spec y = un_Spec d"
    using run by (auto simp: unstructured_callback)
  have "wf_meta (un_Meta y)" using merged_wf [OF wf, of a] by (simp add: y(1) wf_meta_def)
  then have wz: "wf_meta (un_Meta z)" using kept by (simp add: keeps_def)
  have "map_of (om_Labels (un_Meta z)) = map_of (om_Labels (merged_meta a (un_Meta d) (un_Meta c)))"
    "map_of (om_Annotations (un_Meta z)) = map_of (om_Annotations (merged_meta a (un_Meta d) (un_Meta c)))"
    using kept by (simp_all add: keeps_def y(1))
  note f = merged_fixpoint [OF wf(2,1) wz this]
  have "om_OwnerReferences (un_Meta z) = om_OwnerReferences (un_Meta d)" "c1 (un_Spec z) = c1 (un_Spec d)"
    using kept by (simp_all add: keeps_def y)
  moreover have "object_key (m\<lparr>om_OwnerReferences := rs\<rparr>) = object_key m" for m rs by (simp add: object_key_def)
  ultimately show "\<exists>y. mutate_unstructured a d z w = (Inr y, w) \<and> keeps un_Meta (c1 \<circ> un_Spec) y z"
    using f wz by (simp add: keeps_def unstructured_callback)
qed

lemma unstructured_keyed:
  assumes "wf_meta (un_Meta d)"
  shows "keyed un_Meta (mutate_unstructured a d)"
  using merged_wf [OF assms, of _ a] by (auto simp: keyed_def unstructured_callback object_key_def wf_meta_def merged_meta_def
      merge_labels_def merge_annotations_def)

lemma settles_get_or_create:
  assumes "serves kc k tag meta body look"
    and "\<And>w w'. a w = (None, w') \<Longrightarrow> exists_at (k, key) (look w')"
    and "\<And>v x v1. kc_get kc key v = (Inr x, v1) \<Longrightarrow> a v = (None, v1)"
    and "\<And>v e v1. kc_get kc key v = (Inl e, v1) \<Longrightarrow> \<not> IsNotFound e \<Longrightarrow> snd (a v) = v1"
  shows "settles look {(k, key)} a"
  unfolding settles_def
proof (intro allI impI)
  fix w w' v r v'
  assume run: "a w = (None, w')" and same: "\<forall>x \<in> {(k, key)}. look v x = look w' x" and again: "a v = (r, v')"
  have there: "look v (k, key) \<noteq> None" using assms(2) [OF run] same by (simp add: exists_at_def)
  obtain s v1 where g: "kc_get kc key v = (s, v1)" by fastforce
  have l: "look v1 = look v \<and> (case s of Inr x \<Rightarrow> look v (k, key) = Some (tag x) \<and> object_key (meta x) = key | Inl e \<Rightarrow> says_absent e \<longrightarrow> look v (k, key) = None)"
    using assms(1) g unfolding serves_def serves_get_def by blast
  show "look v' = look v"
  proof (cases s)
    case (Inl e)
    then have "\<not> IsNotFound e" using l there by (auto simp: says_absent_def)
    then show ?thesis using assms(4) [of v e v1] g Inl again l by simp
  next
    case (Inr x)
    then show ?thesis using assms(3) [of v x v1] g again l by simp
  qed
qed

lemma apply_unstructured_settles:
  assumes api: "api_server N E look" and sp: "sparing_server N E look" and wf: "wf_meta (un_Meta d)"
  shows "settles look {(KUnstructured (un_GVK d), object_key (un_Meta d))} (apply_unstructured E inst a d)"
proof (cases "env_set_owner E inst (un_Meta d)")
  case (Inl e)
  then show ?thesis by (simp add: apply_unstructured_def settles_def)
next
  case (Inr m)
  let ?d = "d\<lparr>un_Meta := m\<rparr>"
    and ?x = "\<lparr>un_GVK = un_GVK d, un_Meta = new_meta (om_Name (un_Meta d)) (om_Namespace (un_Meta d)), un_Spec = JNull\<rparr>"
  have wm: "wf_meta (un_Meta ?d)" using wf owner_apiD [OF api_serves(15) [OF api] Inr] by (simp add: wf_meta_def)
  have k: "object_key (un_Meta ?x) = object_key (un_Meta d)" by (simp add: object_key_def new_meta_def)
  have wx: "wf_meta (un_Meta ?x)" by simp
  have "settles look {(KUnstructured (un_GVK d), object_key (un_Meta ?x))}
      (kc_create_or_update (env_unstructured E (un_GVK d)) ?x (mutate_unstructured a ?d))"
    by (rule settles_update [OF api_serves(12) [OF api] sparing_serves(11) [OF sp] unstructured_keyed [OF wm] wx])
      (rule unstructured_rests [OF wm])
  then show ?thesis unfolding k by (simp add: apply_unstructured_def [abs_def] Inr)
qed

lemma secret_settles:
  assumes api: "api_server N E look" and sp: "sparing_server N E look"
  shows "settles look {token_id inst} (reconcileSecret E inst)"
proof -
  note own = api_serves(15) [OF api]
  have x: "wf_meta (sec_Meta (empty_secret (GatewayTokenSecretName inst) (inst_ns inst)))"
    and k: "object_key (sec_Meta (empty_secret (GatewayTokenSecretName inst) (inst_ns inst))) = (inst_ns inst, GatewayTokenSecretName inst)"
    by (simp_all add: empty_secret_def)
  show ?thesis
    unfolding reconcileSecret_def
    by (rule settles_update [OF api_serves(1) [OF api] sparing_serves(1) [OF sp] secret_keyed [OF own, of inst] x, unfolded k])
      (rule secret_rests [OF own sparing_serves(14) [OF sp] _ api_random(2) [OF api]])
qed

lemma pvc_settles:
  assumes api: "api_server N E look"
  shows "settles look {(KPVC, (inst_ns inst, PVCName inst))} (reconcilePVC E inst)"
    and "settles look {(KPVC, (inst_ns inst, HonchoPVCName inst))} (honcho_pvc E inst)"
  by (rule settles_get_or_create [OF api_serves(2) [OF api]];
      use pvc_step [OF api] honcho_pvc_step [OF api] in \<open>auto simp: reconcilePVC_def honcho_pvc_def\<close>)+

lemma resolve_again:
  assumes api: "api_server N E look" and run: "resolveConfigBody yl E inst w = (Inr body, w1)"
    and same: "\<forall>x \<in> ref_ids inst. look v x = look w x" and again: "resolveConfigBody yl E inst v = (r, v1)"
  shows "look v1 = look v \<and> (r = Inr body \<or> (\<exists>e. r = Inl e))"
proof (cases "cfg_ConfigMapRef (spec_Config (hi_Spec inst))")
  case None
  then show ?thesis using run again by (simp add: resolveConfigBody_def)
next
  case (Some ref)
  let ?kc = "env_configmaps E" and ?k = "(inst_ns inst, ref)"
  have sv: "kc_get ?kc ?k u = (s, u1) \<Longrightarrow> look u1 = look u \<and>
      (case s of Inr x \<Rightarrow> look u (KConfigMap, ?k) = Some (ObjConfigMap x) \<and> object_key (cm_Meta x) = ?k
               | Inl e \<Rightarrow> says_absent e \<longrightarrow> look u (KConfigMap, ?k) = None)" for u s u1
    using api_serves(3) [OF api] unfolding serves_def serves_get_def by blast
  obtain s w2 where g: "kc_get ?kc ?k w = (s, w2)" by fastforce
  then obtain user where user: "s = Inr user" using run Some by (auto simp: resolveConfigBody_def Let_def split: sum.splits)
  obtain t v2 where h: "kc_get ?kc ?k v = (t, v2)" by fastforce
  show ?thesis
  proof (cases t)
    case (Inl e)
    then show ?thesis using again Some h sv [OF h] by (auto simp: resolveConfigBody_def Let_def)
  next
    case (Inr x)
    have "look v (KConfigMap, ?k) = look w (KConfigMap, ?k)" using same Some by (simp add: ref_ids_def)
    then have "x = user" using sv [OF g] sv [OF h] user Inr by simp
    then show ?thesis
      using run again Some g h user Inr sv [OF h]
      by (auto simp: resolveConfigBody_def Let_def split: option.splits if_splits)
  qed
qed

lemma configmap_settles:
  assumes api: "api_server N E look" and sp: "sparing_server N E look" and apart: "cm_id inst (ConfigMapName inst) \<notin> ref_ids inst"
  shows "settles look ({cm_id inst (ConfigMapName inst)} \<union> ref_ids inst) (reconcileConfigMap yl E inst)"
  unfolding settles_def
proof (intro allI impI)
  fix w w' v r v'
  let ?x = "empty_configmap (ConfigMapName inst) (inst_ns inst)" and ?S = "{cm_id inst (ConfigMapName inst)}"
  assume run: "reconcileConfigMap yl E inst w = (None, w')" and same: "\<forall>x \<in> ?S \<union> ref_ids inst. look v x = look w' x"
    and again: "reconcileConfigMap yl E inst v = (r, v')"
  have x: "wf_meta (cm_Meta ?x)" "object_key (cm_Meta ?x) = (inst_ns inst, ConfigMapName inst)" by (simp_all add: empty_configmap_def)
  from run obtain body w1 where b: "resolveConfigBody yl E inst w = (Inr body, w1)"
    and up: "kc_create_or_update (env_configmaps E) ?x (mutate_configmap yl E inst body) w1 = (None, w')"
    by (auto simp: reconcileConfigMap_def split: prod.splits sum.splits)
  obtain d where d: "BuildConfigMap yl inst body = Inr d"
  proof (cases "BuildConfigMap yl inst body")
    case (Inl e)
    have "keyed cm_Meta (mutate_configmap yl E inst body)" by (simp add: keyed_def mutate_configmap_def Inl)
    from serves_updateE [OF api_serves(3) [OF api] this x(1) up] show ?thesis by (simp add: mutate_configmap_def Inl)
  qed (rule that)
  have cb: "mutate_configmap yl E inst body = put_configmap E inst d" by (simp add: fun_eq_iff mutate_configmap_def d)
  have dw: "wf_meta (cm_Meta d)" using d by (auto simp: BuildConfigMap_def wf_meta_def new_meta_def split: sum.splits)
  have st: "settles look ?S (kc_create_or_update (env_configmaps E) ?x (put_configmap E inst d))"
    using ocm.callback_settles [OF api_serves(3) [OF api] sparing_serves(2) [OF sp] api_serves(15) [OF api] sparing_serves(14) [OF sp],
        where D = "\<lambda>_. d", OF dw x(1)] x(2) by simp
  have oa: "only_at ?S (look w) (look w')" using configmap_step [OF api run] by blast
  have ref: "\<forall>x \<in> ref_ids inst. look v x = look w x"
  proof
    fix x assume x: "x \<in> ref_ids inst"
    then have "x \<notin> ?S" using apart by auto
    then have "look w' x = look w x" using oa unfolding only_at_def by blast
    moreover have "look v x = look w' x" using same x by blast
    ultimately show "look v x = look w x" by simp
  qed
  obtain s v1 where v1: "resolveConfigBody yl E inst v = (s, v1)" by fastforce
  from resolve_again [OF api b ref v1] consider (body) "look v1 = look v" "s = Inr body" | (err) e where "look v1 = look v" "s = Inl e"
    by blast
  then show "look v' = look v"
  proof cases
    case body
    then have "kc_create_or_update (env_configmaps E) ?x (put_configmap E inst d) v1 = (r, v')"
      using again v1 by (simp add: reconcileConfigMap_def cb)
    moreover have "look v1 x = look w' x" if "x \<in> ?S" for x
      using that same body(1) by auto
    ultimately have "look v' = look v1" by (intro settlesD [OF st up [unfolded cb]])
    then show ?thesis using body(1) by simp
  next
    case err
    then show ?thesis using again v1 by (simp add: reconcileConfigMap_def)
  qed
qed

text \<open>The remaining steps: a deletion when the feature is off, an owned object when it is on.\<close>

lemma steps_settle:
  assumes api: "api_server N E look" and sp: "sparing_server N E look" and md: "maps_distinct inst"
  shows "settles look {cm_id inst (WorkspaceConfigMapName inst)} (reconcileWorkspaceConfigMap E inst)" (is ?workspace)
    and "settles look {(KNetworkPolicy, (inst_ns inst, NetworkPolicyName inst))} (reconcileNetworkPolicy E inst)" (is ?netpol)
    and "settles look {(KService, (inst_ns inst, ServiceName inst))} (reconcileService E inst)" (is ?service)
    and "settles look {(KPDB, (inst_ns inst, PDBName inst))} (reconcilePDB E inst)" (is ?pdb)
    and "settles look {(KHPA, (inst_ns inst, HPAName inst))} (reconcileHPA E inst)" (is ?hpa)
    and "settles look {(KIngress, (inst_ns inst, IngressName inst))} (reconcileIngress E inst)" (is ?ingress)
    and "settles look {un_id ServiceMonitorGVK inst (inst_name inst)} (reconcileServiceMonitor crds E inst)" (is ?monitor)
    and "settles look {un_id PrometheusRuleGVK inst (inst_name inst)} (reconcilePrometheusRule crds E inst)" (is ?rule)
    and "settles look {(KStatefulSet, (inst_ns inst, StatefulSetName inst))} (reconcileStatefulSet mg E inst)" (is ?statefulset)
    and "settles look {} reconcileTailscale" (is ?tailscale)
proof -
  note a = api_serves [OF api] and s = sparing_serves [OF sp]
  note own = a(15) s(14)
  have e: "wf_meta (cm_Meta (empty_configmap n ns))" "object_key (cm_Meta (empty_configmap n ns)) = (ns, n)"
    "wf_meta (np_Meta (empty_netpol n ns))" "object_key (np_Meta (empty_netpol n ns)) = (ns, n)"
    "wf_meta (sts_Meta (empty_statefulset n ns))" "object_key (sts_Meta (empty_statefulset n ns)) = (ns, n)" for n ns
    by (simp_all add: empty_configmap_def empty_netpol_def empty_statefulset_def)
  have w: "wf_meta (svc_Meta (BuildService inst))" "wf_meta (ing_Meta (BuildIngress inst))"
    using md by (simp_all add: maps_distinct_def)
  have cb: "mutate_workspace E inst = put_configmap E inst (BuildWorkspaceConfigMap inst)" by (simp add: fun_eq_iff mutate_workspace_def)
  show ?workspace
    using ocm.callback_settles [OF a(3) s(2) own, where D = BuildWorkspaceConfigMap, OF built_wf(1) e(1)]
    by (simp add: reconcileWorkspaceConfigMap_def cb e(2))
  show ?netpol
    using onp.callback_settles [OF a(8) s(7) own, where D = BuildNetworkPolicy, OF built_wf(4) e(3)] settles_delete [OF a(8)]
    unfolding reconcileNetworkPolicy_def by (intro settles_if) (simp_all add: e(4))
  show ?service
    using osvc.callback_settles [OF a(7) s(6) own, where D = BuildService, OF w(1) empty_service_ok(1)]
    by (simp add: reconcileService_def)
  show ?pdb
    using opdb.callback_settles [OF a(9) s(8) own built_wf(5), where x = "\<lparr>pdb_Meta = new_meta (PDBName inst) (inst_ns inst),
        pdb_Selector = [], pdb_MinAvailable = None, pdb_MaxUnavailable = None\<rparr>"] settles_delete [OF a(9)]
    unfolding reconcilePDB_def by (intro settles_if) simp_all
  show ?hpa
    using ohpa.callback_settles [OF a(10) s(9) own built_wf(6), where x = "\<lparr>hpa_Meta = new_meta (HPAName inst) (inst_ns inst),
        hpa_ScaleTargetRef = ('''', '''', ''''), hpa_MinReplicas = None, hpa_MaxReplicas = 0, hpa_Metrics = [], hpa_Behavior = None\<rparr>"]
      settles_delete [OF a(10)]
    unfolding reconcileHPA_def by (intro settles_if) simp_all
  show ?ingress
    using oing.callback_settles [OF a(11) s(10) own w(2), where x = "\<lparr>ing_Meta = new_meta (IngressName inst) (inst_ns inst),
        ing_IngressClassName = None, ing_Rules = [], ing_TLS = []\<rparr>"] settles_delete [OF a(11)]
    unfolding reconcileIngress_def by (intro settles_if) simp_all
  show ?monitor
    using apply_unstructured_settles [OF api sp built_wf(7), where a = False] settles_delete [OF a(12)]
    unfolding reconcileServiceMonitor_def ServiceMonitorName_def by (intro settles_if settles_none) simp_all
  show ?rule
    using apply_unstructured_settles [OF api sp built_wf(8), where a = False] settles_delete [OF a(12)]
    unfolding reconcilePrometheusRule_def PrometheusRuleName_def by (intro settles_if settles_none) simp_all
  show ?statefulset
    using osts.callback_settles [OF a(13) s(12) own sts_wf e(5)] by (simp add: reconcileStatefulSet_def e(6))
  show ?tailscale by (simp add: settles_def reconcileTailscale_def)
qed

text \<open>A step that settles and touches nothing outside its objects, and steps in sequence.\<close>

definition local_step :: "('w \<Rightarrow> cluster) \<Rightarrow> object_id set \<Rightarrow> 'w act \<Rightarrow> bool" where
  "local_step look S a \<longleftrightarrow> settles look S a \<and> (\<forall>w w'. a w = (None, w') \<longrightarrow> only_at S (look w) (look w'))"

lemma local_then:
  assumes "local_step look S a" and "local_step look T b" and "S \<inter> T = {}" and "U = S \<union> T"
  shows "local_step look U (and_then a b)"
  using assms settles_then [of look S a T b] unfolding local_step_def by (blast elim: and_thenE intro: only_at_trans)

lemma local_labelled: "local_step look S a \<Longrightarrow> local_step look S (labelled l a)"
  by (simp add: local_step_def settles_labelled labelled_None)

lemma local_if: "(P \<Longrightarrow> local_step look S a) \<Longrightarrow> (\<not> P \<Longrightarrow> local_step look S b) \<Longrightarrow> local_step look S (if P then a else b)"
  by simp

lemma local_none: "local_step look S (\<lambda>w. (None, w))"
  by (simp add: local_step_def settles_none)

lemma local_delete: "serves kc k tag meta body look \<Longrightarrow> local_step look {(k, key)} (deleteIfExists kc key)"
  unfolding local_step_def by (blast intro: settles_delete delete_step [THEN conjunct2])

lemma rbac_settles:
  assumes api: "api_server N E look" and sp: "sparing_server N E look" and md: "maps_distinct inst"
  shows "settles look (rbac_ids inst) (reconcileRBAC E inst)"
proof -
  note a = api_serves [OF api] and s = sparing_serves [OF sp]
  note own = a(15) s(14)
  let ?sa = "\<lparr>sa_Meta = new_meta (ServiceAccountName inst) (inst_ns inst), sa_AutomountServiceAccountToken = None\<rparr>"
  let ?role = "\<lparr>role_Meta = new_meta (RoleName inst) (inst_ns inst), role_Rules = []\<rparr>"
  let ?rb = "\<lparr>rb_Meta = new_meta (RoleBindingName inst) (inst_ns inst), rb_Subjects = [],
              rb_RoleRef = \<lparr>ref_APIGroup = '''', ref_Kind = '''', ref_Name = ''''\<rparr>\<rparr>"
  have sw: "wf_meta (sa_Meta (BuildServiceAccount inst))" using md by (simp add: maps_distinct_def)
  have x: "wf_meta (sa_Meta ?sa)" "wf_meta (role_Meta ?role)" "wf_meta (rb_Meta ?rb)" by simp_all
  have 1: "local_step look {(KServiceAccount, (inst_ns inst, ServiceAccountName inst))} (kc_create_or_update (env_serviceaccounts E) ?sa (mutate_sa E inst))"
    using osa.callback_settles [OF a(4) s(3) own sw x(1)] msa.converges [OF a(4) own(1) sw x(1)] by (simp add: local_step_def)
  have 2: "local_step look {(KRole, (inst_ns inst, RoleName inst))} (kc_create_or_update (env_roles E) ?role (mutate_role E inst))"
    using orole.callback_settles [OF a(5) s(4) own built_wf(2) x(2)] mrole.converges [OF a(5) own(1) built_wf(2) x(2)] by (simp add: local_step_def)
  have 3: "local_step look {(KRoleBinding, (inst_ns inst, RoleBindingName inst))} (kc_create_or_update (env_rolebindings E) ?rb (mutate_rolebinding E inst))"
    using orb.callback_settles [OF a(6) s(5) own built_wf(3) x(3)] mrb.converges [OF a(6) own(1) built_wf(3) x(3)] by (simp add: local_step_def)
  have "local_step look (rbac_ids inst) (and_then (labelled ''sa'' (kc_create_or_update (env_serviceaccounts E) ?sa (mutate_sa E inst)))
      (and_then (labelled ''role'' (kc_create_or_update (env_roles E) ?role (mutate_role E inst)))
        (labelled ''rolebinding'' (kc_create_or_update (env_rolebindings E) ?rb (mutate_rolebinding E inst)))))"
    by (rule local_then [OF local_labelled [OF 1] local_then [OF local_labelled [OF 2] local_labelled [OF 3] _ refl]])
      (auto simp: rbac_ids_def)
  then show ?thesis unfolding reconcileRBAC_def by (intro settles_if settles_none) (simp add: local_step_def)
qed

lemma httproute_settles:
  assumes api: "api_server N E look" and sp: "sparing_server N E look" and md: "maps_distinct inst"
  shows "settles look {un_id HTTPRouteGVK inst (HTTPRouteName inst)} (reconcileHTTPRoute E inst)"
proof (cases "httproute_enabled inst")
  case False
  show ?thesis
    unfolding settles_def
  proof (intro allI impI)
    fix w w' v r v'
    assume run: "reconcileHTTPRoute E inst w = (None, w')" and again: "reconcileHTTPRoute E inst v = (r, v')"
      and same: "\<forall>x \<in> {un_id HTTPRouteGVK inst (HTTPRouteName inst)}. look v x = look w' x"
    let ?kc = "env_unstructured E HTTPRouteGVK" and ?k = "(inst_ns inst, HTTPRouteName inst)"
    have gone: "look v (KUnstructured HTTPRouteGVK, ?k) = None"
      using httproute_step [OF api md run] same False by (simp add: httproute_reached_def there_iff_def)
    from again False obtain r1 where d: "deleteIfExists ?kc ?k v = (r1, v')" by (auto simp: reconcileHTTPRoute_def split: prod.splits)
    show "look v' = look v" by (rule delete_absent [OF api_serves(12) [OF api] gone d])
  qed
next
  case True
  show ?thesis
  proof (cases "BuildHTTPRoute inst")
    case None
    with True show ?thesis by (simp add: settles_def reconcileHTTPRoute_def)
  next
    case (Some d)
    have "un_GVK d = HTTPRouteGVK" "object_key (un_Meta d) = (inst_ns inst, HTTPRouteName inst)"
      using Some by (auto simp: BuildHTTPRoute_def object_key_def new_meta_def split: option.splits)
    moreover have "wf_meta (un_Meta d)" using md Some by (simp add: maps_distinct_def)
    moreover have "reconcileHTTPRoute E inst = apply_unstructured E inst True d"
      using True Some by (simp add: fun_eq_iff reconcileHTTPRoute_def)
    ultimately show ?thesis using apply_unstructured_settles [OF api sp, of d inst True] by simp
  qed
qed

lemma dashboards_settle:
  assumes api: "api_server N E look" and sp: "sparing_server N E look"
  shows "settles look (dashboard_ids inst) (reconcileGrafanaDashboards E inst)"
proof -
  note a = api_serves(3) [OF api]
  have ap: "local_step look {(KConfigMap, object_key (cm_Meta d))} (apply_dashboard E inst d)" if "wf_meta (cm_Meta d)" for d
  proof -
    let ?x = "empty_configmap (om_Name (cm_Meta d)) (om_Namespace (cm_Meta d))"
    have x: "wf_meta (cm_Meta ?x)" "object_key (cm_Meta ?x) = object_key (cm_Meta d)"
      by (simp_all add: empty_configmap_def) (simp add: object_key_def)
    show ?thesis
      using odash.callback_settles [OF a sparing_serves(2) [OF sp] api_serves(15) [OF api] sparing_serves(14) [OF sp], where D = "\<lambda>_. d",
          OF that x(1)] dashboard_step [OF api that] x(2)
      by (auto simp: local_step_def apply_dashboard_def)
  qed
  have "local_step look (dashboard_ids inst) (reconcileGrafanaDashboards E inst)"
    unfolding reconcileGrafanaDashboards_def
    by (intro local_if local_then [OF local_delete [OF a] local_delete [OF a]]
        local_then [OF ap [OF built_wf(9), unfolded object_key_def dashboard_names] ap [OF built_wf(10), unfolded object_key_def dashboard_names]])
      (auto simp: dashboard_ids_def)
  then show ?thesis by (simp add: local_step_def)
qed

lemma honcho_settles:
  assumes api: "api_server N E look" and sp: "sparing_server N E look"
  shows "settles look (honcho_ids inst) (reconcileHoncho E inst)"
proof -
  note a = api_serves [OF api] and s = sparing_serves [OF sp]
  note own = a(15) s(14)
  have e: "wf_meta (np_Meta (empty_netpol n ns))" "object_key (np_Meta (empty_netpol n ns)) = (ns, n)"
    "wf_meta (dep_Meta (empty_deployment n ns))" "object_key (dep_Meta (empty_deployment n ns)) = (ns, n)" for n ns
    by (simp_all add: empty_netpol_def empty_deployment_def)
  have 1: "local_step look {(KPVC, (inst_ns inst, HonchoPVCName inst))} (honcho_pvc E inst)"
    using pvc_settles(2) [OF api] honcho_pvc_step [OF api] by (auto simp: local_step_def)
  have 2: "local_step look {(KService, (inst_ns inst, HonchoServiceName inst))} (kc_create_or_update (env_services E)
      (empty_service (HonchoServiceName inst) (inst_ns inst)) (mutate_service E inst (BuildHonchoService inst)))"
    using osvc.callback_settles [OF a(7) s(6) own, where D = BuildHonchoService, OF honcho_wf(1) empty_service_ok(1)]
      msvc.converges [OF a(7) own(1), where D = BuildHonchoService, OF honcho_wf(1) empty_service_ok(1)]
    by (simp add: local_step_def)
  have 3: "local_step look {(KDeployment, (inst_ns inst, HonchoDeploymentName inst))} (kc_create_or_update (env_deployments E)
      (empty_deployment (HonchoDeploymentName inst) (inst_ns inst)) (mutate_deployment E inst))"
    using odep.callback_settles [OF a(14) s(13) own honcho_wf(2) e(3)] mdep.converges [OF a(14) own(1) honcho_wf(2) e(3)]
    by (simp add: local_step_def e(4))
  have 4: "local_step look {(KNetworkPolicy, (inst_ns inst, HonchoDeploymentName inst))} (kc_create_or_update (env_netpols E)
      (empty_netpol (HonchoDeploymentName inst) (inst_ns inst)) (honcho_netpol E inst))" if on: "honchoEnabled inst"
  proof -
    from on obtain d where d: "BuildHonchoNetworkPolicy inst = Some d" by (simp add: BuildHonchoNetworkPolicy_def)
    then have dw: "wf_meta (np_Meta d)"
      by (auto simp: BuildHonchoNetworkPolicy_def wf_meta_def new_meta_def HonchoLabels_def Let_def split: if_splits)
    have cb: "honcho_netpol E inst = mutate_netpol E inst d" by (simp add: fun_eq_iff honcho_netpol_def d)
    show ?thesis
      using onp.callback_settles [OF a(8) s(7) own, where D = "\<lambda>_. d", OF dw e(1)] mnp.converges [OF a(8) own(1), where D = "\<lambda>_. d", OF dw e(1)]
      by (simp add: local_step_def e(2) cb)
  qed
  have n: "local_step look {(KPVC, (inst_ns inst, HonchoPVCName inst))} (\<lambda>w. (None, w))" by (rule local_none)
  have "local_step look (honcho_ids inst) (reconcileHoncho E inst)"
    unfolding reconcileHoncho_def Let_def
    by (intro local_then [OF local_if [OF 1 n] local_then [OF local_if [OF local_labelled [OF local_delete [OF a(7)]] local_labelled [OF 2]]
          local_then [OF local_if [OF local_labelled [OF local_delete [OF a(14)]] local_labelled [OF 3]]
            local_if [OF local_labelled [OF local_delete [OF a(8)]] local_labelled [OF 4]] _ refl] _ refl]])
      (auto simp: honcho_ids_def)
  then show ?thesis by (simp add: local_step_def)
qed

section \<open>A pass at rest\<close>

text \<open>The steps do not read the conditions of the instance.\<close>

lemma owner_recond:
  assumes "owner_stable E"
  shows "env_set_owner E (recond cs i) = env_set_owner E i"
proof -
  have "hi_ObjectMeta (recond cs i) = hi_ObjectMeta i" by simp
  then have "env_set_owner E (recond cs i) m = env_set_owner E i m" for m
    using assms unfolding owner_stable_def by blast
  then show ?thesis by (simp add: fun_eq_iff)
qed

lemma recond_token [recond_builders]: "BuildGatewayTokenSecret (recond cs i) = BuildGatewayTokenSecret i"
  by (simp only: BuildGatewayTokenSecret_def recond_simps recond_builders)

lemma own_recond: "owner_stable E \<Longrightarrow> own E (recond cs i) = own E i"
  by (simp add: fun_eq_iff own_def owner_recond)

lemma callbacks_recond:
  assumes "owner_stable E"
  shows "mutate_secret E (recond cs i) = mutate_secret E i"
    and "put_configmap E (recond cs i) d1 = put_configmap E i d1" and "mutate_dashboard E (recond cs i) d1 = mutate_dashboard E i d1"
    and "mutate_sa E (recond cs i) = mutate_sa E i" and "mutate_role E (recond cs i) = mutate_role E i"
    and "mutate_rolebinding E (recond cs i) = mutate_rolebinding E i" and "mutate_netpol E (recond cs i) d2 = mutate_netpol E i d2"
    and "mutate_service E (recond cs i) d3 = mutate_service E i d3" and "mutate_pdb E (recond cs i) = mutate_pdb E i"
    and "mutate_hpa E (recond cs i) = mutate_hpa E i" and "mutate_ingress E (recond cs i) = mutate_ingress E i"
    and "mutate_statefulset mg E (recond cs i) = mutate_statefulset mg E i" and "mutate_deployment E (recond cs i) = mutate_deployment E i"
    and "create_owned_pvc E (recond cs i) l1 l2 d4 = create_owned_pvc E i l1 l2 d4"
    and "apply_unstructured E (recond cs i) a d5 = apply_unstructured E i a d5"
  unfolding fun_eq_iff
  by (simp_all only: mutate_secret_def put_configmap_def mutate_dashboard_def mutate_sa_def mutate_role_def mutate_rolebinding_def
      mutate_netpol_def mutate_service_def mutate_pdb_def mutate_hpa_def mutate_ingress_def mutate_statefulset_def mutate_deployment_def
      create_owned_pvc_def apply_unstructured_def own_recond [OF assms] owner_recond [OF assms] recond_builders Let_def simp_thms)

lemma callbacks_recond2:
  assumes "owner_stable E"
  shows "mutate_workspace E (recond cs i) = mutate_workspace E i" and "mutate_configmap yl E (recond cs i) b = mutate_configmap yl E i b"
    and "honcho_netpol E (recond cs i) = honcho_netpol E i" and "honcho_pvc E (recond cs i) = honcho_pvc E i"
    and "apply_dashboard E (recond cs i) = apply_dashboard E i" and "resolveConfigBody yl E (recond cs i) = resolveConfigBody yl E i"
  unfolding fun_eq_iff
  by (simp_all only: mutate_workspace_def mutate_configmap_def honcho_netpol_def honcho_pvc_def apply_dashboard_def resolveConfigBody_def
      callbacks_recond [OF assms] recond_simps recond_builders Let_def simp_thms)

lemma steps_recond:
  assumes "owner_stable E"
  shows "reconcileSecret E (recond cs i) = reconcileSecret E i" and "reconcilePVC E (recond cs i) = reconcilePVC E i"
    and "reconcileConfigMap yl E (recond cs i) = reconcileConfigMap yl E i"
    and "reconcileWorkspaceConfigMap E (recond cs i) = reconcileWorkspaceConfigMap E i"
    and "reconcileNetworkPolicy E (recond cs i) = reconcileNetworkPolicy E i" and "reconcileRBAC E (recond cs i) = reconcileRBAC E i"
    and "reconcileService E (recond cs i) = reconcileService E i" and "reconcilePDB E (recond cs i) = reconcilePDB E i"
    and "reconcileHPA E (recond cs i) = reconcileHPA E i" and "reconcileIngress E (recond cs i) = reconcileIngress E i"
    and "reconcileHTTPRoute E (recond cs i) = reconcileHTTPRoute E i"
    and "reconcileServiceMonitor crds E (recond cs i) = reconcileServiceMonitor crds E i"
    and "reconcilePrometheusRule crds E (recond cs i) = reconcilePrometheusRule crds E i"
    and "reconcileGrafanaDashboards E (recond cs i) = reconcileGrafanaDashboards E i"
    and "reconcileStatefulSet mg E (recond cs i) = reconcileStatefulSet mg E i" and "reconcileHoncho E (recond cs i) = reconcileHoncho E i"
  unfolding fun_eq_iff
  by (simp_all only: reconcileSecret_def reconcilePVC_def reconcileConfigMap_def reconcileWorkspaceConfigMap_def reconcileNetworkPolicy_def
      reconcileRBAC_def reconcileService_def reconcilePDB_def reconcileHPA_def reconcileIngress_def reconcileHTTPRoute_def
      reconcileServiceMonitor_def reconcilePrometheusRule_def reconcileGrafanaDashboards_def reconcileStatefulSet_def reconcileHoncho_def
      callbacks_recond [OF assms] callbacks_recond2 [OF assms] recond_simps recond_builders Let_def simp_thms)

text \<open>A goal that is at rest in a cluster: its step changes nothing there.\<close>

definition rests :: "('w \<Rightarrow> cluster) \<Rightarrow> HermesInstance \<Rightarrow> (HermesInstance \<Rightarrow> 'w act) \<Rightarrow> object_id set \<Rightarrow> cluster \<Rightarrow> bool" where
  "rests look inst a S c \<longleftrightarrow>
     (\<forall>cs v r v'. (\<forall>x \<in> S. look v x = c x) \<longrightarrow> a (recond cs inst) v = (r, v') \<longrightarrow> look v' = look v)"

text \<open>What a step depends on: its own objects, and for the configuration the one it refers to.\<close>

definition sees :: "HermesInstance \<Rightarrow> object_id set \<Rightarrow> object_id set" where
  "sees inst S = S \<union> (if cm_id inst (ConfigMapName inst) \<in> S then ref_ids inst else {})"

definition resting :: "('w \<Rightarrow> cluster) \<Rightarrow> HermesInstance \<Rightarrow> 'w goal \<Rightarrow> 'w goal" where
  "resting look inst g = (case g of (n, c, a, S, P) \<Rightarrow> (n, c, a, sees inst S, rests look inst a (sees inst S)))"

definition steady_goal :: "('w \<Rightarrow> cluster) \<Rightarrow> HermesInstance \<Rightarrow> 'w goal \<Rightarrow> bool" where
  "steady_goal look inst g = (case g of (n, c, a, S, P) \<Rightarrow> (\<forall>cs. a (recond cs inst) = a inst) \<and> settles look (sees inst S) (a inst))"

lemma resting_simps [simp]:
  "resting look inst (n, c, a, S, P) = (n, c, a, sees inst S, rests look inst a (sees inst S))"
  "step_of (resting look inst g) = step_of g" "area_of (resting look inst g) = sees inst (area_of g)"
  "steady_goal look inst (n, c, a, S, P) \<longleftrightarrow> (\<forall>cs. a (recond cs inst) = a inst) \<and> settles look (sees inst S) (a inst)"
  by (simp_all add: resting_def steady_goal_def step_of_def area_of_def split: prod.splits)

lemma resting_ok:
  assumes "goal_ok look inst g" and "steady_goal look inst g"
  shows "goal_ok look inst (resting look inst g)"
proof -
  obtain n c a S P where g: "g = (n, c, a, S, P)" by (cases g)
  have eq: "a (recond cs inst) = a inst" for cs using assms(2) by (simp add: g)
  let ?S = "sees inst S"
  have st: "settles look ?S (a inst)" using assms(2) by (simp add: g)
  have "rests look inst a ?S (look w')" if "a inst w = (None, w')" for w w'
    unfolding rests_def eq using st that unfolding settles_def by blast
  moreover have "only_at ?S (look w) (look w')" if "a inst w = (None, w')" for w w'
    using assms(1) that unfolding g goal_simps achieves_def eq by (auto simp: sees_def intro: only_at_mono)
  ultimately have "achieves look inst a ?S (rests look inst a ?S)" unfolding achieves_def eq by blast
  moreover have "local_to ?S (rests look inst a ?S)" unfolding local_to_def rests_def by metis
  ultimately show ?thesis by (simp add: g)
qed

lemma sees_settles: "settles look S a \<Longrightarrow> settles look (sees inst S) a"
  by (erule settles_mono) (simp add: sees_def)

text \<open>The object referred to is none of the managed ones, so the steps remain apart.\<close>

lemma apart_sees:
  assumes "apart_sets Ss" and "ref_ids inst \<inter> \<Union> (set Ss) = {}"
  shows "apart_sets (map (sees inst) Ss)"
  using assms
proof (induction Ss)
  case (Cons S Ss)
  have "sees inst S \<inter> sees inst T = {}" if "T \<in> set Ss" for T
    using Cons.prems that by (auto simp: sees_def)
  then show ?case using Cons by auto
qed simp

lemma sees_cm: "sees inst {cm_id inst (ConfigMapName inst)} = {cm_id inst (ConfigMapName inst)} \<union> ref_ids inst"
  by (simp add: sees_def)

lemma goals_steady:
  assumes api: "api_server N (rc_env R) look" and sp: "sparing_server N (rc_env R) look" and md: "maps_distinct inst"
    and apart: "cm_id inst (ConfigMapName inst) \<notin> ref_ids inst"
  shows "\<forall>g \<in> set (goals N R inst). steady_goal look inst g"
  by (simp add: sees_cm sees_settles goals_def Let_def steps_recond [OF sparing_serves(14) [OF sp]] secret_settles [OF api sp] pvc_settles [OF api]
      configmap_settles [OF api sp apart, unfolded Un_insert_left Un_empty_left] steps_settle [OF api sp md] rbac_settles [OF api sp md] httproute_settles [OF api sp md]
      dashboards_settle [OF api sp] honcho_settles [OF api sp])

lemma pipeline_rests:
  assumes "run_pipeline E (map step_of L) (recond cs inst) v = (None, i', v')"
    and "\<forall>g \<in> set L. goal_met (look v) (resting look inst g)"
  shows "look v' = look v"
  using assms
proof (induction L arbitrary: cs v)
  case (Cons g L)
  obtain n c a S P where g: "g = (n, c, a, S, P)" by (cases g)
  obtain r v1 where a: "a (recond cs inst) v = (r, v1)" by fastforce
  have none: "r = None" using Cons.prems(1) a by (auto simp: g reading_def split: option.splits if_splits prod.splits)
  have "rests look inst a (sees inst S) (look v)" using Cons.prems(2) by (simp add: g)
  then have l: "look v1 = look v" using a unfolding rests_def by blast
  from Cons.prems(1) a none obtain cs1 where "run_pipeline E (map step_of L) (recond cs1 inst) v1 = (None, i', v')"
    by (auto simp: g reading_def setCondition_recond)
  from Cons.IH [OF this] Cons.prems(2) l show ?case by simp
qed simp

text \<open>A later pass over the same specification, with whatever conditions the status has by then.\<close>

definition later_pass :: "('v, 'w) reconciler \<Rightarrow> HermesInstance \<Rightarrow> 'w \<Rightarrow> 'w \<Rightarrow> bool" where
  "later_pass R inst v v' \<longleftrightarrow> (\<exists>cs i'. run_pipeline (rc_env R) (resource_steps R) (recond cs inst) v = (None, i', v'))"

lemma rest_after_pass:
  assumes api: "api_server N (rc_env R) look" and sp: "sparing_server N (rc_env R) look" and md: "maps_distinct inst"
    and apart: "ref_ids inst \<inter> managed_ids R inst = {}"
    and run: "run_pipeline (rc_env R) (resource_steps R) inst w = (None, i1, w1)"
  shows "\<forall>g \<in> set (goals N R inst). goal_met (look w1) (resting look inst g)"
proof -
  let ?L = "map (resting look inst) (goals N R inst)"
  have st: "map step_of ?L = resource_steps R" and ar: "map area_of ?L = map (sees inst) (map area_of (goals N R inst))"
    by (simp_all add: o_def goals_steps)
  have "cm_id inst (ConfigMapName inst) \<in> managed_ids R inst"
    by (simp add: managed_ids_def goals_def Let_def)
  then have cm: "cm_id inst (ConfigMapName inst) \<notin> ref_ids inst" using apart by blast
  have ap: "apart_sets (map (sees inst) (map area_of (goals N R inst)))"
    using apart by (intro apart_sees goals_apart) (simp add: managed_goals [of R inst N])
  have r: "run_pipeline (rc_env R) (map step_of ?L) (recond (st_Conditions (hi_Status inst)) inst) w = (None, i1, w1)"
    using run by (simp only: st recond_same)
  have "\<forall>g \<in> set ?L. goal_ok look inst g"
    using goals_ok [OF api md] goals_steady [OF api sp md cm] unfolding set_map by (blast intro: resting_ok)
  from pipeline_achieves [OF r this, unfolded ar, OF ap] show ?thesis unfolding set_map by blast
qed

text \<open>
  C3. The resource steps of a pass come to rest. The server may fill in defaults (\<open>N\<close>): what it stores
  is what it was sent up to them, and a write that comes to the same up to them is taken for no write.
  Then, after one run of the resource steps that succeeds, no later run over the same specification
  changes any object of the cluster, however many there are: the watches on the objects these steps
  write do not keep the operator running. A ConfigMap that the configuration refers to must not be one
  of the managed objects. The sub-controllers are outside of this; a rollout of the automatic update
  writes an image that the StatefulSet step takes back, as C39 states.
\<close>

theorem passes_come_to_rest:
  assumes "api_server N (rc_env R) look" and "sparing_server N (rc_env R) look" and "maps_distinct inst"
    and "ref_ids inst \<inter> managed_ids R inst = {}"
    and "run_pipeline (rc_env R) (resource_steps R) inst w = (None, i1, w1)"
    and "(later_pass R inst)\<^sup>*\<^sup>* w1 w2"
  shows "look w2 = look w1"
  using assms(6)
proof (induction rule: rtranclp_induct)
  case (step v v')
  then obtain cs i' where r: "run_pipeline (rc_env R) (map step_of (goals N R inst)) (recond cs inst) v = (None, i', v')"
    by (auto simp: later_pass_def goals_steps)
  have "\<forall>g \<in> set (goals N R inst). goal_met (look v) (resting look inst g)"
    using rest_after_pass [OF assms(1-5)] step.IH by simp
  from pipeline_rests [OF r this] step.IH show ?case by simp
qed simp

lemma store_sparing:
  assumes tag: "\<And>x. untag (tag x) = Some x"
  shows "no_needless_write (filling_client fill k tag untag meta body) k tag meta body clean"
  unfolding no_needless_write_def
proof (intro allI impI)
  fix x f c r c' z assume l: "clean c (k, object_key (meta x)) = Some (tag z)" and rest: "at_rest meta body f z"
    and run: "kc_create_or_update (filling_client fill k tag untag meta body) x f c = (r, c')"
  from rest obtain y where "f z c = (Inr y, c)" "keeps meta body y z" unfolding at_rest_def by blast
  then show "clean c' = clean c" using run l by (simp add: filling_client_def tag)
qed

text \<open>
  A server that fills in the termination message path of the containers of a StatefulSet, and an
  instance with a sidecar of the user that leaves it out: what is stored differs from what is sent.
\<close>

definition fill_path :: "Container \<Rightarrow> Container" where
  "fill_path c = c\<lparr>ctr_TerminationMessagePath := or_default (ctr_TerminationMessagePath c) ''/dev/termination-log''\<rparr>"

definition fill_sts :: "StatefulSetSpec \<Rightarrow> StatefulSetSpec" where
  "fill_sts s = s\<lparr>sts_Template := (sts_Template s)\<lparr>pts_Spec := (pts_Spec (sts_Template s))
     \<lparr>ps_Containers := map fill_path (ps_Containers (pts_Spec (sts_Template s)))\<rparr>\<rparr>\<rparr>"

lemma fill_sts_twice: "fill_sts (fill_sts s) = fill_sts s"
proof -
  have "fill_path (fill_path c) = fill_path c" for c by (simp add: fill_path_def or_default_def)
  then show ?thesis by (simp add: fill_sts_def)
qed

abbreviation path_filled :: defaulting where
  "path_filled \<equiv> exact\<lparr>df_sts := fill_sts\<rparr>"

definition filling_cluster :: "cluster env" where
  "filling_cluster = cluster_env\<lparr>env_statefulsets :=
     filling_client (\<lambda>x. x\<lparr>sts_Spec := fill_sts (sts_Spec x)\<rparr>) KStatefulSet ObjStatefulSet
       (\<lambda>a. case a of ObjStatefulSet x \<Rightarrow> Some x | _ \<Rightarrow> None) sts_Meta (fill_sts \<circ> sts_Spec)\<rparr>"

lemma filling_serves:
  "serves (env_statefulsets filling_cluster) KStatefulSet ObjStatefulSet sts_Meta (fill_sts \<circ> sts_Spec) clean"
  "client_ok (env_statefulsets filling_cluster)"
  by (simp_all add: filling_cluster_def, (rule store_serves; simp add: kind_cases fill_sts_twice)+)

lemma filling_api: "api_server path_filled filling_cluster clean"
  using cluster_api filling_serves(1) by (simp add: api_server_def owner_api_def filling_cluster_def)

lemma filling_healthy: "healthy filling_cluster inst"
  using cluster_healthy [of inst] filling_serves(2) by (simp add: healthy_def must_parse_ok_def filling_cluster_def)

lemma filling_sparing: "sparing_server path_filled filling_cluster clean"
  unfolding sparing_server_def
  by (intro conjI allI; (simp add: filling_cluster_def cluster_env_def; rule store_sparing; simp)?)
    (auto simp: owner_stable_def filling_cluster_def cluster_env_def quiet_env_def)

definition with_sidecar :: HermesInstance where
  "with_sidecar = demo\<lparr>hi_Spec := zero_HermesInstanceSpec\<lparr>spec_Sidecars := [empty_container\<lparr>ctr_Name := ''side''\<rparr>]\<rparr>\<rparr>"

lemma with_sidecar_simps [simp]:
  "hi_Spec with_sidecar = zero_HermesInstanceSpec\<lparr>spec_Sidecars := [empty_container\<lparr>ctr_Name := ''side''\<rparr>]\<rparr>"
  "hi_ObjectMeta with_sidecar = hi_ObjectMeta demo"
  by (simp_all add: with_sidecar_def)

lemma sidecar_maps: "maps_distinct with_sidecar"
  by (simp add: maps_distinct_def wf_meta_def BuildServiceAccount_def BuildService_def BuildIngress_def BuildHTTPRoute_def new_meta_def
      buildIngressAnnotations_def DetectIngressProvider_def provider_annotations_def Let_def zero_defs)

lemma sidecar_renders: "config_renders code_yaml with_sidecar c"
proof -
  have "render_config code_yaml with_sidecar b = render_config code_yaml demo b" for b
    by (simp add: render_config_def initial_body_def BuildGatewayConfigFragments_def zero_defs Let_def)
  moreover have "\<exists>d. BuildConfigMap code_yaml demo '''' = Inr d" by (rule plain_renders)
  ultimately have "\<exists>d. BuildConfigMap code_yaml with_sidecar '''' = Inr d"
    by (auto simp: BuildConfigMap_def split: sum.splits)
  then show ?thesis by (simp add: config_renders_def config_in_def zero_defs)
qed

lemma passes_come_to_rest_witness:
  "\<exists>(R :: (nat, cluster) reconciler) i1 w1 w2. rc_env R = filling_cluster \<and>
     run_pipeline (rc_env R) (resource_steps R) with_sidecar Map.empty = (None, i1, w1) \<and>
     later_pass R with_sidecar w1 w2 \<and> clean w2 = clean w1"
proof -
  let ?R = "demo_reconciler\<lparr>rc_env := filling_cluster\<rparr>"
  have e: "rc_env ?R = filling_cluster" "rc_yaml ?R = code_yaml" by simp_all
  have h: "api_server path_filled (rc_env ?R) clean" "healthy (rc_env ?R) with_sidecar" "sparing_server path_filled (rc_env ?R) clean"
    "ref_ids with_sidecar \<inter> managed_ids ?R with_sidecar = {}"
    unfolding e by (simp_all add: filling_api filling_healthy filling_sparing ref_ids_def zero_defs)
  have c: "config_renders (rc_yaml ?R) with_sidecar (clean w)" for w unfolding e by (rule sidecar_renders)
  obtain i1 w1 where r: "run_pipeline (rc_env ?R) (resource_steps ?R) with_sidecar Map.empty = (None, i1, w1)"
    using pass_succeeds [OF h(1,2) sidecar_maps h(4) c] by blast
  obtain i2 w2 where r2: "run_pipeline (rc_env ?R) (resource_steps ?R) with_sidecar w1 = (None, i2, w2)"
    using pass_succeeds [OF h(1,2) sidecar_maps h(4) c] by blast
  then have l: "later_pass ?R with_sidecar w1 w2" unfolding later_pass_def by (metis recond_same)
  have "clean w2 = clean w1"
    by (rule passes_come_to_rest [OF h(1,3) sidecar_maps h(4) r r_into_rtranclp [of "later_pass ?R with_sidecar", OF l]])
  with e(1) r l show ?thesis by (intro exI [of _ ?R] exI [of _ i1] exI [of _ w1] exI [of _ w2]) blast
qed

end
