(* ===== verification/Apart.thy ===== *)
theory Apart
  imports Settle
begin

text \<open>
  Several instances in one namespace. Every object an instance manages is named by the name of the
  instance and a suffix; the footprints of two instances are disjoint exactly when neither name is
  the other's with \<open>-honcho\<close>. Then their passes do not interfere; otherwise one deletes objects of
  the other, as the deletion of what a feature no longer needs does not ask whose object it is.
\<close>

definition managed_suffixes :: "(kind \<times> string) list" where
  "managed_suffixes =
     [(KSecret, ''-gateway-tokens''), (KPVC, ''-data''), (KConfigMap, ''-config''), (KConfigMap, ''-workspace''),
      (KNetworkPolicy, ''''), (KServiceAccount, ''''), (KRole, ''''), (KRoleBinding, ''''), (KService, ''''), (KPDB, ''''),
      (KHPA, ''''), (KIngress, ''''), (KUnstructured HTTPRouteGVK, ''''), (KUnstructured ServiceMonitorGVK, ''''),
      (KUnstructured PrometheusRuleGVK, ''''), (KConfigMap, ''-dashboard-operator''), (KConfigMap, ''-dashboard-instance''),
      (KStatefulSet, ''''), (KPVC, ''-honcho-data''), (KService, ''-honcho''), (KDeployment, ''-honcho''),
      (KNetworkPolicy, ''-honcho'')]"

lemma managed_by_suffix:
  "managed_ids R inst = (\<lambda>(k, s). (k, (inst_ns inst, inst_name inst @ s))) ` set managed_suffixes"
  by (auto simp: managed_ids_def goals_def Let_def rbac_ids_def dashboard_ids_def honcho_ids_def managed_suffixes_def name_defs
      GrafanaDashboardOperatorName_def GrafanaDashboardInstanceName_def)

text \<open>A name with one of the suffixes tells the rest of the name, but for the suffixes of Honcho.\<close>

definition twins :: "string \<Rightarrow> string \<Rightarrow> bool" where
  "twins a b \<longleftrightarrow> b = a @ ''-honcho''"

lemma twins_rev: "twins a b \<longleftrightarrow> rev b = rev ''-honcho'' @ rev a"
  unfolding twins_def by (metis rev_append rev_rev_ident)

lemma suffixed_names:
  assumes "(k, s) \<in> set managed_suffixes" and "(k, t) \<in> set managed_suffixes" and "a @ s = b @ t"
  shows "a = b \<or> twins a b \<or> twins b a"
proof -
  have "rev s @ rev a = rev t @ rev b" using arg_cong [OF assms(3), of rev] by simp
  then show ?thesis
    using assms(1,2) unfolding twins_rev
    by (auto simp: managed_suffixes_def HTTPRouteGVK_def ServiceMonitorGVK_def PrometheusRuleGVK_def dest: sym)
qed

lemma tagged_images_apart:
  "(\<lambda>(k, s). (k, f s)) ` M \<inter> (\<lambda>(k, s). (k, g s)) ` M = {} \<longleftrightarrow> (\<forall>k s t. (k, s) \<in> M \<longrightarrow> (k, t) \<in> M \<longrightarrow> f s \<noteq> g t)"
  by (fastforce simp: disjoint_iff)

lemma footprints_apart:
  "managed_ids R a \<inter> managed_ids R b = {} \<longleftrightarrow>
   (\<forall>k s t. (k, s) \<in> set managed_suffixes \<longrightarrow> (k, t) \<in> set managed_suffixes \<longrightarrow>
      (inst_ns a, inst_name a @ s) \<noteq> (inst_ns b, inst_name b @ t))"
  unfolding managed_by_suffix by (rule tagged_images_apart)

definition apart_names :: "HermesInstance \<Rightarrow> HermesInstance \<Rightarrow> bool" where
  "apart_names a b \<longleftrightarrow>
     inst_ns a \<noteq> inst_ns b \<or> inst_name a \<noteq> inst_name b \<and> \<not> twins (inst_name a) (inst_name b) \<and> \<not> twins (inst_name b) (inst_name a)"

lemma footprints_meet: "managed_ids R a \<inter> managed_ids R b = {} \<longleftrightarrow> apart_names a b"
  unfolding apart_names_def
proof
  assume "managed_ids R a \<inter> managed_ids R b = {}"
  then have apart: "inst_ns a = inst_ns b \<Longrightarrow> inst_name a @ s \<noteq> inst_name b @ t"
    if "(KService, s) \<in> set managed_suffixes" "(KService, t) \<in> set managed_suffixes" for s t
    using that unfolding footprints_apart by blast
  have m: "(KService, '''') \<in> set managed_suffixes" "(KService, ''-honcho'') \<in> set managed_suffixes" by (simp_all add: managed_suffixes_def)
  show "inst_ns a \<noteq> inst_ns b \<or> inst_name a \<noteq> inst_name b \<and> \<not> twins (inst_name a) (inst_name b) \<and> \<not> twins (inst_name b) (inst_name a)"
    using apart [OF m(1,1)] apart [OF m(2,1)] apart [OF m(1,2)] unfolding twins_def by auto
next
  assume "inst_ns a \<noteq> inst_ns b \<or> inst_name a \<noteq> inst_name b \<and> \<not> twins (inst_name a) (inst_name b) \<and> \<not> twins (inst_name b) (inst_name a)"
  then have "(inst_ns a, inst_name a @ s) \<noteq> (inst_ns b, inst_name b @ t)"
    if "(k, s) \<in> set managed_suffixes" "(k, t) \<in> set managed_suffixes" for k s t
    using suffixed_names [OF that, of "inst_name a" "inst_name b"] by blast
  then show "managed_ids R a \<inter> managed_ids R b = {}" unfolding footprints_apart by blast
qed

text \<open>The desired state of an instance depends on the objects it manages only.\<close>

lemma desired_goals: "desired_state N R inst c \<longleftrightarrow> (\<forall>g \<in> set (goals N R inst). goal_met c g)"
  by (auto simp: desired_state_def goals_def Let_def simp del: BoolValue_simps(3))

lemma desired_local:
  assumes "api_server N (rc_env R) look" and "maps_distinct inst" and "\<forall>x \<in> managed_ids R inst. c' x = c x" and "desired_state N R inst c"
  shows "desired_state N R inst c'"
  unfolding desired_goals
proof
  fix g assume g: "g \<in> set (goals N R inst)"
  obtain n cd a S P where gs: "g = (n, cd, a, S, P)" by (cases g)
  have "goal_met c g" using assms(4) g unfolding desired_goals by blast
  moreover have "local_to S P" using goals_ok [OF assms(1,2)] g by (force simp: gs)
  moreover have "S \<subseteq> managed_ids R inst" using g by (force simp: managed_goals [of R inst N] gs area_of_def)
  ultimately show "goal_met c' g" using assms(3) unfolding local_to_def gs goal_simps by blast
qed

text \<open>
  C6. Instances do not interfere. Two instances manage disjoint objects exactly when they are in
  different namespaces or have different names of which neither is the other with \<open>-honcho\<close>; and then
  a pass of one leaves the other in its desired state.
\<close>

theorem instances_do_not_interfere:
  assumes "api_server N (rc_env R) look" and "maps_distinct a" and "maps_distinct b"
    and "run_pipeline (rc_env R) (resource_steps R) a w = (None, a', w')" and "desired_state N R b (look w)"
  shows "(managed_ids R a \<inter> managed_ids R b = {} \<longleftrightarrow> apart_names a b) \<and> (apart_names a b \<longrightarrow> desired_state N R b (look w'))"
proof (intro conjI impI)
  show "managed_ids R a \<inter> managed_ids R b = {} \<longleftrightarrow> apart_names a b" by (rule footprints_meet)
  assume "apart_names a b"
  then have "\<forall>x \<in> managed_ids R b. look w' x = look w x"
    using pass_goals(2) [OF assms(1,2,4)] footprints_meet [of R a b] unfolding only_at_def by blast
  from desired_local [OF assms(1,3) this assms(5)] show "desired_state N R b (look w')" .
qed

lemma instances_do_not_interfere_witness:
  "\<exists>a' w w'. run_pipeline (rc_env demo_reconciler) (resource_steps demo_reconciler) (plain ''left'') w = (None, a', w') \<and>
     desired_state exact demo_reconciler (plain ''right'') (clean w')"
proof -
  have api: "api_server exact (rc_env demo_reconciler) clean" by (simp add: cluster_api)
  obtain b' w where b: "run_pipeline (rc_env demo_reconciler) (resource_steps demo_reconciler) (plain ''right'') Map.empty = (None, b', w)"
    unfolding demo_reconciler_simps using plain_succeeds by blast
  obtain a' w' where a: "run_pipeline (rc_env demo_reconciler) (resource_steps demo_reconciler) (plain ''left'') w = (None, a', w')"
    unfolding demo_reconciler_simps using plain_succeeds by blast
  have "apart_names (plain ''left'') (plain ''right'')" by (simp add: apart_names_def twins_def)
  with instances_do_not_interfere [OF api plain_maps plain_maps a pass_goals(1) [OF api plain_maps b]] a show ?thesis by blast
qed

text \<open>
  A pass of an instance without a profile store deletes the Service and the NetworkPolicy of its
  neighbour, if that is named like it with \<open>-honcho\<close>: the neighbour's pods are unreachable and its
  network is open until its own next pass.
\<close>

theorem twin_loses_isolation:
  assumes "api_server N (rc_env R) look" and "maps_distinct a"
    and "run_pipeline (rc_env R) (resource_steps R) a w = (None, a', w')"
    and "\<not> honchoEnabled a" and "inst_ns b = inst_ns a" and "inst_name b = inst_name a @ ''-honcho''"
  shows "look w' (KService, (inst_ns b, ServiceName b)) = None \<and> look w' (KNetworkPolicy, (inst_ns b, NetworkPolicyName b)) = None"
proof -
  have "honcho_reached N a (look w')" using pass_goals(1) [OF assms(1-3)] by (simp add: desired_state_def)
  then show ?thesis using assms(4-6) by (simp add: honcho_reached_def there_iff_def name_defs)
qed

text \<open>The neighbour has just been reconciled, and its Service is there.\<close>

lemma twin_loses_isolation_witness:
  "\<exists>a' w w'. run_pipeline (rc_env demo_reconciler) (resource_steps demo_reconciler) (plain ''bot'') w = (None, a', w') \<and>
     clean w (KService, (''prod'', ''bot-honcho'')) \<noteq> None \<and> clean w' (KService, (''prod'', ''bot-honcho'')) = None"
proof -
  have api: "api_server exact (rc_env demo_reconciler) clean" by (simp add: cluster_api)
  obtain b' w where b: "run_pipeline (rc_env demo_reconciler) (resource_steps demo_reconciler) (plain ''bot-honcho'') Map.empty = (None, b', w)"
    unfolding demo_reconciler_simps using plain_succeeds by blast
  have "service_reached exact (plain ''bot-honcho'') (clean w)" using pass_goals(1) [OF api plain_maps b] by (simp add: desired_state_def)
  then have s: "clean w (KService, (''prod'', ''bot-honcho'')) \<noteq> None" by (auto simp: service_reached_def conforms_def name_defs)
  obtain a' w' where a: "run_pipeline (rc_env demo_reconciler) (resource_steps demo_reconciler) (plain ''bot'') w = (None, a', w')"
    unfolding demo_reconciler_simps using plain_succeeds by blast
  have "\<not> honchoEnabled (plain ''bot'')" by (simp add: honchoEnabled_def zero_defs)
  from twin_loses_isolation [OF api plain_maps a this, of "plain ''bot-honcho''"] a s show ?thesis by (auto simp: name_defs)
qed

end
