(* ===== verification/Shelter.thy ===== *)
theory Shelter
  imports Settle Frame
begin

text \<open>
  An object that another controller owns, through every outcome of a pass: success, the error of a
  step, a panic. A server changes a stored object in \<open>CreateOrUpdate\<close> only when the callback accepts
  it, and the callbacks end with \<open>SetControllerReference\<close>, which refuses it. \<open>safe\<close> says that the
  object is as it was, or that it bears the name of something the instance does not want and is gone;
  the sections show that every step keeps it, with the rules of theory \<open>Frame\<close>. Theory \<open>Owner\<close> states
  the property of a pass.
\<close>

section \<open>The server\<close>

text \<open>
  \<open>theirs owner refs\<close>: a controller reference among \<open>refs\<close> is not to the object with the metadata
  \<open>owner\<close>. \<open>SetControllerReference\<close> then answers an error.
\<close>

definition refuses_others :: "(ObjectMeta \<Rightarrow> json list \<Rightarrow> bool) \<Rightarrow> 'w env \<Rightarrow> bool" where
  "refuses_others theirs E \<longleftrightarrow>
     (\<forall>i m. theirs (hi_ObjectMeta i) (om_OwnerReferences m) \<longrightarrow> (\<exists>e. env_set_owner E i m = Inl e))"

text \<open>
  Whatever a call answers: a read changes nothing and gives the object it was asked for; a deletion
  changes nothing or removes that object; \<open>CreateOrUpdate\<close> with a callback that does not write on its
  own changes at most the object it was called for, and that one, if it is there, only with a version
  of it that the callback has accepted; a creation changes at most the object it was called for, and
  that one only if it is not there.
\<close>

definition shelters :: "('o, 'w) kind_client \<Rightarrow> kind \<Rightarrow> ('o \<Rightarrow> api_object) \<Rightarrow> ('o \<Rightarrow> ObjectMeta) \<Rightarrow> ('w \<Rightarrow> cluster) \<Rightarrow> bool" where
  "shelters kc k tag meta look \<longleftrightarrow>
     (\<forall>key w r w'. kc_get kc key w = (r, w') \<longrightarrow> look w' = look w \<and> (\<forall>x. r = Inr x \<longrightarrow> object_key (meta x) = key)) \<and>
     (\<forall>x w r w' i. kc_delete kc x w = (r, w') \<longrightarrow>
        look w' i = look w i \<or> i = (k, object_key (meta x)) \<and> look w' i = None) \<and>
     (\<forall>x f w r w' i. (\<forall>c v. look (snd (f c v)) = look v) \<longrightarrow> kc_create_or_update kc x f w = (r, w') \<longrightarrow>
        look w' i = look w i \<or>
        i = (k, object_key (meta x)) \<and> (\<forall>o1. look w i = Some o1 \<longrightarrow> (\<exists>c v y v'. o1 = tag c \<and> f c v = (Inr y, v'))))"

definition creates_fresh :: "('o, 'w) kind_client \<Rightarrow> kind \<Rightarrow> ('o \<Rightarrow> ObjectMeta) \<Rightarrow> ('w \<Rightarrow> cluster) \<Rightarrow> bool" where
  "creates_fresh kc k meta look \<longleftrightarrow>
     (\<forall>x w r w' i. kc_create kc x w = (r, w') \<longrightarrow>
        look w' i = look w i \<or> i = (k, object_key (meta x)) \<and> look w i = None)"

text \<open>Instances are not among the objects seen; the random source and the Semaphore server are outside the cluster.\<close>

definition orderly_server :: "('v, 'w) reconciler \<Rightarrow> ('w \<Rightarrow> cluster) \<Rightarrow> bool" where
  "orderly_server R look \<longleftrightarrow>
     (let E = rc_env R in
      shelters (env_secrets E) KSecret ObjSecret sec_Meta look \<and> creates_fresh (env_secrets E) KSecret sec_Meta look \<and>
      shelters (env_pvcs E) KPVC ObjPVC pvc_Meta look \<and> creates_fresh (env_pvcs E) KPVC pvc_Meta look \<and>
      shelters (env_configmaps E) KConfigMap ObjConfigMap cm_Meta look \<and>
      shelters (env_serviceaccounts E) KServiceAccount ObjServiceAccount sa_Meta look \<and>
      shelters (env_roles E) KRole ObjRole role_Meta look \<and>
      shelters (env_rolebindings E) KRoleBinding ObjRoleBinding rb_Meta look \<and>
      shelters (env_services E) KService ObjService svc_Meta look \<and>
      shelters (env_netpols E) KNetworkPolicy ObjNetworkPolicy np_Meta look \<and>
      shelters (env_pdbs E) KPDB ObjPDB pdb_Meta look \<and> shelters (env_hpas E) KHPA ObjHPA hpa_Meta look \<and>
      shelters (env_ingresses E) KIngress ObjIngress ing_Meta look \<and>
      (\<forall>g. shelters (env_unstructured E g) (KUnstructured g) ObjUnstructured un_Meta look) \<and>
      shelters (env_statefulsets E) KStatefulSet ObjStatefulSet sts_Meta look \<and>
      shelters (env_deployments E) KDeployment ObjDeployment dep_Meta look \<and>
      (\<forall>i w. look (snd (kc_status_update (env_instances E) i w)) = look w) \<and>
      (\<forall>o1 i w. look (snd (kc_patch (env_instances E) o1 i w)) = look w) \<and>
      (\<forall>w. look (snd (env_random E w)) = look w) \<and> (\<forall>r w. look (snd (ht_do (rc_http R) r w)) = look w))"

lemma orderly_shelters:
  assumes "orderly_server R look"
  shows "shelters (env_secrets (rc_env R)) KSecret ObjSecret sec_Meta look" and "creates_fresh (env_secrets (rc_env R)) KSecret sec_Meta look"
    and "shelters (env_pvcs (rc_env R)) KPVC ObjPVC pvc_Meta look" and "creates_fresh (env_pvcs (rc_env R)) KPVC pvc_Meta look"
    and "shelters (env_configmaps (rc_env R)) KConfigMap ObjConfigMap cm_Meta look"
    and "shelters (env_serviceaccounts (rc_env R)) KServiceAccount ObjServiceAccount sa_Meta look"
    and "shelters (env_roles (rc_env R)) KRole ObjRole role_Meta look"
    and "shelters (env_rolebindings (rc_env R)) KRoleBinding ObjRoleBinding rb_Meta look"
    and "shelters (env_services (rc_env R)) KService ObjService svc_Meta look"
    and "shelters (env_netpols (rc_env R)) KNetworkPolicy ObjNetworkPolicy np_Meta look"
    and "shelters (env_pdbs (rc_env R)) KPDB ObjPDB pdb_Meta look" and "shelters (env_hpas (rc_env R)) KHPA ObjHPA hpa_Meta look"
    and "shelters (env_ingresses (rc_env R)) KIngress ObjIngress ing_Meta look"
    and "shelters (env_unstructured (rc_env R) g) (KUnstructured g) ObjUnstructured un_Meta look"
    and "shelters (env_statefulsets (rc_env R)) KStatefulSet ObjStatefulSet sts_Meta look"
    and "shelters (env_deployments (rc_env R)) KDeployment ObjDeployment dep_Meta look"
  using assms by (simp_all add: orderly_server_def Let_def)

lemma orderly_outside:
  assumes "orderly_server R look"
  shows "look (snd (kc_status_update (env_instances (rc_env R)) i w)) = look w"
    and "look (snd (kc_patch (env_instances (rc_env R)) o1 i w)) = look w"
    and "look (snd (env_random (rc_env R) w)) = look w" and "look (snd (ht_do (rc_http R) r w)) = look w"
  using assms by (simp_all add: orderly_server_def Let_def)

section \<open>Operations that keep the object safe\<close>

definition safe :: "('w \<Rightarrow> cluster) \<Rightarrow> object_id set \<Rightarrow> object_id \<Rightarrow> api_object \<Rightarrow> 'w \<Rightarrow> bool" where
  "safe look D i x w \<longleftrightarrow> look w i = Some x \<or> i \<in> D \<and> look w i = None"

lemma safe_look: "look w' = look w \<Longrightarrow> safe look D i x w' = safe look D i x w"
  by (simp add: safe_def)

lemma steady_look: "(\<And>w. look (snd (f w)) = look w) \<Longrightarrow> steady (safe look D i x) f"
  by (simp add: steady_def safe_def)

lemma safe_get: "shelters kc k tag meta look \<Longrightarrow> steady (safe look D i x) (kc_get kc key)"
  unfolding shelters_def by (rule steady_look) (metis surjective_pairing)

lemma safe_create:
  assumes "creates_fresh kc k meta look" and "k \<notin> fst ` D"
  shows "steady (safe look D i x) (kc_create kc o1)"
proof (rule steadyI)
  fix w r w' assume s: "safe look D i x w" and c: "kc_create kc o1 w = (r, w')"
  from assms(1) c have "look w' i = look w i \<or> i = (k, object_key (meta o1)) \<and> look w i = None"
    unfolding creates_fresh_def by blast
  moreover have "(k, object_key (meta o1)) \<notin> D" using assms(2) by force
  ultimately show "safe look D i x w'" using s by (auto simp: safe_def)
qed

text \<open>A deletion by name, of an object the instance does not want.\<close>

lemma safe_delete:
  assumes "shelters kc k tag meta look" and "i = (k, key) \<Longrightarrow> i \<in> D"
  shows "steady (safe look D i x) (deleteIfExists kc key)"
proof (rule steadyI)
  fix w r w' assume s: "safe look D i x w" and run: "deleteIfExists kc key w = (r, w')"
  have g: "look v' = look v \<and> (\<forall>y. z = Inr y \<longrightarrow> object_key (meta y) = key)" if "kc_get kc key v = (z, v')" for v z v'
    using assms(1) that unfolding shelters_def by blast
  have d: "look v' i = look v i \<or> i = (k, object_key (meta y)) \<and> look v' i = None" if "kc_delete kc y v = (z, v')" for y v z v'
    using assms(1) that unfolding shelters_def by blast
  have "look w' i = look w i \<or> i = (k, key) \<and> look w' i = None"
    using run by (auto simp: deleteIfExists_def split: prod.splits sum.splits option.splits if_splits dest!: g d)
  then show "safe look D i x w'" using s assms(2) by (auto simp: safe_def)
qed

lemma safe_update:
  assumes "shelters kc k tag meta look" and "\<And>c v. look (snd (f c v)) = look v" and "(k, object_key (meta o1)) \<notin> D"
    and "\<And>c v y v'. x = tag c \<Longrightarrow> f c v \<noteq> (Inr y, v')"
  shows "steady (safe look D i x) (kc_create_or_update kc o1 f)"
proof (rule steadyI)
  fix w r w' assume s: "safe look D i x w" and run: "kc_create_or_update kc o1 f w = (r, w')"
  have "look w' i = look w i \<or> i = (k, object_key (meta o1)) \<and>
      (\<forall>z. look w i = Some z \<longrightarrow> (\<exists>c v y v'. z = tag c \<and> f c v = (Inr y, v')))"
    using assms(1) run assms(2) unfolding shelters_def by blast
  then show "safe look D i x w'" using s assms(3,4) by (auto simp: safe_def)
qed

context owned_object
begin

lemma callback_safe:
  assumes "shelters kc k tag meta look" and "refuses_others theirs E"
    and "theirs (hi_ObjectMeta j) (om_OwnerReferences (meta_of x))" and "\<And>y. meta_of (tag y) = meta y"
    and "(k, object_key (meta o1)) \<notin> U"
  shows "steady (safe look U i x) (kc_create_or_update kc o1 (callback E j))"
proof (rule safe_update [OF assms(1) _ assms(5)])
  show "look (snd (callback E j c v)) = look v" for c v by (simp add: callback_put split: sum.split)
  fix c v y v' assume "x = tag c"
  then have "theirs (hi_ObjectMeta j) (om_OwnerReferences (merged_meta annotate (wanted j) (meta c)))"
    using assms(3,4) by simp
  then obtain e where "env_set_owner E j (merged_meta annotate (wanted j) (meta c)) = Inl e"
    using assms(2) unfolding refuses_others_def by blast
  then show "callback E j c v \<noteq> (Inr y, v')" by (simp add: callback_put)
qed

end


section \<open>The steps\<close>

text \<open>
  The names of what an instance does not want: a pass deletes what it finds there. The dashboards
  come as two, and so does what the profile store leaves behind.
\<close>

definition unwanted_ids :: "HermesInstance \<Rightarrow> object_id set" where
  "unwanted_ids inst =
     (if netpol_enabled inst then {} else {(KNetworkPolicy, (inst_ns inst, NetworkPolicyName inst))}) \<union>
     (if BoolValue (pdbs_Enabled (avail_PodDisruptionBudget (spec_Availability (hi_Spec inst)))) then {}
      else {(KPDB, (inst_ns inst, PDBName inst))}) \<union>
     (if IsHPAEnabled inst then {} else {(KHPA, (inst_ns inst, HPAName inst))}) \<union>
     (if BoolValue (ingr_Enabled (nw_Ingress (spec_Networking (hi_Spec inst)))) then {}
      else {(KIngress, (inst_ns inst, IngressName inst))}) \<union>
     (if GrafanaDashboardEnabled inst then {}
      else {(KConfigMap, (inst_ns inst, GrafanaDashboardOperatorName inst)), (KConfigMap, (inst_ns inst, GrafanaDashboardInstanceName inst))}) \<union>
     (if honchoEnabled inst then {}
      else {(KService, (inst_ns inst, HonchoServiceName inst)), (KDeployment, (inst_ns inst, HonchoDeploymentName inst))}) \<union>
     (if honchoEnabled inst \<and> netpol_enabled inst then {} else {(KNetworkPolicy, (inst_ns inst, HonchoDeploymentName inst))})"

lemma unwanted_kinds:
  "KSecret \<notin> fst ` unwanted_ids inst" "KPVC \<notin> fst ` unwanted_ids inst" "(KServiceAccount, n) \<notin> unwanted_ids inst"
  "(KRole, n) \<notin> unwanted_ids inst" "(KRoleBinding, n) \<notin> unwanted_ids inst" "(KStatefulSet, n) \<notin> unwanted_ids inst"
  "(KUnstructured g, n) \<notin> unwanted_ids inst" "(KSecret, n) \<notin> unwanted_ids inst"
  by (auto simp: unwanted_ids_def split: if_splits)

lemma unwanted_recond [simp]: "unwanted_ids (recond cs inst) = unwanted_ids inst"
  by (simp only: unwanted_ids_def recond_builders recond_simps)

text \<open>The object, its owner and the server are fixed for the rest.\<close>

definition foreign_object :: "('v, 'w) reconciler \<Rightarrow> ('w \<Rightarrow> cluster) \<Rightarrow> HermesInstance \<Rightarrow> object_id \<Rightarrow> api_object \<Rightarrow> bool" where
  "foreign_object R look inst i x \<longleftrightarrow>
     orderly_server R look \<and> i \<notin> {j. \<exists>g. fst j = KUnstructured g} \<and>
     (\<exists>theirs. refuses_others theirs (rc_env R) \<and> theirs (hi_ObjectMeta inst) (om_OwnerReferences (meta_of x)))"

lemma single_steps_safe:
  assumes f: "foreign_object R look inst i x"
  shows "steady (safe look (unwanted_ids inst) i x) (reconcileWorkspaceConfigMap (rc_env R) inst)" (is ?workspace)
    and "steady (safe look (unwanted_ids inst) i x) (reconcileNetworkPolicy (rc_env R) inst)" (is ?netpol)
    and "steady (safe look (unwanted_ids inst) i x) (reconcileService (rc_env R) inst)" (is ?service)
    and "steady (safe look (unwanted_ids inst) i x) (reconcilePDB (rc_env R) inst)" (is ?pdb)
    and "steady (safe look (unwanted_ids inst) i x) (reconcileHPA (rc_env R) inst)" (is ?hpa)
    and "steady (safe look (unwanted_ids inst) i x) (reconcileIngress (rc_env R) inst)" (is ?ingress)
    and "steady (safe look (unwanted_ids inst) i x) (reconcileStatefulSet mg (rc_env R) inst)" (is ?statefulset)
    and "steady (safe look (unwanted_ids inst) i x) (reconcileRBAC (rc_env R) inst)" (is ?rbac)
    and "steady (safe look (unwanted_ids inst) i x) (reconcileGrafanaDashboards (rc_env R) inst)" (is ?dashboards)
    and "steady (safe look (unwanted_ids inst) i x) (reconcileConfigMap yl (rc_env R) inst)" (is ?config)
proof -
  obtain theirs where t: "refuses_others theirs (rc_env R)" "theirs (hi_ObjectMeta inst) (om_OwnerReferences (meta_of x))"
    and o: "orderly_server R look" using f unfolding foreign_object_def by blast
  note s = orderly_shelters [OF o]
  let ?I = "safe look (unwanted_ids inst) i x"
  have cb: "mutate_workspace E inst = put_configmap E inst (BuildWorkspaceConfigMap inst)" for E :: "'w env" by (simp add: fun_eq_iff mutate_workspace_def)
  have n: "object_key (new_meta a b) = (b, a)" for a b by (simp add: object_key_def new_meta_def)
  have cm: "steady ?I (kc_create_or_update (env_configmaps (rc_env R)) (empty_configmap m (inst_ns inst)) (put_configmap (rc_env R) inst d))"
    if "(KConfigMap, (inst_ns inst, m)) \<notin> unwanted_ids inst" for m d
    by (rule ocm.callback_safe [OF s(5) t, where D = "\<lambda>_. d"]) (use that in \<open>simp_all add: empty_configmap_def n\<close>)
  have cms: "(KConfigMap, (inst_ns inst, WorkspaceConfigMapName inst)) \<notin> unwanted_ids inst"
    "(KConfigMap, (inst_ns inst, ConfigMapName inst)) \<notin> unwanted_ids inst"
    by (simp_all add: unwanted_ids_def name_defs GrafanaDashboardOperatorName_def GrafanaDashboardInstanceName_def)
  show ?workspace unfolding reconcileWorkspaceConfigMap_def cb by (rule cm [OF cms(1)])
  show ?netpol
    unfolding reconcileNetworkPolicy_def
    by (intro steady_if safe_delete [OF s(10)] onp.callback_safe [OF s(10) t])
      (auto simp: unwanted_ids_def empty_netpol_def n name_defs)
  show ?service
    unfolding reconcileService_def
    by (rule osvc.callback_safe [OF s(9) t]) (auto simp: unwanted_ids_def empty_service_def n name_defs)
  show ?pdb
    unfolding reconcilePDB_def
    by (intro steady_if safe_delete [OF s(11)] opdb.callback_safe [OF s(11) t]) (auto simp: unwanted_ids_def n)
  show ?hpa
    unfolding reconcileHPA_def
    by (intro steady_if safe_delete [OF s(12)] ohpa.callback_safe [OF s(12) t]) (auto simp: unwanted_ids_def n)
  show ?ingress
    unfolding reconcileIngress_def
    by (intro steady_if safe_delete [OF s(13)] oing.callback_safe [OF s(13) t]) (auto simp: unwanted_ids_def n)
  show ?statefulset
    unfolding reconcileStatefulSet_def by (rule osts.callback_safe [OF s(15) t]) (simp_all add: unwanted_kinds)
  show ?rbac
    unfolding reconcileRBAC_def
    by (intro steady_if steady_return steady_and_then steady_labelled osa.callback_safe [OF s(6) t]
        orole.callback_safe [OF s(7) t] orb.callback_safe [OF s(8) t]) (simp_all add: unwanted_kinds)
  have dash: "steady ?I (apply_dashboard (rc_env R) inst d)"
    if "GrafanaDashboardEnabled inst" "(om_Namespace (cm_Meta d), om_Name (cm_Meta d)) \<in> {(inst_ns inst, GrafanaDashboardOperatorName inst), (inst_ns inst, GrafanaDashboardInstanceName inst)}" for d
    unfolding apply_dashboard_def
    by (rule odash.callback_safe [OF s(5) t, where D = "\<lambda>_. d"]) (use that in \<open>auto simp: unwanted_ids_def empty_configmap_def n\<close>)
  show ?dashboards
    unfolding reconcileGrafanaDashboards_def
    by (intro steady_if steady_and_then safe_delete [OF s(5)] dash) (auto simp: unwanted_ids_def dashboard_names)
  have r: "look w' = look w" if "resolveConfigBody yl (rc_env R) inst w = (z, w')" for w z w'
    using that s(5) unfolding shelters_def
    by (auto simp: resolveConfigBody_def Let_def split: option.splits prod.splits sum.splits if_splits)
  have m: "steady ?I (kc_create_or_update (env_configmaps (rc_env R)) (empty_configmap (ConfigMapName inst) (inst_ns inst)) (mutate_configmap yl (rc_env R) inst body))" for body
  proof (cases "BuildConfigMap yl inst body")
    case (Inl e)
    show ?thesis by (rule safe_update [OF s(5)]) (use cms(2) in \<open>simp_all add: mutate_configmap_def Inl empty_configmap_def n\<close>)
  next
    case (Inr d)
    have "mutate_configmap yl (rc_env R) inst body = put_configmap (rc_env R) inst d" by (simp add: fun_eq_iff mutate_configmap_def Inr)
    then show ?thesis using cm [OF cms(2)] by simp
  qed
  show ?config
    by (rule steadyI) (auto simp: reconcileConfigMap_def safe_look [OF r] split: prod.splits sum.splits dest: r intro: steadyD [OF m])
qed


lemma claims_safe:
  assumes f: "foreign_object R look inst i x"
  shows "steady (safe look (unwanted_ids inst) i x) (reconcilePVC (rc_env R) inst)"
    and "steady (safe look (unwanted_ids inst) i x) (honcho_pvc (rc_env R) inst)"
proof -
  note s = orderly_shelters(3,4) [of R look]
  have o: "orderly_server R look" using f unfolding foreign_object_def by blast
  let ?I = "safe look (unwanted_ids inst) i x"
  have c: "steady ?I (create_owned_pvc (rc_env R) inst l1 l2 d)" for l1 l2 d
    by (rule steadyI) (auto simp: create_owned_pvc_def split: prod.splits sum.splits option.splits if_splits
        dest: steadyD [OF safe_create [OF s(2) [OF o] unwanted_kinds(2)]])
  note g = safe_get [OF s(1) [OF o]]
  show "steady ?I (reconcilePVC (rc_env R) inst)" and "steady ?I (honcho_pvc (rc_env R) inst)"
    by (rule steadyI; auto simp: reconcilePVC_def honcho_pvc_def Let_def split: prod.splits sum.splits if_splits
        dest: steadyD [OF g] steadyD [OF c])+
qed

lemma secret_safe:
  assumes f: "foreign_object R look inst i x"
  shows "steady (safe look (unwanted_ids inst) i x) (reconcileSecret (rc_env R) inst)"
proof -
  obtain theirs where t: "refuses_others theirs (rc_env R)" "theirs (hi_ObjectMeta inst) (om_OwnerReferences (meta_of x))"
    and o: "orderly_server R look" using f unfolding foreign_object_def by blast
  let ?d = "sec_Meta (BuildGatewayTokenSecret inst)"
  have r: "look (snd (env_random (rc_env R) w)) = look w" for w by (rule orderly_outside(3) [OF o])
  have key: "look w' = look w" if "GenerateAPIServerKey (rc_env R) w = (z, w')" for w z w'
    using that r [of w] by (auto simp: GenerateAPIServerKey_def split: prod.splits sum.splits)
  have own: "w' = w" if "own (rc_env R) inst sec_Meta sec_Meta_update c w = (z, w')" for c w z w'
    using that by (auto simp: own_def split: sum.splits)
  have l: "look v' = look v" if "mutate_secret (rc_env R) inst c v = (z, v')" for c v z v'
    using that by (auto simp: mutate_secret_def Let_def split: if_splits prod.splits sum.splits dest: key own)
  have no: "mutate_secret (rc_env R) inst c v \<noteq> (Inr y, v')" if x: "x = ObjSecret c" for c v y v'
  proof -
    have "theirs (hi_ObjectMeta inst) (om_OwnerReferences (merge_annotations ?d (merge_labels ?d (sec_Meta c))))"
      using t(2) x by (simp add: merge_annotations_def merge_labels_def)
    then obtain e where "env_set_owner (rc_env R) inst (merge_annotations ?d (merge_labels ?d (sec_Meta c))) = Inl e"
      using t(1) unfolding refuses_others_def by blast
    then show ?thesis by (auto simp: mutate_secret_def own_def Let_def split: prod.splits sum.splits)
  qed
  show ?thesis
    unfolding reconcileSecret_def
  proof (rule safe_update [OF orderly_shelters(1) [OF o]])
    show "look (snd (mutate_secret (rc_env R) inst c v)) = look v" for c v using l by (metis surjective_pairing)
  qed (simp_all add: unwanted_kinds no)
qed

lemma unstructured_safe:
  assumes f: "foreign_object R look inst i x"
  shows "steady (safe look (unwanted_ids inst) i x) (reconcileHTTPRoute (rc_env R) inst)"
    and "steady (safe look (unwanted_ids inst) i x) (reconcileServiceMonitor crds (rc_env R) inst)"
    and "steady (safe look (unwanted_ids inst) i x) (reconcilePrometheusRule crds (rc_env R) inst)"
proof -
  have o: "orderly_server R look" and i: "\<And>g. fst i \<noteq> KUnstructured g" using f unfolding foreign_object_def by blast+
  let ?I = "safe look (unwanted_ids inst) i x"
  have d: "steady ?I (deleteIfExists (env_unstructured (rc_env R) g) key)" for g key
    by (rule safe_delete [OF orderly_shelters(14) [OF o]]) (use i in auto)
  have u: "steady ?I (kc_create_or_update (env_unstructured (rc_env R) g) c (mutate_unstructured a d'))" for g c a d'
  proof (rule steadyI)
    fix w r w' assume s: "?I w" and run: "kc_create_or_update (env_unstructured (rc_env R) g) c (mutate_unstructured a d') w = (r, w')"
    have "\<forall>c v. look (snd (mutate_unstructured a d' c v)) = look v" by (simp add: mutate_unstructured_def Let_def)
    then have "look w' i = look w i" using orderly_shelters(14) [OF o, of g] run i unfolding shelters_def by (metis fst_conv)
    then show "?I w'" using s by (simp add: safe_def)
  qed
  have a: "steady ?I (apply_unstructured (rc_env R) inst b d')" for b d'
    by (rule steadyI) (auto simp: apply_unstructured_def split: sum.splits dest: steadyD [OF u])
  show "steady ?I (reconcileHTTPRoute (rc_env R) inst)"
    by (rule steadyI)
      (auto simp: reconcileHTTPRoute_def split: prod.splits option.splits if_splits dest: steadyD [OF a] steadyD [OF d])
  show "steady ?I (reconcileServiceMonitor crds (rc_env R) inst)" and "steady ?I (reconcilePrometheusRule crds (rc_env R) inst)"
    unfolding reconcileServiceMonitor_def reconcilePrometheusRule_def by (intro steady_if steady_return a d)+
qed

lemma honcho_safe:
  assumes f: "foreign_object R look inst i x"
  shows "steady (safe look (unwanted_ids inst) i x) (reconcileHoncho (rc_env R) inst)"
proof -
  obtain theirs where t: "refuses_others theirs (rc_env R)" "theirs (hi_ObjectMeta inst) (om_OwnerReferences (meta_of x))"
    and o: "orderly_server R look" using f unfolding foreign_object_def by blast
  note s = orderly_shelters [OF o]
  let ?I = "safe look (unwanted_ids inst) i x"
  have n: "object_key (new_meta a b) = (b, a)" for a b by (simp add: object_key_def new_meta_def)
  have svc: "steady ?I (kc_create_or_update (env_services (rc_env R)) (empty_service (HonchoServiceName inst) (inst_ns inst))
      (mutate_service (rc_env R) inst (BuildHonchoService inst)))" if "honchoEnabled inst"
    by (rule osvc.callback_safe [OF s(9) t, where D = BuildHonchoService]) (use that in \<open>auto simp: unwanted_ids_def empty_service_def n\<close>)
  have dep: "steady ?I (kc_create_or_update (env_deployments (rc_env R)) (empty_deployment (HonchoDeploymentName inst) (inst_ns inst))
      (mutate_deployment (rc_env R) inst))" if "honchoEnabled inst"
    by (rule odep.callback_safe [OF s(16) t]) (use that in \<open>auto simp: unwanted_ids_def empty_deployment_def n\<close>)
  have np: "steady ?I (kc_create_or_update (env_netpols (rc_env R)) (empty_netpol (HonchoDeploymentName inst) (inst_ns inst))
      (honcho_netpol (rc_env R) inst))" if on: "honchoEnabled inst" "netpol_enabled inst"
  proof -
    from on obtain d where "BuildHonchoNetworkPolicy inst = Some d" by (simp add: BuildHonchoNetworkPolicy_def)
    then have "honcho_netpol (rc_env R) inst = mutate_netpol (rc_env R) inst d" by (simp add: fun_eq_iff honcho_netpol_def)
    moreover have "steady ?I (kc_create_or_update (env_netpols (rc_env R)) (empty_netpol (HonchoDeploymentName inst) (inst_ns inst))
        (mutate_netpol (rc_env R) inst d))"
      by (rule onp.callback_safe [OF s(10) t, where D = "\<lambda>_. d"]) (use on in \<open>auto simp: unwanted_ids_def empty_netpol_def n\<close>)
    ultimately show ?thesis by simp
  qed
  show ?thesis
    unfolding reconcileHoncho_def Let_def
    by (intro steady_and_then steady_if steady_return steady_labelled claims_safe(2) [OF f] svc dep np
        safe_delete [OF s(9)] safe_delete [OF s(16)] safe_delete [OF s(10)]) (auto simp: unwanted_ids_def)
qed

section \<open>Semaphore\<close>

text \<open>
  The provisioning reads and creates Secrets and does nothing else in the cluster: it runs the same in
  an environment whose other clients do nothing, and that one is inert.
\<close>

definition secrets_only :: "'w env \<Rightarrow> 'w env" where
  "secrets_only E = quiet_env
     \<lparr>env_secrets := quiet_client\<lparr>kc_get := kc_get (env_secrets E), kc_create := kc_create (env_secrets E)\<rparr>\<rparr>"

lemma provision_secrets_only: "provision H (secrets_only E) = provision H E"
proof -
  have c: "kc_get (env_secrets (secrets_only E)) = kc_get (env_secrets E)" "kc_create (env_secrets (secrets_only E)) = kc_create (env_secrets E)"
    by (simp_all add: secrets_only_def)
  have 1: "admin_password (secrets_only E) = admin_password E" "create_secret (secrets_only E) = create_secret E"
    unfolding fun_eq_iff by (simp_all only: admin_password_def create_secret_def c simp_thms)
  have 2: "generate_token H (secrets_only E) = generate_token H E"
    unfolding fun_eq_iff by (simp_all only: generate_token_def 1 simp_thms)
  have 3: "ensure_token H (secrets_only E) = ensure_token H E"
    unfolding fun_eq_iff by (simp_all only: ensure_token_def 2 c simp_thms)
  show ?thesis unfolding fun_eq_iff by (simp_all only: provision_def 1 3 simp_thms)
qed

lemma quiet_inert: "inert I quiet_client"
proof -
  have "steady I (\<lambda>w. case f x w of (Inl e, w1) \<Rightarrow> (Some e, w1) | (Inr o1, w1) \<Rightarrow> (None, w1))" if "\<And>y. steady I (f y)"
    for f :: "'b \<Rightarrow> 'a \<Rightarrow> (go_error + 'b) \<times> 'a" and x
    by (rule steadyI) (auto split: prod.splits sum.splits dest: steadyD [OF that])
  then show ?thesis by (simp add: inert_def quiet_client_def steady_return)
qed

lemma secrets_only_inert:
  fixes E :: "'w env"
  assumes "\<And>k. steady I (kc_get (env_secrets E) k)" and "\<And>x. steady I (kc_create (env_secrets E) x)"
  shows "inert_env I (secrets_only E)"
proof -
  have "inert I (quiet_client\<lparr>kc_get := kc_get (env_secrets E), kc_create := kc_create (env_secrets E)\<rparr>)"
  proof -
    have "inert I (quiet_client :: (Secret, 'w) kind_client)" by (rule quiet_inert)
    then show ?thesis using assms by (simp add: inert_def)
  qed
  then show ?thesis by (simp add: inert_env_def secrets_only_def quiet_env_def quiet_inert steady_return)
qed

lemma semaphore_safe:
  assumes f: "foreign_object R look inst i x"
    and run: "reconcileSemaphore (rc_http R) (rc_env R) j w = (r, j', w')" and s: "safe look (unwanted_ids inst) i x w"
  shows "safe look (unwanted_ids inst) i x w'"
proof -
  have o: "orderly_server R look" using f unfolding foreign_object_def by blast
  let ?I = "safe look (unwanted_ids inst) i x"
  have "inert_env ?I (secrets_only (rc_env R))"
    using safe_get [OF orderly_shelters(1) [OF o]] safe_create [OF orderly_shelters(2) [OF o] unwanted_kinds(1)]
    by (rule secrets_only_inert)
  moreover have "inert_http ?I (rc_http R)"
    unfolding inert_http_def by (intro allI steady_look orderly_outside(4) [OF o])
  ultimately have p: "steady ?I (provision (rc_http R) (rc_env R) j a t)" for a t
    unfolding provision_secrets_only [of _ "rc_env R", symmetric] by (rule steady_provision(1) [rotated])
  have pt: "look v' = look v" if "kc_patch (env_instances (rc_env R)) o1 k v = (z, v')" for o1 k v z v'
    using orderly_outside(2) [OF o, of o1 k v] that by simp
  have k: "?I v \<Longrightarrow> ?I v'" if sk: "ensure_skill (rc_env R) j v = (z, j'', v')" for v z j'' v'
  proof -
    have "look v' = look v"
    proof (cases "\<exists>sk \<in> set (spec_Skills (hi_Spec j)). skill_Source sk = ''semaphore-ui''")
      case True
      then show ?thesis using sk by (simp add: ensure_skill_def)
    next
      case False
      obtain o1 e k1 where "patch_instance (rc_env R) j o1 v = (e, k1, v')"
        using sk False unfolding ensure_skill_def by (simp split: prod.splits)
      then obtain q where "kc_patch (env_instances (rc_env R)) j o1 v = (q, v')"
        unfolding patch_instance_def by (auto split: prod.splits sum.splits)
      then show ?thesis by (rule pt)
    qed
    then show "?I v \<Longrightarrow> ?I v'" by (simp add: safe_def)
  qed
  show ?thesis
  proof (cases "\<exists>a t. SemaphoreEnabled j \<and> sema_AdminTokenSecretRef (spec_Semaphore (hi_Spec j)) = Some a \<and>
      sema_TokenSecretRef (spec_Semaphore (hi_Spec j)) = Some t")
    case False
    then have "w' = w" using run unfolding reconcileSemaphore_def by (simp split: if_splits option.splits)
    then show ?thesis using s by (simp only:)
  next
    case True
    then obtain a t where at: "SemaphoreEnabled j" "sema_AdminTokenSecretRef (spec_Semaphore (hi_Spec j)) = Some a"
      "sema_TokenSecretRef (spec_Semaphore (hi_Spec j)) = Some t" by (elim exE conjE)
    obtain q v where pr: "provision (rc_http R) (rc_env R) j a t w = (q, v)" by (rule prod.exhaust)
    have sv: "?I v" by (rule steadyD [OF p pr s])
    show ?thesis
    proof (cases q)
      case (Inl e)
      then have "w' = v" using run at pr by (simp add: reconcileSemaphore_def)
      then show ?thesis using sv by (simp only:)
    next
      case (Inr u)
      then have "ensure_skill (rc_env R) j v = (r, j', w')" using run at pr by (simp add: reconcileSemaphore_def)
      from k [OF this sv] show ?thesis .
    qed
  qed
qed

section \<open>The pipeline\<close>

lemma resource_steps_safe:
  assumes f: "foreign_object R look inst i x" and "(n, c, fn) \<in> set (resource_steps R)"
    and run: "fn (recond cs inst) w = (r, j, w')" and s: "safe look (unwanted_ids inst) i x w"
  shows "j = recond cs inst \<and> safe look (unwanted_ids inst) i x w'"
proof -
  let ?i = "recond cs inst"
  have f': "foreign_object R look ?i i x" using f by (simp add: foreign_object_def)
  have t: "steady (safe look (unwanted_ids ?i) i x) reconcileTailscale" by (simp add: steady_def reconcileTailscale_def)
  have "\<forall>s \<in> set (resource_steps R). \<exists>act. snd (snd s) = reading act \<and> steady (safe look (unwanted_ids ?i) i x) (act ?i)"
    unfolding resource_steps_def Let_def list.set ball_simps snd_conv
    by (intro conjI; (rule TrueI | rule exI, rule conjI [OF refl]);
        (rule single_steps_safe [OF f'] claims_safe(1) [OF f'] secret_safe [OF f'] unstructured_safe [OF f'] honcho_safe [OF f'] t))
  then obtain act where a: "fn = reading act" and st: "steady (safe look (unwanted_ids ?i) i x) (act ?i)"
    using assms(2) by fastforce
  obtain w1 where r1: "act ?i w = (r, w1)" "j = ?i" "w' = w1"
    using run by (auto simp: a reading_def split: prod.splits)
  from steadyD [OF st r1(1)] s r1 show ?thesis by simp
qed

lemma pipeline_safe:
  assumes f: "foreign_object R look inst i x" and "set L \<subseteq> set (resource_steps R)"
    and "run_pipeline (rc_env R) (L @ [(n, c, reconcileSemaphore (rc_http R) (rc_env R))]) (recond cs inst) w = (r, j, w')"
    and "safe look (unwanted_ids inst) i x w"
  shows "safe look (unwanted_ids inst) i x w'"
  using assms(2-)
proof (induction L arbitrary: cs w)
  have o: "orderly_server R look" using f unfolding foreign_object_def by blast
  have u: "safe look (unwanted_ids inst) i x v'" if "status_update (rc_env R) k v = (z, k', v')" "safe look (unwanted_ids inst) i x v" for k v z k' v'
  proof -
    obtain q v2 where st: "kc_status_update (env_instances (rc_env R)) k v = (q, v2)" by (rule prod.exhaust)
    have "v' = v2" using that(1) by (cases q) (simp_all add: status_update_def st)
    moreover have "look v2 = look v" using orderly_outside(1) [OF o, of k v] by (simp only: st snd_conv)
    ultimately have "look v' = look v" by (simp only:)
    then show ?thesis using that(2) by (simp add: safe_def)
  qed
  {
    case Nil
    obtain err k w1 where a: "reconcileSemaphore (rc_http R) (rc_env R) (recond cs inst) w = (err, k, w1)" by (metis prod_cases3)
    from semaphore_safe [OF f a Nil.prems(3)] have k: "safe look (unwanted_ids inst) i x w1" .
    show ?case
    proof (cases err)
      case None
      then show ?thesis using Nil.prems(2) a k by simp
    next
      case (Some e)
      obtain q k2 w2 where st: "status_update (rc_env R) (setCondition (rc_env R) k c ConditionFalse ''Error'' (err_text e) w1) w1 = (q, k2, w2)"
        by (metis prod_cases3)
      have "w' = w1 \<or> w' = w2" using Nil.prems(2) a st Some by (auto split: if_splits)
      then show ?thesis using k u [OF st k] by blast
    qed
  next
    case (Cons g L)
    obtain m d fn where g: "g = (m, d, fn)" by (cases g)
    then have m: "(m, d, fn) \<in> set (resource_steps R)" using Cons.prems(1) by simp
    obtain err k w1 where a: "fn (recond cs inst) w = (err, k, w1)" by (metis prod_cases3)
    from resource_steps_safe [OF f m a Cons.prems(3)] have k: "k = recond cs inst" "safe look (unwanted_ids inst) i x w1" by simp_all
    show ?case
    proof (cases err)
      case None
      then obtain cs1 where "run_pipeline (rc_env R) (L @ [(n, c, reconcileSemaphore (rc_http R) (rc_env R))]) (recond cs1 inst) w1 = (r, j, w')"
        using Cons.prems(2) a k(1) by (auto simp: g setCondition_recond)
      from Cons.IH [OF _ this k(2)] Cons.prems(1) show ?thesis by simp
    next
      case (Some e)
      obtain q k2 w2 where st: "status_update (rc_env R) (setCondition (rc_env R) k d ConditionFalse ''Error'' (err_text e) w1) w1 = (q, k2, w2)"
        by (metis prod_cases3)
      have "w' = w1 \<or> w' = w2" using Cons.prems(2) a st Some by (auto simp: g split: if_splits)
      then show ?thesis using k(2) u [OF st k(2)] by blast
    qed
  }
qed

end
