(* ===== verification/Owner.thy ===== *)
theory Owner
  imports Apart Shelter
begin

text \<open>
  What a pass makes of the objects it finds. A successful pass leaves an object alone, deletes it, or
  merges in the labels and annotations the instance asks for and sets the owner; this is \<open>rewritten\<close>,
  proved for every step and every kind, and then for a pass. As the merge only sets the keys the
  instance asks for and removes keys of the operator, the labels and annotations of others survive.
  An object that another controller owns is never overwritten, however the pass ends: this rests on
  theory \<open>Shelter\<close>. The unstructured objects are the exception: their owners are replaced.
\<close>

section \<open>Steps that spare the objects of others\<close>

text \<open>
  What a step may have made of an object that was there: nothing, or it has merged in metadata that
  the instance asks for and, but for an unstructured object, has set the owner on the result.
  \<open>asked\<close> bounds the keys of such metadata: those of the common labels, and those that the
  specification lists for one of the objects.
\<close>

definition own_label_keys :: "HermesInstance \<Rightarrow> string set" where
  "own_label_keys inst =
     fst ` set (LabelsForInstance inst) \<union> fst ` set (HonchoLabels inst) \<union> fst ` set (dashboard_labels inst) \<union>
     fst ` set (sm_Labels (obs_ServiceMonitor (spec_Observability (hi_Spec inst))))"

definition own_annotation_keys :: "HermesInstance \<Rightarrow> string set" where
  "own_annotation_keys inst =
     {''hermes.agent/placeholder'', ''grafana_folder''} \<union>
     fst ` set (nilmap (rbac_Annotations (secy_RBAC (spec_Security (hi_Spec inst))))) \<union>
     fst ` set (om_Annotations (svc_Meta (BuildService inst))) \<union> fst ` set (buildIngressAnnotations inst) \<union>
     (case BuildHTTPRoute inst of None \<Rightarrow> {} | Some d \<Rightarrow> fst ` set (om_Annotations (un_Meta d)))"

definition asked :: "HermesInstance \<Rightarrow> ObjectMeta \<Rightarrow> bool" where
  "asked inst m \<longleftrightarrow> fst ` set (om_Labels m) \<subseteq> own_label_keys inst \<and> fst ` set (om_Annotations m) \<subseteq> own_annotation_keys inst"

definition unstructured_ids :: "object_id set" where
  "unstructured_ids = {i. \<exists>g. fst i = KUnstructured g}"

definition merges :: "'w env \<Rightarrow> HermesInstance \<Rightarrow> object_id \<Rightarrow> api_object \<Rightarrow> ObjectMeta \<Rightarrow> bool" where
  "merges E inst i x new \<longleftrightarrow>
     (\<exists>a m. asked inst m \<and> wf_meta m \<and> wf_meta (meta_of x) \<and>
        map_of (om_Labels new) = map_of (om_Labels (merged_meta a m (meta_of x))) \<and>
        map_of (om_Annotations new) = map_of (om_Annotations (merged_meta a m (meta_of x))) \<and>
        (i \<in> unstructured_ids \<or>
         (\<exists>j n. hi_ObjectMeta j = hi_ObjectMeta inst \<and> env_set_owner E j (merged_meta a m (meta_of x)) = Inr n)))"

definition rewritten :: "'w env \<Rightarrow> HermesInstance \<Rightarrow> object_id \<Rightarrow> api_object \<Rightarrow> api_object \<Rightarrow> bool" where
  "rewritten E inst i x y \<longleftrightarrow> y = x \<or> merges E inst i x (meta_of y)"

lemma rewritten_refl [simp]: "rewritten E inst i x x"
  by (simp add: rewritten_def)

text \<open>A step that makes no more of an object than \<open>R\<close> says, unless it deletes it.\<close>

definition spares :: "('w \<Rightarrow> cluster) \<Rightarrow> (object_id \<Rightarrow> api_object \<Rightarrow> api_object \<Rightarrow> bool) \<Rightarrow> object_id set \<Rightarrow> 'w act \<Rightarrow> bool" where
  "spares look R S a \<longleftrightarrow>
     (\<forall>w w' i x. a w = (None, w') \<longrightarrow> i \<in> S \<longrightarrow> look w i = Some x \<longrightarrow> (\<forall>y. look w' i = Some y \<longrightarrow> R i x y))"

text \<open>The same of a step that touches nothing outside its objects, and of steps in sequence.\<close>

definition spares_in :: "('w \<Rightarrow> cluster) \<Rightarrow> (object_id \<Rightarrow> api_object \<Rightarrow> api_object \<Rightarrow> bool) \<Rightarrow> object_id set \<Rightarrow> 'w act \<Rightarrow> bool" where
  "spares_in look F S a \<longleftrightarrow> spares look F S a \<and> (\<forall>w w'. a w = (None, w') \<longrightarrow> only_at S (look w) (look w'))"

lemma spares_then:
  assumes a: "spares_in look R S a" and b: "spares_in look R T b" and apart: "S \<inter> T = {}" and U: "U = S \<union> T"
  shows "spares_in look R U (and_then a b)"
  unfolding spares_in_def spares_def
proof (intro conjI allI impI)
  fix w w' i x y
  assume run: "and_then a b w = (None, w')" and i: "i \<in> U" and x: "look w i = Some x" and y: "look w' i = Some y"
  from run obtain w1 where r: "a w = (None, w1)" "b w1 = (None, w')" by (rule and_thenE)
  have fa: "only_at S (look w) (look w1)" and fb: "only_at T (look w1) (look w')"
    using a b r unfolding spares_in_def by blast+
  show "R i x y"
  proof (cases "i \<in> S")
    case True
    then have "look w' i = look w1 i" using fb apart unfolding only_at_def by blast
    then show ?thesis using a r(1) True x y unfolding spares_in_def spares_def by metis
  next
    case False
    then have "i \<in> T" using i U by blast
    moreover have "look w1 i = look w i" using fa False unfolding only_at_def by blast
    ultimately show ?thesis using b r(2) x y unfolding spares_in_def spares_def by metis
  qed
next
  fix w w' assume "and_then a b w = (None, w')"
  then obtain w1 where "a w = (None, w1)" "b w1 = (None, w')" by (rule and_thenE)
  then show "only_at U (look w) (look w')" using a b U unfolding spares_in_def by (blast intro: only_at_trans)
qed

lemma spares_labelled: "spares_in look F S a \<Longrightarrow> spares_in look F S (labelled l a)"
  by (simp add: spares_in_def spares_def labelled_None)

lemma spares_if: "(P \<Longrightarrow> spares_in look F S a) \<Longrightarrow> (\<not> P \<Longrightarrow> spares_in look F S b) \<Longrightarrow> spares_in look F S (if P then a else b)"
  by simp

lemma spares_none: "(\<And>i x. R i x x) \<Longrightarrow> spares_in look R S (\<lambda>w. (None, w))"
  by (simp add: spares_in_def spares_def)

lemma spares_delete:
  assumes "serves kc k tag meta body look"
  shows "spares_in look F {(k, key)} (deleteIfExists kc key)"
proof -
  have "only_at {(k, key)} (look w) (look w')" "look w' (k, key) = None" if "deleteIfExists kc key w = (None, w')" for w w'
    using delete_step [OF assms that] by simp_all
  then show ?thesis by (simp add: spares_in_def spares_def)
qed

text \<open>A callback that merges.\<close>

lemma spares_update:
  assumes "serves kc k tag meta body look" and "keyed meta f" and "wf_meta (meta x)"
    and tag: "\<And>y. meta_of (tag y) = meta y"
    and m: "\<And>c w1 y w2. wf_meta (meta c) \<Longrightarrow> f c w1 = (Inr y, w2) \<Longrightarrow>
      merges E inst (k, object_key (meta x)) (tag c) (meta y)"
    and "\<And>w w'. kc_create_or_update kc x f w = (None, w') \<Longrightarrow> only_at {(k, object_key (meta x))} (look w) (look w')"
  shows "spares_in look (rewritten E inst) {(k, object_key (meta x))} (kc_create_or_update kc x f)"
  unfolding spares_in_def spares_def
proof (intro conjI allI impI)
  fix w w' i o' n assume run: "kc_create_or_update kc x f w = (None, w')" and i: "i \<in> {(k, object_key (meta x))}"
    and o: "look w i = Some o'" and n: "look w' i = Some n"
  obtain c w1 y w2 z where c: "wf_meta (meta c)"
      "look w (k, object_key (meta x)) = Some (tag c) \<or> look w (k, object_key (meta x)) = None \<and> c = x"
    and f: "f c w1 = (Inr y, w2)" and z: "keeps meta body y z" "look w' = (look w2)((k, object_key (meta x)) \<mapsto> tag z)"
    by (rule serves_updateE [OF assms(1-3) run]) blast
  have "o' = tag c" "n = tag z" using i o c(2) n z(2) by auto
  then show "rewritten E inst i o' n"
    using m [OF c(1) f] z(1) i by (simp add: rewritten_def merges_def keeps_def tag)
qed (rule assms(6))

context owned_object
begin

lemma callback_spares:
  assumes "serves kc k tag meta body look" and own: "owner_api E" and wf: "wf_meta (wanted i)" "wf_meta (meta x)"
    and asked: "asked i (wanted i)" and tag: "\<And>y. meta_of (tag y) = meta y"
  shows "spares_in look (rewritten E i) {(k, object_key (meta x))} (kc_create_or_update kc x (callback E i))"
proof (rule spares_update [OF assms(1) callback_keyed [OF own wf(1)] wf(2) tag])
  fix c w1 y w2 assume c: "wf_meta (meta c)" and y: "callback E i c w1 = (Inr y, w2)"
  obtain n where "env_set_owner E i (merged_meta annotate (wanted i) (meta c)) = Inr n"
    using y by (auto simp: callback_put split: sum.splits)
  then show "merges E i (k, object_key (meta x)) (tag c) (meta y)"
    unfolding merges_def tag callback_result(4,5) [OF own y] using asked wf(1) c by blast
qed (use converges [OF assms(1) own wf] in blast)

end

section \<open>The steps of a pass\<close>

text \<open>What the builders ask for.\<close>

lemma keys_mputall: "fst ` set (mputall d m) = fst ` set d \<union> fst ` set m"
proof -
  have "dom (map_of (mputall d m)) = dom (map_of (rev d)) \<union> dom (map_of m)"
    by (simp add: map_of_mputall)
  then show ?thesis by (auto simp: dom_map_of_conv_image_fst)
qed

lemma asked_built [simp]:
  "asked i (sec_Meta (BuildGatewayTokenSecret i))" "asked i (cm_Meta (BuildWorkspaceConfigMap i))"
  "asked i (np_Meta (BuildNetworkPolicy i))" "asked i (sa_Meta (BuildServiceAccount i))"
  "asked i (role_Meta (BuildRole i))" "asked i (rb_Meta (BuildRoleBinding i))" "asked i (svc_Meta (BuildService i))"
  "asked i (pdb_Meta (BuildPDB i))" "asked i (hpa_Meta (BuildHPA i))" "asked i (ing_Meta (BuildIngress i))"
  "asked i (un_Meta (BuildServiceMonitor i))" "asked i (un_Meta (BuildPrometheusRule i))"
  "asked i (cm_Meta (BuildGrafanaDashboardOperator i))" "asked i (cm_Meta (BuildGrafanaDashboardInstance i))"
  "asked i (sts_Meta (stateful_set_for mg i))" "asked i (svc_Meta (BuildHonchoService i))"
  "asked i (dep_Meta (BuildHonchoDeployment i))"
  unfolding asked_def own_label_keys_def own_annotation_keys_def
  subgoal by (auto simp: BuildGatewayTokenSecret_def new_meta_def)
  subgoal by (auto simp: BuildWorkspaceConfigMap_def new_meta_def Let_def)
  subgoal by (auto simp: BuildNetworkPolicy_def new_meta_def)
  subgoal by (auto simp: BuildServiceAccount_def new_meta_def)
  subgoal by (auto simp: BuildRole_def new_meta_def)
  subgoal by (auto simp: BuildRoleBinding_def new_meta_def)
  subgoal by (auto simp: BuildService_def new_meta_def Let_def)
  subgoal by (auto simp: BuildPDB_def new_meta_def Let_def)
  subgoal by (auto simp: BuildHPA_def new_meta_def Let_def)
  subgoal by (auto simp: BuildIngress_def new_meta_def Let_def)
  subgoal by (auto simp: BuildServiceMonitor_def new_meta_def Let_def keys_mputall)
  subgoal by (auto simp: BuildPrometheusRule_def new_meta_def Let_def)
  subgoal by (auto simp: BuildGrafanaDashboardOperator_def buildDashboardConfigMap_def new_meta_def Let_def)
  subgoal by (auto simp: BuildGrafanaDashboardInstance_def buildDashboardConfigMap_def new_meta_def Let_def)
  subgoal by (auto simp: stateful_set_for_def BuildStatefulSet_def add_volume_def new_meta_def Let_def split: option.split)
  subgoal by (auto simp: BuildHonchoService_def new_meta_def Let_def)
  subgoal by (auto simp: BuildHonchoDeployment_def new_meta_def Let_def)
  done

lemma asked_some:
  "BuildConfigMap yl i body = Inr c \<Longrightarrow> asked i (cm_Meta c)"
  "BuildHTTPRoute i = Some u \<Longrightarrow> asked i (un_Meta u)"
  "BuildHonchoNetworkPolicy i = Some n \<Longrightarrow> asked i (np_Meta n)"
  unfolding asked_def own_label_keys_def own_annotation_keys_def
  subgoal by (auto simp: BuildConfigMap_def new_meta_def split: sum.splits)
  subgoal by (auto simp: BuildHTTPRoute_def new_meta_def split: option.splits)
  subgoal by (auto simp: BuildHonchoNetworkPolicy_def new_meta_def Let_def split: if_splits)
  done

text \<open>A claim that is there is left as it is.\<close>

lemma spares_get_or_create:
  assumes R: "\<And>i x. R i x x" and sv: "serves kc k tag meta body look"
    and "\<And>v x v1. kc_get kc key v = (Inr x, v1) \<Longrightarrow> a v = (None, v1)"
    and "\<And>v e v1. kc_get kc key v = (Inl e, v1) \<Longrightarrow> \<not> IsNotFound e \<Longrightarrow> fst (a v) \<noteq> None"
    and "\<And>w w'. a w = (None, w') \<Longrightarrow> only_at {(k, key)} (look w) (look w')"
  shows "spares_in look R {(k, key)} a"
  unfolding spares_in_def spares_def
proof (intro conjI allI impI)
  fix w w' i x n assume run: "a w = (None, w')" and i: "i \<in> {(k, key)}" and x: "look w i = Some x" and n: "look w' i = Some n"
  obtain r w1 where g: "kc_get kc key w = (r, w1)" by fastforce
  have l: "look w1 = look w \<and> (case r of Inr x \<Rightarrow> look w (k, key) = Some (tag x) \<and> object_key (meta x) = key | Inl e \<Rightarrow> says_absent e \<longrightarrow> look w (k, key) = None)"
    using sv g unfolding serves_def serves_get_def by blast
  show "R i x n"
  proof (cases r)
    case (Inl e)
    then have "\<not> IsNotFound e" using l i x by (auto simp: says_absent_def)
    then show ?thesis using assms(4) g Inl run by (metis fst_conv)
  next
    case (Inr y)
    then have "w' = w1" using assms(3) g run by simp
    then show ?thesis using l x n R by simp
  qed
qed (rule assms(5))

lemma claims_spared:
  assumes api: "api_server N E look"
  shows "spares_in look (rewritten E inst) {(KPVC, (inst_ns inst, PVCName inst))} (reconcilePVC E inst)"
    and "spares_in look (rewritten E inst) {(KPVC, (inst_ns inst, HonchoPVCName inst))} (honcho_pvc E inst)"
  by (rule spares_get_or_create [OF rewritten_refl api_serves(2) [OF api]];
      use pvc_step [OF api] honcho_pvc_step [OF api] in \<open>auto simp: reconcilePVC_def honcho_pvc_def\<close>)+

lemma secret_spared:
  assumes api: "api_server N E look"
  shows "spares_in look (rewritten E inst) {token_id inst} (reconcileSecret E inst)"
proof -
  note own = api_serves(15) [OF api]
  let ?x = "empty_secret (GatewayTokenSecretName inst) (inst_ns inst)"
  have x: "wf_meta (sec_Meta ?x)" and k: "object_key (sec_Meta ?x) = (inst_ns inst, GatewayTokenSecretName inst)"
    by (simp_all add: empty_secret_def)
  have wf: "wf_meta (sec_Meta (BuildGatewayTokenSecret inst))"
    by (simp add: BuildGatewayTokenSecret_def wf_meta_def new_meta_def)
  show ?thesis
    unfolding reconcileSecret_def
  proof (rule spares_update [OF api_serves(1) [OF api] secret_keyed [OF own, of inst] x, unfolded k])
    fix c :: Secret and w1 y w2 assume c: "wf_meta (sec_Meta c)" and y: "mutate_secret E inst c w1 = (Inr y, w2)"
    obtain n where n: "env_set_owner E inst (merged_meta True (sec_Meta (BuildGatewayTokenSecret inst)) (sec_Meta c)) = Inr n"
      using y by (auto simp: mutate_secret_def own_def merged_meta_def Let_def split: if_splits prod.splits sum.splits)
    show "merges E inst (token_id inst) (ObjSecret c) (sec_Meta y)"
      unfolding merges_def meta_of.simps mutate_secret_result(2,4) [OF own y]
      using asked_built(1) wf c n by blast
  qed (use secret_step [OF api, unfolded reconcileSecret_def] in simp_all)
qed

lemma single_steps_spare:
  assumes api: "api_server N E look" and md: "maps_distinct inst"
  shows "spares_in look (rewritten E inst) {cm_id inst (WorkspaceConfigMapName inst)} (reconcileWorkspaceConfigMap E inst)" (is ?workspace)
    and "spares_in look (rewritten E inst) {(KNetworkPolicy, (inst_ns inst, NetworkPolicyName inst))} (reconcileNetworkPolicy E inst)" (is ?netpol)
    and "spares_in look (rewritten E inst) {(KService, (inst_ns inst, ServiceName inst))} (reconcileService E inst)" (is ?service)
    and "spares_in look (rewritten E inst) {(KPDB, (inst_ns inst, PDBName inst))} (reconcilePDB E inst)" (is ?pdb)
    and "spares_in look (rewritten E inst) {(KHPA, (inst_ns inst, HPAName inst))} (reconcileHPA E inst)" (is ?hpa)
    and "spares_in look (rewritten E inst) {(KIngress, (inst_ns inst, IngressName inst))} (reconcileIngress E inst)" (is ?ingress)
    and "spares_in look (rewritten E inst) {(KStatefulSet, (inst_ns inst, StatefulSetName inst))} (reconcileStatefulSet mg E inst)" (is ?statefulset)
proof -
  note a = api_serves [OF api]
  note own = a(15)
  have e: "wf_meta (cm_Meta (empty_configmap n ns))" "object_key (cm_Meta (empty_configmap n ns)) = (ns, n)"
    "wf_meta (np_Meta (empty_netpol n ns))" "object_key (np_Meta (empty_netpol n ns)) = (ns, n)"
    "wf_meta (sts_Meta (empty_statefulset n ns))" "object_key (sts_Meta (empty_statefulset n ns)) = (ns, n)" for n ns
    by (simp_all add: empty_configmap_def empty_netpol_def empty_statefulset_def)
  have w: "wf_meta (svc_Meta (BuildService inst))" "wf_meta (ing_Meta (BuildIngress inst))"
    using md by (simp_all add: maps_distinct_def)
  have cb: "mutate_workspace E inst = put_configmap E inst (BuildWorkspaceConfigMap inst)" by (simp add: fun_eq_iff mutate_workspace_def)
  show ?workspace
    using ocm.callback_spares [OF a(3) own, where D = BuildWorkspaceConfigMap, OF built_wf(1) e(1) asked_built(2)]
    by (simp add: reconcileWorkspaceConfigMap_def cb e(2))
  show ?netpol
    using onp.callback_spares [OF a(8) own, where D = BuildNetworkPolicy, OF built_wf(4) e(3) asked_built(3)] spares_delete [OF a(8)]
    unfolding reconcileNetworkPolicy_def by (intro spares_if) (simp_all add: e(4))
  show ?service
    using osvc.callback_spares [OF a(7) own, where D = BuildService, OF w(1) empty_service_ok(1) asked_built(7)]
    by (simp add: reconcileService_def)
  show ?pdb
    using opdb.callback_spares [OF a(9) own built_wf(5), where x = "\<lparr>pdb_Meta = new_meta (PDBName inst) (inst_ns inst),
        pdb_Selector = [], pdb_MinAvailable = None, pdb_MaxUnavailable = None\<rparr>"] spares_delete [OF a(9)]
    unfolding reconcilePDB_def by (intro spares_if) simp_all
  show ?hpa
    using ohpa.callback_spares [OF a(10) own built_wf(6), where x = "\<lparr>hpa_Meta = new_meta (HPAName inst) (inst_ns inst),
        hpa_ScaleTargetRef = ('''', '''', ''''), hpa_MinReplicas = None, hpa_MaxReplicas = 0, hpa_Metrics = [], hpa_Behavior = None\<rparr>"]
      spares_delete [OF a(10)]
    unfolding reconcileHPA_def by (intro spares_if) simp_all
  show ?ingress
    using oing.callback_spares [OF a(11) own w(2), where x = "\<lparr>ing_Meta = new_meta (IngressName inst) (inst_ns inst),
        ing_IngressClassName = None, ing_Rules = [], ing_TLS = []\<rparr>"] spares_delete [OF a(11)]
    unfolding reconcileIngress_def by (intro spares_if) simp_all
  show ?statefulset
    using osts.callback_spares [OF a(13) own sts_wf e(5) asked_built(15)] by (simp add: reconcileStatefulSet_def e(6))
qed

lemma configmap_spares:
  assumes api: "api_server N E look"
  shows "spares_in look (rewritten E inst) {cm_id inst (ConfigMapName inst)} (reconcileConfigMap yl E inst)"
  unfolding spares_in_def spares_def
proof (intro conjI allI impI)
  let ?x = "empty_configmap (ConfigMapName inst) (inst_ns inst)"
  have x: "wf_meta (cm_Meta ?x)" "object_key (cm_Meta ?x) = (inst_ns inst, ConfigMapName inst)" by (simp_all add: empty_configmap_def)
  fix w w' i o' n assume run: "reconcileConfigMap yl E inst w = (None, w')" and i: "i \<in> {cm_id inst (ConfigMapName inst)}"
    and o: "look w i = Some o'" and n: "look w' i = Some n"
  from run obtain body w1 where b: "resolveConfigBody yl E inst w = (Inr body, w1)"
    "kc_create_or_update (env_configmaps E) ?x (mutate_configmap yl E inst body) w1 = (None, w')"
    by (auto simp: reconcileConfigMap_def split: prod.splits sum.splits)
  have l: "look w1 = look w" by (rule resolve_step(1) [OF api b(1)])
  show "rewritten E inst i o' n"
  proof (cases "BuildConfigMap yl inst body")
    case (Inl e)
    have "keyed cm_Meta (mutate_configmap yl E inst body)" by (simp add: keyed_def mutate_configmap_def Inl)
    from serves_updateE [OF api_serves(3) [OF api] this x(1) b(2)] show ?thesis by (simp add: mutate_configmap_def Inl)
  next
    case (Inr d)
    have cb: "mutate_configmap yl E inst body = put_configmap E inst d" by (simp add: fun_eq_iff mutate_configmap_def Inr)
    have d: "wf_meta (cm_Meta d)" using Inr by (auto simp: BuildConfigMap_def wf_meta_def new_meta_def split: sum.splits)
    from ocm.callback_spares [OF api_serves(3,15) [OF api], where D = "\<lambda>_. d", OF d x(1) asked_some(1) [OF Inr]] b(2) i o n x(2) l
    show ?thesis by (simp add: spares_in_def spares_def cb)
  qed
qed (use configmap_step [OF api] in blast)

lemma rbac_spares:
  assumes api: "api_server N E look" and md: "maps_distinct inst"
  shows "spares_in look (rewritten E inst) (rbac_ids inst) (reconcileRBAC E inst)"
proof -
  note a = api_serves [OF api]
  let ?sa = "\<lparr>sa_Meta = new_meta (ServiceAccountName inst) (inst_ns inst), sa_AutomountServiceAccountToken = None\<rparr>"
  let ?role = "\<lparr>role_Meta = new_meta (RoleName inst) (inst_ns inst), role_Rules = []\<rparr>"
  let ?rb = "\<lparr>rb_Meta = new_meta (RoleBindingName inst) (inst_ns inst), rb_Subjects = [],
              rb_RoleRef = \<lparr>ref_APIGroup = '''', ref_Kind = '''', ref_Name = ''''\<rparr>\<rparr>"
  have sw: "wf_meta (sa_Meta (BuildServiceAccount inst))" using md by (simp add: maps_distinct_def)
  have x: "wf_meta (sa_Meta ?sa)" "wf_meta (role_Meta ?role)" "wf_meta (rb_Meta ?rb)" by simp_all
  note 1 = osa.callback_spares [OF a(4,15) sw x(1) asked_built(4), simplified]
    and 2 = orole.callback_spares [OF a(5,15) built_wf(2) x(2) asked_built(5), simplified]
    and 3 = orb.callback_spares [OF a(6,15) built_wf(3) x(3) asked_built(6), simplified]
  show ?thesis
    unfolding reconcileRBAC_def
    by (intro spares_if spares_none spares_then [OF spares_labelled [OF 1] spares_then [OF spares_labelled [OF 2] spares_labelled [OF 3] _ refl]])
      (auto simp: rbac_ids_def)
qed

lemma dashboards_spare:
  assumes api: "api_server N E look"
  shows "spares_in look (rewritten E inst) (dashboard_ids inst) (reconcileGrafanaDashboards E inst)"
proof -
  note a = api_serves(3) [OF api]
  have ap: "spares_in look (rewritten E inst) {(KConfigMap, object_key (cm_Meta d))} (apply_dashboard E inst d)" if "wf_meta (cm_Meta d)" "asked inst (cm_Meta d)" for d
  proof -
    let ?x = "empty_configmap (om_Name (cm_Meta d)) (om_Namespace (cm_Meta d))"
    have x: "wf_meta (cm_Meta ?x)" "object_key (cm_Meta ?x) = object_key (cm_Meta d)"
      by (simp_all add: empty_configmap_def) (simp add: object_key_def)
    show ?thesis
      using odash.callback_spares [OF a api_serves(15) [OF api], where D = "\<lambda>_. d", OF that(1) x(1) that(2)] x(2)
      by (simp add: apply_dashboard_def)
  qed
  show ?thesis
    unfolding reconcileGrafanaDashboards_def
    by (intro spares_if spares_then [OF spares_delete [OF a] spares_delete [OF a]]
        spares_then [OF ap [OF built_wf(9) asked_built(13), unfolded object_key_def dashboard_names] ap [OF built_wf(10) asked_built(14), unfolded object_key_def dashboard_names]])
      (auto simp: dashboard_ids_def)
qed

lemma honcho_spares:
  assumes api: "api_server N E look"
  shows "spares_in look (rewritten E inst) (honcho_ids inst) (reconcileHoncho E inst)"
proof -
  note a = api_serves [OF api]
  have e: "wf_meta (np_Meta (empty_netpol n ns))" "object_key (np_Meta (empty_netpol n ns)) = (ns, n)"
    "wf_meta (dep_Meta (empty_deployment n ns))" "object_key (dep_Meta (empty_deployment n ns)) = (ns, n)" for n ns
    by (simp_all add: empty_netpol_def empty_deployment_def)
  have 1: "spares_in look (rewritten E inst) {(KPVC, (inst_ns inst, HonchoPVCName inst))} (\<lambda>w. (None, w))" by (rule spares_none) simp
  have 2: "spares_in look (rewritten E inst) {(KService, (inst_ns inst, HonchoServiceName inst))} (kc_create_or_update (env_services E)
      (empty_service (HonchoServiceName inst) (inst_ns inst)) (mutate_service E inst (BuildHonchoService inst)))"
    using osvc.callback_spares [OF a(7,15), where D = BuildHonchoService, OF honcho_wf(1) empty_service_ok(1) asked_built(16)] by simp
  have 3: "spares_in look (rewritten E inst) {(KDeployment, (inst_ns inst, HonchoDeploymentName inst))} (kc_create_or_update (env_deployments E)
      (empty_deployment (HonchoDeploymentName inst) (inst_ns inst)) (mutate_deployment E inst))"
    using odep.callback_spares [OF a(14,15) honcho_wf(2) e(3) asked_built(17)] by (simp add: e(4))
  have 4: "spares_in look (rewritten E inst) {(KNetworkPolicy, (inst_ns inst, HonchoDeploymentName inst))} (kc_create_or_update (env_netpols E)
      (empty_netpol (HonchoDeploymentName inst) (inst_ns inst)) (honcho_netpol E inst))" if on: "honchoEnabled inst"
  proof -
    from on obtain d where d: "BuildHonchoNetworkPolicy inst = Some d" by (simp add: BuildHonchoNetworkPolicy_def)
    then have dw: "wf_meta (np_Meta d)"
      by (auto simp: BuildHonchoNetworkPolicy_def wf_meta_def new_meta_def HonchoLabels_def Let_def split: if_splits)
    have cb: "honcho_netpol E inst = mutate_netpol E inst d" by (simp add: fun_eq_iff honcho_netpol_def d)
    show ?thesis using onp.callback_spares [OF a(8,15), where D = "\<lambda>_. d", OF dw e(1) asked_some(3) [OF d]] by (simp add: e(2) cb)
  qed
  show ?thesis
    unfolding reconcileHoncho_def Let_def
    by (intro spares_then [OF spares_if [OF claims_spared(2) [OF api] 1]
          spares_then [OF spares_if [OF spares_labelled [OF spares_delete [OF a(7)]] spares_labelled [OF 2]]
            spares_then [OF spares_if [OF spares_labelled [OF spares_delete [OF a(14)]] spares_labelled [OF 3]]
              spares_if [OF spares_labelled [OF spares_delete [OF a(8)]] spares_labelled [OF 4]] _ refl] _ refl]])
      (auto simp: honcho_ids_def)
qed

lemma unstructured_spares:
  assumes api: "api_server N E look" and wf: "wf_meta (un_Meta d)" and asked: "asked inst (un_Meta d)"
  shows "spares_in look (rewritten E inst) {(KUnstructured (un_GVK d), object_key (un_Meta d))} (apply_unstructured E inst a d)"
proof (cases "env_set_owner E inst (un_Meta d)")
  case (Inl e)
  then show ?thesis by (simp add: apply_unstructured_def spares_in_def spares_def)
next
  case (Inr m)
  let ?d = "d\<lparr>un_Meta := m\<rparr>"
    and ?x = "\<lparr>un_GVK = un_GVK d, un_Meta = new_meta (om_Name (un_Meta d)) (om_Namespace (un_Meta d)), un_Spec = JNull\<rparr>"
  note o = owner_apiD [OF api_serves(15) [OF api] Inr]
  have wm: "wf_meta (un_Meta ?d)" "asked inst (un_Meta ?d)" using wf asked o by (simp_all add: wf_meta_def asked_def)
  have k: "object_key (un_Meta ?x) = object_key (un_Meta d)" by (simp add: object_key_def new_meta_def)
  have wx: "wf_meta (un_Meta ?x)" by simp
  have "spares_in look (rewritten E inst) {(KUnstructured (un_GVK d), object_key (un_Meta ?x))}
      (kc_create_or_update (env_unstructured E (un_GVK d)) ?x (mutate_unstructured a ?d))"
  proof (rule spares_update [OF api_serves(12) [OF api] unstructured_keyed [OF wm(1)] wx])
    fix c :: Unstructured and w1 y w2 assume c: "wf_meta (un_Meta c)" and y: "mutate_unstructured a ?d c w1 = (Inr y, w2)"
    have "(KUnstructured (un_GVK d), object_key (un_Meta ?x)) \<in> unstructured_ids" by (simp add: unstructured_ids_def)
    moreover have "om_Labels (un_Meta y) = om_Labels (merged_meta a (un_Meta ?d) (un_Meta c))"
      "om_Annotations (un_Meta y) = om_Annotations (merged_meta a (un_Meta ?d) (un_Meta c))"
      using y unfolding unstructured_callback by auto
    ultimately show "merges E inst (KUnstructured (un_GVK d), object_key (un_Meta ?x)) (ObjUnstructured c) (un_Meta y)"
      unfolding merges_def meta_of.simps using wm c by metis
  next
    fix w w' assume "kc_create_or_update (env_unstructured E (un_GVK d)) ?x (mutate_unstructured a ?d) w = (None, w')"
    then have "apply_unstructured E inst a d w = (None, w')" by (simp add: apply_unstructured_def Inr)
    then show "only_at {(KUnstructured (un_GVK d), object_key (un_Meta ?x))} (look w) (look w')"
      unfolding k using unstructured_step [OF api wf] by blast
  qed simp
  then show ?thesis unfolding k by (simp add: apply_unstructured_def [abs_def] Inr)
qed

lemma monitors_spare:
  assumes api: "api_server N E look"
  shows "spares_in look (rewritten E inst) {un_id ServiceMonitorGVK inst (inst_name inst)} (reconcileServiceMonitor crds E inst)" (is ?sm)
    and "spares_in look (rewritten E inst) {un_id PrometheusRuleGVK inst (inst_name inst)} (reconcilePrometheusRule crds E inst)" (is ?pr)
proof -
  note d = spares_delete [OF api_serves(12) [OF api]]
  note u = unstructured_spares [OF api]
  have k: "un_GVK (BuildServiceMonitor inst) = ServiceMonitorGVK" "object_key (un_Meta (BuildServiceMonitor inst)) = (inst_ns inst, inst_name inst)"
    "un_GVK (BuildPrometheusRule inst) = PrometheusRuleGVK" "object_key (un_Meta (BuildPrometheusRule inst)) = (inst_ns inst, inst_name inst)"
    by (simp_all add: BuildServiceMonitor_def BuildPrometheusRule_def ServiceMonitorName_def PrometheusRuleName_def object_key_def new_meta_def Let_def)
  show ?sm
    using d u [OF built_wf(7) asked_built(11), where a = False]
    unfolding reconcileServiceMonitor_def by (intro spares_if spares_none) (simp_all add: k ServiceMonitorName_def)
  show ?pr
    using d u [OF built_wf(8) asked_built(12), where a = False]
    unfolding reconcilePrometheusRule_def by (intro spares_if spares_none) (simp_all add: k PrometheusRuleName_def)
qed

lemma httproute_spares:
  assumes api: "api_server N E look" and md: "maps_distinct inst"
  shows "spares_in look (rewritten E inst) {un_id HTTPRouteGVK inst (HTTPRouteName inst)} (reconcileHTTPRoute E inst)"
  unfolding spares_in_def spares_def
proof (intro conjI allI impI)
  fix w w' i x y assume run: "reconcileHTTPRoute E inst w = (None, w')" and i: "i \<in> {un_id HTTPRouteGVK inst (HTTPRouteName inst)}"
    and x: "look w i = Some x" and y: "look w' i = Some y"
  have r: "httproute_reached N inst (look w')" using httproute_step [OF api md run] by blast
  have on: "httproute_enabled inst"
    using r i y by (auto simp: httproute_reached_def there_iff_def split: if_splits)
  then obtain d where d: "BuildHTTPRoute inst = Some d" "apply_unstructured E inst True d w = (None, w')"
    using run by (auto simp: reconcileHTTPRoute_def split: option.splits)
  have k: "un_GVK d = HTTPRouteGVK" "object_key (un_Meta d) = (inst_ns inst, HTTPRouteName inst)"
    using d(1) by (auto simp: BuildHTTPRoute_def object_key_def new_meta_def split: option.splits)
  have "wf_meta (un_Meta d)" using md d(1) by (simp add: maps_distinct_def)
  from unstructured_spares [OF api this asked_some(2) [OF d(1)], unfolded k] d(2) i x y
  show "rewritten E inst i x y" unfolding spares_in_def spares_def by blast
qed (use httproute_step [OF api md] in blast)

section \<open>A pass\<close>

text \<open>Conditions do not matter for any of this.\<close>

lemma rewritten_recond [simp]: "rewritten E (recond cs inst) = rewritten E inst"
proof -
  have "own_label_keys (recond cs inst) = own_label_keys inst"
    "own_annotation_keys (recond cs inst) = own_annotation_keys inst"
    by (simp_all only: own_label_keys_def own_annotation_keys_def recond_builders recond_simps)
  moreover have "hi_ObjectMeta (recond cs inst) = hi_ObjectMeta inst"
    by (simp add: recond_simps)
  ultimately show ?thesis
    by (simp add: fun_eq_iff rewritten_def merges_def asked_def)
qed


definition sparing_goal :: "('w \<Rightarrow> cluster) \<Rightarrow> (object_id \<Rightarrow> api_object \<Rightarrow> api_object \<Rightarrow> bool) \<Rightarrow> HermesInstance \<Rightarrow> 'w goal \<Rightarrow> bool" where
  "sparing_goal look R inst g = (case g of (n, c, a, S, P) \<Rightarrow> \<forall>cs. spares look R S (a (recond cs inst)))"

lemma goals_spare:
  assumes api: "api_server N (rc_env R) look" and md: "maps_distinct inst"
  shows "\<forall>g \<in> set (goals N R inst). sparing_goal look (rewritten (rc_env R) inst) inst g"
proof -
  have s: "spares look (rewritten (rc_env R) inst) S (a (recond cs inst))"
    if "\<And>i. maps_distinct i \<Longrightarrow> spares_in look (rewritten (rc_env R) i) (T i) (a i)" "T (recond cs inst) = S" for a T S cs
    using that(1) [of "recond cs inst"] md that(2) by (simp add: recond_builders spares_in_def)
  show ?thesis
    unfolding goals_def Let_def list.set ball_simps sparing_goal_def prod.case ball_empty
    apply (intro conjI allI)
    subgoal by (rule s [where T = "\<lambda>i. {token_id i}"]) (auto intro: secret_spared [OF api] simp: recond_builders)
    subgoal by (rule s [where T = "\<lambda>i. {(KPVC, inst_ns i, PVCName i)}"]) (auto intro: claims_spared(1) [OF api] simp: recond_builders)
    subgoal by (rule s [where T = "\<lambda>i. {cm_id i (ConfigMapName i)}"]) (auto intro: configmap_spares [OF api] simp: recond_builders)
    subgoal by (rule s [where T = "\<lambda>i. {cm_id i (WorkspaceConfigMapName i)}"]) (auto intro: single_steps_spare(1) [OF api] simp: recond_builders)
    subgoal by (rule s [where T = "\<lambda>i. {(KNetworkPolicy, inst_ns i, NetworkPolicyName i)}"]) (auto intro: single_steps_spare(2) [OF api] simp: recond_builders)
    subgoal by (rule s [where T = rbac_ids]) (auto intro: rbac_spares [OF api] simp: recond_builders)
    subgoal by (rule s [where T = "\<lambda>i. {(KService, inst_ns i, ServiceName i)}"]) (auto intro: single_steps_spare(3) [OF api] simp: recond_builders)
    subgoal by (rule s [where T = "\<lambda>i. {(KPDB, inst_ns i, PDBName i)}"]) (auto intro: single_steps_spare(4) [OF api] simp: recond_builders)
    subgoal by (rule s [where T = "\<lambda>i. {(KHPA, inst_ns i, HPAName i)}"]) (auto intro: single_steps_spare(5) [OF api] simp: recond_builders)
    subgoal by (rule s [where T = "\<lambda>i. {(KIngress, inst_ns i, IngressName i)}"]) (auto intro: single_steps_spare(6) [OF api] simp: recond_builders)
    subgoal by (rule s [where T = "\<lambda>i. {un_id HTTPRouteGVK i (HTTPRouteName i)}"]) (auto intro: httproute_spares [OF api] simp: recond_builders)
    subgoal by (rule s [where T = "\<lambda>i. {un_id ServiceMonitorGVK i (inst_name i)}"]) (auto intro: monitors_spare(1) [OF api] simp: recond_builders)
    subgoal by (rule s [where T = "\<lambda>i. {un_id PrometheusRuleGVK i (inst_name i)}"]) (auto intro: monitors_spare(2) [OF api] simp: recond_builders)
    subgoal by (rule s [where T = dashboard_ids]) (auto intro: dashboards_spare [OF api] simp: recond_builders)
    subgoal by (rule s [where T = "\<lambda>i. {(KStatefulSet, inst_ns i, StatefulSetName i)}"]) (auto intro: single_steps_spare(7) [OF api] simp: recond_builders)
    subgoal by (rule s [where T = honcho_ids]) (auto intro: honcho_spares [OF api] simp: recond_builders)
    subgoal by (simp add: spares_def)
    subgoal by simp
    done
qed

lemma pipeline_spares:
  assumes "run_pipeline E (map step_of L) (recond cs inst) w = (None, i', w')"
    and "\<forall>g \<in> set L. goal_ok look inst g" and "\<forall>g \<in> set L. sparing_goal look R inst g" and "apart_sets (map area_of L)"
    and "i \<in> \<Union> (set (map area_of L))" and "look w i = Some x" and "look w' i = Some y"
  shows "R i x y"
  using assms
proof (induction L arbitrary: cs w)
  case (Cons g L)
  obtain n c a S P where g: "g = (n, c, a, S, P)" by (cases g)
  obtain err w1 where a: "a (recond cs inst) w = (err, w1)" by fastforce
  have none: "err = None"
    using Cons.prems(1) a by (auto simp: g reading_def split: option.splits if_splits prod.splits)
  from Cons.prems(1) a none obtain cs1 where r: "run_pipeline E (map step_of L) (recond cs1 inst) w1 = (None, i', w')"
    by (auto simp: g reading_def setCondition_recond)
  have ok: "\<forall>g \<in> set L. goal_ok look inst g" "\<forall>g \<in> set L. sparing_goal look R inst g" "apart_sets (map area_of L)"
    using Cons.prems(2-4) by simp_all
  have "achieves look inst a S P" using Cons.prems(2) by (simp add: g)
  then have fr: "only_at S (look w) (look w1)" using a none unfolding achieves_def by blast
  have fr': "only_at (\<Union> (set (map area_of L))) (look w1) (look w')" using pipeline_achieves [OF r ok(1,3)] by blast
  show ?case
  proof (cases "i \<in> S")
    case True
    then have "i \<notin> \<Union> (set (map area_of L))" using Cons.prems(4) by (auto simp: g)
    then have "look w' i = look w1 i" using fr' unfolding only_at_def by blast
    moreover have "spares look R S (a (recond cs inst))"
      using Cons.prems(3) by (simp add: g sparing_goal_def)
    ultimately show ?thesis
      using True Cons.prems(6,7) a none unfolding spares_def by metis
  next
    case False
    then have "look w1 i = look w i" using fr unfolding only_at_def by blast
    moreover have "i \<in> \<Union> (set (map area_of L))" using False Cons.prems(5) by (simp add: g)
    ultimately show ?thesis using Cons.IH [OF r ok _ _ Cons.prems(7)] Cons.prems(6) by simp
  qed
qed simp

text \<open>Whatever a successful pass has made of an object that was there.\<close>

lemma pass_rewrites:
  assumes "api_server N (rc_env R) look" and "maps_distinct inst"
    and "run_pipeline (rc_env R) (resource_steps R) inst w = (None, inst', w')"
    and "look w i = Some x" and "look w' i = Some y"
  shows "rewritten (rc_env R) inst i x y"
proof (cases "i \<in> managed_ids R inst")
  case True
  have "run_pipeline (rc_env R) (map step_of (goals N R inst)) (recond (st_Conditions (hi_Status inst)) inst) w = (None, inst', w')"
    using assms(3) by (simp add: goals_steps recond_same)
  from pipeline_spares [OF this goals_ok [OF assms(1,2)] goals_spare [OF assms(1,2)] goals_apart _ assms(4,5)] True
  show ?thesis by (simp add: managed_goals [of R inst N])
next
  case False
  then have "look w' i = look w i"
    using pass_goals(2) [OF assms(1-3)] unfolding only_at_def by blast
  then show ?thesis using assms(4,5) by simp
qed

text \<open>
  C4. A pass never overwrites what another controller owns, however it ends. Whatever object is in the
  cluster and is controlled by somebody else, the steps of a pass, resources and Semaphore, leave it
  as it was: also when a step fails on it, or panics, and the pass stops there. The one thing that can
  happen to it is that it is gone, and only when it bears the name of an object the instance does not
  want: a feature that is off removes by name. The HTTPRoute, the ServiceMonitor and the
  PrometheusRule are excepted.
\<close>

theorem others_never_overwritten:
  assumes "orderly_server R look" and "refuses_others theirs (rc_env R)"
    and "run_pipeline (rc_env R) (steps R) inst w = (err, inst', w')" and "i \<notin> unstructured_ids"
    and "look w i = Some x" and "theirs (hi_ObjectMeta inst) (om_OwnerReferences (meta_of x))"
  shows "look w' i = Some x \<or> i \<in> unwanted_ids inst \<and> look w' i = None"
proof -
  have f: "foreign_object R look inst i x"
    using assms(1,2,4,6) unfolding foreign_object_def unstructured_ids_def by blast
  have r: "run_pipeline (rc_env R) (resource_steps R @ [(''Semaphore'', ConditionSemaphoreReady, reconcileSemaphore (rc_http R) (rc_env R))])
      (recond (st_Conditions (hi_Status inst)) inst) w = (err, inst', w')"
    using assms(3) by (simp add: steps_def recond_same)
  have "safe look (unwanted_ids inst) i x w" using assms(5) by (simp add: safe_def)
  from pipeline_safe [OF f subset_refl r this] show ?thesis by (simp add: safe_def)
qed

lemma merged_foreign:
  assumes "wf_meta m" and "wf_meta c" and "\<not> HasPrefix k operatorLabelPrefix"
  shows "map_of (om_Labels m) k = None \<Longrightarrow> map_of (om_Labels (merged_meta a m c)) k = map_of (om_Labels c) k"
    and "map_of (om_Annotations m) k = None \<Longrightarrow> map_of (om_Annotations (merged_meta a m c)) k = map_of (om_Annotations c) k"
  using assms by (simp_all add: merged_meta_def merge_labels_def merge_annotations_def wf_meta_def mpf.merge_foreign)

text \<open>
  C5. What others put on the objects of an instance stays. Whatever object a successful pass finds
  and leaves in the cluster, managed or not, has afterwards the labels and annotations it had: no
  key is added, changed or lost but those under the prefix of the operator and those the instance
  itself asks for.
\<close>

theorem foreign_metadata_kept:
  assumes "api_server N (rc_env R) look" and "maps_distinct inst"
    and "run_pipeline (rc_env R) (resource_steps R) inst w = (None, inst', w')"
    and "look w i = Some x" and "look w' i = Some y" and "\<not> HasPrefix k operatorLabelPrefix"
  shows "(k \<notin> own_label_keys inst \<longrightarrow> map_of (om_Labels (meta_of y)) k = map_of (om_Labels (meta_of x)) k) \<and>
    (k \<notin> own_annotation_keys inst \<longrightarrow> map_of (om_Annotations (meta_of y)) k = map_of (om_Annotations (meta_of x)) k)"
proof (cases "y = x")
  case False
  with pass_rewrites [OF assms(1-5)] obtain a m where m: "asked inst m" "wf_meta m" "wf_meta (meta_of x)"
      "map_of (om_Labels (meta_of y)) = map_of (om_Labels (merged_meta a m (meta_of x)))"
      "map_of (om_Annotations (meta_of y)) = map_of (om_Annotations (merged_meta a m (meta_of x)))"
    unfolding rewritten_def merges_def by blast
  have "k \<notin> own_label_keys inst \<Longrightarrow> map_of (om_Labels m) k = None"
    "k \<notin> own_annotation_keys inst \<Longrightarrow> map_of (om_Annotations m) k = None"
    using m(1) unfolding asked_def map_of_eq_None_iff by blast+
  then show ?thesis
    unfolding m(4,5) using merged_foreign [OF m(2,3) assms(6)] by simp
qed simp

text \<open>
  A server that refuses to set the reference on an object of \<open>somebody\<close> and to create what is there,
  and a token Secret of theirs: the first step fails, and the Secret is as it was.
\<close>

definition somebody :: json where
  "somebody = JStr ''somebody''"

definition by_somebody :: "ObjectMeta \<Rightarrow> json list \<Rightarrow> bool" where
  "by_somebody owner refs \<longleftrightarrow> refs = [somebody]"

definition strict_create :: "kind \<Rightarrow> ('o \<Rightarrow> ObjectMeta) \<Rightarrow> ('o, cluster) kind_client \<Rightarrow> ('o, cluster) kind_client" where
  "strict_create k meta kc = kc\<lparr>kc_create := (\<lambda>x c.
     if clean c (k, object_key (meta x)) = None then kc_create kc x c else (Some (ApiStatus ReasonAlreadyExists ''exists''), c))\<rparr>"

definition refusing_cluster :: "cluster env" where
  "refusing_cluster = cluster_env
     \<lparr>env_secrets := strict_create KSecret sec_Meta (env_secrets cluster_env),
      env_pvcs := strict_create KPVC pvc_Meta (env_pvcs cluster_env),
      env_set_owner := (\<lambda>i m. if om_OwnerReferences m = [somebody] then Inl (Plain ''already owned'') else Inr m)\<rparr>"

lemma clean_other: "j \<noteq> i \<Longrightarrow> clean (c(i := a)) j = clean c j"
  by (simp add: clean_def)

lemma store_shelters:
  assumes tag: "\<And>x. untag (tag x) = Some x" "\<And>a. of_kind a k \<Longrightarrow> \<exists>x. a = tag x" "\<And>x. meta_of (tag x) = meta x"
  shows "shelters (store_client k tag untag meta body) k tag meta clean"
  unfolding shelters_def
proof (intro conjI allI impI)
  let ?kc = "store_client k tag untag meta body"
  have stored: "\<exists>x. a = tag x \<and> object_key (meta x) = key" if "clean c (k, key) = Some a" for c key a
    using clean_fits [OF that] tag(2) [of a] tag(3) by (auto simp: fits_def)
  { fix key c r c' x assume g: "kc_get ?kc key c = (r, c')"
    then show "clean c' = clean c" by (simp add: filling_client_def)
    show "object_key (meta x) = key" if "r = Inr x"
      using g that stored by (fastforce simp: filling_client_def tag(1) split: option.splits) }
  { fix x c r c' i assume "kc_delete ?kc x c = (r, c')"
    then show "clean c' i = clean c i \<or> i = (k, object_key (meta x)) \<and> clean c' i = None"
      by (cases "i = (k, object_key (meta x))") (auto simp: filling_client_def clean_other clean_del) }
  fix x f c r c' i assume s: "\<forall>d v. clean (snd (f d v)) = clean v" and run: "kc_create_or_update ?kc x f c = (r, c')"
  let ?i = "(k, object_key (meta x))"
  define cur where "cur = (case clean c ?i of None \<Rightarrow> x | Some a \<Rightarrow> (case untag a of None \<Rightarrow> x | Some y \<Rightarrow> y))"
  obtain q c1 where f: "f cur c = (q, c1)" by fastforce
  have l: "clean c1 = clean c" using s f by (metis snd_conv)
  have is_cur: "clean c ?i = Some a \<Longrightarrow> a = tag cur" for a using stored [of c "object_key (meta x)" a] by (auto simp: cur_def tag(1))
  show "clean c' i = clean c i \<or> i = ?i \<and> (\<forall>o1. clean c i = Some o1 \<longrightarrow> (\<exists>d v y v'. o1 = tag d \<and> f d v = (Inr y, v')))"
  proof (cases q)
    case (Inl e)
    then have "c' = c1" using run f by (simp add: filling_client_def Let_def flip: cur_def)
    then show ?thesis using l by simp
  next
    case (Inr y)
    then have c': "c' = c1 \<or> c' = c1(?i \<mapsto> tag y)" using run f by (auto simp: filling_client_def Let_def simp flip: cur_def split: if_splits)
    show ?thesis
    proof (cases "i = ?i")
      case True
      then show ?thesis using is_cur f Inr by blast
    next
      case False
      then show ?thesis using c' l clean_other by metis
    qed
  qed
qed

lemma strict_shelters: "shelters kc k tag meta clean \<Longrightarrow> shelters (strict_create k meta kc) k tag meta clean"
  by (simp add: shelters_def strict_create_def)

lemma strict_fresh: "creates_fresh (strict_create k meta (store_client k tag untag meta body)) k meta clean"
  unfolding creates_fresh_def
proof (intro allI impI)
  fix x c r c' i assume "kc_create (strict_create k meta (store_client k tag untag meta body)) x c = (r, c')"
  then show "clean c' i = clean c i \<or> i = (k, object_key (meta x)) \<and> clean c i = None"
    by (cases "i = (k, object_key (meta x))") (auto simp: strict_create_def filling_client_def clean_other split: if_splits)
qed

lemma refusing_orderly: "orderly_server (demo_reconciler\<lparr>rc_env := refusing_cluster\<rparr>) clean"
  unfolding orderly_server_def Let_def
  by (intro conjI allI;
      (simp add: refusing_cluster_def cluster_env_def strict_fresh;
       (rule strict_shelters)?; rule store_shelters; (simp add: kind_cases)?)?)
    (simp_all add: refusing_cluster_def cluster_env_def quiet_env_def quiet_client_def demo_reconciler_def)

definition their_secret :: Secret where
  "their_secret = (empty_secret ''demo-gateway-tokens'' ''prod'')
     \<lparr>sec_Meta := (new_meta ''demo-gateway-tokens'' ''prod'')\<lparr>om_OwnerReferences := [somebody]\<rparr>\<rparr>"

lemma others_never_overwritten_witness:
  "\<exists>inst' w'. run_pipeline refusing_cluster (steps (demo_reconciler\<lparr>rc_env := refusing_cluster\<rparr>)) demo
     (Map.empty(token_id demo \<mapsto> ObjSecret their_secret)) =
       (Some (Wrapped ''reconcile Secret'' (Plain ''already owned'')), inst', w') \<and>
     clean w' (token_id demo) = Some (ObjSecret their_secret)"
proof -
  let ?R = "demo_reconciler\<lparr>rc_env := refusing_cluster\<rparr>" and ?w = "Map.empty(token_id demo \<mapsto> ObjSecret their_secret)"
  have c: "clean ?w (token_id demo) = Some (ObjSecret their_secret)"
    by (simp add: clean_def fits_def their_secret_def object_key_def wf_meta_def new_meta_def name_defs)
  have m: "token_id demo \<notin> unstructured_ids" "token_id demo \<notin> unwanted_ids demo"
    by (simp_all add: unstructured_ids_def unwanted_kinds)
  have t: "by_somebody (hi_ObjectMeta demo) (om_OwnerReferences (meta_of (ObjSecret their_secret)))"
    by (simp add: their_secret_def by_somebody_def)
  have rf: "refuses_others by_somebody (rc_env ?R)" by (simp add: refuses_others_def refusing_cluster_def by_somebody_def)
  have k: "token_id demo = (KSecret, object_key (sec_Meta (empty_secret (GatewayTokenSecretName demo) (inst_ns demo))))"
    by (simp add: empty_secret_def object_key_def new_meta_def)
  have f: "fst (mutate_secret refusing_cluster demo their_secret v) = Inl (Plain ''already owned'') \<and>
      snd (mutate_secret refusing_cluster demo their_secret v) = v" for v
    by (simp add: mutate_secret_def their_secret_def own_def refusing_cluster_def GenerateAPIServerKey_def cluster_env_def quiet_env_def
        merge_annotations_def merge_labels_def empty_secret_def Let_def mget0_def mget_def)
  then have f: "mutate_secret refusing_cluster demo their_secret v = (Inl (Plain ''already owned''), v)" for v
    by (simp add: prod_eq_iff)
  let ?sc = "store_client KSecret ObjSecret (\<lambda>a. case a of ObjSecret x \<Rightarrow> Some x | _ \<Rightarrow> None) sec_Meta secret_body"
  have cu: "kc_create_or_update (env_secrets refusing_cluster) = kc_create_or_update ?sc"
    by (simp add: refusing_cluster_def strict_create_def cluster_env_def)
  have "kc_create_or_update ?sc (empty_secret (GatewayTokenSecretName demo) (inst_ns demo)) (mutate_secret refusing_cluster demo) ?w =
      (Some (Plain ''already owned''), ?w)"
    using c f unfolding k by (simp add: filling_client_def)
  then have s: "reconcileSecret refusing_cluster demo ?w = (Some (Plain ''already owned''), ?w)"
    unfolding reconcileSecret_def cu .
  have st: "steps ?R = (''Secret'', ConditionTypeSecretsReady, reading (reconcileSecret refusing_cluster)) # tl (steps ?R)"
    by (simp add: steps_def resource_steps_def Let_def)
  obtain q i' w' where u: "status_update refusing_cluster (setCondition refusing_cluster demo ConditionTypeSecretsReady ConditionFalse ''Error''
      (err_text (Plain ''already owned'')) ?w) ?w = (q, i', w')" by (metis prod_cases3)
  have "run_pipeline refusing_cluster (steps ?R) demo ?w = (Some (Wrapped ''reconcile Secret'' (Plain ''already owned'')), i', w')"
    by (subst st) (simp only: run_pipeline.simps reading_def s u prod.case option.case is_panic_simps if_False append.simps)
  moreover from this have "clean w' (token_id demo) = Some (ObjSecret their_secret)"
    using others_never_overwritten [where R = ?R and look = clean and inst = demo and w = ?w, OF refusing_orderly rf _ m(1) c t] m(2)
    by simp
  ultimately show ?thesis by blast
qed

text \<open>A label of somebody else on the token Secret survives.\<close>

definition their_label :: Secret where
  "their_label = (empty_secret ''demo-gateway-tokens'' ''prod'')
     \<lparr>sec_Meta := (new_meta ''demo-gateway-tokens'' ''prod'')\<lparr>om_Labels := [(''team'', ''blue'')]\<rparr>\<rparr>"

lemma foreign_metadata_kept_witness:
  "\<exists>i' w' y. run_pipeline cluster_env (resource_steps demo_reconciler) demo (Map.empty(token_id demo \<mapsto> ObjSecret their_label)) = (None, i', w') \<and>
     clean w' (token_id demo) = Some y \<and> map_of (om_Labels (meta_of y)) ''team'' = Some ''blue''"
proof -
  let ?w = "Map.empty(token_id demo \<mapsto> ObjSecret their_label)"
  obtain i' w' where r: "run_pipeline (rc_env demo_reconciler) (resource_steps demo_reconciler) demo ?w = (None, i', w')"
    unfolding demo_reconciler_simps using plain_succeeds by blast
  have api: "api_server exact (rc_env demo_reconciler) clean" by (simp add: cluster_api)
  have c: "clean ?w (token_id demo) = Some (ObjSecret their_label)"
    by (simp add: clean_def fits_def their_label_def object_key_def wf_meta_def new_meta_def name_defs)
  have "secret_reached demo (clean w')"
    using pass_goals(1) [OF api plain_maps r] unfolding desired_state_def by (rule conjunct1)
  then obtain y where y: "clean w' (token_id demo) = Some (ObjSecret y)"
    by (auto simp: secret_reached_def)
  have k: "\<not> HasPrefix ''team'' operatorLabelPrefix" "''team'' \<notin> own_label_keys demo"
    by (simp_all add: own_label_keys_def LabelsForInstance_def HonchoLabels_def dashboard_labels_def zero_defs HasPrefix_def mset1_def)
  have "map_of (om_Labels (meta_of (ObjSecret y))) ''team'' = Some ''blue''"
  proof -
    have "map_of (om_Labels (meta_of (ObjSecret their_label))) ''team'' = Some ''blue''"
      by (simp add: their_label_def new_meta_def)
    then show ?thesis
      using foreign_metadata_kept [where R = demo_reconciler and look = clean and inst = demo and w = ?w and k = "''team''",
          OF api plain_maps r c y k(1), THEN conjunct1, THEN mp, OF k(2)] by (rule trans [rotated])
  qed
  with r y show ?thesis unfolding demo_reconciler_simps by blast
qed

text \<open>
  The unstructured objects: the callback overwrites the owners, and \<open>SetControllerReference\<close> has only
  seen the object built beforehand, so whoever controlled the object has lost it.
\<close>

lemma unstructured_taken_over:
  assumes api: "api_server N E look" and wf: "wf_meta (un_Meta d)" and run: "apply_unstructured E inst a d w = (None, w')"
  shows "\<exists>m z. env_set_owner E inst (un_Meta d) = Inr m \<and> look w' (KUnstructured (un_GVK d), object_key (un_Meta d)) = Some (ObjUnstructured z) \<and>
    om_OwnerReferences (un_Meta z) = om_OwnerReferences m"
proof -
  let ?x = "\<lparr>un_GVK = un_GVK d, un_Meta = new_meta (om_Name (un_Meta d)) (om_Namespace (un_Meta d)), un_Spec = JNull\<rparr>"
  from run obtain m where m: "env_set_owner E inst (un_Meta d) = Inr m"
    "kc_create_or_update (env_unstructured E (un_GVK d)) ?x (mutate_unstructured a (d\<lparr>un_Meta := m\<rparr>)) w = (None, w')"
    by (auto simp: apply_unstructured_def split: sum.splits)
  have wm: "wf_meta (un_Meta (d\<lparr>un_Meta := m\<rparr>))" using wf owner_apiD [OF api_serves(15) [OF api] m(1)] by (simp add: wf_meta_def)
  have wx: "wf_meta (un_Meta ?x)" by simp
  have k: "object_key (un_Meta ?x) = object_key (un_Meta d)" by (simp add: object_key_def new_meta_def)
  obtain cur w1 y w2 z where "mutate_unstructured a (d\<lparr>un_Meta := m\<rparr>) cur w1 = (Inr y, w2)" "keeps un_Meta (df_unstructured N (un_GVK d) \<circ> un_Spec) y z"
    "look w' = (look w2)((KUnstructured (un_GVK d), object_key (un_Meta ?x)) \<mapsto> ObjUnstructured z)"
    by (rule serves_updateE [OF api_serves(12) [OF api] unstructured_keyed [OF wm] wx m(2)])
  then show ?thesis using m(1) k by (auto simp: unstructured_callback keeps_def)
qed

end
