(* ===== verification/GoHeap.thy ===== *)
theory GoHeap
  imports Prelude "HOL-Library.AList"
begin

section \<open>Pointers, slices and maps of Go\<close>

text \<open>
  The other theories model the values of the program; this one models the memory behind them, for
  the code whose business is which memory two values share: the deep copies of
  \<open>api/v1/zz_generated.deepcopy.go\<close> (theory \<open>DeepCopy\<close>). A Go value is a basic value (its contents are
  opaque here), a struct with its fields, or a reference: a pointer, a slice or a map, each nil or
  the address of a cell. Memory is a partial function from addresses below a limit to cells: a
  variable, the array behind a slice, or the table behind a map, its entries in the order in which
  \<open>range\<close> meets them. A slice is taken to be all of its array, as nothing here slices one.

  Then come the statements the generated code consists of, the description of a type by where it has
  references, the copy a description calls for, and what it means to be a deep copy: the contents are
  those of the original, and no cell is reachable from the copy that existed before.
\<close>

subsection \<open>Values and memory\<close>

type_synonym addr = nat

datatype gval =
    Basic string
  | GStruct "string \<Rightarrow> gval"
  | Ptr "addr option"
  | Slice "addr option"
  | MapRef "addr option"

datatype cell = Var gval | Arr "gval list" | Dict "(string \<times> gval) list"

record memory =
  mem :: "addr \<Rightarrow> cell option"
  brk :: addr

text \<open>What \<open>new\<close> and \<open>make\<close> put into a cell; every copy overwrites it before anything reads it.\<close>

definition zero :: gval where
  "zero = Basic ''''"

definition alloc :: "cell \<Rightarrow> memory \<Rightarrow> addr \<times> memory" where
  "alloc c h = (brk h, h\<lparr>mem := (mem h)(brk h \<mapsto> c), brk := Suc (brk h)\<rparr>)"

definition poke :: "addr \<Rightarrow> cell \<Rightarrow> memory \<Rightarrow> memory" where
  "poke a c h = h\<lparr>mem := (mem h)(a \<mapsto> c)\<rparr>"

definition var_at :: "memory \<Rightarrow> addr \<Rightarrow> gval" where
  "var_at h a = (case mem h a of Some (Var v) \<Rightarrow> v | _ \<Rightarrow> zero)"

definition arr_at :: "memory \<Rightarrow> addr \<Rightarrow> gval list" where
  "arr_at h a = (case mem h a of Some (Arr xs) \<Rightarrow> xs | _ \<Rightarrow> [])"

definition dict_at :: "memory \<Rightarrow> addr \<Rightarrow> (string \<times> gval) list" where
  "dict_at h a = (case mem h a of Some (Dict kvs) \<Rightarrow> kvs | _ \<Rightarrow> [])"

subsection \<open>The statements of a generated copy\<close>

text \<open>
  A statement copies one place of \<open>in\<close> to the same place of \<open>out\<close>, which holds the same value since
  \<open>*out = *in\<close>: so where the code guards with \<open>in.F != nil\<close> and does nothing, \<open>out.F\<close> is nil too. A
  copier maps the value at \<open>in\<close> to the one at \<open>out\<close>.
\<close>

type_synonym copier = "gval \<Rightarrow> memory \<Rightarrow> gval \<times> memory"

text \<open>The \<open>DeepCopyInto\<close> of the types of other modules, by name.\<close>

type_synonym externals = "string \<Rightarrow> copier"

definition assign :: copier where
  "assign v h = (v, h)"

definition new_into :: "copier \<Rightarrow> copier" where
  "new_into c v h = (case v of
     Ptr (Some a) \<Rightarrow>
       (let (b, h1) = alloc (Var zero) h;
            (w, h2) = c (var_at h a) h1
        in (Ptr (Some b), poke b (Var w) h2))
   | _ \<Rightarrow> (v, h))"

definition new_flat :: copier where
  "new_flat v h = (case v of
     Ptr (Some a) \<Rightarrow>
       (let (b, h1) = alloc (Var zero) h
        in (Ptr (Some b), poke b (Var (var_at h a)) h1))
   | _ \<Rightarrow> (v, h))"

fun copy_elems :: "copier \<Rightarrow> gval list \<Rightarrow> memory \<Rightarrow> gval list \<times> memory" where
  "copy_elems c [] h = ([], h)"
| "copy_elems c (x # xs) h =
     (let (y, h1) = c x h; (ys, h2) = copy_elems c xs h1 in (y # ys, h2))"

definition slice_into :: "copier \<Rightarrow> copier" where
  "slice_into c v h = (case v of
     Slice (Some a) \<Rightarrow>
       (let (b, h1) = alloc (Arr (replicate (length (arr_at h a)) zero)) h;
            (ys, h2) = copy_elems c (arr_at h a) h1
        in (Slice (Some b), poke b (Arr ys) h2))
   | _ \<Rightarrow> (v, h))"

definition slice_copy :: copier where
  "slice_copy v h = (case v of
     Slice (Some a) \<Rightarrow>
       (let (b, h1) = alloc (Arr (replicate (length (arr_at h a)) zero)) h
        in (Slice (Some b), poke b (Arr (arr_at h a)) h1))
   | _ \<Rightarrow> (v, h))"

fun copy_entries ::
  "copier \<Rightarrow> (string \<times> gval) list \<Rightarrow> (string \<times> gval) list \<Rightarrow> memory \<Rightarrow>
   (string \<times> gval) list \<times> memory" where
  "copy_entries c [] out h = (out, h)"
| "copy_entries c ((k, x) # kvs) out h =
     (let (y, h1) = c x h in copy_entries c kvs (AList.update k y out) h1)"

definition map_into :: "copier \<Rightarrow> copier" where
  "map_into c v h = (case v of
     MapRef (Some a) \<Rightarrow>
       (let (b, h1) = alloc (Dict []) h;
            (kvs, h2) = copy_entries c (dict_at h a) [] h1
        in (MapRef (Some b), poke b (Dict kvs) h2))
   | _ \<Rightarrow> (v, h))"

definition map_copy :: copier where
  "map_copy = map_into assign"

text \<open>\<open>*out = *in\<close>, then one statement per field named.\<close>

fun run_fields ::
  "(string \<times> copier) list \<Rightarrow> (string \<Rightarrow> gval) \<Rightarrow> (string \<Rightarrow> gval) \<Rightarrow> memory \<Rightarrow>
   (string \<Rightarrow> gval) \<times> memory" where
  "run_fields [] inp out h = (out, h)"
| "run_fields ((f, c) # cs) inp out h =
     (let (w, h1) = c (inp f) h in run_fields cs inp (out(f := w)) h1)"

definition struct_into :: "(string \<times> copier) list \<Rightarrow> copier" where
  "struct_into cs v h = (case v of
     GStruct inp \<Rightarrow> (let (out, h') = run_fields cs inp inp h in (GStruct out, h'))
   | _ \<Rightarrow> (v, h))"

text \<open>\<open>DeepCopy\<close>: nil for nil, else a new variable that \<open>DeepCopyInto\<close> fills.\<close>

definition deep_copy :: "copier \<Rightarrow> copier" where
  "deep_copy into v h = (case v of
     Ptr (Some a) \<Rightarrow>
       (let (out, h1) = alloc (Var zero) h;
            (w, h2) = into (var_at h a) h1
        in (Ptr (Some out), poke out (Var w) h2))
   | _ \<Rightarrow> (v, h))"

text \<open>
  \<open>DeepCopyObject\<close> returns an interface value: None is the nil interface, which an interface that
  holds a nil pointer is not.
\<close>

definition deep_copy_object :: "copier \<Rightarrow> gval \<Rightarrow> memory \<Rightarrow> gval option \<times> memory" where
  "deep_copy_object copy v h = (case copy v h of
     (Ptr None, h') \<Rightarrow> (None, h')
   | (c, h') \<Rightarrow> (Some c, h'))"

subsection \<open>Types by where they have references\<close>

text \<open>
  A type is a basic one, a struct with the types of its fields (a field not listed has a type without
  references), a pointer, slice or map over another type, or a type of another module, by name.
  \<open>copy_shape\<close> is the copy a type calls for; \<open>E\<close> holds the copiers of the other modules.
\<close>

datatype gotype =
    Flat
  | Struct "(string \<times> gotype) list"
  | PtrTo gotype
  | SliceOf gotype
  | MapOf gotype
  | Ext string

fun copy_shape :: "externals \<Rightarrow> gotype \<Rightarrow> copier"
and copy_fields ::
  "externals \<Rightarrow> (string \<times> gotype) list \<Rightarrow> (string \<Rightarrow> gval) \<Rightarrow> (string \<Rightarrow> gval) \<Rightarrow>
   memory \<Rightarrow> (string \<Rightarrow> gval) \<times> memory" where
  "copy_shape E Flat v h = (v, h)"
| "copy_shape E (Struct fs) v h = (case v of
     GStruct inp \<Rightarrow> (let (out, h') = copy_fields E fs inp inp h in (GStruct out, h'))
   | _ \<Rightarrow> (v, h))"
| "copy_shape E (PtrTo s) v h = new_into (copy_shape E s) v h"
| "copy_shape E (SliceOf s) v h = slice_into (copy_shape E s) v h"
| "copy_shape E (MapOf s) v h = map_into (copy_shape E s) v h"
| "copy_shape E (Ext n) v h = E n v h"
| "copy_fields E [] inp out h = (out, h)"
| "copy_fields E ((f, s) # fs) inp out h =
     (if s = Flat then copy_fields E fs inp out h
      else let (w, h1) = copy_shape E s (inp f) h in copy_fields E fs inp (out(f := w)) h1)"

text \<open>The values of a type in a memory: \<open>ES\<close> tells those of the types of other modules.\<close>

primrec refs :: "gval \<Rightarrow> addr set" where
  "refs (Basic s) = {}"
| "refs (GStruct vs) = (\<Union>f. refs (vs f))"
| "refs (Ptr a) = set_option a"
| "refs (Slice a) = set_option a"
| "refs (MapRef a) = set_option a"

fun shaped :: "(string \<Rightarrow> memory \<Rightarrow> gval \<Rightarrow> bool) \<Rightarrow> gotype \<Rightarrow> memory \<Rightarrow> gval \<Rightarrow> bool"
and shaped_fields ::
  "(string \<Rightarrow> memory \<Rightarrow> gval \<Rightarrow> bool) \<Rightarrow> (string \<times> gotype) list \<Rightarrow> memory \<Rightarrow> (string \<Rightarrow> gval) \<Rightarrow> bool"
where
  "shaped ES Flat h v \<longleftrightarrow> refs v = {}"
| "shaped ES (Struct fs) h v \<longleftrightarrow>
     (\<exists>vs. v = GStruct vs \<and> shaped_fields ES fs h vs \<and>
       (\<forall>f. f \<notin> fst ` set fs \<longrightarrow> refs (vs f) = {}))"
| "shaped ES (PtrTo s) h v \<longleftrightarrow>
     v = Ptr None \<or> (\<exists>a w. v = Ptr (Some a) \<and> mem h a = Some (Var w) \<and> shaped ES s h w)"
| "shaped ES (SliceOf s) h v \<longleftrightarrow>
     v = Slice None \<or>
     (\<exists>a xs. v = Slice (Some a) \<and> mem h a = Some (Arr xs) \<and> (\<forall>x\<in>set xs. shaped ES s h x))"
| "shaped ES (MapOf s) h v \<longleftrightarrow>
     v = MapRef None \<or>
     (\<exists>a kvs. v = MapRef (Some a) \<and> mem h a = Some (Dict kvs) \<and> distinct (map fst kvs) \<and>
       (\<forall>x\<in>snd ` set kvs. shaped ES s h x))"
| "shaped ES (Ext n) h v \<longleftrightarrow> ES n h v"
| "shaped_fields ES [] h vs \<longleftrightarrow> True"
| "shaped_fields ES ((f, s) # fs) h vs \<longleftrightarrow> shaped ES s h (vs f) \<and> shaped_fields ES fs h vs"

subsection \<open>Deep copies\<close>

text \<open>
  The contents of a value in a memory, as a tree without addresses. A relation, for a memory may
  hold cycles and dangling references; it is functional, and defined for the values of a type.
\<close>

datatype tree =
    TBasic string
  | TNil
  | TStruct "string \<Rightarrow> tree"
  | TPtr tree
  | TSlice "tree list"
  | TMap "(string \<times> tree) list"

inductive reads :: "memory \<Rightarrow> gval \<Rightarrow> tree \<Rightarrow> bool" for h where
  read_basic: "reads h (Basic s) (TBasic s)"
| read_struct: "(\<And>f. reads h (vs f) (ts f)) \<Longrightarrow> reads h (GStruct vs) (TStruct ts)"
| read_nil_ptr: "reads h (Ptr None) TNil"
| read_nil_slice: "reads h (Slice None) TNil"
| read_nil_map: "reads h (MapRef None) TNil"
| read_ptr: "mem h a = Some (Var v) \<Longrightarrow> reads h v t \<Longrightarrow> reads h (Ptr (Some a)) (TPtr t)"
| read_slice: "mem h a = Some (Arr xs) \<Longrightarrow> list_all2 (reads h) xs ts \<Longrightarrow>
    reads h (Slice (Some a)) (TSlice ts)"
| read_map: "mem h a = Some (Dict kvs) \<Longrightarrow> list_all2 (rel_prod (=) (reads h)) kvs kts \<Longrightarrow>
    reads h (MapRef (Some a)) (TMap kts)"

fun cell_values :: "cell option \<Rightarrow> gval set" where
  "cell_values None = {}"
| "cell_values (Some (Var v)) = {v}"
| "cell_values (Some (Arr xs)) = set xs"
| "cell_values (Some (Dict kvs)) = snd ` set kvs"

definition cell_refs :: "memory \<Rightarrow> addr \<Rightarrow> addr set" where
  "cell_refs h a = (\<Union>v\<in>cell_values (mem h a). refs v)"

inductive reach :: "memory \<Rightarrow> gval \<Rightarrow> addr \<Rightarrow> bool" for h v where
  root: "a \<in> refs v \<Longrightarrow> reach h v a"
| step: "reach h v a \<Longrightarrow> b \<in> cell_refs h a \<Longrightarrow> reach h v b"

definition memory_ok :: "memory \<Rightarrow> bool" where
  "memory_ok h \<longleftrightarrow> (\<forall>a. brk h \<le> a \<longrightarrow> mem h a = None)"

text \<open>
  \<open>grown h h'\<close>: code ran from \<open>h\<close> to \<open>h'\<close> that wrote to cells of its own only, and these lead to
  each other only.
\<close>

abbreviation new_cells :: "memory \<Rightarrow> memory \<Rightarrow> addr set" where
  "new_cells h h' \<equiv> {brk h ..< brk h'}"

definition grown :: "memory \<Rightarrow> memory \<Rightarrow> bool" where
  "grown h h' \<longleftrightarrow> memory_ok h' \<and> brk h \<le> brk h' \<and> (\<forall>a<brk h. mem h' a = mem h a) \<and>
     (\<forall>a\<in>new_cells h h'. cell_refs h' a \<subseteq> new_cells h h')"

definition copies :: "(memory \<Rightarrow> gval \<Rightarrow> bool) \<Rightarrow> copier \<Rightarrow> bool" where
  "copies P c \<longleftrightarrow> (\<forall>h v. memory_ok h \<longrightarrow> P h v \<longrightarrow>
     (case c v h of (w, h') \<Rightarrow>
        grown h h' \<and> refs w \<subseteq> new_cells h h' \<and> (\<forall>t. reads h v t \<longrightarrow> reads h' w t)))"

subsection \<open>Memory that only grows\<close>

named_theorems heap_simps
declare alloc_def [heap_simps] poke_def [heap_simps]

lemma grown_refl [simp]: "grown h h \<longleftrightarrow> memory_ok h"
  by (simp add: grown_def)

lemma grown_ok: "grown h h' \<Longrightarrow> memory_ok h'"
  by (simp add: grown_def)

lemma grown_brk: "grown h h' \<Longrightarrow> brk h \<le> brk h'"
  by (simp add: grown_def)

lemma grown_old: "grown h h' \<Longrightarrow> a < brk h \<Longrightarrow> mem h' a = mem h a"
  by (simp add: grown_def)

lemma cell_refs_cong: "mem h' a = mem h a \<Longrightarrow> cell_refs h' a = cell_refs h a"
  by (simp add: cell_refs_def)

lemma grown_trans:
  assumes "grown h h1" "grown h1 h2"
  shows "grown h h2"
proof -
  have b: "brk h \<le> brk h1" "brk h1 \<le> brk h2"
    using assms by (auto dest: grown_brk)
  have "cell_refs h2 a \<subseteq> new_cells h h2" if "a \<in> new_cells h h2" for a
  proof (cases "a < brk h1")
    case True
    then have "cell_refs h2 a = cell_refs h1 a"
      by (intro cell_refs_cong grown_old [OF assms(2)])
    moreover have "cell_refs h1 a \<subseteq> new_cells h h1"
      using assms(1) that True by (simp add: grown_def)
    ultimately show ?thesis
      using b by fastforce
  next
    case False
    then have "cell_refs h2 a \<subseteq> new_cells h1 h2"
      using assms(2) that by (simp add: grown_def)
    then show ?thesis
      using b by fastforce
  qed
  moreover have "mem h2 a = mem h a" if "a < brk h" for a
    using assms b that grown_old [of h h1 a] grown_old [of h1 h2 a] by simp
  ultimately show ?thesis
    using assms(2) b by (simp add: grown_def)
qed

lemma grown_alloc:
  assumes "memory_ok h" "(\<Union>v\<in>cell_values (Some c). refs v) = {}"
  shows "grown h (snd (alloc c h))"
  using assms by (auto simp: grown_def memory_ok_def alloc_def cell_refs_def)

lemma grown_poke:
  assumes "grown h h'" "a \<in> new_cells h h'"
    and "(\<Union>v\<in>cell_values (Some c). refs v) \<subseteq> new_cells h h'"
  shows "grown h (poke a c h')"
  using assms by (auto simp: grown_def memory_ok_def poke_def cell_refs_def)

text \<open>What a value reads depends only on the cells it leads to.\<close>

lemma reads_agree:
  assumes "reads h v t" "refs v \<subseteq> S"
    and "\<And>a. a \<in> S \<Longrightarrow> mem h' a = mem h a \<and> cell_refs h a \<subseteq> S"
  shows "reads h' v t"
  using assms(1,2)
proof (induction rule: reads.induct)
  case (read_struct vs ts)
  then show ?case
    by (intro reads.read_struct) (auto simp: UN_subset_iff)
next
  case (read_ptr a v t)
  then have "mem h' a = Some (Var v)" "refs v \<subseteq> S"
    using assms(3) [of a] by (auto simp: cell_refs_def)
  then show ?case
    using read_ptr by (intro reads.read_ptr)
next
  case (read_slice a xs ts)
  then have a: "mem h' a = Some (Arr xs)" "\<forall>x\<in>set xs. refs x \<subseteq> S"
    using assms(3) [of a] by (auto simp: cell_refs_def)
  have "list_all2 (reads h') xs ts"
    by (rule list.rel_mono_strong [OF read_slice(2)]) (use a(2) in blast)
  then show ?case
    using a(1) by (intro reads.read_slice)
next
  case (read_map a kvs kts)
  then have a: "mem h' a = Some (Dict kvs)" "\<forall>p\<in>set kvs. refs (snd p) \<subseteq> S"
    using assms(3) [of a] by (auto simp: cell_refs_def)
  have "list_all2 (rel_prod (=) (reads h')) kvs kts"
    by (rule list.rel_mono_strong [OF read_map(2)]) (use a(2) in \<open>auto simp: rel_prod_sel\<close>)
  then show ?case
    using a(1) by (intro reads.read_map)
qed (auto intro: reads.intros)

lemma reads_grown:
  assumes "reads h v t" "memory_ok h" "grown h h'"
  shows "reads h' v t"
proof -
  have old: "mem h' a = Some c" if "mem h a = Some c" for a c
  proof -
    have "a < brk h"
      using that assms(2) by (rule_tac ccontr) (simp add: memory_ok_def)
    then show ?thesis
      using that grown_old [OF assms(3)] by simp
  qed
  from assms(1) show ?thesis
  proof (induction rule: reads.induct)
    case (read_slice a xs ts)
    have "list_all2 (reads h') xs ts"
      by (rule list.rel_mono_strong [OF read_slice(2)]) blast
    then show ?case
      using old read_slice(1) by (intro reads.read_slice)
  next
    case (read_map a kvs kts)
    have "list_all2 (rel_prod (=) (reads h')) kvs kts"
      by (rule list.rel_mono_strong [OF read_map(2)]) (auto simp: rel_prod_sel)
    then show ?case
      using old read_map(1) by (intro reads.read_map)
  qed (auto intro: reads.intros old)
qed

inductive_cases reads_basicE: "reads h (Basic s) t"
inductive_cases reads_structE: "reads h (GStruct vs) t"
inductive_cases reads_ptrE: "reads h (Ptr a) t"
inductive_cases reads_sliceE: "reads h (Slice a) t"
inductive_cases reads_mapE: "reads h (MapRef a) t"

lemma reads_unique: "reads h v t \<Longrightarrow> reads h v u \<Longrightarrow> u = t"
proof (induction arbitrary: u rule: reads.induct)
  case (read_struct vs ts)
  from read_struct.prems obtain us where u: "u = TStruct us" "\<And>f. reads h (vs f) (us f)"
    by (auto elim: reads_structE)
  then have "us = ts"
    using read_struct.IH by (intro ext) blast
  then show ?case
    by (simp add: u(1))
next
  case (read_slice a xs ts)
  from read_slice.prems read_slice.hyps obtain us where u: "u = TSlice us" "list_all2 (reads h) xs us"
    by (auto elim: reads_sliceE)
  have "us = ts"
    using read_slice.IH u(2)
    by (intro list.rel_eq [THEN fun_cong, THEN fun_cong, THEN iffD1])
      (auto simp: list_all2_conv_all_nth)
  then show ?case
    by (simp add: u(1))
next
  case (read_map a kvs kts)
  from read_map.prems read_map.hyps obtain us where
    u: "u = TMap us" "list_all2 (rel_prod (=) (reads h)) kvs us"
    by (auto elim: reads_mapE)
  have "us = kts"
    using read_map.IH u(2)
    by (intro list.rel_eq [THEN fun_cong, THEN fun_cong, THEN iffD1])
      (auto simp: list_all2_conv_all_nth rel_prod_sel prod_eq_iff)
  then show ?case
    by (simp add: u(1))
next
  case (read_ptr a v t)
  from read_ptr.prems read_ptr.hyps obtain t' where "u = TPtr t'" "reads h v t'"
    by (auto elim: reads_ptrE)
  then show ?case
    using read_ptr.IH by simp
qed (auto elim: reads_basicE reads_ptrE reads_sliceE reads_mapE)

lemma reach_new_cells:
  assumes "reach h' v a" "refs v \<subseteq> new_cells h h'" "grown h h'"
  shows "a \<in> new_cells h h'"
  using assms
proof (induction rule: reach.induct)
  case (step a b)
  then show ?case
    by (force simp: grown_def)
qed auto

subsection \<open>The statements make deep copies of deep copies\<close>

definition growth_stable :: "(memory \<Rightarrow> gval \<Rightarrow> bool) \<Rightarrow> bool" where
  "growth_stable P \<longleftrightarrow> (\<forall>h h' v. memory_ok h \<longrightarrow> grown h h' \<longrightarrow> P h v \<longrightarrow> P h' v)"

definition readable :: "(memory \<Rightarrow> gval \<Rightarrow> bool) \<Rightarrow> bool" where
  "readable P \<longleftrightarrow> (\<forall>h v. P h v \<longrightarrow> (\<exists>t. reads h v t))"

lemma copiesD:
  assumes "copies P c" "memory_ok h" "P h v" "c v h = (w, h')"
  shows "grown h h'" "refs w \<subseteq> new_cells h h'" "reads h v t \<Longrightarrow> reads h' w t"
  using assms unfolding copies_def by fastforce+

lemma copiesI:
  assumes "\<And>h v w h'. memory_ok h \<Longrightarrow> P h v \<Longrightarrow> c v h = (w, h') \<Longrightarrow>
    grown h h' \<and> refs w \<subseteq> new_cells h h' \<and> (\<forall>t. reads h v t \<longrightarrow> reads h' w t)"
  shows "copies P c"
  using assms unfolding copies_def by (auto split: prod.split)

lemma growth_stableD: "growth_stable P \<Longrightarrow> memory_ok h \<Longrightarrow> grown h h' \<Longrightarrow> P h v \<Longrightarrow> P h' v"
  unfolding growth_stable_def by blast

text \<open>A cell allocated, its contents copied, then filled with them.\<close>

lemma fresh_cell:
  assumes ok: "memory_ok h" and "alloc c0 h = (b, h1)" "(\<Union>v\<in>cell_values (Some c0). refs v) = {}"
    and h2: "grown h1 h2" and c: "(\<Union>v\<in>cell_values (Some c). refs v) \<subseteq> new_cells h1 h2"
  shows "grown h h1" "grown h (poke b c h2)" "b \<in> new_cells h (poke b c h2)"
    "mem (poke b c h2) b = Some c"
    "refs x \<subseteq> new_cells h1 h2 \<Longrightarrow> reads h2 x t \<Longrightarrow> reads (poke b c h2) x t"
proof -
  show h1: "grown h h1"
    using grown_alloc [OF ok assms(3)] assms(2) by simp
  have b: "b = brk h" "brk h1 = Suc (brk h)" "b \<in> new_cells h h2" "b \<notin> new_cells h1 h2"
    using assms(2) grown_brk [OF h2] by (auto simp: heap_simps)
  have "new_cells h1 h2 \<subseteq> new_cells h h2"
    using b by auto
  then show "grown h (poke b c h2)"
    using grown_trans [OF h1 h2] b(3) c by (intro grown_poke) auto
  show "b \<in> new_cells h (poke b c h2)" "mem (poke b c h2) b = Some c"
    using b(3) by (simp_all add: poke_def)
  show "reads (poke b c h2) x t" if "refs x \<subseteq> new_cells h1 h2" "reads h2 x t"
  proof (rule reads_agree [OF that(2,1)])
    fix a assume "a \<in> new_cells h1 h2"
    then show "mem (poke b c h2) a = mem h2 a \<and> cell_refs h2 a \<subseteq> new_cells h1 h2"
      using b(4) h2 by (auto simp: poke_def grown_def)
  qed
qed

lemma copies_new_into:
  assumes "copies P c" "growth_stable P"
  shows "copies (\<lambda>h v. v = Ptr None \<or> (\<exists>a w. v = Ptr (Some a) \<and> mem h a = Some (Var w) \<and> P h w))
    (new_into c)"
proof (rule copiesI, erule disjE)
  fix h v r h'
  assume ok: "memory_ok h" and run: "new_into c v h = (r, h')"
  {
    assume "v = Ptr None"
    then show "grown h h' \<and> refs r \<subseteq> new_cells h h' \<and> (\<forall>t. reads h v t \<longrightarrow> reads h' r t)"
      using ok run by (auto simp: new_into_def)
  next
    assume "\<exists>a w. v = Ptr (Some a) \<and> mem h a = Some (Var w) \<and> P h w"
    then obtain a w where v: "v = Ptr (Some a)" "mem h a = Some (Var w)" "P h w"
      by blast
    obtain b h1 where al: "alloc (Var zero) h = (b, h1)"
      by fastforce
    obtain x h2 where cp: "c w h1 = (x, h2)"
      by fastforce
    have r: "r = Ptr (Some b)" "h' = poke b (Var x) h2"
      using run v al cp by (auto simp: new_into_def var_at_def)
    have h1: "grown h h1"
      using grown_alloc [OF ok, of "Var zero"] al by (simp add: zero_def)
    note ok1 = grown_ok [OF h1] and w = growth_stableD [OF assms(2) ok h1 v(3)]
    note c = copiesD [OF assms(1) ok1 w cp]
    have fc: "(\<Union>v\<in>cell_values (Some (Var x)). refs v) \<subseteq> new_cells h1 h2"
      using c(2) by simp
    have z: "(\<Union>v\<in>cell_values (Some (Var zero)). refs v) = {}"
      by (simp add: zero_def)
    note f = fresh_cell [OF ok al z c(1) fc]
    have "reads h' r t" if t: "reads h v t" for t
    proof -
      from t v(2) obtain t' where t': "t = TPtr t'" "reads h w t'"
        unfolding v(1) by (auto elim: reads_ptrE)
      have "reads h' x t'"
        unfolding r(2) by (rule f(5) [OF c(2) c(3) [OF reads_grown [OF t'(2) ok h1]]])
      then show ?thesis
        unfolding r(1) t'(1) by (rule reads.read_ptr [rotated]) (simp add: r(2) f(4))
    qed
    then show "grown h h' \<and> refs r \<subseteq> new_cells h h' \<and> (\<forall>t. reads h v t \<longrightarrow> reads h' r t)"
      using f(2,3) by (simp add: r)
  }
qed

lemma copy_elems_copies:
  assumes c: "copies P c" and st: "growth_stable P"
  shows "memory_ok h \<Longrightarrow> \<forall>x\<in>set xs. P h x \<Longrightarrow> copy_elems c xs h = (ys, h') \<Longrightarrow>
    grown h h' \<and> (\<forall>y\<in>set ys. refs y \<subseteq> new_cells h h') \<and>
    (\<forall>ts. list_all2 (reads h) xs ts \<longrightarrow> list_all2 (reads h') ys ts)"
proof (induction xs arbitrary: h ys)
  case (Cons x xs)
  obtain y h1 where y: "c x h = (y, h1)"
    by fastforce
  obtain zs where zs: "copy_elems c xs h1 = (zs, h')" "ys = y # zs"
    using Cons.prems(3) y by (auto split: prod.splits)
  note cx = copiesD [OF c Cons.prems(1) _ y]
  have h1: "grown h h1" "refs y \<subseteq> new_cells h h1" "\<And>t. reads h x t \<Longrightarrow> reads h1 y t"
    using cx Cons.prems(2) by auto
  have P1: "\<forall>x\<in>set xs. P h1 x"
    using Cons.prems(1,2) growth_stableD [OF st _ h1(1)] by auto
  have IH: "grown h1 h'" "\<forall>y\<in>set zs. refs y \<subseteq> new_cells h1 h'"
    "\<And>ts. list_all2 (reads h1) xs ts \<Longrightarrow> list_all2 (reads h') zs ts"
    using Cons.IH [OF grown_ok [OF h1(1)] P1 zs(1)] by auto
  have brks: "brk h \<le> brk h1" "brk h1 \<le> brk h'"
    using h1(1) IH(1) by (auto dest: grown_brk)
  have "list_all2 (reads h') ys ts" if "list_all2 (reads h) (x # xs) ts" for ts
  proof -
    from that obtain t us where ts: "ts = t # us" "reads h x t" "list_all2 (reads h) xs us"
      by (auto simp: list_all2_Cons1)
    have "list_all2 (reads h1) xs us"
      by (rule list.rel_mono_strong [OF ts(3)]) (rule reads_grown [OF _ Cons.prems(1) h1(1)])
    moreover have "reads h' y t"
      by (rule reads_grown [OF h1(3) [OF ts(2)] grown_ok [OF h1(1)] IH(1)])
    ultimately show ?thesis
      using IH(3) by (simp add: ts(1) zs(2))
  qed
  moreover have "\<forall>y\<in>set ys. refs y \<subseteq> new_cells h h'"
    using h1(2) IH(2) brks unfolding zs(2) by fastforce
  ultimately show ?case
    using grown_trans [OF h1(1) IH(1)] by blast
qed auto

lemma copies_slice_into:
  assumes "copies P c" "growth_stable P"
  shows "copies (\<lambda>h v. v = Slice None \<or>
      (\<exists>a xs. v = Slice (Some a) \<and> mem h a = Some (Arr xs) \<and> (\<forall>x\<in>set xs. P h x)))
    (slice_into c)"
proof (rule copiesI, erule disjE)
  fix h v r h'
  assume ok: "memory_ok h" and run: "slice_into c v h = (r, h')"
  {
    assume "v = Slice None"
    then show "grown h h' \<and> refs r \<subseteq> new_cells h h' \<and> (\<forall>t. reads h v t \<longrightarrow> reads h' r t)"
      using ok run by (auto simp: slice_into_def)
  next
    assume "\<exists>a xs. v = Slice (Some a) \<and> mem h a = Some (Arr xs) \<and> (\<forall>x\<in>set xs. P h x)"
    then obtain a xs where v: "v = Slice (Some a)" "mem h a = Some (Arr xs)" "\<forall>x\<in>set xs. P h x"
      by blast
    let ?z = "Arr (replicate (length xs) zero)"
    obtain b h1 where al: "alloc ?z h = (b, h1)"
      by fastforce
    obtain ys h2 where cp: "copy_elems c xs h1 = (ys, h2)"
      by fastforce
    have r: "r = Slice (Some b)" "h' = poke b (Arr ys) h2"
      using run v(1,2) al cp by (auto simp: slice_into_def arr_at_def)
    have z: "(\<Union>v\<in>cell_values (Some ?z). refs v) = {}"
      by (auto simp: zero_def)
    have h1: "grown h h1"
      using grown_alloc [OF ok z] al by simp
    have "\<forall>x\<in>set xs. P h1 x"
      using v(3) growth_stableD [OF assms(2) ok h1] by blast
    note c = copy_elems_copies [OF assms grown_ok [OF h1] this cp]
    have fc: "(\<Union>v\<in>cell_values (Some (Arr ys)). refs v) \<subseteq> new_cells h1 h2"
      using c by auto
    note f = fresh_cell [OF ok al z conjunct1 [OF c] fc]
    have "reads h' r t" if t: "reads h v t" for t
    proof -
      from t v(2) obtain ts where ts: "t = TSlice ts" "list_all2 (reads h) xs ts"
        unfolding v(1) by (auto elim: reads_sliceE)
      have "list_all2 (reads h1) xs ts"
        by (rule list.rel_mono_strong [OF ts(2)]) (rule reads_grown [OF _ ok h1])
      then have "list_all2 (reads h2) ys ts"
        using c by blast
      then have "list_all2 (reads h') ys ts"
        unfolding r(2) by (rule list.rel_mono_strong) (rule f(5), use c in auto)
      then show ?thesis
        unfolding r(1) ts(1) by (rule reads.read_slice [rotated]) (simp add: r(2) f(4))
    qed
    then show "grown h h' \<and> refs r \<subseteq> new_cells h h' \<and> (\<forall>t. reads h v t \<longrightarrow> reads h' r t)"
      using f(2,3) by (simp add: r)
  }
qed

lemma update_new_key: "k \<notin> fst ` set out \<Longrightarrow> AList.update k y out = out @ [(k, y)]"
  by (induction out) auto

text \<open>Ranging over a map adds an entry per entry, in the same order.\<close>

lemma copy_entries_elems:
  "distinct (map fst (out @ kvs)) \<Longrightarrow>
   copy_entries c kvs out h =
     (let (ys, h') = copy_elems c (map snd kvs) h in (out @ zip (map fst kvs) ys, h'))"
proof (induction kvs arbitrary: out h)
  case (Cons p kvs)
  obtain k x where p: "p = (k, x)"
    by fastforce
  obtain y h1 where y: "c x h = (y, h1)"
    by fastforce
  have "copy_entries c kvs (out @ [(k, y)]) h1 =
      (let (ys, h') = copy_elems c (map snd kvs) h1 in ((out @ [(k, y)]) @ zip (map fst kvs) ys, h'))"
    using Cons.prems p by (intro Cons.IH) auto
  moreover have "k \<notin> fst ` set out"
    using Cons.prems p by auto
  ultimately show ?case
    by (simp add: p y update_new_key split: prod.split)
qed simp

lemma copy_elems_length: "copy_elems c xs h = (ys, h') \<Longrightarrow> length ys = length xs"
  by (induction xs arbitrary: h ys) (auto split: prod.splits)

lemma entries_rel:
  "list_all2 (rel_prod (=) R) kvs kts \<longleftrightarrow>
   map fst kts = map fst kvs \<and> list_all2 R (map snd kvs) (map snd kts)"
proof (induction kvs arbitrary: kts)
  case (Cons p kvs)
  then show ?case
    by (cases kts) (auto simp: rel_prod_sel)
qed auto

lemma copies_map_into:
  assumes "copies P c" "growth_stable P"
  shows "copies (\<lambda>h v. v = MapRef None \<or>
      (\<exists>a kvs. v = MapRef (Some a) \<and> mem h a = Some (Dict kvs) \<and> distinct (map fst kvs) \<and>
        (\<forall>x\<in>snd ` set kvs. P h x)))
    (map_into c)"
proof (rule copiesI, erule disjE)
  fix h v r h'
  assume ok: "memory_ok h" and run: "map_into c v h = (r, h')"
  {
    assume "v = MapRef None"
    then show "grown h h' \<and> refs r \<subseteq> new_cells h h' \<and> (\<forall>t. reads h v t \<longrightarrow> reads h' r t)"
      using ok run by (auto simp: map_into_def)
  next
    assume "\<exists>a kvs. v = MapRef (Some a) \<and> mem h a = Some (Dict kvs) \<and> distinct (map fst kvs) \<and>
        (\<forall>x\<in>snd ` set kvs. P h x)"
    then obtain a kvs where v: "v = MapRef (Some a)" "mem h a = Some (Dict kvs)"
        "distinct (map fst kvs)" "\<forall>x\<in>set (map snd kvs). P h x"
      by auto
    obtain b h1 where al: "alloc (Dict []) h = (b, h1)"
      by fastforce
    obtain ys h2 where cp: "copy_elems c (map snd kvs) h1 = (ys, h2)"
      by fastforce
    let ?new = "zip (map fst kvs) ys"
    have r: "r = MapRef (Some b)" "h' = poke b (Dict ?new) h2"
      using run v(1,2,3) al cp by (auto simp: map_into_def dict_at_def copy_entries_elems)
    have ks: "map fst ?new = map fst kvs" "map snd ?new = ys"
      using copy_elems_length [OF cp] by simp_all
    have z: "(\<Union>v\<in>cell_values (Some (Dict [])). refs v) = {}"
      by simp
    have h1: "grown h h1"
      using grown_alloc [OF ok z] al by simp
    have "\<forall>x\<in>set (map snd kvs). P h1 x"
      using v(4) growth_stableD [OF assms(2) ok h1] by blast
    note c = copy_elems_copies [OF assms grown_ok [OF h1] this cp]
    have "snd ` set ?new = set ys"
      using ks(2) by (metis set_map)
    then have fc: "(\<Union>v\<in>cell_values (Some (Dict ?new)). refs v) \<subseteq> new_cells h1 h2"
      using c by (auto simp: image_image [symmetric])
    note f = fresh_cell [OF ok al z conjunct1 [OF c] fc]
    have "reads h' r t" if t: "reads h v t" for t
    proof -
      from t v(2) obtain kts where kts: "t = TMap kts" "list_all2 (rel_prod (=) (reads h)) kvs kts"
        unfolding v(1) by (auto elim: reads_mapE)
      have "list_all2 (reads h1) (map snd kvs) (map snd kts)"
        by (rule list.rel_mono_strong [of "reads h"])
          (use kts(2) in \<open>auto simp: entries_rel intro: reads_grown [OF _ ok h1]\<close>)
      then have "list_all2 (reads h2) ys (map snd kts)"
        using c by blast
      then have "list_all2 (reads h') ys (map snd kts)"
        unfolding r(2) by (rule list.rel_mono_strong) (rule f(5), use c in auto)
      then have "list_all2 (rel_prod (=) (reads h')) ?new kts"
        using kts(2) unfolding entries_rel ks by simp
      then show ?thesis
        unfolding r(1) kts(1) by (rule reads.read_map [rotated]) (simp add: r(2) f(4))
    qed
    then show "grown h h' \<and> refs r \<subseteq> new_cells h h' \<and> (\<forall>t. reads h v t \<longrightarrow> reads h' r t)"
      using f(2,3) by (simp add: r)
  }
qed

subsection \<open>The copy a type calls for is a deep copy\<close>

text \<open>
  What is asked of the copiers of other modules, which document their deep copies as such: they are
  deep copies of the values of their types, which have contents, and stay such values while memory
  grows.
\<close>

definition sound_externals ::
  "externals \<Rightarrow> (string \<Rightarrow> memory \<Rightarrow> gval \<Rightarrow> bool) \<Rightarrow> bool" where
  "sound_externals E ES \<longleftrightarrow> (\<forall>n. copies (ES n) (E n) \<and> growth_stable (ES n) \<and> readable (ES n))"

lemma old_cell: "memory_ok h \<Longrightarrow> grown h h' \<Longrightarrow> mem h a = Some c \<Longrightarrow> mem h' a = Some c"
  by (metis grown_old leI memory_ok_def option.distinct(1))

lemma shaped_fields_all: "shaped_fields ES fs h vs \<longleftrightarrow> (\<forall>(f, s)\<in>set fs. shaped ES s h (vs f))"
  by (induction fs) auto

lemma shaped_grown:
  assumes "\<And>n. growth_stable (ES n)" "memory_ok h" "grown h h'"
  shows "shaped ES s h v \<Longrightarrow> shaped ES s h' v"
proof (induction s arbitrary: v)
  case (Struct fs)
  then show ?case
    by (fastforce simp: shaped_fields_all)
next
  case (PtrTo s)
  then show ?case
    using old_cell [OF assms(2,3)] by auto
next
  case (SliceOf s)
  then show ?case
    using old_cell [OF assms(2,3)] by auto
next
  case (MapOf s)
  then show ?case
    using old_cell [OF assms(2,3)] by fastforce
next
  case (Ext n)
  then show ?case
    using growth_stableD [OF assms(1,2,3)] by simp
qed simp

lemma growth_stable_shaped: "(\<And>n. growth_stable (ES n)) \<Longrightarrow> growth_stable (shaped ES s)"
  unfolding growth_stable_def [of "shaped ES s"] by (blast intro: shaped_grown)

lemma flat_readable: "refs v = {} \<Longrightarrow> \<exists>t. reads h v t"
proof (induction v)
  case (GStruct vs)
  then have "\<forall>f. \<exists>t. reads h (vs f) t"
    by auto
  then obtain ts where "\<And>f. reads h (vs f) (ts f)"
    by metis
  then show ?case
    by (blast intro: reads.read_struct)
qed (auto intro: reads.intros)

lemma shaped_readable:
  assumes "\<And>n. readable (ES n)"
  shows "shaped ES s h v \<Longrightarrow> \<exists>t. reads h v t"
proof (induction s arbitrary: v)
  case Flat
  then show ?case
    by (simp add: flat_readable)
next
  case (Struct fs)
  then obtain vs where vs: "v = GStruct vs" "shaped_fields ES fs h vs"
      "\<And>f. f \<notin> fst ` set fs \<Longrightarrow> refs (vs f) = {}"
    by auto
  have "\<exists>t. reads h (vs f) t" for f
  proof (cases "f \<in> fst ` set fs")
    case True
    then show ?thesis
      using Struct.IH vs(2) by (fastforce simp: shaped_fields_all)
  qed (simp add: flat_readable vs(3))
  then obtain ts where "\<And>f. reads h (vs f) (ts f)"
    by metis
  then show ?case
    unfolding vs(1) by (blast intro: reads.read_struct)
next
  case (PtrTo s)
  then show ?case
    by (auto intro: reads.intros)
next
  case (SliceOf s)
  then consider "v = Slice None"
    | a xs where "v = Slice (Some a)" "mem h a = Some (Arr xs)" "\<forall>x\<in>set xs. shaped ES s h x"
    by auto
  then show ?case
  proof cases
    case 2
    then obtain rd where "\<forall>x\<in>set xs. reads h x (rd x)"
      using SliceOf.IH by metis
    then have "list_all2 (reads h) xs (map rd xs)"
      by (simp add: list_all2_map2 list_all2_same)
    then show ?thesis
      using 2 by (blast intro: reads.read_slice)
  qed (auto intro: reads.intros)
next
  case (MapOf s)
  then consider "v = MapRef None"
    | a kvs where "v = MapRef (Some a)" "mem h a = Some (Dict kvs)"
        "\<forall>x\<in>snd ` set kvs. shaped ES s h x"
    by auto
  then show ?case
  proof cases
    case 2
    then obtain rd where "\<forall>x\<in>snd ` set kvs. reads h x (rd x)"
      using MapOf.IH by metis
    then have "list_all2 (rel_prod (=) (reads h)) kvs (map (map_prod id rd) kvs)"
      by (auto simp: list_all2_map2 list_all2_same rel_prod_sel)
    then show ?thesis
      using 2 by (blast intro: reads.read_map)
  qed (auto intro: reads.intros)
next
  case (Ext n)
  then show ?case
    using assms by (auto simp: readable_def)
qed

lemma readable_shaped: "(\<And>n. readable (ES n)) \<Longrightarrow> readable (shaped ES s)"
  unfolding readable_def [of "shaped ES s"] by (blast intro: shaped_readable)

lemma copies_fields:
  assumes c: "\<And>f s. (f, s) \<in> set fs \<Longrightarrow> copies (shaped ES s) (copy_shape E s)"
    and st: "\<And>n. growth_stable (ES n)" and ok: "memory_ok h0"
  shows "grown h0 h \<Longrightarrow> shaped_fields ES fs h0 inp \<Longrightarrow>
    \<forall>f. refs (out f) \<subseteq> new_cells h0 h \<or> (f \<in> fst ` set fs \<and> out f = inp f) \<Longrightarrow>
    \<forall>f t. reads h0 (inp f) t \<longrightarrow> reads h (out f) t \<Longrightarrow>
    copy_fields E fs inp out h = (out', h') \<Longrightarrow>
    grown h0 h' \<and> (\<forall>f. refs (out' f) \<subseteq> new_cells h0 h') \<and>
      (\<forall>f t. reads h0 (inp f) t \<longrightarrow> reads h' (out' f) t)"
  using c
proof (induction fs arbitrary: out h)
  case (Cons p fs)
  obtain f s where p: "p = (f, s)"
    by fastforce
  show ?case
  proof (cases "s = Flat")
    case True
    show ?thesis
    proof (intro Cons.IH [of h out])
      show "copies (shaped ES s') (copy_shape E s')" if "(g, s') \<in> set fs" for g s'
        using that by (intro Cons.prems(6) [of g]) simp
    qed (use Cons.prems(1-5) p True in auto)
  next
    case False
    obtain w h1 where w: "copy_shape E s (inp f) h = (w, h1)"
      by fastforce
    have run: "copy_fields E fs inp (out(f := w)) h1 = (out', h')"
      using Cons.prems(5) False w by (simp add: p)
    have sh: "shaped ES s h (inp f)"
      using Cons.prems(2) shaped_grown [OF st ok Cons.prems(1)] by (simp add: p)
    note okh = grown_ok [OF Cons.prems(1)]
    note cs = copiesD [OF Cons.prems(6) okh sh w, of f, unfolded p, simplified]
    have brks: "brk h0 \<le> brk h" "brk h \<le> brk h1"
      using Cons.prems(1) cs(1) by (auto dest: grown_brk)
    show ?thesis
    proof (rule Cons.IH [OF grown_trans [OF Cons.prems(1) cs(1)] _ _ _ run])
      show "\<forall>g. refs ((out(f := w)) g) \<subseteq> new_cells h0 h1 \<or>
          (g \<in> fst ` set fs \<and> (out(f := w)) g = inp g)"
      proof
        fix g
        have "new_cells h0 h \<subseteq> new_cells h0 h1" "new_cells h h1 \<subseteq> new_cells h0 h1"
          using brks by auto
        moreover have "refs (out g) \<subseteq> new_cells h0 h \<or> (g = f \<or> g \<in> fst ` set fs) \<and> out g = inp g"
          using Cons.prems(3) by (simp add: p)
        ultimately show "refs ((out(f := w)) g) \<subseteq> new_cells h0 h1 \<or>
            (g \<in> fst ` set fs \<and> (out(f := w)) g = inp g)"
          using cs(2) by (cases "g = f") auto
      qed
      show "\<forall>g t. reads h0 (inp g) t \<longrightarrow> reads h1 ((out(f := w)) g) t"
        using Cons.prems(4) reads_grown [OF _ okh cs(1)] reads_grown [OF _ ok Cons.prems(1)] cs(3)
        by auto
    qed (use Cons.prems(2,6) p in auto)
  qed
qed auto

lemma copy_shape_copies:
  assumes "sound_externals E ES"
  shows "copies (shaped ES s) (copy_shape E s)"
proof -
  have st: "growth_stable (ES n)" for n
    using assms by (simp add: sound_externals_def)
  show ?thesis
  proof (induction s)
    case Flat
    show ?case
      by (rule copiesI) auto
  next
    case (Struct fs)
    show ?case
    proof (rule copiesI)
      fix h v r h'
      assume ok: "memory_ok h" and sh: "shaped ES (Struct fs) h v"
        and run: "copy_shape E (Struct fs) v h = (r, h')"
      from sh obtain vs where vs: "v = GStruct vs" "shaped_fields ES fs h vs"
        "\<And>f. f \<notin> fst ` set fs \<Longrightarrow> refs (vs f) = {}"
        by auto
      obtain out where out: "copy_fields E fs vs vs h = (out, h')" "r = GStruct out"
        using run vs(1) by (auto split: prod.splits)
      have "grown h h' \<and> (\<forall>f. refs (out f) \<subseteq> new_cells h h') \<and>
          (\<forall>f t. reads h (vs f) t \<longrightarrow> reads h' (out f) t)"
      proof (rule copies_fields [OF _ _ ok _ vs(2) _ _ out(1)])
        show "copies (shaped ES s) (copy_shape E s)" if "(f, s) \<in> set fs" for f s
          using Struct.IH [OF that] by simp
      qed (use assms ok vs(3) in \<open>auto simp: sound_externals_def\<close>)
      then show "grown h h' \<and> refs r \<subseteq> new_cells h h' \<and> (\<forall>t. reads h v t \<longrightarrow> reads h' r t)"
        unfolding vs(1) out(2) by (auto elim!: reads_structE intro!: reads.read_struct)
    qed
  next
    case (PtrTo s)
    show ?case
      using copies_new_into [OF PtrTo growth_stable_shaped [OF st]] by (simp add: copies_def)
  next
    case (SliceOf s)
    show ?case
      using copies_slice_into [OF SliceOf growth_stable_shaped [OF st]] by (simp add: copies_def)
  next
    case (MapOf s)
    show ?case
      using copies_map_into [OF MapOf growth_stable_shaped [OF st]] by (simp add: copies_def)
  next
    case (Ext n)
    show ?case
      using assms by (simp add: sound_externals_def copies_def)
  qed
qed

text \<open>
  A deep copy shares nothing: \<open>same_but A h h'\<close> is any sequence of writes that leaves the cells
  outside \<open>A\<close> as they are.
\<close>

definition same_but :: "addr set \<Rightarrow> memory \<Rightarrow> memory \<Rightarrow> bool" where
  "same_but A h h' \<longleftrightarrow> (\<forall>a. a \<notin> A \<longrightarrow> mem h' a = mem h a)"

lemma reach_roots: "refs v \<subseteq> {a. reach h v a}" "reach h v a \<Longrightarrow> cell_refs h a \<subseteq> {a. reach h v a}"
  by (auto intro: reach.intros)

lemma reads_same_but:
  assumes "reads h v t" "same_but A h h'" "\<And>a. reach h v a \<Longrightarrow> a \<notin> A"
  shows "reads h' v t"
  by (rule reads_agree [OF assms(1), of "{a. reach h v a}"])
    (use assms(2,3) reach_roots in \<open>auto simp: same_but_def\<close>)

lemma reach_first:
  "reach h v a \<Longrightarrow> a \<in> refs v \<or> (\<exists>b\<in>refs v. \<exists>w\<in>cell_values (mem h b). reach h w a)"
proof (induction rule: reach.induct)
  case (step a b)
  from step.hyps(2) obtain w where "w \<in> cell_values (mem h a)" "b \<in> refs w"
    by (auto simp: cell_refs_def)
  then show ?case
    using step.IH step.hyps(2) by (blast intro: reach.intros)
qed simp

lemma reach_field: "reach h (GStruct vs) a \<Longrightarrow> \<exists>f. reach h (vs f) a"
  by (induction rule: reach.induct) (auto intro: reach.intros)

lemma list_all2_left: "list_all2 R xs ys \<Longrightarrow> x \<in> set xs \<Longrightarrow> \<exists>y. R x y"
  by (induction rule: list_all2_induct) auto

text \<open>What has contents leads to allocated cells only.\<close>

lemma reach_allocated: "reads h v t \<Longrightarrow> reach h v a \<Longrightarrow> mem h a \<noteq> None"
proof (induction rule: reads.induct)
  case (read_struct vs ts)
  then show ?case
    by (blast dest: reach_field)
next
  case (read_ptr b v t)
  then show ?case
    using reach_first [OF read_ptr.prems] by auto
next
  case (read_slice b xs ts)
  have "reach h x a \<longrightarrow> mem h a \<noteq> None" if "x \<in> set xs" for x
    using list_all2_left [OF read_slice.IH that] by blast
  then show ?case
    using read_slice.hyps reach_first [OF read_slice.prems] by auto
next
  case (read_map b kvs kts)
  have "reach h (snd p) a \<longrightarrow> mem h a \<noteq> None" if "p \<in> set kvs" for p
    using list_all2_left [OF read_map.IH that] by (auto simp: rel_prod_sel)
  then show ?case
    using read_map.hyps reach_first [OF read_map.prems] by auto
qed (drule reach_first, simp)+

lemma reach_old: "reads h v t \<Longrightarrow> memory_ok h \<Longrightarrow> reach h v a \<Longrightarrow> a < brk h"
  using reach_allocated by (fastforce simp: memory_ok_def not_less [symmetric])

lemma copies_isolated:
  assumes "copies P c" "memory_ok h" "P h v" "c v h = (w, h')" "reads h v t"
  shows "reads h' v t" "reads h' w t"
    "same_but {a. reach h' w a} h' g \<Longrightarrow> reads g v t"
    "same_but {a. reach h v a} h' g \<Longrightarrow> reads g w t"
proof -
  note c = copiesD [OF assms(1-4)]
  show "reads h' v t" "reads h' w t"
    using assms(2,5) c by (auto intro: reads_grown)
  have new: "a \<in> new_cells h h'" if "reach h' w a" for a
    by (rule reach_new_cells [OF that c(2,1)])
  have old: "a < brk h" if "reach h v a" for a
    by (rule reach_old [OF assms(5,2) that])
  show "reads g v t" if g: "same_but {a. reach h' w a} h' g"
  proof (rule reads_agree [OF assms(5) reach_roots(1)])
    fix a assume "a \<in> {a. reach h v a}"
    then have a: "reach h v a" "a < brk h"
      using old by auto
    then have "\<not> reach h' w a"
      using new [of a] by auto
    then have "mem g a = mem h' a"
      using g unfolding same_but_def by blast
    then show "mem g a = mem h a \<and> cell_refs h a \<subseteq> {a. reach h v a}"
      using grown_old [OF c(1) a(2)] reach_roots(2) [OF a(1)] by simp
  qed
  show "reads g w t" if "same_but {a. reach h v a} h' g"
    by (rule reads_same_but [OF c(3) [OF assms(5)] that]) (use new old in fastforce)
qed

subsection \<open>The statements against the types\<close>

named_theorems deepcopy

lemma copy_elems_assign: "copy_elems assign xs h = (xs, h)"
  by (induction xs) (simp_all add: assign_def)

lemma new_flat_eq [deepcopy]: "new_flat = new_into assign"
  by (intro ext) (simp add: new_flat_def new_into_def assign_def Let_def split: gval.split option.split prod.split)

lemma slice_copy_eq [deepcopy]: "slice_copy = slice_into assign"
  by (intro ext)
    (simp add: slice_copy_def slice_into_def copy_elems_assign Let_def split: gval.split option.split prod.split)

lemma deep_copy_eq [deepcopy]: "deep_copy into = new_into into"
  by (intro ext) (simp add: deep_copy_def new_into_def)

lemma copy_shape_simps [deepcopy]:
  "copy_shape E Flat = assign"
  "copy_shape E (Struct []) = assign"
  "copy_shape E (PtrTo s) = new_into (copy_shape E s)"
  "copy_shape E (SliceOf s) = slice_into (copy_shape E s)"
  "copy_shape E (MapOf s) = map_into (copy_shape E s)"
  "copy_shape E (Ext n) = E n"
  by (intro ext; simp add: assign_def split: gval.split)+

declare map_copy_def [deepcopy]

text \<open>The statements of a struct serve each field that has references, in the order of the fields.\<close>

fun fills :: "externals \<Rightarrow> (string \<times> copier) list \<Rightarrow> (string \<times> gotype) list \<Rightarrow> bool" where
  "fills E cs [] \<longleftrightarrow> cs = []"
| "fills E cs ((g, s) # fs) \<longleftrightarrow>
     (if s = Flat then fills E cs fs
      else (case cs of
          [] \<Rightarrow> False
        | (f, c) # cs' \<Rightarrow> f = g \<and> c = copy_shape E s \<and> fills E cs' fs))"

lemma fills_fields: "fills E cs fs \<Longrightarrow> run_fields cs inp out h = copy_fields E fs inp out h"
  by (induction E cs fs arbitrary: out h rule: fills.induct)
    (auto split: list.splits if_splits prod.splits)

lemma fills_struct: "fills E cs fs \<Longrightarrow> struct_into cs = copy_shape E (Struct fs)"
  by (intro ext) (simp add: struct_into_def fills_fields split: gval.split)

text \<open>A struct without references.\<close>

lemma run_fields_assign: "list_all (\<lambda>(f, c). c = assign) cs \<Longrightarrow> run_fields cs inp inp h = (inp, h)"
  by (induction cs) (auto simp: assign_def)

lemma flat_struct: "list_all (\<lambda>(f, c). c = assign) cs \<Longrightarrow> struct_into cs = assign"
  by (intro ext) (simp add: struct_into_def run_fields_assign assign_def split: gval.split)

lemma copy_fields_assign:
  "list_all (\<lambda>(f, s). copy_shape E s = assign) fs \<Longrightarrow> copy_fields E fs inp inp h = (inp, h)"
  by (induction fs) (auto simp: assign_def)

lemma flat_struct_shape:
  "list_all (\<lambda>(f, s). copy_shape E s = assign) fs \<Longrightarrow> copy_shape E (Struct fs) = assign"
  by (intro ext) (simp add: copy_fields_assign assign_def split: gval.split)

lemma deep_copy_object_eq:
  "deep_copy_object (new_into c) (Ptr None) h = (None, h)"
  "fst (deep_copy_object (new_into c) (Ptr (Some a)) h) = Some (fst (new_into c (Ptr (Some a)) h))"
  by (auto simp: deep_copy_object_def new_into_def split: prod.splits)

end
