(* ===== verification/Shapes.thy ===== *)
theory Shapes
  imports GoHeap
begin

section \<open>The types of the API by where they have references\<close>

text \<open>
  The structs of \<open>api/v1/*_types.go\<close>, field by field and in the order of their declarations: which
  fields hold pointers, slices and maps, and to what. Strings, numbers, booleans and the named string
  types are flat. Of the types of other modules, those without references are structs that list no
  field, and the others are named.
\<close>

definition AutoUpdateRollbackSpec_shape :: gotype where
  "AutoUpdateRollbackSpec_shape = Struct [(''Enabled'', PtrTo Flat),
    (''ProbeFailureThreshold'', Flat)]"

definition AutoUpdateSourceSpec_shape :: gotype where
  "AutoUpdateSourceSpec_shape = Struct [(''Registry'', Flat), (''Channel'', Flat)]"

definition AutoUpdateSpec_shape :: gotype where
  "AutoUpdateSpec_shape = Struct [(''Enabled'', Flat), (''Source'', AutoUpdateSourceSpec_shape),
    (''PollInterval'', Flat), (''BackupBeforeUpdate'', PtrTo Flat),
    (''Rollback'', AutoUpdateRollbackSpec_shape)]"

definition AutoUpdateStatus_shape :: gotype where
  "AutoUpdateStatus_shape = Struct [(''LastCheckTime'', PtrTo (Ext ''metav1.Time'')),
    (''CurrentTag'', Flat), (''TargetTag'', Flat), (''LastSuccessTag'', Flat),
    (''LastFailedTag'', Flat), (''PreUpdateSnapshot'', Flat), (''ProbeFailures'', Flat),
    (''RolloutDeadline'', PtrTo (Ext ''metav1.Time''))]"

definition PDBSpec_shape :: gotype where
  "PDBSpec_shape = Struct [(''Enabled'', PtrTo Flat), (''MinAvailable'', PtrTo (Struct [])),
    (''MaxUnavailable'', PtrTo (Struct []))]"

definition HPASpec_shape :: gotype where
  "HPASpec_shape = Struct [(''Enabled'', PtrTo Flat), (''MinReplicas'', PtrTo Flat),
    (''MaxReplicas'', PtrTo Flat), (''TargetCPUUtilization'', PtrTo Flat),
    (''TargetMemoryUtilization'', PtrTo Flat),
    (''Behavior'', PtrTo (Ext ''autoscalingv2.HorizontalPodAutoscalerBehavior''))]"

definition AvailabilitySpec_shape :: gotype where
  "AvailabilitySpec_shape = Struct [(''PodDisruptionBudget'', PDBSpec_shape),
    (''HorizontalPodAutoscaler'', HPASpec_shape),
    (''TopologySpreadConstraints'', SliceOf (Ext ''corev1.TopologySpreadConstraint''))]"

definition LocalObjectReference_shape :: gotype where
  "LocalObjectReference_shape = Struct [(''Name'', Flat)]"

definition BackupS3Spec_shape :: gotype where
  "BackupS3Spec_shape = Struct [(''Bucket'', Flat), (''Endpoint'', Flat), (''Region'', Flat),
    (''PathPrefix'', Flat), (''CredentialsSecretRef'', LocalObjectReference_shape)]"

definition BackupSpec_shape :: gotype where
  "BackupSpec_shape = Struct [(''S3'', PtrTo BackupS3Spec_shape), (''Schedule'', Flat),
    (''OnDelete'', Flat), (''PreUpdate'', PtrTo Flat), (''HistoryLimit'', PtrTo Flat),
    (''FailedHistoryLimit'', PtrTo Flat), (''Image'', Flat)]"

definition BackupStatus_shape :: gotype where
  "BackupStatus_shape = Struct [(''LastSuccessTime'', PtrTo (Ext ''metav1.Time'')),
    (''LastSuccessSnapshotID'', Flat), (''LastFailureTime'', PtrTo (Ext ''metav1.Time'')),
    (''LastFailureReason'', Flat), (''FinalBackupJobName'', Flat)]"

definition CABundleSpec_shape :: gotype where
  "CABundleSpec_shape = Struct [(''ConfigMapName'', Flat), (''SecretName'', Flat), (''Key'', Flat)]"

definition RawConfig_shape :: gotype where
  "RawConfig_shape = Struct [(''RawExtension'', Ext ''runtime.RawExtension'')]"

definition ConfigSpec_shape :: gotype where
  "ConfigSpec_shape = Struct [(''Raw'', PtrTo RawConfig_shape),
    (''ConfigMapRef'', PtrTo (Struct [])), (''MergeMode'', Flat)]"

definition DiscordGatewaySpec_shape :: gotype where
  "DiscordGatewaySpec_shape = Struct [(''Enabled'', PtrTo Flat),
    (''BotTokenSecretRef'', PtrTo (Ext ''corev1.SecretKeySelector'')), (''ApplicationID'', Flat),
    (''GuildIDs'', SliceOf Flat)]"

definition FFmpegSpec_shape :: gotype where
  "FFmpegSpec_shape = Struct [(''Enabled'', PtrTo Flat)]"

definition TelegramGatewaySpec_shape :: gotype where
  "TelegramGatewaySpec_shape = Struct [(''Enabled'', PtrTo Flat),
    (''BotTokenSecretRef'', PtrTo (Ext ''corev1.SecretKeySelector'')),
    (''AllowedUserIDs'', SliceOf Flat), (''WebhookURL'', Flat)]"

definition SlackGatewaySpec_shape :: gotype where
  "SlackGatewaySpec_shape = Struct [(''Enabled'', PtrTo Flat),
    (''BotTokenSecretRef'', PtrTo (Ext ''corev1.SecretKeySelector'')),
    (''AppTokenSecretRef'', PtrTo (Ext ''corev1.SecretKeySelector'')),
    (''SigningSecretRef'', PtrTo (Ext ''corev1.SecretKeySelector''))]"

definition WhatsAppGatewaySpec_shape :: gotype where
  "WhatsAppGatewaySpec_shape = Struct [(''Enabled'', PtrTo Flat),
    (''ProviderSecretRef'', PtrTo (Ext ''corev1.SecretKeySelector''))]"

definition SignalGatewaySpec_shape :: gotype where
  "SignalGatewaySpec_shape = Struct [(''Enabled'', PtrTo Flat),
    (''PhoneNumberSecretRef'', PtrTo (Ext ''corev1.SecretKeySelector'')),
    (''AuthTokenSecretRef'', PtrTo (Ext ''corev1.SecretKeySelector''))]"

definition GatewaysSpec_shape :: gotype where
  "GatewaysSpec_shape = Struct [(''Telegram'', TelegramGatewaySpec_shape),
    (''Discord'', DiscordGatewaySpec_shape), (''Slack'', SlackGatewaySpec_shape),
    (''WhatsApp'', WhatsAppGatewaySpec_shape), (''Signal'', SignalGatewaySpec_shape)]"

definition GrafanaDashboardSpec_shape :: gotype where
  "GrafanaDashboardSpec_shape = Struct [(''Enabled'', PtrTo Flat), (''Labels'', MapOf Flat),
    (''Folder'', Flat)]"

definition HTTPRouteParentRef_shape :: gotype where
  "HTTPRouteParentRef_shape = Struct [(''Name'', Flat), (''Namespace'', PtrTo Flat),
    (''SectionName'', PtrTo Flat)]"

definition HTTPRouteSpec_shape :: gotype where
  "HTTPRouteSpec_shape = Struct [(''Enabled'', PtrTo Flat),
    (''ParentRefs'', SliceOf HTTPRouteParentRef_shape), (''Hostnames'', SliceOf Flat),
    (''Path'', Flat), (''ServicePortName'', Flat), (''Annotations'', MapOf Flat)]"

definition ImageSpec_shape :: gotype where
  "ImageSpec_shape = Struct [(''Repository'', Flat), (''Tag'', Flat), (''Digest'', Flat),
    (''PullPolicy'', Flat)]"

definition RegistryDefaults_shape :: gotype where
  "RegistryDefaults_shape = Struct [(''PullSecretName'', Flat)]"

definition PersistenceSpec_shape :: gotype where
  "PersistenceSpec_shape = Struct [(''Enabled'', PtrTo Flat), (''Size'', Flat),
    (''StorageClassName'', PtrTo Flat)]"

definition StorageSpec_shape :: gotype where
  "StorageSpec_shape = Struct [(''Persistence'', PersistenceSpec_shape)]"

definition ServiceAccountDefaults_shape :: gotype where
  "ServiceAccountDefaults_shape = Struct [(''Annotations'', MapOf Flat)]"

definition NetworkPolicyDefaults_shape :: gotype where
  "NetworkPolicyDefaults_shape = Struct [(''Enabled'', PtrTo Flat), (''AllowDNS'', PtrTo Flat)]"

definition SecurityDefaults_shape :: gotype where
  "SecurityDefaults_shape = Struct [(''ServiceAccount'', ServiceAccountDefaults_shape),
    (''NetworkPolicy'', NetworkPolicyDefaults_shape), (''CABundle'', CABundleSpec_shape)]"

definition MetricsSpec_shape :: gotype where
  "MetricsSpec_shape = Struct [(''Enabled'', PtrTo Flat), (''Port'', Flat),
    (''Secure'', PtrTo Flat), (''GrafanaDashboard'', PtrTo GrafanaDashboardSpec_shape)]"

definition ServiceMonitorSpec_shape :: gotype where
  "ServiceMonitorSpec_shape = Struct [(''Enabled'', PtrTo Flat), (''Labels'', MapOf Flat),
    (''Interval'', Flat), (''ScrapeTimeout'', Flat)]"

definition PrometheusRule_shape :: gotype where
  "PrometheusRule_shape = Struct [(''Alert'', Flat), (''Expr'', Flat), (''For'', Flat),
    (''Labels'', MapOf Flat), (''Annotations'', MapOf Flat)]"

definition PrometheusRuleSpec_shape :: gotype where
  "PrometheusRuleSpec_shape = Struct [(''Enabled'', PtrTo Flat),
    (''AdditionalRules'', SliceOf PrometheusRule_shape)]"

definition LoggingSpec_shape :: gotype where
  "LoggingSpec_shape = Struct [(''Format'', Flat), (''Level'', Flat)]"

definition ObservabilityDefaults_shape :: gotype where
  "ObservabilityDefaults_shape = Struct [(''Metrics'', MetricsSpec_shape),
    (''ServiceMonitor'', ServiceMonitorSpec_shape), (''PrometheusRule'', PrometheusRuleSpec_shape),
    (''Logging'', LoggingSpec_shape)]"

definition ServiceDefaults_shape :: gotype where
  "ServiceDefaults_shape = Struct [(''Type'', Flat)]"

definition NetworkingDefaults_shape :: gotype where
  "NetworkingDefaults_shape = Struct [(''Service'', ServiceDefaults_shape),
    (''NetworkPolicy'', NetworkPolicyDefaults_shape)]"

definition ResourcesSpec_shape :: gotype where
  "ResourcesSpec_shape = Struct [(''Requests'', MapOf (Ext ''resource.Quantity'')),
    (''Limits'', MapOf (Ext ''resource.Quantity''))]"

definition HermesClusterDefaultsSpec_shape :: gotype where
  "HermesClusterDefaultsSpec_shape = Struct [(''Image'', ImageSpec_shape),
    (''Registry'', RegistryDefaults_shape), (''Storage'', StorageSpec_shape),
    (''Security'', SecurityDefaults_shape), (''Observability'', ObservabilityDefaults_shape),
    (''Networking'', NetworkingDefaults_shape), (''Resources'', ResourcesSpec_shape)]"

definition HermesClusterDefaultsStatus_shape :: gotype where
  "HermesClusterDefaultsStatus_shape = Struct [(''ObservedGeneration'', Flat),
    (''Conditions'', SliceOf (Ext ''metav1.Condition''))]"

definition HermesClusterDefaults_shape :: gotype where
  "HermesClusterDefaults_shape = Struct [(''TypeMeta'', Struct []),
    (''ObjectMeta'', Ext ''metav1.ObjectMeta''), (''Spec'', HermesClusterDefaultsSpec_shape),
    (''Status'', HermesClusterDefaultsStatus_shape)]"

definition HermesClusterDefaultsList_shape :: gotype where
  "HermesClusterDefaultsList_shape = Struct [(''TypeMeta'', Struct []),
    (''ListMeta'', Ext ''metav1.ListMeta''), (''Items'', SliceOf HermesClusterDefaults_shape)]"

definition WorkspaceFile_shape :: gotype where
  "WorkspaceFile_shape = Struct [(''Path'', Flat), (''Content'', Flat)]"

definition WorkspaceBootstrap_shape :: gotype where
  "WorkspaceBootstrap_shape = Struct [(''Enabled'', PtrTo Flat)]"

definition WorkspaceSpec_shape :: gotype where
  "WorkspaceSpec_shape = Struct [(''InitialFiles'', SliceOf WorkspaceFile_shape),
    (''InitialDirs'', SliceOf Flat), (''ConfigMapRef'', PtrTo (Struct [])),
    (''Bootstrap'', WorkspaceBootstrap_shape)]"

definition RBACSpec_shape :: gotype where
  "RBACSpec_shape = Struct [(''CreateServiceAccount'', PtrTo Flat), (''ServiceAccountName'', Flat),
    (''Annotations'', MapOf Flat)]"

definition NetworkPolicySpec_shape :: gotype where
  "NetworkPolicySpec_shape = Struct [(''Enabled'', PtrTo Flat), (''AllowDNS'', PtrTo Flat),
    (''AllowedIngressNamespaces'', SliceOf Flat), (''AllowedIngressCIDRs'', SliceOf Flat),
    (''AllowedEgressCIDRs'', SliceOf Flat),
    (''AdditionalEgress'', SliceOf (Ext ''networkingv1.NetworkPolicyEgressRule''))]"

definition SecuritySpec_shape :: gotype where
  "SecuritySpec_shape = Struct [(''PodSecurityContext'', PtrTo (Ext ''corev1.PodSecurityContext'')),
    (''ContainerSecurityContext'', PtrTo (Ext ''corev1.SecurityContext'')),
    (''RBAC'', RBACSpec_shape), (''NetworkPolicy'', NetworkPolicySpec_shape),
    (''CABundle'', CABundleSpec_shape)]"

definition NamedServicePort_shape :: gotype where
  "NamedServicePort_shape = Struct [(''Name'', Flat), (''Port'', Flat),
    (''TargetPort'', PtrTo Flat), (''Protocol'', Flat), (''NodePort'', Flat)]"

definition ServiceSpec_shape :: gotype where
  "ServiceSpec_shape = Struct [(''Type'', Flat), (''ClusterIP'', Flat),
    (''Ports'', SliceOf NamedServicePort_shape), (''Annotations'', MapOf Flat),
    (''LoadBalancerClass'', PtrTo Flat), (''ExternalTrafficPolicy'', Flat)]"

definition IngressTLSSpec_shape :: gotype where
  "IngressTLSSpec_shape = Struct [(''SecretName'', Flat), (''Hosts'', SliceOf Flat)]"

definition IngressSpec_shape :: gotype where
  "IngressSpec_shape = Struct [(''Enabled'', PtrTo Flat), (''Host'', Flat),
    (''ClassName'', PtrTo Flat), (''TLS'', SliceOf IngressTLSSpec_shape),
    (''Annotations'', MapOf Flat), (''PathType'', Flat), (''Path'', Flat),
    (''ServicePortName'', Flat)]"

definition NetworkingSpec_shape :: gotype where
  "NetworkingSpec_shape = Struct [(''Service'', ServiceSpec_shape),
    (''Ingress'', IngressSpec_shape), (''HTTPRoute'', PtrTo HTTPRouteSpec_shape)]"

definition ObservabilitySpec_shape :: gotype where
  "ObservabilitySpec_shape = Struct [(''Metrics'', MetricsSpec_shape),
    (''ServiceMonitor'', ServiceMonitorSpec_shape), (''PrometheusRule'', PrometheusRuleSpec_shape),
    (''Logging'', LoggingSpec_shape)]"

definition ProbesSpec_shape :: gotype where
  "ProbesSpec_shape = Struct [(''Liveness'', PtrTo (Ext ''corev1.Probe'')),
    (''Readiness'', PtrTo (Ext ''corev1.Probe'')), (''Startup'', PtrTo (Ext ''corev1.Probe''))]"

definition SchedulingSpec_shape :: gotype where
  "SchedulingSpec_shape = Struct [(''NodeSelector'', MapOf Flat),
    (''Tolerations'', SliceOf (Ext ''corev1.Toleration'')),
    (''Affinity'', PtrTo (Ext ''corev1.Affinity'')), (''PriorityClassName'', Flat)]"

definition InstanceSkill_shape :: gotype where
  "InstanceSkill_shape = Struct [(''Source'', Flat), (''Version'', Flat)]"

definition SelfConfigureSpec_shape :: gotype where
  "SelfConfigureSpec_shape = Struct [(''Enabled'', PtrTo Flat), (''AllowedActions'', SliceOf Flat),
    (''ProtectedKeys'', SliceOf Flat)]"

definition NamespacedObjectReference_shape :: gotype where
  "NamespacedObjectReference_shape = Struct [(''Name'', Flat), (''Namespace'', Flat)]"

definition MigrationBackupS3_shape :: gotype where
  "MigrationBackupS3_shape = Struct [(''Bucket'', Flat), (''Endpoint'', Flat), (''Region'', Flat),
    (''Key'', Flat), (''CredentialsSecretRef'', LocalObjectReference_shape)]"

definition MigrationBackupRef_shape :: gotype where
  "MigrationBackupRef_shape = Struct [(''S3'', MigrationBackupS3_shape)]"

definition MigrationFromOpenClawSource_shape :: gotype where
  "MigrationFromOpenClawSource_shape = Struct [
    (''OpenClawInstanceRef'', PtrTo NamespacedObjectReference_shape),
    (''BackupRef'', PtrTo MigrationBackupRef_shape)]"

definition MigrationFromOpenClawSpec_shape :: gotype where
  "MigrationFromOpenClawSpec_shape = Struct [(''Source'', MigrationFromOpenClawSource_shape),
    (''Mode'', Flat), (''Image'', Flat)]"

definition MigrationSpec_shape :: gotype where
  "MigrationSpec_shape = Struct [(''FromOpenClaw'', PtrTo MigrationFromOpenClawSpec_shape)]"

definition UVCacheVolumeSpec_shape :: gotype where
  "UVCacheVolumeSpec_shape = Struct [(''EmptyDir'', PtrTo (Ext ''corev1.EmptyDirVolumeSource'')),
    (''PersistentVolumeClaim'', PtrTo (Struct []))]"

definition UVSpec_shape :: gotype where
  "UVSpec_shape = Struct [(''Enabled'', PtrTo Flat), (''ExtraIndexURL'', Flat),
    (''CacheVolume'', UVCacheVolumeSpec_shape)]"

definition RipgrepSpec_shape :: gotype where
  "RipgrepSpec_shape = Struct [(''Enabled'', PtrTo Flat)]"

definition RuntimeSpec_shape :: gotype where
  "RuntimeSpec_shape = Struct [(''Python'', Flat), (''UV'', UVSpec_shape),
    (''FFmpeg'', FFmpegSpec_shape), (''Ripgrep'', RipgrepSpec_shape),
    (''ExtraAptPackages'', SliceOf Flat), (''ExtraPipPackages'', SliceOf Flat)]"

definition HonchoImageSpec_shape :: gotype where
  "HonchoImageSpec_shape = Struct [(''Repository'', Flat), (''Tag'', Flat), (''PullPolicy'', Flat)]"

definition HonchoPersistenceSpec_shape :: gotype where
  "HonchoPersistenceSpec_shape = Struct [(''Enabled'', PtrTo Flat), (''Size'', Flat),
    (''StorageClassName'', PtrTo Flat)]"

definition HonchoSpec_shape :: gotype where
  "HonchoSpec_shape = Struct [(''Enabled'', PtrTo Flat), (''Image'', HonchoImageSpec_shape),
    (''Persistence'', HonchoPersistenceSpec_shape),
    (''Resources'', Ext ''corev1.ResourceRequirements''),
    (''APIKeySecretRef'', PtrTo (Ext ''corev1.SecretKeySelector''))]"

definition ProfileStoreSpec_shape :: gotype where
  "ProfileStoreSpec_shape = Struct [(''Honcho'', HonchoSpec_shape)]"

definition TailscaleAuthKey_shape :: gotype where
  "TailscaleAuthKey_shape = Struct [(''SecretRef'', PtrTo (Ext ''corev1.SecretKeySelector''))]"

definition TailscaleImageSpec_shape :: gotype where
  "TailscaleImageSpec_shape = Struct [(''Repository'', Flat), (''Tag'', Flat),
    (''PullPolicy'', Flat)]"

definition TailscaleSpec_shape :: gotype where
  "TailscaleSpec_shape = Struct [(''Enabled'', PtrTo Flat), (''Mode'', Flat),
    (''AuthKey'', PtrTo TailscaleAuthKey_shape), (''Hostname'', Flat),
    (''Image'', TailscaleImageSpec_shape), (''Resources'', Ext ''corev1.ResourceRequirements'')]"

definition SemaphoreSpec_shape :: gotype where
  "SemaphoreSpec_shape = Struct [(''Enabled'', PtrTo Flat), (''URL'', Flat),
    (''TokenSecretRef'', PtrTo (Ext ''corev1.SecretKeySelector'')),
    (''CleanupOnDelete'', PtrTo Flat),
    (''AdminTokenSecretRef'', PtrTo (Ext ''corev1.SecretKeySelector''))]"

definition HermesInstanceSpec_shape :: gotype where
  "HermesInstanceSpec_shape = Struct [(''Image'', ImageSpec_shape), (''Config'', ConfigSpec_shape),
    (''Workspace'', WorkspaceSpec_shape), (''Resources'', ResourcesSpec_shape),
    (''Security'', SecuritySpec_shape), (''Storage'', StorageSpec_shape),
    (''Networking'', NetworkingSpec_shape), (''Observability'', ObservabilitySpec_shape),
    (''Availability'', AvailabilitySpec_shape), (''Probes'', ProbesSpec_shape),
    (''Scheduling'', SchedulingSpec_shape), (''ShareProcessNamespace'', PtrTo Flat),
    (''InitContainers'', SliceOf (Ext ''corev1.Container'')),
    (''Sidecars'', SliceOf (Ext ''corev1.Container'')),
    (''ExtraVolumes'', SliceOf (Ext ''corev1.Volume'')),
    (''ExtraVolumeMounts'', SliceOf (Ext ''corev1.VolumeMount'')),
    (''EnvFrom'', SliceOf (Ext ''corev1.EnvFromSource'')),
    (''Env'', SliceOf (Ext ''corev1.EnvVar'')), (''Skills'', SliceOf InstanceSkill_shape),
    (''SelfConfigure'', SelfConfigureSpec_shape), (''Suspended'', Flat),
    (''Backup'', BackupSpec_shape), (''RestoreFrom'', Flat), (''AutoUpdate'', AutoUpdateSpec_shape),
    (''Migration'', MigrationSpec_shape), (''Runtime'', RuntimeSpec_shape),
    (''Gateways'', GatewaysSpec_shape), (''ProfileStore'', ProfileStoreSpec_shape),
    (''Tailscale'', TailscaleSpec_shape), (''Semaphore'', SemaphoreSpec_shape)]"

definition MigrationStatus_shape :: gotype where
  "MigrationStatus_shape = Struct [(''Completed'', Flat),
    (''FinishedAt'', PtrTo (Ext ''metav1.Time'')), (''SourceVersion'', Flat)]"

definition HermesInstanceStatus_shape :: gotype where
  "HermesInstanceStatus_shape = Struct [(''ObservedGeneration'', Flat), (''Phase'', Flat),
    (''Conditions'', SliceOf (Ext ''metav1.Condition'')), (''Replicas'', Flat),
    (''ReadyReplicas'', Flat), (''RestoredFrom'', Flat), (''Backup'', BackupStatus_shape),
    (''AutoUpdate'', AutoUpdateStatus_shape), (''Migration'', MigrationStatus_shape)]"

definition HermesInstance_shape :: gotype where
  "HermesInstance_shape = Struct [(''TypeMeta'', Struct []),
    (''ObjectMeta'', Ext ''metav1.ObjectMeta''), (''Spec'', HermesInstanceSpec_shape),
    (''Status'', HermesInstanceStatus_shape)]"

definition HermesInstanceList_shape :: gotype where
  "HermesInstanceList_shape = Struct [(''TypeMeta'', Struct []),
    (''ListMeta'', Ext ''metav1.ListMeta''), (''Items'', SliceOf HermesInstance_shape)]"

definition SelfConfigSkill_shape :: gotype where
  "SelfConfigSkill_shape = Struct [(''Source'', Flat), (''Version'', Flat)]"

definition SelfConfigKeySelector_shape :: gotype where
  "SelfConfigKeySelector_shape = Struct [(''Name'', Flat), (''Key'', Flat)]"

definition SelfConfigEnvVarSource_shape :: gotype where
  "SelfConfigEnvVarSource_shape = Struct [(''SecretKeyRef'', PtrTo SelfConfigKeySelector_shape),
    (''ConfigMapKeyRef'', PtrTo SelfConfigKeySelector_shape)]"

definition SelfConfigEnvVar_shape :: gotype where
  "SelfConfigEnvVar_shape = Struct [(''Name'', Flat), (''Value'', Flat),
    (''ValueFrom'', PtrTo SelfConfigEnvVarSource_shape)]"

definition SelfConfigWorkspaceFile_shape :: gotype where
  "SelfConfigWorkspaceFile_shape = Struct [(''Path'', Flat), (''Content'', Flat),
    (''ContentFrom'', PtrTo SelfConfigKeySelector_shape)]"

definition SelfConfigProfileSnapshot_shape :: gotype where
  "SelfConfigProfileSnapshot_shape = Struct [(''ProfileID'', Flat), (''Data'', Flat)]"

definition HermesSelfConfigSpec_shape :: gotype where
  "HermesSelfConfigSpec_shape = Struct [(''InstanceRef'', Flat),
    (''AddSkills'', SliceOf SelfConfigSkill_shape),
    (''PatchConfig'', PtrTo (Ext ''apiextensionsv1.JSON'')),
    (''AddEnvVars'', SliceOf SelfConfigEnvVar_shape),
    (''AddWorkspaceFiles'', SliceOf SelfConfigWorkspaceFile_shape),
    (''AddProfileSnapshot'', PtrTo SelfConfigProfileSnapshot_shape)]"

definition HermesSelfConfigStatus_shape :: gotype where
  "HermesSelfConfigStatus_shape = Struct [(''ObservedGeneration'', Flat), (''Phase'', Flat),
    (''AppliedAt'', PtrTo (Ext ''metav1.Time'')), (''DenyReason'', Flat),
    (''AppliedFields'', SliceOf Flat), (''Conditions'', SliceOf (Ext ''metav1.Condition''))]"

definition HermesSelfConfig_shape :: gotype where
  "HermesSelfConfig_shape = Struct [(''TypeMeta'', Struct []),
    (''ObjectMeta'', Ext ''metav1.ObjectMeta''), (''Spec'', HermesSelfConfigSpec_shape),
    (''Status'', HermesSelfConfigStatus_shape)]"

definition HermesSelfConfigList_shape :: gotype where
  "HermesSelfConfigList_shape = Struct [(''TypeMeta'', Struct []),
    (''ListMeta'', Ext ''metav1.ListMeta''), (''Items'', SliceOf HermesSelfConfig_shape)]"

end
