(* ===== verification/DeepCopy.thy ===== *)
theory DeepCopy
  imports Shapes
begin

section \<open>The deep copies of the API types\<close>

text \<open>
  \<open>api/v1/zz_generated.deepcopy.go\<close>, statement by statement: what each \<open>DeepCopyInto\<close> does after
  \<open>*out = *in\<close>, with the \<open>DeepCopy\<close> and \<open>DeepCopyObject\<close> built on it. The file is generated, but it
  is part of the repository and can be out of date with the types, and a field it forgets is shared
  between copies. The operator depends on the copies: a status is written by patching against a copy
  taken before it was changed (\<open>original := inst.DeepCopy()\<close> in the controllers), and the client
  hands out objects of its cache. That the generated code is the copy its type calls for is proved
  type by type; that such a copy is a deep copy is proved once, in theory \<open>GoHeap\<close>.
\<close>

definition AutoUpdateRollbackSpec_DeepCopyInto :: "externals \<Rightarrow> copier" where
  "AutoUpdateRollbackSpec_DeepCopyInto E = struct_into [(''Enabled'', new_flat)]"

definition AutoUpdateRollbackSpec_DeepCopy :: "externals \<Rightarrow> copier" where
  "AutoUpdateRollbackSpec_DeepCopy E = deep_copy (AutoUpdateRollbackSpec_DeepCopyInto E)"

definition AutoUpdateSourceSpec_DeepCopyInto :: "externals \<Rightarrow> copier" where
  "AutoUpdateSourceSpec_DeepCopyInto E = struct_into []"

definition AutoUpdateSourceSpec_DeepCopy :: "externals \<Rightarrow> copier" where
  "AutoUpdateSourceSpec_DeepCopy E = deep_copy (AutoUpdateSourceSpec_DeepCopyInto E)"

definition AutoUpdateSpec_DeepCopyInto :: "externals \<Rightarrow> copier" where
  "AutoUpdateSpec_DeepCopyInto E = struct_into [(''Source'', assign),
    (''BackupBeforeUpdate'', new_flat), (''Rollback'', AutoUpdateRollbackSpec_DeepCopyInto E)]"

definition AutoUpdateSpec_DeepCopy :: "externals \<Rightarrow> copier" where
  "AutoUpdateSpec_DeepCopy E = deep_copy (AutoUpdateSpec_DeepCopyInto E)"

definition AutoUpdateStatus_DeepCopyInto :: "externals \<Rightarrow> copier" where
  "AutoUpdateStatus_DeepCopyInto E = struct_into [
    (''LastCheckTime'', deep_copy (E ''metav1.Time'')),
    (''RolloutDeadline'', deep_copy (E ''metav1.Time''))]"

definition AutoUpdateStatus_DeepCopy :: "externals \<Rightarrow> copier" where
  "AutoUpdateStatus_DeepCopy E = deep_copy (AutoUpdateStatus_DeepCopyInto E)"

definition PDBSpec_DeepCopyInto :: "externals \<Rightarrow> copier" where
  "PDBSpec_DeepCopyInto E = struct_into [(''Enabled'', new_flat), (''MinAvailable'', new_flat),
    (''MaxUnavailable'', new_flat)]"

definition PDBSpec_DeepCopy :: "externals \<Rightarrow> copier" where
  "PDBSpec_DeepCopy E = deep_copy (PDBSpec_DeepCopyInto E)"

definition HPASpec_DeepCopyInto :: "externals \<Rightarrow> copier" where
  "HPASpec_DeepCopyInto E = struct_into [(''Enabled'', new_flat), (''MinReplicas'', new_flat),
    (''MaxReplicas'', new_flat), (''TargetCPUUtilization'', new_flat),
    (''TargetMemoryUtilization'', new_flat),
    (''Behavior'', new_into (E ''autoscalingv2.HorizontalPodAutoscalerBehavior''))]"

definition HPASpec_DeepCopy :: "externals \<Rightarrow> copier" where
  "HPASpec_DeepCopy E = deep_copy (HPASpec_DeepCopyInto E)"

definition AvailabilitySpec_DeepCopyInto :: "externals \<Rightarrow> copier" where
  "AvailabilitySpec_DeepCopyInto E = struct_into [(''PodDisruptionBudget'', PDBSpec_DeepCopyInto E),
    (''HorizontalPodAutoscaler'', HPASpec_DeepCopyInto E),
    (''TopologySpreadConstraints'', slice_into (E ''corev1.TopologySpreadConstraint''))]"

definition AvailabilitySpec_DeepCopy :: "externals \<Rightarrow> copier" where
  "AvailabilitySpec_DeepCopy E = deep_copy (AvailabilitySpec_DeepCopyInto E)"

definition LocalObjectReference_DeepCopyInto :: "externals \<Rightarrow> copier" where
  "LocalObjectReference_DeepCopyInto E = struct_into []"

definition LocalObjectReference_DeepCopy :: "externals \<Rightarrow> copier" where
  "LocalObjectReference_DeepCopy E = deep_copy (LocalObjectReference_DeepCopyInto E)"

definition BackupS3Spec_DeepCopyInto :: "externals \<Rightarrow> copier" where
  "BackupS3Spec_DeepCopyInto E = struct_into [(''CredentialsSecretRef'', assign)]"

definition BackupS3Spec_DeepCopy :: "externals \<Rightarrow> copier" where
  "BackupS3Spec_DeepCopy E = deep_copy (BackupS3Spec_DeepCopyInto E)"

definition BackupSpec_DeepCopyInto :: "externals \<Rightarrow> copier" where
  "BackupSpec_DeepCopyInto E = struct_into [(''S3'', new_flat), (''PreUpdate'', new_flat),
    (''HistoryLimit'', new_flat), (''FailedHistoryLimit'', new_flat)]"

definition BackupSpec_DeepCopy :: "externals \<Rightarrow> copier" where
  "BackupSpec_DeepCopy E = deep_copy (BackupSpec_DeepCopyInto E)"

definition BackupStatus_DeepCopyInto :: "externals \<Rightarrow> copier" where
  "BackupStatus_DeepCopyInto E = struct_into [(''LastSuccessTime'', deep_copy (E ''metav1.Time'')),
    (''LastFailureTime'', deep_copy (E ''metav1.Time''))]"

definition BackupStatus_DeepCopy :: "externals \<Rightarrow> copier" where
  "BackupStatus_DeepCopy E = deep_copy (BackupStatus_DeepCopyInto E)"

definition CABundleSpec_DeepCopyInto :: "externals \<Rightarrow> copier" where
  "CABundleSpec_DeepCopyInto E = struct_into []"

definition CABundleSpec_DeepCopy :: "externals \<Rightarrow> copier" where
  "CABundleSpec_DeepCopy E = deep_copy (CABundleSpec_DeepCopyInto E)"

definition RawConfig_DeepCopyInto :: "externals \<Rightarrow> copier" where
  "RawConfig_DeepCopyInto E = struct_into [(''RawExtension'', E ''runtime.RawExtension'')]"

definition RawConfig_DeepCopy :: "externals \<Rightarrow> copier" where
  "RawConfig_DeepCopy E = deep_copy (RawConfig_DeepCopyInto E)"

definition ConfigSpec_DeepCopyInto :: "externals \<Rightarrow> copier" where
  "ConfigSpec_DeepCopyInto E = struct_into [(''Raw'', new_into (RawConfig_DeepCopyInto E)),
    (''ConfigMapRef'', new_flat)]"

definition ConfigSpec_DeepCopy :: "externals \<Rightarrow> copier" where
  "ConfigSpec_DeepCopy E = deep_copy (ConfigSpec_DeepCopyInto E)"

definition DiscordGatewaySpec_DeepCopyInto :: "externals \<Rightarrow> copier" where
  "DiscordGatewaySpec_DeepCopyInto E = struct_into [(''Enabled'', new_flat),
    (''BotTokenSecretRef'', new_into (E ''corev1.SecretKeySelector'')), (''GuildIDs'', slice_copy)]"

definition DiscordGatewaySpec_DeepCopy :: "externals \<Rightarrow> copier" where
  "DiscordGatewaySpec_DeepCopy E = deep_copy (DiscordGatewaySpec_DeepCopyInto E)"

definition FFmpegSpec_DeepCopyInto :: "externals \<Rightarrow> copier" where
  "FFmpegSpec_DeepCopyInto E = struct_into [(''Enabled'', new_flat)]"

definition FFmpegSpec_DeepCopy :: "externals \<Rightarrow> copier" where
  "FFmpegSpec_DeepCopy E = deep_copy (FFmpegSpec_DeepCopyInto E)"

definition TelegramGatewaySpec_DeepCopyInto :: "externals \<Rightarrow> copier" where
  "TelegramGatewaySpec_DeepCopyInto E = struct_into [(''Enabled'', new_flat),
    (''BotTokenSecretRef'', new_into (E ''corev1.SecretKeySelector'')),
    (''AllowedUserIDs'', slice_copy)]"

definition TelegramGatewaySpec_DeepCopy :: "externals \<Rightarrow> copier" where
  "TelegramGatewaySpec_DeepCopy E = deep_copy (TelegramGatewaySpec_DeepCopyInto E)"

definition SlackGatewaySpec_DeepCopyInto :: "externals \<Rightarrow> copier" where
  "SlackGatewaySpec_DeepCopyInto E = struct_into [(''Enabled'', new_flat),
    (''BotTokenSecretRef'', new_into (E ''corev1.SecretKeySelector'')),
    (''AppTokenSecretRef'', new_into (E ''corev1.SecretKeySelector'')),
    (''SigningSecretRef'', new_into (E ''corev1.SecretKeySelector''))]"

definition SlackGatewaySpec_DeepCopy :: "externals \<Rightarrow> copier" where
  "SlackGatewaySpec_DeepCopy E = deep_copy (SlackGatewaySpec_DeepCopyInto E)"

definition WhatsAppGatewaySpec_DeepCopyInto :: "externals \<Rightarrow> copier" where
  "WhatsAppGatewaySpec_DeepCopyInto E = struct_into [(''Enabled'', new_flat),
    (''ProviderSecretRef'', new_into (E ''corev1.SecretKeySelector''))]"

definition WhatsAppGatewaySpec_DeepCopy :: "externals \<Rightarrow> copier" where
  "WhatsAppGatewaySpec_DeepCopy E = deep_copy (WhatsAppGatewaySpec_DeepCopyInto E)"

definition SignalGatewaySpec_DeepCopyInto :: "externals \<Rightarrow> copier" where
  "SignalGatewaySpec_DeepCopyInto E = struct_into [(''Enabled'', new_flat),
    (''PhoneNumberSecretRef'', new_into (E ''corev1.SecretKeySelector'')),
    (''AuthTokenSecretRef'', new_into (E ''corev1.SecretKeySelector''))]"

definition SignalGatewaySpec_DeepCopy :: "externals \<Rightarrow> copier" where
  "SignalGatewaySpec_DeepCopy E = deep_copy (SignalGatewaySpec_DeepCopyInto E)"

definition GatewaysSpec_DeepCopyInto :: "externals \<Rightarrow> copier" where
  "GatewaysSpec_DeepCopyInto E = struct_into [(''Telegram'', TelegramGatewaySpec_DeepCopyInto E),
    (''Discord'', DiscordGatewaySpec_DeepCopyInto E), (''Slack'', SlackGatewaySpec_DeepCopyInto E),
    (''WhatsApp'', WhatsAppGatewaySpec_DeepCopyInto E),
    (''Signal'', SignalGatewaySpec_DeepCopyInto E)]"

definition GatewaysSpec_DeepCopy :: "externals \<Rightarrow> copier" where
  "GatewaysSpec_DeepCopy E = deep_copy (GatewaysSpec_DeepCopyInto E)"

definition GrafanaDashboardSpec_DeepCopyInto :: "externals \<Rightarrow> copier" where
  "GrafanaDashboardSpec_DeepCopyInto E = struct_into [(''Enabled'', new_flat),
    (''Labels'', map_copy)]"

definition GrafanaDashboardSpec_DeepCopy :: "externals \<Rightarrow> copier" where
  "GrafanaDashboardSpec_DeepCopy E = deep_copy (GrafanaDashboardSpec_DeepCopyInto E)"

definition HTTPRouteParentRef_DeepCopyInto :: "externals \<Rightarrow> copier" where
  "HTTPRouteParentRef_DeepCopyInto E = struct_into [(''Namespace'', new_flat),
    (''SectionName'', new_flat)]"

definition HTTPRouteParentRef_DeepCopy :: "externals \<Rightarrow> copier" where
  "HTTPRouteParentRef_DeepCopy E = deep_copy (HTTPRouteParentRef_DeepCopyInto E)"

definition HTTPRouteSpec_DeepCopyInto :: "externals \<Rightarrow> copier" where
  "HTTPRouteSpec_DeepCopyInto E = struct_into [(''Enabled'', new_flat),
    (''ParentRefs'', slice_into (HTTPRouteParentRef_DeepCopyInto E)), (''Hostnames'', slice_copy),
    (''Annotations'', map_copy)]"

definition HTTPRouteSpec_DeepCopy :: "externals \<Rightarrow> copier" where
  "HTTPRouteSpec_DeepCopy E = deep_copy (HTTPRouteSpec_DeepCopyInto E)"

definition ImageSpec_DeepCopyInto :: "externals \<Rightarrow> copier" where
  "ImageSpec_DeepCopyInto E = struct_into []"

definition ImageSpec_DeepCopy :: "externals \<Rightarrow> copier" where
  "ImageSpec_DeepCopy E = deep_copy (ImageSpec_DeepCopyInto E)"

definition RegistryDefaults_DeepCopyInto :: "externals \<Rightarrow> copier" where
  "RegistryDefaults_DeepCopyInto E = struct_into []"

definition RegistryDefaults_DeepCopy :: "externals \<Rightarrow> copier" where
  "RegistryDefaults_DeepCopy E = deep_copy (RegistryDefaults_DeepCopyInto E)"

definition PersistenceSpec_DeepCopyInto :: "externals \<Rightarrow> copier" where
  "PersistenceSpec_DeepCopyInto E = struct_into [(''Enabled'', new_flat),
    (''StorageClassName'', new_flat)]"

definition PersistenceSpec_DeepCopy :: "externals \<Rightarrow> copier" where
  "PersistenceSpec_DeepCopy E = deep_copy (PersistenceSpec_DeepCopyInto E)"

definition StorageSpec_DeepCopyInto :: "externals \<Rightarrow> copier" where
  "StorageSpec_DeepCopyInto E = struct_into [(''Persistence'', PersistenceSpec_DeepCopyInto E)]"

definition StorageSpec_DeepCopy :: "externals \<Rightarrow> copier" where
  "StorageSpec_DeepCopy E = deep_copy (StorageSpec_DeepCopyInto E)"

definition ServiceAccountDefaults_DeepCopyInto :: "externals \<Rightarrow> copier" where
  "ServiceAccountDefaults_DeepCopyInto E = struct_into [(''Annotations'', map_copy)]"

definition ServiceAccountDefaults_DeepCopy :: "externals \<Rightarrow> copier" where
  "ServiceAccountDefaults_DeepCopy E = deep_copy (ServiceAccountDefaults_DeepCopyInto E)"

definition NetworkPolicyDefaults_DeepCopyInto :: "externals \<Rightarrow> copier" where
  "NetworkPolicyDefaults_DeepCopyInto E = struct_into [(''Enabled'', new_flat),
    (''AllowDNS'', new_flat)]"

definition NetworkPolicyDefaults_DeepCopy :: "externals \<Rightarrow> copier" where
  "NetworkPolicyDefaults_DeepCopy E = deep_copy (NetworkPolicyDefaults_DeepCopyInto E)"

definition SecurityDefaults_DeepCopyInto :: "externals \<Rightarrow> copier" where
  "SecurityDefaults_DeepCopyInto E = struct_into [
    (''ServiceAccount'', ServiceAccountDefaults_DeepCopyInto E),
    (''NetworkPolicy'', NetworkPolicyDefaults_DeepCopyInto E), (''CABundle'', assign)]"

definition SecurityDefaults_DeepCopy :: "externals \<Rightarrow> copier" where
  "SecurityDefaults_DeepCopy E = deep_copy (SecurityDefaults_DeepCopyInto E)"

definition MetricsSpec_DeepCopyInto :: "externals \<Rightarrow> copier" where
  "MetricsSpec_DeepCopyInto E = struct_into [(''Enabled'', new_flat), (''Secure'', new_flat),
    (''GrafanaDashboard'', new_into (GrafanaDashboardSpec_DeepCopyInto E))]"

definition MetricsSpec_DeepCopy :: "externals \<Rightarrow> copier" where
  "MetricsSpec_DeepCopy E = deep_copy (MetricsSpec_DeepCopyInto E)"

definition ServiceMonitorSpec_DeepCopyInto :: "externals \<Rightarrow> copier" where
  "ServiceMonitorSpec_DeepCopyInto E = struct_into [(''Enabled'', new_flat), (''Labels'', map_copy)]"

definition ServiceMonitorSpec_DeepCopy :: "externals \<Rightarrow> copier" where
  "ServiceMonitorSpec_DeepCopy E = deep_copy (ServiceMonitorSpec_DeepCopyInto E)"

definition PrometheusRule_DeepCopyInto :: "externals \<Rightarrow> copier" where
  "PrometheusRule_DeepCopyInto E = struct_into [(''Labels'', map_copy), (''Annotations'', map_copy)]"

definition PrometheusRule_DeepCopy :: "externals \<Rightarrow> copier" where
  "PrometheusRule_DeepCopy E = deep_copy (PrometheusRule_DeepCopyInto E)"

definition PrometheusRuleSpec_DeepCopyInto :: "externals \<Rightarrow> copier" where
  "PrometheusRuleSpec_DeepCopyInto E = struct_into [(''Enabled'', new_flat),
    (''AdditionalRules'', slice_into (PrometheusRule_DeepCopyInto E))]"

definition PrometheusRuleSpec_DeepCopy :: "externals \<Rightarrow> copier" where
  "PrometheusRuleSpec_DeepCopy E = deep_copy (PrometheusRuleSpec_DeepCopyInto E)"

definition LoggingSpec_DeepCopyInto :: "externals \<Rightarrow> copier" where
  "LoggingSpec_DeepCopyInto E = struct_into []"

definition LoggingSpec_DeepCopy :: "externals \<Rightarrow> copier" where
  "LoggingSpec_DeepCopy E = deep_copy (LoggingSpec_DeepCopyInto E)"

definition ObservabilityDefaults_DeepCopyInto :: "externals \<Rightarrow> copier" where
  "ObservabilityDefaults_DeepCopyInto E = struct_into [(''Metrics'', MetricsSpec_DeepCopyInto E),
    (''ServiceMonitor'', ServiceMonitorSpec_DeepCopyInto E),
    (''PrometheusRule'', PrometheusRuleSpec_DeepCopyInto E), (''Logging'', assign)]"

definition ObservabilityDefaults_DeepCopy :: "externals \<Rightarrow> copier" where
  "ObservabilityDefaults_DeepCopy E = deep_copy (ObservabilityDefaults_DeepCopyInto E)"

definition ServiceDefaults_DeepCopyInto :: "externals \<Rightarrow> copier" where
  "ServiceDefaults_DeepCopyInto E = struct_into []"

definition ServiceDefaults_DeepCopy :: "externals \<Rightarrow> copier" where
  "ServiceDefaults_DeepCopy E = deep_copy (ServiceDefaults_DeepCopyInto E)"

definition NetworkingDefaults_DeepCopyInto :: "externals \<Rightarrow> copier" where
  "NetworkingDefaults_DeepCopyInto E = struct_into [(''Service'', assign),
    (''NetworkPolicy'', NetworkPolicyDefaults_DeepCopyInto E)]"

definition NetworkingDefaults_DeepCopy :: "externals \<Rightarrow> copier" where
  "NetworkingDefaults_DeepCopy E = deep_copy (NetworkingDefaults_DeepCopyInto E)"

definition ResourcesSpec_DeepCopyInto :: "externals \<Rightarrow> copier" where
  "ResourcesSpec_DeepCopyInto E = struct_into [(''Requests'', map_into (E ''resource.Quantity'')),
    (''Limits'', map_into (E ''resource.Quantity''))]"

definition ResourcesSpec_DeepCopy :: "externals \<Rightarrow> copier" where
  "ResourcesSpec_DeepCopy E = deep_copy (ResourcesSpec_DeepCopyInto E)"

definition HermesClusterDefaultsSpec_DeepCopyInto :: "externals \<Rightarrow> copier" where
  "HermesClusterDefaultsSpec_DeepCopyInto E = struct_into [(''Image'', assign),
    (''Registry'', assign), (''Storage'', StorageSpec_DeepCopyInto E),
    (''Security'', SecurityDefaults_DeepCopyInto E),
    (''Observability'', ObservabilityDefaults_DeepCopyInto E),
    (''Networking'', NetworkingDefaults_DeepCopyInto E),
    (''Resources'', ResourcesSpec_DeepCopyInto E)]"

definition HermesClusterDefaultsSpec_DeepCopy :: "externals \<Rightarrow> copier" where
  "HermesClusterDefaultsSpec_DeepCopy E = deep_copy (HermesClusterDefaultsSpec_DeepCopyInto E)"

definition HermesClusterDefaultsStatus_DeepCopyInto :: "externals \<Rightarrow> copier" where
  "HermesClusterDefaultsStatus_DeepCopyInto E = struct_into [
    (''Conditions'', slice_into (E ''metav1.Condition''))]"

definition HermesClusterDefaultsStatus_DeepCopy :: "externals \<Rightarrow> copier" where
  "HermesClusterDefaultsStatus_DeepCopy E = deep_copy (HermesClusterDefaultsStatus_DeepCopyInto E)"

definition HermesClusterDefaults_DeepCopyInto :: "externals \<Rightarrow> copier" where
  "HermesClusterDefaults_DeepCopyInto E = struct_into [(''TypeMeta'', assign),
    (''ObjectMeta'', E ''metav1.ObjectMeta''), (''Spec'', HermesClusterDefaultsSpec_DeepCopyInto E),
    (''Status'', HermesClusterDefaultsStatus_DeepCopyInto E)]"

definition HermesClusterDefaults_DeepCopy :: "externals \<Rightarrow> copier" where
  "HermesClusterDefaults_DeepCopy E = deep_copy (HermesClusterDefaults_DeepCopyInto E)"

definition HermesClusterDefaults_DeepCopyObject ::
  "externals \<Rightarrow> gval \<Rightarrow> memory \<Rightarrow> gval option \<times> memory" where
  "HermesClusterDefaults_DeepCopyObject E = deep_copy_object (HermesClusterDefaults_DeepCopy E)"

definition HermesClusterDefaultsList_DeepCopyInto :: "externals \<Rightarrow> copier" where
  "HermesClusterDefaultsList_DeepCopyInto E = struct_into [(''TypeMeta'', assign),
    (''ListMeta'', E ''metav1.ListMeta''),
    (''Items'', slice_into (HermesClusterDefaults_DeepCopyInto E))]"

definition HermesClusterDefaultsList_DeepCopy :: "externals \<Rightarrow> copier" where
  "HermesClusterDefaultsList_DeepCopy E = deep_copy (HermesClusterDefaultsList_DeepCopyInto E)"

definition HermesClusterDefaultsList_DeepCopyObject ::
  "externals \<Rightarrow> gval \<Rightarrow> memory \<Rightarrow> gval option \<times> memory" where
  "HermesClusterDefaultsList_DeepCopyObject E = deep_copy_object (HermesClusterDefaultsList_DeepCopy E)"

definition WorkspaceFile_DeepCopyInto :: "externals \<Rightarrow> copier" where
  "WorkspaceFile_DeepCopyInto E = struct_into []"

definition WorkspaceFile_DeepCopy :: "externals \<Rightarrow> copier" where
  "WorkspaceFile_DeepCopy E = deep_copy (WorkspaceFile_DeepCopyInto E)"

definition WorkspaceBootstrap_DeepCopyInto :: "externals \<Rightarrow> copier" where
  "WorkspaceBootstrap_DeepCopyInto E = struct_into [(''Enabled'', new_flat)]"

definition WorkspaceBootstrap_DeepCopy :: "externals \<Rightarrow> copier" where
  "WorkspaceBootstrap_DeepCopy E = deep_copy (WorkspaceBootstrap_DeepCopyInto E)"

definition WorkspaceSpec_DeepCopyInto :: "externals \<Rightarrow> copier" where
  "WorkspaceSpec_DeepCopyInto E = struct_into [(''InitialFiles'', slice_copy),
    (''InitialDirs'', slice_copy), (''ConfigMapRef'', new_flat),
    (''Bootstrap'', WorkspaceBootstrap_DeepCopyInto E)]"

definition WorkspaceSpec_DeepCopy :: "externals \<Rightarrow> copier" where
  "WorkspaceSpec_DeepCopy E = deep_copy (WorkspaceSpec_DeepCopyInto E)"

definition RBACSpec_DeepCopyInto :: "externals \<Rightarrow> copier" where
  "RBACSpec_DeepCopyInto E = struct_into [(''CreateServiceAccount'', new_flat),
    (''Annotations'', map_copy)]"

definition RBACSpec_DeepCopy :: "externals \<Rightarrow> copier" where
  "RBACSpec_DeepCopy E = deep_copy (RBACSpec_DeepCopyInto E)"

definition NetworkPolicySpec_DeepCopyInto :: "externals \<Rightarrow> copier" where
  "NetworkPolicySpec_DeepCopyInto E = struct_into [(''Enabled'', new_flat),
    (''AllowDNS'', new_flat), (''AllowedIngressNamespaces'', slice_copy),
    (''AllowedIngressCIDRs'', slice_copy), (''AllowedEgressCIDRs'', slice_copy),
    (''AdditionalEgress'', slice_into (E ''networkingv1.NetworkPolicyEgressRule''))]"

definition NetworkPolicySpec_DeepCopy :: "externals \<Rightarrow> copier" where
  "NetworkPolicySpec_DeepCopy E = deep_copy (NetworkPolicySpec_DeepCopyInto E)"

definition SecuritySpec_DeepCopyInto :: "externals \<Rightarrow> copier" where
  "SecuritySpec_DeepCopyInto E = struct_into [
    (''PodSecurityContext'', new_into (E ''corev1.PodSecurityContext'')),
    (''ContainerSecurityContext'', new_into (E ''corev1.SecurityContext'')),
    (''RBAC'', RBACSpec_DeepCopyInto E), (''NetworkPolicy'', NetworkPolicySpec_DeepCopyInto E),
    (''CABundle'', assign)]"

definition SecuritySpec_DeepCopy :: "externals \<Rightarrow> copier" where
  "SecuritySpec_DeepCopy E = deep_copy (SecuritySpec_DeepCopyInto E)"

definition NamedServicePort_DeepCopyInto :: "externals \<Rightarrow> copier" where
  "NamedServicePort_DeepCopyInto E = struct_into [(''TargetPort'', new_flat)]"

definition NamedServicePort_DeepCopy :: "externals \<Rightarrow> copier" where
  "NamedServicePort_DeepCopy E = deep_copy (NamedServicePort_DeepCopyInto E)"

definition ServiceSpec_DeepCopyInto :: "externals \<Rightarrow> copier" where
  "ServiceSpec_DeepCopyInto E = struct_into [
    (''Ports'', slice_into (NamedServicePort_DeepCopyInto E)), (''Annotations'', map_copy),
    (''LoadBalancerClass'', new_flat)]"

definition ServiceSpec_DeepCopy :: "externals \<Rightarrow> copier" where
  "ServiceSpec_DeepCopy E = deep_copy (ServiceSpec_DeepCopyInto E)"

definition IngressTLSSpec_DeepCopyInto :: "externals \<Rightarrow> copier" where
  "IngressTLSSpec_DeepCopyInto E = struct_into [(''Hosts'', slice_copy)]"

definition IngressTLSSpec_DeepCopy :: "externals \<Rightarrow> copier" where
  "IngressTLSSpec_DeepCopy E = deep_copy (IngressTLSSpec_DeepCopyInto E)"

definition IngressSpec_DeepCopyInto :: "externals \<Rightarrow> copier" where
  "IngressSpec_DeepCopyInto E = struct_into [(''Enabled'', new_flat), (''ClassName'', new_flat),
    (''TLS'', slice_into (IngressTLSSpec_DeepCopyInto E)), (''Annotations'', map_copy)]"

definition IngressSpec_DeepCopy :: "externals \<Rightarrow> copier" where
  "IngressSpec_DeepCopy E = deep_copy (IngressSpec_DeepCopyInto E)"

definition NetworkingSpec_DeepCopyInto :: "externals \<Rightarrow> copier" where
  "NetworkingSpec_DeepCopyInto E = struct_into [(''Service'', ServiceSpec_DeepCopyInto E),
    (''Ingress'', IngressSpec_DeepCopyInto E),
    (''HTTPRoute'', new_into (HTTPRouteSpec_DeepCopyInto E))]"

definition NetworkingSpec_DeepCopy :: "externals \<Rightarrow> copier" where
  "NetworkingSpec_DeepCopy E = deep_copy (NetworkingSpec_DeepCopyInto E)"

definition ObservabilitySpec_DeepCopyInto :: "externals \<Rightarrow> copier" where
  "ObservabilitySpec_DeepCopyInto E = struct_into [(''Metrics'', MetricsSpec_DeepCopyInto E),
    (''ServiceMonitor'', ServiceMonitorSpec_DeepCopyInto E),
    (''PrometheusRule'', PrometheusRuleSpec_DeepCopyInto E), (''Logging'', assign)]"

definition ObservabilitySpec_DeepCopy :: "externals \<Rightarrow> copier" where
  "ObservabilitySpec_DeepCopy E = deep_copy (ObservabilitySpec_DeepCopyInto E)"

definition ProbesSpec_DeepCopyInto :: "externals \<Rightarrow> copier" where
  "ProbesSpec_DeepCopyInto E = struct_into [(''Liveness'', new_into (E ''corev1.Probe'')),
    (''Readiness'', new_into (E ''corev1.Probe'')), (''Startup'', new_into (E ''corev1.Probe''))]"

definition ProbesSpec_DeepCopy :: "externals \<Rightarrow> copier" where
  "ProbesSpec_DeepCopy E = deep_copy (ProbesSpec_DeepCopyInto E)"

definition SchedulingSpec_DeepCopyInto :: "externals \<Rightarrow> copier" where
  "SchedulingSpec_DeepCopyInto E = struct_into [(''NodeSelector'', map_copy),
    (''Tolerations'', slice_into (E ''corev1.Toleration'')),
    (''Affinity'', new_into (E ''corev1.Affinity''))]"

definition SchedulingSpec_DeepCopy :: "externals \<Rightarrow> copier" where
  "SchedulingSpec_DeepCopy E = deep_copy (SchedulingSpec_DeepCopyInto E)"

definition InstanceSkill_DeepCopyInto :: "externals \<Rightarrow> copier" where
  "InstanceSkill_DeepCopyInto E = struct_into []"

definition InstanceSkill_DeepCopy :: "externals \<Rightarrow> copier" where
  "InstanceSkill_DeepCopy E = deep_copy (InstanceSkill_DeepCopyInto E)"

definition SelfConfigureSpec_DeepCopyInto :: "externals \<Rightarrow> copier" where
  "SelfConfigureSpec_DeepCopyInto E = struct_into [(''Enabled'', new_flat),
    (''AllowedActions'', slice_copy), (''ProtectedKeys'', slice_copy)]"

definition SelfConfigureSpec_DeepCopy :: "externals \<Rightarrow> copier" where
  "SelfConfigureSpec_DeepCopy E = deep_copy (SelfConfigureSpec_DeepCopyInto E)"

definition NamespacedObjectReference_DeepCopyInto :: "externals \<Rightarrow> copier" where
  "NamespacedObjectReference_DeepCopyInto E = struct_into []"

definition NamespacedObjectReference_DeepCopy :: "externals \<Rightarrow> copier" where
  "NamespacedObjectReference_DeepCopy E = deep_copy (NamespacedObjectReference_DeepCopyInto E)"

definition MigrationBackupS3_DeepCopyInto :: "externals \<Rightarrow> copier" where
  "MigrationBackupS3_DeepCopyInto E = struct_into [(''CredentialsSecretRef'', assign)]"

definition MigrationBackupS3_DeepCopy :: "externals \<Rightarrow> copier" where
  "MigrationBackupS3_DeepCopy E = deep_copy (MigrationBackupS3_DeepCopyInto E)"

definition MigrationBackupRef_DeepCopyInto :: "externals \<Rightarrow> copier" where
  "MigrationBackupRef_DeepCopyInto E = struct_into [(''S3'', assign)]"

definition MigrationBackupRef_DeepCopy :: "externals \<Rightarrow> copier" where
  "MigrationBackupRef_DeepCopy E = deep_copy (MigrationBackupRef_DeepCopyInto E)"

definition MigrationFromOpenClawSource_DeepCopyInto :: "externals \<Rightarrow> copier" where
  "MigrationFromOpenClawSource_DeepCopyInto E = struct_into [(''OpenClawInstanceRef'', new_flat),
    (''BackupRef'', new_flat)]"

definition MigrationFromOpenClawSource_DeepCopy :: "externals \<Rightarrow> copier" where
  "MigrationFromOpenClawSource_DeepCopy E = deep_copy (MigrationFromOpenClawSource_DeepCopyInto E)"

definition MigrationFromOpenClawSpec_DeepCopyInto :: "externals \<Rightarrow> copier" where
  "MigrationFromOpenClawSpec_DeepCopyInto E = struct_into [
    (''Source'', MigrationFromOpenClawSource_DeepCopyInto E)]"

definition MigrationFromOpenClawSpec_DeepCopy :: "externals \<Rightarrow> copier" where
  "MigrationFromOpenClawSpec_DeepCopy E = deep_copy (MigrationFromOpenClawSpec_DeepCopyInto E)"

definition MigrationSpec_DeepCopyInto :: "externals \<Rightarrow> copier" where
  "MigrationSpec_DeepCopyInto E = struct_into [
    (''FromOpenClaw'', new_into (MigrationFromOpenClawSpec_DeepCopyInto E))]"

definition MigrationSpec_DeepCopy :: "externals \<Rightarrow> copier" where
  "MigrationSpec_DeepCopy E = deep_copy (MigrationSpec_DeepCopyInto E)"

definition UVCacheVolumeSpec_DeepCopyInto :: "externals \<Rightarrow> copier" where
  "UVCacheVolumeSpec_DeepCopyInto E = struct_into [
    (''EmptyDir'', new_into (E ''corev1.EmptyDirVolumeSource'')),
    (''PersistentVolumeClaim'', new_flat)]"

definition UVCacheVolumeSpec_DeepCopy :: "externals \<Rightarrow> copier" where
  "UVCacheVolumeSpec_DeepCopy E = deep_copy (UVCacheVolumeSpec_DeepCopyInto E)"

definition UVSpec_DeepCopyInto :: "externals \<Rightarrow> copier" where
  "UVSpec_DeepCopyInto E = struct_into [(''Enabled'', new_flat),
    (''CacheVolume'', UVCacheVolumeSpec_DeepCopyInto E)]"

definition UVSpec_DeepCopy :: "externals \<Rightarrow> copier" where
  "UVSpec_DeepCopy E = deep_copy (UVSpec_DeepCopyInto E)"

definition RipgrepSpec_DeepCopyInto :: "externals \<Rightarrow> copier" where
  "RipgrepSpec_DeepCopyInto E = struct_into [(''Enabled'', new_flat)]"

definition RipgrepSpec_DeepCopy :: "externals \<Rightarrow> copier" where
  "RipgrepSpec_DeepCopy E = deep_copy (RipgrepSpec_DeepCopyInto E)"

definition RuntimeSpec_DeepCopyInto :: "externals \<Rightarrow> copier" where
  "RuntimeSpec_DeepCopyInto E = struct_into [(''UV'', UVSpec_DeepCopyInto E),
    (''FFmpeg'', FFmpegSpec_DeepCopyInto E), (''Ripgrep'', RipgrepSpec_DeepCopyInto E),
    (''ExtraAptPackages'', slice_copy), (''ExtraPipPackages'', slice_copy)]"

definition RuntimeSpec_DeepCopy :: "externals \<Rightarrow> copier" where
  "RuntimeSpec_DeepCopy E = deep_copy (RuntimeSpec_DeepCopyInto E)"

definition HonchoImageSpec_DeepCopyInto :: "externals \<Rightarrow> copier" where
  "HonchoImageSpec_DeepCopyInto E = struct_into []"

definition HonchoImageSpec_DeepCopy :: "externals \<Rightarrow> copier" where
  "HonchoImageSpec_DeepCopy E = deep_copy (HonchoImageSpec_DeepCopyInto E)"

definition HonchoPersistenceSpec_DeepCopyInto :: "externals \<Rightarrow> copier" where
  "HonchoPersistenceSpec_DeepCopyInto E = struct_into [(''Enabled'', new_flat),
    (''StorageClassName'', new_flat)]"

definition HonchoPersistenceSpec_DeepCopy :: "externals \<Rightarrow> copier" where
  "HonchoPersistenceSpec_DeepCopy E = deep_copy (HonchoPersistenceSpec_DeepCopyInto E)"

definition HonchoSpec_DeepCopyInto :: "externals \<Rightarrow> copier" where
  "HonchoSpec_DeepCopyInto E = struct_into [(''Enabled'', new_flat), (''Image'', assign),
    (''Persistence'', HonchoPersistenceSpec_DeepCopyInto E),
    (''Resources'', E ''corev1.ResourceRequirements''),
    (''APIKeySecretRef'', new_into (E ''corev1.SecretKeySelector''))]"

definition HonchoSpec_DeepCopy :: "externals \<Rightarrow> copier" where
  "HonchoSpec_DeepCopy E = deep_copy (HonchoSpec_DeepCopyInto E)"

definition ProfileStoreSpec_DeepCopyInto :: "externals \<Rightarrow> copier" where
  "ProfileStoreSpec_DeepCopyInto E = struct_into [(''Honcho'', HonchoSpec_DeepCopyInto E)]"

definition ProfileStoreSpec_DeepCopy :: "externals \<Rightarrow> copier" where
  "ProfileStoreSpec_DeepCopy E = deep_copy (ProfileStoreSpec_DeepCopyInto E)"

definition TailscaleAuthKey_DeepCopyInto :: "externals \<Rightarrow> copier" where
  "TailscaleAuthKey_DeepCopyInto E = struct_into [
    (''SecretRef'', new_into (E ''corev1.SecretKeySelector''))]"

definition TailscaleAuthKey_DeepCopy :: "externals \<Rightarrow> copier" where
  "TailscaleAuthKey_DeepCopy E = deep_copy (TailscaleAuthKey_DeepCopyInto E)"

definition TailscaleImageSpec_DeepCopyInto :: "externals \<Rightarrow> copier" where
  "TailscaleImageSpec_DeepCopyInto E = struct_into []"

definition TailscaleImageSpec_DeepCopy :: "externals \<Rightarrow> copier" where
  "TailscaleImageSpec_DeepCopy E = deep_copy (TailscaleImageSpec_DeepCopyInto E)"

definition TailscaleSpec_DeepCopyInto :: "externals \<Rightarrow> copier" where
  "TailscaleSpec_DeepCopyInto E = struct_into [(''Enabled'', new_flat),
    (''AuthKey'', new_into (TailscaleAuthKey_DeepCopyInto E)), (''Image'', assign),
    (''Resources'', E ''corev1.ResourceRequirements'')]"

definition TailscaleSpec_DeepCopy :: "externals \<Rightarrow> copier" where
  "TailscaleSpec_DeepCopy E = deep_copy (TailscaleSpec_DeepCopyInto E)"

definition SemaphoreSpec_DeepCopyInto :: "externals \<Rightarrow> copier" where
  "SemaphoreSpec_DeepCopyInto E = struct_into [(''Enabled'', new_flat),
    (''TokenSecretRef'', new_into (E ''corev1.SecretKeySelector'')),
    (''CleanupOnDelete'', new_flat),
    (''AdminTokenSecretRef'', new_into (E ''corev1.SecretKeySelector''))]"

definition SemaphoreSpec_DeepCopy :: "externals \<Rightarrow> copier" where
  "SemaphoreSpec_DeepCopy E = deep_copy (SemaphoreSpec_DeepCopyInto E)"

definition HermesInstanceSpec_DeepCopyInto :: "externals \<Rightarrow> copier" where
  "HermesInstanceSpec_DeepCopyInto E = struct_into [(''Image'', assign),
    (''Config'', ConfigSpec_DeepCopyInto E), (''Workspace'', WorkspaceSpec_DeepCopyInto E),
    (''Resources'', ResourcesSpec_DeepCopyInto E), (''Security'', SecuritySpec_DeepCopyInto E),
    (''Storage'', StorageSpec_DeepCopyInto E), (''Networking'', NetworkingSpec_DeepCopyInto E),
    (''Observability'', ObservabilitySpec_DeepCopyInto E),
    (''Availability'', AvailabilitySpec_DeepCopyInto E), (''Probes'', ProbesSpec_DeepCopyInto E),
    (''Scheduling'', SchedulingSpec_DeepCopyInto E), (''ShareProcessNamespace'', new_flat),
    (''InitContainers'', slice_into (E ''corev1.Container'')),
    (''Sidecars'', slice_into (E ''corev1.Container'')),
    (''ExtraVolumes'', slice_into (E ''corev1.Volume'')),
    (''ExtraVolumeMounts'', slice_into (E ''corev1.VolumeMount'')),
    (''EnvFrom'', slice_into (E ''corev1.EnvFromSource'')),
    (''Env'', slice_into (E ''corev1.EnvVar'')), (''Skills'', slice_copy),
    (''SelfConfigure'', SelfConfigureSpec_DeepCopyInto E), (''Backup'', BackupSpec_DeepCopyInto E),
    (''AutoUpdate'', AutoUpdateSpec_DeepCopyInto E), (''Migration'', MigrationSpec_DeepCopyInto E),
    (''Runtime'', RuntimeSpec_DeepCopyInto E), (''Gateways'', GatewaysSpec_DeepCopyInto E),
    (''ProfileStore'', ProfileStoreSpec_DeepCopyInto E),
    (''Tailscale'', TailscaleSpec_DeepCopyInto E), (''Semaphore'', SemaphoreSpec_DeepCopyInto E)]"

definition HermesInstanceSpec_DeepCopy :: "externals \<Rightarrow> copier" where
  "HermesInstanceSpec_DeepCopy E = deep_copy (HermesInstanceSpec_DeepCopyInto E)"

definition MigrationStatus_DeepCopyInto :: "externals \<Rightarrow> copier" where
  "MigrationStatus_DeepCopyInto E = struct_into [(''FinishedAt'', deep_copy (E ''metav1.Time''))]"

definition MigrationStatus_DeepCopy :: "externals \<Rightarrow> copier" where
  "MigrationStatus_DeepCopy E = deep_copy (MigrationStatus_DeepCopyInto E)"

definition HermesInstanceStatus_DeepCopyInto :: "externals \<Rightarrow> copier" where
  "HermesInstanceStatus_DeepCopyInto E = struct_into [
    (''Conditions'', slice_into (E ''metav1.Condition'')),
    (''Backup'', BackupStatus_DeepCopyInto E), (''AutoUpdate'', AutoUpdateStatus_DeepCopyInto E),
    (''Migration'', MigrationStatus_DeepCopyInto E)]"

definition HermesInstanceStatus_DeepCopy :: "externals \<Rightarrow> copier" where
  "HermesInstanceStatus_DeepCopy E = deep_copy (HermesInstanceStatus_DeepCopyInto E)"

definition HermesInstance_DeepCopyInto :: "externals \<Rightarrow> copier" where
  "HermesInstance_DeepCopyInto E = struct_into [(''TypeMeta'', assign),
    (''ObjectMeta'', E ''metav1.ObjectMeta''), (''Spec'', HermesInstanceSpec_DeepCopyInto E),
    (''Status'', HermesInstanceStatus_DeepCopyInto E)]"

definition HermesInstance_DeepCopy :: "externals \<Rightarrow> copier" where
  "HermesInstance_DeepCopy E = deep_copy (HermesInstance_DeepCopyInto E)"

definition HermesInstance_DeepCopyObject ::
  "externals \<Rightarrow> gval \<Rightarrow> memory \<Rightarrow> gval option \<times> memory" where
  "HermesInstance_DeepCopyObject E = deep_copy_object (HermesInstance_DeepCopy E)"

definition HermesInstanceList_DeepCopyInto :: "externals \<Rightarrow> copier" where
  "HermesInstanceList_DeepCopyInto E = struct_into [(''TypeMeta'', assign),
    (''ListMeta'', E ''metav1.ListMeta''), (''Items'', slice_into (HermesInstance_DeepCopyInto E))]"

definition HermesInstanceList_DeepCopy :: "externals \<Rightarrow> copier" where
  "HermesInstanceList_DeepCopy E = deep_copy (HermesInstanceList_DeepCopyInto E)"

definition HermesInstanceList_DeepCopyObject ::
  "externals \<Rightarrow> gval \<Rightarrow> memory \<Rightarrow> gval option \<times> memory" where
  "HermesInstanceList_DeepCopyObject E = deep_copy_object (HermesInstanceList_DeepCopy E)"

definition SelfConfigSkill_DeepCopyInto :: "externals \<Rightarrow> copier" where
  "SelfConfigSkill_DeepCopyInto E = struct_into []"

definition SelfConfigSkill_DeepCopy :: "externals \<Rightarrow> copier" where
  "SelfConfigSkill_DeepCopy E = deep_copy (SelfConfigSkill_DeepCopyInto E)"

definition SelfConfigKeySelector_DeepCopyInto :: "externals \<Rightarrow> copier" where
  "SelfConfigKeySelector_DeepCopyInto E = struct_into []"

definition SelfConfigKeySelector_DeepCopy :: "externals \<Rightarrow> copier" where
  "SelfConfigKeySelector_DeepCopy E = deep_copy (SelfConfigKeySelector_DeepCopyInto E)"

definition SelfConfigEnvVarSource_DeepCopyInto :: "externals \<Rightarrow> copier" where
  "SelfConfigEnvVarSource_DeepCopyInto E = struct_into [(''SecretKeyRef'', new_flat),
    (''ConfigMapKeyRef'', new_flat)]"

definition SelfConfigEnvVarSource_DeepCopy :: "externals \<Rightarrow> copier" where
  "SelfConfigEnvVarSource_DeepCopy E = deep_copy (SelfConfigEnvVarSource_DeepCopyInto E)"

definition SelfConfigEnvVar_DeepCopyInto :: "externals \<Rightarrow> copier" where
  "SelfConfigEnvVar_DeepCopyInto E = struct_into [
    (''ValueFrom'', new_into (SelfConfigEnvVarSource_DeepCopyInto E))]"

definition SelfConfigEnvVar_DeepCopy :: "externals \<Rightarrow> copier" where
  "SelfConfigEnvVar_DeepCopy E = deep_copy (SelfConfigEnvVar_DeepCopyInto E)"

definition SelfConfigWorkspaceFile_DeepCopyInto :: "externals \<Rightarrow> copier" where
  "SelfConfigWorkspaceFile_DeepCopyInto E = struct_into [(''ContentFrom'', new_flat)]"

definition SelfConfigWorkspaceFile_DeepCopy :: "externals \<Rightarrow> copier" where
  "SelfConfigWorkspaceFile_DeepCopy E = deep_copy (SelfConfigWorkspaceFile_DeepCopyInto E)"

definition SelfConfigProfileSnapshot_DeepCopyInto :: "externals \<Rightarrow> copier" where
  "SelfConfigProfileSnapshot_DeepCopyInto E = struct_into []"

definition SelfConfigProfileSnapshot_DeepCopy :: "externals \<Rightarrow> copier" where
  "SelfConfigProfileSnapshot_DeepCopy E = deep_copy (SelfConfigProfileSnapshot_DeepCopyInto E)"

definition HermesSelfConfigSpec_DeepCopyInto :: "externals \<Rightarrow> copier" where
  "HermesSelfConfigSpec_DeepCopyInto E = struct_into [(''AddSkills'', slice_copy),
    (''PatchConfig'', new_into (E ''apiextensionsv1.JSON'')),
    (''AddEnvVars'', slice_into (SelfConfigEnvVar_DeepCopyInto E)),
    (''AddWorkspaceFiles'', slice_into (SelfConfigWorkspaceFile_DeepCopyInto E)),
    (''AddProfileSnapshot'', new_flat)]"

definition HermesSelfConfigSpec_DeepCopy :: "externals \<Rightarrow> copier" where
  "HermesSelfConfigSpec_DeepCopy E = deep_copy (HermesSelfConfigSpec_DeepCopyInto E)"

definition HermesSelfConfigStatus_DeepCopyInto :: "externals \<Rightarrow> copier" where
  "HermesSelfConfigStatus_DeepCopyInto E = struct_into [
    (''AppliedAt'', deep_copy (E ''metav1.Time'')), (''AppliedFields'', slice_copy),
    (''Conditions'', slice_into (E ''metav1.Condition''))]"

definition HermesSelfConfigStatus_DeepCopy :: "externals \<Rightarrow> copier" where
  "HermesSelfConfigStatus_DeepCopy E = deep_copy (HermesSelfConfigStatus_DeepCopyInto E)"

definition HermesSelfConfig_DeepCopyInto :: "externals \<Rightarrow> copier" where
  "HermesSelfConfig_DeepCopyInto E = struct_into [(''TypeMeta'', assign),
    (''ObjectMeta'', E ''metav1.ObjectMeta''), (''Spec'', HermesSelfConfigSpec_DeepCopyInto E),
    (''Status'', HermesSelfConfigStatus_DeepCopyInto E)]"

definition HermesSelfConfig_DeepCopy :: "externals \<Rightarrow> copier" where
  "HermesSelfConfig_DeepCopy E = deep_copy (HermesSelfConfig_DeepCopyInto E)"

definition HermesSelfConfig_DeepCopyObject ::
  "externals \<Rightarrow> gval \<Rightarrow> memory \<Rightarrow> gval option \<times> memory" where
  "HermesSelfConfig_DeepCopyObject E = deep_copy_object (HermesSelfConfig_DeepCopy E)"

definition HermesSelfConfigList_DeepCopyInto :: "externals \<Rightarrow> copier" where
  "HermesSelfConfigList_DeepCopyInto E = struct_into [(''TypeMeta'', assign),
    (''ListMeta'', E ''metav1.ListMeta''), (''Items'', slice_into (HermesSelfConfig_DeepCopyInto E))]"

definition HermesSelfConfigList_DeepCopy :: "externals \<Rightarrow> copier" where
  "HermesSelfConfigList_DeepCopy E = deep_copy (HermesSelfConfigList_DeepCopyInto E)"

definition HermesSelfConfigList_DeepCopyObject ::
  "externals \<Rightarrow> gval \<Rightarrow> memory \<Rightarrow> gval option \<times> memory" where
  "HermesSelfConfigList_DeepCopyObject E = deep_copy_object (HermesSelfConfigList_DeepCopy E)"

subsection \<open>The generated code against the types\<close>

lemma AutoUpdateRollbackSpec_sync [deepcopy]:
  "AutoUpdateRollbackSpec_DeepCopyInto E = copy_shape E AutoUpdateRollbackSpec_shape" "AutoUpdateRollbackSpec_shape \<noteq> Flat"
  unfolding AutoUpdateRollbackSpec_DeepCopyInto_def AutoUpdateRollbackSpec_shape_def
  by (rule fills_struct, simp add: deepcopy, simp)

lemma AutoUpdateSourceSpec_sync [deepcopy]:
  "AutoUpdateSourceSpec_DeepCopyInto E = assign" "copy_shape E AutoUpdateSourceSpec_shape = assign" "AutoUpdateSourceSpec_shape \<noteq> Flat"
  unfolding AutoUpdateSourceSpec_DeepCopyInto_def AutoUpdateSourceSpec_shape_def
  by (rule flat_struct, simp add: deepcopy, rule flat_struct_shape, simp add: deepcopy, simp)

lemma AutoUpdateSpec_sync [deepcopy]:
  "AutoUpdateSpec_DeepCopyInto E = copy_shape E AutoUpdateSpec_shape" "AutoUpdateSpec_shape \<noteq> Flat"
  unfolding AutoUpdateSpec_DeepCopyInto_def AutoUpdateSpec_shape_def
  by (rule fills_struct, simp add: deepcopy, simp)

lemma AutoUpdateStatus_sync [deepcopy]:
  "AutoUpdateStatus_DeepCopyInto E = copy_shape E AutoUpdateStatus_shape" "AutoUpdateStatus_shape \<noteq> Flat"
  unfolding AutoUpdateStatus_DeepCopyInto_def AutoUpdateStatus_shape_def
  by (rule fills_struct, simp add: deepcopy, simp)

lemma PDBSpec_sync [deepcopy]:
  "PDBSpec_DeepCopyInto E = copy_shape E PDBSpec_shape" "PDBSpec_shape \<noteq> Flat"
  unfolding PDBSpec_DeepCopyInto_def PDBSpec_shape_def
  by (rule fills_struct, simp add: deepcopy, simp)

lemma HPASpec_sync [deepcopy]:
  "HPASpec_DeepCopyInto E = copy_shape E HPASpec_shape" "HPASpec_shape \<noteq> Flat"
  unfolding HPASpec_DeepCopyInto_def HPASpec_shape_def
  by (rule fills_struct, simp add: deepcopy, simp)

lemma AvailabilitySpec_sync [deepcopy]:
  "AvailabilitySpec_DeepCopyInto E = copy_shape E AvailabilitySpec_shape" "AvailabilitySpec_shape \<noteq> Flat"
  unfolding AvailabilitySpec_DeepCopyInto_def AvailabilitySpec_shape_def
  by (rule fills_struct, simp add: deepcopy, simp)

lemma LocalObjectReference_sync [deepcopy]:
  "LocalObjectReference_DeepCopyInto E = assign" "copy_shape E LocalObjectReference_shape = assign" "LocalObjectReference_shape \<noteq> Flat"
  unfolding LocalObjectReference_DeepCopyInto_def LocalObjectReference_shape_def
  by (rule flat_struct, simp add: deepcopy, rule flat_struct_shape, simp add: deepcopy, simp)

lemma BackupS3Spec_sync [deepcopy]:
  "BackupS3Spec_DeepCopyInto E = assign" "copy_shape E BackupS3Spec_shape = assign" "BackupS3Spec_shape \<noteq> Flat"
  unfolding BackupS3Spec_DeepCopyInto_def BackupS3Spec_shape_def
  by (rule flat_struct, simp add: deepcopy, rule flat_struct_shape, simp add: deepcopy, simp)

lemma BackupSpec_sync [deepcopy]:
  "BackupSpec_DeepCopyInto E = copy_shape E BackupSpec_shape" "BackupSpec_shape \<noteq> Flat"
  unfolding BackupSpec_DeepCopyInto_def BackupSpec_shape_def
  by (rule fills_struct, simp add: deepcopy, simp)

lemma BackupStatus_sync [deepcopy]:
  "BackupStatus_DeepCopyInto E = copy_shape E BackupStatus_shape" "BackupStatus_shape \<noteq> Flat"
  unfolding BackupStatus_DeepCopyInto_def BackupStatus_shape_def
  by (rule fills_struct, simp add: deepcopy, simp)

lemma CABundleSpec_sync [deepcopy]:
  "CABundleSpec_DeepCopyInto E = assign" "copy_shape E CABundleSpec_shape = assign" "CABundleSpec_shape \<noteq> Flat"
  unfolding CABundleSpec_DeepCopyInto_def CABundleSpec_shape_def
  by (rule flat_struct, simp add: deepcopy, rule flat_struct_shape, simp add: deepcopy, simp)

lemma RawConfig_sync [deepcopy]:
  "RawConfig_DeepCopyInto E = copy_shape E RawConfig_shape" "RawConfig_shape \<noteq> Flat"
  unfolding RawConfig_DeepCopyInto_def RawConfig_shape_def
  by (rule fills_struct, simp add: deepcopy, simp)

lemma ConfigSpec_sync [deepcopy]:
  "ConfigSpec_DeepCopyInto E = copy_shape E ConfigSpec_shape" "ConfigSpec_shape \<noteq> Flat"
  unfolding ConfigSpec_DeepCopyInto_def ConfigSpec_shape_def
  by (rule fills_struct, simp add: deepcopy, simp)

lemma DiscordGatewaySpec_sync [deepcopy]:
  "DiscordGatewaySpec_DeepCopyInto E = copy_shape E DiscordGatewaySpec_shape" "DiscordGatewaySpec_shape \<noteq> Flat"
  unfolding DiscordGatewaySpec_DeepCopyInto_def DiscordGatewaySpec_shape_def
  by (rule fills_struct, simp add: deepcopy, simp)

lemma FFmpegSpec_sync [deepcopy]:
  "FFmpegSpec_DeepCopyInto E = copy_shape E FFmpegSpec_shape" "FFmpegSpec_shape \<noteq> Flat"
  unfolding FFmpegSpec_DeepCopyInto_def FFmpegSpec_shape_def
  by (rule fills_struct, simp add: deepcopy, simp)

lemma TelegramGatewaySpec_sync [deepcopy]:
  "TelegramGatewaySpec_DeepCopyInto E = copy_shape E TelegramGatewaySpec_shape" "TelegramGatewaySpec_shape \<noteq> Flat"
  unfolding TelegramGatewaySpec_DeepCopyInto_def TelegramGatewaySpec_shape_def
  by (rule fills_struct, simp add: deepcopy, simp)

lemma SlackGatewaySpec_sync [deepcopy]:
  "SlackGatewaySpec_DeepCopyInto E = copy_shape E SlackGatewaySpec_shape" "SlackGatewaySpec_shape \<noteq> Flat"
  unfolding SlackGatewaySpec_DeepCopyInto_def SlackGatewaySpec_shape_def
  by (rule fills_struct, simp add: deepcopy, simp)

lemma WhatsAppGatewaySpec_sync [deepcopy]:
  "WhatsAppGatewaySpec_DeepCopyInto E = copy_shape E WhatsAppGatewaySpec_shape" "WhatsAppGatewaySpec_shape \<noteq> Flat"
  unfolding WhatsAppGatewaySpec_DeepCopyInto_def WhatsAppGatewaySpec_shape_def
  by (rule fills_struct, simp add: deepcopy, simp)

lemma SignalGatewaySpec_sync [deepcopy]:
  "SignalGatewaySpec_DeepCopyInto E = copy_shape E SignalGatewaySpec_shape" "SignalGatewaySpec_shape \<noteq> Flat"
  unfolding SignalGatewaySpec_DeepCopyInto_def SignalGatewaySpec_shape_def
  by (rule fills_struct, simp add: deepcopy, simp)

lemma GatewaysSpec_sync [deepcopy]:
  "GatewaysSpec_DeepCopyInto E = copy_shape E GatewaysSpec_shape" "GatewaysSpec_shape \<noteq> Flat"
  unfolding GatewaysSpec_DeepCopyInto_def GatewaysSpec_shape_def
  by (rule fills_struct, simp add: deepcopy, simp)

lemma GrafanaDashboardSpec_sync [deepcopy]:
  "GrafanaDashboardSpec_DeepCopyInto E = copy_shape E GrafanaDashboardSpec_shape" "GrafanaDashboardSpec_shape \<noteq> Flat"
  unfolding GrafanaDashboardSpec_DeepCopyInto_def GrafanaDashboardSpec_shape_def
  by (rule fills_struct, simp add: deepcopy, simp)

lemma HTTPRouteParentRef_sync [deepcopy]:
  "HTTPRouteParentRef_DeepCopyInto E = copy_shape E HTTPRouteParentRef_shape" "HTTPRouteParentRef_shape \<noteq> Flat"
  unfolding HTTPRouteParentRef_DeepCopyInto_def HTTPRouteParentRef_shape_def
  by (rule fills_struct, simp add: deepcopy, simp)

lemma HTTPRouteSpec_sync [deepcopy]:
  "HTTPRouteSpec_DeepCopyInto E = copy_shape E HTTPRouteSpec_shape" "HTTPRouteSpec_shape \<noteq> Flat"
  unfolding HTTPRouteSpec_DeepCopyInto_def HTTPRouteSpec_shape_def
  by (rule fills_struct, simp add: deepcopy, simp)

lemma ImageSpec_sync [deepcopy]:
  "ImageSpec_DeepCopyInto E = assign" "copy_shape E ImageSpec_shape = assign" "ImageSpec_shape \<noteq> Flat"
  unfolding ImageSpec_DeepCopyInto_def ImageSpec_shape_def
  by (rule flat_struct, simp add: deepcopy, rule flat_struct_shape, simp add: deepcopy, simp)

lemma RegistryDefaults_sync [deepcopy]:
  "RegistryDefaults_DeepCopyInto E = assign" "copy_shape E RegistryDefaults_shape = assign" "RegistryDefaults_shape \<noteq> Flat"
  unfolding RegistryDefaults_DeepCopyInto_def RegistryDefaults_shape_def
  by (rule flat_struct, simp add: deepcopy, rule flat_struct_shape, simp add: deepcopy, simp)

lemma PersistenceSpec_sync [deepcopy]:
  "PersistenceSpec_DeepCopyInto E = copy_shape E PersistenceSpec_shape" "PersistenceSpec_shape \<noteq> Flat"
  unfolding PersistenceSpec_DeepCopyInto_def PersistenceSpec_shape_def
  by (rule fills_struct, simp add: deepcopy, simp)

lemma StorageSpec_sync [deepcopy]:
  "StorageSpec_DeepCopyInto E = copy_shape E StorageSpec_shape" "StorageSpec_shape \<noteq> Flat"
  unfolding StorageSpec_DeepCopyInto_def StorageSpec_shape_def
  by (rule fills_struct, simp add: deepcopy, simp)

lemma ServiceAccountDefaults_sync [deepcopy]:
  "ServiceAccountDefaults_DeepCopyInto E = copy_shape E ServiceAccountDefaults_shape" "ServiceAccountDefaults_shape \<noteq> Flat"
  unfolding ServiceAccountDefaults_DeepCopyInto_def ServiceAccountDefaults_shape_def
  by (rule fills_struct, simp add: deepcopy, simp)

lemma NetworkPolicyDefaults_sync [deepcopy]:
  "NetworkPolicyDefaults_DeepCopyInto E = copy_shape E NetworkPolicyDefaults_shape" "NetworkPolicyDefaults_shape \<noteq> Flat"
  unfolding NetworkPolicyDefaults_DeepCopyInto_def NetworkPolicyDefaults_shape_def
  by (rule fills_struct, simp add: deepcopy, simp)

lemma SecurityDefaults_sync [deepcopy]:
  "SecurityDefaults_DeepCopyInto E = copy_shape E SecurityDefaults_shape" "SecurityDefaults_shape \<noteq> Flat"
  unfolding SecurityDefaults_DeepCopyInto_def SecurityDefaults_shape_def
  by (rule fills_struct, simp add: deepcopy, simp)

lemma MetricsSpec_sync [deepcopy]:
  "MetricsSpec_DeepCopyInto E = copy_shape E MetricsSpec_shape" "MetricsSpec_shape \<noteq> Flat"
  unfolding MetricsSpec_DeepCopyInto_def MetricsSpec_shape_def
  by (rule fills_struct, simp add: deepcopy, simp)

lemma ServiceMonitorSpec_sync [deepcopy]:
  "ServiceMonitorSpec_DeepCopyInto E = copy_shape E ServiceMonitorSpec_shape" "ServiceMonitorSpec_shape \<noteq> Flat"
  unfolding ServiceMonitorSpec_DeepCopyInto_def ServiceMonitorSpec_shape_def
  by (rule fills_struct, simp add: deepcopy, simp)

lemma PrometheusRule_sync [deepcopy]:
  "PrometheusRule_DeepCopyInto E = copy_shape E PrometheusRule_shape" "PrometheusRule_shape \<noteq> Flat"
  unfolding PrometheusRule_DeepCopyInto_def PrometheusRule_shape_def
  by (rule fills_struct, simp add: deepcopy, simp)

lemma PrometheusRuleSpec_sync [deepcopy]:
  "PrometheusRuleSpec_DeepCopyInto E = copy_shape E PrometheusRuleSpec_shape" "PrometheusRuleSpec_shape \<noteq> Flat"
  unfolding PrometheusRuleSpec_DeepCopyInto_def PrometheusRuleSpec_shape_def
  by (rule fills_struct, simp add: deepcopy, simp)

lemma LoggingSpec_sync [deepcopy]:
  "LoggingSpec_DeepCopyInto E = assign" "copy_shape E LoggingSpec_shape = assign" "LoggingSpec_shape \<noteq> Flat"
  unfolding LoggingSpec_DeepCopyInto_def LoggingSpec_shape_def
  by (rule flat_struct, simp add: deepcopy, rule flat_struct_shape, simp add: deepcopy, simp)

lemma ObservabilityDefaults_sync [deepcopy]:
  "ObservabilityDefaults_DeepCopyInto E = copy_shape E ObservabilityDefaults_shape" "ObservabilityDefaults_shape \<noteq> Flat"
  unfolding ObservabilityDefaults_DeepCopyInto_def ObservabilityDefaults_shape_def
  by (rule fills_struct, simp add: deepcopy, simp)

lemma ServiceDefaults_sync [deepcopy]:
  "ServiceDefaults_DeepCopyInto E = assign" "copy_shape E ServiceDefaults_shape = assign" "ServiceDefaults_shape \<noteq> Flat"
  unfolding ServiceDefaults_DeepCopyInto_def ServiceDefaults_shape_def
  by (rule flat_struct, simp add: deepcopy, rule flat_struct_shape, simp add: deepcopy, simp)

lemma NetworkingDefaults_sync [deepcopy]:
  "NetworkingDefaults_DeepCopyInto E = copy_shape E NetworkingDefaults_shape" "NetworkingDefaults_shape \<noteq> Flat"
  unfolding NetworkingDefaults_DeepCopyInto_def NetworkingDefaults_shape_def
  by (rule fills_struct, simp add: deepcopy, simp)

lemma ResourcesSpec_sync [deepcopy]:
  "ResourcesSpec_DeepCopyInto E = copy_shape E ResourcesSpec_shape" "ResourcesSpec_shape \<noteq> Flat"
  unfolding ResourcesSpec_DeepCopyInto_def ResourcesSpec_shape_def
  by (rule fills_struct, simp add: deepcopy, simp)

lemma HermesClusterDefaultsSpec_sync [deepcopy]:
  "HermesClusterDefaultsSpec_DeepCopyInto E = copy_shape E HermesClusterDefaultsSpec_shape" "HermesClusterDefaultsSpec_shape \<noteq> Flat"
  unfolding HermesClusterDefaultsSpec_DeepCopyInto_def HermesClusterDefaultsSpec_shape_def
  by (rule fills_struct, simp add: deepcopy, simp)

lemma HermesClusterDefaultsStatus_sync [deepcopy]:
  "HermesClusterDefaultsStatus_DeepCopyInto E = copy_shape E HermesClusterDefaultsStatus_shape" "HermesClusterDefaultsStatus_shape \<noteq> Flat"
  unfolding HermesClusterDefaultsStatus_DeepCopyInto_def HermesClusterDefaultsStatus_shape_def
  by (rule fills_struct, simp add: deepcopy, simp)

lemma HermesClusterDefaults_sync [deepcopy]:
  "HermesClusterDefaults_DeepCopyInto E = copy_shape E HermesClusterDefaults_shape" "HermesClusterDefaults_shape \<noteq> Flat"
  unfolding HermesClusterDefaults_DeepCopyInto_def HermesClusterDefaults_shape_def
  by (rule fills_struct, simp add: deepcopy, simp)

lemma HermesClusterDefaultsList_sync [deepcopy]:
  "HermesClusterDefaultsList_DeepCopyInto E = copy_shape E HermesClusterDefaultsList_shape" "HermesClusterDefaultsList_shape \<noteq> Flat"
  unfolding HermesClusterDefaultsList_DeepCopyInto_def HermesClusterDefaultsList_shape_def
  by (rule fills_struct, simp add: deepcopy, simp)

lemma WorkspaceFile_sync [deepcopy]:
  "WorkspaceFile_DeepCopyInto E = assign" "copy_shape E WorkspaceFile_shape = assign" "WorkspaceFile_shape \<noteq> Flat"
  unfolding WorkspaceFile_DeepCopyInto_def WorkspaceFile_shape_def
  by (rule flat_struct, simp add: deepcopy, rule flat_struct_shape, simp add: deepcopy, simp)

lemma WorkspaceBootstrap_sync [deepcopy]:
  "WorkspaceBootstrap_DeepCopyInto E = copy_shape E WorkspaceBootstrap_shape" "WorkspaceBootstrap_shape \<noteq> Flat"
  unfolding WorkspaceBootstrap_DeepCopyInto_def WorkspaceBootstrap_shape_def
  by (rule fills_struct, simp add: deepcopy, simp)

lemma WorkspaceSpec_sync [deepcopy]:
  "WorkspaceSpec_DeepCopyInto E = copy_shape E WorkspaceSpec_shape" "WorkspaceSpec_shape \<noteq> Flat"
  unfolding WorkspaceSpec_DeepCopyInto_def WorkspaceSpec_shape_def
  by (rule fills_struct, simp add: deepcopy, simp)

lemma RBACSpec_sync [deepcopy]:
  "RBACSpec_DeepCopyInto E = copy_shape E RBACSpec_shape" "RBACSpec_shape \<noteq> Flat"
  unfolding RBACSpec_DeepCopyInto_def RBACSpec_shape_def
  by (rule fills_struct, simp add: deepcopy, simp)

lemma NetworkPolicySpec_sync [deepcopy]:
  "NetworkPolicySpec_DeepCopyInto E = copy_shape E NetworkPolicySpec_shape" "NetworkPolicySpec_shape \<noteq> Flat"
  unfolding NetworkPolicySpec_DeepCopyInto_def NetworkPolicySpec_shape_def
  by (rule fills_struct, simp add: deepcopy, simp)

lemma SecuritySpec_sync [deepcopy]:
  "SecuritySpec_DeepCopyInto E = copy_shape E SecuritySpec_shape" "SecuritySpec_shape \<noteq> Flat"
  unfolding SecuritySpec_DeepCopyInto_def SecuritySpec_shape_def
  by (rule fills_struct, simp add: deepcopy, simp)

lemma NamedServicePort_sync [deepcopy]:
  "NamedServicePort_DeepCopyInto E = copy_shape E NamedServicePort_shape" "NamedServicePort_shape \<noteq> Flat"
  unfolding NamedServicePort_DeepCopyInto_def NamedServicePort_shape_def
  by (rule fills_struct, simp add: deepcopy, simp)

lemma ServiceSpec_sync [deepcopy]:
  "ServiceSpec_DeepCopyInto E = copy_shape E ServiceSpec_shape" "ServiceSpec_shape \<noteq> Flat"
  unfolding ServiceSpec_DeepCopyInto_def ServiceSpec_shape_def
  by (rule fills_struct, simp add: deepcopy, simp)

lemma IngressTLSSpec_sync [deepcopy]:
  "IngressTLSSpec_DeepCopyInto E = copy_shape E IngressTLSSpec_shape" "IngressTLSSpec_shape \<noteq> Flat"
  unfolding IngressTLSSpec_DeepCopyInto_def IngressTLSSpec_shape_def
  by (rule fills_struct, simp add: deepcopy, simp)

lemma IngressSpec_sync [deepcopy]:
  "IngressSpec_DeepCopyInto E = copy_shape E IngressSpec_shape" "IngressSpec_shape \<noteq> Flat"
  unfolding IngressSpec_DeepCopyInto_def IngressSpec_shape_def
  by (rule fills_struct, simp add: deepcopy, simp)

lemma NetworkingSpec_sync [deepcopy]:
  "NetworkingSpec_DeepCopyInto E = copy_shape E NetworkingSpec_shape" "NetworkingSpec_shape \<noteq> Flat"
  unfolding NetworkingSpec_DeepCopyInto_def NetworkingSpec_shape_def
  by (rule fills_struct, simp add: deepcopy, simp)

lemma ObservabilitySpec_sync [deepcopy]:
  "ObservabilitySpec_DeepCopyInto E = copy_shape E ObservabilitySpec_shape" "ObservabilitySpec_shape \<noteq> Flat"
  unfolding ObservabilitySpec_DeepCopyInto_def ObservabilitySpec_shape_def
  by (rule fills_struct, simp add: deepcopy, simp)

lemma ProbesSpec_sync [deepcopy]:
  "ProbesSpec_DeepCopyInto E = copy_shape E ProbesSpec_shape" "ProbesSpec_shape \<noteq> Flat"
  unfolding ProbesSpec_DeepCopyInto_def ProbesSpec_shape_def
  by (rule fills_struct, simp add: deepcopy, simp)

lemma SchedulingSpec_sync [deepcopy]:
  "SchedulingSpec_DeepCopyInto E = copy_shape E SchedulingSpec_shape" "SchedulingSpec_shape \<noteq> Flat"
  unfolding SchedulingSpec_DeepCopyInto_def SchedulingSpec_shape_def
  by (rule fills_struct, simp add: deepcopy, simp)

lemma InstanceSkill_sync [deepcopy]:
  "InstanceSkill_DeepCopyInto E = assign" "copy_shape E InstanceSkill_shape = assign" "InstanceSkill_shape \<noteq> Flat"
  unfolding InstanceSkill_DeepCopyInto_def InstanceSkill_shape_def
  by (rule flat_struct, simp add: deepcopy, rule flat_struct_shape, simp add: deepcopy, simp)

lemma SelfConfigureSpec_sync [deepcopy]:
  "SelfConfigureSpec_DeepCopyInto E = copy_shape E SelfConfigureSpec_shape" "SelfConfigureSpec_shape \<noteq> Flat"
  unfolding SelfConfigureSpec_DeepCopyInto_def SelfConfigureSpec_shape_def
  by (rule fills_struct, simp add: deepcopy, simp)

lemma NamespacedObjectReference_sync [deepcopy]:
  "NamespacedObjectReference_DeepCopyInto E = assign" "copy_shape E NamespacedObjectReference_shape = assign" "NamespacedObjectReference_shape \<noteq> Flat"
  unfolding NamespacedObjectReference_DeepCopyInto_def NamespacedObjectReference_shape_def
  by (rule flat_struct, simp add: deepcopy, rule flat_struct_shape, simp add: deepcopy, simp)

lemma MigrationBackupS3_sync [deepcopy]:
  "MigrationBackupS3_DeepCopyInto E = assign" "copy_shape E MigrationBackupS3_shape = assign" "MigrationBackupS3_shape \<noteq> Flat"
  unfolding MigrationBackupS3_DeepCopyInto_def MigrationBackupS3_shape_def
  by (rule flat_struct, simp add: deepcopy, rule flat_struct_shape, simp add: deepcopy, simp)

lemma MigrationBackupRef_sync [deepcopy]:
  "MigrationBackupRef_DeepCopyInto E = assign" "copy_shape E MigrationBackupRef_shape = assign" "MigrationBackupRef_shape \<noteq> Flat"
  unfolding MigrationBackupRef_DeepCopyInto_def MigrationBackupRef_shape_def
  by (rule flat_struct, simp add: deepcopy, rule flat_struct_shape, simp add: deepcopy, simp)

lemma MigrationFromOpenClawSource_sync [deepcopy]:
  "MigrationFromOpenClawSource_DeepCopyInto E = copy_shape E MigrationFromOpenClawSource_shape" "MigrationFromOpenClawSource_shape \<noteq> Flat"
  unfolding MigrationFromOpenClawSource_DeepCopyInto_def MigrationFromOpenClawSource_shape_def
  by (rule fills_struct, simp add: deepcopy, simp)

lemma MigrationFromOpenClawSpec_sync [deepcopy]:
  "MigrationFromOpenClawSpec_DeepCopyInto E = copy_shape E MigrationFromOpenClawSpec_shape" "MigrationFromOpenClawSpec_shape \<noteq> Flat"
  unfolding MigrationFromOpenClawSpec_DeepCopyInto_def MigrationFromOpenClawSpec_shape_def
  by (rule fills_struct, simp add: deepcopy, simp)

lemma MigrationSpec_sync [deepcopy]:
  "MigrationSpec_DeepCopyInto E = copy_shape E MigrationSpec_shape" "MigrationSpec_shape \<noteq> Flat"
  unfolding MigrationSpec_DeepCopyInto_def MigrationSpec_shape_def
  by (rule fills_struct, simp add: deepcopy, simp)

lemma UVCacheVolumeSpec_sync [deepcopy]:
  "UVCacheVolumeSpec_DeepCopyInto E = copy_shape E UVCacheVolumeSpec_shape" "UVCacheVolumeSpec_shape \<noteq> Flat"
  unfolding UVCacheVolumeSpec_DeepCopyInto_def UVCacheVolumeSpec_shape_def
  by (rule fills_struct, simp add: deepcopy, simp)

lemma UVSpec_sync [deepcopy]:
  "UVSpec_DeepCopyInto E = copy_shape E UVSpec_shape" "UVSpec_shape \<noteq> Flat"
  unfolding UVSpec_DeepCopyInto_def UVSpec_shape_def
  by (rule fills_struct, simp add: deepcopy, simp)

lemma RipgrepSpec_sync [deepcopy]:
  "RipgrepSpec_DeepCopyInto E = copy_shape E RipgrepSpec_shape" "RipgrepSpec_shape \<noteq> Flat"
  unfolding RipgrepSpec_DeepCopyInto_def RipgrepSpec_shape_def
  by (rule fills_struct, simp add: deepcopy, simp)

lemma RuntimeSpec_sync [deepcopy]:
  "RuntimeSpec_DeepCopyInto E = copy_shape E RuntimeSpec_shape" "RuntimeSpec_shape \<noteq> Flat"
  unfolding RuntimeSpec_DeepCopyInto_def RuntimeSpec_shape_def
  by (rule fills_struct, simp add: deepcopy, simp)

lemma HonchoImageSpec_sync [deepcopy]:
  "HonchoImageSpec_DeepCopyInto E = assign" "copy_shape E HonchoImageSpec_shape = assign" "HonchoImageSpec_shape \<noteq> Flat"
  unfolding HonchoImageSpec_DeepCopyInto_def HonchoImageSpec_shape_def
  by (rule flat_struct, simp add: deepcopy, rule flat_struct_shape, simp add: deepcopy, simp)

lemma HonchoPersistenceSpec_sync [deepcopy]:
  "HonchoPersistenceSpec_DeepCopyInto E = copy_shape E HonchoPersistenceSpec_shape" "HonchoPersistenceSpec_shape \<noteq> Flat"
  unfolding HonchoPersistenceSpec_DeepCopyInto_def HonchoPersistenceSpec_shape_def
  by (rule fills_struct, simp add: deepcopy, simp)

lemma HonchoSpec_sync [deepcopy]:
  "HonchoSpec_DeepCopyInto E = copy_shape E HonchoSpec_shape" "HonchoSpec_shape \<noteq> Flat"
  unfolding HonchoSpec_DeepCopyInto_def HonchoSpec_shape_def
  by (rule fills_struct, simp add: deepcopy, simp)

lemma ProfileStoreSpec_sync [deepcopy]:
  "ProfileStoreSpec_DeepCopyInto E = copy_shape E ProfileStoreSpec_shape" "ProfileStoreSpec_shape \<noteq> Flat"
  unfolding ProfileStoreSpec_DeepCopyInto_def ProfileStoreSpec_shape_def
  by (rule fills_struct, simp add: deepcopy, simp)

lemma TailscaleAuthKey_sync [deepcopy]:
  "TailscaleAuthKey_DeepCopyInto E = copy_shape E TailscaleAuthKey_shape" "TailscaleAuthKey_shape \<noteq> Flat"
  unfolding TailscaleAuthKey_DeepCopyInto_def TailscaleAuthKey_shape_def
  by (rule fills_struct, simp add: deepcopy, simp)

lemma TailscaleImageSpec_sync [deepcopy]:
  "TailscaleImageSpec_DeepCopyInto E = assign" "copy_shape E TailscaleImageSpec_shape = assign" "TailscaleImageSpec_shape \<noteq> Flat"
  unfolding TailscaleImageSpec_DeepCopyInto_def TailscaleImageSpec_shape_def
  by (rule flat_struct, simp add: deepcopy, rule flat_struct_shape, simp add: deepcopy, simp)

lemma TailscaleSpec_sync [deepcopy]:
  "TailscaleSpec_DeepCopyInto E = copy_shape E TailscaleSpec_shape" "TailscaleSpec_shape \<noteq> Flat"
  unfolding TailscaleSpec_DeepCopyInto_def TailscaleSpec_shape_def
  by (rule fills_struct, simp add: deepcopy, simp)

lemma SemaphoreSpec_sync [deepcopy]:
  "SemaphoreSpec_DeepCopyInto E = copy_shape E SemaphoreSpec_shape" "SemaphoreSpec_shape \<noteq> Flat"
  unfolding SemaphoreSpec_DeepCopyInto_def SemaphoreSpec_shape_def
  by (rule fills_struct, simp add: deepcopy, simp)

lemma HermesInstanceSpec_sync [deepcopy]:
  "HermesInstanceSpec_DeepCopyInto E = copy_shape E HermesInstanceSpec_shape" "HermesInstanceSpec_shape \<noteq> Flat"
  unfolding HermesInstanceSpec_DeepCopyInto_def HermesInstanceSpec_shape_def
  by (rule fills_struct, simp add: deepcopy, simp)

lemma MigrationStatus_sync [deepcopy]:
  "MigrationStatus_DeepCopyInto E = copy_shape E MigrationStatus_shape" "MigrationStatus_shape \<noteq> Flat"
  unfolding MigrationStatus_DeepCopyInto_def MigrationStatus_shape_def
  by (rule fills_struct, simp add: deepcopy, simp)

lemma HermesInstanceStatus_sync [deepcopy]:
  "HermesInstanceStatus_DeepCopyInto E = copy_shape E HermesInstanceStatus_shape" "HermesInstanceStatus_shape \<noteq> Flat"
  unfolding HermesInstanceStatus_DeepCopyInto_def HermesInstanceStatus_shape_def
  by (rule fills_struct, simp add: deepcopy, simp)

lemma HermesInstance_sync [deepcopy]:
  "HermesInstance_DeepCopyInto E = copy_shape E HermesInstance_shape" "HermesInstance_shape \<noteq> Flat"
  unfolding HermesInstance_DeepCopyInto_def HermesInstance_shape_def
  by (rule fills_struct, simp add: deepcopy, simp)

lemma HermesInstanceList_sync [deepcopy]:
  "HermesInstanceList_DeepCopyInto E = copy_shape E HermesInstanceList_shape" "HermesInstanceList_shape \<noteq> Flat"
  unfolding HermesInstanceList_DeepCopyInto_def HermesInstanceList_shape_def
  by (rule fills_struct, simp add: deepcopy, simp)

lemma SelfConfigSkill_sync [deepcopy]:
  "SelfConfigSkill_DeepCopyInto E = assign" "copy_shape E SelfConfigSkill_shape = assign" "SelfConfigSkill_shape \<noteq> Flat"
  unfolding SelfConfigSkill_DeepCopyInto_def SelfConfigSkill_shape_def
  by (rule flat_struct, simp add: deepcopy, rule flat_struct_shape, simp add: deepcopy, simp)

lemma SelfConfigKeySelector_sync [deepcopy]:
  "SelfConfigKeySelector_DeepCopyInto E = assign" "copy_shape E SelfConfigKeySelector_shape = assign" "SelfConfigKeySelector_shape \<noteq> Flat"
  unfolding SelfConfigKeySelector_DeepCopyInto_def SelfConfigKeySelector_shape_def
  by (rule flat_struct, simp add: deepcopy, rule flat_struct_shape, simp add: deepcopy, simp)

lemma SelfConfigEnvVarSource_sync [deepcopy]:
  "SelfConfigEnvVarSource_DeepCopyInto E = copy_shape E SelfConfigEnvVarSource_shape" "SelfConfigEnvVarSource_shape \<noteq> Flat"
  unfolding SelfConfigEnvVarSource_DeepCopyInto_def SelfConfigEnvVarSource_shape_def
  by (rule fills_struct, simp add: deepcopy, simp)

lemma SelfConfigEnvVar_sync [deepcopy]:
  "SelfConfigEnvVar_DeepCopyInto E = copy_shape E SelfConfigEnvVar_shape" "SelfConfigEnvVar_shape \<noteq> Flat"
  unfolding SelfConfigEnvVar_DeepCopyInto_def SelfConfigEnvVar_shape_def
  by (rule fills_struct, simp add: deepcopy, simp)

lemma SelfConfigWorkspaceFile_sync [deepcopy]:
  "SelfConfigWorkspaceFile_DeepCopyInto E = copy_shape E SelfConfigWorkspaceFile_shape" "SelfConfigWorkspaceFile_shape \<noteq> Flat"
  unfolding SelfConfigWorkspaceFile_DeepCopyInto_def SelfConfigWorkspaceFile_shape_def
  by (rule fills_struct, simp add: deepcopy, simp)

lemma SelfConfigProfileSnapshot_sync [deepcopy]:
  "SelfConfigProfileSnapshot_DeepCopyInto E = assign" "copy_shape E SelfConfigProfileSnapshot_shape = assign" "SelfConfigProfileSnapshot_shape \<noteq> Flat"
  unfolding SelfConfigProfileSnapshot_DeepCopyInto_def SelfConfigProfileSnapshot_shape_def
  by (rule flat_struct, simp add: deepcopy, rule flat_struct_shape, simp add: deepcopy, simp)

lemma HermesSelfConfigSpec_sync [deepcopy]:
  "HermesSelfConfigSpec_DeepCopyInto E = copy_shape E HermesSelfConfigSpec_shape" "HermesSelfConfigSpec_shape \<noteq> Flat"
  unfolding HermesSelfConfigSpec_DeepCopyInto_def HermesSelfConfigSpec_shape_def
  by (rule fills_struct, simp add: deepcopy, simp)

lemma HermesSelfConfigStatus_sync [deepcopy]:
  "HermesSelfConfigStatus_DeepCopyInto E = copy_shape E HermesSelfConfigStatus_shape" "HermesSelfConfigStatus_shape \<noteq> Flat"
  unfolding HermesSelfConfigStatus_DeepCopyInto_def HermesSelfConfigStatus_shape_def
  by (rule fills_struct, simp add: deepcopy, simp)

lemma HermesSelfConfig_sync [deepcopy]:
  "HermesSelfConfig_DeepCopyInto E = copy_shape E HermesSelfConfig_shape" "HermesSelfConfig_shape \<noteq> Flat"
  unfolding HermesSelfConfig_DeepCopyInto_def HermesSelfConfig_shape_def
  by (rule fills_struct, simp add: deepcopy, simp)

lemma HermesSelfConfigList_sync [deepcopy]:
  "HermesSelfConfigList_DeepCopyInto E = copy_shape E HermesSelfConfigList_shape" "HermesSelfConfigList_shape \<noteq> Flat"
  unfolding HermesSelfConfigList_DeepCopyInto_def HermesSelfConfigList_shape_def
  by (rule fills_struct, simp add: deepcopy, simp)

definition generated :: "externals \<Rightarrow> (string \<times> copier \<times> gotype) list" where
  "generated E = [
    (''AutoUpdateRollbackSpec'', AutoUpdateRollbackSpec_DeepCopy E, AutoUpdateRollbackSpec_shape),
    (''AutoUpdateSourceSpec'', AutoUpdateSourceSpec_DeepCopy E, AutoUpdateSourceSpec_shape),
    (''AutoUpdateSpec'', AutoUpdateSpec_DeepCopy E, AutoUpdateSpec_shape),
    (''AutoUpdateStatus'', AutoUpdateStatus_DeepCopy E, AutoUpdateStatus_shape),
    (''PDBSpec'', PDBSpec_DeepCopy E, PDBSpec_shape),
    (''HPASpec'', HPASpec_DeepCopy E, HPASpec_shape),
    (''AvailabilitySpec'', AvailabilitySpec_DeepCopy E, AvailabilitySpec_shape),
    (''LocalObjectReference'', LocalObjectReference_DeepCopy E, LocalObjectReference_shape),
    (''BackupS3Spec'', BackupS3Spec_DeepCopy E, BackupS3Spec_shape),
    (''BackupSpec'', BackupSpec_DeepCopy E, BackupSpec_shape),
    (''BackupStatus'', BackupStatus_DeepCopy E, BackupStatus_shape),
    (''CABundleSpec'', CABundleSpec_DeepCopy E, CABundleSpec_shape),
    (''RawConfig'', RawConfig_DeepCopy E, RawConfig_shape),
    (''ConfigSpec'', ConfigSpec_DeepCopy E, ConfigSpec_shape),
    (''DiscordGatewaySpec'', DiscordGatewaySpec_DeepCopy E, DiscordGatewaySpec_shape),
    (''FFmpegSpec'', FFmpegSpec_DeepCopy E, FFmpegSpec_shape),
    (''TelegramGatewaySpec'', TelegramGatewaySpec_DeepCopy E, TelegramGatewaySpec_shape),
    (''SlackGatewaySpec'', SlackGatewaySpec_DeepCopy E, SlackGatewaySpec_shape),
    (''WhatsAppGatewaySpec'', WhatsAppGatewaySpec_DeepCopy E, WhatsAppGatewaySpec_shape),
    (''SignalGatewaySpec'', SignalGatewaySpec_DeepCopy E, SignalGatewaySpec_shape),
    (''GatewaysSpec'', GatewaysSpec_DeepCopy E, GatewaysSpec_shape),
    (''GrafanaDashboardSpec'', GrafanaDashboardSpec_DeepCopy E, GrafanaDashboardSpec_shape),
    (''HTTPRouteParentRef'', HTTPRouteParentRef_DeepCopy E, HTTPRouteParentRef_shape),
    (''HTTPRouteSpec'', HTTPRouteSpec_DeepCopy E, HTTPRouteSpec_shape),
    (''ImageSpec'', ImageSpec_DeepCopy E, ImageSpec_shape),
    (''RegistryDefaults'', RegistryDefaults_DeepCopy E, RegistryDefaults_shape),
    (''PersistenceSpec'', PersistenceSpec_DeepCopy E, PersistenceSpec_shape),
    (''StorageSpec'', StorageSpec_DeepCopy E, StorageSpec_shape),
    (''ServiceAccountDefaults'', ServiceAccountDefaults_DeepCopy E, ServiceAccountDefaults_shape),
    (''NetworkPolicyDefaults'', NetworkPolicyDefaults_DeepCopy E, NetworkPolicyDefaults_shape),
    (''SecurityDefaults'', SecurityDefaults_DeepCopy E, SecurityDefaults_shape),
    (''MetricsSpec'', MetricsSpec_DeepCopy E, MetricsSpec_shape),
    (''ServiceMonitorSpec'', ServiceMonitorSpec_DeepCopy E, ServiceMonitorSpec_shape),
    (''PrometheusRule'', PrometheusRule_DeepCopy E, PrometheusRule_shape),
    (''PrometheusRuleSpec'', PrometheusRuleSpec_DeepCopy E, PrometheusRuleSpec_shape),
    (''LoggingSpec'', LoggingSpec_DeepCopy E, LoggingSpec_shape),
    (''ObservabilityDefaults'', ObservabilityDefaults_DeepCopy E, ObservabilityDefaults_shape),
    (''ServiceDefaults'', ServiceDefaults_DeepCopy E, ServiceDefaults_shape),
    (''NetworkingDefaults'', NetworkingDefaults_DeepCopy E, NetworkingDefaults_shape),
    (''ResourcesSpec'', ResourcesSpec_DeepCopy E, ResourcesSpec_shape),
    (''HermesClusterDefaultsSpec'', HermesClusterDefaultsSpec_DeepCopy E, HermesClusterDefaultsSpec_shape),
    (''HermesClusterDefaultsStatus'', HermesClusterDefaultsStatus_DeepCopy E, HermesClusterDefaultsStatus_shape),
    (''HermesClusterDefaults'', HermesClusterDefaults_DeepCopy E, HermesClusterDefaults_shape),
    (''HermesClusterDefaultsList'', HermesClusterDefaultsList_DeepCopy E, HermesClusterDefaultsList_shape),
    (''WorkspaceFile'', WorkspaceFile_DeepCopy E, WorkspaceFile_shape),
    (''WorkspaceBootstrap'', WorkspaceBootstrap_DeepCopy E, WorkspaceBootstrap_shape),
    (''WorkspaceSpec'', WorkspaceSpec_DeepCopy E, WorkspaceSpec_shape),
    (''RBACSpec'', RBACSpec_DeepCopy E, RBACSpec_shape),
    (''NetworkPolicySpec'', NetworkPolicySpec_DeepCopy E, NetworkPolicySpec_shape),
    (''SecuritySpec'', SecuritySpec_DeepCopy E, SecuritySpec_shape),
    (''NamedServicePort'', NamedServicePort_DeepCopy E, NamedServicePort_shape),
    (''ServiceSpec'', ServiceSpec_DeepCopy E, ServiceSpec_shape),
    (''IngressTLSSpec'', IngressTLSSpec_DeepCopy E, IngressTLSSpec_shape),
    (''IngressSpec'', IngressSpec_DeepCopy E, IngressSpec_shape),
    (''NetworkingSpec'', NetworkingSpec_DeepCopy E, NetworkingSpec_shape),
    (''ObservabilitySpec'', ObservabilitySpec_DeepCopy E, ObservabilitySpec_shape),
    (''ProbesSpec'', ProbesSpec_DeepCopy E, ProbesSpec_shape),
    (''SchedulingSpec'', SchedulingSpec_DeepCopy E, SchedulingSpec_shape),
    (''InstanceSkill'', InstanceSkill_DeepCopy E, InstanceSkill_shape),
    (''SelfConfigureSpec'', SelfConfigureSpec_DeepCopy E, SelfConfigureSpec_shape),
    (''NamespacedObjectReference'', NamespacedObjectReference_DeepCopy E, NamespacedObjectReference_shape),
    (''MigrationBackupS3'', MigrationBackupS3_DeepCopy E, MigrationBackupS3_shape),
    (''MigrationBackupRef'', MigrationBackupRef_DeepCopy E, MigrationBackupRef_shape),
    (''MigrationFromOpenClawSource'', MigrationFromOpenClawSource_DeepCopy E, MigrationFromOpenClawSource_shape),
    (''MigrationFromOpenClawSpec'', MigrationFromOpenClawSpec_DeepCopy E, MigrationFromOpenClawSpec_shape),
    (''MigrationSpec'', MigrationSpec_DeepCopy E, MigrationSpec_shape),
    (''UVCacheVolumeSpec'', UVCacheVolumeSpec_DeepCopy E, UVCacheVolumeSpec_shape),
    (''UVSpec'', UVSpec_DeepCopy E, UVSpec_shape),
    (''RipgrepSpec'', RipgrepSpec_DeepCopy E, RipgrepSpec_shape),
    (''RuntimeSpec'', RuntimeSpec_DeepCopy E, RuntimeSpec_shape),
    (''HonchoImageSpec'', HonchoImageSpec_DeepCopy E, HonchoImageSpec_shape),
    (''HonchoPersistenceSpec'', HonchoPersistenceSpec_DeepCopy E, HonchoPersistenceSpec_shape),
    (''HonchoSpec'', HonchoSpec_DeepCopy E, HonchoSpec_shape),
    (''ProfileStoreSpec'', ProfileStoreSpec_DeepCopy E, ProfileStoreSpec_shape),
    (''TailscaleAuthKey'', TailscaleAuthKey_DeepCopy E, TailscaleAuthKey_shape),
    (''TailscaleImageSpec'', TailscaleImageSpec_DeepCopy E, TailscaleImageSpec_shape),
    (''TailscaleSpec'', TailscaleSpec_DeepCopy E, TailscaleSpec_shape),
    (''SemaphoreSpec'', SemaphoreSpec_DeepCopy E, SemaphoreSpec_shape),
    (''HermesInstanceSpec'', HermesInstanceSpec_DeepCopy E, HermesInstanceSpec_shape),
    (''MigrationStatus'', MigrationStatus_DeepCopy E, MigrationStatus_shape),
    (''HermesInstanceStatus'', HermesInstanceStatus_DeepCopy E, HermesInstanceStatus_shape),
    (''HermesInstance'', HermesInstance_DeepCopy E, HermesInstance_shape),
    (''HermesInstanceList'', HermesInstanceList_DeepCopy E, HermesInstanceList_shape),
    (''SelfConfigSkill'', SelfConfigSkill_DeepCopy E, SelfConfigSkill_shape),
    (''SelfConfigKeySelector'', SelfConfigKeySelector_DeepCopy E, SelfConfigKeySelector_shape),
    (''SelfConfigEnvVarSource'', SelfConfigEnvVarSource_DeepCopy E, SelfConfigEnvVarSource_shape),
    (''SelfConfigEnvVar'', SelfConfigEnvVar_DeepCopy E, SelfConfigEnvVar_shape),
    (''SelfConfigWorkspaceFile'', SelfConfigWorkspaceFile_DeepCopy E, SelfConfigWorkspaceFile_shape),
    (''SelfConfigProfileSnapshot'', SelfConfigProfileSnapshot_DeepCopy E, SelfConfigProfileSnapshot_shape),
    (''HermesSelfConfigSpec'', HermesSelfConfigSpec_DeepCopy E, HermesSelfConfigSpec_shape),
    (''HermesSelfConfigStatus'', HermesSelfConfigStatus_DeepCopy E, HermesSelfConfigStatus_shape),
    (''HermesSelfConfig'', HermesSelfConfig_DeepCopy E, HermesSelfConfig_shape),
    (''HermesSelfConfigList'', HermesSelfConfigList_DeepCopy E, HermesSelfConfigList_shape)]"

lemmas deep_copies =
  AutoUpdateRollbackSpec_DeepCopy_def AutoUpdateSourceSpec_DeepCopy_def
  AutoUpdateSpec_DeepCopy_def AutoUpdateStatus_DeepCopy_def PDBSpec_DeepCopy_def
  HPASpec_DeepCopy_def AvailabilitySpec_DeepCopy_def LocalObjectReference_DeepCopy_def
  BackupS3Spec_DeepCopy_def BackupSpec_DeepCopy_def BackupStatus_DeepCopy_def
  CABundleSpec_DeepCopy_def RawConfig_DeepCopy_def ConfigSpec_DeepCopy_def
  DiscordGatewaySpec_DeepCopy_def FFmpegSpec_DeepCopy_def TelegramGatewaySpec_DeepCopy_def
  SlackGatewaySpec_DeepCopy_def WhatsAppGatewaySpec_DeepCopy_def SignalGatewaySpec_DeepCopy_def
  GatewaysSpec_DeepCopy_def GrafanaDashboardSpec_DeepCopy_def HTTPRouteParentRef_DeepCopy_def
  HTTPRouteSpec_DeepCopy_def ImageSpec_DeepCopy_def RegistryDefaults_DeepCopy_def
  PersistenceSpec_DeepCopy_def StorageSpec_DeepCopy_def ServiceAccountDefaults_DeepCopy_def
  NetworkPolicyDefaults_DeepCopy_def SecurityDefaults_DeepCopy_def MetricsSpec_DeepCopy_def
  ServiceMonitorSpec_DeepCopy_def PrometheusRule_DeepCopy_def PrometheusRuleSpec_DeepCopy_def
  LoggingSpec_DeepCopy_def ObservabilityDefaults_DeepCopy_def ServiceDefaults_DeepCopy_def
  NetworkingDefaults_DeepCopy_def ResourcesSpec_DeepCopy_def
  HermesClusterDefaultsSpec_DeepCopy_def HermesClusterDefaultsStatus_DeepCopy_def
  HermesClusterDefaults_DeepCopy_def HermesClusterDefaultsList_DeepCopy_def
  WorkspaceFile_DeepCopy_def WorkspaceBootstrap_DeepCopy_def WorkspaceSpec_DeepCopy_def
  RBACSpec_DeepCopy_def NetworkPolicySpec_DeepCopy_def SecuritySpec_DeepCopy_def
  NamedServicePort_DeepCopy_def ServiceSpec_DeepCopy_def IngressTLSSpec_DeepCopy_def
  IngressSpec_DeepCopy_def NetworkingSpec_DeepCopy_def ObservabilitySpec_DeepCopy_def
  ProbesSpec_DeepCopy_def SchedulingSpec_DeepCopy_def InstanceSkill_DeepCopy_def
  SelfConfigureSpec_DeepCopy_def NamespacedObjectReference_DeepCopy_def
  MigrationBackupS3_DeepCopy_def MigrationBackupRef_DeepCopy_def
  MigrationFromOpenClawSource_DeepCopy_def MigrationFromOpenClawSpec_DeepCopy_def
  MigrationSpec_DeepCopy_def UVCacheVolumeSpec_DeepCopy_def UVSpec_DeepCopy_def
  RipgrepSpec_DeepCopy_def RuntimeSpec_DeepCopy_def HonchoImageSpec_DeepCopy_def
  HonchoPersistenceSpec_DeepCopy_def HonchoSpec_DeepCopy_def ProfileStoreSpec_DeepCopy_def
  TailscaleAuthKey_DeepCopy_def TailscaleImageSpec_DeepCopy_def TailscaleSpec_DeepCopy_def
  SemaphoreSpec_DeepCopy_def HermesInstanceSpec_DeepCopy_def MigrationStatus_DeepCopy_def
  HermesInstanceStatus_DeepCopy_def HermesInstance_DeepCopy_def HermesInstanceList_DeepCopy_def
  SelfConfigSkill_DeepCopy_def SelfConfigKeySelector_DeepCopy_def
  SelfConfigEnvVarSource_DeepCopy_def SelfConfigEnvVar_DeepCopy_def
  SelfConfigWorkspaceFile_DeepCopy_def SelfConfigProfileSnapshot_DeepCopy_def
  HermesSelfConfigSpec_DeepCopy_def HermesSelfConfigStatus_DeepCopy_def
  HermesSelfConfig_DeepCopy_def HermesSelfConfigList_DeepCopy_def

lemma generated_sync: "list_all (\<lambda>(n, c, s). c = copy_shape E (PtrTo s)) (generated E)"
  unfolding generated_def deep_copies by (simp add: deepcopy)

lemma generated_copies:
  assumes "sound_externals E ES" "(n, c, s) \<in> set (generated E)"
  shows "copies (shaped ES (PtrTo s)) c" "readable (shaped ES (PtrTo s))"
proof -
  have "c = copy_shape E (PtrTo s)"
    using generated_sync [of E] assms(2) by (fastforce simp: list_all_iff)
  then show "copies (shaped ES (PtrTo s)) c"
    using copy_shape_copies [OF assms(1)] by simp
  show "readable (shaped ES (PtrTo s))"
    using assms(1) by (intro readable_shaped) (simp add: sound_externals_def)
qed

text \<open>
  The objects registered with the scheme, by the \<open>init\<close> functions of the types in the order of their
  files: what the client library makes copies of, through \<open>DeepCopyObject\<close>.
\<close>

definition SchemeGroupVersion :: "string \<times> string" where
  "SchemeGroupVersion = (''hermes.agent'', ''v1'')"

type_synonym object_copier = "gval \<Rightarrow> memory \<Rightarrow> gval option \<times> memory"

definition register_defaults :: "externals \<Rightarrow> (string \<times> object_copier) list" where
  "register_defaults E = [
    (''HermesClusterDefaults'', HermesClusterDefaults_DeepCopyObject E),
    (''HermesClusterDefaultsList'', HermesClusterDefaultsList_DeepCopyObject E)]"

definition register_instance :: "externals \<Rightarrow> (string \<times> object_copier) list" where
  "register_instance E = [
    (''HermesInstance'', HermesInstance_DeepCopyObject E),
    (''HermesInstanceList'', HermesInstanceList_DeepCopyObject E)]"

definition register_selfconfig :: "externals \<Rightarrow> (string \<times> object_copier) list" where
  "register_selfconfig E = [
    (''HermesSelfConfig'', HermesSelfConfig_DeepCopyObject E),
    (''HermesSelfConfigList'', HermesSelfConfigList_DeepCopyObject E)]"

definition SchemeBuilder :: "externals \<Rightarrow> (string \<times> string) \<times> (string \<times> object_copier) list" where
  "SchemeBuilder E = (SchemeGroupVersion,
     register_defaults E @ register_instance E @ register_selfconfig E)"

text \<open>A nil pointer becomes a nil interface, never an interface that holds a nil pointer.\<close>

lemmas registrations =
  SchemeBuilder_def register_defaults_def register_instance_def register_selfconfig_def

lemmas deep_copy_objects =
  HermesInstance_DeepCopyObject_def HermesInstanceList_DeepCopyObject_def
  HermesSelfConfig_DeepCopyObject_def HermesSelfConfigList_DeepCopyObject_def
  HermesClusterDefaults_DeepCopyObject_def HermesClusterDefaultsList_DeepCopyObject_def

lemma registered_objects_copied:
  assumes "(k, d) \<in> set (snd (SchemeBuilder E))"
  shows "d (Ptr None) h = (None, h)" "\<exists>b. fst (d (Ptr (Some a)) h) = Some (Ptr (Some b))"
proof -
  obtain c where "d = deep_copy_object (new_into c)"
    using assms unfolding registrations deep_copy_objects deep_copies by (auto simp: deep_copy_eq)
  then show "d (Ptr None) h = (None, h)" "\<exists>b. fst (d (Ptr (Some a)) h) = Some (Ptr (Some b))"
    by (auto simp: deep_copy_object_eq new_into_def split: prod.split)
qed

text \<open>
  C20. Every \<open>DeepCopy\<close> of the API returns a deep copy, and leaves the memory it found as it was: the
  copy has the contents of the original, and from then on neither sees what is written through the
  other, to whatever cells it leads, as often as one likes. So the copy a controller takes before it
  changes an object remains what the object was, and the patch it computes against it holds all that
  it changed. Of the copiers of other modules it is assumed that they make deep copies.
\<close>

theorem deep_copies_isolated:
  assumes "sound_externals E ES" "memory_ok h" "(n, c, s) \<in> set (generated E)"
    and "shaped ES (PtrTo s) h v" "c v h = (w, h')"
  shows "(\<forall>a<brk h. mem h' a = mem h a) \<and>
    (\<exists>t. reads h v t \<and> reads h' w t \<and>
      (\<forall>g. same_but {a. reach h' w a} h' g \<longrightarrow> reads g v t) \<and>
      (\<forall>g. same_but {a. reach h v a} h' g \<longrightarrow> reads g w t))"
proof -
  note c = generated_copies [OF assms(1,3)]
  obtain t where t: "reads h v t"
    using c(2) assms(4) unfolding readable_def by blast
  note i = copies_isolated [OF c(1) assms(2,4,5) t]
  show ?thesis
    using t i(2,3,4) grown_old [OF copiesD(1) [OF c(1) assms(2,4,5)]] by blast
qed

text \<open>
  An instance of its hypotheses: \<open>corev1.SecretKeySelector\<close> has an optional boolean, the other types
  of other modules none, and an Honcho specification refers to a key.
\<close>

definition sample_type :: "string \<Rightarrow> gotype" where
  "sample_type n = (if n = ''corev1.SecretKeySelector'' then Struct [(''Optional'', PtrTo Flat)]
     else Struct [])"

definition sample_externals :: externals where
  "sample_externals n = copy_shape (\<lambda>_. assign) (sample_type n)"

definition sample_values :: "string \<Rightarrow> memory \<Rightarrow> gval \<Rightarrow> bool" where
  "sample_values n = shaped (\<lambda>_ _ v. refs v = {}) (sample_type n)"

lemma sound_flat: "sound_externals (\<lambda>_. assign) (\<lambda>_ _ v. refs v = {})"
  by (auto simp: sound_externals_def copies_def assign_def growth_stable_def readable_def flat_readable)

lemma sound_samples: "sound_externals sample_externals sample_values"
  unfolding sound_externals_def sample_externals_def sample_values_def
proof (intro allI conjI)
  fix n
  show "copies (shaped (\<lambda>_ _ v. refs v = {}) (sample_type n))
      (copy_shape (\<lambda>_. assign) (sample_type n))"
    by (rule copy_shape_copies [OF sound_flat])
  show "growth_stable (shaped (\<lambda>_ _ v. refs v = {}) (sample_type n))"
    by (rule growth_stable_shaped) (simp add: growth_stable_def)
  show "readable (shaped (\<lambda>_ _ v. refs v = {}) (sample_type n))"
    by (rule readable_shaped) (auto simp: readable_def flat_readable)
qed

definition sample_honcho :: "string \<Rightarrow> gval" where
  "sample_honcho = (\<lambda>_. zero)(''Enabled'' := Ptr (Some 1), ''Image'' := GStruct (\<lambda>_. zero),
     ''Persistence'' := GStruct ((\<lambda>_. zero)(''Size'' := Basic ''5Gi'', ''Enabled'' := Ptr None,
       ''StorageClassName'' := Ptr None)),
     ''Resources'' := GStruct (\<lambda>_. zero), ''APIKeySecretRef'' := Ptr (Some 2))"

definition sample_memory :: memory where
  "sample_memory = \<lparr>mem = [0 \<mapsto> Var (GStruct sample_honcho), 1 \<mapsto> Var (Basic ''true''),
     2 \<mapsto> Var (GStruct ((\<lambda>_. zero)(''Key'' := Basic ''token'', ''Optional'' := Ptr (Some 3)))),
     3 \<mapsto> Var (Basic ''false'')], brk = 4\<rparr>"

theorem deep_copies_isolated_witness:
  "\<exists>w h' t. HonchoSpec_DeepCopy sample_externals (Ptr (Some 0)) sample_memory = (w, h') \<and>
     reads h' w t \<and>
     (\<forall>g. same_but {a. reach h' w a} h' g \<longrightarrow> reads g (Ptr (Some 0)) t)"
proof -
  obtain w h' where run: "HonchoSpec_DeepCopy sample_externals (Ptr (Some 0)) sample_memory = (w, h')"
    by fastforce
  have ok: "memory_ok sample_memory"
    by (auto simp: memory_ok_def sample_memory_def)
  have entry: "(''HonchoSpec'', HonchoSpec_DeepCopy sample_externals, HonchoSpec_shape)
      \<in> set (generated sample_externals)"
    by (simp add: generated_def)
  have sh: "shaped sample_values (PtrTo HonchoSpec_shape) sample_memory (Ptr (Some 0))"
    by (simp add: HonchoSpec_shape_def HonchoImageSpec_shape_def HonchoPersistenceSpec_shape_def
      sample_memory_def sample_honcho_def sample_values_def sample_type_def zero_def)
  show ?thesis
    using deep_copies_isolated [OF sound_samples ok entry sh run] run by blast
qed

end
