(* ===== verification/Spec2Isabelle.thy ===== *)
theory Spec2Isabelle
  imports Webhooks Defaulter Deletion DefaultsController Entry System Owner DeepCopy
begin

text \<open>
  A model of the Hermes operator, a Kubernetes operator in Go, and the theorems that make it correct.

  \<^bold>\<open>The program.\<close> A user declares a \<open>HermesInstance\<close>; the operator turns it into the objects of one
  agent. \<open>internal/webhook\<close> defaults and validates what is admitted. \<open>HermesInstanceReconciler\<close>
  (\<open>internal/controller/hermesinstance_controller.go\<close>) runs a pipeline of steps, one per managed
  object, that write what the builders of \<open>internal/resources\<close> return, then the sub-controllers for
  backups (\<open>backup.go\<close>), migration (\<open>migration.go\<close>), restore (\<open>restore.go\<close>) and updates
  (\<open>autoupdate.go\<close>, with the registry client of \<open>internal/oci\<close>), and then the status; a deleted
  instance takes the path of the finalizers. An agent changes its own configuration by a
  \<open>HermesSelfConfig\<close>, which \<open>hermesselfconfig_controller.go\<close> checks against the policy of its
  parent. \<open>HermesClusterDefaults\<close> is a singleton that the defaulting webhook reads.

  \<^bold>\<open>Conventions.\<close> A struct is a record with the fields in the order of the source and a prefix per
  type, and \<open>zero_T\<close> is its zero value; a nil pointer is \<open>None\<close>; a Go map is an association list
  whose keys are distinct where that matters (\<open>strmap\<close>); an \<open>int32\<close> that can overflow is written with
  \<open>wrap32\<close>, other numbers are \<open>int\<close>, as no arithmetic of the code reaches their bounds. An error is a
  \<open>go_error\<close>, and a panic is the error \<open>GoPanic\<close>, which ends the pass (the manager recovers it and
  tries again). The world is a type variable
  \<open>'w\<close>: an operation takes it and returns it, so that every call to the outside is in the order of
  the source. Handlers return the object in hand as well, because the code goes on with what the
  server answered.

  \<^bold>\<open>What is outside.\<close> The Kubernetes client, the clock, the random source, the event recorder, the
  metrics, \<open>controllerutil\<close> and \<open>meta\<close> are the fields of \<open>env\<close> (theory \<open>Env\<close>); \<open>net/http\<close> is
  \<open>http_lib\<close>, \<open>sigs.k8s.io/yaml\<close> is \<open>yaml_lib\<close>, the glob and semver packages and the registry
  transport are parameters of the operations that use them. What a theorem relies on is a
  named hypothesis that states documented behaviour: \<open>conditions_api\<close>, \<open>status_update_echoes\<close>,
  \<open>patch_echoes_meta\<close>, \<open>status_subresource\<close>, \<open>crd_enforced\<close>, \<open>yaml_ok\<close>, \<open>api_server\<close>, \<open>healthy\<close>,
  \<open>sparing_server\<close>, \<open>orderly_server\<close>, \<open>refuses_others\<close>, \<open>serves_operator\<close>, \<open>serves_paths\<close>,
  \<open>sound_externals\<close>. What a server fills in before it stores an object is the parameter \<open>N\<close> of
  \<open>api_server\<close>, \<open>sparing_server\<close> and \<open>desired_state\<close>: a stored body is the one that was sent up to
  \<open>N\<close>, and \<open>exact\<close> is the server that fills in nothing. Each hypothesis holds of a concrete
  environment, which the witnesses use: \<open>quiet_env\<close>, the cluster of theory \<open>Store\<close>, the server
  of theory \<open>Settle\<close> that fills in a default, the server of theory \<open>Owner\<close> that refuses the objects
  of others, the server of one instance in theory \<open>System\<close>, the sample copiers of theory \<open>DeepCopy\<close>.

  \<^bold>\<open>Theories.\<close>

  \<^item> \<open>Prelude\<close>: strings, association lists, formatting, errors and results. \<open>JSON\<close>: the documents
    of \<open>encoding/json\<close>, printing and parsing. \<open>K8s_Types\<close>: the objects of \<open>k8s.io/api\<close> that are
    built. \<open>API_Types\<close>: the types of \<open>api/v1\<close>. \<open>Env\<close>: the outside, the conditions and the locale
    \<open>latch\<close> of controllers with a terminal state.

  \<^item> \<open>Common\<close>, \<open>Workspace\<close>: names, labels, \<open>MergePreservingForeign\<close>, the workspace ConfigMap with the
    encoding of its paths. \<open>Config\<close>: \<open>configmap.go\<close>; merging is an overlay by path, a rendered
    configuration always has a model and the enabled gateways, a null document panics. \<open>Grafana\<close>:
    \<open>grafana_dashboard.go\<close>; the layout of both dashboards.

  \<^item> \<open>Companions\<close>, \<open>Network\<close>, \<open>BackupJobs\<close>, \<open>Snapshot\<close>, \<open>Workload\<close>: the remaining builders. The
    rights of a role, the connections a policy admits (with what a namespace, a selector and an
    address block stand for), the volumes behind the mounts of a pod, and the quoting of shell commands
    are stated exactly, the last one over the command of the Job that is built. The locale \<open>built_object\<close> is what every
    builder promises of the metadata of its object.

  \<^item> \<open>Validator\<close>, \<open>Webhooks\<close>, \<open>Defaulter\<close>: the admission webhooks; exactly what is accepted, and
    that defaulting only fills in, for every field of the specification, with the one exception named.
    \<open>Policy\<close>, \<open>SelfConfig\<close>: the policy of self-configuration and its reconciler; what the gates let
    through, that a request that fails one changes nothing anywhere but its own status, and that a
    request is decided once.

  \<^item> \<open>Backup\<close>, \<open>Latches\<close>, \<open>OCI\<close>, \<open>AutoUpdate\<close>: the sub-controllers. The finalizer is released
    for a cause and in bounded time; an import runs once in the life of an instance, by rule
    induction over its admitted updates and passes; the state machine of a rollout, with what causes
    each of its outcomes.

  \<^item> \<open>Objects\<close>: the steps of the pipeline, each with the callback it gives to \<open>CreateOrUpdate\<close>.
    \<open>Cluster\<close>: the contents of a cluster, what an API server promises of each client (\<open>serves\<close>) and
    the locale \<open>managed_object\<close>, the contract of such a callback, interpreted for each of the
    thirteen kinds; from it, what each step reaches and touches, and that it succeeds on a healthy
    server. \<open>Store\<close>: a concrete API server. \<open>Semaphore\<close>: the provisioning and the cleanup over HTTP.

  \<^item> \<open>Instance\<close>: the reconciler itself. A pass refines the abstract specification \<open>desired_state\<close>,
    the conjunction of what the steps reach, since their footprints are disjoint; on a healthy
    server and with a configuration that renders it gets there. \<open>Lifecycle\<close>: failing steps, what survives many passes, what a pass
    undoes of the work of the other controllers, the status. \<open>Deletion\<close>: exactly when a deletion
    past its deadline ends. \<open>DefaultsController\<close>: the reconciler of the cluster defaults.

  \<^item> \<open>Settle\<close>, \<open>Apart\<close>, \<open>Shelter\<close>, \<open>Owner\<close>: what a pass does when there is nothing to do, and to the objects of
    others. The locale \<open>owned_object\<close> extends \<open>managed_object\<close> by the law that the callback ends with
    the owner reference; from it, passes come to rest, also on a server that fills in defaults, and
    instances with names apart do not interfere. \<open>Shelter\<close> shows, for every outcome of every step,
    failures and panics included, that an object which another controller owns is not overwritten.
    \<open>Owner\<close> proves one relation between what a pass finds and what it leaves, \<open>rewritten\<close>, for every
    kind; from it also follows that the labels and annotations of others stay.

  \<^item> \<open>Frame\<close>, \<open>Pass\<close>, \<open>System\<close>: whole passes with every sub-controller, and the operator among the
    other clients of its API server. \<open>Frame\<close> lists the calls that leave the stored instance alone,
    \<open>Pass\<close> proves once, in the locale \<open>pass_invariant\<close>, that a pass keeps a property of the instance
    in hand and in the store that metadata, one appended skill and listed conditions do not disturb.
    \<open>System\<close> interleaves passes with admitted updates as a step relation and instantiates it: an
    import never runs again, the two imports never meet, the conditions stay bounded, the
    specification stays the user's.

  \<^item> \<open>Calls\<close>: which calls of the client the three reconcilers make at all; they do the same in
    environments that agree on those. \<open>Access\<close>: from it, that no pass changes or deletes a volume
    claim and that the declared rights of the operator suffice; that no agent gets more; and which
    changes wake a controller. \<open>Entry\<close>: \<open>cmd/main.go\<close>, the options of the servers, the wired
    reconciler, the start sequence and the admission webhooks, all registered by the time the manager
    starts.

  \<^item> \<open>GoHeap\<close>, \<open>Shapes\<close>, \<open>DeepCopy\<close>: the memory below the values. \<open>GoHeap\<close> has pointers, slices and
    maps, the statements generated copies consist of, and the proof, by induction over types, that
    the copy a type calls for is deep. \<open>Shapes\<close> says of every struct of \<open>api/v1\<close> where it has
    references, and \<open>DeepCopy\<close> has every function of \<open>zz_generated.deepcopy.go\<close>, each proved to be
    the copy its type calls for, and what is registered with the scheme. The other theories use
    plain values, and for a copy this is what entitles them to: it stays what it was when it was taken.

  \<^bold>\<open>Bounds.\<close> All definitions that translate code are total and executable, and none runs on fuel:
  lexers, parsers and the scans of strings terminate by the length of what is left to read, merging
  by the size of the overlay, and copying by the structure of the type. The nesting depth of a JSON
  document is limited as in \<open>encoding/json\<close>.

  \<^bold>\<open>Not modelled.\<close> Parsing the command line is that of \<open>flag\<close> and \<open>zap\<close>, and the scheme the types
  are registered with is that of the client library. A pass is one call of \<open>Reconcile\<close>; when it is
  called is the business of the manager, which runs one pass per instance at a time. Memory is
  modelled for the deep copies only: that a built object may share slices with the specification it
  was built from, and that the client decodes answers into the object it sent, is not. The helpers
  under \<open>test/\<close> drive clusters in tests. Log lines are left out. Fields whose types belong to
  \<open>k8s.io/api\<close> and which the code only passes on (affinities, some probes and security contexts) are
  opaque values.
\<close>

end
